(* ===== verification/Prelude.thy ===== *)
theory Prelude
  imports Complex_Main "HOL-Library.Char_ord" "HOL-Library.List_Lexorder"
    "HOL-Library.Code_Target_Nat"
begin

text \<open>
  Shared vocabulary of the development: Python exceptions as a class with a message, results
  as a sum of an exception and a value, the relational tables of the runtime's SQLite database
  as lists of row records (in rowid order), and the string operations the sources use.
  Text is modelled by \<^typ>\<open>string\<close>, one \<^typ>\<open>char\<close> per code point, so the model covers
  code points below 256.
\<close>

section \<open>Fact collections\<close>

named_theorems table_simps \<open>rows of updated tables\<close>
named_theorems res_simps \<open>inversion of results\<close>

section \<open>Exceptions and results\<close>

text \<open>The exception classes of \<^verbatim>\<open>platform_runtime\<close> and the built-in ones they derive from.\<close>

datatype exn_class =
    ValueError | Conflict | LoopDecisionError | ObservationUnavailable
  | PermissionError | Forbidden
  | LookupError | KeyError | NotFound
  | RuntimeError | RateLimited | DeliveryRejected | ErpError | OAuthError | InvalidGrant
  | RefreshInProgress
  | TypeError | OtherError string

text \<open>\<^verbatim>\<open>type(exc).__name__\<close>; \<open>OtherError\<close> carries the name of any other type.\<close>

fun exn_name :: "exn_class \<Rightarrow> string" where
  "exn_name ValueError = ''ValueError''"
| "exn_name Conflict = ''Conflict''"
| "exn_name LoopDecisionError = ''LoopDecisionError''"
| "exn_name ObservationUnavailable = ''ObservationUnavailable''"
| "exn_name PermissionError = ''PermissionError''"
| "exn_name Forbidden = ''Forbidden''"
| "exn_name LookupError = ''LookupError''"
| "exn_name KeyError = ''KeyError''"
| "exn_name NotFound = ''NotFound''"
| "exn_name RuntimeError = ''RuntimeError''"
| "exn_name RateLimited = ''RateLimited''"
| "exn_name DeliveryRejected = ''DeliveryRejected''"
| "exn_name ErpError = ''ErpError''"
| "exn_name OAuthError = ''OAuthError''"
| "exn_name InvalidGrant = ''InvalidGrant''"
| "exn_name RefreshInProgress = ''RefreshInProgress''"
| "exn_name TypeError = ''TypeError''"
| "exn_name (OtherError n) = n"

text \<open>The classes an exception class is an instance of (its method resolution order).\<close>

fun exn_mro :: "exn_class \<Rightarrow> exn_class list" where
  "exn_mro Conflict = [Conflict, ValueError]"
| "exn_mro LoopDecisionError = [LoopDecisionError, ValueError]"
| "exn_mro ObservationUnavailable = [ObservationUnavailable, LoopDecisionError, ValueError]"
| "exn_mro Forbidden = [Forbidden, PermissionError]"
| "exn_mro KeyError = [KeyError, LookupError]"
| "exn_mro NotFound = [NotFound, LookupError]"
| "exn_mro RateLimited = [RateLimited, RuntimeError]"
| "exn_mro DeliveryRejected = [DeliveryRejected, RuntimeError]"
| "exn_mro ErpError = [ErpError, RuntimeError]"
| "exn_mro OAuthError = [OAuthError, RuntimeError]"
| "exn_mro InvalidGrant = [InvalidGrant, OAuthError, RuntimeError]"
| "exn_mro RefreshInProgress = [RefreshInProgress, Conflict, ValueError]"
| "exn_mro c = [c]"

datatype exn = Exn (exn_class_of: exn_class) (exn_text: string)

type_synonym 'a res = "exn + 'a"

abbreviation raise :: "exn_class \<Rightarrow> string \<Rightarrow> 'a res" where
  "raise c m \<equiv> Inl (Exn c m)"

text \<open>\<open>catches cs e\<close>: an \<^verbatim>\<open>except (cs)\<close> clause takes the exception \<open>e\<close>.\<close>

definition catches :: "exn_class list \<Rightarrow> exn \<Rightarrow> bool" where
  "catches cs e \<longleftrightarrow> (\<exists>c \<in> set (exn_mro (exn_class_of e)). c \<in> set cs)"

definition bindr :: "'a res \<Rightarrow> ('a \<Rightarrow> 'b res) \<Rightarrow> 'b res" where
  "bindr m f = (case m of Inl e \<Rightarrow> Inl e | Inr x \<Rightarrow> f x)"

lemma bindr_simps [simp]:
  "bindr (Inl e) f = Inl e"
  "bindr (Inr x) f = f x"
  by (simp_all add: bindr_def)

lemma bindr_Inr [res_simps]: "bindr m f = Inr y \<longleftrightarrow> (\<exists>x. m = Inr x \<and> f x = Inr y)"
  by (cases m) auto

lemma bindr_Inl [res_simps]:
  "bindr m f = Inl e \<longleftrightarrow> m = Inl e \<or> (\<exists>x. m = Inr x \<and> f x = Inl e)"
  by (cases m) auto

lemma bindr_assoc: "bindr (bindr m f) g = bindr m (\<lambda>x. bindr (f x) g)"
  by (cases m) auto

lemma bindr_cong [fundef_cong]:
  "m = m' \<Longrightarrow> (\<And>x. m' = Inr x \<Longrightarrow> f x = f' x) \<Longrightarrow> bindr m f = bindr m' f'"
  by (cases m') auto

definition is_ok :: "'a res \<Rightarrow> bool" where
  "is_ok r = (case r of Inl _ \<Rightarrow> False | Inr _ \<Rightarrow> True)"

lemma is_ok_simps [simp]: "is_ok (Inr x)" "\<not> is_ok (Inl e)"
  by (simp_all add: is_ok_def)

lemma if_Inr [res_simps]:
  "(if b then Inl e else m) = Inr y \<longleftrightarrow> \<not> b \<and> m = Inr y"
  "(if b then m else Inl e) = Inr y \<longleftrightarrow> b \<and> m = Inr y"
  by auto

text \<open>Running a check over every element, stopping at the first exception.\<close>

fun each :: "('a \<Rightarrow> 'b res) \<Rightarrow> 'a list \<Rightarrow> 'b list res" where
  "each f [] = Inr []"
| "each f (x # xs) = bindr (f x) (\<lambda>y. bindr (each f xs) (\<lambda>ys. Inr (y # ys)))"

lemma each_Inr_length: "each f xs = Inr ys \<Longrightarrow> length ys = length xs"
  by (induction xs arbitrary: ys) (auto simp: res_simps)

lemma each_Inr_nth:
  "each f xs = Inr ys \<Longrightarrow> i < length xs \<Longrightarrow> f (xs ! i) = Inr (ys ! i)"
proof (induction xs arbitrary: ys i)
  case (Cons x xs)
  then show ?case by (cases i) (auto simp: res_simps)
qed simp

lemma each_Inr_mem:
  assumes "each f xs = Inr ys" and "y \<in> set ys"
  shows "\<exists>x \<in> set xs. f x = Inr y"
  using assms by (induction xs arbitrary: ys) (auto simp: res_simps)

section \<open>Tables\<close>

text \<open>
  A table is the list of its rows in rowid order. \<open>find\<close> is \<^verbatim>\<open>SELECT ... fetchone()\<close>,
  \<open>filter\<close> is \<^verbatim>\<open>SELECT ... fetchall()\<close>, \<open>upd_where\<close> is \<^verbatim>\<open>UPDATE ... WHERE\<close> and
  appending a row is \<^verbatim>\<open>INSERT\<close>.
\<close>

definition upd_where :: "('r \<Rightarrow> bool) \<Rightarrow> ('r \<Rightarrow> 'r) \<Rightarrow> 'r list \<Rightarrow> 'r list" where
  "upd_where P f xs = map (\<lambda>r. if P r then f r else r) xs"

lemma upd_where_simps [simp]:
  "upd_where P f [] = []"
  "upd_where P f (x # xs) = (if P x then f x else x) # upd_where P f xs"
  by (simp_all add: upd_where_def)

lemma length_upd_where [simp]: "length (upd_where P f xs) = length xs"
  by (simp add: upd_where_def)

lemma in_upd_where [table_simps]:
  "r \<in> set (upd_where P f xs) \<longleftrightarrow>
     (\<exists>x \<in> set xs. r = (if P x then f x else x))"
  by (auto simp: upd_where_def)

lemma ball_upd_where [table_simps]:
  "(\<forall>r \<in> set (upd_where P f xs). Q r) \<longleftrightarrow> (\<forall>x \<in> set xs. if P x then Q (f x) else Q x)"
  by (auto simp: upd_where_def)

lemma bex_upd_where [table_simps]:
  "(\<exists>r \<in> set (upd_where P f xs). Q r) \<longleftrightarrow> (\<exists>x \<in> set xs. if P x then Q (f x) else Q x)"
  by (auto simp: upd_where_def)

lemma map_upd_where:
  assumes "\<And>r. P r \<Longrightarrow> k (f r) = k r"
  shows "map k (upd_where P f xs) = map k xs"
  using assms by (simp add: upd_where_def)

lemma upd_where_id: "(\<And>r. r \<in> set xs \<Longrightarrow> \<not> P r) \<Longrightarrow> upd_where P f xs = xs"
  by (induction xs) auto

lemma find_upd_where:
  assumes "\<And>r. P r \<Longrightarrow> Q (f r) = Q r"
  shows "find Q (upd_where P f xs) =
    (case find Q xs of None \<Rightarrow> None | Some r \<Rightarrow> Some (if P r then f r else r))"
  using assms by (induction xs) auto

lemma find_Some_mem: "find Q xs = Some r \<Longrightarrow> r \<in> set xs \<and> Q r"
  by (induction xs) (auto split: if_splits)

lemma find_None_mem: "find Q xs = None \<longleftrightarrow> (\<forall>r \<in> set xs. \<not> Q r)"
  by (induction xs) auto

lemma find_exists: "r \<in> set xs \<Longrightarrow> Q r \<Longrightarrow> \<exists>r'. find Q xs = Some r' \<and> r' \<in> set xs \<and> Q r'"
  by (metis find_None_mem find_Some_mem option.exhaust)

lemma find_append:
  "find Q (xs @ ys) = (case find Q xs of None \<Rightarrow> find Q ys | Some r \<Rightarrow> Some r)"
  by (induction xs) auto

lemma distinct_key_eq:
  "distinct (map k xs) \<Longrightarrow> x \<in> set xs \<Longrightarrow> y \<in> set xs \<Longrightarrow> k x = k y \<Longrightarrow> x = y"
  by (induction xs) (auto simp: image_iff)

lemma filter_key_single:
  assumes "distinct (map k xs)" and "x \<in> set xs"
  shows "filter (\<lambda>y. k y = k x) xs = [x]"
  using assms by (induction xs) (force simp: filter_empty_conv image_iff)+

lemma find_unique:
  assumes "distinct (map k xs)" and "r \<in> set xs" and "Q r"
    and "\<And>x. x \<in> set xs \<Longrightarrow> Q x \<Longrightarrow> k x = k r"
  shows "find Q xs = Some r"
proof -
  obtain r' where "find Q xs = Some r'" "r' \<in> set xs" "Q r'"
    using find_exists assms(2,3) by metis
  with assms show ?thesis by (metis distinct_key_eq)
qed

lemma find_cong_set: "(\<And>x. x \<in> set xs \<Longrightarrow> P x = Q x) \<Longrightarrow> find P xs = find Q xs"
  by (induction xs) auto

section \<open>Strings\<close>

definition code_of :: "char \<Rightarrow> nat" where
  "code_of c = of_char c"

text \<open>\<^verbatim>\<open>str.isspace\<close> on one character, for code points below 256.\<close>

definition py_isspace :: "char \<Rightarrow> bool" where
  "py_isspace c \<longleftrightarrow>
     (let n = code_of c in (9 \<le> n \<and> n \<le> 13) \<or> (28 \<le> n \<and> n \<le> 32) \<or> n = 133 \<or> n = 160)"

definition py_lstrip :: "string \<Rightarrow> string" where
  "py_lstrip s = dropWhile py_isspace s"

definition py_strip :: "string \<Rightarrow> string" where
  "py_strip s = rev (dropWhile py_isspace (rev (dropWhile py_isspace s)))"

text \<open>\<open>blank s\<close> is \<^verbatim>\<open>not s.strip()\<close>.\<close>

definition blank :: "string \<Rightarrow> bool" where
  "blank s \<longleftrightarrow> list_all py_isspace s"

lemma dropWhile_eq_Nil: "dropWhile P xs = [] \<longleftrightarrow> list_all P xs"
  by (simp add: dropWhile_eq_Nil_conv list_all_iff)

lemma py_strip_eq_Nil: "py_strip s = [] \<longleftrightarrow> blank s"
proof -
  have "py_strip s = [] \<longleftrightarrow> (\<forall>x \<in> set (dropWhile py_isspace s). py_isspace x)"
    by (simp add: py_strip_def)
  also have "\<dots> \<longleftrightarrow> dropWhile py_isspace s = []"
    by (metis dropWhile_eq_Nil_conv hd_dropWhile hd_in_set list.set(1) empty_iff)
  also have "\<dots> \<longleftrightarrow> blank s" by (simp add: blank_def list_all_iff)
  finally show ?thesis .
qed

lemma set_py_strip: "set (py_strip s) \<subseteq> set s"
  unfolding py_strip_def
  by (metis (no_types, lifting) set_dropWhileD set_rev subset_code(1))

lemma length_py_strip: "length (py_strip s) \<le> length s"
  unfolding py_strip_def
  by (metis length_dropWhile_le length_rev order_trans)

lemma dropWhile_rev_dropWhile:
  "dropWhile P (rev (dropWhile P (rev (dropWhile P xs)))) = rev (dropWhile P (rev (dropWhile P xs)))"
proof -
  let ?ys = "dropWhile P xs"
  let ?zs = "rev (dropWhile P (rev ?ys))"
  obtain us where us: "?ys = ?zs @ us"
    by (metis rev_append rev_rev_ident takeWhile_dropWhile_id)
  show ?thesis
  proof (cases ?zs)
    case Nil
    then show ?thesis by (simp only: dropWhile.simps)
  next
    case (Cons z zs)
    with us have "?ys = z # zs @ us" by simp
    then have "\<not> P z" using hd_dropWhile by (metis list.distinct(1) list.sel(1))
    with Cons show ?thesis by simp
  qed
qed

lemma py_strip_idem [simp]: "py_strip (py_strip s) = py_strip s"
proof -
  let ?t = "rev (dropWhile py_isspace (rev (dropWhile py_isspace s)))"
  have "dropWhile py_isspace ?t = ?t" by (rule dropWhile_rev_dropWhile)
  then show ?thesis by (simp add: py_strip_def)
qed

definition py_startswith :: "string \<Rightarrow> string \<Rightarrow> bool" where
  "py_startswith p s \<longleftrightarrow> take (length p) s = p"

definition py_endswith :: "string \<Rightarrow> string \<Rightarrow> bool" where
  "py_endswith p s \<longleftrightarrow> length p \<le> length s \<and> drop (length s - length p) s = p"

text \<open>\<open>py_contains t s\<close> is \<^verbatim>\<open>t in s\<close>.\<close>

fun py_contains :: "string \<Rightarrow> string \<Rightarrow> bool" where
  "py_contains t [] = (t = [])"
| "py_contains t (c # s) = (py_startswith t (c # s) \<or> py_contains t s)"

fun py_join :: "string \<Rightarrow> string list \<Rightarrow> string" where
  "py_join sep [] = []"
| "py_join sep [x] = x"
| "py_join sep (x # y # xs) = x @ sep @ py_join sep (y # xs)"

text \<open>Decimal rendering, \<^verbatim>\<open>str(n)\<close>.\<close>

definition digit_char :: "nat \<Rightarrow> char" where
  "digit_char n = char_of (48 + n)"

fun show_nat :: "nat \<Rightarrow> string" where
  "show_nat n = (if n < 10 then [digit_char n] else show_nat (n div 10) @ [digit_char (n mod 10)])"

declare show_nat.simps [simp del]

definition show_int :: "int \<Rightarrow> string" where
  "show_int i = (if i < 0 then CHR ''-'' # show_nat (nat (- i)) else show_nat (nat i))"

definition is_digit :: "char \<Rightarrow> bool" where
  "is_digit c \<longleftrightarrow> 48 \<le> code_of c \<and> code_of c \<le> 57"

definition is_upper :: "char \<Rightarrow> bool" where
  "is_upper c \<longleftrightarrow> 65 \<le> code_of c \<and> code_of c \<le> 90"

definition is_lower :: "char \<Rightarrow> bool" where
  "is_lower c \<longleftrightarrow> 97 \<le> code_of c \<and> code_of c \<le> 122"

definition is_alnum :: "char \<Rightarrow> bool" where
  "is_alnum c \<longleftrightarrow> is_digit c \<or> is_upper c \<or> is_lower c"

definition to_lower :: "char \<Rightarrow> char" where
  "to_lower c = (if is_upper c then char_of (code_of c + 32) else c)"

definition to_upper :: "char \<Rightarrow> char" where
  "to_upper c = (if is_lower c then char_of (code_of c - 32) else c)"

lemmas char_class_defs =
  is_alnum_def is_digit_def is_upper_def is_lower_def code_of_def

lemma digit_char_is_digit: "n < 10 \<Longrightarrow> is_digit (digit_char n)"
  by (simp add: digit_char_def is_digit_def code_of_def)

lemma show_nat_digits: "list_all is_digit (show_nat n)"
proof (induction n rule: show_nat.induct)
  case (1 n)
  then show ?case
    by (subst show_nat.simps) (auto simp: digit_char_is_digit)
qed

lemma show_nat_nonempty: "show_nat n \<noteq> []"
  by (subst show_nat.simps) simp

end
