(* ===== verification/Json.thy ===== *)
theory Json
  imports Prelude
begin

text \<open>
  The plain data the runtime exchanges: the values of Python's \<^verbatim>\<open>json\<close> module, its
  canonical serialisation (\<^verbatim>\<open>encode\<close> of \<^verbatim>\<open>platform_runtime/engine.py\<close>) and the few
  dictionary and comparison operations the sources use on such values. A dictionary is an
  association list in insertion order; a finite float is its value with its \<^verbatim>\<open>repr\<close>.
\<close>

section \<open>Values\<close>

datatype pyfloat = Fin rat string | PosInf | NegInf | NaN

datatype json =
    JNull
  | JBool bool
  | JInt int
  | JFloat pyfloat
  | JStr string
  | JList "json list"
  | JObj "(string \<times> json) list"

type_synonym fields = "(string \<times> json) list"

text \<open>\<^verbatim>\<open>d.get(k)\<close> and \<^verbatim>\<open>d.get(k, default)\<close>.\<close>

definition jget :: "fields \<Rightarrow> string \<Rightarrow> json" where
  "jget d k = (case map_of d k of None \<Rightarrow> JNull | Some v \<Rightarrow> v)"

definition jget_or :: "fields \<Rightarrow> string \<Rightarrow> json \<Rightarrow> json" where
  "jget_or d k v = (case map_of d k of None \<Rightarrow> v | Some w \<Rightarrow> w)"

definition jkeys :: "fields \<Rightarrow> string list" where
  "jkeys d = map fst d"

text \<open>\<^verbatim>\<open>v.get(k)\<close> where \<open>v\<close> is known to be a dictionary; anything else has no key.\<close>

definition obj_get :: "json \<Rightarrow> string \<Rightarrow> json option" where
  "obj_get v k = (case v of JObj d \<Rightarrow> map_of d k | _ \<Rightarrow> None)"

definition obj_fields :: "json \<Rightarrow> fields" where
  "obj_fields v = (case v of JObj d \<Rightarrow> d | _ \<Rightarrow> [])"

lemma obj_get_simps [simp]:
  "obj_get (JObj d) k = map_of d k"
  "obj_get (JStr s) k = None" "obj_get (JList xs) k = None" "obj_get JNull k = None"
  by (simp_all add: obj_get_def)

text \<open>Truth testing, \<^verbatim>\<open>bool(v)\<close>.\<close>

fun truthy :: "json \<Rightarrow> bool" where
  "truthy JNull = False"
| "truthy (JBool b) = b"
| "truthy (JInt i) = (i \<noteq> 0)"
| "truthy (JFloat (Fin r _)) = (r \<noteq> 0)"
| "truthy (JFloat _) = True"
| "truthy (JStr s) = (s \<noteq> [])"
| "truthy (JList xs) = (xs \<noteq> [])"
| "truthy (JObj d) = (d \<noteq> [])"

section \<open>Equality\<close>

text \<open>
  Python compares numbers across \<^verbatim>\<open>bool\<close>, \<^verbatim>\<open>int\<close> and \<^verbatim>\<open>float\<close> and dictionaries
  without regard to order. \<open>py_eq\<close> is equality of a canonical form.
\<close>

fun canon :: "json \<Rightarrow> json"
  and canon_list :: "json list \<Rightarrow> json list"
  and canon_fields :: "fields \<Rightarrow> fields" where
  "canon JNull = JNull"
| "canon (JBool b) = JInt (if b then 1 else 0)"
| "canon (JInt i) = JInt i"
| "canon (JFloat (Fin r t)) =
     (if of_int (floor r) = r then JInt (floor r) else JFloat (Fin r []))"
| "canon (JFloat f) = JFloat f"
| "canon (JStr s) = JStr s"
| "canon (JList xs) = JList (canon_list xs)"
| "canon (JObj d) = JObj (sort_key fst (canon_fields d))"
| "canon_list [] = []"
| "canon_list (x # xs) = canon x # canon_list xs"
| "canon_fields [] = []"
| "canon_fields ((k, v) # d) = (k, canon v) # canon_fields d"

definition py_eq :: "json \<Rightarrow> json \<Rightarrow> bool" where
  "py_eq a b \<longleftrightarrow> canon a = canon b"

definition py_in :: "json \<Rightarrow> json list \<Rightarrow> bool" where
  "py_in v xs \<longleftrightarrow> (\<exists>x \<in> set xs. py_eq v x)"

lemma py_eq_refl [simp]: "py_eq v v"
  by (simp add: py_eq_def)

lemma py_eq_str [simp]: "py_eq (JStr a) (JStr b) \<longleftrightarrow> a = b"
  by (simp add: py_eq_def)

section \<open>Serialisation\<close>

definition hex_char :: "nat \<Rightarrow> char" where
  "hex_char n = (if n < 10 then char_of (48 + n) else char_of (87 + n))"

text \<open>The string escapes of \<^verbatim>\<open>json.dumps(..., ensure_ascii=False)\<close>.\<close>

definition escape_char :: "char \<Rightarrow> string" where
  "escape_char c =
     (let n = code_of c in
      if n = 34 then [CHR 0x5C, CHR 0x22]
      else if n = 92 then [CHR 0x5C, CHR 0x5C]
      else if n = 10 then [CHR 0x5C, CHR ''n'']
      else if n = 13 then [CHR 0x5C, CHR ''r'']
      else if n = 9 then [CHR 0x5C, CHR ''t'']
      else if n = 8 then [CHR 0x5C, CHR ''b'']
      else if n = 12 then [CHR 0x5C, CHR ''f'']
      else if n < 32 then [CHR 0x5C] @ ''u00'' @ [hex_char (n div 16), hex_char (n mod 16)]
      else [c])"

definition quote :: "string \<Rightarrow> string" where
  "quote s = [CHR 0x22] @ concat (map escape_char s) @ [CHR 0x22]"

fun dumps :: "json \<Rightarrow> string"
  and dumps_list :: "json list \<Rightarrow> string list"
  and dumps_fields :: "fields \<Rightarrow> (string \<times> string) list" where
  "dumps JNull = ''null''"
| "dumps (JBool b) = (if b then ''true'' else ''false'')"
| "dumps (JInt i) = show_int i"
| "dumps (JFloat (Fin r t)) = t"
| "dumps (JFloat PosInf) = ''Infinity''"
| "dumps (JFloat NegInf) = ''-Infinity''"
| "dumps (JFloat NaN) = ''NaN''"
| "dumps (JStr s) = quote s"
| "dumps (JList xs) = ''['' @ py_join '','' (dumps_list xs) @ '']''"
| "dumps (JObj d) = ''{'' @ py_join '',''
     (map (\<lambda>(k, t). quote k @ '':'' @ t) (sort_key fst (dumps_fields d))) @ ''}''"
| "dumps_list [] = []"
| "dumps_list (x # xs) = dumps x # dumps_list xs"
| "dumps_fields [] = []"
| "dumps_fields ((k, v) # d) = (k, dumps v) # dumps_fields d"

text \<open>A float that \<^verbatim>\<open>allow_nan=False\<close> refuses.\<close>

fun non_finite :: "json \<Rightarrow> bool"
  and non_finite_list :: "json list \<Rightarrow> bool"
  and non_finite_fields :: "fields \<Rightarrow> bool" where
  "non_finite (JFloat PosInf) = True"
| "non_finite (JFloat NegInf) = True"
| "non_finite (JFloat NaN) = True"
| "non_finite (JList xs) = non_finite_list xs"
| "non_finite (JObj d) = non_finite_fields d"
| "non_finite _ = False"
| "non_finite_list [] = False"
| "non_finite_list (x # xs) = (non_finite x \<or> non_finite_list xs)"
| "non_finite_fields [] = False"
| "non_finite_fields ((k, v) # d) = (non_finite v \<or> non_finite_fields d)"

definition encode :: "json \<Rightarrow> string res" where
  "encode v =
     (if non_finite v then raise ValueError ''Out of range float values are not JSON compliant''
      else Inr (dumps v))"

lemma encode_finite: "\<not> non_finite v \<Longrightarrow> encode v = Inr (dumps v)"
  by (simp add: encode_def)

lemma encode_Inr: "encode v = Inr t \<longleftrightarrow> \<not> non_finite v \<and> t = dumps v"
  by (auto simp: encode_def)

text \<open>\<^verbatim>\<open>len(text.encode('utf-8'))\<close> for code points below 256.\<close>

definition utf8_length :: "string \<Rightarrow> nat" where
  "utf8_length s = sum_list (map (\<lambda>c. if code_of c < 128 then 1 else 2) s)"

lemma utf8_length_simps [simp]:
  "utf8_length [] = 0"
  "utf8_length (c # s) = (if code_of c < 128 then 1 else 2) + utf8_length s"
  "utf8_length (s @ t) = utf8_length s + utf8_length t"
  by (simp_all add: utf8_length_def)

lemma utf8_length_ge: "length s \<le> utf8_length s"
  by (induction s) auto

text \<open>Strings of a list of JSON strings, as the tool lists of a policy hold.\<close>

definition jstrs :: "string list \<Rightarrow> json" where
  "jstrs xs = JList (map JStr xs)"

definition is_str :: "json \<Rightarrow> bool" where
  "is_str v = (case v of JStr _ \<Rightarrow> True | _ \<Rightarrow> False)"

definition is_obj :: "json \<Rightarrow> bool" where
  "is_obj v = (case v of JObj _ \<Rightarrow> True | _ \<Rightarrow> False)"

definition the_str :: "json \<Rightarrow> string" where
  "the_str v = (case v of JStr s \<Rightarrow> s | _ \<Rightarrow> [])"

lemma is_str_simps [simp]:
  "is_str (JStr s)" "\<not> is_str JNull" "\<not> is_str (JInt i)" "\<not> is_str (JBool b)"
  "\<not> is_str (JList xs)" "\<not> is_str (JObj d)" "\<not> is_str (JFloat f)"
  by (simp_all add: is_str_def)

lemma the_str_simp [simp]: "the_str (JStr s) = s"
  by (simp add: the_str_def)

lemma is_strE: "is_str v \<Longrightarrow> (\<And>s. v = JStr s \<Longrightarrow> P) \<Longrightarrow> P"
  by (cases v) auto

lemma is_obj_simps [simp]: "is_obj (JObj d)" "\<not> is_obj JNull" "\<not> is_obj (JStr s)"
  "\<not> is_obj (JList xs)"
  by (simp_all add: is_obj_def)

end
