(* ===== verification/Tools.thy ===== *)
theory Tools
  imports Json
begin

text \<open>
  The tool registry and the argument schemas of \<^verbatim>\<open>platform_runtime/tools.py\<close>. A schema is
  itself a JSON value (operator configuration); \<open>validate_schema\<close> follows the source check by
  check, with the nesting ceiling as the counter it is in the code.
\<close>

section \<open>Bounds\<close>

definition MAX_SCHEMA_DEPTH :: nat where "MAX_SCHEMA_DEPTH = 64"
definition MAX_ARGUMENT_BYTES :: nat where "MAX_ARGUMENT_BYTES = 20000"
definition DEFAULT_MAX_ITEMS :: int where "DEFAULT_MAX_ITEMS = 100"
definition DEFAULT_STRING_LENGTH :: int where "DEFAULT_STRING_LENGTH = 4000"
definition INTEGER_BOUND :: int where "INTEGER_BOUND = 10 ^ 12"
definition RISK_LEVELS :: "string list" where
  "RISK_LEVELS = [''read'', ''write'', ''destructive'', ''physical'']"

section \<open>Schema validation\<close>

text \<open>\<open>isinstance(value, allowed[typ])\<close>, with \<^verbatim>\<open>bool\<close> refused for integers.\<close>

definition type_ok :: "string \<Rightarrow> json \<Rightarrow> bool" where
  "type_ok typ v = (case v of
      JObj _ \<Rightarrow> typ = ''object''
    | JList _ \<Rightarrow> typ = ''array''
    | JStr _ \<Rightarrow> typ = ''string''
    | JInt _ \<Rightarrow> typ = ''integer''
    | JBool _ \<Rightarrow> typ = ''boolean''
    | _ \<Rightarrow> False)"

text \<open>An integer bound of a schema, \<^verbatim>\<open>schema.get(key, default)\<close>.\<close>

definition schema_int :: "fields \<Rightarrow> string \<Rightarrow> int \<Rightarrow> int" where
  "schema_int s k d = (case map_of s k of Some (JInt i) \<Rightarrow> i | _ \<Rightarrow> d)"

definition schema_list :: "fields \<Rightarrow> string \<Rightarrow> json list" where
  "schema_list s k = (case map_of s k of Some (JList xs) \<Rightarrow> xs | _ \<Rightarrow> [])"

text \<open>
  The key sets of an object against its schema: no key outside \<^verbatim>\<open>properties\<close>, every
  \<^verbatim>\<open>required\<close> key present.
\<close>

definition fields_match :: "fields \<Rightarrow> fields \<Rightarrow> bool" where
  "fields_match s d \<longleftrightarrow>
     (let props = (case map_of s ''properties'' of Some (JObj p) \<Rightarrow> p | _ \<Rightarrow> []) in
      (\<forall>k \<in> set (jkeys d). k \<in> set (jkeys props))
      \<and> (\<forall>r \<in> set (schema_list s ''required''). the_str r \<in> set (jkeys d)))"

definition prop_schema :: "fields \<Rightarrow> string \<Rightarrow> fields" where
  "prop_schema s k =
     (case map_of s ''properties'' of
        Some (JObj p) \<Rightarrow> (case map_of p k of Some (JObj q) \<Rightarrow> q | _ \<Rightarrow> [])
      | _ \<Rightarrow> [])"

definition item_schema :: "fields \<Rightarrow> fields" where
  "item_schema s = (case map_of s ''items'' of Some (JObj q) \<Rightarrow> q | _ \<Rightarrow> [])"

text \<open>The checks on one value before its parts are visited, in the source's order.\<close>

definition schema_head :: "json \<Rightarrow> fields \<Rightarrow> nat \<Rightarrow> unit res" where
  "schema_head v s depth =
     (if depth > MAX_SCHEMA_DEPTH then raise ValueError ''Schema nesting too deep''
      else if \<not> type_ok (the_str (jget s ''type'')) v then raise ValueError ''Schema type mismatch''
      else if map_of s ''enum'' \<noteq> None \<and> \<not> py_in v (schema_list s ''enum'')
        then raise ValueError ''Value outside enum''
      else (case v of
          JObj d \<Rightarrow> bindr (encode v) (\<lambda>t.
            if utf8_length t > MAX_ARGUMENT_BYTES then raise ValueError ''Arguments too large''
            else if \<not> fields_match s d then raise ValueError ''Schema fields mismatch''
            else Inr ())
        | JList xs \<Rightarrow>
            (if schema_int s ''minItems'' 0 \<le> int (length xs)
                \<and> int (length xs) \<le> schema_int s ''maxItems'' DEFAULT_MAX_ITEMS
             then Inr () else raise ValueError ''Array length'')
        | JStr t \<Rightarrow>
            (if schema_int s ''minLength'' 0 \<le> int (length t)
                \<and> int (length t) \<le> schema_int s ''maxLength'' DEFAULT_STRING_LENGTH
             then Inr () else raise ValueError ''String length'')
        | JInt i \<Rightarrow>
            (if schema_int s ''minimum'' (- INTEGER_BOUND) \<le> i
                \<and> i \<le> schema_int s ''maximum'' INTEGER_BOUND
             then Inr () else raise ValueError ''Integer bounds'')
        | _ \<Rightarrow> Inr ()))"

fun validate_schema :: "json \<Rightarrow> fields \<Rightarrow> nat \<Rightarrow> unit res"
  and validate_items :: "json list \<Rightarrow> fields \<Rightarrow> nat \<Rightarrow> unit res"
  and validate_fields :: "fields \<Rightarrow> fields \<Rightarrow> nat \<Rightarrow> unit res" where
  "validate_schema (JObj d) s depth =
     bindr (schema_head (JObj d) s depth) (\<lambda>_. validate_fields d s depth)"
| "validate_schema (JList xs) s depth =
     bindr (schema_head (JList xs) s depth) (\<lambda>_. validate_items xs (item_schema s) depth)"
| "validate_schema v s depth = schema_head v s depth"
| "validate_items [] s depth = Inr ()"
| "validate_items (x # xs) s depth =
     bindr (validate_schema x s (Suc depth)) (\<lambda>_. validate_items xs s depth)"
| "validate_fields [] s depth = Inr ()"
| "validate_fields ((k, v) # d) s depth =
     bindr (validate_schema v (prop_schema s k) (Suc depth)) (\<lambda>_. validate_fields d s depth)"

text \<open>The schema constructors \<^verbatim>\<open>obj\<close> and \<^verbatim>\<open>string\<close>.\<close>

definition string_schema :: "int \<Rightarrow> json" where
  "string_schema m =
     JObj [(''type'', JStr ''string''), (''minLength'', JInt 1), (''maxLength'', JInt m)]"

definition obj_schema :: "fields \<Rightarrow> string list option \<Rightarrow> fields" where
  "obj_schema props required =
     [(''type'', JStr ''object''), (''properties'', JObj props),
      (''required'', jstrs (case required of None \<Rightarrow> jkeys props | Some r \<Rightarrow> r)),
      (''additionalProperties'', JBool False)]"

subsection \<open>What an accepted value looks like\<close>

text \<open>
  Every accepted value, at every depth, has the type and the sizes its schema declares, and the
  recursion never looks below \<open>MAX_SCHEMA_DEPTH\<close>.
\<close>

fun json_depth :: "json \<Rightarrow> nat"
  and json_depth_list :: "json list \<Rightarrow> nat"
  and json_depth_fields :: "fields \<Rightarrow> nat" where
  "json_depth (JObj d) = json_depth_fields d"
| "json_depth (JList xs) = json_depth_list xs"
| "json_depth _ = 0"
| "json_depth_list [] = 0"
| "json_depth_list (x # xs) = max (Suc (json_depth x)) (json_depth_list xs)"
| "json_depth_fields [] = 0"
| "json_depth_fields ((k, v) # d) = max (Suc (json_depth v)) (json_depth_fields d)"

lemma schema_head_depth: "schema_head v s n = Inr () \<Longrightarrow> n \<le> MAX_SCHEMA_DEPTH"
  by (auto simp: schema_head_def split: if_splits)

lemma validate_schema_depth_aux:
  "validate_schema v s n = Inr () \<Longrightarrow> n + json_depth v \<le> MAX_SCHEMA_DEPTH"
  "n \<le> MAX_SCHEMA_DEPTH \<Longrightarrow> validate_items xs s n = Inr () \<Longrightarrow>
     n + json_depth_list xs \<le> MAX_SCHEMA_DEPTH"
  "n \<le> MAX_SCHEMA_DEPTH \<Longrightarrow> validate_fields d s n = Inr () \<Longrightarrow>
     n + json_depth_fields d \<le> MAX_SCHEMA_DEPTH"
  by (induction v s n and xs s n and d s n rule: validate_schema_validate_items_validate_fields.induct)
     (auto simp: bindr_Inr dest: schema_head_depth)

lemma validate_fields_mem:
  "validate_fields d s n = Inr () \<Longrightarrow> (k, v) \<in> set d \<Longrightarrow>
     validate_schema v (prop_schema s k) (Suc n) = Inr ()"
  by (induction d) (auto simp: bindr_Inr)

lemma validate_schema_objD:
  assumes "validate_schema v (obj_schema props req) n = Inr ()"
  obtains d where "v = JObj d" and "set (jkeys d) \<subseteq> set (jkeys props)"
    and "set (case req of None \<Rightarrow> jkeys props | Some r \<Rightarrow> r) \<subseteq> set (jkeys d)"
    and "\<not> non_finite v" and "utf8_length (dumps v) \<le> MAX_ARGUMENT_BYTES"
proof -
  have h: "schema_head v (obj_schema props req) n = Inr ()"
    using assms by (cases v) (auto simp: bindr_Inr)
  then obtain d where d: "v = JObj d"
    by (cases v) (auto simp: schema_head_def obj_schema_def jget_def type_ok_def split: if_splits)
  from h have "fields_match (obj_schema props req) d" "\<not> non_finite v"
    "utf8_length (dumps v) \<le> MAX_ARGUMENT_BYTES"
    by (auto simp: d schema_head_def bindr_Inr encode_Inr split: if_splits)
  with d show ?thesis
    by (intro that[of d])
       (auto simp: fields_match_def obj_schema_def schema_list_def jstrs_def)
qed

lemma validate_schema_string:
  assumes "validate_schema v
     [(''type'', JStr ''string''), (''minLength'', JInt lo), (''maxLength'', JInt hi)] n = Inr ()"
  obtains t where "v = JStr t" and "lo \<le> int (length t)" and "int (length t) \<le> hi"
proof -
  have "schema_head v
     [(''type'', JStr ''string''), (''minLength'', JInt lo), (''maxLength'', JInt hi)] n = Inr ()"
    using assms by (cases v) (auto simp: bindr_Inr)
  then show ?thesis
    using that by (cases v) (auto simp: schema_head_def jget_def type_ok_def schema_int_def
      split: if_splits)
qed

section \<open>The registry\<close>

text \<open>
  \<^verbatim>\<open>Tool\<close>: the handler is not a field here; running it is an argument of the engine's
  \<^verbatim>\<open>tick\<close>. A registry is its items in insertion order.
\<close>

record tool =
  tl_name :: string
  tl_risk :: string
  tl_schema :: fields
  tl_external :: bool
  tl_runner :: bool
  tl_description :: string

type_synonym registry = "tool list"

definition registry_find :: "registry \<Rightarrow> string \<Rightarrow> tool option" where
  "registry_find r n = find (\<lambda>t. tl_name t = n) r"

definition registry_add :: "registry \<Rightarrow> tool \<Rightarrow> registry res" where
  "registry_add r t =
     (if tl_risk t \<notin> set RISK_LEVELS
        then raise ValueError (''Unknown tool risk level: '' @ tl_risk t)
      else if registry_find r (tl_name t) \<noteq> None
        then raise ValueError (''Tool already registered: '' @ tl_name t)
      else Inr (r @ [t]))"

text \<open>
  \<^verbatim>\<open>Registry.get\<close> is asked with an untrusted plan field: a list or an object is unhashable
  and raises \<^verbatim>\<open>TypeError\<close>.
\<close>

definition registry_get :: "registry \<Rightarrow> json \<Rightarrow> tool res" where
  "registry_get r n =
     (case n of
        JStr s \<Rightarrow> (case registry_find r s of
            None \<Rightarrow> raise LookupError ''Unknown executable tool''
          | Some t \<Rightarrow> Inr t)
      | JList _ \<Rightarrow> raise TypeError ''unhashable type''
      | JObj _ \<Rightarrow> raise TypeError ''unhashable type''
      | _ \<Rightarrow> raise LookupError ''Unknown executable tool'')"

fun register_once :: "registry \<Rightarrow> tool list \<Rightarrow> registry res" where
  "register_once r [] = Inr r"
| "register_once r (t # ts) =
     (if registry_find r (tl_name t) \<noteq> None then register_once r ts
      else bindr (registry_add r t) (\<lambda>r'. register_once r' ts))"

definition registry_wf :: "registry \<Rightarrow> bool" where
  "registry_wf r \<longleftrightarrow> distinct (map tl_name r) \<and> (\<forall>t \<in> set r. tl_risk t \<in> set RISK_LEVELS)"

lemma registry_add_wf: "registry_wf r \<Longrightarrow> registry_add r t = Inr r' \<Longrightarrow> registry_wf r'"
  by (force simp: registry_wf_def registry_add_def registry_find_def find_None_mem
      split: if_splits)

lemma register_once_wf: "registry_wf r \<Longrightarrow> register_once r ts = Inr r' \<Longrightarrow> registry_wf r'"
  by (induction ts arbitrary: r) (auto simp: bindr_Inr intro: registry_add_wf split: if_splits)

lemma registry_add_find:
  "registry_add r t = Inr r' \<Longrightarrow>
     registry_find r' n = (if n = tl_name t then Some t else registry_find r n)"
  by (auto simp: registry_add_def registry_find_def find_append split: if_splits option.splits)

lemma register_once_keeps:
  "register_once r ts = Inr r' \<Longrightarrow> registry_find r n = Some t \<Longrightarrow> registry_find r' n = Some t"
proof (induction ts arbitrary: r)
  case (Cons u ts)
  show ?case
  proof (cases "registry_find r (tl_name u) = None")
    case True
    with Cons.prems obtain r2 where "registry_add r u = Inr r2" "register_once r2 ts = Inr r'"
      by (auto simp: bindr_Inr)
    moreover have "registry_find r2 n = Some t"
      using registry_add_find[OF calculation(1)] Cons.prems(2) True by auto
    ultimately show ?thesis using Cons.IH by blast
  next
    case False
    with Cons show ?thesis by auto
  qed
qed simp

lemma register_once_present:
  "register_once r ts = Inr r' \<Longrightarrow> t \<in> set ts \<Longrightarrow> registry_find r' (tl_name t) \<noteq> None"
proof (induction ts arbitrary: r)
  case (Cons u ts)
  show ?case
  proof (cases "registry_find r (tl_name u) = None")
    case True
    with Cons.prems obtain r2 where r2: "registry_add r u = Inr r2" "register_once r2 ts = Inr r'"
      by (auto simp: bindr_Inr)
    then have "registry_find r' (tl_name u) = Some u"
      using register_once_keeps[OF r2(2)] registry_add_find[OF r2(1)] by simp
    with Cons.IH[OF r2(2)] Cons.prems(2) show ?thesis by auto
  next
    case False
    then obtain v where v: "registry_find r (tl_name u) = Some v" by auto
    with Cons.prems have ts: "register_once r ts = Inr r'" by auto
    with register_once_keeps[OF ts v] Cons.IH[OF ts] Cons.prems(2) show ?thesis by auto
  qed
qed simp

lemma register_once_absorbed:
  "(\<And>t. t \<in> set ts \<Longrightarrow> registry_find r (tl_name t) \<noteq> None) \<Longrightarrow> register_once r ts = Inr r"
  by (induction ts) auto

lemma registry_get_Inr:
  "registry_get r n = Inr t \<longleftrightarrow> (\<exists>s. n = JStr s \<and> registry_find r s = Some t)"
  by (auto simp: registry_get_def split: json.splits option.splits)

lemma registry_find_name: "registry_find r n = Some t \<Longrightarrow> tl_name t = n \<and> t \<in> set r"
  by (auto simp: registry_find_def dest: find_Some_mem)

end
