(* ===== verification/Store.thy ===== *)
theory Store
  imports Tools
begin

text \<open>
  The engine's SQLite database as a record of tables, each the list of its rows, after the
  \<^verbatim>\<open>SCHEMA\<close> of \<^verbatim>\<open>platform_runtime/engine.py\<close>, and the collaborators an \<^verbatim>\<open>Engine\<close>
  object is constructed with. Instants are integers (the code compares clock readings and adds
  whole seconds to them); JSON columns hold the value itself.
\<close>

section \<open>Rows\<close>

datatype status =
  Queued | WaitingApproval | Running | Succeeded | Failed | Uncertain | Cancelled

datatype approval_status = ApPending | ApApproved | ApRejected | ApConsumed

datatype event_status = EvPending | EvProcessing | EvDone | EvFailed

datatype run_status =
    RPending | RPlanning | RWaitingTask
  | RSucceeded | RNeedsInput | REscalated | RUncertain | RCancelled

fun status_text :: "status \<Rightarrow> string" where
  "status_text Queued = ''queued''"
| "status_text WaitingApproval = ''waiting_approval''"
| "status_text Running = ''running''"
| "status_text Succeeded = ''succeeded''"
| "status_text Failed = ''failed''"
| "status_text Uncertain = ''uncertain''"
| "status_text Cancelled = ''cancelled''"

record task_row =
  t_id :: string
  t_tenant :: string
  t_channel :: string
  t_event_key :: string
  t_fingerprint :: string
  t_agent :: string
  t_actor :: string
  t_status :: status
  t_created :: int
  t_updated :: int

record step_row =
  s_id :: string
  s_task :: string
  s_tenant :: string
  s_position :: nat
  s_tool :: string
  s_args :: json
  s_risk :: string
  s_needed :: bool
  s_fingerprint :: string
  s_status :: status
  s_claim :: string
  s_worker :: string
  s_lease :: int
  s_attempts :: nat
  s_result :: json
  s_error :: string
  s_device :: string

record approval_row =
  a_step :: string
  a_tenant :: string
  a_fingerprint :: string
  a_status :: approval_status
  a_actor :: string
  a_expires :: int
  a_decided :: "int option"

record audit_row =
  u_tenant :: string
  u_task :: string
  u_action :: string
  u_actor :: string
  u_data :: json
  u_created :: int

record memory_row =
  m_tenant :: string
  m_agent :: string
  m_key :: string
  m_value :: string
  m_expires :: int

record record_row =
  k_tenant :: string
  k_kind :: string
  k_id :: string
  k_body :: json
  k_created :: int

record device_row =
  d_tenant :: string
  d_id :: string
  d_revoked :: bool
  d_generation :: int

record event_row =
  e_tenant :: string
  e_channel :: string
  e_key :: string
  e_fingerprint :: string
  e_payload :: json
  e_status :: event_status
  e_claim :: string
  e_lease :: int
  e_result :: json
  e_error :: string

record schedule_row =
  h_tenant :: string
  h_id :: string
  h_agent :: string
  h_steps :: json
  h_interval :: int
  h_next_due :: int
  h_enabled :: bool

record run_row =
  r_id :: string
  r_tenant :: string
  r_key :: string
  r_fingerprint :: string
  r_agent :: string
  r_actor :: string
  r_input :: string
  r_status :: run_status
  r_created :: int
  r_updated :: int
  r_deadline :: int
  r_max_steps :: int
  r_max_calls :: int
  r_calls :: int
  r_steps :: int
  r_task :: string
  r_claim :: string
  r_lease :: int
  r_answer :: string
  r_evidence :: "string list"
  r_error :: string
  r_channel :: string

record turn_row =
  n_tenant :: string
  n_run :: string
  n_position :: int
  n_task :: string
  n_fingerprint :: string

record budget_setting =
  g_tenant :: string
  g_currency :: string
  g_limit :: int
  g_max_inflight :: int
  g_generation :: int

record budget_account =
  c_tenant :: string
  c_period :: string
  c_spent :: int
  c_reserved :: int
  c_inflight :: int

datatype budget_status =
    BReserved | BDispatching | BUncertain | BUnreconciled
  | BCancelled | BReleased | BSettled | BReconciled

record reservation_row =
  b_tenant :: string
  b_id :: string
  b_key :: string
  b_fingerprint :: string
  b_period :: string
  b_amount :: int
  b_actual :: "int option"
  b_status :: budget_status
  b_created :: int
  b_updated :: int

text \<open>Rows of \<^verbatim>\<open>platform_runtime/conversation.py\<close>.\<close>

datatype conv_status =
    CtQueued | CtThrottled | CtOpen | CtDelivering
  | CtDelivered | CtFailed | CtUncertain | CtOperator

record conv_row =
  q_tenant :: string
  q_channel :: string
  q_key :: string
  q_conversation :: string
  q_sender :: string
  q_agent :: string
  q_seq :: int
  q_run :: string
  q_status :: conv_status
  q_reply :: string
  q_task :: string
  q_error :: string
  q_created :: int
  q_updated :: int

record takeover_row =
  o_actor :: string
  o_until :: int
  o_updated :: int

record history_row =
  y_tenant :: string
  y_channel :: string
  y_conversation :: string
  y_seq :: int
  y_role :: string
  y_text :: string
  y_created :: int

record resolution_row =
  hr_tenant :: string
  hr_handoff :: string
  hr_actor :: string
  hr_note :: string
  hr_created :: int

text \<open>
  Rows of \<^verbatim>\<open>platform_runtime/oauth.py\<close>; the JSON column \<^verbatim>\<open>scopes\<close> holds the list it encodes.
\<close>

datatype conn_status =
    CnAuthorizing | CnExchanging | CnActive | CnRefreshing | CnUncertain | CnReauthRequired | CnRevoked

record connection_row =
  x_tenant :: string
  x_id :: string
  x_provider :: string
  x_account :: string
  x_config :: string
  x_generation :: int
  x_status :: conn_status
  x_scopes :: "string list"
  x_envelope :: string
  x_expires :: int
  x_attempt :: string
  x_started :: int
  x_owner :: string
  x_updated :: int

record oauth_state_row =
  os_hash :: string
  os_tenant :: string
  os_connection :: string
  os_actor :: string
  os_session :: string
  os_generation :: int
  os_config :: string
  os_expires :: int
  os_envelope :: string
  os_consumed :: bool

datatype revocation_status = RvPending | RvInflight | RvUncertain | RvConfirmed

record revocation_row =
  rv_id :: string
  rv_tenant :: string
  rv_connection :: string
  rv_generation :: int
  rv_config :: string
  rv_envelope :: string
  rv_status :: revocation_status
  rv_attempt :: string
  rv_started :: int
  rv_updated :: int

text \<open>Rows of \<^verbatim>\<open>platform_runtime/sync_store.py\<close>.\<close>

record stream_row =
  w_key :: "string \<times> string \<times> string"
  w_generation :: int
  w_cursor :: string
  w_revision :: int
  w_claim :: string
  w_lease :: int
  w_owner :: string

record page_row =
  pg_stream :: "string \<times> string \<times> string"
  pg_key :: string
  pg_fingerprint :: string
  pg_receipt :: json

record version_row =
  vr_stream :: "string \<times> string \<times> string"
  vr_record :: string
  vr_version :: int
  vr_fingerprint :: string

record sync_row =
  sr_stream :: "string \<times> string \<times> string"
  sr_record :: string
  sr_version :: int
  sr_deleted :: bool
  sr_body :: json
  sr_updated :: int

text \<open>Rows of \<^verbatim>\<open>platform_runtime/supervisor.py\<close>.\<close>

record section_row =
  z_tenant :: string
  z_id :: string
  z_actor :: string
  z_agent :: string
  z_title :: string
  z_keywords :: "string list"
  z_enabled :: bool
  z_created :: int
  z_updated :: int

record route_row =
  l_tenant :: string
  l_key :: string
  l_question :: string
  l_actor :: string
  l_section :: string
  l_agent :: string
  l_run :: string
  l_matched :: string
  l_hops :: int
  l_status :: string
  l_reason :: string
  l_created :: int
  l_updated :: int

text \<open>Rows of \<^verbatim>\<open>platform_runtime/erp.py\<close>; the JSON columns hold their text.\<close>

datatype posting_status =
    PsPosting | PsPosted | PsSkipped | PsUncertain | PsUnconfirmed | PsFailed

record posting_row =
  ep_tenant :: string
  ep_id :: string
  ep_document :: string
  ep_driver :: string
  ep_kind :: string
  ep_supplier :: string
  ep_number :: string
  ep_currency :: string
  ep_total :: int
  ep_external :: string
  ep_status :: posting_status
  ep_request :: string
  ep_response :: string
  ep_plan :: string
  ep_created :: int
  ep_settled :: "int option"
  ep_claim :: "string option"

text \<open>
  Rows of \<^verbatim>\<open>platform_runtime/documents.py\<close>, \<^verbatim>\<open>reengagement.py\<close> and \<^verbatim>\<open>escalation.py\<close>; the JSON columns
  hold the value they encode.
\<close>

record document_row =
  dc_tenant :: string
  dc_id :: string
  dc_kind :: string
  dc_supplier :: string
  dc_number :: string
  dc_date :: string
  dc_currency :: string
  dc_total :: int
  dc_body :: json
  dc_created :: int

record plan_row =
  pl_tenant :: string
  pl_id :: string
  pl_document :: string
  pl_run :: string
  pl_plan :: json
  pl_status :: string
  pl_created :: int

record outreach_row =
  rp_tenant :: string
  rp_id :: string
  rp_actor :: string
  rp_agent :: string
  rp_connection :: string
  rp_inactive :: int
  rp_cooldown :: int
  rp_max_attempts :: int
  rp_per_cycle :: int
  rp_interval :: int
  rp_max_steps :: int
  rp_max_seconds :: int
  rp_enabled :: bool
  rp_next :: int
  rp_last :: int

datatype lead_status =
    LdQueued | LdSettled | LdExhausted | LdFailed | LdNeedsInput | LdEscalated | LdUncertain | LdCancelled

record lead_row =
  rl_tenant :: string
  rl_connection :: string
  rl_lead :: string
  rl_policy :: string
  rl_run :: string
  rl_attempt :: int
  rl_status :: lead_status
  rl_first :: int
  rl_last :: int
  rl_updated :: int
  rl_error :: string

record watch_row =
  ec_tenant :: string
  ec_id :: string
  ec_actor :: string
  ec_agent :: string
  ec_recipient :: string
  ec_title :: string
  ec_source :: string
  ec_cooldown :: int
  ec_per_cycle :: int
  ec_interval :: int
  ec_max_age :: int
  ec_enabled :: bool
  ec_next :: int
  ec_last :: int

datatype notice_status = EsQueued | EsSubmitted | EsSent | EsFailed | EsUncertain

record notice_row =
  el_tenant :: string
  el_schedule :: string
  el_person :: string
  el_task :: string
  el_due :: string
  el_run :: string
  el_attempt :: int
  el_status :: notice_status
  el_first :: int
  el_last :: int
  el_updated :: int
  el_error :: string

section \<open>The database\<close>

text \<open>
  \<open>uuids\<close> counts the identifiers drawn so far, so that a drawn identifier is a function of the
  state.
\<close>

record db =
  tasks :: "task_row list"
  steps :: "step_row list"
  approvals :: "approval_row list"
  audits :: "audit_row list"
  memories :: "memory_row list"
  records :: "record_row list"
  devices :: "device_row list"
  freezes :: "string \<Rightarrow> bool option"
  events :: "event_row list"
  quotas :: "string \<times> int \<Rightarrow> nat option"
  schedules :: "schedule_row list"
  schedule_owners :: "string \<times> string \<Rightarrow> string option"
  runs :: "run_row list"
  turns :: "turn_row list"
  conv_turns :: "conv_row list"
  takeovers :: "string \<times> string \<times> string \<Rightarrow> takeover_row option"
  histories :: "history_row list"
  resolutions :: "resolution_row list"
  connections :: "connection_row list"
  oauth_states :: "oauth_state_row list"
  revocations :: "revocation_row list"
  streams :: "stream_row list"
  sync_pages :: "page_row list"
  sync_versions :: "version_row list"
  sync_records :: "sync_row list"
  sections :: "section_row list"
  routes :: "route_row list"
  postings :: "posting_row list"
  documents :: "document_row list"
  posting_plans :: "plan_row list"
  outreaches :: "outreach_row list"
  leads :: "lead_row list"
  watches :: "watch_row list"
  notices :: "notice_row list"
  budget_settings :: "budget_setting list"
  budget_accounts :: "budget_account list"
  reservations :: "reservation_row list"
  uuids :: nat

definition empty_db :: db where
  "empty_db = \<lparr>tasks = [], steps = [], approvals = [], audits = [], memories = [], records = [],
     devices = [], freezes = Map.empty, events = [], quotas = Map.empty, schedules = [],
     schedule_owners = Map.empty, runs = [], turns = [], conv_turns = [],
     takeovers = Map.empty, histories = [], resolutions = [], connections = [], oauth_states = [], revocations = [], streams = [], sync_pages = [],
     sync_versions = [], sync_records = [], sections = [], routes = [], postings = [], documents = [], posting_plans = [],
     outreaches = [], leads = [], watches = [], notices = [], budget_settings = [],
     budget_accounts = [], reservations = [], uuids = 0\<rparr>"

definition upd_tasks :: "(task_row \<Rightarrow> bool) \<Rightarrow> (task_row \<Rightarrow> task_row) \<Rightarrow> db \<Rightarrow> db" where
  "upd_tasks P f s = s\<lparr>tasks := upd_where P f (tasks s)\<rparr>"

definition upd_steps :: "(step_row \<Rightarrow> bool) \<Rightarrow> (step_row \<Rightarrow> step_row) \<Rightarrow> db \<Rightarrow> db" where
  "upd_steps P f s = s\<lparr>steps := upd_where P f (steps s)\<rparr>"

definition upd_approvals ::
  "(approval_row \<Rightarrow> bool) \<Rightarrow> (approval_row \<Rightarrow> approval_row) \<Rightarrow> db \<Rightarrow> db" where
  "upd_approvals P f s = s\<lparr>approvals := upd_where P f (approvals s)\<rparr>"

definition upd_events :: "(event_row \<Rightarrow> bool) \<Rightarrow> (event_row \<Rightarrow> event_row) \<Rightarrow> db \<Rightarrow> db" where
  "upd_events P f s = s\<lparr>events := upd_where P f (events s)\<rparr>"

definition upd_runs :: "(run_row \<Rightarrow> bool) \<Rightarrow> (run_row \<Rightarrow> run_row) \<Rightarrow> db \<Rightarrow> db" where
  "upd_runs P f s = s\<lparr>runs := upd_where P f (runs s)\<rparr>"

text \<open>\<^verbatim>\<open>Engine.audit\<close>: one row appended to \<^verbatim>\<open>p_audit\<close>.\<close>

definition audit ::
  "int \<Rightarrow> string \<Rightarrow> string \<Rightarrow> string \<Rightarrow> string \<Rightarrow> fields \<Rightarrow> db \<Rightarrow> db" where
  "audit now tenant task action actor data s =
     s\<lparr>audits := audits s @ [\<lparr>u_tenant = tenant, u_task = task, u_action = action,
        u_actor = actor, u_data = JObj data, u_created = now\<rparr>]\<rparr>"

lemma upd_fields [simp]:
  "tasks (upd_tasks P f s) = upd_where P f (tasks s)"
  "steps (upd_tasks P f s) = steps s"
  "approvals (upd_tasks P f s) = approvals s"
  "freezes (upd_tasks P f s) = freezes s"
  "devices (upd_tasks P f s) = devices s"
  "events (upd_tasks P f s) = events s"
  "runs (upd_tasks P f s) = runs s"
  "turns (upd_tasks P f s) = turns s"
  "uuids (upd_tasks P f s) = uuids s"
  "steps (upd_steps Q g s) = upd_where Q g (steps s)"
  "tasks (upd_steps Q g s) = tasks s"
  "approvals (upd_steps Q g s) = approvals s"
  "freezes (upd_steps Q g s) = freezes s"
  "devices (upd_steps Q g s) = devices s"
  "events (upd_steps Q g s) = events s"
  "runs (upd_steps Q g s) = runs s"
  "turns (upd_steps Q g s) = turns s"
  "uuids (upd_steps Q g s) = uuids s"
  by (simp_all add: upd_tasks_def upd_steps_def)

lemma upd_fields2 [simp]:
  "approvals (upd_approvals P f s) = upd_where P f (approvals s)"
  "steps (upd_approvals P f s) = steps s"
  "tasks (upd_approvals P f s) = tasks s"
  "freezes (upd_approvals P f s) = freezes s"
  "devices (upd_approvals P f s) = devices s"
  "events (upd_approvals P f s) = events s"
  "runs (upd_approvals P f s) = runs s"
  "turns (upd_approvals P f s) = turns s"
  "uuids (upd_approvals P f s) = uuids s"
  "events (upd_events Q g s) = upd_where Q g (events s)"
  "steps (upd_events Q g s) = steps s"
  "tasks (upd_events Q g s) = tasks s"
  "approvals (upd_events Q g s) = approvals s"
  "freezes (upd_events Q g s) = freezes s"
  "runs (upd_events Q g s) = runs s"
  "turns (upd_events Q g s) = turns s"
  "uuids (upd_events Q g s) = uuids s"
  "runs (upd_runs R h s) = upd_where R h (runs s)"
  "steps (upd_runs R h s) = steps s"
  "tasks (upd_runs R h s) = tasks s"
  "approvals (upd_runs R h s) = approvals s"
  "freezes (upd_runs R h s) = freezes s"
  "turns (upd_runs R h s) = turns s"
  "events (upd_runs R h s) = events s"
  "uuids (upd_runs R h s) = uuids s"
  by (simp_all add: upd_approvals_def upd_events_def upd_runs_def)

lemma audit_fields [simp]:
  "tasks (audit now t k a u d s) = tasks s"
  "steps (audit now t k a u d s) = steps s"
  "approvals (audit now t k a u d s) = approvals s"
  "freezes (audit now t k a u d s) = freezes s"
  "devices (audit now t k a u d s) = devices s"
  "events (audit now t k a u d s) = events s"
  "runs (audit now t k a u d s) = runs s"
  "turns (audit now t k a u d s) = turns s"
  "uuids (audit now t k a u d s) = uuids s"
  "reservations (audit now t k a u d s) = reservations s"
  "budget_accounts (audit now t k a u d s) = budget_accounts s"
  "budget_settings (audit now t k a u d s) = budget_settings s"
  by (simp_all add: audit_def)

section \<open>The collaborators of an engine\<close>

text \<open>
  The policy of an agent, with the keys \<^verbatim>\<open>app/platform_api.py::policy\<close> builds.
\<close>

record policy =
  p_tools :: "string list"
  p_ladder :: string
  p_approval :: "string list"
  p_approver_role :: string
  p_independent :: bool
  p_recipients :: "string list"
  p_connections :: "string list"
  p_persona :: json
  p_conversation :: json

definition policy_fields :: "policy \<Rightarrow> fields" where
  "policy_fields p =
     [(''tools'', jstrs (p_tools p)), (''ladder'', JStr (p_ladder p)),
      (''approval'', jstrs (p_approval p)), (''approver_role'', JStr (p_approver_role p)),
      (''independent_approval'', JBool (p_independent p)),
      (''allowed_recipients'', jstrs (p_recipients p)),
      (''allowed_connections'', jstrs (p_connections p)),
      (''persona'', p_persona p), (''conversation'', p_conversation p)]"

text \<open>
  What \<^verbatim>\<open>Engine.__init__\<close> receives or imports: the registry, the policy callable (it raises
  \<^verbatim>\<open>Forbidden\<close> for an unknown agent), the authority callable (the exception it raises, if
  any, in the directory state of the call), the fingerprints of the connectors a step is bound to,
  and SHA-256 and UUID generation.
\<close>

record env =
  reg :: registry
  policy_of :: "string \<Rightarrow> string \<Rightarrow> policy res"
  authority :: "string \<Rightarrow> string \<Rightarrow> string \<Rightarrow> string list \<Rightarrow> exn option"
  bindings :: "string \<Rightarrow> string \<Rightarrow> string \<Rightarrow> json \<Rightarrow> fields res"
  sha256hex :: "string \<Rightarrow> string"
  uuid4 :: "nat \<Rightarrow> string"

definition digest :: "env \<Rightarrow> json \<Rightarrow> string res" where
  "digest e v = bindr (encode v) (\<lambda>t. Inr (sha256hex e t))"

text \<open>The next identifier and the state that has drawn it.\<close>

definition fresh :: "env \<Rightarrow> db \<Rightarrow> string" where
  "fresh e s = uuid4 e (uuids s)"

definition drawn :: "db \<Rightarrow> db" where
  "drawn s = s\<lparr>uuids := Suc (uuids s)\<rparr>"

lemma drawn_fields [simp]:
  "tasks (drawn s) = tasks s" "steps (drawn s) = steps s" "approvals (drawn s) = approvals s"
  "freezes (drawn s) = freezes s" "devices (drawn s) = devices s" "events (drawn s) = events s"
  "runs (drawn s) = runs s" "turns (drawn s) = turns s" "uuids (drawn s) = Suc (uuids s)"
  "reservations (drawn s) = reservations s" "budget_accounts (drawn s) = budget_accounts s"
  "budget_settings (drawn s) = budget_settings s"
  by (simp_all add: drawn_def)

text \<open>
  The tables of one component are untouched by the updates of another; \<open>same_*\<close> facts below
  are for frames of whole operations.
\<close>

definition same_budget :: "db \<Rightarrow> db \<Rightarrow> bool" where
  "same_budget s t \<longleftrightarrow> budget_settings t = budget_settings s
     \<and> budget_accounts t = budget_accounts s \<and> reservations t = reservations s"

definition same_engine :: "db \<Rightarrow> db \<Rightarrow> bool" where
  "same_engine s t \<longleftrightarrow> tasks t = tasks s \<and> steps t = steps s \<and> approvals t = approvals s
     \<and> freezes t = freezes s"

lemma same_engine_refl [simp]: "same_engine s s"
  by (simp add: same_engine_def)

end
