(* ===== verification/Engine_Policy.thy ===== *)
theory Engine_Policy
  imports Store
begin

text \<open>
  The authorisation half of \<^verbatim>\<open>platform_runtime/engine.py\<close>: who may act (\<open>require_*\<close>), which
  conversation a step answers (\<open>task_origin\<close>), which outbound send needs no human
  (\<open>preauthorized\<close>) and which plan an agent may submit (\<open>validated\<close>).
\<close>

section \<open>Channels\<close>

definition DESCRIPTIVE_POLICY_KEYS :: "string list" where
  "DESCRIPTIVE_POLICY_KEYS = [''persona'', ''conversation'']"

text \<open>\<^verbatim>\<open>DIRECT_DESTINATION_FIELD\<close>: the tools that reach outside the tenant and the argument
  that names the destination.\<close>

definition destination_field :: "string \<Rightarrow> string option" where
  "destination_field name =
     (if name = ''telegram.send'' then Some ''conversation_id''
      else if name = ''instagram.send'' then Some ''conversation_id''
      else if name = ''whatsapp.send'' then Some ''contact''
      else None)"

definition outbound_tool :: "string \<Rightarrow> bool" where
  "outbound_tool name \<longleftrightarrow> destination_field name \<noteq> None"

definition OUTBOUND_CHANNELS :: "string list" where
  "OUTBOUND_CHANNELS = [''telegram'', ''instagram'', ''whatsapp'']"

definition OPERATOR_CHANNEL :: string where "OPERATOR_CHANNEL = ''operator''"
definition OPERATOR_REPLY_PREFIX :: string where "OPERATOR_REPLY_PREFIX = ''operator-reply:''"
definition OPERATOR_ROLES :: "string list" where "OPERATOR_ROLES = [''owner'', ''operator'']"

definition LADDERS :: "string list" where
  "LADDERS = [''human_led'', ''human_assisted'', ''autonomous'']"

definition CONNECTION_TOOLS :: "string list" where
  "CONNECTION_TOOLS =
     [''connectors.read'', ''database.read'', ''database.plan_write'', ''database.write'']"

section \<open>Authority\<close>

definition require_authority ::
  "env \<Rightarrow> string \<Rightarrow> string \<Rightarrow> string \<Rightarrow> string list \<Rightarrow> unit res" where
  "require_authority e tenant channel actor roles =
     (case authority e tenant channel actor roles of None \<Rightarrow> Inr () | Some x \<Rightarrow> Inl x)"

abbreviation default_roles :: "string list" where
  "default_roles \<equiv> [''owner'', ''operator'']"

definition frozen :: "db \<Rightarrow> string \<Rightarrow> bool" where
  "frozen s tenant \<longleftrightarrow> freezes s tenant = Some True"

definition require_active :: "env \<Rightarrow> db \<Rightarrow> string \<Rightarrow> unit res" where
  "require_active e s tenant =
     bindr (require_authority e tenant '''' '''' default_roles) (\<lambda>_.
       if frozen s tenant then raise Forbidden ''Tenant is frozen'' else Inr ())"

text \<open>The agent run a task was planned by, if any.\<close>

definition task_parent :: "db \<Rightarrow> string \<Rightarrow> string \<Rightarrow> run_row option" where
  "task_parent s tenant task =
     (case find (\<lambda>l. n_tenant l = tenant \<and> n_task l = task) (turns s) of
        None \<Rightarrow> None
      | Some l \<Rightarrow> find (\<lambda>r. r_id r = n_run l \<and> r_tenant r = tenant) (runs s))"

definition require_task_parent :: "db \<Rightarrow> int \<Rightarrow> string \<Rightarrow> string \<Rightarrow> unit res" where
  "require_task_parent s now tenant task =
     (case task_parent s tenant task of
        Some r \<Rightarrow> (if r_status r \<noteq> RWaitingTask \<or> r_task r \<noteq> task \<or> r_deadline r \<le> now
                  then raise Forbidden ''Agent run no longer authorizes this task'' else Inr ())
      | None \<Rightarrow> Inr ())"

text \<open>The roles that may approve for an agent.\<close>

definition approver_roles :: "policy \<Rightarrow> string list" where
  "approver_roles p = (if p_approver_role p = ''owner'' then [''owner''] else default_roles)"

section \<open>Origins\<close>

text \<open>The conversation a task answers: a verified inbound event, or a human's dashboard reply.\<close>

datatype origin =
    EventOrigin string json
  | OperatorOrigin string string

definition event_origin :: "db \<Rightarrow> string \<Rightarrow> string \<Rightarrow> string \<Rightarrow> origin option" where
  "event_origin s tenant channel key =
     (if channel \<notin> set OUTBOUND_CHANNELS then None
      else case find (\<lambda>v. e_tenant v = tenant \<and> e_channel v = channel \<and> e_key v = key) (events s) of
          None \<Rightarrow> None
        | Some v \<Rightarrow> Some (EventOrigin channel
            (case obj_get (e_payload v) ''conversation_id'' of None \<Rightarrow> JNull | Some j \<Rightarrow> j)))"

text \<open>The channel of a send tool: \<^verbatim>\<open>tool[:-len('.send')]\<close>.\<close>

definition send_channel :: "string \<Rightarrow> string" where
  "send_channel tool = take (length tool - 5) tool"

text \<open>Some event the tenant accepted on the channel carries this conversation.\<close>

definition conversation_known :: "db \<Rightarrow> string \<Rightarrow> string \<Rightarrow> string \<Rightarrow> bool" where
  "conversation_known s tenant channel target \<longleftrightarrow>
     (\<exists>v \<in> set (events s). e_tenant v = tenant \<and> e_channel v = channel
        \<and> obj_get (e_payload v) ''conversation_id'' = Some (JStr target))"

definition operator_origin :: "db \<Rightarrow> string \<Rightarrow> string \<Rightarrow> json \<Rightarrow> origin res" where
  "operator_origin s tenant tool args =
     (if \<not> outbound_tool tool \<or> \<not> py_endswith ''.send'' tool
        then raise Forbidden ''Operator reply requires a channel send''
      else if send_channel tool \<notin> set OUTBOUND_CHANNELS
        then raise Forbidden ''Operator reply needs a channel with a verified inbound stream''
      else case obj_get args (the (destination_field tool)) of
          Some (JStr target) \<Rightarrow>
            (if target = [] then raise ValueError ''Invalid conversation identity''
             else if \<not> conversation_known s tenant (send_channel tool) target
               then raise NotFound ''Conversation unknown to this tenant''
             else Inr (OperatorOrigin (send_channel tool) target))
        | _ \<Rightarrow> raise ValueError ''Invalid conversation identity'')"

text \<open>\<^verbatim>\<open>_task_origin\<close>: what a claimed step is re-validated against.\<close>

definition task_origin ::
  "db \<Rightarrow> string \<Rightarrow> string \<Rightarrow> string \<Rightarrow> string \<Rightarrow> json \<Rightarrow> origin option res" where
  "task_origin s tenant channel key tool args =
     (if channel = OPERATOR_CHANNEL
      then bindr (operator_origin s tenant tool args) (\<lambda>o'. Inr (Some o'))
      else Inr (event_origin s tenant channel key))"

definition preauthorized :: "policy \<Rightarrow> string \<Rightarrow> json \<Rightarrow> origin option \<Rightarrow> bool" where
  "preauthorized p name args org =
     (case destination_field name of
        None \<Rightarrow> False
      | Some fld \<Rightarrow>
          p_ladder p = ''autonomous'' \<and>
          (let recipient = (case obj_get args fld of None \<Rightarrow> JNull | Some j \<Rightarrow> j) in
           (\<exists>r \<in> set (p_recipients p). recipient = JStr r)
           \<or> (case org of
                Some (EventOrigin channel conv) \<Rightarrow> name = channel @ ''.send'' \<and> recipient = conv
              | _ \<Rightarrow> False)))"

section \<open>Plans\<close>

record vstep =
  v_tool :: string
  v_args :: json
  v_risk :: string
  v_needed :: bool
  v_fingerprint :: string
  v_device :: string

definition is_operator :: "origin option \<Rightarrow> bool" where
  "is_operator org = (case org of Some (OperatorOrigin _ _) \<Rightarrow> True | _ \<Rightarrow> False)"

text \<open>Whether a step waits for a human (\<^verbatim>\<open>needed\<close>).\<close>

definition approval_needed :: "policy \<Rightarrow> tool \<Rightarrow> json \<Rightarrow> origin option \<Rightarrow> bool" where
  "approval_needed p spec args org \<longleftrightarrow>
     p_ladder p = ''human_led''
     \<or> is_operator org
     \<or> tl_name spec \<in> set (p_approval p)
     \<or> tl_risk spec \<in> {''destructive'', ''physical''}
     \<or> (tl_risk spec \<noteq> ''read'' \<and> \<not> preauthorized p (tl_name spec) args org)"

definition canonical_policy :: "policy \<Rightarrow> json" where
  "canonical_policy p =
     JObj (filter (\<lambda>(k, _). k \<notin> set DESCRIPTIVE_POLICY_KEYS) (policy_fields p))"

definition canonical_step ::
  "policy \<Rightarrow> tool \<Rightarrow> json \<Rightarrow> bool \<Rightarrow> string \<Rightarrow> fields \<Rightarrow> json" where
  "canonical_step p spec args needed device binds =
     JObj ([(''tool'', JStr (tl_name spec)), (''args'', args), (''risk'', JStr (tl_risk spec)),
            (''approval'', JBool needed), (''device'', JStr device),
            (''policy'', canonical_policy p)] @ binds)"

text \<open>One step of a plan, in the order of the checks of \<^verbatim>\<open>_validated\<close>.\<close>

definition validated_step ::
  "env \<Rightarrow> string \<Rightarrow> string \<Rightarrow> policy \<Rightarrow> origin option \<Rightarrow> json \<Rightarrow> vstep res" where
  "validated_step e tenant agent p org step =
     (case step of
        JObj fs \<Rightarrow>
          if \<not> set (jkeys fs) \<subseteq> {''tool'', ''args'', ''device''}
            then raise ValueError ''Invalid step fields''
          else bindr (registry_get (reg e) (jget fs ''tool'')) (\<lambda>spec.
            let name = tl_name spec; args = jget_or fs ''args'' (JObj []) in
            if name \<notin> set (p_tools p) then raise Forbidden ''Tool not allowed for agent''
            else if is_operator org \<and>
                ((case org of Some (OperatorOrigin ch _) \<Rightarrow> name \<noteq> ch @ ''.send'' | _ \<Rightarrow> False)
                 \<or> tl_risk spec \<in> {''destructive'', ''physical''})
              then raise Forbidden ''Operator reply may only carry a plain channel send''
            else bindr (validate_schema args (tl_schema spec) 0) (\<lambda>_.
              if name \<in> set CONNECTION_TOOLS \<and>
                 (case obj_get args ''connection'' of
                    Some (JStr c) \<Rightarrow> c \<notin> set (p_connections p) | _ \<Rightarrow> True)
                then raise Forbidden ''Connection not allowed for agent''
              else bindr (bindings e tenant agent name args) (\<lambda>binds.
                let needed = approval_needed p spec args org in
                (case jget_or fs ''device'' (JStr []) of
                   JStr device \<Rightarrow>
                     if length device > 128 then raise ValueError ''Invalid device''
                     else if tl_runner spec \<and> device = []
                       then raise ValueError ''Runner tool requires device''
                     else if \<not> tl_runner spec \<and> device \<noteq> []
                       then raise ValueError ''Cloud step must not bind device''
                     else bindr (digest e (canonical_step p spec args needed device binds)) (\<lambda>fp.
                       Inr \<lparr>v_tool = name, v_args = args, v_risk = tl_risk spec, v_needed = needed,
                            v_fingerprint = fp, v_device = device\<rparr>)
                 | _ \<Rightarrow> raise ValueError ''Invalid device''))))
      | _ \<Rightarrow> raise ValueError ''Invalid step fields'')"

definition validated ::
  "env \<Rightarrow> string \<Rightarrow> string \<Rightarrow> json \<Rightarrow> origin option \<Rightarrow> vstep list res" where
  "validated e tenant agent plan org =
     bindr (policy_of e tenant agent) (\<lambda>p.
       if p_ladder p \<notin> set LADDERS then raise Forbidden ''Invalid autonomy policy''
       else case plan of
           JList xs \<Rightarrow>
             if \<not> (1 \<le> length xs \<and> length xs \<le> 20) then raise ValueError ''Plan requires 1..20 steps''
             else if is_operator org \<and> length xs \<noteq> 1
               then raise ValueError ''An operator reply is exactly one send''
             else each (validated_step e tenant agent p org) xs
         | _ \<Rightarrow> raise ValueError ''Plan requires 1..20 steps'')"

section \<open>What validation guarantees\<close>

text \<open>The facts about one accepted step every later proof uses.\<close>

definition step_allowed :: "env \<Rightarrow> policy \<Rightarrow> origin option \<Rightarrow> vstep \<Rightarrow> bool" where
  "step_allowed e p org v \<longleftrightarrow>
     (\<exists>spec binds. registry_find (reg e) (v_tool v) = Some spec
        \<and> v_tool v = tl_name spec \<and> v_tool v \<in> set (p_tools p)
        \<and> v_risk v = tl_risk spec
        \<and> validate_schema (v_args v) (tl_schema spec) 0 = Inr ()
        \<and> v_needed v = approval_needed p spec (v_args v) org
        \<and> digest e (canonical_step p spec (v_args v) (v_needed v) (v_device v) binds)
            = Inr (v_fingerprint v)
        \<and> (tl_runner spec \<longleftrightarrow> v_device v \<noteq> [])
        \<and> (is_operator org \<longrightarrow> v_risk v \<notin> {''destructive'', ''physical''}))"

text \<open>Inversion of \<open>validated_step\<close>: everything an accepted step satisfies.\<close>

lemma validated_stepE:
  assumes "validated_step e tenant agent p org step = Inr v"
  obtains fs spec args binds device fp where
    "step = JObj fs" "jget fs ''tool'' = JStr (tl_name spec)"
    "registry_find (reg e) (tl_name spec) = Some spec"
    "args = jget_or fs ''args'' (JObj [])" "tl_name spec \<in> set (p_tools p)"
    "\<not> (is_operator org \<and> tl_risk spec \<in> {''destructive'', ''physical''})"
    "validate_schema args (tl_schema spec) 0 = Inr ()"
    "bindings e tenant agent (tl_name spec) args = Inr binds"
    "tl_runner spec \<longleftrightarrow> device \<noteq> []" "length device \<le> 128"
    "digest e (canonical_step p spec args (approval_needed p spec args org) device binds) = Inr fp"
    "v = \<lparr>v_tool = tl_name spec, v_args = args, v_risk = tl_risk spec,
          v_needed = approval_needed p spec args org, v_fingerprint = fp, v_device = device\<rparr>"
proof -
  obtain fs where step: "step = JObj fs"
    using assms by (cases step) (auto simp: validated_step_def)
  from assms obtain spec where spec: "registry_get (reg e) (jget fs ''tool'') = Inr spec"
    by (auto simp: step validated_step_def res_simps)
  then have name: "jget fs ''tool'' = JStr (tl_name spec)"
    and find: "registry_find (reg e) (tl_name spec) = Some spec"
    using registry_get_Inr registry_find_name by metis+
  obtain device where device: "jget_or fs ''device'' (JStr []) = JStr device"
    using assms spec
    by (cases "jget_or fs ''device'' (JStr [])")
       (auto simp: step validated_step_def res_simps Let_def)
  let ?args = "jget_or fs ''args'' (JObj [])"
  let ?needed = "approval_needed p spec ?args org"
  obtain binds fp where body: "tl_name spec \<in> set (p_tools p)"
    "\<not> (is_operator org \<and> tl_risk spec \<in> {''destructive'', ''physical''})"
    "validate_schema ?args (tl_schema spec) 0 = Inr ()"
    "bindings e tenant agent (tl_name spec) ?args = Inr binds"
    "tl_runner spec \<longleftrightarrow> device \<noteq> []" "length device \<le> 128"
    "digest e (canonical_step p spec ?args ?needed device binds) = Inr fp"
    "v = \<lparr>v_tool = tl_name spec, v_args = ?args, v_risk = tl_risk spec,
          v_needed = ?needed, v_fingerprint = fp, v_device = device\<rparr>"
    using assms spec device by (auto simp: step validated_step_def res_simps Let_def)
  show ?thesis by (rule that[OF step name find refl body])
qed

lemma validated_step_allowed:
  assumes "validated_step e tenant agent p org step = Inr v"
  shows "step_allowed e p org v"
  using assms by (rule validated_stepE) (auto simp: step_allowed_def)

lemma validated_policy:
  assumes "validated e tenant agent plan org = Inr vs"
  obtains p xs where "policy_of e tenant agent = Inr p" "p_ladder p \<in> set LADDERS"
    "plan = JList xs" "each (validated_step e tenant agent p org) xs = Inr vs"
    "1 \<le> length xs" "length xs \<le> 20" "is_operator org \<longrightarrow> length xs = 1"
  using assms that
  by (cases plan) (auto simp: validated_def res_simps)

lemma validated_allowed:
  assumes "validated e tenant agent plan org = Inr vs"
  shows "\<exists>p. policy_of e tenant agent = Inr p \<and> p_ladder p \<in> set LADDERS
    \<and> 1 \<le> length vs \<and> length vs \<le> 20 \<and> (\<forall>v \<in> set vs. step_allowed e p org v)"
proof -
  obtain p xs where p: "policy_of e tenant agent = Inr p" "p_ladder p \<in> set LADDERS"
    and vs: "each (validated_step e tenant agent p org) xs = Inr vs"
    and len: "1 \<le> length xs" "length xs \<le> 20"
    using validated_policy[OF assms] by metis
  moreover have "length vs = length xs" by (rule each_Inr_length[OF vs])
  moreover have "\<forall>v \<in> set vs. step_allowed e p org v"
    using each_Inr_mem[OF vs] validated_step_allowed by blast
  ultimately show ?thesis by auto
qed

text \<open>A plan step carries its tool name and its arguments into the validated step.\<close>

lemma validated_step_fields:
  assumes "validated_step e tenant agent p org step = Inr v"
  shows "obj_get step ''tool'' = Some (JStr (v_tool v))
    \<and> v_args v = jget_or (obj_fields step) ''args'' (JObj [])"
  using assms
  by (rule validated_stepE) (auto simp: obj_fields_def jget_def split: option.splits)

text \<open>Destructive and physical tools always wait, and so does everything under \<open>human_led\<close>.\<close>

lemma approval_needed_cases:
  "tl_risk spec \<in> {''destructive'', ''physical''} \<Longrightarrow> approval_needed p spec args org"
  "p_ladder p = ''human_led'' \<Longrightarrow> approval_needed p spec args org"
  "tl_name spec \<in> set (p_approval p) \<Longrightarrow> approval_needed p spec args org"
  "tl_risk spec = ''write'' \<Longrightarrow> \<not> outbound_tool (tl_name spec) \<Longrightarrow> approval_needed p spec args org"
  by (auto simp: approval_needed_def preauthorized_def outbound_tool_def)

end
