(* ===== verification/Conversation_Record.thy ===== *)
theory Conversation_Record
  imports Engine_Policy
begin

text \<open>
  The two writes of \<^verbatim>\<open>platform_runtime/conversation.py\<close> the engine itself reaches:
  the bounded conversation history and \<open>record_turn\<close>, which turns a verified inbound event into
  one conversation turn.
\<close>

definition MAX_QUEUED_TURNS_PER_SENDER :: nat where "MAX_QUEUED_TURNS_PER_SENDER = 3"
definition MAX_HISTORY_ROWS :: int where "MAX_HISTORY_ROWS = 40"
definition MAX_RUN_INPUT_CHARS :: nat where "MAX_RUN_INPUT_CHARS = 4000"

definition in_conversation :: "string \<Rightarrow> string \<Rightarrow> string \<Rightarrow> history_row \<Rightarrow> bool" where
  "in_conversation tenant channel conv y \<longleftrightarrow>
     y_tenant y = tenant \<and> y_channel y = channel \<and> y_conversation y = conv"

definition conversation_lines :: "db \<Rightarrow> string \<Rightarrow> string \<Rightarrow> string \<Rightarrow> history_row list" where
  "conversation_lines s tenant channel conv =
     filter (in_conversation tenant channel conv) (histories s)"

text \<open>\<^verbatim>\<open>_append\<close>: add a line, then drop everything \<open>MAX_HISTORY_ROWS\<close> or more behind it.\<close>

definition append_line ::
  "string \<Rightarrow> string \<Rightarrow> string \<Rightarrow> int \<Rightarrow> string \<Rightarrow> string \<Rightarrow> int \<Rightarrow> db \<Rightarrow> db" where
  "append_line tenant channel conv seq role text now s =
     s\<lparr>histories := filter
         (\<lambda>y. \<not> (in_conversation tenant channel conv y \<and> y_seq y \<le> seq - MAX_HISTORY_ROWS))
         (histories s @ [\<lparr>y_tenant = tenant, y_channel = channel, y_conversation = conv,
            y_seq = seq, y_role = role, y_text = take MAX_RUN_INPUT_CHARS text,
            y_created = now\<rparr>])\<rparr>"

text \<open>\<^verbatim>\<open>COALESCE(MAX(seq),0)+1\<close>.\<close>

definition next_seq :: "db \<Rightarrow> string \<Rightarrow> string \<Rightarrow> string \<Rightarrow> int" where
  "next_seq s tenant channel conv =
     (case conversation_lines s tenant channel conv of
        [] \<Rightarrow> 1
      | y # ys \<Rightarrow> foldl (\<lambda>m z. max m (y_seq z)) (y_seq y) ys + 1)"

definition waiting_turns :: "db \<Rightarrow> string \<Rightarrow> string \<Rightarrow> string \<Rightarrow> string \<Rightarrow> nat" where
  "waiting_turns s tenant channel conv sender =
     length (filter (\<lambda>q. q_tenant q = tenant \<and> q_channel q = channel \<and> q_conversation q = conv
        \<and> q_status q = CtQueued \<and> q_sender q = sender) (conv_turns s))"

definition turn_recorded :: "db \<Rightarrow> string \<Rightarrow> string \<Rightarrow> string \<Rightarrow> bool" where
  "turn_recorded s tenant channel key \<longleftrightarrow>
     (\<exists>q \<in> set (conv_turns s). q_tenant q = tenant \<and> q_channel q = channel \<and> q_key q = key)"

definition ident_ok :: "string \<Rightarrow> bool" where
  "ident_ok v \<longleftrightarrow> v \<noteq> [] \<and> length v \<le> 256"

definition json_ident :: "json \<Rightarrow> bool" where
  "json_ident v \<longleftrightarrow> (case v of JStr t \<Rightarrow> ident_ok t | _ \<Rightarrow> False)"

text \<open>The insertion of one turn, once its fields have been checked.\<close>

definition insert_turn ::
  "int \<Rightarrow> string \<Rightarrow> string \<Rightarrow> string \<Rightarrow> string \<Rightarrow> string \<Rightarrow> string \<Rightarrow> string \<Rightarrow> db \<Rightarrow> db" where
  "insert_turn now tenant channel key agent conv sender text s =
     (if turn_recorded s tenant channel key then s
      else
        let seq = next_seq s tenant channel conv;
            waiting = waiting_turns s tenant channel conv sender;
            status = (if waiting < MAX_QUEUED_TURNS_PER_SENDER then CtQueued else CtThrottled);
            s1 = s\<lparr>conv_turns := conv_turns s @ [\<lparr>q_tenant = tenant, q_channel = channel,
                   q_key = key, q_conversation = conv, q_sender = sender, q_agent = agent,
                   q_seq = seq, q_run = [], q_status = status, q_reply = [], q_task = [],
                   q_error = [], q_created = now, q_updated = now\<rparr>]\<rparr>;
            s2 = append_line tenant channel conv seq ''customer'' text now s1;
            s3 = audit now tenant [] ''conversation.turn_recorded'' sender
                   [(''channel'', JStr channel), (''event_key'', JStr key), (''agent'', JStr agent)] s2
        in if status = CtThrottled
           then audit now tenant [] ''conversation.turn_throttled'' sender
                  [(''channel'', JStr channel), (''event_key'', JStr key),
                   (''waiting'', JInt (int waiting))] s3
           else s3)"

definition record_turn ::
  "env \<Rightarrow> int \<Rightarrow> string \<Rightarrow> string \<Rightarrow> string \<Rightarrow> string \<Rightarrow> json \<Rightarrow> db \<Rightarrow> (string \<times> db) res" where
  "record_turn e now tenant channel key agent payload s =
     (let field = (\<lambda>k d. case obj_get payload k of None \<Rightarrow> d | Some j \<Rightarrow> j);
          conv = field ''conversation_id'' JNull;
          sender = field ''sender'' JNull;
          text = field ''text'' (JStr []) in
      if channel \<notin> set OUTBOUND_CHANNELS
        then raise ValueError ''Conversation turns need a channel that can reply to its inbound event''
      else if \<not> (json_ident conv \<and> json_ident sender \<and> ident_ok agent)
        then raise ValueError ''Invalid conversation identity''
      else if \<not> is_str text then raise ValueError ''Conversation text must be a string''
      else bindr (policy_of e tenant agent) (\<lambda>_.
        Inr (key, insert_turn now tenant channel key agent (the_str conv) (the_str sender)
                    (the_str text) s)))"

section \<open>What recording leaves alone\<close>

lemma append_line_fields [simp]:
  "tasks (append_line tenant channel conv seq role text now s) = tasks s"
  "steps (append_line tenant channel conv seq role text now s) = steps s"
  "approvals (append_line tenant channel conv seq role text now s) = approvals s"
  "freezes (append_line tenant channel conv seq role text now s) = freezes s"
  "runs (append_line tenant channel conv seq role text now s) = runs s"
  "turns (append_line tenant channel conv seq role text now s) = turns s"
  "events (append_line tenant channel conv seq role text now s) = events s"
  "uuids (append_line tenant channel conv seq role text now s) = uuids s"
  "conv_turns (append_line tenant channel conv seq role text now s) = conv_turns s"
  by (simp_all add: append_line_def)

lemma insert_turn_fields [simp]:
  "tasks (insert_turn now tenant channel key agent conv sender text s) = tasks s"
  "steps (insert_turn now tenant channel key agent conv sender text s) = steps s"
  "approvals (insert_turn now tenant channel key agent conv sender text s) = approvals s"
  "freezes (insert_turn now tenant channel key agent conv sender text s) = freezes s"
  "runs (insert_turn now tenant channel key agent conv sender text s) = runs s"
  "turns (insert_turn now tenant channel key agent conv sender text s) = turns s"
  "events (insert_turn now tenant channel key agent conv sender text s) = events s"
  "uuids (insert_turn now tenant channel key agent conv sender text s) = uuids s"
  by (simp_all add: insert_turn_def Let_def)

end
