(* ===== verification/Engine_Submit.thy ===== *)
theory Engine_Submit
  imports Conversation_Record
begin

text \<open>
  Creating tasks (\<^verbatim>\<open>platform_runtime/engine.py\<close>: \<^verbatim>\<open>_submit\<close>, \<^verbatim>\<open>_create_task\<close>,
  \<^verbatim>\<open>operator_reply\<close>) and the status of a task as a function of its steps
  (\<^verbatim>\<open>_refresh\<close>). An operation on the database returns an exception, in which case the
  transaction is rolled back and no state is returned, or a value with the new state.
\<close>

section \<open>The status of a task\<close>

definition task_status_of :: "status list \<Rightarrow> status" where
  "task_status_of sts =
     (if Uncertain \<in> set sts then Uncertain
      else if Failed \<in> set sts then Failed
      else if Cancelled \<in> set sts then Cancelled
      else if (\<forall>x \<in> set sts. x = Succeeded) then Succeeded
      else if Running \<in> set sts then Running
      else if WaitingApproval \<in> set sts then WaitingApproval
      else Queued)"

definition step_of :: "string \<Rightarrow> string \<Rightarrow> step_row \<Rightarrow> bool" where
  "step_of tenant task r \<longleftrightarrow> s_tenant r = tenant \<and> s_task r = task"

definition task_steps :: "db \<Rightarrow> string \<Rightarrow> string \<Rightarrow> step_row list" where
  "task_steps s tenant task = filter (step_of tenant task) (steps s)"

definition refresh :: "int \<Rightarrow> string \<Rightarrow> string \<Rightarrow> db \<Rightarrow> db" where
  "refresh now tenant task s =
     upd_tasks (\<lambda>t. t_tenant t = tenant \<and> t_id t = task)
       (\<lambda>t. t\<lparr>t_status := task_status_of (map s_status (task_steps s tenant task)),
              t_updated := now\<rparr>) s"

definition refresh_all :: "int \<Rightarrow> string \<Rightarrow> string list \<Rightarrow> db \<Rightarrow> db" where
  "refresh_all now tenant ids s = fold (refresh now tenant) ids s"

section \<open>Creating a task\<close>

definition find_task :: "db \<Rightarrow> string \<Rightarrow> string \<Rightarrow> string \<Rightarrow> task_row option" where
  "find_task s tenant channel key =
     find (\<lambda>t. t_tenant t = tenant \<and> t_channel t = channel \<and> t_event_key t = key) (tasks s)"

definition pending_tasks :: "db \<Rightarrow> string \<Rightarrow> nat" where
  "pending_tasks s tenant =
     length (filter (\<lambda>t. t_tenant t = tenant \<and> t_status t \<in> {Queued, Running, WaitingApproval})
       (tasks s))"

definition new_step :: "string \<Rightarrow> string \<Rightarrow> nat \<Rightarrow> vstep \<Rightarrow> string \<Rightarrow> step_row" where
  "new_step tenant task pos v sid =
     \<lparr>s_id = sid, s_task = task, s_tenant = tenant, s_position = pos, s_tool = v_tool v,
      s_args = v_args v, s_risk = v_risk v, s_needed = v_needed v,
      s_fingerprint = v_fingerprint v, s_status = Queued, s_claim = [], s_worker = [],
      s_lease = 0, s_attempts = 0, s_result = JObj [], s_error = [], s_device = v_device v\<rparr>"

definition new_approval ::
  "int \<Rightarrow> string \<Rightarrow> string \<Rightarrow> string \<Rightarrow> string \<Rightarrow> approval_row" where
  "new_approval now tenant sid fp approver =
     \<lparr>a_step = sid, a_tenant = tenant, a_fingerprint = fp,
      a_status = (if approver \<noteq> [] then ApApproved else ApPending),
      a_actor = approver, a_expires = now + 86400,
      a_decided = (if approver \<noteq> [] then Some now else None)\<rparr>"

text \<open>One validated step: its row, and its approval when a human must decide it.\<close>

definition insert_step ::
  "env \<Rightarrow> int \<Rightarrow> string \<Rightarrow> string \<Rightarrow> string \<Rightarrow> nat \<Rightarrow> vstep \<Rightarrow> db \<Rightarrow> db" where
  "insert_step e now tenant task approver pos v s =
     (let sid = fresh e s;
          s1 = (drawn s)\<lparr>steps := steps s @ [new_step tenant task pos v sid]\<rparr>;
          s2 = s1\<lparr>approvals := approvals s @ [new_approval now tenant sid (v_fingerprint v) approver]\<rparr>
      in if v_needed v \<and> approver \<noteq> [] then
           audit now tenant task ''approval.approved'' approver
             [(''step'', JStr sid), (''fingerprint'', JStr (v_fingerprint v)),
              (''operator_reply'', JBool True)] s2
         else if v_needed v then s2 else s1)"

fun insert_steps ::
  "env \<Rightarrow> int \<Rightarrow> string \<Rightarrow> string \<Rightarrow> string \<Rightarrow> nat \<Rightarrow> vstep list \<Rightarrow> db \<Rightarrow> db" where
  "insert_steps e now tenant task approver pos [] s = s"
| "insert_steps e now tenant task approver pos (v # vs) s =
     insert_steps e now tenant task approver (Suc pos) vs
       (insert_step e now tenant task approver pos v s)"

definition new_task ::
  "int \<Rightarrow> string \<Rightarrow> string \<Rightarrow> string \<Rightarrow> string \<Rightarrow> string \<Rightarrow> string \<Rightarrow> string \<Rightarrow> task_row" where
  "new_task now tid tenant channel key fp agent actor =
     \<lparr>t_id = tid, t_tenant = tenant, t_channel = channel, t_event_key = key,
      t_fingerprint = fp, t_agent = agent, t_actor = actor, t_status = Queued,
      t_created = now, t_updated = now\<rparr>"

definition create_task ::
  "env \<Rightarrow> int \<Rightarrow> string \<Rightarrow> string \<Rightarrow> string \<Rightarrow> string \<Rightarrow> json \<Rightarrow> string \<Rightarrow> vstep list \<Rightarrow> string
     \<Rightarrow> db \<Rightarrow> (string \<times> db) res" where
  "create_task e now tenant channel key agent plan actor vs approver s =
     bindr (digest e (JObj [(''agent'', JStr agent), (''steps'', plan)])) (\<lambda>fp.
     bindr (require_authority e tenant channel actor default_roles) (\<lambda>_.
     case find_task s tenant channel key of
       Some old \<Rightarrow>
         (if t_fingerprint old \<noteq> fp
          then raise Conflict ''Idempotency key reused with different payload''
          else Inr (t_id old, s))
     | None \<Rightarrow>
         bindr (require_active e s tenant) (\<lambda>_.
         if pending_tasks s tenant \<ge> 1000 then raise RateLimited ''Task queue full''
         else
           let tid = fresh e s;
               s1 = (drawn s)\<lparr>tasks := tasks s @ [new_task now tid tenant channel key fp agent actor]\<rparr>;
               s2 = insert_steps e now tenant tid approver 0 vs s1;
               s3 = audit now tenant tid ''task.created'' actor
                      [(''agent'', JStr agent), (''steps'', JInt (int (length vs)))] s2
           in Inr (tid, refresh now tenant tid s3))))"

section \<open>Submitting a plan\<close>

text \<open>
  The destination of one step: inside an inbound channel it must be the verified conversation,
  elsewhere it must be allowlisted.
\<close>

definition destination_ok :: "string \<Rightarrow> origin option \<Rightarrow> policy \<Rightarrow> json \<Rightarrow> unit res" where
  "destination_ok channel org p step =
     (let name = the_str (jget (obj_fields step) ''tool'');
          args = jget_or (obj_fields step) ''args'' (JObj []) in
      case destination_field name of
        None \<Rightarrow> Inr ()
      | Some fld \<Rightarrow>
          let recipient = (case obj_get args fld of None \<Rightarrow> JNull | Some j \<Rightarrow> j) in
          if channel \<in> set OUTBOUND_CHANNELS then
            (case org of
               Some (EventOrigin _ conv) \<Rightarrow>
                 if name \<noteq> channel @ ''.send'' \<or> conv \<noteq> recipient
                 then raise Forbidden ''Outbound destination differs from verified inbound event''
                 else Inr ()
             | _ \<Rightarrow> raise Forbidden ''Outbound destination differs from verified inbound event'')
          else if \<exists>r \<in> set (p_recipients p). recipient = JStr r then Inr ()
          else raise Forbidden ''Direct outbound destination must be pack-allowlisted'')"

definition plan_steps :: "json \<Rightarrow> json list" where
  "plan_steps plan = (case plan of JList xs \<Rightarrow> xs | _ \<Rightarrow> [])"

definition submit ::
  "env \<Rightarrow> int \<Rightarrow> string \<Rightarrow> string \<Rightarrow> string \<Rightarrow> string \<Rightarrow> json \<Rightarrow> string \<Rightarrow> db
     \<Rightarrow> (string \<times> db) res" where
  "submit e now tenant channel key agent plan actor s =
     (if \<not> (\<forall>v \<in> set [tenant, channel, key, agent, actor]. ident_ok v)
        then raise ValueError ''Invalid identity''
      else if channel = OPERATOR_CHANNEL
        then raise Forbidden ''Channel reserved for operator replies''
      else
        let org = event_origin s tenant channel key in
        bindr (validated e tenant agent plan org) (\<lambda>vs.
        bindr (policy_of e tenant agent) (\<lambda>p.
        bindr (each (destination_ok channel org p) (plan_steps plan)) (\<lambda>_.
        create_task e now tenant channel key agent plan actor vs [] s))))"

section \<open>Operator replies\<close>

definition reply_plan :: "string \<Rightarrow> string \<Rightarrow> string \<Rightarrow> json" where
  "reply_plan tool conv text =
     JList [JObj [(''tool'', JStr tool),
       (''args'', JObj [(the (destination_field tool), JStr conv), (''text'', JStr text)])]]"

definition operator_reply ::
  "env \<Rightarrow> int \<Rightarrow> string \<Rightarrow> string \<Rightarrow> string \<Rightarrow> string \<Rightarrow> string \<Rightarrow> string \<Rightarrow> string \<Rightarrow> string
     \<Rightarrow> db \<Rightarrow> (string \<times> db) res" where
  "operator_reply e now tenant channel conv text actor role key agent s =
     (if channel \<notin> set OUTBOUND_CHANNELS
        then raise ValueError ''Channel cannot carry an operator reply''
      else if role \<notin> set OPERATOR_ROLES
        then raise Forbidden ''Operator reply requires an owner or operator''
      else if \<not> (ident_ok actor \<and> ident_ok agent \<and> ident_ok conv)
        then raise ValueError ''Invalid identity''
      else if key = [] \<or> length (OPERATOR_REPLY_PREFIX @ key) > 256
        then raise ValueError ''Invalid idempotency key''
      else if blank text \<or> length text > 4000
        then raise ValueError ''Reply text must be 1..4000 characters''
      else
        let tool = channel @ ''.send''; plan = reply_plan tool conv text;
            args = JObj [(the (destination_field tool), JStr conv), (''text'', JStr text)] in
        bindr (policy_of e tenant agent) (\<lambda>p.
        if role \<notin> set (approver_roles p) then raise Forbidden ''Owner-only approval''
        else
          bindr (require_authority e tenant ''approval'' actor (approver_roles p)) (\<lambda>_.
          bindr (operator_origin s tenant tool args) (\<lambda>org.
          bindr (validated e tenant agent plan (Some org)) (\<lambda>vs.
          create_task e now tenant OPERATOR_CHANNEL (OPERATOR_REPLY_PREFIX @ key) agent plan actor
            vs (if p_independent p then [] else actor) s)))))"

section \<open>Frames\<close>

lemma refresh_fields [simp]:
  "steps (refresh now tenant task s) = steps s"
  "approvals (refresh now tenant task s) = approvals s"
  "freezes (refresh now tenant task s) = freezes s"
  "devices (refresh now tenant task s) = devices s"
  "events (refresh now tenant task s) = events s"
  "runs (refresh now tenant task s) = runs s"
  "turns (refresh now tenant task s) = turns s"
  "uuids (refresh now tenant task s) = uuids s"
  by (simp_all add: refresh_def)

lemma task_steps_refresh [simp]: "task_steps (refresh now tenant task s) t k = task_steps s t k"
  by (simp add: task_steps_def)

lemma refresh_all_simps [simp]:
  "refresh_all now tenant [] s = s"
  "refresh_all now tenant (k # ks) s = refresh_all now tenant ks (refresh now tenant k s)"
  by (simp_all add: refresh_all_def)

lemma refresh_all_fields [simp]:
  "steps (refresh_all now tenant ks s) = steps s"
  "approvals (refresh_all now tenant ks s) = approvals s"
  "freezes (refresh_all now tenant ks s) = freezes s"
  "devices (refresh_all now tenant ks s) = devices s"
  "events (refresh_all now tenant ks s) = events s"
  "runs (refresh_all now tenant ks s) = runs s"
  "turns (refresh_all now tenant ks s) = turns s"
  "uuids (refresh_all now tenant ks s) = uuids s"
  by (induction ks arbitrary: s) simp_all

lemma insert_step_fields [simp]:
  "tasks (insert_step e now tenant task approver pos v s) = tasks s"
  "steps (insert_step e now tenant task approver pos v s) =
     steps s @ [new_step tenant task pos v (fresh e s)]"
  "approvals (insert_step e now tenant task approver pos v s) =
     (if v_needed v
      then approvals s @ [new_approval now tenant (fresh e s) (v_fingerprint v) approver]
      else approvals s)"
  "freezes (insert_step e now tenant task approver pos v s) = freezes s"
  "runs (insert_step e now tenant task approver pos v s) = runs s"
  "turns (insert_step e now tenant task approver pos v s) = turns s"
  "events (insert_step e now tenant task approver pos v s) = events s"
  "uuids (insert_step e now tenant task approver pos v s) = Suc (uuids s)"
  by (auto simp: insert_step_def Let_def drawn_def)

lemma insert_steps_fields [simp]:
  "tasks (insert_steps e now tenant task approver pos vs s) = tasks s"
  "freezes (insert_steps e now tenant task approver pos vs s) = freezes s"
  "runs (insert_steps e now tenant task approver pos vs s) = runs s"
  "turns (insert_steps e now tenant task approver pos vs s) = turns s"
  "events (insert_steps e now tenant task approver pos vs s) = events s"
  "uuids (insert_steps e now tenant task approver pos vs s) = uuids s + length vs"
  by (induction vs arbitrary: pos s) simp_all

text \<open>The rows a plan adds, in closed form.\<close>

lemma insert_steps_steps:
  "steps (insert_steps e now tenant task approver pos vs s) =
     steps s @ map (\<lambda>i. new_step tenant task (pos + i) (vs ! i) (uuid4 e (uuids s + i))) [0..<length vs]"
proof (induction vs arbitrary: pos s)
  case (Cons v vs)
  have "map (\<lambda>i. new_step tenant task (pos + i) ((v # vs) ! i) (uuid4 e (uuids s + i)))
      [0..<Suc (length vs)]
    = new_step tenant task pos v (uuid4 e (uuids s)) #
      map (\<lambda>i. new_step tenant task (Suc pos + i) (vs ! i) (uuid4 e (Suc (uuids s) + i))) [0..<length vs]"
    by (simp add: upt_conv_Cons comp_def flip: map_Suc_upt del: upt_Suc)
  with Cons show ?case by (simp add: fresh_def del: upt_Suc)
qed simp

lemma insert_steps_approvals:
  "approvals (insert_steps e now tenant task approver pos vs s) =
     approvals s @ map (\<lambda>i. new_approval now tenant (uuid4 e (uuids s + i)) (v_fingerprint (vs ! i)) approver)
       (filter (\<lambda>i. v_needed (vs ! i)) [0..<length vs])"
proof (induction vs arbitrary: pos s)
  case (Cons v vs)
  have "[0..<length (v # vs)] = 0 # map Suc [0..<length vs]"
    by (simp add: upt_conv_Cons map_Suc_upt del: upt_Suc)
  with Cons show ?case by (simp add: fresh_def filter_map comp_def)
qed simp

section \<open>What submission guarantees\<close>

lemma create_taskE:
  assumes "create_task e now tenant channel key agent plan actor vs approver s = Inr (tid, s')"
  obtains (replay) old fp where "find_task s tenant channel key = Some old"
      "digest e (JObj [(''agent'', JStr agent), (''steps'', plan)]) = Inr fp"
      "t_fingerprint old = fp" "tid = t_id old" "s' = s"
      "require_authority e tenant channel actor default_roles = Inr ()"
  | (created) fp s1 where "find_task s tenant channel key = None"
      "digest e (JObj [(''agent'', JStr agent), (''steps'', plan)]) = Inr fp"
      "require_active e s tenant = Inr ()" "pending_tasks s tenant < 1000" "tid = fresh e s"
      "require_authority e tenant channel actor default_roles = Inr ()"
      "s1 = (drawn s)\<lparr>tasks := tasks s @ [new_task now tid tenant channel key fp agent actor]\<rparr>"
      "s' = refresh now tenant tid (audit now tenant tid ''task.created'' actor
              [(''agent'', JStr agent), (''steps'', JInt (int (length vs)))]
              (insert_steps e now tenant tid approver 0 vs s1))"
  using assms
  by (cases "find_task s tenant channel key")
     (auto simp: create_task_def res_simps Let_def)

lemma submitE:
  assumes "submit e now tenant channel key agent plan actor s = Inr (tid, s')"
  obtains vs p where
    "channel \<noteq> OPERATOR_CHANNEL"
    "\<forall>v \<in> set [tenant, channel, key, agent, actor]. ident_ok v"
    "validated e tenant agent plan (event_origin s tenant channel key) = Inr vs"
    "policy_of e tenant agent = Inr p"
    "\<forall>x \<in> set (plan_steps plan).
       destination_ok channel (event_origin s tenant channel key) p x = Inr ()"
    "create_task e now tenant channel key agent plan actor vs [] s = Inr (tid, s')"
proof -
  from assms obtain vs p us where body: "channel \<noteq> OPERATOR_CHANNEL"
      "\<forall>v \<in> set [tenant, channel, key, agent, actor]. ident_ok v"
      "validated e tenant agent plan (event_origin s tenant channel key) = Inr vs"
      "policy_of e tenant agent = Inr p"
      and dest: "each (destination_ok channel (event_origin s tenant channel key) p) (plan_steps plan) = Inr us"
      and create: "create_task e now tenant channel key agent plan actor vs [] s = Inr (tid, s')"
    unfolding submit_def Let_def res_simps by auto
  have "\<forall>x \<in> set (plan_steps plan).
      destination_ok channel (event_origin s tenant channel key) p x = Inr ()"
    using each_Inr_nth[OF dest] by (metis in_set_conv_nth unit.exhaust)
  with body create show ?thesis using that by blast
qed

lemma operator_replyE:
  assumes "operator_reply e now tenant channel conv text actor role key agent s = Inr (tid, s')"
  obtains p org vs where
    "channel \<in> set OUTBOUND_CHANNELS" "role \<in> set (approver_roles p)" "actor \<noteq> []"
    "policy_of e tenant agent = Inr p"
    "require_authority e tenant ''approval'' actor (approver_roles p) = Inr ()"
    "operator_origin s tenant (channel @ ''.send'')
       (JObj [(the (destination_field (channel @ ''.send'')), JStr conv), (''text'', JStr text)]) = Inr org"
    "validated e tenant agent (reply_plan (channel @ ''.send'') conv text) (Some org) = Inr vs"
    "create_task e now tenant OPERATOR_CHANNEL (OPERATOR_REPLY_PREFIX @ key) agent
       (reply_plan (channel @ ''.send'') conv text) actor vs
       (if p_independent p then [] else actor) s = Inr (tid, s')"
  using assms unfolding operator_reply_def Let_def res_simps ident_ok_def by auto

end
