(* ===== verification/Engine_Run.thy ===== *)
theory Engine_Run
  imports Engine_Submit
begin

text \<open>
  Running tasks (\<^verbatim>\<open>platform_runtime/engine.py\<close>): approvals, the leased claim of the next
  step, its completion, and the operator's cancel, reconcile, freeze and device operations.
\<close>

definition active_step :: "step_row \<Rightarrow> bool" where
  "active_step r \<longleftrightarrow> s_status r \<in> {Queued, WaitingApproval, Running}"

definition find_step :: "db \<Rightarrow> string \<Rightarrow> string \<Rightarrow> step_row option" where
  "find_step s tenant sid = find (\<lambda>r. s_tenant r = tenant \<and> s_id r = sid) (steps s)"

definition find_approval :: "db \<Rightarrow> string \<Rightarrow> string \<Rightarrow> approval_row option" where
  "find_approval s tenant sid = find (\<lambda>a. a_tenant a = tenant \<and> a_step a = sid) (approvals s)"

definition get_task :: "db \<Rightarrow> string \<Rightarrow> string \<Rightarrow> task_row option" where
  "get_task s tenant tid = find (\<lambda>t. t_tenant t = tenant \<and> t_id t = tid) (tasks s)"

section \<open>Approvals\<close>

definition APPROVER_ROLES :: "string list" where
  "APPROVER_ROLES = [''owner'', ''operator'', ''super-admin'']"

text \<open>The join of an approval with its step and task.\<close>

definition approval_join ::
  "db \<Rightarrow> string \<Rightarrow> string \<Rightarrow> (approval_row \<times> step_row \<times> task_row) option" where
  "approval_join s tenant sid =
     (case find_approval s tenant sid of
        None \<Rightarrow> None
      | Some a \<Rightarrow> (case find (\<lambda>r. s_id r = a_step a) (steps s) of
          None \<Rightarrow> None
        | Some r \<Rightarrow> (case find (\<lambda>t. t_id t = s_task r) (tasks s) of
            None \<Rightarrow> None
          | Some t \<Rightarrow> Some (a, r, t))))"

definition decide_update :: "int \<Rightarrow> string \<Rightarrow> string \<Rightarrow> string \<Rightarrow> bool \<Rightarrow> db \<Rightarrow> db" where
  "decide_update now tenant sid actor approved s =
     upd_steps (\<lambda>r. s_tenant r = tenant \<and> s_id r = sid)
       (\<lambda>r. r\<lparr>s_status := (if approved then Queued else Cancelled)\<rparr>)
     (upd_approvals (\<lambda>a. a_tenant a = tenant \<and> a_step a = sid)
       (\<lambda>a. a\<lparr>a_status := (if approved then ApApproved else ApRejected),
              a_actor := actor, a_decided := Some now\<rparr>) s)"

definition approve ::
  "env \<Rightarrow> int \<Rightarrow> string \<Rightarrow> string \<Rightarrow> string \<Rightarrow> string \<Rightarrow> string \<Rightarrow> db \<Rightarrow> db res" where
  "approve e now tenant sid actor decision role s =
     (if role \<notin> set APPROVER_ROLES then raise Forbidden ''Approval role required''
      else if decision \<notin> {''approved'', ''rejected''} then raise ValueError ''Invalid decision''
      else case approval_join s tenant sid of
        None \<Rightarrow> raise NotFound ''Approval not found''
      | Some (a, r, t) \<Rightarrow>
          bindr (require_active e s tenant) (\<lambda>_.
          bindr (require_task_parent s now tenant (s_task r)) (\<lambda>_.
          bindr (policy_of e tenant (t_agent t)) (\<lambda>p.
          bindr (require_authority e tenant ''approval'' actor (approver_roles p)) (\<lambda>_.
          if decision = ''approved'' \<and> p_independent p \<and> actor = t_actor t
            then raise Forbidden ''Independent approver required''
          else if p_approver_role p \<notin> {''operator'', ''owner''}
            then raise Forbidden ''Unsupported approver policy''
          else if p_approver_role p = ''owner'' \<and> role \<notin> {''owner'', ''super-admin''}
            then raise Forbidden ''Owner-only approval''
          else if a_status a \<noteq> ApPending \<or> s_status r \<notin> {Queued, WaitingApproval}
              \<or> a_expires a \<le> now
            then raise Conflict ''Approval already decided, expired or step not pending''
          else
            Inr (refresh now tenant (s_task r)
              (audit now tenant (s_task r) (''approval.'' @ decision) actor
                [(''step'', JStr sid), (''fingerprint'', JStr (a_fingerprint a))]
                (decide_update now tenant sid actor (decision = ''approved'') s))))))))"

section \<open>Claiming a step\<close>

text \<open>Running steps whose lease ran out become \<open>Uncertain\<close>; nobody knows what they did.\<close>

definition expire_step :: "int \<Rightarrow> string \<Rightarrow> step_row \<Rightarrow> db \<Rightarrow> db" where
  "expire_step now tenant r s =
     refresh now tenant (s_task r)
       (audit now tenant (s_task r) ''step.uncertain'' ''recovery'' [(''step'', JStr (s_id r))]
         (upd_steps (\<lambda>x. s_tenant x = tenant \<and> s_id x = s_id r)
           (\<lambda>x. x\<lparr>s_status := Uncertain, s_error := ''lease_expired'', s_claim := []\<rparr>) s))"

definition lease_expired :: "int \<Rightarrow> string \<Rightarrow> step_row \<Rightarrow> bool" where
  "lease_expired now tenant r \<longleftrightarrow>
     s_tenant r = tenant \<and> s_status r = Running \<and> s_lease r \<le> now"

definition expire_leases :: "int \<Rightarrow> string \<Rightarrow> db \<Rightarrow> db" where
  "expire_leases now tenant s =
     fold (expire_step now tenant) (filter (lease_expired now tenant) (steps s)) s"

text \<open>Every earlier step of the task has succeeded.\<close>

definition predecessors_done :: "db \<Rightarrow> step_row \<Rightarrow> bool" where
  "predecessors_done s r \<longleftrightarrow>
     \<not> (\<exists>x \<in> set (steps s). s_task x = s_task r \<and> s_position x < s_position r
          \<and> s_status x \<noteq> Succeeded)"

definition claimable :: "db \<Rightarrow> string \<Rightarrow> string \<Rightarrow> step_row \<Rightarrow> task_row \<Rightarrow> bool" where
  "claimable s tenant device r t \<longleftrightarrow>
     t_id t = s_task r \<and> s_tenant r = tenant \<and> s_device r = device
     \<and> s_status r \<in> {Queued, WaitingApproval}
     \<and> t_status t \<in> {Queued, Running, WaitingApproval}
     \<and> predecessors_done s r"

definition claim_rows :: "db \<Rightarrow> string \<Rightarrow> string \<Rightarrow> (step_row \<times> task_row) list" where
  "claim_rows s tenant device =
     sort_key (\<lambda>(r, t). t_created t) (sort_key (\<lambda>(r, t). s_position r)
       (concat (map (\<lambda>r. map (Pair r) (filter (claimable s tenant device r) (tasks s)))
          (steps s))))"

record claimed =
  cl_step :: step_row
  cl_agent :: string

definition set_step :: "string \<Rightarrow> (step_row \<Rightarrow> step_row) \<Rightarrow> db \<Rightarrow> db" where
  "set_step sid f s = upd_steps (\<lambda>x. s_id x = sid) f s"

text \<open>A step whose agent run no longer authorises it is cancelled with its open approval.\<close>

definition retire_inactive :: "int \<Rightarrow> string \<Rightarrow> step_row \<Rightarrow> db \<Rightarrow> db" where
  "retire_inactive now tenant r s =
     refresh now tenant (s_task r)
       (audit now tenant (s_task r) ''step.cancelled'' ''agent-loop''
         [(''step'', JStr (s_id r)), (''reason'', JStr ''agent_run_inactive'')]
         (upd_approvals (\<lambda>a. a_tenant a = tenant \<and> a_step a = s_id r
              \<and> a_status a \<in> {ApPending, ApApproved})
           (\<lambda>a. a\<lparr>a_status := ApRejected, a_actor := ''agent-loop'', a_decided := Some now\<rparr>)
           (upd_steps (\<lambda>x. s_tenant x = tenant \<and> s_id x = s_id r)
             (\<lambda>x. x\<lparr>s_status := Cancelled, s_claim := [], s_lease := 0,
                    s_error := ''agent_run_inactive''\<rparr>) s)))"

definition fail_step :: "int \<Rightarrow> string \<Rightarrow> string \<Rightarrow> step_row \<Rightarrow> db \<Rightarrow> db" where
  "fail_step now tenant err r s =
     refresh now tenant (s_task r)
       (set_step (s_id r) (\<lambda>x. x\<lparr>s_status := Failed, s_error := err\<rparr>) s)"

definition park_step :: "int \<Rightarrow> string \<Rightarrow> step_row \<Rightarrow> db \<Rightarrow> db" where
  "park_step now tenant r s =
     refresh now tenant (s_task r) (set_step (s_id r) (\<lambda>x. x\<lparr>s_status := WaitingApproval\<rparr>) s)"

text \<open>
  Re-validation of a candidate: \<open>Inl\<close> an exception that escapes, \<open>Inr (Inl err)\<close> a refusal
  recorded on the step, \<open>Inr (Inr v)\<close> the step as the current policy validates it.
\<close>

definition claim_refusal :: "string \<Rightarrow> exn \<Rightarrow> (string + vstep) res" where
  "claim_refusal err x =
     (if catches [NotFound] x then Inr (Inl ''conversation_unknown'')
      else if catches [ValueError, LookupError, PermissionError] x then Inr (Inl err)
      else Inl x)"

definition step_plan :: "step_row \<Rightarrow> json" where
  "step_plan r = JList [JObj [(''tool'', JStr (s_tool r)), (''args'', s_args r),
      (''device'', JStr (s_device r))]]"

definition claim_check ::
  "env \<Rightarrow> db \<Rightarrow> string \<Rightarrow> step_row \<Rightarrow> task_row \<Rightarrow> (string + vstep) res" where
  "claim_check e s tenant r t =
     (case require_authority e tenant (t_channel t) (t_actor t) default_roles of
        Inl x \<Rightarrow> claim_refusal ''authority_revoked'' x
      | Inr _ \<Rightarrow>
          (case bindr (task_origin s tenant (t_channel t) (t_event_key t) (s_tool r) (s_args r))
                  (\<lambda>org. validated e tenant (t_agent t) (step_plan r) org) of
             Inl x \<Rightarrow> claim_refusal ''policy_changed'' x
           | Inr vs \<Rightarrow> (case vs of [] \<Rightarrow> Inr (Inl ''policy_changed'') | v # _ \<Rightarrow> Inr (Inr v))))"

text \<open>The lease: a fresh token, one more attempt.\<close>

definition lease_step ::
  "env \<Rightarrow> int \<Rightarrow> string \<Rightarrow> string \<Rightarrow> int \<Rightarrow> step_row \<Rightarrow> task_row \<Rightarrow> db \<Rightarrow> claimed \<times> db" where
  "lease_step e now tenant worker seconds r t s =
     (let token = fresh e s;
          s1 = set_step (s_id r) (\<lambda>x. x\<lparr>s_status := Running, s_claim := token, s_worker := worker,
                 s_lease := now + seconds, s_attempts := Suc (s_attempts x)\<rparr>) (drawn s);
          s2 = refresh now tenant (s_task r)
                 (audit now tenant (s_task r) ''step.claimed'' worker [(''step'', JStr (s_id r))] s1)
      in (\<lparr>cl_step = r\<lparr>s_claim := token, s_worker := worker, s_lease := now + seconds\<rparr>,
           cl_agent = t_agent t\<rparr>, s2))"

definition consume_approval :: "string \<Rightarrow> db \<Rightarrow> db" where
  "consume_approval sid s = upd_approvals (\<lambda>a. a_step a = sid) (\<lambda>a. a\<lparr>a_status := ApConsumed\<rparr>) s"

text \<open>One candidate of the claim loop: \<open>None\<close> moves on to the next one.\<close>

definition claim_row ::
  "env \<Rightarrow> int \<Rightarrow> string \<Rightarrow> string \<Rightarrow> int \<Rightarrow> step_row \<Rightarrow> task_row \<Rightarrow> db
     \<Rightarrow> (claimed option \<times> db) res" where
  "claim_row e now tenant worker seconds r t s =
     (case require_task_parent s now tenant (s_task r) of
        Inl _ \<Rightarrow> Inr (None, retire_inactive now tenant r s)
      | Inr _ \<Rightarrow> bindr (claim_check e s tenant r t) (\<lambda>verdict.
          case verdict of
            Inl err \<Rightarrow> Inr (None, fail_step now tenant err r s)
          | Inr v \<Rightarrow>
              if v_fingerprint v \<noteq> s_fingerprint r
                then Inr (None, fail_step now tenant ''policy_changed'' r s)
              else if \<not> s_needed r then
                (let (c, s') = lease_step e now tenant worker seconds r t s in Inr (Some c, s'))
              else (case find_approval s tenant (s_id r) of
                  None \<Rightarrow> Inr (None, fail_step now tenant ''approval_expired_or_invalid'' r s)
                | Some a \<Rightarrow>
                    if a_fingerprint a \<noteq> s_fingerprint r \<or> a_expires a \<le> now
                      then Inr (None, fail_step now tenant ''approval_expired_or_invalid'' r s)
                    else if a_status a \<noteq> ApApproved then Inr (None, park_step now tenant r s)
                    else (case bindr (policy_of e tenant (t_agent t)) (\<lambda>p.
                              require_authority e tenant ''approval'' (a_actor a) (approver_roles p)) of
                        Inl x \<Rightarrow>
                          if catches [Forbidden] x
                          then Inr (None, fail_step now tenant ''approver_revoked'' r s) else Inl x
                      | Inr _ \<Rightarrow>
                          (let (c, s') = lease_step e now tenant worker seconds r t
                                           (consume_approval (s_id r) s)
                           in Inr (Some c, s'))))))"

fun claim_loop ::
  "env \<Rightarrow> int \<Rightarrow> string \<Rightarrow> string \<Rightarrow> int \<Rightarrow> (step_row \<times> task_row) list \<Rightarrow> db
     \<Rightarrow> (claimed option \<times> db) res" where
  "claim_loop e now tenant worker seconds [] s = Inr (None, s)"
| "claim_loop e now tenant worker seconds ((r, t) # rs) s =
     bindr (claim_row e now tenant worker seconds r t s) (\<lambda>(c, s').
       case c of None \<Rightarrow> claim_loop e now tenant worker seconds rs s' | Some _ \<Rightarrow> Inr (c, s'))"

definition device_usable :: "db \<Rightarrow> string \<Rightarrow> string \<Rightarrow> bool" where
  "device_usable s tenant device \<longleftrightarrow>
     (case find (\<lambda>d. d_tenant d = tenant \<and> d_id d = device) (devices s) of
        None \<Rightarrow> False | Some d \<Rightarrow> \<not> d_revoked d)"

definition claim ::
  "env \<Rightarrow> int \<Rightarrow> string \<Rightarrow> string \<Rightarrow> string \<Rightarrow> int \<Rightarrow> db \<Rightarrow> (claimed option \<times> db) res" where
  "claim e now tenant worker device seconds s =
     (if worker = [] \<or> \<not> (5 \<le> seconds \<and> seconds \<le> 600) then raise ValueError ''Invalid lease''
      else
        let s1 = expire_leases now tenant s in
        if frozen s1 tenant then Inr (None, s1)
        else case require_authority e tenant '''' '''' default_roles of
            Inl x \<Rightarrow> if catches [Forbidden] x then Inr (None, s1) else Inl x
          | Inr _ \<Rightarrow>
              if device \<noteq> [] \<and> \<not> device_usable s1 tenant device
                then raise Forbidden ''Device revoked or unknown''
              else claim_loop e now tenant worker seconds (claim_rows s1 tenant device) s1)"

section \<open>Finishing a step\<close>

definition holds_claim :: "int \<Rightarrow> string \<Rightarrow> string \<Rightarrow> string \<Rightarrow> step_row \<Rightarrow> bool" where
  "holds_claim now tenant sid token r \<longleftrightarrow>
     s_tenant r = tenant \<and> s_id r = sid \<and> s_claim r = token \<and> s_status r = Running
     \<and> now < s_lease r"

definition finish ::
  "int \<Rightarrow> string \<Rightarrow> string \<Rightarrow> string \<Rightarrow> json \<Rightarrow> status \<Rightarrow> string \<Rightarrow> db \<Rightarrow> db res" where
  "finish now tenant sid token result outcome err s =
     (if outcome \<notin> {Succeeded, Failed, Uncertain} then raise ValueError ''Invalid result status''
      else bindr (encode result) (\<lambda>text.
        if length text > 100000 then raise ValueError ''Result too large''
        else case find (holds_claim now tenant sid token) (steps s) of
            None \<Rightarrow> raise Conflict ''Stale claim or expired lease''
          | Some r \<Rightarrow>
              Inr (refresh now tenant (s_task r)
                (audit now tenant (s_task r) (''step.'' @ status_text outcome) (s_worker r)
                  [(''step'', JStr sid), (''error'', JStr (take 200 err))]
                  (set_step sid (\<lambda>x. x\<lparr>s_status := outcome, s_result := result,
                     s_error := take 200 err, s_claim := [], s_lease := 0\<rparr>) s)))))"

definition dispatch_allowed :: "env \<Rightarrow> int \<Rightarrow> string \<Rightarrow> claimed \<Rightarrow> db \<Rightarrow> bool res" where
  "dispatch_allowed e now tenant c s =
     (let r = cl_step c in
      bindr (require_active e s tenant) (\<lambda>_.
      bindr (require_task_parent s now tenant (s_task r)) (\<lambda>_.
      case get_task s tenant (s_task r) of
        None \<Rightarrow> raise Forbidden ''Task missing''
      | Some t \<Rightarrow>
          bindr (require_authority e tenant (t_channel t) (t_actor t) default_roles) (\<lambda>_.
          bindr (if s_needed r then
                   bindr (policy_of e tenant (cl_agent c)) (\<lambda>p.
                     require_authority e tenant ''approval''
                       (case find_approval s tenant (s_id r) of None \<Rightarrow> [] | Some a \<Rightarrow> a_actor a)
                       (approver_roles p))
                 else Inr ()) (\<lambda>_.
          Inr (find (holds_claim now tenant (s_id r) (s_claim r)) (steps s) \<noteq> None))))))"

text \<open>
  What running a handler does: it returns a result, reports a definite rejection, or raises (only
  the type name is kept). It runs outside every transaction and may change the database itself.
\<close>

datatype outcome = Returned json | Rejected string | Raised string

type_synonym handler = "string \<Rightarrow> string \<Rightarrow> string \<Rightarrow> json \<Rightarrow> string \<Rightarrow> db \<Rightarrow> outcome \<times> db"

text \<open>An operation of several transactions keeps what it committed when it raises.\<close>

definition settle_with :: "db \<Rightarrow> db res \<Rightarrow> bool res \<times> db" where
  "settle_with s r = (case r of Inl x \<Rightarrow> (Inl x, s) | Inr s' \<Rightarrow> (Inr True, s'))"

definition run_handler ::
  "handler \<Rightarrow> int \<Rightarrow> string \<Rightarrow> tool \<Rightarrow> claimed \<Rightarrow> db \<Rightarrow> bool res \<times> db" where
  "run_handler h now tenant spec c s =
     (let r = cl_step c;
          (out, s1) = h (s_tool r) tenant (cl_agent c) (s_args r) (s_id r) s in
      settle_with s1 (case out of
          Returned result \<Rightarrow> finish now tenant (s_id r) (s_claim r) result Succeeded [] s1
        | Rejected reason \<Rightarrow> finish now tenant (s_id r) (s_claim r) (JObj []) Failed
            (''DeliveryRejected: '' @ reason) s1
        | Raised name \<Rightarrow> finish now tenant (s_id r) (s_claim r) (JObj [])
            (if tl_external spec \<and> tl_risk spec \<noteq> ''read'' then Uncertain else Failed) name s1))"

text \<open>One pass of a worker; the clock is read at the claim, at the fence and at the finish.\<close>

definition tick ::
  "env \<Rightarrow> handler \<Rightarrow> int \<Rightarrow> int \<Rightarrow> int \<Rightarrow> string \<Rightarrow> string \<Rightarrow> db \<Rightarrow> bool res \<times> db" where
  "tick e h t1 t2 t3 tenant worker s =
     (case claim e t1 tenant worker [] 90 s of
        Inl x \<Rightarrow> (Inl x, s)
      | Inr (None, s1) \<Rightarrow> (Inr False, s1)
      | Inr (Some c, s1) \<Rightarrow>
          (case registry_find (reg e) (s_tool (cl_step c)) of
             None \<Rightarrow> (raise LookupError ''Unknown executable tool'', s1)
           | Some spec \<Rightarrow>
              (case dispatch_allowed e t2 tenant c s1 of
                 Inr False \<Rightarrow> (Inr False, s1)
               | Inr True \<Rightarrow> run_handler h t3 tenant spec c s1
               | Inl x \<Rightarrow>
                   if catches [Forbidden] x then
                     (case finish t2 tenant (s_id (cl_step c)) (s_claim (cl_step c)) (JObj []) Failed
                             ''authority_revoked_before_dispatch'' s1 of
                        Inr s2 \<Rightarrow> (Inr False, s2)
                      | Inl y \<Rightarrow> if catches [Conflict] y then (Inr False, s1) else (Inl y, s1))
                   else (Inl x, s1))))"

section \<open>Operator actions\<close>

definition retire_status :: "status \<Rightarrow> status" where
  "retire_status st = (if st = Running then Uncertain else Cancelled)"

definition cancel :: "env \<Rightarrow> int \<Rightarrow> string \<Rightarrow> string \<Rightarrow> string \<Rightarrow> db \<Rightarrow> db res" where
  "cancel e now tenant tid actor s =
     bindr (require_authority e tenant ''web'' actor default_roles) (\<lambda>_.
     case get_task s tenant tid of
       None \<Rightarrow> raise NotFound ''Task not found''
     | Some t \<Rightarrow>
         if t_status t \<in> {Succeeded, Failed, Cancelled} then raise Conflict ''Terminal task''
         else
           let s1 = upd_steps (\<lambda>r. step_of tenant tid r \<and> active_step r)
                      (\<lambda>r. r\<lparr>s_status := retire_status (s_status r), s_claim := []\<rparr>) s;
               s2 = upd_approvals (\<lambda>a. a_tenant a = tenant
                        \<and> (\<exists>r \<in> set (steps s). s_task r = tid \<and> s_id r = a_step a)
                        \<and> a_status a \<in> {ApPending, ApApproved})
                      (\<lambda>a. a\<lparr>a_status := ApRejected\<rparr>) s1
           in Inr (refresh now tenant tid (audit now tenant tid ''task.cancel_requested'' actor [] s2)))"

definition reconcile ::
  "env \<Rightarrow> int \<Rightarrow> string \<Rightarrow> string \<Rightarrow> string \<Rightarrow> string \<Rightarrow> string \<Rightarrow> string \<Rightarrow> db \<Rightarrow> db res" where
  "reconcile e now tenant sid actor role outcome evidence s =
     (if role \<notin> {''owner'', ''super-admin''} then raise Forbidden ''Owner required''
      else if outcome \<notin> {''succeeded'', ''failed''} \<or> blank evidence \<or> length evidence > 500
        then raise ValueError ''Evidence required, maximum 500 characters''
      else bindr (require_authority e tenant ''web'' actor [''owner'']) (\<lambda>_.
        case find (\<lambda>r. s_tenant r = tenant \<and> s_id r = sid \<and> s_status r = Uncertain) (steps s) of
          None \<Rightarrow> raise Conflict ''Step is not uncertain''
        | Some r \<Rightarrow>
            Inr (refresh now tenant (s_task r)
              (audit now tenant (s_task r) ''step.reconciled'' actor
                [(''step'', JStr sid), (''outcome'', JStr outcome),
                 (''evidence'', JStr (take 500 evidence))]
                (upd_steps (\<lambda>x. s_tenant x = tenant \<and> s_id x = sid)
                  (\<lambda>x. x\<lparr>s_status := (if outcome = ''succeeded'' then Succeeded else Failed),
                         s_error := ''operator_reconciled''\<rparr>) s)))))"

text \<open>\<^verbatim>\<open>SELECT DISTINCT task\<close> of the rows that satisfy a condition.\<close>

definition tasks_of :: "(step_row \<Rightarrow> bool) \<Rightarrow> db \<Rightarrow> string list" where
  "tasks_of P s = remdups (map s_task (filter P (steps s)))"

definition freeze :: "env \<Rightarrow> int \<Rightarrow> string \<Rightarrow> bool \<Rightarrow> string \<Rightarrow> db \<Rightarrow> db res" where
  "freeze e now tenant stopped actor s =
     bindr (require_authority e tenant ''web'' actor [''owner'']) (\<lambda>_.
       let s1 = s\<lparr>freezes := (freezes s)(tenant \<mapsto> stopped)\<rparr>;
           running = (\<lambda>r. s_tenant r = tenant \<and> s_status r = Running);
           s2 = (if stopped
                 then refresh_all now tenant (tasks_of running s)
                        (upd_steps running (\<lambda>r. r\<lparr>s_status := Uncertain, s_claim := [],
                           s_error := ''tenant_frozen_during_execution''\<rparr>) s1)
                 else s1)
       in Inr (audit now tenant [] (if stopped then ''tenant.freeze'' else ''tenant.resume'')
                actor [] s2))"

definition device_name_ok :: "string \<Rightarrow> bool" where
  "device_name_ok d \<longleftrightarrow>
     list_all (\<lambda>c. is_alnum c \<or> c = CHR ''_'' \<or> c = CHR ''-'') d \<and> 1 \<le> length d \<and> length d \<le> 128"

definition upsert_device :: "string \<Rightarrow> string \<Rightarrow> bool \<Rightarrow> db \<Rightarrow> db" where
  "upsert_device tenant device revoked s =
     (if \<exists>d \<in> set (devices s). d_tenant d = tenant \<and> d_id d = device
      then s\<lparr>devices := upd_where (\<lambda>d. d_tenant d = tenant \<and> d_id d = device)
               (\<lambda>d. d\<lparr>d_revoked := revoked, d_generation := d_generation d + 1\<rparr>) (devices s)\<rparr>
      else s\<lparr>devices := devices s @ [\<lparr>d_tenant = tenant, d_id = device, d_revoked = revoked,
               d_generation = 1\<rparr>]\<rparr>)"

definition device_generation :: "string \<Rightarrow> string \<Rightarrow> db \<Rightarrow> int" where
  "device_generation tenant device s =
     (case find (\<lambda>d. d_tenant d = tenant \<and> d_id d = device) (devices s) of
        None \<Rightarrow> 0 | Some d \<Rightarrow> d_generation d)"

text \<open>Enrolling or revoking a device retires every active step bound to it.\<close>

definition retire_device :: "int \<Rightarrow> string \<Rightarrow> string \<Rightarrow> string \<Rightarrow> db \<Rightarrow> db" where
  "retire_device now tenant device actor s =
     (let bound = (\<lambda>r. s_tenant r = tenant \<and> s_device r = device \<and> active_step r);
          s1 = upd_approvals (\<lambda>a. a_tenant a = tenant \<and> a_status a \<in> {ApPending, ApApproved}
                   \<and> (\<exists>r \<in> set (steps s). bound r \<and> s_id r = a_step a))
                 (\<lambda>a. a\<lparr>a_status := ApRejected, a_actor := actor, a_decided := Some now\<rparr>) s;
          s2 = upd_steps bound (\<lambda>r. r\<lparr>s_status := retire_status (s_status r), s_claim := [],
                 s_lease := 0, s_error := ''device_enrollment_changed''\<rparr>) s1
      in refresh_all now tenant (tasks_of bound s) s2)"

definition device_change ::
  "env \<Rightarrow> int \<Rightarrow> string \<Rightarrow> string \<Rightarrow> bool \<Rightarrow> string \<Rightarrow> db \<Rightarrow> (int \<times> db) res" where
  "device_change e now tenant device revoked actor s =
     (if \<not> device_name_ok device then raise ValueError ''Invalid device identity''
      else bindr (require_authority e tenant ''web'' actor [''owner'']) (\<lambda>_.
        bindr (if revoked then Inr () else require_active e s tenant) (\<lambda>_.
          let s3 = upsert_device tenant device revoked (retire_device now tenant device actor s);
              gen = device_generation tenant device s3
          in Inr (gen, audit now tenant [] (if revoked then ''device.revoked'' else ''device.enrolled'')
                 actor [(''device'', JStr device), (''generation'', JInt gen)] s3))))"

section \<open>Reads\<close>

text \<open>\<^verbatim>\<open>list_tasks\<close>: newest first, the page size clamped to 1..200.\<close>

definition list_tasks :: "db \<Rightarrow> string \<Rightarrow> int \<Rightarrow> task_row list" where
  "list_tasks s tenant limit =
     take (nat (min 200 (max 1 limit)))
       (rev (sort_key t_created (rev (filter (\<lambda>t. t_tenant t = tenant) (tasks s)))))"

text \<open>\<^verbatim>\<open>get\<close>: a task with its steps in order and the approval of each.\<close>

definition get_view ::
  "db \<Rightarrow> string \<Rightarrow> string \<Rightarrow> (task_row \<times> (step_row \<times> approval_row option) list) res" where
  "get_view s tenant tid =
     (case get_task s tenant tid of
        None \<Rightarrow> raise NotFound ''Task not found''
      | Some t \<Rightarrow> Inr (t, map (\<lambda>r. (r\<lparr>s_claim := []\<rparr>, find (\<lambda>a. a_step a = s_id r) (approvals s)))
          (sort_key s_position (task_steps s tenant tid))))"

end
