(* ===== verification/Engine_Inv.thy ===== *)
theory Engine_Inv
  imports Engine_Run
begin

text \<open>
  The invariants of the task tables. Every operation but two changes the status of step rows
  along \<open>legal\<close>, a preorder on rows; the two others append rows (\<open>create_task\<close>) or take the lease
  (\<open>lease_step\<close>). The invariants are proved for these three shapes once, and each operation is an
  instance.
\<close>

section \<open>Rows\<close>

definition same_step :: "step_row \<Rightarrow> step_row \<Rightarrow> bool" where
  "same_step r r' \<longleftrightarrow> s_id r' = s_id r \<and> s_task r' = s_task r \<and> s_tenant r' = s_tenant r
     \<and> s_position r' = s_position r \<and> s_needed r' = s_needed r
     \<and> s_fingerprint r' = s_fingerprint r \<and> s_tool r' = s_tool r \<and> s_args r' = s_args r
     \<and> s_device r' = s_device r"

definition open_status :: "status set" where
  "open_status = {Queued, WaitingApproval}"

definition moves :: "status \<Rightarrow> status \<Rightarrow> bool" where
  "moves a b \<longleftrightarrow> a = b
     \<or> (a \<in> open_status \<and> b \<in> {Queued, WaitingApproval, Failed, Cancelled})
     \<or> (a = Running \<and> b \<in> {Succeeded, Failed, Uncertain})
     \<or> (a = Uncertain \<and> b \<in> {Succeeded, Failed})"

definition legal :: "step_row \<Rightarrow> step_row \<Rightarrow> bool" where
  "legal r r' \<longleftrightarrow> same_step r r' \<and> s_attempts r' = s_attempts r \<and> moves (s_status r) (s_status r')"

lemma moves_refl [simp]: "moves a a"
  by (simp add: moves_def)

lemma moves_trans: "moves a b \<Longrightarrow> moves b c \<Longrightarrow> moves a c"
  by (auto simp: moves_def open_status_def)

lemma legal_refl [simp]: "legal r r"
  by (simp add: legal_def same_step_def)

lemma legal_trans: "legal a b \<Longrightarrow> legal b c \<Longrightarrow> legal a c"
  by (auto simp: legal_def same_step_def intro: moves_trans)

text \<open>All rows of a table evolve legally.\<close>

definition evolves :: "step_row list \<Rightarrow> step_row list \<Rightarrow> bool" where
  "evolves xs ys \<longleftrightarrow> list_all2 legal xs ys"

lemma evolves_refl [simp]: "evolves xs xs"
  by (simp add: evolves_def list_all2_refl)

lemma evolves_trans: "evolves xs ys \<Longrightarrow> evolves ys zs \<Longrightarrow> evolves xs zs"
  unfolding evolves_def by (rule list_all2_trans[where ?P1.0 = legal and ?P2.0 = legal])
    (auto intro: legal_trans)

lemma evolves_upd:
  assumes "\<And>r. r \<in> set xs \<Longrightarrow> P r \<Longrightarrow> legal r (f r)"
  shows "evolves xs (upd_where P f xs)"
  using assms unfolding evolves_def by (induction xs) auto

lemma evolves_mem:
  assumes "evolves xs ys" and "r' \<in> set ys"
  obtains r where "r \<in> set xs" "legal r r'"
  using assms unfolding evolves_def
  by (metis in_set_conv_nth list_all2_conv_all_nth)

lemma evolves_mem_left:
  assumes "evolves xs ys" and "r \<in> set xs"
  obtains r' where "r' \<in> set ys" "legal r r'"
  using assms unfolding evolves_def
  by (metis in_set_conv_nth list_all2_conv_all_nth)

lemma evolves_map:
  assumes "evolves xs ys" and "\<And>r r'. same_step r r' \<Longrightarrow> k r' = k r"
  shows "map k ys = map k xs"
  using assms unfolding evolves_def legal_def
  by (induction xs ys rule: list_all2_induct) auto

section \<open>Invariants of the step table\<close>

definition attempts_ok :: "step_row \<Rightarrow> bool" where
  "attempts_ok r \<longleftrightarrow> s_attempts r \<le> 1
     \<and> (s_status r \<in> open_status \<longrightarrow> s_attempts r = 0)
     \<and> (s_status r \<in> {Running, Succeeded, Uncertain} \<longrightarrow> s_attempts r = 1)"

definition sequential :: "step_row list \<Rightarrow> bool" where
  "sequential xs \<longleftrightarrow> (\<forall>r \<in> set xs. \<forall>x \<in> set xs.
     s_attempts r = 1 \<and> s_task x = s_task r \<and> s_position x < s_position r \<longrightarrow> s_status x = Succeeded)"

definition steps_ok :: "step_row list \<Rightarrow> bool" where
  "steps_ok xs \<longleftrightarrow> distinct (map s_id xs) \<and> distinct (map (\<lambda>r. (s_task r, s_position r)) xs)
     \<and> (\<forall>r \<in> set xs. attempts_ok r) \<and> sequential xs"

lemma legal_attempts_ok: "legal r r' \<Longrightarrow> attempts_ok r \<Longrightarrow> attempts_ok r'"
  by (auto simp: legal_def attempts_ok_def moves_def open_status_def)

lemma legal_succeeded: "legal r r' \<Longrightarrow> s_status r = Succeeded \<Longrightarrow> s_status r' = Succeeded"
  by (auto simp: legal_def moves_def open_status_def)

lemma evolves_sequential: "evolves xs ys \<Longrightarrow> sequential xs \<Longrightarrow> sequential ys"
  unfolding sequential_def
  by (smt (verit) evolves_mem legal_def legal_succeeded same_step_def)

lemma evolves_steps_ok:
  assumes "evolves xs ys" and "steps_ok xs"
  shows "steps_ok ys"
proof -
  have "map s_id ys = map s_id xs"
    and "map (\<lambda>r. (s_task r, s_position r)) ys = map (\<lambda>r. (s_task r, s_position r)) xs"
    by (rule evolves_map[OF assms(1)]; simp add: same_step_def)+
  moreover have "\<forall>r \<in> set ys. attempts_ok r"
    using assms legal_attempts_ok by (metis evolves_mem steps_ok_def)
  ultimately show ?thesis
    using assms evolves_sequential by (simp add: steps_ok_def)
qed

text \<open>Appending the queued steps of a new task.\<close>

lemma append_steps_ok:
  assumes "steps_ok xs" and "distinct (map s_id (xs @ ys))"
    and "distinct (map (\<lambda>r. (s_task r, s_position r)) ys)"
    and "\<And>r x. r \<in> set xs \<Longrightarrow> x \<in> set ys \<Longrightarrow> s_task x \<noteq> s_task r"
    and "\<And>x. x \<in> set ys \<Longrightarrow> s_status x = Queued \<and> s_attempts x = 0"
  shows "steps_ok (xs @ ys)"
proof -
  have "distinct (map (\<lambda>r. (s_task r, s_position r)) (xs @ ys))"
    using assms(1,3,4) by (fastforce simp: steps_ok_def)
  moreover have "sequential (xs @ ys)"
    using assms(1,4,5) unfolding steps_ok_def sequential_def
    by (metis Un_iff set_append zero_neq_one)
  ultimately show ?thesis
    using assms by (auto simp: steps_ok_def attempts_ok_def open_status_def)
qed

text \<open>Taking the lease of the first unfinished step of a task.\<close>

lemma lease_steps_ok:
  assumes ok: "steps_ok xs" and r: "r \<in> set xs" "s_status r \<in> open_status"
    and pre: "\<And>x. x \<in> set xs \<Longrightarrow> s_task x = s_task r \<Longrightarrow> s_position x < s_position r
      \<Longrightarrow> s_status x = Succeeded"
    and f: "\<And>x. same_step x (f x) \<and> s_status (f x) = Running \<and> s_attempts (f x) = Suc (s_attempts x)"
  shows "steps_ok (upd_where (\<lambda>x. s_id x = s_id r) f xs)" (is "steps_ok ?ys")
proof -
  have key: "map k ?ys = map k xs" if "\<And>x. k (f x) = k x" for k :: "step_row \<Rightarrow> 'k"
    using that by (simp add: map_upd_where)
  have only: "x = r" if "x \<in> set xs" "s_id x = s_id r" for x
    using ok r that by (metis distinct_key_eq steps_ok_def)
  have att: "s_attempts r = 0" using ok r by (auto simp: steps_ok_def attempts_ok_def)
  have mem: "y \<in> set ?ys \<longleftrightarrow> (y \<in> set xs \<and> s_id y \<noteq> s_id r) \<or> y = f r" for y
    using only r by (force simp: in_upd_where)
  have fr: "same_step r (f r)" "s_status (f r) = Running" "s_attempts (f r) = 1"
    using f att by auto
  have "sequential ?ys"
    unfolding sequential_def
  proof (intro ballI impI)
    fix y x
    assume yx: "y \<in> set ?ys" "x \<in> set ?ys"
      and h: "s_attempts y = 1 \<and> s_task x = s_task y \<and> s_position x < s_position y"
    show "s_status x = Succeeded"
    proof (cases "y = f r")
      case True
      with h fr have "x \<noteq> f r" by auto
      with yx mem have "x \<in> set xs" by auto
      with True h fr pre show ?thesis by (auto simp: same_step_def)
    next
      case False
      with yx mem have y: "y \<in> set xs" by auto
      show ?thesis
      proof (cases "x = f r")
        case True
        with h y fr ok r have "s_status r = Succeeded"
          by (auto simp: steps_ok_def sequential_def same_step_def)
        with r show ?thesis by (simp add: open_status_def)
      next
        case False
        with yx mem y h ok show ?thesis by (auto simp: steps_ok_def sequential_def)
      qed
    qed
  qed
  moreover have "\<forall>y \<in> set ?ys. attempts_ok y"
    using ok fr mem by (auto simp: steps_ok_def attempts_ok_def open_status_def)
  ultimately show ?thesis
    using ok f by (simp add: steps_ok_def key same_step_def)
qed

end
