(* ===== verification/Engine_Safe.thy ===== *)
theory Engine_Safe
  imports Engine_Inv
begin

text \<open>
  The invariant of the engine's tables (\<open>engine_ok\<close>) and its preservation by every operation of
  \<^verbatim>\<open>platform_runtime/engine.py\<close> on tasks: submission, approval, claim, completion and
  the operator actions.
\<close>

section \<open>Approvals\<close>

definition alegal :: "approval_row \<Rightarrow> approval_row \<Rightarrow> bool" where
  "alegal a b \<longleftrightarrow> a_step b = a_step a \<and> a_fingerprint b = a_fingerprint a \<and> a_tenant b = a_tenant a
     \<and> a_expires b = a_expires a \<and> (a_status a = ApConsumed \<longrightarrow> a_status b = ApConsumed)"

lemma alegal_refl [simp]: "alegal a a"
  by (simp add: alegal_def)

lemma alegal_trans: "alegal a b \<Longrightarrow> alegal b c \<Longrightarrow> alegal a c"
  by (auto simp: alegal_def)

definition aevolves :: "approval_row list \<Rightarrow> approval_row list \<Rightarrow> bool" where
  "aevolves xs ys \<longleftrightarrow> list_all2 alegal xs ys"

lemma aevolves_refl [simp]: "aevolves xs xs"
  by (simp add: aevolves_def list_all2_refl)

lemma aevolves_trans: "aevolves xs ys \<Longrightarrow> aevolves ys zs \<Longrightarrow> aevolves xs zs"
  unfolding aevolves_def by (rule list_all2_trans[where ?P1.0 = alegal and ?P2.0 = alegal])
    (auto intro: alegal_trans)

lemma aevolves_upd:
  assumes "\<And>a. a \<in> set xs \<Longrightarrow> P a \<Longrightarrow> alegal a (f a)"
  shows "aevolves xs (upd_where P f xs)"
  using assms unfolding aevolves_def by (induction xs) auto

lemma aevolves_mem_left:
  assumes "aevolves xs ys" and "a \<in> set xs"
  obtains b where "b \<in> set ys" "alegal a b"
  using assms unfolding aevolves_def
  by (metis in_set_conv_nth list_all2_conv_all_nth)

lemma aevolves_keys:
  assumes "aevolves xs ys"
  shows "map a_step ys = map a_step xs" "map a_tenant ys = map a_tenant xs"
  using assms unfolding aevolves_def alegal_def by (induction xs ys rule: list_all2_induct) auto

text \<open>A step that needed an approval ran only against one that is now consumed.\<close>

definition approved_ok :: "step_row list \<Rightarrow> approval_row list \<Rightarrow> bool" where
  "approved_ok xs as \<longleftrightarrow> (\<forall>r \<in> set xs. s_needed r \<and> s_attempts r = 1 \<longrightarrow>
     (\<exists>a \<in> set as. a_step a = s_id r \<and> a_status a = ApConsumed \<and> a_fingerprint a = s_fingerprint r))"

lemma approved_ok_evolves:
  assumes "approved_ok xs as" and xy: "evolves xs ys" and ab: "aevolves as bs"
  shows "approved_ok ys bs"
  unfolding approved_ok_def
proof (intro ballI impI)
  fix y assume "y \<in> set ys" and n: "s_needed y \<and> s_attempts y = 1"
  then obtain x where x: "x \<in> set xs" "legal x y" using xy by (meson evolves_mem)
  with n have "s_needed x \<and> s_attempts x = 1" by (simp add: legal_def same_step_def)
  with x assms(1) obtain a where a: "a \<in> set as" "a_step a = s_id x" "a_status a = ApConsumed"
    "a_fingerprint a = s_fingerprint x" by (auto simp: approved_ok_def)
  then obtain b where "b \<in> set bs" "alegal a b" using ab by (meson aevolves_mem_left)
  with a x show "\<exists>a \<in> set bs. a_step a = s_id y \<and> a_status a = ApConsumed
      \<and> a_fingerprint a = s_fingerprint y"
    by (auto simp: alegal_def legal_def same_step_def intro!: bexI[of _ b])
qed

section \<open>The status of every task is the one its steps determine\<close>

definition coherent_but :: "(string \<times> string) set \<Rightarrow> db \<Rightarrow> bool" where
  "coherent_but K s \<longleftrightarrow> (\<forall>t \<in> set (tasks s). (t_tenant t, t_id t) \<notin> K \<longrightarrow>
     t_status t = task_status_of (map s_status (task_steps s (t_tenant t) (t_id t))))"

lemma coherent_mono: "coherent_but K s \<Longrightarrow> K \<subseteq> L \<Longrightarrow> coherent_but L s"
  by (auto simp: coherent_but_def)

lemma coherent_refresh:
  assumes "coherent_but (insert (tenant, tid) K) s"
  shows "coherent_but K (refresh now tenant tid s)"
  using assms by (auto simp: coherent_but_def refresh_def in_upd_where task_steps_def)

lemma coherent_refresh_all:
  assumes "coherent_but (K \<union> Pair tenant ` set ks) s"
  shows "coherent_but K (refresh_all now tenant ks s)"
  using assms
proof (induction ks arbitrary: s)
  case (Cons k ks)
  then have "coherent_but (insert (tenant, k) (K \<union> Pair tenant ` set ks)) s"
    by (simp add: insert_commute Un_commute)
  from coherent_refresh[OF this] Cons.IH show ?case by simp
qed simp

lemma coherent_same:
  assumes "coherent_but K s" and "tasks s' = tasks s" and "steps s' = steps s"
  shows "coherent_but K s'"
  using assms by (simp add: coherent_but_def task_steps_def)

lemma task_steps_upd:
  assumes "\<And>r. r \<in> set (steps s) \<Longrightarrow> P r \<Longrightarrow> \<not> step_of tenant tid r"
    and "\<And>r. s_tenant (f r) = s_tenant r \<and> s_task (f r) = s_task r"
  shows "task_steps (upd_steps P f s) tenant tid = task_steps s tenant tid"
proof -
  have "filter (step_of tenant tid) (upd_where P f xs) = filter (step_of tenant tid) xs"
    if "set xs \<subseteq> set (steps s)" for xs
    using that assms by (induction xs) (auto simp: step_of_def)
  then show ?thesis by (simp add: task_steps_def)
qed

lemma coherent_upd_steps:
  assumes "coherent_but K s"
    and "\<And>r. r \<in> set (steps s) \<Longrightarrow> P r \<Longrightarrow> (s_tenant r, s_task r) \<in> K"
    and "\<And>r. s_tenant (f r) = s_tenant r \<and> s_task (f r) = s_task r"
  shows "coherent_but K (upd_steps P f s)"
proof -
  have "task_steps (upd_steps P f s) (t_tenant t) (t_id t) = task_steps s (t_tenant t) (t_id t)"
    if "(t_tenant t, t_id t) \<notin> K" for t
    by (rule task_steps_upd) (use assms(2,3) that in \<open>auto simp: step_of_def dest: assms(2)\<close>)
  with assms(1) show ?thesis unfolding coherent_but_def upd_fields by metis
qed

section \<open>The invariant\<close>

definition frozen_ok :: "db \<Rightarrow> bool" where
  "frozen_ok s \<longleftrightarrow> (\<forall>r \<in> set (steps s). s_status r = Running \<longrightarrow> \<not> frozen s (s_tenant r))"

definition linked :: "db \<Rightarrow> bool" where
  "linked s \<longleftrightarrow> (\<forall>r \<in> set (steps s). (s_tenant r, s_task r) \<in> (\<lambda>t. (t_tenant t, t_id t)) ` set (tasks s))"

definition task_key :: "task_row \<Rightarrow> string \<times> string \<times> string" where
  "task_key t = (t_tenant t, t_channel t, t_event_key t)"

definition approval_ref :: "approval_row \<Rightarrow> string \<times> string" where
  "approval_ref a = (a_tenant a, a_step a)"

definition step_ref :: "step_row \<Rightarrow> string \<times> string" where
  "step_ref r = (s_tenant r, s_id r)"

definition keys_ok :: "db \<Rightarrow> bool" where
  "keys_ok s \<longleftrightarrow> distinct (map t_id (tasks s)) \<and> distinct (map task_key (tasks s))
     \<and> distinct (map a_step (approvals s)) \<and> approval_ref ` set (approvals s) \<subseteq> step_ref ` set (steps s)"

definition ids_ok :: "(nat \<Rightarrow> string) \<Rightarrow> db \<Rightarrow> bool" where
  "ids_ok u s \<longleftrightarrow> s_id ` set (steps s) \<union> t_id ` set (tasks s) \<subseteq> u ` {..<uuids s}"

definition engine_ok :: "(nat \<Rightarrow> string) \<Rightarrow> db \<Rightarrow> bool" where
  "engine_ok u s \<longleftrightarrow> steps_ok (steps s) \<and> approved_ok (steps s) (approvals s) \<and> keys_ok s
     \<and> linked s \<and> ids_ok u s \<and> frozen_ok s"

lemmas engine_ok_defs = engine_ok_def keys_ok_def linked_def ids_ok_def frozen_ok_def

lemma engine_ok_empty [simp]: "engine_ok u empty_db"
  by (simp add: engine_ok_defs empty_db_def steps_ok_def sequential_def approved_ok_def)

lemma coherent_empty [simp]: "coherent_but K empty_db"
  by (simp add: coherent_but_def empty_db_def)

text \<open>The columns of the task table no operation changes.\<close>

definition task_core :: "task_row \<Rightarrow> string list" where
  "task_core t = [t_id t, t_tenant t, t_channel t, t_event_key t, t_fingerprint t, t_agent t, t_actor t]"

definition tame :: "db \<Rightarrow> db \<Rightarrow> bool" where
  "tame s s' \<longleftrightarrow> evolves (steps s) (steps s') \<and> aevolves (approvals s) (approvals s')
     \<and> map task_core (tasks s') = map task_core (tasks s) \<and> uuids s \<le> uuids s'
     \<and> freezes s' = freezes s"

lemma tame_refl [simp]: "tame s s"
  by (simp add: tame_def)

lemma tame_trans: "tame a b \<Longrightarrow> tame b c \<Longrightarrow> tame a c"
  by (auto simp: tame_def intro: evolves_trans aevolves_trans)

lemma map_eq_finer:
  assumes "map f xs = map f ys" and "\<And>x y. f x = f y \<Longrightarrow> g x = g y"
  shows "map g xs = map g ys"
  using assms(1) by (auto simp: list_eq_iff_nth_eq intro: assms(2))

lemma map_task_core:
  assumes "map task_core ts' = map task_core ts"
  shows "map t_id ts' = map t_id ts" "map task_key ts' = map task_key ts"
    "map (\<lambda>t. (t_tenant t, t_id t)) ts' = map (\<lambda>t. (t_tenant t, t_id t)) ts"
  by (rule map_eq_finer[OF assms]; clarsimp simp: task_core_def task_key_def)+

lemma evolves_ids: "evolves xs ys \<Longrightarrow> map s_id ys = map s_id xs"
  by (rule evolves_map) (simp_all add: same_step_def)

lemma map_eq_image: "map f xs = map g ys \<Longrightarrow> f ` set xs = g ` set ys"
  by (metis image_set)

lemma map_approval_ref: "map approval_ref as = zip (map a_tenant as) (map a_step as)"
  by (induction as) (simp_all add: approval_ref_def)

lemma tame_engine_ok:
  assumes t: "tame s s'" and ok: "engine_ok u s"
  shows "engine_ok u s'"
proof -
  note tame = t[unfolded tame_def]
  have ids: "s_id ` set (steps s') = s_id ` set (steps s)"
    using tame evolves_ids map_eq_image by blast
  note core = map_task_core[OF tame[THEN conjunct2, THEN conjunct2, THEN conjunct1]]
  have a: "aevolves (approvals s) (approvals s')" and e: "evolves (steps s) (steps s')"
    using tame by auto
  have A: "map approval_ref (approvals s') = map approval_ref (approvals s)"
    using aevolves_keys[OF a] by (simp add: map_approval_ref)
  have B: "map step_ref (steps s') = map step_ref (steps s)"
    by (rule evolves_map[OF e]) (simp add: step_ref_def same_step_def)
  have "keys_ok s'"
    using ok core(1,2) aevolves_keys[OF a] map_eq_image[OF A] map_eq_image[OF B]
    unfolding engine_ok_def keys_ok_def by simp
  moreover have "linked s'"
    unfolding linked_def map_eq_image[OF core(3)]
  proof
    fix y assume "y \<in> set (steps s')"
    then obtain x where x: "x \<in> set (steps s)" "legal x y" using tame by (meson evolves_mem)
    with ok have "(s_tenant x, s_task x) \<in> (\<lambda>t. (t_tenant t, t_id t)) ` set (tasks s)"
      by (simp add: engine_ok_def linked_def)
    with x show "(s_tenant y, s_task y) \<in> (\<lambda>t. (t_tenant t, t_id t)) ` set (tasks s)"
      by (simp add: legal_def same_step_def)
  qed
  moreover have "ids_ok u s'"
  proof -
    have "u ` {..<uuids s} \<subseteq> u ` {..<uuids s'}" using tame by auto
    moreover have "s_id ` set (steps s) \<union> t_id ` set (tasks s) \<subseteq> u ` {..<uuids s}"
      using ok by (simp only: engine_ok_def ids_ok_def)
    ultimately show ?thesis unfolding ids_ok_def ids map_eq_image[OF core(1)] by (rule subset_trans[rotated])
  qed
  moreover have "frozen_ok s'"
    unfolding frozen_ok_def
  proof (intro ballI impI)
    fix y assume "y \<in> set (steps s')" and run: "s_status y = Running"
    then obtain x where x: "x \<in> set (steps s)" "legal x y" using tame by (meson evolves_mem)
    with run have "s_status x = Running" "s_tenant y = s_tenant x"
      by (auto simp: legal_def moves_def same_step_def)
    with x ok tame show "\<not> frozen s' (s_tenant y)"
      by (auto simp: engine_ok_def frozen_ok_def frozen_def)
  qed
  ultimately show ?thesis
    using ok tame evolves_steps_ok approved_ok_evolves by (auto simp: engine_ok_def)
qed

section \<open>Preservation\<close>

definition good :: "(nat \<Rightarrow> string) \<Rightarrow> db \<Rightarrow> bool" where
  "good u s \<longleftrightarrow> engine_ok u s \<and> coherent_but {} s"

lemma good_empty [simp]: "good u empty_db"
  by (simp add: good_def)

lemma good_tame: "good u s \<Longrightarrow> tame s s' \<Longrightarrow> coherent_but {} s' \<Longrightarrow> good u s'"
  by (auto simp: good_def intro: tame_engine_ok)

lemma tame_same:
  assumes "steps s' = steps s" "approvals s' = approvals s" "tasks s' = tasks s"
    "freezes s' = freezes s" "uuids s \<le> uuids s'"
  shows "tame s s'"
  using assms by (simp add: tame_def)

lemma good_same:
  assumes "good u s" "steps s' = steps s" "approvals s' = approvals s" "tasks s' = tasks s"
    "freezes s' = freezes s" "uuids s \<le> uuids s'"
  shows "good u s'"
  using assms by (auto simp: good_def intro: tame_engine_ok tame_same coherent_same)

lemma tame_audit [simp]: "tame s (audit now te k a c d s)"
  by (rule tame_same) simp_all

lemma tame_refresh [simp]: "tame s (refresh now te k s)"
  by (simp add: tame_def refresh_def map_upd_where task_core_def)

lemma tame_refresh_all [simp]: "tame s (refresh_all now te ks s)"
  by (induction ks arbitrary: s) (auto intro: tame_trans[OF tame_refresh])

lemma tame_upd_steps:
  assumes "\<And>r. r \<in> set (steps s) \<Longrightarrow> P r \<Longrightarrow> legal r (f r)"
  shows "tame s (upd_steps P f s)"
  using assms by (simp add: tame_def evolves_upd)

lemma tame_upd_approvals:
  assumes "\<And>a. a \<in> set (approvals s) \<Longrightarrow> P a \<Longrightarrow> alegal a (f a)"
  shows "tame s (upd_approvals P f s)"
  using assms by (simp add: tame_def aevolves_upd)

text \<open>The common tail of the operations: an audit row, then the status of the task.\<close>

lemma tame_close: "tame s s1 \<Longrightarrow> tame s (refresh now te k (audit now' te' k' a c d s1))"
  by (rule tame_trans, assumption, rule tame_trans[OF tame_audit tame_refresh])

lemma coherent_close:
  assumes "coherent_but (insert (te, k) K) s"
  shows "coherent_but K (refresh now te k (audit now' te' k' a c d s))"
  by (rule coherent_refresh, rule coherent_same[OF assms]) simp_all

lemma coherent_upd_approvals: "coherent_but K s \<Longrightarrow> coherent_but K (upd_approvals P f s)"
  by (rule coherent_same) simp_all

text \<open>Step identifiers are unique.\<close>

lemma steps_unique:
  assumes "engine_ok u s" "r \<in> set (steps s)" "x \<in> set (steps s)" "s_id x = s_id r"
  shows "x = r"
  using assms by (metis distinct_key_eq engine_ok_def steps_ok_def)

lemma tasks_unique:
  assumes "engine_ok u s" "r \<in> set (tasks s)" "x \<in> set (tasks s)" "t_id x = t_id r"
  shows "x = r"
  using assms by (metis distinct_key_eq engine_ok_def keys_ok_def)

lemma approvals_unique:
  assumes "engine_ok u s" "r \<in> set (approvals s)" "x \<in> set (approvals s)" "a_step x = a_step r"
  shows "x = r"
  using assms by (metis distinct_key_eq engine_ok_def keys_ok_def)

text \<open>A legal change of one step, with its task refreshed, keeps the invariant.\<close>

lemma good_step_change:
  assumes good: "good u s" and r: "r \<in> set (steps s)" "s_tenant r = te"
    and P: "\<And>x. x \<in> set (steps s) \<Longrightarrow> P x \<Longrightarrow> s_id x = s_id r" and f: "legal r (f r)"
    and ten: "\<And>x. s_tenant (f x) = s_tenant x \<and> s_task (f x) = s_task x"
    and eq: "steps s' = steps (upd_steps P f s)" "tasks s' = tasks s" "freezes s' = freezes s"
      "uuids s' = uuids s" "aevolves (approvals s) (approvals s')"
  shows "good u (refresh now te (s_task r) s')"
proof (rule good_tame[OF good])
  have only: "x = r" if "x \<in> set (steps s)" "P x" for x
    using good r P that steps_unique by (metis good_def)
  have "tame s s'"
    using eq only f by (auto simp: tame_def intro!: evolves_upd)
  then show "tame s (refresh now te (s_task r) s')" by (rule tame_trans) simp
  have "coherent_but {(te, s_task r)} (upd_steps P f s)"
    by (rule coherent_upd_steps) (use good ten r only in \<open>auto simp: good_def intro: coherent_mono\<close>)
  then show "coherent_but {} (refresh now te (s_task r) s')"
    by (intro coherent_refresh, rule coherent_same) (use eq in auto)
qed

lemma approval_joinE:
  assumes "approval_join s tenant sid = Some (a, r, t)"
  shows "a \<in> set (approvals s)" "a_tenant a = tenant" "a_step a = sid" "r \<in> set (steps s)"
    "s_id r = sid" "t \<in> set (tasks s)" "t_id t = s_task r"
  using assms unfolding approval_join_def find_approval_def
  by (auto split: option.splits dest!: find_Some_mem)

lemma approval_join_tenant:
  assumes "engine_ok u s" "approval_join s tenant sid = Some (a, r, t)"
  shows "s_tenant r = tenant"
proof -
  note j = approval_joinE[OF assms(2)]
  with assms(1) have "approval_ref a \<in> step_ref ` set (steps s)"
    by (auto simp: engine_ok_def keys_ok_def)
  then obtain x where "x \<in> set (steps s)" "s_tenant x = tenant" "s_id x = sid"
    using j by (auto simp: approval_ref_def step_ref_def)
  with j steps_unique[OF assms(1), of r x] show ?thesis by auto
qed

lemma approve_good:
  assumes op: "approve e now tenant sid actor decision role s = Inr s'" and good: "good u s"
  shows "good u s'"
proof -
  from op obtain a r t where j: "approval_join s tenant sid = Some (a, r, t)"
    and st: "s_status r \<in> {Queued, WaitingApproval}" "a_status a = ApPending"
    and s': "s' = refresh now tenant (s_task r)
       (audit now tenant (s_task r) (''approval.'' @ decision) actor
         [(''step'', JStr sid), (''fingerprint'', JStr (a_fingerprint a))]
         (decide_update now tenant sid actor (decision = ''approved'') s))"
    unfolding approve_def res_simps by (auto split: option.splits if_splits prod.splits simp: res_simps)
  have ok: "engine_ok u s" using good by (simp add: good_def)
  note j' = approval_joinE[OF j] approval_join_tenant[OF ok j]
  have app: "aevolves (approvals s) (approvals (decide_update now tenant sid actor d s))" for d
  proof -
    have "x = a" if "x \<in> set (approvals s)" "a_step x = sid" for x
      using approvals_unique[OF ok j'(1) that(1)] that(2) j'(3) by simp
    then show ?thesis
      using st(2) by (auto simp: decide_update_def alegal_def intro!: aevolves_upd)
  qed
  have f: "legal r (r\<lparr>s_status := if decision = ''approved'' then Queued else Cancelled\<rparr>)"
    using st(1) by (simp add: legal_def same_step_def moves_def open_status_def)
  show ?thesis
    unfolding s' by (rule good_step_change[
        where P = "\<lambda>x. s_tenant x = tenant \<and> s_id x = sid" and
          f = "\<lambda>x. x\<lparr>s_status := if decision = ''approved'' then Queued else Cancelled\<rparr>",
        OF good j'(4) j'(8) _ f])
      (use app in \<open>simp_all add: decide_update_def j'(5)\<close>)
qed

end
