(* ===== verification/Engine_Reach.thy ===== *)
theory Engine_Reach
  imports Engine_Safe
begin

text \<open>
  Every operation of the engine keeps \<open>good\<close>; the step relation of an engine and its reachable
  states.
\<close>

section \<open>Changes of one step\<close>

lemma step_ids_eq:
  assumes "good u s" "r \<in> set (steps s)" "x \<in> set (steps s)" "s_id x = s_id r"
  shows "x = r"
  using assms steps_unique by (auto simp: good_def)

lemma finish_good:
  assumes op: "finish now tenant sid token result outcome err s = Inr s'" and good: "good u s"
  shows "good u s'"
proof -
  let ?f = "\<lambda>x. x\<lparr>s_status := outcome, s_result := result, s_error := take 200 err, s_claim := [],
    s_lease := 0\<rparr>"
  from op obtain r where r: "find (holds_claim now tenant sid token) (steps s) = Some r"
    and o: "outcome \<in> {Succeeded, Failed, Uncertain}"
    and s': "s' = refresh now tenant (s_task r)
      (audit now tenant (s_task r) (''step.'' @ status_text outcome) (s_worker r)
        [(''step'', JStr sid), (''error'', JStr (take 200 err))] (set_step sid ?f s))"
    unfolding finish_def res_simps by (auto split: option.splits if_splits)
  then have r': "r \<in> set (steps s)" "s_tenant r = tenant" "s_id r = sid" "s_status r = Running"
    by (auto simp: holds_claim_def dest!: find_Some_mem)
  have f: "legal r (?f r)"
    using r'(4) o by (auto simp: legal_def same_step_def moves_def)
  show ?thesis unfolding s'
    by (rule good_step_change[where P = "\<lambda>x. s_id x = sid" and f = ?f, OF good r'(1,2) _ f])
      (simp_all add: set_step_def r'(3))
qed

lemma reconcile_good:
  assumes op: "reconcile e now tenant sid actor role outcome evidence s = Inr s'" and good: "good u s"
  shows "good u s'"
proof -
  let ?f = "\<lambda>x. x\<lparr>s_status := (if outcome = ''succeeded'' then Succeeded else Failed),
    s_error := ''operator_reconciled''\<rparr>"
  from op obtain r where
    r: "find (\<lambda>r. s_tenant r = tenant \<and> s_id r = sid \<and> s_status r = Uncertain) (steps s) = Some r"
    and s': "s' = refresh now tenant (s_task r) (audit now tenant (s_task r) ''step.reconciled'' actor
      [(''step'', JStr sid), (''outcome'', JStr outcome), (''evidence'', JStr (take 500 evidence))]
      (upd_steps (\<lambda>x. s_tenant x = tenant \<and> s_id x = sid) ?f s))"
    unfolding reconcile_def res_simps by (auto split: option.splits if_splits)
  then have r': "r \<in> set (steps s)" "s_tenant r = tenant" "s_id r = sid" "s_status r = Uncertain"
    by (auto dest!: find_Some_mem)
  have f: "legal r (?f r)"
    using r'(4) by (auto simp: legal_def same_step_def moves_def)
  show ?thesis unfolding s'
    by (rule good_step_change[where P = "\<lambda>x. s_tenant x = tenant \<and> s_id x = sid" and f = ?f,
          OF good r'(1,2) _ f])
      (simp_all add: r'(3))
qed

lemma fail_step_good:
  assumes "good u s" "r \<in> set (steps s)" "s_tenant r = tenant" "s_status r \<in> open_status"
  shows "good u (fail_step now tenant err r s)"
  unfolding fail_step_def
  by (rule good_step_change[where P = "\<lambda>x. s_id x = s_id r"
        and f = "\<lambda>x. x\<lparr>s_status := Failed, s_error := err\<rparr>", OF assms(1-3)])
    (use assms(4) in \<open>auto simp: set_step_def legal_def same_step_def moves_def\<close>)

lemma park_step_good:
  assumes "good u s" "r \<in> set (steps s)" "s_tenant r = tenant" "s_status r \<in> open_status"
  shows "good u (park_step now tenant r s)"
  unfolding park_step_def
  by (rule good_step_change[where P = "\<lambda>x. s_id x = s_id r"
        and f = "\<lambda>x. x\<lparr>s_status := WaitingApproval\<rparr>", OF assms(1-3)])
    (use assms(4) in \<open>auto simp: set_step_def legal_def same_step_def moves_def\<close>)

lemma retire_inactive_good:
  assumes "good u s" "r \<in> set (steps s)" "s_tenant r = tenant" "s_status r \<in> open_status"
  shows "good u (retire_inactive now tenant r s)"
  unfolding retire_inactive_def
  by (rule good_step_change[where P = "\<lambda>x. s_tenant x = tenant \<and> s_id x = s_id r"
        and f = "\<lambda>x. x\<lparr>s_status := Cancelled, s_claim := [], s_lease := 0,
                    s_error := ''agent_run_inactive''\<rparr>", OF assms(1-3)])
    (use assms(4) in \<open>auto simp: legal_def same_step_def moves_def alegal_def intro!: aevolves_upd\<close>)

lemma expire_step_good:
  assumes "good u s" "r \<in> set (steps s)" "s_tenant r = tenant" "s_status r = Running"
  shows "good u (expire_step now tenant r s)"
  unfolding expire_step_def
  by (rule good_step_change[where P = "\<lambda>x. s_tenant x = tenant \<and> s_id x = s_id r"
        and f = "\<lambda>x. x\<lparr>s_status := Uncertain, s_error := ''lease_expired'', s_claim := []\<rparr>",
        OF assms(1-3)])
    (use assms(4) in \<open>auto simp: legal_def same_step_def moves_def\<close>)

text \<open>A row other than the changed one is untouched.\<close>

lemma change_keeps:
  "x \<in> set (steps s) \<Longrightarrow> s_id x \<noteq> s_id r \<Longrightarrow> x \<in> set (steps (fail_step now te err r s))"
  "x \<in> set (steps s) \<Longrightarrow> s_id x \<noteq> s_id r \<Longrightarrow> x \<in> set (steps (park_step now te r s))"
  "x \<in> set (steps s) \<Longrightarrow> s_id x \<noteq> s_id r \<Longrightarrow> x \<in> set (steps (retire_inactive now te r s))"
  "x \<in> set (steps s) \<Longrightarrow> s_id x \<noteq> s_id r \<Longrightarrow> x \<in> set (steps (expire_step now te r s))"
  by (auto simp: fail_step_def park_step_def retire_inactive_def expire_step_def set_step_def
      in_upd_where)

section \<open>Expired leases\<close>

lemma expire_fold_good:
  assumes "good u s" "distinct (map s_id rs)"
    "\<And>r. r \<in> set rs \<Longrightarrow> r \<in> set (steps s) \<and> s_tenant r = tenant \<and> s_status r = Running"
  shows "good u (fold (expire_step now tenant) rs s)"
  using assms
proof (induction rs arbitrary: s)
  case (Cons r rs)
  have "good u (expire_step now tenant r s)"
    using Cons.prems by (auto intro: expire_step_good)
  moreover have "x \<in> set (steps (expire_step now tenant r s)) \<and> s_tenant x = tenant \<and> s_status x = Running"
    if "x \<in> set rs" for x
  proof -
    from that Cons.prems(2) have "s_id x \<noteq> s_id r" by (metis distinct.simps(2) image_eqI list.simps(9) set_map)
    with that Cons.prems(3)[of x] show ?thesis by (auto intro: change_keeps)
  qed
  ultimately show ?case using Cons.IH Cons.prems(2) by simp
qed simp

lemma expire_leases_good: "good u s \<Longrightarrow> good u (expire_leases now tenant s)"
  unfolding expire_leases_def
  by (rule expire_fold_good)
    (auto simp: lease_expired_def good_def engine_ok_def steps_ok_def intro: distinct_map_filter)

lemma expire_leases_freezes [simp]: "freezes (expire_leases now tenant s) = freezes s"
proof -
  have "freezes (fold (expire_step now tenant) rs s) = freezes s" for rs s
    by (induction rs arbitrary: s) (simp_all add: expire_step_def)
  then show ?thesis by (simp add: expire_leases_def)
qed

section \<open>Creating a task\<close>

text \<open>The tables after the rows of a new task are appended, before its status is refreshed.\<close>

definition appended ::
  "(nat \<Rightarrow> string) \<Rightarrow> string \<Rightarrow> string \<Rightarrow> task_row \<Rightarrow> step_row list \<Rightarrow> approval_row list \<Rightarrow> db \<Rightarrow> db \<Rightarrow> bool" where
  "appended u tenant tid t xs as s s' \<longleftrightarrow>
     tasks s' = tasks s @ [t] \<and> steps s' = steps s @ xs \<and> approvals s' = approvals s @ as
     \<and> uuids s' = Suc (uuids s) + length xs \<and> freezes s' = freezes s
     \<and> t_tenant t = tenant \<and> t_id t = tid \<and> tid = u (uuids s)
     \<and> (\<forall>i < length xs. s_id (xs ! i) = u (Suc (uuids s) + i) \<and> s_position (xs ! i) = i)
     \<and> (\<forall>x \<in> set xs. s_tenant x = tenant \<and> s_task x = tid \<and> s_status x = Queued \<and> s_attempts x = 0)
     \<and> distinct (map a_step as) \<and> (\<forall>a \<in> set as. a_tenant a = tenant \<and> a_step a \<in> s_id ` set xs)
     \<and> task_key t \<notin> task_key ` set (tasks s)"

lemma create_appended:
  assumes "find_task s tenant channel key = None" "uuid4 e = u" "inj u"
    and s1: "s1 = (drawn s)\<lparr>tasks := tasks s @ [new_task now (fresh e s) tenant channel key fp agent actor]\<rparr>"
  shows "appended u tenant (fresh e s) (new_task now (fresh e s) tenant channel key fp agent actor)
    (map (\<lambda>i. new_step tenant (fresh e s) i (vs ! i) (u (Suc (uuids s) + i))) [0..<length vs])
    (map (\<lambda>i. new_approval now tenant (u (Suc (uuids s) + i)) (v_fingerprint (vs ! i)) approver)
       (filter (\<lambda>i. v_needed (vs ! i)) [0..<length vs]))
    s (insert_steps e now tenant (fresh e s) approver 0 vs s1)"
proof -
  have "distinct (map (\<lambda>i. u (Suc (uuids s) + i)) (filter (\<lambda>i. v_needed (vs ! i)) [0..<length vs]))"
    unfolding distinct_map
  proof
    show "inj_on (\<lambda>i. u (Suc (uuids s) + i)) (set (filter (\<lambda>i. v_needed (vs ! i)) [0..<length vs]))"
      using assms(3) by (rule inj_on_subset[OF inj_compose[unfolded comp_def]]) (auto simp: inj_on_def)
  qed simp
  then show ?thesis
    using assms
    by (auto simp: appended_def insert_steps_steps insert_steps_approvals new_step_def new_task_def
        new_approval_def fresh_def drawn_def task_key_def find_task_def find_None_mem comp_def image_iff)
qed

lemma ids_drawn:
  assumes "engine_ok u s"
  shows "r \<in> set (steps s) \<Longrightarrow> \<exists>n < uuids s. s_id r = u n"
    and "t \<in> set (tasks s) \<Longrightarrow> \<exists>n < uuids s. t_id t = u n"
proof -
  have sub: "s_id ` set (steps s) \<subseteq> u ` {..<uuids s}" "t_id ` set (tasks s) \<subseteq> u ` {..<uuids s}"
    using assms by (simp_all add: engine_ok_def ids_ok_def)
  show "r \<in> set (steps s) \<Longrightarrow> \<exists>n < uuids s. s_id r = u n"
    using subsetD[OF sub(1) imageI, of r] by auto
  show "t \<in> set (tasks s) \<Longrightarrow> \<exists>n < uuids s. t_id t = u n"
    using subsetD[OF sub(2) imageI, of t] by auto
qed

lemma ids_new:
  assumes "engine_ok u s" "inj u"
  shows "r \<in> set (steps s) \<Longrightarrow> s_id r \<noteq> u (uuids s + k)"
    and "t \<in> set (tasks s) \<Longrightarrow> t_id t \<noteq> u (uuids s + k)"
  using ids_drawn[OF assms(1)] injD[OF assms(2)] by (metis not_add_less1)+

lemma appended_steps_ok:
  assumes ok: "engine_ok u s" and inj: "inj u" and ap: "appended u tenant tid t xs as s s'"
  shows "steps_ok (steps s')"
proof -
  note ap' = ap[unfolded appended_def]
  have new: "map s_id xs = map (\<lambda>i. u (Suc (uuids s) + i)) [0..<length xs]"
    by (rule nth_equalityI) (use ap' in auto)
  have old: "s_task r \<noteq> tid" if "r \<in> set (steps s)" for r
  proof -
    have "s_task r \<in> t_id ` set (tasks s)"
      using ok that by (auto simp: engine_ok_def linked_def)
    then obtain y where "y \<in> set (tasks s)" "s_task r = t_id y" by auto
    then show "s_task r \<noteq> tid" using ap' ids_new(2)[OF ok inj, of y 0] by auto
  qed
  have disj: "s_id r \<noteq> u (Suc (uuids s) + i)" if "r \<in> set (steps s)" for r i
    using ids_new(1)[OF ok inj that, of "Suc i"] by simp
  have "distinct (map s_id (steps s @ xs))"
  proof -
    have "distinct (map s_id xs)"
      unfolding new distinct_map by (auto simp: inj_on_def dest!: injD[OF inj])
    moreover have "distinct (map s_id (steps s))" using ok by (simp add: engine_ok_def steps_ok_def)
    moreover have "s_id r \<notin> set (map s_id xs)" if "r \<in> set (steps s)" for r
      unfolding new using disj[OF that] by auto
    ultimately show ?thesis by auto
  qed
  moreover have "distinct (map (\<lambda>r. (s_task r, s_position r)) xs)"
  proof -
    have "map s_position xs = [0..<length xs]" by (rule nth_equalityI) (use ap' in auto)
    then have "distinct (map s_position xs)" by simp
    then show ?thesis by (auto simp: distinct_map inj_on_def)
  qed
  moreover have "s_task x \<noteq> s_task r" if "r \<in> set (steps s)" "x \<in> set xs" for r x
    using old[OF that(1)] ap' that(2) by metis
  moreover have "s_status x = Queued \<and> s_attempts x = 0" if "x \<in> set xs" for x
    using ap' that by blast
  moreover have "steps_ok (steps s)" using ok by (simp add: engine_ok_def)
  ultimately have "steps_ok (steps s @ xs)" by (intro append_steps_ok)
  with ap' show ?thesis by simp
qed

lemma appended_engine_ok:
  assumes ok: "engine_ok u s" and inj: "inj u" and ap: "appended u tenant tid t xs as s s'"
  shows "engine_ok u s'"
proof -
  note ap' = ap[unfolded appended_def]
  have steps: "steps_ok (steps s')" by (rule appended_steps_ok[OF assms])
  have "approved_ok (steps s') (approvals s')"
    using ok ap' by (fastforce simp: engine_ok_def approved_ok_def)
  moreover have "keys_ok s'"
    unfolding keys_ok_def
  proof (intro conjI)
    have "t_id y \<noteq> tid" if "y \<in> set (tasks s)" for y
      using ap' ids_new(2)[OF ok inj that, of 0] by auto
    then have "tid \<notin> t_id ` set (tasks s)" by blast
    then show "distinct (map t_id (tasks s'))" using ok ap' by (simp add: engine_ok_def keys_ok_def)
    show "distinct (map task_key (tasks s'))" using ok ap' by (simp add: engine_ok_def keys_ok_def)
    have "a_step a \<noteq> a_step b" if "a \<in> set (approvals s)" "b \<in> set as" for a b
    proof -
      have "approval_ref a \<in> step_ref ` set (steps s)" using ok that by (auto simp: engine_ok_def keys_ok_def)
      then have "a_step a \<in> s_id ` set (steps s)" by (auto simp: approval_ref_def step_ref_def)
      moreover have "a_step b \<in> s_id ` set xs" using ap' that by auto
      moreover have "s_id ` set (steps s) \<inter> s_id ` set xs = {}"
        using steps ap' by (simp add: steps_ok_def)
      ultimately show ?thesis by (metis disjoint_iff)
    qed
    then show "distinct (map a_step (approvals s'))"
      using ok ap' by (auto simp: engine_ok_def keys_ok_def)
    show "approval_ref ` set (approvals s') \<subseteq> step_ref ` set (steps s')"
    proof
      fix p assume "p \<in> approval_ref ` set (approvals s')"
      then obtain a where a: "p = approval_ref a" "a \<in> set (approvals s) \<or> a \<in> set as" using ap' by auto
      from a(2) show "p \<in> step_ref ` set (steps s')"
      proof
        assume "a \<in> set (approvals s)"
        with ok have "approval_ref a \<in> step_ref ` set (steps s)" by (auto simp: engine_ok_def keys_ok_def)
        with a ap' show ?thesis by auto
      next
        assume "a \<in> set as"
        with ap' obtain x where "x \<in> set xs" "a_step a = s_id x" "a_tenant a = s_tenant x" by auto
        then have "approval_ref a = step_ref x" "x \<in> set (steps s')"
          using ap' by (simp_all add: approval_ref_def step_ref_def)
        with a(1) show ?thesis by blast
      qed
    qed
  qed
  moreover have "linked s'"
    using ok ap' by (auto simp: engine_ok_def linked_def)
  moreover have "ids_ok u s'"
  proof -
    have "s_id x \<in> u ` {..<uuids s'}" if "x \<in> set xs" for x
    proof -
      from that obtain i where "i < length xs" "x = xs ! i" by (metis in_set_conv_nth)
      with ap' show ?thesis by auto
    qed
    moreover have "u ` {..<uuids s} \<subseteq> u ` {..<uuids s'}" using ap' by auto
    ultimately show ?thesis
      using ok ap' unfolding engine_ok_def ids_ok_def by (auto simp: subset_iff)
  qed
  moreover have "frozen_ok s'"
    using ok ap' by (auto simp: engine_ok_def frozen_ok_def frozen_def)
  ultimately show ?thesis using steps by (simp add: engine_ok_def)
qed

lemma appended_coherent:
  assumes ok: "engine_ok u s" "coherent_but {} s" and inj: "inj u"
    and ap: "appended u tenant tid t xs as s s'"
  shows "coherent_but {(tenant, tid)} s'"
  unfolding coherent_but_def
proof (intro ballI impI)
  note ap' = ap[unfolded appended_def]
  fix x assume x: "x \<in> set (tasks s')" "(t_tenant x, t_id x) \<notin> {(tenant, tid)}"
  with ap' have "x \<in> set (tasks s)" by auto
  moreover have "filter (step_of (t_tenant x) (t_id x)) xs = []"
    using ap' x(2) by (auto simp: filter_empty_conv step_of_def)
  ultimately show "t_status x = task_status_of (map s_status (task_steps s' (t_tenant x) (t_id x)))"
    using ok ap' by (simp add: coherent_but_def task_steps_def)
qed

lemma create_task_good:
  assumes op: "create_task e now tenant channel key agent plan actor vs approver s = Inr (tid, s')"
    and good: "good (uuid4 e) s" and inj: "inj (uuid4 e)"
  shows "good (uuid4 e) s'"
  using op
proof (cases rule: create_taskE)
  case replay with good show ?thesis by simp
next
  case (created fp s1)
  note ap = create_appended[OF created(1) refl inj created(7)[unfolded created(5)],
      where vs = vs and approver = approver]
  let ?s2 = "insert_steps e now tenant (fresh e s) approver 0 vs s1"
  have ok: "engine_ok (uuid4 e) s" "coherent_but {} s" using good by (auto simp: good_def)
  have "engine_ok (uuid4 e) ?s2" using appended_engine_ok[OF ok(1) inj ap] created(7) by simp
  moreover have "coherent_but {(tenant, fresh e s)} ?s2"
    using appended_coherent[OF ok inj ap] created(7) by simp
  ultimately show ?thesis
    unfolding created(8) created(5) good_def
    by (auto intro!: coherent_close intro: tame_engine_ok[OF tame_close[OF tame_refl]])
qed

lemma submit_good:
  assumes "submit e now tenant channel key agent plan actor s = Inr (tid, s')"
    and "good (uuid4 e) s" and "inj (uuid4 e)"
  shows "good (uuid4 e) s'"
  using assms by (auto elim!: submitE intro: create_task_good)

lemma operator_reply_good:
  assumes "operator_reply e now tenant channel conv text actor role key agent s = Inr (tid, s')"
    and "good (uuid4 e) s" and "inj (uuid4 e)"
  shows "good (uuid4 e) s'"
  using assms by (auto elim!: operator_replyE intro: create_task_good)

section \<open>Claiming\<close>

definition starts :: "(step_row \<Rightarrow> step_row) \<Rightarrow> bool" where
  "starts f \<longleftrightarrow> (\<forall>x. same_step x (f x) \<and> s_status (f x) = Running \<and> s_attempts (f x) = Suc (s_attempts x))"

lemma lease_engine_ok:
  assumes ok: "engine_ok u s" and r: "r \<in> set (steps s)" "s_status r \<in> open_status"
    and pre: "predecessors_done s r" and act: "\<not> frozen s (s_tenant r)"
    and app: "s_needed r \<Longrightarrow> \<exists>a \<in> set (approvals s). a_step a = s_id r \<and> a_status a = ApConsumed
        \<and> a_fingerprint a = s_fingerprint r"
    and f: "starts f"
    and s': "steps s' = upd_where (\<lambda>x. s_id x = s_id r) f (steps s)" "approvals s' = approvals s"
      "tasks s' = tasks s" "freezes s' = freezes s" "uuids s \<le> uuids s'"
  shows "engine_ok u s'"
proof -
  have f': "same_step x (f x)" for x using f by (simp add: starts_def)
  have ids: "map k (steps s') = map k (steps s)" if "\<And>x y. same_step x y \<Longrightarrow> k y = k x"
    for k :: "step_row \<Rightarrow> 'k"
    unfolding s' by (rule map_upd_where) (use that f' in blast)
  have mem: "y \<in> set (steps s') \<Longrightarrow> (y \<in> set (steps s) \<and> s_id y \<noteq> s_id r) \<or> y = f r" for y
    unfolding s' in_upd_where using steps_unique[OF ok r(1)] by metis
  have "steps_ok (steps s')"
    unfolding s'(1) using ok r pre f
    by (intro lease_steps_ok) (auto simp: engine_ok_def predecessors_done_def starts_def)
  moreover have "approved_ok (steps s') (approvals s')"
    using ok mem app f' unfolding engine_ok_def approved_ok_def s'(2) same_step_def by metis
  moreover have "keys_ok s'"
    using ok map_eq_image[OF ids[of step_ref]]
    by (simp add: engine_ok_def keys_ok_def s' step_ref_def same_step_def)
  moreover have "linked s'"
    using ok mem f'[of r] r(1) unfolding engine_ok_def linked_def s' same_step_def by metis
  moreover have "ids_ok u s'"
  proof -
    have "u ` {..<uuids s} \<subseteq> u ` {..<uuids s'}" using s'(5) by auto
    moreover have "s_id ` set (steps s') = s_id ` set (steps s)"
      by (rule map_eq_image[OF ids]) (simp add: same_step_def)
    ultimately show ?thesis
      using ok unfolding engine_ok_def ids_ok_def s'(3) by (metis subset_trans)
  qed
  moreover have "frozen_ok s'"
    using ok mem act f'[of r] unfolding engine_ok_def frozen_ok_def frozen_def s'(4) same_step_def
    by metis
  ultimately show ?thesis by (simp add: engine_ok_def)
qed

lemma lease_step_good:
  assumes good: "good u s" and r: "r \<in> set (steps s)" "s_status r \<in> open_status" "s_tenant r = tenant"
    and pre: "predecessors_done s r" and act: "\<not> frozen s tenant"
    and app: "s_needed r \<Longrightarrow> \<exists>a \<in> set (approvals s). a_step a = s_id r \<and> a_status a = ApConsumed
        \<and> a_fingerprint a = s_fingerprint r"
    and op: "lease_step e now tenant worker seconds r t s = (c, s')"
  shows "good u s'"
proof -
  let ?f = "\<lambda>x. x\<lparr>s_status := Running, s_claim := fresh e s, s_worker := worker,
    s_lease := now + seconds, s_attempts := Suc (s_attempts x)\<rparr>"
  let ?s1 = "set_step (s_id r) ?f (drawn s)"
  have s': "s' = refresh now tenant (s_task r)
      (audit now tenant (s_task r) ''step.claimed'' worker [(''step'', JStr (s_id r))] ?s1)"
    using op by (simp add: lease_step_def Let_def)
  have ok: "engine_ok u s" "coherent_but {} s" using good by (auto simp: good_def)
  have "engine_ok u ?s1"
    by (rule lease_engine_ok[OF ok(1) r(1,2) pre, where f = ?f])
      (use act r(3) app in \<open>simp_all add: set_step_def starts_def same_step_def\<close>)
  moreover have "coherent_but {(tenant, s_task r)} ?s1"
    unfolding set_step_def
  proof (rule coherent_upd_steps)
    show "coherent_but {(tenant, s_task r)} (drawn s)"
      using ok(2) by (auto intro: coherent_same coherent_mono)
    show "(s_tenant x, s_task x) \<in> {(tenant, s_task r)}"
      if "x \<in> set (steps (drawn s))" "s_id x = s_id r" for x
      using that steps_unique[OF ok(1) r(1)] r(3) by auto
  qed simp
  ultimately show ?thesis
    unfolding s' good_def
    by (auto intro!: coherent_close intro: tame_engine_ok[OF tame_close[OF tame_refl]])
qed

lemma consume_good: "good u s \<Longrightarrow> good u (consume_approval sid s)"
  unfolding consume_approval_def
  by (rule good_tame) (auto simp: good_def alegal_def intro!: tame_upd_approvals coherent_upd_approvals)

text \<open>The claim loop over the candidates of one scan.\<close>

definition candidate :: "db \<Rightarrow> string \<Rightarrow> step_row \<times> task_row \<Rightarrow> bool" where
  "candidate s tenant = (\<lambda>(r, t). r \<in> set (steps s) \<and> s_tenant r = tenant \<and> s_status r \<in> open_status
     \<and> predecessors_done s r)"

lemma claim_row_cases:
  assumes "claim_row e now tenant worker seconds r t s = Inr (c, s')"
  obtains (retired) "c = None" "s' = retire_inactive now tenant r s"
  | (failed) err where "c = None" "s' = fail_step now tenant err r s"
  | (parked) "c = None" "s' = park_step now tenant r s" "s_needed r"
  | (direct) cl where "\<not> s_needed r" "c = Some cl"
      "lease_step e now tenant worker seconds r t s = (cl, s')"
      "\<exists>v. claim_check e s tenant r t = Inr (Inr v) \<and> v_fingerprint v = s_fingerprint r"
      "\<exists>x. require_task_parent s now tenant (s_task r) = Inr x"
  | (approved) cl a p where "s_needed r" "find_approval s tenant (s_id r) = Some a"
      "a_fingerprint a = s_fingerprint r" "a_status a = ApApproved" "now < a_expires a" "c = Some cl"
      "policy_of e tenant (t_agent t) = Inr p"
      "require_authority e tenant ''approval'' (a_actor a) (approver_roles p) = Inr ()"
      "lease_step e now tenant worker seconds r t (consume_approval (s_id r) s) = (cl, s')"
      "\<exists>v. claim_check e s tenant r t = Inr (Inr v) \<and> v_fingerprint v = s_fingerprint r"
      "\<exists>x. require_task_parent s now tenant (s_task r) = Inr x"
proof (cases "require_task_parent s now tenant (s_task r)")
  case (Inl x)
  with assms show ?thesis by (intro retired) (simp_all add: claim_row_def)
next
  case parent: (Inr x)
  with assms obtain verdict where v: "claim_check e s tenant r t = Inr verdict"
    by (auto simp: claim_row_def res_simps)
  show ?thesis
  proof (cases "\<exists>v. verdict = Inr v \<and> v_fingerprint v = s_fingerprint r")
    case False
    with assms parent v failed show ?thesis
      by (auto simp: claim_row_def split: sum.splits if_splits)
  next
    case True
    then obtain v' where v': "claim_check e s tenant r t = Inr (Inr v')"
      "v_fingerprint v' = s_fingerprint r" using v by auto
    note ctx = v' parent
    show ?thesis
    proof (cases "s_needed r")
      case False
      then show ?thesis
        using assms parent v' direct
        by (auto simp: claim_row_def split: prod.splits)
    next
      case needed: True
      show ?thesis
      proof (cases "find_approval s tenant (s_id r)")
        case None
        with assms needed ctx show ?thesis by (intro failed) (auto simp: claim_row_def)
      next
        case (Some a)
        note body = assms[unfolded claim_row_def parent v'(1) sum.case bindr_simps Some option.case]
        show ?thesis
        proof (cases "a_fingerprint a \<noteq> s_fingerprint r \<or> a_expires a \<le> now")
          case True
          with body needed v'(2) show ?thesis by (intro failed) auto
        next
          case live: False
          show ?thesis
          proof (cases "a_status a = ApApproved")
            case False
            with body needed v'(2) live show ?thesis by (intro parked) auto
          next
            case True
            show ?thesis
            proof (cases "bindr (policy_of e tenant (t_agent t))
                (\<lambda>p. require_authority e tenant ''approval'' (a_actor a) (approver_roles p))")
              case (Inl y)
              with body needed v'(2) live True show ?thesis
                by (intro failed) (auto split: if_splits)
            next
              case (Inr y)
              then obtain p where "policy_of e tenant (t_agent t) = Inr p"
                "require_authority e tenant ''approval'' (a_actor a) (approver_roles p) = Inr ()"
                by (auto simp: res_simps)
              moreover from this body needed v' live True obtain cl where
                "lease_step e now tenant worker seconds r t (consume_approval (s_id r) s) = (cl, s')"
                "c = Some cl" by (auto split: prod.splits)
              ultimately show ?thesis
                using needed v' live True Some parent by (intro approved[of a cl p]) auto
            qed
          qed
        qed
      qed
    qed
  qed
qed

lemma candidate_change:
  assumes "candidate s tenant (x, t)" "s_id x \<noteq> s_id r" "s_status r \<in> open_status" "good u s"
    "r \<in> set (steps s)"
    and keep: "\<And>y. y \<in> set (steps s) \<Longrightarrow> s_id y \<noteq> s_id r \<Longrightarrow> y \<in> set (steps s')"
    and origin: "\<And>y. y \<in> set (steps s') \<Longrightarrow> y \<in> set (steps s) \<or> same_step r y"
  shows "candidate s' tenant (x, t)"
proof -
  have "r \<noteq> y" if "s_status y = Succeeded" for y using assms(3) that by (auto simp: open_status_def)
  moreover have "\<not> (s_task r = s_task x \<and> s_position r < s_position x)"
    using assms(1,3,5) by (auto simp: candidate_def predecessors_done_def open_status_def)
  ultimately show ?thesis
    using assms(1,2) keep origin unfolding candidate_def predecessors_done_def same_step_def
    by (clarsimp) metis
qed

lemma upd_origin:
  assumes "y \<in> set (upd_where P f xs)" and "\<And>x. x \<in> set xs \<Longrightarrow> P x \<Longrightarrow> x = r"
  shows "y \<in> set xs \<or> y = f r"
  using assms by (auto simp: in_upd_where)

lemma change_back:
  assumes "engine_ok u s" "r \<in> set (steps s)"
    and "y \<in> set (steps (fail_step now te err r s)) \<union> set (steps (park_step now te r s))
       \<union> set (steps (retire_inactive now te r s))"
  shows "y \<in> set (steps s) \<or> same_step r y"
proof -
  note uniq = steps_unique[OF assms(1,2)]
  from assms(3) show ?thesis
    unfolding fail_step_def park_step_def retire_inactive_def set_step_def
    by (auto dest!: upd_origin[where r = r] uniq simp: same_step_def)
qed

lemma claim_row_good:
  assumes op: "claim_row e now tenant worker seconds r t s = Inr (c, s')"
    and good: "good u s" and cand: "candidate s tenant (r, t)" and act: "\<not> frozen s tenant"
  shows "good u s'"
proof -
  have r: "r \<in> set (steps s)" "s_tenant r = tenant" "s_status r \<in> open_status" "predecessors_done s r"
    using cand by (auto simp: candidate_def)
  show ?thesis
    using op
  proof (cases rule: claim_row_cases)
    case (direct cl)
    show ?thesis by (rule lease_step_good[OF good r(1,3,2,4) act _ direct(3)]) (use direct(1) in simp)
  next
    case (approved cl a p)
    let ?s1 = "consume_approval (s_id r) s"
    have a: "a \<in> set (approvals s)" "a_step a = s_id r"
      using approved(2) by (auto simp: find_approval_def dest!: find_Some_mem)
    have "\<exists>b \<in> set (approvals ?s1). a_step b = s_id r \<and> a_status b = ApConsumed
        \<and> a_fingerprint b = s_fingerprint r"
      using a approved(3)
      by (intro bexI[of _ "a\<lparr>a_status := ApConsumed\<rparr>"])
        (auto simp: consume_approval_def in_upd_where intro!: bexI[of _ a])
    with r act show ?thesis
      by (intro lease_step_good[OF consume_good[OF good] _ r(3,2) _ _ _ approved(9)])
        (auto simp: consume_approval_def predecessors_done_def frozen_def)
  qed (use good r in \<open>auto intro: fail_step_good park_step_good retire_inactive_good\<close>)
qed

lemma claim_row_candidates:
  assumes op: "claim_row e now tenant worker seconds r t s = Inr (None, s')"
    and good: "good u s" and cand: "candidate s tenant (r, t)"
    and x: "candidate s tenant (x, y)" "s_id x \<noteq> s_id r"
  shows "candidate s' tenant (x, y)"
proof -
  have r: "r \<in> set (steps s)" "s_status r \<in> open_status" and ok: "engine_ok u s"
    using cand good by (auto simp: candidate_def good_def)
  have "y \<in> set (steps s')" if "y \<in> set (steps s)" "s_id y \<noteq> s_id r" for y
    using op by (cases rule: claim_row_cases) (use that in \<open>simp_all add: change_keeps\<close>)
  moreover have "y \<in> set (steps s) \<or> same_step r y" if "y \<in> set (steps s')" for y
    using op by (cases rule: claim_row_cases) (use that change_back[OF ok r(1)] in blast)+
  ultimately show ?thesis by (rule candidate_change[OF x r(2) good r(1)])
qed

lemma claim_row_freezes:
  "claim_row e now tenant worker seconds r t s = Inr (c, s') \<Longrightarrow> freezes s' = freezes s"
  by (cases rule: claim_row_cases[where r = r and s = s], assumption)
    (auto simp: retire_inactive_def fail_step_def park_step_def set_step_def lease_step_def Let_def
      consume_approval_def)

lemma claim_loop_good:
  assumes "claim_loop e now tenant worker seconds rs s = Inr (c, s')" "good u s"
    "\<not> frozen s tenant" "\<forall>p \<in> set rs. candidate s tenant p" "distinct (map (s_id \<circ> fst) rs)"
  shows "good u s'"
  using assms
proof (induction rs arbitrary: s)
  case (Cons p rs)
  obtain r t where p: "p = (r, t)" by force
  with Cons.prems(1) obtain c1 s1 where row: "claim_row e now tenant worker seconds r t s = Inr (c1, s1)"
    and rest: "(case c1 of None \<Rightarrow> claim_loop e now tenant worker seconds rs s1 | Some _ \<Rightarrow> Inr (c1, s1))
      = Inr (c, s')"
    by (auto simp: res_simps)
  have cand: "candidate s tenant (r, t)" using Cons.prems(4) p by simp
  have good1: "good u s1" by (rule claim_row_good[OF row Cons.prems(2) cand Cons.prems(3)])
  show ?case
  proof (cases c1)
    case None
    have "\<forall>q \<in> set rs. candidate s1 tenant q"
    proof
      fix q assume q: "q \<in> set rs"
      obtain x y where xy: "q = (x, y)" by force
      with q Cons.prems(5) p have "s_id x \<noteq> s_id r" by (force simp: image_iff)
      then show "candidate s1 tenant q"
        using claim_row_candidates[OF row[unfolded None] Cons.prems(2) cand] q xy Cons.prems(4) by auto
    qed
    moreover have "\<not> frozen s1 tenant"
      using Cons.prems(3) claim_row_freezes[OF row] by (simp add: frozen_def)
    ultimately show ?thesis
      using Cons.IH[of s1] rest None good1 Cons.prems(5) by simp
  next
    case (Some cl)
    with rest good1 show ?thesis by simp
  qed
qed simp

lemma claim_rows_mem:
  "(r, t) \<in> set (claim_rows s tenant device) \<longleftrightarrow>
     r \<in> set (steps s) \<and> t \<in> set (tasks s) \<and> claimable s tenant device r t"
  by (auto simp: claim_rows_def)

lemma claimable_single:
  assumes ok: "engine_ok u s" and t: "t \<in> set (tasks s)" "claimable s tenant device r t"
  shows "filter (claimable s tenant device r) (tasks s) = [t]"
proof -
  have "distinct (tasks s)" using ok by (simp add: engine_ok_def keys_ok_def distinct_map)
  moreover have "claimable s tenant device r x \<longleftrightarrow> x = t" if "x \<in> set (tasks s)" for x
    using tasks_unique[OF ok t(1) that] t(2) by (auto simp: claimable_def)
  ultimately have "filter (claimable s tenant device r) (tasks s) = filter (\<lambda>x. x = t) (tasks s)"
    by (auto intro: filter_cong)
  moreover have "filter (\<lambda>x. x = t) xs = [t]" if "distinct xs" "t \<in> set xs" for xs
    using that by (induction xs) (auto simp: filter_empty_conv)
  ultimately show ?thesis using \<open>distinct (tasks s)\<close> t(1) by simp
qed

lemma claim_rows_distinct:
  assumes ok: "engine_ok u s"
  shows "distinct (map (s_id \<circ> fst) (claim_rows s tenant device))"
proof -
  let ?ts = "\<lambda>r. filter (claimable s tenant device r) (tasks s)"
  have one: "?ts r = [] \<or> (\<exists>t. ?ts r = [t])" for r
    using claimable_single[OF ok] by (auto simp: filter_empty_conv)
  have "distinct (map (s_id \<circ> fst) (concat (map (\<lambda>r. map (Pair r) (?ts r)) xs)))
    \<and> s_id ` fst ` set (concat (map (\<lambda>r. map (Pair r) (?ts r)) xs)) \<subseteq> s_id ` set xs"
    if "distinct (map s_id xs)" for xs
    using that
  proof (induction xs)
    case (Cons x xs)
    with one[of x] show ?case by (auto simp: image_image)
  qed simp
  then have "distinct (map (s_id \<circ> fst) (concat (map (\<lambda>r. map (Pair r) (?ts r)) (steps s))))"
    using ok by (simp add: engine_ok_def steps_ok_def)
  then show ?thesis
    unfolding claim_rows_def distinct_map by (simp add: distinct_map)
qed

lemma claim_good:
  assumes op: "claim e now tenant worker device seconds s = Inr (c, s')" and good: "good u s"
  shows "good u s'"
proof -
  let ?s1 = "expire_leases now tenant s"
  have good1: "good u ?s1" by (rule expire_leases_good[OF good])
  then have ok: "engine_ok u ?s1" by (simp add: good_def)
  from op consider "s' = ?s1"
    | "\<not> frozen ?s1 tenant"
      "claim_loop e now tenant worker seconds (claim_rows ?s1 tenant device) ?s1 = Inr (c, s')"
    unfolding claim_def Let_def by (auto split: if_splits sum.splits)
  then show ?thesis
  proof cases
    case 2
    have "\<forall>p \<in> set (claim_rows ?s1 tenant device). candidate ?s1 tenant p"
      by (auto simp: claim_rows_mem claimable_def candidate_def open_status_def)
    from claim_loop_good[OF 2(2) good1 2(1) this claim_rows_distinct[OF ok]] show ?thesis .
  qed (use good1 in simp)
qed

section \<open>Operations on many steps\<close>

lemma tame_moves:
  assumes "\<And>r. r \<in> set (steps s) \<Longrightarrow> P r \<Longrightarrow> legal r (f r)"
    and "aevolves (approvals s) (approvals s')" "steps s' = upd_where P f (steps s)"
    "tasks s' = tasks s" "freezes s' = freezes s" "uuids s' = uuids s"
  shows "tame s s'"
  using assms by (simp add: tame_def evolves_upd)

lemma retire_legal:
  assumes "active_step r" "same_step r r'" "s_attempts r' = s_attempts r"
    "s_status r' = retire_status (s_status r)"
  shows "legal r r'"
  using assms by (auto simp: legal_def active_step_def retire_status_def moves_def open_status_def)

lemma cancel_good:
  assumes op: "cancel e now tenant tid actor s = Inr s'" and good: "good u s"
  shows "good u s'"
proof -
  let ?P = "\<lambda>r. step_of tenant tid r \<and> active_step r"
  let ?f = "\<lambda>r. r\<lparr>s_status := retire_status (s_status r), s_claim := []\<rparr>"
  let ?Q = "\<lambda>a. a_tenant a = tenant \<and> (\<exists>r \<in> set (steps s). s_task r = tid \<and> s_id r = a_step a)
    \<and> a_status a \<in> {ApPending, ApApproved}"
  let ?s2 = "upd_approvals ?Q (\<lambda>a. a\<lparr>a_status := ApRejected\<rparr>) (upd_steps ?P ?f s)"
  have s': "s' = refresh now tenant tid (audit now tenant tid ''task.cancel_requested'' actor [] ?s2)"
    using op by (auto simp: cancel_def Let_def res_simps split: option.splits if_splits)
  have tame: "tame s ?s2"
    by (rule tame_moves[where P = ?P and f = ?f])
      (auto simp: alegal_def same_step_def intro!: retire_legal aevolves_upd)
  have "coherent_but {(tenant, tid)} ?s2"
    by (intro coherent_upd_approvals coherent_upd_steps)
      (use good in \<open>auto simp: good_def step_of_def intro: coherent_mono\<close>)
  then show ?thesis
    unfolding s' by (intro good_tame[OF good] tame_close tame coherent_close)
qed

lemma tasks_of_mem: "k \<in> set (tasks_of P s) \<longleftrightarrow> (\<exists>r \<in> set (steps s). P r \<and> s_task r = k)"
  by (auto simp: tasks_of_def)

lemma Pair_image_iff: "(a, b) \<in> Pair te ` A \<longleftrightarrow> a = te \<and> b \<in> A"
  by auto

lemma freeze_good:
  assumes op: "freeze e now tenant stopped actor s = Inr s'" and good: "good u s"
  shows "good u s'"
proof -
  let ?P = "\<lambda>r. s_tenant r = tenant \<and> s_status r = Running"
  let ?f = "\<lambda>r. r\<lparr>s_status := Uncertain, s_claim := [], s_error := ''tenant_frozen_during_execution''\<rparr>"
  let ?t = "if stopped then upd_steps ?P ?f s else s"
  let ?s0 = "s\<lparr>freezes := (freezes s)(tenant \<mapsto> stopped)\<rparr>"
  let ?s1 = "if stopped then upd_steps ?P ?f ?s0 else ?s0"
  let ?s2 = "if stopped then refresh_all now tenant (tasks_of ?P s) ?s1 else ?s1"
  have s': "s' = audit now tenant [] (if stopped then ''tenant.freeze'' else ''tenant.resume'') actor [] ?s2"
    using op by (auto simp: freeze_def Let_def res_simps)
  have ok: "engine_ok u ?t"
    by (rule tame_engine_ok[where s = s])
      (use good in \<open>auto simp: good_def legal_def same_step_def moves_def intro!: tame_upd_steps\<close>)
  have quiet: "frozen_ok ?s1"
    unfolding frozen_ok_def
  proof (intro ballI impI)
    fix y assume y: "y \<in> set (steps ?s1)" "s_status y = Running"
    then obtain x where x: "x \<in> set (steps s)" "y = (if stopped \<and> ?P x then ?f x else x)"
      by (cases stopped) (auto simp: in_upd_where)
    with y(2) have yx: "y = x" "\<not> (stopped \<and> s_tenant x = tenant)" by (auto split: if_splits)
    with x(1) y(2) good have "freezes s (s_tenant y) \<noteq> Some True"
      by (auto simp: good_def engine_ok_def frozen_ok_def frozen_def)
    with yx show "\<not> frozen ?s1 (s_tenant y)" by (auto simp: frozen_def)
  qed
  have ok1: "engine_ok u ?s1"
    using ok quiet by (cases stopped) (simp_all add: engine_ok_def keys_ok_def linked_def ids_ok_def)
  have co: "coherent_but (if stopped then Pair tenant ` set (tasks_of ?P s) else {}) ?t"
    using good by (auto simp: good_def tasks_of_mem Pair_image_iff intro: coherent_mono intro!: coherent_upd_steps)
  have co1: "coherent_but (if stopped then Pair tenant ` set (tasks_of ?P s) else {}) ?s1"
    by (rule coherent_same[OF co]) simp_all
  have "coherent_but {} ?s2"
    using co1 by (auto intro!: coherent_refresh_all)
  moreover have "engine_ok u ?s2"
    using ok1 by (auto intro: tame_engine_ok[OF tame_refresh_all])
  ultimately have "good u ?s2" by (simp add: good_def)
  then show ?thesis unfolding s' by (rule good_same) simp_all
qed

lemma retire_device_good:
  assumes good: "good u s"
  shows "good u (retire_device now tenant device actor s)"
proof -
  let ?P = "\<lambda>r. s_tenant r = tenant \<and> s_device r = device \<and> active_step r"
  let ?f = "\<lambda>r. r\<lparr>s_status := retire_status (s_status r), s_claim := [], s_lease := 0,
    s_error := ''device_enrollment_changed''\<rparr>"
  let ?Q = "\<lambda>a. a_tenant a = tenant \<and> a_status a \<in> {ApPending, ApApproved}
    \<and> (\<exists>r \<in> set (steps s). ?P r \<and> s_id r = a_step a)"
  let ?s1 = "upd_approvals ?Q (\<lambda>a. a\<lparr>a_status := ApRejected, a_actor := actor, a_decided := Some now\<rparr>) s"
  let ?s2 = "upd_steps ?P ?f ?s1"
  have r: "retire_device now tenant device actor s = refresh_all now tenant (tasks_of ?P s) ?s2"
    by (simp add: retire_device_def Let_def)
  have tame: "tame s ?s2"
    by (rule tame_moves[where P = ?P and f = ?f])
      (auto simp: alegal_def same_step_def intro!: retire_legal aevolves_upd)
  have "coherent_but ({} \<union> Pair tenant ` set (tasks_of ?P s)) ?s2"
    by (intro coherent_upd_approvals coherent_upd_steps)
      (use good in \<open>auto simp: good_def tasks_of_mem Pair_image_iff intro: coherent_mono\<close>)
  then have "coherent_but {} (refresh_all now tenant (tasks_of ?P s) ?s2)" by (rule coherent_refresh_all)
  then show ?thesis
    unfolding r by (intro good_tame[OF good] tame_trans[OF tame tame_refresh_all])
qed

lemma device_changeE:
  assumes "device_change e now tenant device revoked actor s = Inr (g, s')"
  shows "s' = audit now tenant [] (if revoked then ''device.revoked'' else ''device.enrolled'') actor
      [(''device'', JStr device), (''generation'', JInt g)]
      (upsert_device tenant device revoked (retire_device now tenant device actor s))"
  using assms by (auto simp: device_change_def Let_def res_simps split: if_splits)

lemma device_change_good:
  assumes op: "device_change e now tenant device revoked actor s = Inr (g, s')" and good: "good u s"
  shows "good u s'"
  unfolding device_changeE[OF op]
  by (rule good_same[OF retire_device_good[OF good, of now tenant device actor]])
    (simp_all add: upsert_device_def)

end
