(* ===== verification/Engine_Events.thy ===== *)
theory Engine_Events
  imports Engine_Reach
begin

text \<open>
  The inbox and the schedules of \<^verbatim>\<open>platform_runtime/engine.py\<close>: accepting an inbound
  event once, leasing it, planning it into a task or a conversation turn, retrying it, and submitting
  the plans of due schedules.
\<close>

section \<open>The inbox\<close>

text \<open>\<^verbatim>\<open>event_error\<close>: authored messages are kept, anything else is reported by type.\<close>

definition event_error :: "exn \<Rightarrow> string" where
  "event_error x =
     (if catches [Conflict, Forbidden, NotFound, RateLimited] x
      then take 200 (exn_name (exn_class_of x) @ '': '' @ exn_text x)
      else exn_name (exn_class_of x))"

definition event_key_of :: "event_row \<Rightarrow> string \<times> string \<times> string" where
  "event_key_of r = (e_tenant r, e_channel r, e_key r)"

definition find_event :: "db \<Rightarrow> string \<Rightarrow> string \<Rightarrow> string \<Rightarrow> event_row option" where
  "find_event s tenant channel key = find (\<lambda>r. event_key_of r = (tenant, channel, key)) (events s)"

definition pending_events :: "db \<Rightarrow> string \<Rightarrow> nat" where
  "pending_events s tenant =
     length (filter (\<lambda>r. e_tenant r = tenant \<and> e_status r \<in> {EvPending, EvProcessing}) (events s))"

text \<open>The sender as the directory is asked about it; a sender that is not text goes by its JSON text.\<close>

definition payload_sender :: "json \<Rightarrow> string" where
  "payload_sender p =
     (case obj_get p ''sender'' of None \<Rightarrow> [] | Some (JStr t) \<Rightarrow> t | Some j \<Rightarrow> dumps j)"

definition event_status_text :: "event_status \<Rightarrow> string" where
  "event_status_text st = (case st of EvPending \<Rightarrow> ''pending'' | EvProcessing \<Rightarrow> ''processing''
     | EvDone \<Rightarrow> ''done'' | EvFailed \<Rightarrow> ''failed'')"

definition event_day :: "int \<Rightarrow> int" where
  "event_day now = now div 86400"

definition quota_count :: "db \<Rightarrow> string \<Rightarrow> int \<Rightarrow> nat" where
  "quota_count s tenant day = (case quotas s (tenant, day) of None \<Rightarrow> 0 | Some n \<Rightarrow> n)"

definition new_event :: "string \<Rightarrow> string \<Rightarrow> string \<Rightarrow> string \<Rightarrow> json \<Rightarrow> event_row" where
  "new_event tenant channel key fp payload =
     \<lparr>e_tenant = tenant, e_channel = channel, e_key = key, e_fingerprint = fp, e_payload = payload,
      e_status = EvPending, e_claim = [], e_lease = 0, e_result = JObj [], e_error = []\<rparr>"

definition accept_event ::
  "env \<Rightarrow> int \<Rightarrow> string \<Rightarrow> string \<Rightarrow> string \<Rightarrow> json \<Rightarrow> db \<Rightarrow> (fields \<times> db) res" where
  "accept_event e now tenant channel key payload s =
     (if \<not> (ident_ok tenant \<and> ident_ok channel \<and> ident_ok key)
        then raise ValueError ''Invalid event identity''
      else if \<not> is_obj payload then raise ValueError ''Event payload must be an object''
      else bindr (encode payload) (\<lambda>text.
        if length text > 20000 then raise ValueError ''Event too large''
        else bindr (digest e payload) (\<lambda>fp.
          bindr (require_authority e tenant channel (payload_sender payload) default_roles) (\<lambda>_.
          case find_event s tenant channel key of
            Some r \<Rightarrow>
              if e_fingerprint r \<noteq> fp then raise Conflict ''Conflicting event replay''
              else Inr ([(''ok'', JBool True), (''duplicate'', JBool True),
                         (''status'', JStr (event_status_text (e_status r)))] @ obj_fields (e_result r), s)
          | None \<Rightarrow>
              bindr (require_active e s tenant) (\<lambda>_.
                let day = event_day now in
                if pending_events s tenant \<ge> 1000 \<or> quota_count s tenant day \<ge> 10000
                then raise RateLimited ''Tenant inbox quota exhausted''
                else Inr ([(''ok'', JBool True), (''status'', JStr ''accepted'')],
                  s\<lparr>quotas := (quotas s)((tenant, day) \<mapsto> Suc (quota_count s tenant day)),
                    events := events s @ [new_event tenant channel key fp payload]\<rparr>))))))"

section \<open>Leasing an event\<close>

definition EVENT_LEASE_SECONDS :: int where "EVENT_LEASE_SECONDS = 120"

text \<open>\<^verbatim>\<open>next_event_sql\<close>.\<close>

definition next_event ::
  "int \<Rightarrow> string \<Rightarrow> string list option \<Rightarrow> string list \<Rightarrow> db \<Rightarrow> event_row option" where
  "next_event now tenant channels skip s =
     find (\<lambda>r. e_tenant r = tenant
        \<and> (e_status r = EvPending \<or> (e_status r = EvProcessing \<and> e_lease r \<le> now))
        \<and> (case channels of None \<Rightarrow> True | Some cs \<Rightarrow> e_channel r \<in> set cs)
        \<and> e_channel r \<notin> set skip) (events s)"

definition set_event :: "string \<times> string \<times> string \<Rightarrow> (event_row \<Rightarrow> event_row) \<Rightarrow> db \<Rightarrow> db" where
  "set_event k f s = upd_events (\<lambda>r. event_key_of r = k) f s"

definition claim_event ::
  "env \<Rightarrow> int \<Rightarrow> string \<Rightarrow> string list option \<Rightarrow> string list \<Rightarrow> db \<Rightarrow> event_row option \<times> db" where
  "claim_event e now tenant channels skip s =
     (if channels = Some [] then (None, s)
      else
        let token = fresh e s; s0 = drawn s in
        if frozen s0 tenant then (None, s0)
        else (case next_event now tenant channels skip s0 of
            None \<Rightarrow> (None, s0)
          | Some r \<Rightarrow>
              let f = (\<lambda>r. r\<lparr>e_status := EvProcessing, e_claim := token,
                        e_lease := now + EVENT_LEASE_SECONDS\<rparr>)
              in (Some (f r), set_event (event_key_of r) f s0)))"

section \<open>Settling an event\<close>

text \<open>The planner returns a plan (a JSON object), or raises; it runs outside every transaction.\<close>

type_synonym planner = "string \<Rightarrow> string \<Rightarrow> json \<Rightarrow> db \<Rightarrow> json res \<times> db"

definition plan_agent :: "json \<Rightarrow> json res" where
  "plan_agent plan =
     (case obj_get plan ''agent'' of None \<Rightarrow> raise KeyError ''agent'' | Some a \<Rightarrow> Inr a)"

text \<open>An identity that is not text is refused by the callee before anything else.\<close>

definition submit_plan ::
  "env \<Rightarrow> int \<Rightarrow> event_row \<Rightarrow> json \<Rightarrow> json \<Rightarrow> db \<Rightarrow> (json \<times> db) res" where
  "submit_plan e now r plan todo s =
     bindr (plan_agent plan) (\<lambda>agent.
       let actor = (case obj_get (e_payload r) ''sender'' of None \<Rightarrow> JStr ''event'' | Some j \<Rightarrow> j) in
       if \<not> (is_str agent \<and> is_str actor) then raise ValueError ''Invalid identity''
       else bindr (submit e now (e_tenant r) (e_channel r) (e_key r) (the_str agent) todo (the_str actor) s)
              (\<lambda>(tid, s'). Inr (JObj [(''task_id'', JStr tid)], s')))"

definition record_plan ::
  "env \<Rightarrow> int \<Rightarrow> event_row \<Rightarrow> json \<Rightarrow> db \<Rightarrow> (json \<times> db) res" where
  "record_plan e now r plan s =
     bindr (plan_agent plan) (\<lambda>agent.
       bindr (record_turn e now (e_tenant r) (e_channel r) (e_key r)
                (if is_str agent then the_str agent else []) (e_payload r) s)
         (\<lambda>(k, s'). Inr (JObj [(''turn'', JStr k)], s')))"

definition apply_plan :: "env \<Rightarrow> int \<Rightarrow> event_row \<Rightarrow> json \<Rightarrow> db \<Rightarrow> (json \<times> db) res" where
  "apply_plan e now r plan s =
     (case obj_get plan ''steps'' of
        Some todo \<Rightarrow> submit_plan e now r plan todo s
      | None \<Rightarrow> record_plan e now r plan s)"

definition plan_event ::
  "env \<Rightarrow> planner \<Rightarrow> int \<Rightarrow> event_row \<Rightarrow> db \<Rightarrow> json res \<times> db" where
  "plan_event e plan now r s =
     (let tenant = e_tenant r; channel = e_channel r; key = e_key r in
      case find_task s tenant channel key of
        Some t \<Rightarrow> (Inr (JObj [(''task_id'', JStr (t_id t))]), s)
      | None \<Rightarrow>
          if turn_recorded s tenant channel key then (Inr (JObj [(''turn'', JStr key)]), s)
          else (case require_authority e tenant channel (payload_sender (e_payload r)) default_roles of
              Inl x \<Rightarrow> (Inl x, s)
            | Inr _ \<Rightarrow>
                (case plan tenant channel (e_payload r) s of
                  (Inl x, s1) \<Rightarrow> (Inl x, s1)
                | (Inr p, s1) \<Rightarrow>
                    (case apply_plan e now r p s1 of
                       Inl x \<Rightarrow> (Inl x, s1)
                     | Inr (res, s2) \<Rightarrow> (Inr res, s2)))))"

definition settle_event :: "env \<Rightarrow> planner \<Rightarrow> int \<Rightarrow> event_row \<Rightarrow> db \<Rightarrow> db" where
  "settle_event e plan now r s =
     (let (res, s1) = plan_event e plan now r s;
          st = (case res of Inr _ \<Rightarrow> EvDone | Inl _ \<Rightarrow> EvFailed);
          result = (case res of Inr v \<Rightarrow> v | Inl _ \<Rightarrow> JObj []);
          err = (case res of Inr _ \<Rightarrow> [] | Inl x \<Rightarrow> event_error x)
      in upd_events (\<lambda>x. event_key_of x = event_key_of r \<and> e_claim x = e_claim r)
           (\<lambda>x. x\<lparr>e_status := st, e_result := result, e_error := err, e_claim := [], e_lease := 0\<rparr>) s1)"

definition process_event ::
  "env \<Rightarrow> planner \<Rightarrow> int \<Rightarrow> int \<Rightarrow> string \<Rightarrow> string list option \<Rightarrow> string list \<Rightarrow> db \<Rightarrow> bool \<times> db" where
  "process_event e plan t1 t2 tenant channels skip s =
     (case claim_event e t1 tenant channels skip s of
        (None, s1) \<Rightarrow> (False, s1)
      | (Some r, s1) \<Rightarrow> (True, settle_event e plan t2 r s1))"

definition retry_event ::
  "env \<Rightarrow> int \<Rightarrow> string \<Rightarrow> string \<Rightarrow> string \<Rightarrow> string \<Rightarrow> db \<Rightarrow> db res" where
  "retry_event e now tenant channel key actor s =
     bindr (require_active e s tenant) (\<lambda>_.
     bindr (require_authority e tenant ''web'' actor default_roles) (\<lambda>_.
     bindr (case find_event s tenant channel key of
              None \<Rightarrow> Inr ()
            | Some r \<Rightarrow> require_authority e tenant channel (payload_sender (e_payload r)) default_roles) (\<lambda>_.
       let P = (\<lambda>r. event_key_of r = (tenant, channel, key) \<and> e_status r = EvFailed) in
       if \<not> (\<exists>r \<in> set (events s). P r) then raise Conflict ''Only failed events can be retried''
       else Inr (audit now tenant [] ''event.retry'' actor
                   [(''channel'', JStr channel), (''key'', JStr key)]
                   (upd_events P (\<lambda>r. r\<lparr>e_status := EvPending, e_error := []\<rparr>) s)))))"

section \<open>Schedules\<close>

text \<open>An upsert keeps the due time of a schedule that already exists.\<close>

definition upsert_schedule :: "schedule_row \<Rightarrow> db \<Rightarrow> db" where
  "upsert_schedule h s =
     (if \<exists>x \<in> set (schedules s). h_tenant x = h_tenant h \<and> h_id x = h_id h
      then s\<lparr>schedules := upd_where (\<lambda>x. h_tenant x = h_tenant h \<and> h_id x = h_id h)
               (\<lambda>x. x\<lparr>h_agent := h_agent h, h_steps := h_steps h, h_interval := h_interval h,
                      h_enabled := True\<rparr>) (schedules s)\<rparr>
      else s\<lparr>schedules := schedules s @ [h]\<rparr>)"

definition schedule ::
  "env \<Rightarrow> int \<Rightarrow> string \<Rightarrow> string \<Rightarrow> string \<Rightarrow> json \<Rightarrow> int \<Rightarrow> string \<Rightarrow> db \<Rightarrow> db res" where
  "schedule e now tenant sid agent plan interval actor s =
     (if \<not> (60 \<le> interval \<and> interval \<le> 31536000)
        then raise ValueError ''Interval must be an integer within bounds''
      else bindr (validated e tenant agent plan None) (\<lambda>_.
        bindr (require_active e s tenant) (\<lambda>_.
        bindr (require_authority e tenant ''cron'' actor [''owner'']) (\<lambda>_.
        bindr (encode plan) (\<lambda>_.
          Inr (upsert_schedule \<lparr>h_tenant = tenant, h_id = sid, h_agent = agent, h_steps = plan,
                 h_interval = interval, h_next_due = now + interval, h_enabled = True\<rparr>
               (s\<lparr>schedule_owners := (schedule_owners s)((tenant, sid) \<mapsto> actor)\<rparr>)))))))"

definition due :: "int \<Rightarrow> string \<Rightarrow> schedule_row \<Rightarrow> bool" where
  "due now tenant h \<longleftrightarrow> h_tenant h = tenant \<and> h_enabled h \<and> h_next_due h \<le> now"

definition schedule_owner :: "db \<Rightarrow> string \<Rightarrow> string \<Rightarrow> string" where
  "schedule_owner s tenant sid =
     (case schedule_owners s (tenant, sid) of None \<Rightarrow> ''scheduler'' | Some a \<Rightarrow> a)"

text \<open>
  One due schedule: \<open>Inr True\<close> when its plan was submitted, \<open>Inr False\<close> when it was disabled
  because the owner lost the authority, an exception otherwise.
\<close>

definition run_schedule :: "env \<Rightarrow> int \<Rightarrow> string \<Rightarrow> schedule_row \<Rightarrow> db \<Rightarrow> bool res \<times> db" where
  "run_schedule e now tenant h s =
     (let actor = schedule_owner s tenant (h_id h) in
      case submit e now tenant ''cron'' (h_id h @ '':'' @ show_int (h_next_due h)) (h_agent h)
             (h_steps h) actor s of
        Inl x \<Rightarrow>
          if catches [Forbidden] x
          then (Inr False,
                audit now tenant [] ''schedule.authority_denied'' actor [(''schedule'', JStr (h_id h))]
                  (s\<lparr>schedules := upd_where (\<lambda>x. h_tenant x = tenant \<and> h_id x = h_id h)
                       (\<lambda>x. x\<lparr>h_enabled := False\<rparr>) (schedules s)\<rparr>))
          else (Inl x, s)
      | Inr (_, s1) \<Rightarrow>
          (Inr True,
           s1\<lparr>schedules := upd_where
                (\<lambda>x. h_tenant x = tenant \<and> h_id x = h_id h \<and> h_next_due x = h_next_due h)
                (\<lambda>x. x\<lparr>h_next_due := now + h_interval h\<rparr>) (schedules s1)\<rparr>))"

fun run_due :: "env \<Rightarrow> int \<Rightarrow> string \<Rightarrow> schedule_row list \<Rightarrow> nat \<Rightarrow> db \<Rightarrow> nat res \<times> db" where
  "run_due e now tenant [] n s = (Inr n, s)"
| "run_due e now tenant (h # hs) n s =
     (case run_schedule e now tenant h s of
        (Inl x, s1) \<Rightarrow> (Inl x, s1)
      | (Inr ok, s1) \<Rightarrow> run_due e now tenant hs (if ok then Suc n else n) s1)"

definition run_schedules :: "env \<Rightarrow> int \<Rightarrow> string \<Rightarrow> db \<Rightarrow> nat res \<times> db" where
  "run_schedules e now tenant s =
     (if frozen s tenant then (Inr 0, s)
      else run_due e now tenant (filter (due now tenant) (schedules s)) 0 s)"

end
