(* ===== verification/Engine_System.thy ===== *)
theory Engine_System
  imports Engine_Events
begin

text \<open>
  The engine as a transition system: the committed transactions on the task tables, interleaved in
  any order, by any worker or operator, under any policy, directory and clock. \<open>other\<close> stands for
  every transaction of the rest of the runtime, which writes other tables.
\<close>

inductive engine_step :: "(nat \<Rightarrow> string) \<Rightarrow> db \<Rightarrow> db \<Rightarrow> bool" for u where
  submit: "uuid4 e = u \<Longrightarrow> submit e now tenant channel key agent plan actor s = Inr (tid, s')
    \<Longrightarrow> engine_step u s s'"
| reply: "uuid4 e = u \<Longrightarrow>
    operator_reply e now tenant channel conv text actor role key agent s = Inr (tid, s')
    \<Longrightarrow> engine_step u s s'"
| approve: "uuid4 e = u \<Longrightarrow> approve e now tenant sid actor decision role s = Inr s'
    \<Longrightarrow> engine_step u s s'"
| claim: "uuid4 e = u \<Longrightarrow> claim e now tenant worker device seconds s = Inr (c, s')
    \<Longrightarrow> engine_step u s s'"
| finish: "finish now tenant sid token result out err s = Inr s' \<Longrightarrow> engine_step u s s'"
| cancel: "uuid4 e = u \<Longrightarrow> cancel e now tenant tid actor s = Inr s' \<Longrightarrow> engine_step u s s'"
| reconcile: "uuid4 e = u \<Longrightarrow> reconcile e now tenant sid actor role out evidence s = Inr s'
    \<Longrightarrow> engine_step u s s'"
| freeze: "uuid4 e = u \<Longrightarrow> freeze e now tenant stopped actor s = Inr s' \<Longrightarrow> engine_step u s s'"
| device: "uuid4 e = u \<Longrightarrow> device_change e now tenant dev revoked actor s = Inr (g, s')
    \<Longrightarrow> engine_step u s s'"
| other: "same_engine s s' \<Longrightarrow> uuids s \<le> uuids s' \<Longrightarrow> engine_step u s s'"

inductive_cases engine_stepE: "engine_step u s s'"

inductive reachable :: "(nat \<Rightarrow> string) \<Rightarrow> db \<Rightarrow> bool" for u where
  start: "reachable u empty_db"
| step: "reachable u s \<Longrightarrow> engine_step u s s' \<Longrightarrow> reachable u s'"

lemma engine_step_good: "engine_step u s s' \<Longrightarrow> inj u \<Longrightarrow> good u s \<Longrightarrow> good u s'"
proof (induction rule: engine_step.induct)
  case (submit e)
  then show ?case using submit_good[OF submit(2)] by simp
next
  case (reply e)
  then show ?case using operator_reply_good[OF reply(2)] by simp
next
  case (other s s')
  then show ?case by (auto simp: same_engine_def intro: good_same)
qed (blast intro: approve_good claim_good finish_good cancel_good reconcile_good freeze_good
    device_change_good)+

lemma reachable_good: "reachable u s \<Longrightarrow> inj u \<Longrightarrow> good u s"
  by (induction rule: reachable.induct) (auto intro: engine_step_good)

lemma reachable_steps: "(engine_step u)\<^sup>*\<^sup>* s s' \<Longrightarrow> reachable u s \<Longrightarrow> reachable u s'"
  by (induction rule: rtranclp_induct) (auto intro: reachable.step)

section \<open>The entry points are sequences of these transactions\<close>

lemma other_upd_events [simp]: "engine_step u s (upd_events P f s)"
  by (rule engine_step.other) (simp_all add: same_engine_def)

lemma accept_event_step:
  "accept_event e now tenant channel key payload s = Inr (v, s') \<Longrightarrow> engine_step u s s'"
  by (rule engine_step.other)
    (auto simp: accept_event_def res_simps Let_def same_engine_def split: option.splits if_splits)

lemma claim_event_step:
  "claim_event e now tenant channels skip s = (r, s') \<Longrightarrow> engine_step u s s'"
  by (rule engine_step.other)
    (auto simp: claim_event_def Let_def same_engine_def set_event_def split: option.splits if_splits)

definition planner_ok :: "(nat \<Rightarrow> string) \<Rightarrow> planner \<Rightarrow> bool" where
  "planner_ok u plan \<longleftrightarrow> (\<forall>tenant channel payload s.
     (engine_step u)\<^sup>*\<^sup>* s (snd (plan tenant channel payload s)))"

lemma record_turn_step:
  "record_turn e now tenant channel key agent payload s = Inr (k, s') \<Longrightarrow> engine_step u s s'"
  by (rule engine_step.other)
    (auto simp: record_turn_def Let_def res_simps same_engine_def split: option.splits if_splits)

lemma plan_event_steps:
  assumes "planner_ok (uuid4 e) plan" and "plan_event e plan now r s = (res, s')"
  shows "(engine_step (uuid4 e))\<^sup>*\<^sup>* s s'"
proof -
  obtain p s1 where p: "plan (e_tenant r) (e_channel r) (e_payload r) s = (p, s1)" by force
  then have one: "(engine_step (uuid4 e))\<^sup>*\<^sup>* s s1"
    using assms(1) unfolding planner_ok_def by (metis snd_conv)
  have two: "engine_step (uuid4 e) s1 s2"
    if "apply_plan e now r q s1 = Inr (v, s2)" for q v s2
    using that
    by (auto simp: apply_plan_def submit_plan_def record_plan_def res_simps Let_def split: option.splits if_splits
        intro: engine_step.submit[OF refl] record_turn_step)
  from assms(2) p consider "s' = s" | "s' = s1"
    | q v where "apply_plan e now r q s1 = Inr (v, s')"
    unfolding plan_event_def Let_def by (auto split: option.splits if_splits sum.splits prod.splits)
  then show ?thesis
  proof cases
    case 3
    with one two show ?thesis by (meson rtranclp.rtrancl_into_rtrancl)
  qed (use one in simp_all)
qed

lemma process_event_steps:
  assumes "planner_ok (uuid4 e) plan" and "process_event e plan t1 t2 tenant channels skip s = (b, s')"
  shows "(engine_step (uuid4 e))\<^sup>*\<^sup>* s s'"
proof -
  obtain c s1 where c: "claim_event e t1 tenant channels skip s = (c, s1)" by force
  have one: "(engine_step (uuid4 e))\<^sup>*\<^sup>* s s1" using claim_event_step[OF c] by blast
  show ?thesis
  proof (cases c)
    case None
    with assms(2) c one show ?thesis by (simp add: process_event_def)
  next
    case (Some r)
    obtain res s2 where p: "plan_event e plan t2 r s1 = (res, s2)" by force
    with assms(2) c Some have "engine_step (uuid4 e) s2 s'"
      by (auto simp: process_event_def settle_event_def)
    with one plan_event_steps[OF assms(1) p] show ?thesis
      by (meson rtranclp.rtrancl_into_rtrancl rtranclp_trans)
  qed
qed

definition handler_ok :: "(nat \<Rightarrow> string) \<Rightarrow> handler \<Rightarrow> bool" where
  "handler_ok u h \<longleftrightarrow> (\<forall>tool tenant agent args sid s.
     (engine_step u)\<^sup>*\<^sup>* s (snd (h tool tenant agent args sid s)))"

lemma run_handler_steps:
  assumes "handler_ok u h" and "run_handler h now tenant spec c s = (b, s')"
  shows "(engine_step u)\<^sup>*\<^sup>* s s'"
proof -
  obtain out s1 where h: "h (s_tool (cl_step c)) tenant (cl_agent c) (s_args (cl_step c))
      (s_id (cl_step c)) s = (out, s1)" by force
  then have one: "(engine_step u)\<^sup>*\<^sup>* s s1" using assms(1) unfolding handler_ok_def by (metis snd_conv)
  from assms(2) h have "s' = s1 \<or> engine_step u s1 s'"
    by (auto simp: run_handler_def Let_def settle_with_def split: sum.splits outcome.splits
        intro: engine_step.finish)
  with one show ?thesis by (meson rtranclp.rtrancl_into_rtrancl)
qed

lemma tick_steps:
  assumes h: "handler_ok (uuid4 e) h" and op: "tick e h t1 t2 t3 tenant worker s = (b, s')"
  shows "(engine_step (uuid4 e))\<^sup>*\<^sup>* s s'"
proof (cases "claim e t1 tenant worker [] 90 s")
  case (Inl x)
  with op show ?thesis by (simp add: tick_def)
next
  case (Inr p)
  obtain c s1 where p: "p = (c, s1)" by force
  have one: "engine_step (uuid4 e) s s1" by (rule engine_step.claim[OF refl Inr[unfolded p]])
  from op Inr p consider "s' = s1" | "finish t2 tenant (s_id (cl_step (the c)))
        (s_claim (cl_step (the c))) (JObj []) Failed ''authority_revoked_before_dispatch'' s1 = Inr s'"
    | spec where "run_handler h t3 tenant spec (the c) s1 = (b, s')"
    unfolding tick_def
    by (auto split: option.splits if_splits sum.splits bool.splits)
  then show ?thesis
  proof cases
    case 2
    with one show ?thesis by (meson engine_step.finish r_into_rtranclp rtranclp.rtrancl_into_rtrancl)
  next
    case 3
    from run_handler_steps[OF h 3] one show ?thesis by (meson converse_rtranclp_into_rtranclp)
  qed (use one in simp)
qed

end
