(* ===== verification/Demo_Env.thy ===== *)
theory Demo_Env
  imports Engine_Policy
begin

text \<open>
  A concrete set of collaborators for the witnesses: one read tool, one write tool that needs an
  approval and one channel send, a policy that allows all three, an authority that allows everyone,
  a constant digest and counted identifiers.
\<close>

definition demo_tool :: "string \<Rightarrow> string \<Rightarrow> fields \<Rightarrow> bool \<Rightarrow> tool" where
  "demo_tool n risk schema ext =
     \<lparr>tl_name = n, tl_risk = risk, tl_schema = schema, tl_external = ext, tl_runner = False,
      tl_description = []\<rparr>"

definition demo_policy :: policy where
  "demo_policy =
     \<lparr>p_tools = [''note.read'', ''note.write'', ''telegram.send''], p_ladder = ''human_assisted'',
      p_approval = [], p_approver_role = ''operator'', p_independent = False,
      p_recipients = [''chat-1''], p_connections = [], p_persona = JNull, p_conversation = JNull\<rparr>"

definition demo_schema :: fields where
  "demo_schema = obj_schema [(''text'', string_schema 500)] (Some [''text''])"

definition demo_env :: env where
  "demo_env =
     \<lparr>reg = [demo_tool ''note.read'' ''read'' (obj_schema [] None) False,
             demo_tool ''note.write'' ''write'' (obj_schema [] None) False,
             demo_tool ''telegram.send'' ''write''
               (obj_schema [(''conversation_id'', string_schema 100), (''text'', string_schema 4000)]
                  (Some [''conversation_id'', ''text''])) True],
      policy_of = (\<lambda>tenant agent. Inr demo_policy), authority = (\<lambda>tenant channel actor roles. None),
      bindings = (\<lambda>tenant agent tool args. Inr []), sha256hex = (\<lambda>t. ''h''),
      uuid4 = (\<lambda>n. replicate n CHR ''x'')\<rparr>"

lemma demo_inj: "inj (uuid4 demo_env)"
proof (rule injI)
  fix m n assume "uuid4 demo_env m = uuid4 demo_env n"
  then have "length (replicate m CHR ''x'') = length (replicate n CHR ''x'')"
    by (simp add: demo_env_def)
  then show "m = n" by simp
qed

definition ok_state :: "('a \<times> db) res \<Rightarrow> db" where
  "ok_state r = (case r of Inl x \<Rightarrow> empty_db | Inr (_, s) \<Rightarrow> s)"

definition ok_db :: "db res \<Rightarrow> db" where
  "ok_db r = (case r of Inl x \<Rightarrow> empty_db | Inr s \<Rightarrow> s)"

lemma ok_stateI: "is_ok r \<Longrightarrow> \<exists>x. r = Inr (x, ok_state r)"
  by (auto simp: ok_state_def is_ok_def split: sum.splits)

lemma ok_dbI: "is_ok r \<Longrightarrow> r = Inr (ok_db r)"
  by (auto simp: ok_db_def is_ok_def split: sum.splits)

end
