(* ===== verification/Engine_Demo.thy ===== *)
theory Engine_Demo
  imports Engine_System Demo_Env
begin

text \<open>
  A concrete run of the engine in the collaborators of \<^verbatim>\<open>Demo_Env\<close>. The witnesses of the
  engine's properties evaluate it.
\<close>

definition demo_plan :: json where
  "demo_plan = JList [JObj [(''tool'', JStr ''note.read'')], JObj [(''tool'', JStr ''note.write'')]]"

text \<open>A task of two steps, submitted; its first step claimed and finished; the second approved.\<close>

definition demo_1 :: db where
  "demo_1 = ok_state (submit demo_env 100 ''t'' ''web'' ''k'' ''a'' demo_plan ''u'' empty_db)"

definition demo_2 :: db where
  "demo_2 = ok_state (claim demo_env 101 ''t'' ''w'' [] 90 demo_1)"

definition demo_token :: string where
  "demo_token = ''xxx''"

definition demo_3 :: db where
  "demo_3 = ok_db (finish 102 ''t'' ''x'' demo_token (JObj []) Succeeded [] demo_2)"

definition demo_4 :: db where
  "demo_4 = ok_db (approve demo_env 103 ''t'' ''xx'' ''boss'' ''approved'' ''owner'' demo_3)"

definition demo_5 :: db where
  "demo_5 = ok_state (claim demo_env 104 ''t'' ''w'' [] 90 demo_4)"

lemma demo_ok:
  "is_ok (submit demo_env 100 ''t'' ''web'' ''k'' ''a'' demo_plan ''u'' empty_db)"
  "is_ok (claim demo_env 101 ''t'' ''w'' [] 90 demo_1)"
  "is_ok (finish 102 ''t'' ''x'' demo_token (JObj []) Succeeded [] demo_2)"
  "is_ok (approve demo_env 103 ''t'' ''xx'' ''boss'' ''approved'' ''owner'' demo_3)"
  "is_ok (claim demo_env 104 ''t'' ''w'' [] 90 demo_4)"
  by code_simp+

lemma demo_reach:
  "reachable (uuid4 demo_env) demo_1" "reachable (uuid4 demo_env) demo_2"
  "reachable (uuid4 demo_env) demo_3" "reachable (uuid4 demo_env) demo_4"
  "reachable (uuid4 demo_env) demo_5"
proof -
  note ok = demo_ok
  show 1: "reachable (uuid4 demo_env) demo_1"
    using ok_stateI[OF ok(1)] unfolding demo_1_def[symmetric]
    by (auto intro: reachable.step[OF reachable.start] engine_step.submit[OF refl])
  show 2: "reachable (uuid4 demo_env) demo_2"
    using ok_stateI[OF ok(2)] unfolding demo_2_def[symmetric]
    by (auto intro: reachable.step[OF 1] engine_step.claim[OF refl])
  show 3: "reachable (uuid4 demo_env) demo_3"
    using ok_dbI[OF ok(3)] unfolding demo_3_def[symmetric]
    by (auto intro: reachable.step[OF 2] engine_step.finish)
  show 4: "reachable (uuid4 demo_env) demo_4"
    using ok_dbI[OF ok(4)] unfolding demo_4_def[symmetric]
    by (auto intro: reachable.step[OF 3] engine_step.approve[OF refl])
  show "reachable (uuid4 demo_env) demo_5"
    using ok_stateI[OF ok(5)] unfolding demo_5_def[symmetric]
    by (auto intro: reachable.step[OF 4] engine_step.claim[OF refl])
qed

text \<open>What the witnesses read off the final state.\<close>

lemma demo_rows:
  "map (\<lambda>r. (s_id r, s_task r, s_position r, s_status r, s_attempts r, s_needed r)) (steps demo_5) =
     [(''x'', [], 0, Succeeded, 1, False), (''xx'', [], 1, Running, 1, True)]"
  by code_simp

lemma demo_5_steps:
  obtains r0 r1 where "steps demo_5 = [r0, r1]" "s_id r1 = ''xx''" "s_task r0 = s_task r1"
    "s_position r0 < s_position r1" "s_attempts r1 = 1" "s_needed r1"
  using demo_rows by (auto simp: map_eq_Cons_conv)

end
