(* ===== verification/Engine_Claims.thy ===== *)
theory Engine_Claims
  imports Engine_Demo
begin

text \<open>
  What a successful claim guarantees about the step it hands to a worker, and what a finished claim
  allows afterwards.
\<close>

section \<open>The candidate a claim loop settles on\<close>

definition untouched :: "string \<Rightarrow> db \<Rightarrow> db \<Rightarrow> bool" where
  "untouched sid s s' \<longleftrightarrow> events s' = events s \<and> freezes s' = freezes s
     \<and> (\<forall>a \<in> set (approvals s'). a_step a = sid \<longrightarrow> a \<in> set (approvals s))"

lemma untouched_refl [simp]: "untouched sid s s"
  by (simp add: untouched_def)

lemma untouched_trans: "untouched sid a b \<Longrightarrow> untouched sid b c \<Longrightarrow> untouched sid a c"
  by (auto simp: untouched_def)

lemma claim_row_untouched:
  assumes "claim_row e now tenant worker seconds r t s = Inr (None, s')" "sid \<noteq> s_id r"
  shows "untouched sid s s'"
  using assms(1)
  by (cases rule: claim_row_cases)
    (use assms(2) in \<open>auto simp: untouched_def retire_inactive_def fail_step_def park_step_def
      set_step_def in_upd_where split: if_splits\<close>)

lemma claim_loop_Some:
  assumes "claim_loop e now tenant worker seconds rs s = Inr (Some c, s')" "good u s"
    "\<not> frozen s tenant" "\<forall>p \<in> set rs. candidate s tenant p" "distinct (map (s_id \<circ> fst) rs)"
  shows "\<exists>r t sm. (r, t) \<in> set rs \<and> candidate sm tenant (r, t) \<and> good u sm
    \<and> untouched (s_id r) s sm \<and> claim_row e now tenant worker seconds r t sm = Inr (Some c, s')"
  using assms
proof (induction rs arbitrary: s)
  case (Cons p rs)
  obtain r t where p: "p = (r, t)" by force
  with Cons.prems(1) obtain c1 s1 where row: "claim_row e now tenant worker seconds r t s = Inr (c1, s1)"
    and rest: "(case c1 of None \<Rightarrow> claim_loop e now tenant worker seconds rs s1 | Some _ \<Rightarrow> Inr (c1, s1))
      = Inr (Some c, s')"
    by (auto simp: res_simps)
  have cand: "candidate s tenant (r, t)" using Cons.prems(4) p by simp
  show ?case
  proof (cases c1)
    case None
    have other: "s_id x \<noteq> s_id r" if "(x, y) \<in> set rs" for x y
      using that Cons.prems(5) p by (force simp: image_iff)
    have "\<forall>q \<in> set rs. candidate s1 tenant q"
      using claim_row_candidates[OF row[unfolded None] Cons.prems(2) cand] Cons.prems(4) other
      by auto
    moreover have "\<not> frozen s1 tenant"
      using Cons.prems(3) claim_row_freezes[OF row] by (simp add: frozen_def)
    moreover have "good u s1" by (rule claim_row_good[OF row Cons.prems(2) cand Cons.prems(3)])
    ultimately obtain x y sm where x: "(x, y) \<in> set rs" "candidate sm tenant (x, y)" "good u sm"
      "untouched (s_id x) s1 sm" "claim_row e now tenant worker seconds x y sm = Inr (Some c, s')"
      using Cons.IH[of s1] rest None Cons.prems(5) by auto
    moreover have "untouched (s_id x) s s1"
      by (rule claim_row_untouched[OF row[unfolded None] other[OF x(1)]])
    ultimately show ?thesis using p by (auto intro: untouched_trans)
  next
    case (Some cl)
    with rest row p cand Cons.prems(2) show ?thesis by fastforce
  qed
qed simp

lemma claim_Some:
  assumes good: "good u s" and op: "claim e now tenant worker device seconds s = Inr (Some c, s')"
  obtains r t sm where "r \<in> set (steps (expire_leases now tenant s))" "t \<in> set (tasks (expire_leases now tenant s))"
    "claimable (expire_leases now tenant s) tenant device r t"
    "candidate sm tenant (r, t)" "good u sm" "untouched (s_id r) (expire_leases now tenant s) sm"
    "claim_row e now tenant worker seconds r t sm = Inr (Some c, s')" "\<not> frozen s tenant"
    "5 \<le> seconds" "seconds \<le> 600" "device = [] \<or> device_usable (expire_leases now tenant s) tenant device"
proof -
  let ?s1 = "expire_leases now tenant s"
  have good1: "good u ?s1" by (rule expire_leases_good[OF good])
  from op have act: "\<not> frozen ?s1 tenant"
    and loop: "claim_loop e now tenant worker seconds (claim_rows ?s1 tenant device) ?s1 = Inr (Some c, s')"
    and bounds: "5 \<le> seconds" "seconds \<le> 600" "device = [] \<or> device_usable ?s1 tenant device"
    unfolding claim_def Let_def by (auto split: if_splits sum.splits)
  have cands: "\<forall>p \<in> set (claim_rows ?s1 tenant device). candidate ?s1 tenant p"
    by (auto simp: claim_rows_mem claimable_def candidate_def open_status_def)
  have "engine_ok u ?s1" using good1 by (simp add: good_def)
  from claim_loop_Some[OF loop good1 act cands claim_rows_distinct[OF this]]
  show ?thesis
    using that act bounds by (auto simp: claim_rows_mem frozen_def)
qed

text \<open>The lease the worker holds is the one in the table.\<close>

lemma lease_step_row:
  assumes "lease_step e now tenant worker seconds r t s = (c, s')" "r \<in> set (steps s)"
  shows "\<exists>r' \<in> set (steps s'). s_id r' = s_id r \<and> s_status r' = Running
      \<and> s_claim r' = s_claim (cl_step c) \<and> s_lease r' = now + seconds \<and> s_tenant r' = s_tenant r
      \<and> s_attempts r' = Suc (s_attempts r)"
    and "s_id (cl_step c) = s_id r" "cl_agent c = t_agent t"
    "s_tool (cl_step c) = s_tool r" "s_args (cl_step c) = s_args r"
proof -
  let ?r = "r\<lparr>s_status := Running, s_claim := fresh e s, s_worker := worker,
    s_lease := now + seconds, s_attempts := Suc (s_attempts r)\<rparr>"
  have "?r \<in> set (steps s')"
    using assms by (auto simp: lease_step_def Let_def set_step_def in_upd_where intro!: bexI[of _ r])
  then show "\<exists>r' \<in> set (steps s'). s_id r' = s_id r \<and> s_status r' = Running
      \<and> s_claim r' = s_claim (cl_step c) \<and> s_lease r' = now + seconds \<and> s_tenant r' = s_tenant r
      \<and> s_attempts r' = Suc (s_attempts r)"
    by (rule rev_bexI) (use assms(1) in \<open>auto simp: lease_step_def Let_def\<close>)
qed (use assms(1) in \<open>auto simp: lease_step_def Let_def\<close>)

lemma claim_check_policy:
  assumes "claim_check e s tenant r t = Inr (Inr v)"
  obtains p org where "require_authority e tenant (t_channel t) (t_actor t) default_roles = Inr ()"
    "task_origin s tenant (t_channel t) (t_event_key t) (s_tool r) (s_args r) = Inr org"
    "policy_of e tenant (t_agent t) = Inr p" "step_allowed e p org v" "v_tool v = s_tool r"
    "v_args v = s_args r"
proof -
  from assms have auth: "require_authority e tenant (t_channel t) (t_actor t) default_roles = Inr ()"
    by (auto simp: claim_check_def claim_refusal_def split: sum.splits if_splits)
  with assms obtain org vs where org: "task_origin s tenant (t_channel t) (t_event_key t) (s_tool r) (s_args r) = Inr org"
    and vs: "validated e tenant (t_agent t) (step_plan r) org = Inr vs" "vs \<noteq> []" "hd vs = v"
    by (auto simp: claim_check_def claim_refusal_def res_simps neq_Nil_conv split: sum.splits if_splits list.splits)
  obtain p xs where p: "policy_of e tenant (t_agent t) = Inr p" "step_plan r = JList xs"
    "each (validated_step e tenant (t_agent t) p org) xs = Inr vs"
    using validated_policy[OF vs(1)] by metis
  then have "validated_step e tenant (t_agent t) p org
      (JObj [(''tool'', JStr (s_tool r)), (''args'', s_args r), (''device'', JStr (s_device r))]) = Inr v"
    using vs(2,3) by (auto simp: step_plan_def res_simps)
  from validated_step_allowed[OF this] validated_step_fields[OF this] show ?thesis
    using that[OF auth org p(1)] by (auto simp: obj_fields_def jget_or_def)
qed

text \<open>The rows a completion leaves.\<close>

lemma finish_rows:
  assumes "finish now tenant sid token result outcome err s = Inr s'"
  shows "\<forall>r \<in> set (steps s'). s_id r = sid \<longrightarrow> s_status r = outcome \<and> s_result r = result"
proof -
  from assms obtain r where "find (holds_claim now tenant sid token) (steps s) = Some r"
    and s': "s' = refresh now tenant (s_task r)
      (audit now tenant (s_task r) (''step.'' @ status_text outcome) (s_worker r)
        [(''step'', JStr sid), (''error'', JStr (take 200 err))]
        (set_step sid (\<lambda>x. x\<lparr>s_status := outcome, s_result := result, s_error := take 200 err,
           s_claim := [], s_lease := 0\<rparr>) s))"
    unfolding finish_def res_simps by (auto split: option.splits if_splits)
  show ?thesis unfolding s' by (simp add: set_step_def ball_upd_where)
qed

end
