(* ===== verification/Engine_Props.thy ===== *)
theory Engine_Props
  imports Engine_Claims
begin

text \<open>
  The promises of the engine: at most one dispatch of a step, in order, under a consumed approval
  and the policy of the moment; one status per task; nothing running under a freeze; claims used
  once.
\<close>

section \<open>Every interleaving\<close>

text \<open>
  C1: in every state the engine can reach, by any interleaving of submissions, approvals, claims,
  completions, cancellations, freezes and device changes, a step has been dispatched at most once,
  and a step that still waits has not been dispatched at all.
\<close>

theorem dispatched_at_most_once:
  assumes "inj u" and "reachable u s" and "r \<in> set (steps s)"
  shows "s_attempts r \<le> 1 \<and> (s_status r \<in> {Queued, WaitingApproval} \<longrightarrow> s_attempts r = 0)"
  using reachable_good[OF assms(2,1)] assms(3)
  by (auto simp: good_def engine_ok_def steps_ok_def attempts_ok_def open_status_def)

lemma dispatched_at_most_once_witness:
  "s_attempts (steps demo_5 ! 1) \<le> 1"
proof -
  obtain r0 r1 where r: "steps demo_5 = [r0, r1]" by (rule demo_5_steps)
  then have "steps demo_5 ! 1 \<in> set (steps demo_5)" by simp
  from dispatched_at_most_once[OF demo_inj demo_reach(5) this] show ?thesis by blast
qed

text \<open>
  C3: a step that needed an approval has been dispatched only against an approval of exactly its
  fingerprint, and that approval is consumed, so it authorises nothing else.
\<close>

theorem dispatched_under_consumed_approval:
  assumes "inj u" and "reachable u s" and "r \<in> set (steps s)" and "s_needed r" and "s_attempts r = 1"
  shows "\<exists>a. filter (\<lambda>a. a_step a = s_id r) (approvals s) = [a] \<and> a_status a = ApConsumed
    \<and> a_fingerprint a = s_fingerprint r \<and> a_tenant a = s_tenant r"
proof -
  have ok: "engine_ok u s" using reachable_good[OF assms(2,1)] by (simp add: good_def)
  then obtain a where a: "a \<in> set (approvals s)" "a_step a = s_id r" "a_status a = ApConsumed"
    "a_fingerprint a = s_fingerprint r"
    using assms(3-5) by (auto simp: engine_ok_def approved_ok_def)
  have "approval_ref a \<in> step_ref ` set (steps s)"
    using ok a(1) by (auto simp: engine_ok_def keys_ok_def)
  then obtain x where "x \<in> set (steps s)" "s_id x = s_id r" "s_tenant x = a_tenant a"
    using a(2) by (auto simp: approval_ref_def step_ref_def)
  with steps_unique[OF ok assms(3)] have "a_tenant a = s_tenant r" by metis
  moreover have "filter (\<lambda>b. a_step b = s_id r) (approvals s) = [a]"
    using filter_key_single[of a_step "approvals s" a] ok a(1,2)
    by (simp add: engine_ok_def keys_ok_def)
  ultimately show ?thesis using a by auto
qed

lemma dispatched_under_consumed_approval_witness:
  "\<exists>a. filter (\<lambda>a. a_step a = ''xx'') (approvals demo_5) = [a] \<and> a_status a = ApConsumed"
proof -
  obtain r0 r1 where r: "steps demo_5 = [r0, r1]" "s_id r1 = ''xx''" "s_needed r1" "s_attempts r1 = 1"
    by (rule demo_5_steps)
  then have "r1 \<in> set (steps demo_5)" by simp
  from dispatched_under_consumed_approval[OF demo_inj demo_reach(5) this r(3,4)] r(2)
  show ?thesis by auto
qed

text \<open>
  C4: the steps of a task run in order: once a step has been dispatched, every earlier step of its
  task has succeeded, and no two steps of a task share a position.
\<close>

theorem steps_run_in_order:
  assumes "inj u" and "reachable u s" and "r \<in> set (steps s)" and "s_attempts r = 1"
    and "x \<in> set (steps s)" and "s_task x = s_task r"
  shows "(s_position x < s_position r \<longrightarrow> s_status x = Succeeded)
    \<and> (s_position x = s_position r \<longrightarrow> x = r)"
proof -
  have ok: "steps_ok (steps s)" using reachable_good[OF assms(2,1)] by (simp add: good_def engine_ok_def)
  then have "x = r" if "s_position x = s_position r"
    using that assms(3,5,6) distinct_key_eq[of "\<lambda>r. (s_task r, s_position r)" "steps s" x r]
    by (simp add: steps_ok_def)
  with ok assms show ?thesis by (auto simp: steps_ok_def sequential_def)
qed

lemma steps_run_in_order_witness:
  "s_status (steps demo_5 ! 0) = Succeeded"
proof -
  obtain r0 r1 where r: "steps demo_5 = [r0, r1]" "s_task r0 = s_task r1" "s_position r0 < s_position r1"
    "s_attempts r1 = 1" by (rule demo_5_steps)
  then have m: "r1 \<in> set (steps demo_5)" "r0 \<in> set (steps demo_5)" by simp_all
  from steps_run_in_order[OF demo_inj demo_reach(5) m(1) r(4) m(2) r(2)] r(1,3) show ?thesis by simp
qed



text \<open>
  No step of a frozen tenant is running, and a claim for a frozen tenant hands out nothing.
\<close>

theorem frozen_tenant_is_idle:
  assumes "inj u" and "reachable u s" and "frozen s tenant"
  shows "(\<forall>r \<in> set (steps s). s_tenant r = tenant \<longrightarrow> s_status r \<noteq> Running)
    \<and> (\<forall>e now worker device seconds c s'. claim e now tenant worker device seconds s = Inr (c, s')
         \<longrightarrow> c = None)"
proof (intro conjI ballI impI allI)
  fix r assume "r \<in> set (steps s)" "s_tenant r = tenant"
  then show "s_status r \<noteq> Running"
    using reachable_good[OF assms(2,1)] assms(3) by (auto simp: good_def engine_ok_def frozen_ok_def)
next
  fix e now worker device seconds c s'
  assume "claim e now tenant worker device seconds s = Inr (c, s')"
  then show "c = None"
    using assms(3) by (auto simp: claim_def Let_def frozen_def split: if_splits)
qed

definition demo_frozen :: db where
  "demo_frozen = ok_db (freeze demo_env 105 ''t'' True ''boss'' demo_2)"

lemma demo_frozen_reach: "reachable (uuid4 demo_env) demo_frozen"
proof -
  have "is_ok (freeze demo_env 105 ''t'' True ''boss'' demo_2)" by code_simp
  from ok_dbI[OF this] show ?thesis unfolding demo_frozen_def[symmetric]
    by (auto intro: reachable.step[OF demo_reach(2)] engine_step.freeze[OF refl])
qed

lemma frozen_tenant_is_idle_witness:
  "s_status (steps demo_frozen ! 0) \<noteq> Running"
proof -
  have "frozen demo_frozen ''t''" "steps demo_frozen ! 0 \<in> set (steps demo_frozen)"
    "s_tenant (steps demo_frozen ! 0) = ''t''" by code_simp+
  then show ?thesis using frozen_tenant_is_idle[OF demo_inj demo_frozen_reach] by blast
qed

section \<open>Claims\<close>



text \<open>
  A claim is used once. A completion is accepted only from the holder of the running step's
  token within its lease, and after it no completion under that token is accepted again.
\<close>

theorem finish_needs_live_claim:
  assumes "finish now tenant sid token result outcome err s = Inr s'"
  shows "(\<exists>r \<in> set (steps s). s_tenant r = tenant \<and> s_id r = sid \<and> s_claim r = token
        \<and> s_status r = Running \<and> now < s_lease r)
    \<and> (\<forall>r \<in> set (steps s'). s_id r = sid \<longrightarrow> s_status r = outcome \<and> s_result r = result)
    \<and> (\<forall>now' result' outcome' err'. \<not> is_ok (finish now' tenant sid token result' outcome' err' s'))"
proof -
  from assms obtain r where r: "find (holds_claim now tenant sid token) (steps s) = Some r"
    and o: "outcome \<in> {Succeeded, Failed, Uncertain}"
    unfolding finish_def res_simps by (auto split: option.splits if_splits)
  note rows = finish_rows[OF assms]
  with o have "find (holds_claim n tenant sid token) (steps s') = None" for n
    by (auto simp: find_None_mem holds_claim_def)
  then have "\<not> is_ok (finish n tenant sid token re ou er s')" for n re ou er
    by (auto simp: finish_def is_ok_def res_simps split: sum.splits)
  with r rows show ?thesis by (auto simp: holds_claim_def dest!: find_Some_mem)
qed

lemma finish_needs_live_claim_witness:
  "is_ok (finish 102 ''t'' ''x'' demo_token (JObj []) Succeeded [] demo_2)
    \<and> \<not> is_ok (finish 103 ''t'' ''x'' demo_token (JObj []) Failed [] demo_3)"
proof
  show "is_ok (finish 102 ''t'' ''x'' demo_token (JObj []) Succeeded [] demo_2)" by (rule demo_ok(3))
  show "\<not> is_ok (finish 103 ''t'' ''x'' demo_token (JObj []) Failed [] demo_3)"
    by (rule finish_needs_live_claim[OF ok_dbI[OF demo_ok(3)], folded demo_3_def,
          THEN conjunct2, THEN conjunct2, rule_format])
qed

end
