(* ===== verification/Engine_Keys.thy ===== *)
theory Engine_Keys
  imports Engine_Props
begin

text \<open>
  Idempotency keys: the task of a \<open>(tenant, channel, event key)\<close> stays the task of that key. Then
  the promises of submission, outbound destinations, operator replies and the inbox.
\<close>

section \<open>The task table only grows\<close>

definition keeps :: "db \<Rightarrow> db \<Rightarrow> bool" where
  "keeps s s' \<longleftrightarrow> (\<exists>ts. map task_core (tasks s') = map task_core (tasks s) @ ts)"

lemma keeps_refl [simp]: "keeps s s"
  by (simp add: keeps_def)

lemma keeps_trans: "keeps a b \<Longrightarrow> keeps b c \<Longrightarrow> keeps a c"
  by (auto simp: keeps_def)

lemma keeps_tame: "tame s s' \<Longrightarrow> keeps s s'"
  by (auto simp: keeps_def tame_def)

lemma keeps_refresh [simp]: "keeps s (refresh now te k s1) \<longleftrightarrow> keeps s s1"
proof -
  have "map task_core (tasks (refresh now te k s1)) = map task_core (tasks s1)"
    using tame_refresh[of s1 now te k] by (simp add: tame_def)
  then show ?thesis by (simp add: keeps_def)
qed

lemma keeps_refresh_all [simp]: "keeps s (refresh_all now te ks s1) \<longleftrightarrow> keeps s s1"
proof -
  have "map task_core (tasks (refresh_all now te ks s1)) = map task_core (tasks s1)"
    using tame_refresh_all[of s1 now te ks] by (simp add: tame_def)
  then show ?thesis by (simp add: keeps_def)
qed

lemma keeps_simps [simp]:
  "keeps s (audit now te k a u d s1) \<longleftrightarrow> keeps s s1"
  "keeps s (upd_steps P f s1) \<longleftrightarrow> keeps s s1"
  "keeps s (upd_approvals Q g s1) \<longleftrightarrow> keeps s s1"
  "keeps s (set_step sid f s1) \<longleftrightarrow> keeps s s1"
  "keeps s (consume_approval sid s1) \<longleftrightarrow> keeps s s1"
  "keeps s (drawn s1) \<longleftrightarrow> keeps s s1"
  "keeps s (s1\<lparr>freezes := fr\<rparr>) \<longleftrightarrow> keeps s s1"
  "keeps s (s1\<lparr>devices := ds\<rparr>) \<longleftrightarrow> keeps s s1"
  by (simp_all add: keeps_def set_step_def consume_approval_def)

lemma keeps_upsert [simp]: "keeps s (upsert_device te d rv s1) \<longleftrightarrow> keeps s s1"
  by (simp add: upsert_device_def)

lemma keeps_create:
  assumes "create_task e now tenant channel key agent plan actor vs approver s = Inr (tid, s')"
  shows "keeps s s'"
  using assms by (cases rule: create_taskE) (auto simp: keeps_def[of s "insert_steps _ _ _ _ _ _ _ _"])

lemma keeps_expire: "keeps s (expire_leases now tenant s)"
proof -
  have "keeps s (fold (expire_step now tenant) rs s1)" if "keeps s s1" for rs s1
    using that by (induction rs arbitrary: s1) (simp_all add: expire_step_def)
  then show ?thesis by (simp add: expire_leases_def)
qed

lemma keeps_claim_row:
  assumes "claim_row e now tenant worker seconds r t s = Inr (c, s')"
  shows "keeps s s'"
  using assms
  by (cases rule: claim_row_cases)
    (auto simp: retire_inactive_def fail_step_def park_step_def lease_step_def Let_def)

lemma keeps_claim_loop:
  "claim_loop e now tenant worker seconds rs s = Inr (c, s') \<Longrightarrow> keeps s s'"
proof (induction rs arbitrary: s)
  case (Cons p rs)
  obtain r t where p: "p = (r, t)" by force
  with Cons.prems obtain c1 s1 where "claim_row e now tenant worker seconds r t s = Inr (c1, s1)"
    and rest: "(case c1 of None \<Rightarrow> claim_loop e now tenant worker seconds rs s1 | Some _ \<Rightarrow> Inr (c1, s1))
      = Inr (c, s')"
    by (auto simp: res_simps)
  then have "keeps s s1" by (simp add: keeps_claim_row)
  with rest Cons.IH[of s1] show ?case by (cases c1) (auto intro: keeps_trans)
qed simp

lemma keeps_claim: "claim e now tenant worker device seconds s = Inr (c, s') \<Longrightarrow> keeps s s'"
  unfolding claim_def Let_def
  by (auto split: if_splits sum.splits intro: keeps_expire keeps_trans[OF keeps_expire keeps_claim_loop])

lemma engine_step_keeps: "engine_step u s s' \<Longrightarrow> keeps s s'"
proof (induction rule: engine_step.induct)
  case (submit e)
  then show ?case by (auto elim!: submitE intro: keeps_create)
next
  case (reply e)
  then show ?case by (auto elim!: operator_replyE intro: keeps_create)
next
  case (approve e)
  then show ?case by (auto simp: approve_def decide_update_def res_simps split: option.splits if_splits prod.splits)
next
  case (claim e)
  then show ?case by (auto intro: keeps_claim)
next
  case finish
  then show ?case by (auto simp: finish_def res_simps split: option.splits if_splits)
next
  case (cancel e)
  then show ?case by (auto simp: cancel_def Let_def res_simps split: option.splits if_splits)
next
  case (reconcile e)
  then show ?case by (auto simp: reconcile_def res_simps split: option.splits if_splits)
next
  case (freeze e now tenant stopped)
  then show ?case by (cases stopped) (auto simp: freeze_def Let_def res_simps)
next
  case (device e now tenant dev revoked actor s g s')
  from device_changeE[OF device(2)] show ?case by (simp add: retire_device_def Let_def)
next
  case other
  then show ?case by (simp add: same_engine_def keeps_def)
qed

lemma engine_steps_keeps: "(engine_step u)\<^sup>*\<^sup>* s s' \<Longrightarrow> keeps s s'"
  by (induction rule: rtranclp_induct) (auto intro: keeps_trans engine_step_keeps)

lemma find_core:
  assumes "map task_core ts' = map task_core ts @ us"
    and "find (\<lambda>t. t_tenant t = a \<and> t_channel t = b \<and> t_event_key t = c) ts = Some t"
  shows "\<exists>t'. find (\<lambda>t. t_tenant t = a \<and> t_channel t = b \<and> t_event_key t = c) ts' = Some t'
    \<and> task_core t' = task_core t"
  using assms
proof (induction ts arbitrary: ts')
  case (Cons x xs)
  from Cons.prems(1) obtain y ys where "ts' = y # ys" "task_core y = task_core x"
    "map task_core ys = map task_core xs @ us"
    by (cases ts') auto
  with Cons show ?case by (auto simp: task_core_def split: if_splits)
qed simp

lemma keeps_find_task:
  assumes "keeps s s'" and "find_task s tenant channel key = Some t"
  obtains t' where "find_task s' tenant channel key = Some t'" "task_core t' = task_core t"
proof -
  from assms(1) obtain us where "map task_core (tasks s') = map task_core (tasks s) @ us"
    by (auto simp: keeps_def)
  from find_core[OF this assms(2)[unfolded find_task_def]] that show ?thesis
    unfolding find_task_def by blast
qed

lemma demo_steps: "(engine_step (uuid4 demo_env))\<^sup>*\<^sup>* demo_1 demo_5"
proof -
  note ok = demo_ok
  have "engine_step (uuid4 demo_env) demo_1 demo_2"
    using ok_stateI[OF ok(2)] unfolding demo_2_def[symmetric] by (auto intro: engine_step.claim[OF refl])
  moreover have "engine_step (uuid4 demo_env) demo_2 demo_3"
    using ok_dbI[OF ok(3)] unfolding demo_3_def[symmetric] by (auto intro: engine_step.finish)
  moreover have "engine_step (uuid4 demo_env) demo_3 demo_4"
    using ok_dbI[OF ok(4)] unfolding demo_4_def[symmetric] by (auto intro: engine_step.approve[OF refl])
  moreover have "engine_step (uuid4 demo_env) demo_4 demo_5"
    using ok_stateI[OF ok(5)] unfolding demo_5_def[symmetric] by (auto intro: engine_step.claim[OF refl])
  ultimately show ?thesis
    by (blast intro: converse_rtranclp_into_rtranclp)
qed

end
