(* ===== verification/Engine_Promises.thy ===== *)
theory Engine_Promises
  imports Engine_Keys
begin

text \<open>
  The promises of submission (idempotency, destinations, operator replies), of a worker's pass and
  of the policy fingerprint.
\<close>

section \<open>Submission\<close>

lemma create_task_found:
  assumes "create_task e now tenant channel key agent plan actor vs approver s = Inr (tid, s')"
  obtains t fp where "find_task s' tenant channel key = Some t" "t_id t = tid" "t_fingerprint t = fp"
    "digest e (JObj [(''agent'', JStr agent), (''steps'', plan)]) = Inr fp"
  using assms
proof (cases rule: create_taskE)
  case (created fp s1)
  let ?t = "new_task now (fresh e s) tenant channel key fp agent actor"
  have "find_task (insert_steps e now tenant tid approver 0 vs s1) tenant channel key = Some ?t"
    using created(1) unfolding find_task_def created(7) created(5)
    by (simp add: find_append new_task_def)
  moreover have "keeps (insert_steps e now tenant tid approver 0 vs s1) s'"
    unfolding created(8) by simp
  ultimately obtain t where t: "find_task s' tenant channel key = Some t" "task_core t = task_core ?t"
    by (metis keeps_find_task)
  then have "t_id t = tid" "t_fingerprint t = fp"
    using created(5) by (simp_all add: task_core_def new_task_def)
  with t(1) show ?thesis by (rule that[OF _ _ _ created(2)])
qed (use that in auto)

text \<open>
  C6: a task key is used once, for good: after a submission was accepted, and after any further
  transactions of the engine, another submission under the same channel and key is accepted only
  for the same agent and plan (up to the fingerprint), answers with the same task and changes
  nothing.
\<close>

theorem submit_is_idempotent:
  assumes "submit e now tenant channel key agent plan actor s = Inr (tid, s')"
    and "(engine_step u)\<^sup>*\<^sup>* s' s2"
    and "submit e now2 tenant channel key agent2 plan2 actor2 s2 = Inr (tid2, s3)"
  shows "tid2 = tid \<and> s3 = s2
    \<and> digest e (JObj [(''agent'', JStr agent2), (''steps'', plan2)])
       = digest e (JObj [(''agent'', JStr agent), (''steps'', plan)])"
proof -
  from assms(1) obtain vs where
    "create_task e now tenant channel key agent plan actor vs [] s = Inr (tid, s')" by (rule submitE)
  then obtain t fp where t: "find_task s' tenant channel key = Some t" "t_id t = tid"
    "t_fingerprint t = fp" "digest e (JObj [(''agent'', JStr agent), (''steps'', plan)]) = Inr fp"
    by (rule create_task_found)
  obtain t2 where t2: "find_task s2 tenant channel key = Some t2" "task_core t2 = task_core t"
    by (rule keeps_find_task[OF engine_steps_keeps[OF assms(2)] t(1)])
  from assms(3) obtain vs2 where
    "create_task e now2 tenant channel key agent2 plan2 actor2 vs2 [] s2 = Inr (tid2, s3)"
    by (rule submitE)
  then show ?thesis
    by (cases rule: create_taskE) (use t t2 in \<open>auto simp: task_core_def\<close>)
qed

lemma submit_is_idempotent_witness:
  "\<exists>tid. submit demo_env 120 ''t'' ''web'' ''k'' ''a'' demo_plan ''u'' demo_5 = Inr (tid, demo_5)"
proof -
  obtain tid where 1: "submit demo_env 100 ''t'' ''web'' ''k'' ''a'' demo_plan ''u'' empty_db = Inr (tid, demo_1)"
    using ok_stateI[OF demo_ok(1)] unfolding demo_1_def by blast
  have "is_ok (submit demo_env 120 ''t'' ''web'' ''k'' ''a'' demo_plan ''u'' demo_5)" by code_simp
  from ok_stateI[OF this] obtain tid2 s3 where
    3: "submit demo_env 120 ''t'' ''web'' ''k'' ''a'' demo_plan ''u'' demo_5 = Inr (tid2, s3)" by blast
  from submit_is_idempotent[OF 1 demo_steps 3] 3 show ?thesis by blast
qed

section \<open>Destinations\<close>

text \<open>
  C7: a plan submitted from an inbound channel can only answer the conversation of the verified
  event it was submitted for: every channel send in it is that channel's send and goes to that
  event's conversation, and no other destination is possible.
\<close>

theorem inbound_plan_answers_its_event:
  assumes "submit e now tenant channel key agent plan actor s = Inr (tid, s')"
    and "channel \<in> set OUTBOUND_CHANNELS"
    and "step \<in> set (plan_steps plan)"
    and "destination_field (the_str (jget (obj_fields step) ''tool'')) = Some fld"
  shows "the_str (jget (obj_fields step) ''tool'') = channel @ ''.send''
    \<and> (\<exists>v \<in> set (events s). e_tenant v = tenant \<and> e_channel v = channel \<and> e_key v = key
         \<and> (case obj_get (jget_or (obj_fields step) ''args'' (JObj [])) fld of None \<Rightarrow> JNull | Some j \<Rightarrow> j)
           = (case obj_get (e_payload v) ''conversation_id'' of None \<Rightarrow> JNull | Some j \<Rightarrow> j))"
proof -
  from assms(1) obtain p where
    d: "\<forall>x \<in> set (plan_steps plan). destination_ok channel (event_origin s tenant channel key) p x = Inr ()"
    by (rule submitE)
  with assms(2-4) obtain ch c where o: "event_origin s tenant channel key = Some (EventOrigin ch c)"
    and tool: "the_str (jget (obj_fields step) ''tool'') = channel @ ''.send''"
    and c: "c = (case obj_get (jget_or (obj_fields step) ''args'' (JObj [])) fld of None \<Rightarrow> JNull | Some j \<Rightarrow> j)"
    by (fastforce simp: destination_ok_def Let_def split: option.splits origin.splits if_splits)
  from o assms(2) obtain v where "v \<in> set (events s)" "e_tenant v = tenant" "e_channel v = channel"
    "e_key v = key" "c = (case obj_get (e_payload v) ''conversation_id'' of None \<Rightarrow> JNull | Some j \<Rightarrow> j)"
    by (auto simp: event_origin_def split: option.splits dest!: find_Some_mem)
  with tool c show ?thesis by metis
qed

definition demo_reply :: json where
  "demo_reply = JList [JObj [(''tool'', JStr ''telegram.send''),
     (''args'', JObj [(''conversation_id'', JStr ''c7''), (''text'', JStr ''hi'')])]]"

definition demo_event :: db where
  "demo_event = ok_state (accept_event demo_env 100 ''t'' ''telegram'' ''e1''
     (JObj [(''conversation_id'', JStr ''c7''), (''sender'', JStr ''ann''), (''text'', JStr ''hello'')]) empty_db)"

lemma inbound_plan_answers_its_event_witness:
  "is_ok (submit demo_env 101 ''t'' ''telegram'' ''e1'' ''a'' demo_reply ''ann'' demo_event)
    \<and> (\<exists>v \<in> set (events demo_event). e_key v = ''e1'')"
proof
  show ok: "is_ok (submit demo_env 101 ''t'' ''telegram'' ''e1'' ''a'' demo_reply ''ann'' demo_event)"
    by code_simp
  from ok_stateI[OF ok] obtain tid s' where
    op: "submit demo_env 101 ''t'' ''telegram'' ''e1'' ''a'' demo_reply ''ann'' demo_event = Inr (tid, s')"
    by blast
  let ?s = "JObj [(''tool'', JStr ''telegram.send''),
     (''args'', JObj [(''conversation_id'', JStr ''c7''), (''text'', JStr ''hi'')])]"
  have "''telegram'' \<in> set OUTBOUND_CHANNELS" "?s \<in> set (plan_steps demo_reply)"
    "destination_field (the_str (jget (obj_fields ?s) ''tool'')) = Some ''conversation_id''" by code_simp+
  from inbound_plan_answers_its_event[OF op this]
  show "\<exists>v \<in> set (events demo_event). e_key v = ''e1''" by blast
qed

text \<open>
  C9: an accepted operator reply to a conversation the tenant really has creates a task of exactly
  one step, that channel's send, which needs an approval; the approval is the operator's own unless
  the policy demands an independent one, and then it is pending.
\<close>

theorem operator_reply_is_one_approved_send:
  assumes "operator_reply e now tenant channel conv text actor role key agent s = Inr (tid, s')"
    and "find_task s tenant OPERATOR_CHANNEL (OPERATOR_REPLY_PREFIX @ key) = None"
  shows "conversation_known s tenant channel conv
    \<and> (\<exists>r a p. steps s' = steps s @ [r] \<and> s_task r = tid \<and> s_tool r = channel @ ''.send'' \<and> s_needed r
        \<and> obj_get (s_args r) (the (destination_field (channel @ ''.send''))) = Some (JStr conv)
        \<and> policy_of e tenant agent = Inr p \<and> role \<in> set (approver_roles p)
        \<and> approvals s' = approvals s @ [a] \<and> a_step a = s_id r \<and> a_fingerprint a = s_fingerprint r
        \<and> (if p_independent p then a_status a = ApPending else a_status a = ApApproved \<and> a_actor a = actor))"
proof -
  let ?tool = "channel @ ''.send''"
  let ?args = "JObj [(the (destination_field ?tool), JStr conv), (''text'', JStr text)]"
  from assms(1) obtain p org vs where p: "channel \<in> set OUTBOUND_CHANNELS"
    "role \<in> set (approver_roles p)" "actor \<noteq> []" "policy_of e tenant agent = Inr p"
    and org: "operator_origin s tenant ?tool ?args = Inr org"
    and vs: "validated e tenant agent (reply_plan ?tool conv text) (Some org) = Inr vs"
    and create: "create_task e now tenant OPERATOR_CHANNEL (OPERATOR_REPLY_PREFIX @ key) agent
       (reply_plan ?tool conv text) actor vs (if p_independent p then [] else actor) s = Inr (tid, s')"
    by (rule operator_replyE)
  have chan: "send_channel ?tool = channel" by (simp add: send_channel_def)
  with org have known: "conversation_known s tenant channel conv" "org = OperatorOrigin channel conv"
    by (auto simp: operator_origin_def obj_get_def split: if_splits)
  obtain p' xs where xs: "policy_of e tenant agent = Inr p'" "reply_plan ?tool conv text = JList xs"
    "each (validated_step e tenant agent p' (Some org)) xs = Inr vs"
    by (rule validated_policy[OF vs])
  then obtain v where v: "vs = [v]"
    "validated_step e tenant agent p' (Some org) (JObj [(''tool'', JStr ?tool), (''args'', ?args)]) = Inr v"
    by (auto simp: reply_plan_def res_simps)
  have need: "v_needed v" and fields: "v_tool v = ?tool" "v_args v = ?args"
    using validated_step_allowed[OF v(2)] validated_step_fields[OF v(2)] known(2)
    by (auto simp: step_allowed_def approval_needed_def is_operator_def obj_fields_def jget_or_def obj_get_def)
  from create show ?thesis
  proof (cases rule: create_taskE)
    case (created fp s1)
    have "steps s' = steps s @ [new_step tenant tid 0 v (fresh e s1)]"
      and "approvals s' = approvals s @ [new_approval now tenant (fresh e s1) (v_fingerprint v)
        (if p_independent p then [] else actor)]"
      using v(1) need unfolding created(8) by (simp_all add: created(7))
    with known(1) p need fields show ?thesis
      by (auto simp: new_step_def new_approval_def obj_get_def)
  qed (use assms(2) in simp)
qed

lemma operator_reply_is_one_approved_send_witness:
  "\<exists>tid s'. operator_reply demo_env 105 ''telegram'' ''telegram'' ''c7'' ''hi'' ''boss'' ''owner'' ''k1'' ''a''
      (ok_state (accept_event demo_env 100 ''telegram'' ''telegram'' ''e1''
        (JObj [(''conversation_id'', JStr ''c7'')]) empty_db)) = Inr (tid, s')
    \<and> (\<exists>r. steps s' = [r] \<and> s_tool r = ''telegram.send'' \<and> s_needed r)"
proof -
  let ?s = "ok_state (accept_event demo_env 100 ''telegram'' ''telegram'' ''e1''
        (JObj [(''conversation_id'', JStr ''c7'')]) empty_db)"
  have "is_ok (operator_reply demo_env 105 ''telegram'' ''telegram'' ''c7'' ''hi'' ''boss'' ''owner'' ''k1'' ''a'' ?s)"
    by code_simp
  from ok_stateI[OF this] obtain tid s' where
    op: "operator_reply demo_env 105 ''telegram'' ''telegram'' ''c7'' ''hi'' ''boss'' ''owner'' ''k1'' ''a'' ?s = Inr (tid, s')"
    by blast
  have "tasks ?s = []" "steps ?s = []" by code_simp+
  with operator_reply_is_one_approved_send[OF op] op show ?thesis
    by (auto simp: find_task_def)
qed

section \<open>Approvals\<close>

text \<open>
  An approval is decided only while it is pending and unexpired and its step still waits, by
  someone who holds an approver role of the task's agent at that moment; where the policy asks for
  an independent approver, never by the one who created the task, and where it asks for an owner,
  never by an operator.
\<close>

theorem approve_checks_the_approver:
  assumes "approve e now tenant sid actor decision role s = Inr s'"
  shows "\<exists>a r t p. approval_join s tenant sid = Some (a, r, t) \<and> policy_of e tenant (t_agent t) = Inr p
    \<and> a_status a = ApPending \<and> now < a_expires a \<and> s_status r \<in> {Queued, WaitingApproval}
    \<and> require_authority e tenant ''approval'' actor (approver_roles p) = Inr ()
    \<and> \<not> frozen s tenant
    \<and> (decision = ''approved'' \<and> p_independent p \<longrightarrow> actor \<noteq> t_actor t)
    \<and> (p_approver_role p = ''owner'' \<longrightarrow> role \<in> {''owner'', ''super-admin''})
    \<and> (\<forall>b \<in> set (approvals s'). a_tenant b = tenant \<and> a_step b = sid \<longrightarrow>
         a_actor b = actor \<and> a_status b = (if decision = ''approved'' then ApApproved else ApRejected))"
proof -
  from assms obtain a r t p where j: "approval_join s tenant sid = Some (a, r, t)"
    and p: "policy_of e tenant (t_agent t) = Inr p"
    and act: "require_active e s tenant = Inr ()"
    and auth: "require_authority e tenant ''approval'' actor (approver_roles p) = Inr ()"
    and c: "\<not> (decision = ''approved'' \<and> p_independent p \<and> actor = t_actor t)"
      "\<not> (p_approver_role p = ''owner'' \<and> role \<notin> {''owner'', ''super-admin''})"
      "\<not> (a_status a \<noteq> ApPending \<or> s_status r \<notin> {Queued, WaitingApproval} \<or> a_expires a \<le> now)"
    and s': "s' = refresh now tenant (s_task r)
       (audit now tenant (s_task r) (''approval.'' @ decision) actor
         [(''step'', JStr sid), (''fingerprint'', JStr (a_fingerprint a))]
         (decide_update now tenant sid actor (decision = ''approved'') s))"
    unfolding approve_def res_simps
    by (auto split: option.splits if_split_asm prod.splits simp: res_simps)
  have "\<not> frozen s tenant" using act by (auto simp: require_active_def res_simps)
  moreover have "\<forall>b \<in> set (approvals s'). a_tenant b = tenant \<and> a_step b = sid \<longrightarrow>
      a_actor b = actor \<and> a_status b = (if decision = ''approved'' then ApApproved else ApRejected)"
    unfolding s' by (auto simp: decide_update_def ball_upd_where)
  ultimately show ?thesis
    by (intro exI[of _ a] exI[of _ r] exI[of _ t] exI[of _ p] conjI)
      (use j p auth c in auto)
qed

lemma approve_checks_the_approver_witness:
  "is_ok (approve demo_env 103 ''t'' ''xx'' ''boss'' ''approved'' ''owner'' demo_3)
    \<and> a_actor (approvals demo_4 ! 0) = ''boss''"
proof
  show "is_ok (approve demo_env 103 ''t'' ''xx'' ''boss'' ''approved'' ''owner'' demo_3)" by (rule demo_ok(4))
  have "approvals demo_4 ! 0 \<in> set (approvals demo_4)" "a_tenant (approvals demo_4 ! 0) = ''t''"
    "a_step (approvals demo_4 ! 0) = ''xx''" by code_simp+
  then show "a_actor (approvals demo_4 ! 0) = ''boss''"
    using approve_checks_the_approver[OF ok_dbI[OF demo_ok(4)], folded demo_4_def] by blast
qed

section \<open>Running a handler\<close>

text \<open>
  C8: what a worker records is what happened: a returned result is a success, a definite rejection
  by the provider is a failure, and an exception of a tool that acts outside the tenant leaves the
  step uncertain, never failed, because the effect may have happened.
\<close>

theorem handler_outcome_is_recorded:
  assumes "run_handler h now tenant spec c s = (Inr b, s')"
    and "h (s_tool (cl_step c)) tenant (cl_agent c) (s_args (cl_step c)) (s_id (cl_step c)) s = (out, s1)"
  shows "\<forall>r \<in> set (steps s'). s_id r = s_id (cl_step c) \<longrightarrow>
    s_status r = (case out of Returned v \<Rightarrow> Succeeded | Rejected reason \<Rightarrow> Failed
      | Raised name \<Rightarrow> if tl_external spec \<and> tl_risk spec \<noteq> ''read'' then Uncertain else Failed)"
proof -
  let ?r = "cl_step c"
  from assms obtain v o' err where f: "finish now tenant (s_id ?r) (s_claim ?r) v o' err s1 = Inr s'"
    and o: "o' = (case out of Returned v \<Rightarrow> Succeeded | Rejected reason \<Rightarrow> Failed
      | Raised name \<Rightarrow> if tl_external spec \<and> tl_risk spec \<noteq> ''read'' then Uncertain else Failed)"
    by (cases out) (auto simp: run_handler_def Let_def settle_with_def split: sum.splits)
  from finish_rows[OF f] show ?thesis unfolding o by blast
qed

definition demo_handler :: handler where
  "demo_handler tool tenant agent args sid s = (Raised ''TimeoutError'', s)"

definition demo_claim :: claimed where
  "demo_claim = (case claim demo_env 101 ''t'' ''w'' [] 90 demo_1 of
     Inr (Some c, s) \<Rightarrow> c | _ \<Rightarrow> \<lparr>cl_step = new_step [] [] 0 \<lparr>v_tool = [], v_args = JNull, v_risk = [],
        v_needed = False, v_fingerprint = [], v_device = []\<rparr> [], cl_agent = []\<rparr>)"

definition demo_run :: "bool res \<times> db" where
  "demo_run = run_handler demo_handler 102 ''t'' (demo_tool ''n'' ''write'' [] True) demo_claim demo_2"

lemma handler_outcome_is_recorded_witness:
  "s_status (steps (snd demo_run) ! 0) = Uncertain"
proof -
  have "is_ok (fst demo_run)" by code_simp
  then obtain b where
    r: "run_handler demo_handler 102 ''t'' (demo_tool ''n'' ''write'' [] True) demo_claim demo_2 = (Inr b, snd demo_run)"
    unfolding demo_run_def
    by (cases "run_handler demo_handler 102 ''t'' (demo_tool ''n'' ''write'' [] True) demo_claim demo_2")
      (auto simp: is_ok_def split: sum.splits)
  have "steps (snd demo_run) ! 0 \<in> set (steps (snd demo_run))"
    "s_id (steps (snd demo_run) ! 0) = s_id (cl_step demo_claim)" by code_simp+
  then show ?thesis
    using handler_outcome_is_recorded[OF r demo_handler_def] by (simp add: demo_tool_def)
qed

end
