(* ===== verification/Engine_Inbox.thy ===== *)
theory Engine_Inbox
  imports Engine_Promises
begin

text \<open>
  The promises of the inbox, of the schedules and of the policy fingerprint.
\<close>

section \<open>Accepting events\<close>

lemma encode_digest: "digest e v = Inr fp \<Longrightarrow> \<exists>t. encode v = Inr t"
  by (auto simp: digest_def res_simps)

lemma accept_eventE:
  assumes "accept_event e now tenant channel key payload s = Inr (v, s')"
  obtains (replay) fp r where "digest e payload = Inr fp" "find_event s tenant channel key = Some r"
      "e_fingerprint r = fp" "s' = s"
      "v = [(''ok'', JBool True), (''duplicate'', JBool True),
            (''status'', JStr (event_status_text (e_status r)))] @ obj_fields (e_result r)"
  | (accepted) fp where "digest e payload = Inr fp" "find_event s tenant channel key = None"
      "\<not> frozen s tenant" "pending_events s tenant < 1000" "quota_count s tenant (event_day now) < 10000"
      "v = [(''ok'', JBool True), (''status'', JStr ''accepted'')]"
      "s' = s\<lparr>quotas := (quotas s)((tenant, event_day now) \<mapsto>
                Suc (quota_count s tenant (event_day now))),
             events := events s @ [new_event tenant channel key fp payload]\<rparr>"
proof -
  from assms obtain fp where fp: "digest e payload = Inr fp"
    by (auto simp: accept_event_def res_simps split: if_split_asm)
  show ?thesis
  proof (cases "find_event s tenant channel key")
    case None
    with assms fp show ?thesis
      by (intro accepted[of fp])
        (auto simp: accept_event_def res_simps Let_def require_active_def split: if_split_asm)
  next
    case (Some r)
    with assms fp show ?thesis
      by (intro replay[of fp r]) (auto simp: accept_event_def res_simps split: if_split_asm)
  qed
qed

lemma pending_snoc:
  assumes "find_event s tenant channel key = None"
  shows "pending_events (s\<lparr>quotas := q, events := events s @ [new_event tenant channel key fp payload]\<rparr>) tenant
    = Suc (pending_events s tenant)"
  by (simp add: pending_events_def new_event_def)

text \<open>
  An accepted event is in the inbox exactly once, with the payload it was accepted with; the
  tenant's daily quota of 10000 and its backlog of 1000 are never exceeded by it; and a second
  delivery of the same key changes nothing, answers as a duplicate if the payload is the same and is
  refused otherwise.
\<close>

theorem inbox_accepts_once:
  assumes "accept_event e now tenant channel key payload s = Inr (v, s')"
  shows "(\<exists>r. find_event s' tenant channel key = Some r \<and> digest e payload = Inr (e_fingerprint r))
    \<and> (s' \<noteq> s \<longrightarrow> pending_events s' tenant \<le> 1000 \<and> quota_count s' tenant (event_day now) \<le> 10000
         \<and> find_event s tenant channel key = None)
    \<and> (\<forall>now' payload' v' s''. accept_event e now' tenant channel key payload' s' = Inr (v', s'') \<longrightarrow>
         s'' = s' \<and> digest e payload' = digest e payload \<and> (''duplicate'', JBool True) \<in> set v')"
proof -
  obtain r fp where r: "find_event s' tenant channel key = Some r" "digest e payload = Inr fp"
    "e_fingerprint r = fp"
    and q: "s' \<noteq> s \<longrightarrow> pending_events s' tenant \<le> 1000 \<and> quota_count s' tenant (event_day now) \<le> 10000
         \<and> find_event s tenant channel key = None"
    using assms
  proof (cases rule: accept_eventE)
    case (accepted fp)
    have f: "find_event s' tenant channel key = Some (new_event tenant channel key fp payload)"
      using accepted(2) unfolding accepted(7)
      by (simp add: find_event_def find_append event_key_of_def new_event_def)
    have "pending_events s' tenant = Suc (pending_events s tenant)"
      unfolding accepted(7) by (rule pending_snoc[OF accepted(2)])
    moreover have "quota_count s' tenant (event_day now) = Suc (quota_count s tenant (event_day now))"
      unfolding accepted(7) by (simp add: quota_count_def)
    ultimately show ?thesis
      by (intro that[OF f accepted(1)]) (use accepted(2,4,5) in \<open>simp_all add: new_event_def\<close>)
  qed (use that in auto)
  have "s'' = s' \<and> digest e payload' = digest e payload \<and> (''duplicate'', JBool True) \<in> set v'"
    if "accept_event e now' tenant channel key payload' s' = Inr (v', s'')" for now' payload' v' s''
    using that by (cases rule: accept_eventE) (use r in auto)
  with r q show ?thesis by auto
qed

lemma inbox_accepts_once_witness:
  "\<exists>r. find_event demo_event ''t'' ''telegram'' ''e1'' = Some r"
proof -
  let ?p = "JObj [(''conversation_id'', JStr ''c7''), (''sender'', JStr ''ann''), (''text'', JStr ''hello'')]"
  have "is_ok (accept_event demo_env 100 ''t'' ''telegram'' ''e1'' ?p empty_db)" by code_simp
  from ok_stateI[OF this] obtain v where
    "accept_event demo_env 100 ''t'' ''telegram'' ''e1'' ?p empty_db = Inr (v, demo_event)"
    unfolding demo_event_def by blast
  from inbox_accepts_once[OF this] show ?thesis by blast
qed

section \<open>Settling events\<close>

text \<open>
  An event is planned at most once. If its task or its conversation turn is already recorded
  (a worker crashed before writing the outcome, or its lease ran out), settling it again consults no
  planner and creates nothing; and a worker whose claim on the event was taken over changes nothing
  in the inbox.
\<close>

theorem settled_once:
  assumes "settle_event e plan now r s = s'"
  shows "(find_task s (e_tenant r) (e_channel r) (e_key r) \<noteq> None
        \<or> turn_recorded s (e_tenant r) (e_channel r) (e_key r) \<longrightarrow>
       tasks s' = tasks s \<and> steps s' = steps s \<and> approvals s' = approvals s \<and> uuids s' = uuids s
       \<and> (\<forall>plan2. settle_event e plan2 now r s = s'))
    \<and> ((\<forall>tenant channel payload. events (snd (plan tenant channel payload s)) = events s)
        \<and> (\<forall>x \<in> set (events s). event_key_of x = event_key_of r \<longrightarrow> e_claim x \<noteq> e_claim r) \<longrightarrow>
       events s' = events s)"
proof (intro conjI impI)
  assume "find_task s (e_tenant r) (e_channel r) (e_key r) \<noteq> None
        \<or> turn_recorded s (e_tenant r) (e_channel r) (e_key r)"
  then obtain v where "plan_event e p now r s = (Inr v, s)" for p
    by (cases "find_task s (e_tenant r) (e_channel r) (e_key r)") (auto simp: plan_event_def Let_def)
  then show "tasks s' = tasks s" "steps s' = steps s" "approvals s' = approvals s" "uuids s' = uuids s"
    "\<forall>plan2. settle_event e plan2 now r s = s'"
    using assms by (auto simp: settle_event_def)
next
  assume a: "(\<forall>tenant channel payload. events (snd (plan tenant channel payload s)) = events s)
        \<and> (\<forall>x \<in> set (events s). event_key_of x = event_key_of r \<longrightarrow> e_claim x \<noteq> e_claim r)"
  obtain res s1 where p: "plan_event e plan now r s = (res, s1)" by force
  obtain q s2 where q: "plan (e_tenant r) (e_channel r) (e_payload r) s = (q, s2)" by force
  with a have s2: "events s2 = events s" by (metis snd_conv)
  have app: "events s3 = events s2" if "apply_plan e now r pl s2 = Inr (v, s3)" for pl v s3
  proof -
    have sub: "events s3 = events s2" if "submit e now te ch k ag pl ac s2 = Inr (ti, s3)" for te ch k ag pl ac ti
      using that by (rule submitE) (auto elim!: create_taskE)
    show ?thesis
      using that sub
      by (auto simp: apply_plan_def submit_plan_def record_plan_def record_turn_def res_simps Let_def
          split: option.splits if_split_asm)
  qed
  from p q s2 app have s1: "events s1 = events s"
    unfolding plan_event_def Let_def
    by (auto split: option.splits if_split_asm sum.splits prod.splits)
  have "upd_where (\<lambda>x. event_key_of x = event_key_of r \<and> e_claim x = e_claim r) f (events s) = events s" for f
    by (rule upd_where_id) (use a in auto)
  with assms p s1 show "events s' = events s" by (auto simp: settle_event_def Let_def)
qed

definition demo_planner :: planner where
  "demo_planner tenant channel payload s =
     (Inr (JObj [(''agent'', JStr ''a''), (''steps'', demo_reply)]), s)"

lemma settled_once_witness:
  "let s = demo_event; r = hd (events s)\<lparr>e_claim := ''other''\<rparr> in
     events (settle_event demo_env demo_planner 101 r s) = events s"
proof -
  have "\<forall>x \<in> set (events demo_event). event_key_of x = event_key_of (hd (events demo_event)\<lparr>e_claim := ''other''\<rparr>)
      \<longrightarrow> e_claim x \<noteq> e_claim (hd (events demo_event)\<lparr>e_claim := ''other''\<rparr>)"
    by code_simp
  then show ?thesis
    using settled_once[of demo_env demo_planner 101 "hd (events demo_event)\<lparr>e_claim := ''other''\<rparr>" demo_event, OF refl]
    by (simp add: demo_planner_def Let_def)
qed

section \<open>The policy fingerprint\<close>

text \<open>
  The persona and the conversation style of an agent are descriptive: changing them leaves the
  fingerprint input of every step unchanged, while any change of the other policy fields changes
  it.
\<close>

theorem fingerprint_ignores_descriptive_fields:
  "canonical_policy p = canonical_policy q \<longleftrightarrow>
     p_tools p = p_tools q \<and> p_ladder p = p_ladder q \<and> p_approval p = p_approval q
     \<and> p_approver_role p = p_approver_role q \<and> p_independent p = p_independent q
     \<and> p_recipients p = p_recipients q \<and> p_connections p = p_connections q"
proof -
  have inj: "map JStr xs = map JStr ys \<longleftrightarrow> xs = ys" for xs ys
    by (simp add: inj_def inj_map_eq_map)
  show ?thesis
    by (auto simp: canonical_policy_def policy_fields_def DESCRIPTIVE_POLICY_KEYS_def jstrs_def inj)
qed

section \<open>Schedules\<close>



lemma insert_steps_schedules [simp]:
  "schedules (insert_steps e now tenant task approver pos vs s) = schedules s"
  by (induction vs arbitrary: pos s) (simp_all add: insert_step_def Let_def drawn_def audit_def)








end
