(* ===== verification/Usage_Budget.thy ===== *)
theory Usage_Budget
  imports Engine_Policy
begin

text \<open>
  The spending guard (\<^verbatim>\<open>platform_runtime/usage_budget.py\<close>): reservations in integer
  microunits, the parallel-call slots, settlement and reconciliation, the cost of a receipt, and one
  metered provider call. Amounts are unbounded Python integers, so they are \<^typ>\<open>int\<close>.
\<close>

section \<open>Bounds\<close>

definition MAX_AMOUNT :: int where "MAX_AMOUNT = 10 ^ 15"
definition UNCERTAIN_SLOT_SECONDS :: int where "UNCERTAIN_SLOT_SECONDS = 600"
definition RELEASE_REASONS :: "string list" where
  "RELEASE_REASONS = [''not_sent'', ''rejected'']"
definition HELD :: "budget_status list" where
  "HELD = [BReserved, BDispatching, BUncertain, BUnreconciled]"

definition amount :: "bool \<Rightarrow> int \<Rightarrow> int res" where
  "amount zero v =
     (if \<not> ((if zero then 0 else 1) \<le> v \<and> v \<le> MAX_AMOUNT)
      then raise ValueError ''Bounded integer microunits required'' else Inr v)"

definition bounded :: "nat \<Rightarrow> string \<Rightarrow> string res" where
  "bounded maximum v =
     (if blank v \<or> length v > maximum \<or> v \<noteq> py_strip v
         \<or> (\<exists>c \<in> set v. code_of c < 32 \<or> code_of c = 127)
      then raise ValueError ''Bounded identifier required'' else Inr v)"

text \<open>
  \<^verbatim>\<open>datetime.fromtimestamp(now, utc).strftime('%Y-%m')\<close>: the civil month of a day count,
  by the 400-year cycle that begins on the first of March.
\<close>

definition civil_month :: "int \<Rightarrow> int \<times> int" where
  "civil_month days =
     (let z = days + 719468; era = z div 146097; doe = z mod 146097;
          yoe = (doe - doe div 1460 + doe div 36524 - doe div 146096) div 365;
          doy = doe - (365 * yoe + yoe div 4 - yoe div 100);
          mp = (5 * doy + 2) div 153;
          m = (if mp < 10 then mp + 3 else mp - 9);
          y = yoe + era * 400 + (if m \<le> 2 then 1 else 0)
      in (y, m))"

definition pad :: "nat \<Rightarrow> string \<Rightarrow> string" where
  "pad n t = replicate (n - length t) CHR ''0'' @ t"

definition period :: "int \<Rightarrow> string" where
  "period now = (let (y, m) = civil_month (now div 86400) in
     pad 4 (show_int y) @ ''-'' @ pad 2 (show_int m))"

section \<open>The ledger\<close>

fun budget_status_text :: "budget_status \<Rightarrow> string" where
  "budget_status_text BReserved = ''reserved''"
| "budget_status_text BDispatching = ''dispatching''"
| "budget_status_text BUncertain = ''uncertain''"
| "budget_status_text BUnreconciled = ''unreconciled''"
| "budget_status_text BCancelled = ''cancelled''"
| "budget_status_text BReleased = ''released''"
| "budget_status_text BSettled = ''settled''"
| "budget_status_text BReconciled = ''reconciled''"

definition find_setting :: "db \<Rightarrow> string \<Rightarrow> budget_setting option" where
  "find_setting s tenant = find (\<lambda>g. g_tenant g = tenant) (budget_settings s)"

definition find_account :: "db \<Rightarrow> string \<Rightarrow> string \<Rightarrow> budget_account option" where
  "find_account s tenant p = find (\<lambda>c. c_tenant c = tenant \<and> c_period c = p) (budget_accounts s)"

definition is_row :: "string \<Rightarrow> string \<Rightarrow> reservation_row \<Rightarrow> bool" where
  "is_row tenant rid b \<longleftrightarrow> b_tenant b = tenant \<and> b_id b = rid"

definition budget_row :: "db \<Rightarrow> string \<Rightarrow> string \<Rightarrow> reservation_row res" where
  "budget_row s tenant rid =
     (case find (is_row tenant rid) (reservations s) of
        None \<Rightarrow> raise NotFound ''Budget reservation not found'' | Some b \<Rightarrow> Inr b)"

definition set_row :: "string \<Rightarrow> string \<Rightarrow> (reservation_row \<Rightarrow> reservation_row) \<Rightarrow> db \<Rightarrow> db" where
  "set_row tenant rid f s = s\<lparr>reservations := upd_where (is_row tenant rid) f (reservations s)\<rparr>"

definition set_account ::
  "string \<Rightarrow> string \<Rightarrow> (budget_account \<Rightarrow> budget_account) \<Rightarrow> db \<Rightarrow> db" where
  "set_account tenant p f s =
     s\<lparr>budget_accounts := upd_where (\<lambda>c. c_tenant c = tenant \<and> c_period c = p) f (budget_accounts s)\<rparr>"

definition configure_tx ::
  "env \<Rightarrow> int \<Rightarrow> string \<Rightarrow> string \<Rightarrow> string \<Rightarrow> int \<Rightarrow> int \<Rightarrow> db \<Rightarrow> db res" where
  "configure_tx e now tenant actor currency limit inflight s =
     bindr (require_authority e tenant ''web'' actor [''owner'']) (\<lambda>_.
       case find_setting s tenant of
         Some g \<Rightarrow>
           (if g_currency g \<noteq> currency
            then raise Conflict ''Currency cannot change while historical ledger exists''
            else Inr (audit now tenant [] ''budget.configured'' actor
              [(''currency'', JStr currency), (''limit_micro'', JInt limit),
               (''generation'', JInt (g_generation g + 1))]
              (s\<lparr>budget_settings := upd_where (\<lambda>x. g_tenant x = tenant)
                 (\<lambda>x. x\<lparr>g_limit := limit, g_max_inflight := inflight,
                        g_generation := g_generation g + 1\<rparr>) (budget_settings s)\<rparr>)))
       | None \<Rightarrow> Inr (audit now tenant [] ''budget.configured'' actor
              [(''currency'', JStr currency), (''limit_micro'', JInt limit), (''generation'', JInt 1)]
              (s\<lparr>budget_settings := budget_settings s @ [\<lparr>g_tenant = tenant, g_currency = currency,
                 g_limit = limit, g_max_inflight = inflight, g_generation = 1\<rparr>]\<rparr>)))"

section \<open>Parallel-call slots\<close>

text \<open>\<^verbatim>\<open>_SLOTS\<close>: undispatched reservations, and dispatched or uncertain calls younger than
  the slot lease.\<close>

definition takes_slot :: "int \<Rightarrow> string \<Rightarrow> reservation_row \<Rightarrow> bool" where
  "takes_slot now tenant b \<longleftrightarrow> b_tenant b = tenant
     \<and> (b_status b = BReserved
        \<or> (b_status b \<in> {BDispatching, BUncertain} \<and> b_updated b > now - UNCERTAIN_SLOT_SECONDS))"

definition slots :: "int \<Rightarrow> string \<Rightarrow> db \<Rightarrow> nat" where
  "slots now tenant s = length (filter (takes_slot now tenant) (reservations s))"

definition slot_expired :: "int \<Rightarrow> string \<Rightarrow> reservation_row \<Rightarrow> bool" where
  "slot_expired now tenant b \<longleftrightarrow> b_tenant b = tenant \<and> b_status b \<in> {BDispatching, BUncertain}
     \<and> b_updated b \<le> now - UNCERTAIN_SLOT_SECONDS"

definition expire_slot :: "int \<Rightarrow> string \<Rightarrow> string \<Rightarrow> db \<Rightarrow> db" where
  "expire_slot now tenant rid s =
     audit now tenant [] ''budget.uncertain_slot_expired'' ''budget''
       [(''id'', JStr rid), (''after_seconds'', JInt UNCERTAIN_SLOT_SECONDS)]
       (set_row tenant rid (\<lambda>b. b\<lparr>b_status := BUnreconciled, b_updated := now\<rparr>) s)"

definition expire_slots :: "int \<Rightarrow> string \<Rightarrow> db \<Rightarrow> db" where
  "expire_slots now tenant s =
     fold (expire_slot now tenant) (map b_id (filter (slot_expired now tenant) (reservations s))) s"

record budget_summary =
  bs_currency :: string
  bs_limit :: int
  bs_max_inflight :: int
  bs_generation :: int
  bs_period :: string
  bs_spent :: int
  bs_reserved :: int
  bs_inflight :: nat
  bs_available :: int
  bs_exceeded :: bool
  bs_warning :: bool

definition summary :: "int \<Rightarrow> string \<Rightarrow> db \<Rightarrow> budget_summary res" where
  "summary now tenant s =
     bindr (bounded 256 tenant) (\<lambda>_.
     case find_setting s tenant of
       None \<Rightarrow> raise NotFound ''Budget not configured''
     | Some g \<Rightarrow>
         let a = find_account s tenant (period now);
             spent = (case a of None \<Rightarrow> 0 | Some c \<Rightarrow> c_spent c);
             reserved = (case a of None \<Rightarrow> 0 | Some c \<Rightarrow> c_reserved c)
         in Inr \<lparr>bs_currency = g_currency g, bs_limit = g_limit g, bs_max_inflight = g_max_inflight g,
                 bs_generation = g_generation g, bs_period = period now, bs_spent = spent,
                 bs_reserved = reserved, bs_inflight = slots now tenant s,
                 bs_available = max 0 (g_limit g - spent - reserved),
                 bs_exceeded = (spent + reserved > g_limit g),
                 bs_warning = ((spent + reserved) * 5 \<ge> g_limit g * 4)\<rparr>)"

definition currency_ok :: "string \<Rightarrow> bool" where
  "currency_ok c \<longleftrightarrow> length c = 3 \<and> list_all is_upper c"

definition configure ::
  "env \<Rightarrow> int \<Rightarrow> string \<Rightarrow> string \<Rightarrow> string \<Rightarrow> int \<Rightarrow> int \<Rightarrow> db \<Rightarrow> (budget_summary \<times> db) res" where
  "configure e now tenant actor currency limit inflight s =
     bindr (bounded 256 tenant) (\<lambda>_. bindr (bounded 256 actor) (\<lambda>_. bindr (amount False limit) (\<lambda>_.
       if \<not> currency_ok currency then raise ValueError ''Three-letter currency required''
       else if \<not> (1 \<le> inflight \<and> inflight \<le> 100)
         then raise ValueError ''Parallel call limit must be 1..100''
       else bindr (configure_tx e now tenant actor currency limit inflight s) (\<lambda>s'.
         bindr (summary now tenant s') (\<lambda>v. Inr (v, s'))))))"

definition pending_reservations :: "string \<Rightarrow> int \<Rightarrow> db \<Rightarrow> reservation_row list res" where
  "pending_reservations tenant limit s =
     bindr (bounded 256 tenant) (\<lambda>_.
       if \<not> (1 \<le> limit \<and> limit \<le> 100) then raise ValueError ''Invalid limit''
       else Inr (take (nat limit) (sort_key b_created (sort_key b_id
              (filter (\<lambda>b. b_tenant b = tenant \<and> b_status b \<in> set HELD) (reservations s))))))"

section \<open>Settlement\<close>

text \<open>\<^verbatim>\<open>_settle\<close>: the held amount leaves \<^verbatim>\<open>reserved_micro\<close>, the actual one enters
  \<^verbatim>\<open>spent_micro\<close>.\<close>

definition settle_row ::
  "int \<Rightarrow> string \<Rightarrow> reservation_row \<Rightarrow> int \<Rightarrow> budget_status \<Rightarrow> string \<Rightarrow> fields \<Rightarrow> db \<Rightarrow> db" where
  "settle_row now tenant row actual status actor detail s =
     audit now tenant [] (''budget.'' @ budget_status_text status) actor
       ([(''id'', JStr (b_id row)), (''actual_micro'', JInt actual),
         (''reservation_exceeded'', JBool (actual > b_amount row))] @ detail)
       (set_row tenant (b_id row)
          (\<lambda>b. b\<lparr>b_status := status, b_actual := Some actual, b_updated := now\<rparr>)
         (set_account tenant (b_period row)
            (\<lambda>c. c\<lparr>c_reserved := c_reserved c - b_amount row, c_spent := c_spent c + actual,
                   c_inflight := c_inflight c - 1\<rparr>) s))"

section \<open>Reservations\<close>

definition is_hex64 :: "string \<Rightarrow> bool" where
  "is_hex64 f \<longleftrightarrow> length f = 64
     \<and> list_all (\<lambda>c. is_digit c \<or> (97 \<le> code_of c \<and> code_of c \<le> 102)) f"

definition reserve_digest :: "env \<Rightarrow> string \<Rightarrow> int \<Rightarrow> string \<Rightarrow> string res" where
  "reserve_digest e fp est currency =
     digest e (JObj [(''request'', JStr fp), (''estimate'', JInt est), (''currency'', JStr currency)])"

definition find_key :: "db \<Rightarrow> string \<Rightarrow> string \<Rightarrow> reservation_row option" where
  "find_key s tenant key = find (\<lambda>b. b_tenant b = tenant \<and> b_key b = key) (reservations s)"

definition ensure_account :: "string \<Rightarrow> string \<Rightarrow> db \<Rightarrow> db" where
  "ensure_account tenant p s =
     (case find_account s tenant p of
        Some _ \<Rightarrow> s
      | None \<Rightarrow> s\<lparr>budget_accounts := budget_accounts s @
          [\<lparr>c_tenant = tenant, c_period = p, c_spent = 0, c_reserved = 0, c_inflight = 0\<rparr>]\<rparr>)"

definition new_reservation ::
  "int \<Rightarrow> string \<Rightarrow> string \<Rightarrow> string \<Rightarrow> string \<Rightarrow> string \<Rightarrow> int \<Rightarrow> reservation_row" where
  "new_reservation now tenant rid key full p est =
     \<lparr>b_tenant = tenant, b_id = rid, b_key = key, b_fingerprint = full, b_period = p,
      b_amount = est, b_actual = None, b_status = BReserved, b_created = now, b_updated = now\<rparr>"

text \<open>
  The insert of a fresh reservation: the conditional update of the account is the admission, and
  the primary key refuses an identifier already drawn for the tenant.
\<close>

definition admit ::
  "env \<Rightarrow> int \<Rightarrow> string \<Rightarrow> string \<Rightarrow> string \<Rightarrow> int \<Rightarrow> budget_setting \<Rightarrow> db \<Rightarrow> (string \<times> db) res" where
  "admit e now tenant key full est g s =
     (let p = period now; s1 = ensure_account tenant p s; rid = fresh e s in
      case find_account s1 tenant p of
        None \<Rightarrow> raise RateLimited ''Budget exhausted''
      | Some c \<Rightarrow>
          if \<not> c_spent c + c_reserved c + est \<le> g_limit g
            then raise RateLimited ''Budget exhausted''
          else if \<exists>b \<in> set (reservations s). is_row tenant rid b
            then raise (OtherError ''IntegrityError'') ''UNIQUE constraint failed''
          else
            let s2 = set_account tenant p
                  (\<lambda>c. c\<lparr>c_reserved := c_reserved c + est, c_inflight := c_inflight c + 1\<rparr>) s1;
                s3 = drawn (s2\<lparr>reservations := reservations s2
                       @ [new_reservation now tenant rid key full p est]\<rparr>)
            in Inr (rid, audit now tenant [] ''budget.reserved'' ''budget''
                 [(''id'', JStr rid), (''amount_micro'', JInt est), (''period'', JStr p)] s3))"

definition reserve ::
  "env \<Rightarrow> int \<Rightarrow> string \<Rightarrow> string \<Rightarrow> string \<Rightarrow> int \<Rightarrow> string \<Rightarrow> db \<Rightarrow> (string \<times> db) res" where
  "reserve e now tenant key fp est currency s =
     bindr (bounded 256 tenant) (\<lambda>_. bindr (bounded 256 key) (\<lambda>_. bindr (amount True est) (\<lambda>_.
       if \<not> is_hex64 fp then raise ValueError ''Request fingerprint required''
       else bindr (require_active e s tenant) (\<lambda>_.
         case find_setting s tenant of
           None \<Rightarrow> raise Forbidden ''Configured budget with matching currency required''
         | Some g \<Rightarrow>
             if g_currency g \<noteq> currency
               then raise Forbidden ''Configured budget with matching currency required''
             else bindr (reserve_digest e fp est currency) (\<lambda>full.
               case find_key s tenant key of
                 Some old \<Rightarrow>
                   (if b_fingerprint old \<noteq> full
                    then raise Conflict ''Budget key reused with different request''
                    else Inr (b_id old, s))
               | None \<Rightarrow>
                   let s1 = expire_slots now tenant s in
                   if int (slots now tenant s1) \<ge> g_max_inflight g
                     then raise RateLimited ''Budget parallel call limit reached''
                   else admit e now tenant key full est g s1)))))"

definition dispatch :: "env \<Rightarrow> int \<Rightarrow> string \<Rightarrow> string \<Rightarrow> db \<Rightarrow> db res" where
  "dispatch e now tenant rid s =
     bindr (require_active e s tenant) (\<lambda>_. bindr (budget_row s tenant rid) (\<lambda>row.
       if b_status row \<noteq> BReserved
         then raise Conflict ''Budget call already dispatched or retired''
       else if b_period row \<noteq> period now
         then raise Conflict ''Undispatched reservation expired at period boundary; cancel and reserve again''
       else
         let s1 = expire_slots now tenant s in
         case find_setting s tenant of
           None \<Rightarrow> raise RateLimited ''Budget policy changed before dispatch''
         | Some g \<Rightarrow> (case find_account s tenant (b_period row) of
             None \<Rightarrow> raise TypeError ''NoneType object is not subscriptable''
           | Some c \<Rightarrow>
               if c_spent c + c_reserved c > g_limit g \<or> int (slots now tenant s1) > g_max_inflight g
                 then raise RateLimited ''Budget policy changed before dispatch''
               else Inr (audit now tenant [] ''budget.dispatched'' ''budget'' [(''id'', JStr rid)]
                 (set_row tenant rid (\<lambda>b. b\<lparr>b_status := BDispatching, b_updated := now\<rparr>) s1)))))"

definition uncertain :: "int \<Rightarrow> string \<Rightarrow> string \<Rightarrow> db \<Rightarrow> db res" where
  "uncertain now tenant rid s =
     bindr (budget_row s tenant rid) (\<lambda>row.
       if b_status row = BUncertain then Inr s
       else if b_status row \<noteq> BDispatching
         then raise Conflict ''Only a dispatched call can be uncertain''
       else Inr (audit now tenant [] ''budget.uncertain'' ''budget'' [(''id'', JStr rid)]
         (set_row tenant rid (\<lambda>b. b\<lparr>b_status := BUncertain, b_updated := now\<rparr>) s)))"

definition budget_cancel :: "int \<Rightarrow> string \<Rightarrow> string \<Rightarrow> db \<Rightarrow> db res" where
  "budget_cancel now tenant rid s =
     bindr (budget_row s tenant rid) (\<lambda>row.
       if b_status row = BCancelled then Inr s
       else if b_status row \<noteq> BReserved then raise Conflict ''A dispatched charge cannot be cancelled''
       else Inr (settle_row now tenant row 0 BCancelled ''budget'' [] s))"

definition release :: "int \<Rightarrow> string \<Rightarrow> string \<Rightarrow> string \<Rightarrow> db \<Rightarrow> db res" where
  "release now tenant rid reason s =
     (if reason \<notin> set RELEASE_REASONS
      then raise ValueError ''Release reason must be not_sent or rejected''
      else bindr (budget_row s tenant rid) (\<lambda>row.
        if b_status row = BReleased then Inr s
        else if b_status row \<noteq> BDispatching
          then raise Conflict ''Only a dispatched call can be released''
        else Inr (settle_row now tenant row 0 BReleased ''budget'' [(''reason'', JStr reason)] s)))"

definition settle :: "int \<Rightarrow> string \<Rightarrow> string \<Rightarrow> int \<Rightarrow> db \<Rightarrow> db res" where
  "settle now tenant rid actual s =
     bindr (amount True actual) (\<lambda>_. bindr (budget_row s tenant rid) (\<lambda>row.
       if b_status row = BSettled
         then (if b_actual row \<noteq> Some actual then raise Conflict ''Settlement amount changed''
               else Inr s)
       else if b_status row \<noteq> BDispatching
         then raise Conflict ''Call is not awaiting automatic settlement''
       else Inr (settle_row now tenant row actual BSettled ''budget'' [] s)))"

definition reconcile_budget ::
  "env \<Rightarrow> int \<Rightarrow> string \<Rightarrow> string \<Rightarrow> string \<Rightarrow> int \<Rightarrow> string \<Rightarrow> db \<Rightarrow> db res" where
  "reconcile_budget e now tenant rid actor actual evidence s =
     bindr (bounded 256 actor) (\<lambda>_. bindr (bounded 500 evidence) (\<lambda>_. bindr (amount True actual) (\<lambda>_.
       bindr (require_authority e tenant ''web'' actor [''owner'']) (\<lambda>_.
         bindr (budget_row s tenant rid) (\<lambda>row.
           if b_status row \<notin> set HELD
             then raise Conflict ''Reservation has already been reconciled''
           else Inr (audit now tenant [] ''budget.reconciliation_evidence'' actor
             [(''id'', JStr rid), (''evidence'', JStr evidence)]
             (settle_row now tenant row actual BReconciled actor [] s)))))))"

section \<open>Receipts\<close>

definition token_cost :: "int \<Rightarrow> int \<Rightarrow> int \<Rightarrow> int \<Rightarrow> int res" where
  "token_cost input output input_rate output_rate =
     (if \<not> (0 \<le> input \<and> input \<le> 10 ^ 8) \<or> \<not> (0 \<le> output \<and> output \<le> 10 ^ 8)
      then raise ValueError ''Invalid provider token usage''
      else bindr (amount True input_rate) (\<lambda>i. bindr (amount True output_rate) (\<lambda>o'.
        amount True ((input * i + output * o' + 999999) div 1000000))))"

definition token_count :: "json \<Rightarrow> int res" where
  "token_count v = (case v of JInt n \<Rightarrow> Inr n | _ \<Rightarrow> raise ValueError ''Invalid provider token usage'')"

definition provider_tokens :: "fields \<Rightarrow> string \<Rightarrow> (json \<times> json) res" where
  "provider_tokens usage name =
     (if name = ''anthropic'' then
        (if map_of usage ''input_tokens'' = None \<or> map_of usage ''output_tokens'' = None
         then raise ValueError ''Model usage receipt missing''
         else bindr (token_count (jget usage ''input_tokens'')) (\<lambda>a.
           bindr (token_count (jget_or usage ''cache_creation_input_tokens'' (JInt 0))) (\<lambda>b.
             bindr (token_count (jget_or usage ''cache_read_input_tokens'' (JInt 0))) (\<lambda>c.
               bindr (token_count (jget usage ''output_tokens'')) (\<lambda>d.
                 Inr (JInt (a + b + c), JInt d))))))
      else if map_of usage ''prompt_tokens'' = None \<or> map_of usage ''completion_tokens'' = None
        then raise ValueError ''Model usage receipt missing''
      else Inr (jget usage ''prompt_tokens'', jget usage ''completion_tokens''))"

end
