(* ===== verification/Budget_Ledger.thy ===== *)
theory Budget_Ledger
  imports Usage_Budget
begin

text \<open>
  The double-entry invariant of the spending guard: in every state the budget operations can
  reach, an account's \<^verbatim>\<open>reserved_micro\<close> is the sum of the amounts its reservations still hold,
  \<^verbatim>\<open>spent_micro\<close> the sum of what they were settled at, and \<^verbatim>\<open>inflight\<close> their number.
\<close>

section \<open>What a reservation contributes to an account\<close>

definition holds :: "reservation_row \<Rightarrow> bool" where
  "holds b \<longleftrightarrow> b_status b \<in> set HELD"

definition in_account :: "string \<Rightarrow> string \<Rightarrow> reservation_row \<Rightarrow> bool" where
  "in_account tenant p b \<longleftrightarrow> b_tenant b = tenant \<and> b_period b = p"

definition held_amount :: "string \<Rightarrow> string \<Rightarrow> reservation_row \<Rightarrow> int" where
  "held_amount tenant p b = (if in_account tenant p b \<and> holds b then b_amount b else 0)"

definition spent_amount :: "string \<Rightarrow> string \<Rightarrow> reservation_row \<Rightarrow> int" where
  "spent_amount tenant p b =
     (if in_account tenant p b then case b_actual b of None \<Rightarrow> 0 | Some a \<Rightarrow> a else 0)"

definition held_one :: "string \<Rightarrow> string \<Rightarrow> reservation_row \<Rightarrow> int" where
  "held_one tenant p b = (if in_account tenant p b \<and> holds b then 1 else 0)"

definition total :: "(reservation_row \<Rightarrow> int) \<Rightarrow> db \<Rightarrow> int" where
  "total w s = sum_list (map w (reservations s))"

lemmas weight_defs = held_amount_def spent_amount_def held_one_def in_account_def holds_def HELD_def

definition row_key :: "reservation_row \<Rightarrow> string \<times> string" where
  "row_key b = (b_tenant b, b_id b)"

definition account_key :: "budget_account \<Rightarrow> string \<times> string" where
  "account_key c = (c_tenant c, c_period c)"

definition balanced :: "db \<Rightarrow> budget_account \<Rightarrow> bool" where
  "balanced s c \<longleftrightarrow>
     c_reserved c = total (held_amount (c_tenant c) (c_period c)) s
     \<and> c_spent c = total (spent_amount (c_tenant c) (c_period c)) s
     \<and> c_inflight c = total (held_one (c_tenant c) (c_period c)) s"

definition row_ok :: "db \<Rightarrow> reservation_row \<Rightarrow> bool" where
  "row_ok s b \<longleftrightarrow> 0 \<le> b_amount b \<and> (holds b \<longleftrightarrow> b_actual b = None)
     \<and> (\<forall>a \<in> set_option (b_actual b). 0 \<le> a)
     \<and> (b_tenant b, b_period b) \<in> account_key ` set (budget_accounts s)"

definition ledger :: "db \<Rightarrow> bool" where
  "ledger s \<longleftrightarrow> distinct (map row_key (reservations s))
     \<and> distinct (map account_key (budget_accounts s))
     \<and> (\<forall>b \<in> set (reservations s). row_ok s b)
     \<and> (\<forall>c \<in> set (budget_accounts s). balanced s c)"

lemma is_row_key: "is_row tenant rid b \<longleftrightarrow> row_key b = (tenant, rid)"
  by (auto simp: is_row_def row_key_def)

lemma sum_upd_where:
  fixes w :: "'a \<Rightarrow> int"
  assumes "distinct (map k xs)" and "r \<in> set xs"
  shows "sum_list (map w (upd_where (\<lambda>x. k x = k r) f xs)) = sum_list (map w xs) - w r + w (f r)"
  using assms
proof (induction xs)
  case (Cons x xs)
  show ?case
  proof (cases "k x = k r")
    case True
    with Cons.prems have "x = r" by (auto simp: image_iff)
    moreover have "upd_where (\<lambda>x. k x = k r) f xs = xs"
      using Cons.prems True by (intro upd_where_id) (auto simp: image_iff)
    ultimately show ?thesis using True by simp
  next
    case False
    with Cons show ?thesis by auto
  qed
qed simp

lemma budget_row_Inr:
  "budget_row s tenant rid = Inr row \<Longrightarrow>
     row \<in> set (reservations s) \<and> b_tenant row = tenant \<and> b_id row = rid"
  by (auto simp: budget_row_def is_row_def dest: find_Some_mem split: option.splits)

lemma set_row_fields [simp]:
  "reservations (set_row tenant rid f s) = upd_where (is_row tenant rid) f (reservations s)"
  "budget_accounts (set_row tenant rid f s) = budget_accounts s"
  "budget_settings (set_row tenant rid f s) = budget_settings s"
  "freezes (set_row tenant rid f s) = freezes s"
  by (simp_all add: set_row_def)

lemma set_account_fields [simp]:
  "reservations (set_account tenant p f s) = reservations s"
  "budget_accounts (set_account tenant p f s) =
     upd_where (\<lambda>c. c_tenant c = tenant \<and> c_period c = p) f (budget_accounts s)"
  "budget_settings (set_account tenant p f s) = budget_settings s"
  "freezes (set_account tenant p f s) = freezes s"
  by (simp_all add: set_account_def)

lemma total_set_row:
  assumes "ledger s" and "row \<in> set (reservations s)"
  shows "total w (set_row (b_tenant row) (b_id row) f s) = total w s - w row + w (f row)"
proof -
  have "is_row (b_tenant row) (b_id row) = (\<lambda>x. row_key x = row_key row)"
    by (auto simp: is_row_key row_key_def fun_eq_iff)
  then show ?thesis
    using sum_upd_where[of row_key "reservations s" row w f] assms
    by (simp add: total_def ledger_def)
qed

lemma total_cong: "reservations s = reservations t \<Longrightarrow> total w s = total w t"
  by (simp add: total_def)

lemma ledger_cong:
  assumes "reservations s = reservations t" and "budget_accounts s = budget_accounts t"
  shows "ledger s = ledger t"
  using assms by (simp add: ledger_def balanced_def row_ok_def total_def)

lemma ledger_audit [simp]: "ledger (audit now t k a u d s) = ledger s"
  by (rule ledger_cong) simp_all

lemma ledger_drawn [simp]: "ledger (drawn s) = ledger s"
  by (rule ledger_cong) simp_all

section \<open>Every update keeps the ledger\<close>

text \<open>A change of status among the held ones moves no money.\<close>

lemma map_set_row_same:
  assumes "\<And>b. b \<in> set (reservations s) \<Longrightarrow> is_row tenant rid b \<Longrightarrow> w (f b) = w b"
  shows "map w (reservations (set_row tenant rid f s)) = map w (reservations s)"
  using assms by (simp add: upd_where_def)

lemma ledger_set_row:
  assumes s: "ledger s"
    and keep: "\<And>b. b \<in> set (reservations s) \<Longrightarrow> is_row tenant rid b \<Longrightarrow>
      holds b \<and> holds (f b) \<and> b_tenant (f b) = b_tenant b \<and> b_id (f b) = b_id b
      \<and> b_period (f b) = b_period b \<and> b_amount (f b) = b_amount b \<and> b_actual (f b) = b_actual b"
  shows "ledger (set_row tenant rid f s)"
proof -
  let ?t = "set_row tenant rid f s"
  have "total (held_amount t p) ?t = total (held_amount t p) s" for t p
    unfolding total_def by (subst map_set_row_same) (auto simp: held_amount_def in_account_def keep)
  moreover have "total (spent_amount t p) ?t = total (spent_amount t p) s" for t p
    unfolding total_def by (subst map_set_row_same) (auto simp: spent_amount_def in_account_def keep)
  moreover have "total (held_one t p) ?t = total (held_one t p) s" for t p
    unfolding total_def by (subst map_set_row_same) (auto simp: held_one_def in_account_def keep)
  moreover have "map row_key (reservations ?t) = map row_key (reservations s)"
    by (rule map_set_row_same) (simp add: row_key_def keep)
  moreover have "row_ok ?t b" if "b \<in> set (reservations ?t)" for b
  proof -
    from that obtain x where x: "x \<in> set (reservations s)"
      and b: "b = (if is_row tenant rid x then f x else x)"
      by (auto simp: in_upd_where)
    from s x have "row_ok s x" by (simp add: ledger_def)
    with keep[OF x] b show ?thesis by (auto simp: row_ok_def)
  qed
  ultimately show ?thesis
    using s by (simp add: ledger_def balanced_def del: set_row_fields(1))
qed

text \<open>Settling a held reservation moves its amount out of \<open>reserved\<close> and the actual into \<open>spent\<close>.\<close>

lemma total_settle_row:
  assumes "ledger s" and "row \<in> set (reservations s)"
  shows "total w (settle_row now (b_tenant row) row actual status actor detail s) = total w s - w row
     + w (row\<lparr>b_status := status, b_actual := Some actual, b_updated := now\<rparr>)"
proof -
  let ?f = "\<lambda>b. b\<lparr>b_status := status, b_actual := Some actual, b_updated := now\<rparr>"
  have "total w (settle_row now (b_tenant row) row actual status actor detail s)
      = total w (set_row (b_tenant row) (b_id row) ?f s)"
    by (rule total_cong) (simp add: settle_row_def)
  with total_set_row[OF assms] show ?thesis by simp
qed

lemma ledger_settle_row:
  assumes s: "ledger s" and row: "row \<in> set (reservations s)" and held: "holds row"
    and closed: "status \<notin> set HELD" and pos: "0 \<le> actual"
  shows "ledger (settle_row now (b_tenant row) row actual status actor detail s)"
    (is "ledger ?t")
proof -
  let ?row = "row\<lparr>b_status := status, b_actual := Some actual, b_updated := now\<rparr>"
  have ok: "row_ok s row" using s row by (simp add: ledger_def)
  have tot: "total w ?t = total w s - w row + w ?row" for w
    by (rule total_settle_row[OF s row])
  have res: "reservations ?t = upd_where (is_row (b_tenant row) (b_id row))
      (\<lambda>b. b\<lparr>b_status := status, b_actual := Some actual, b_updated := now\<rparr>) (reservations s)"
    by (simp add: settle_row_def)
  have acc: "budget_accounts ?t = upd_where
      (\<lambda>c. c_tenant c = b_tenant row \<and> c_period c = b_period row)
      (\<lambda>c. c\<lparr>c_reserved := c_reserved c - b_amount row, c_spent := c_spent c + actual,
              c_inflight := c_inflight c - 1\<rparr>) (budget_accounts s)"
    by (simp add: settle_row_def)
  have "map row_key (reservations ?t) = map row_key (reservations s)"
    unfolding res by (rule map_upd_where) (simp add: row_key_def)
  moreover have akeys: "map account_key (budget_accounts ?t) = map account_key (budget_accounts s)"
    unfolding acc by (rule map_upd_where) (simp add: account_key_def)
  moreover have "row_ok ?t b" if "b \<in> set (reservations ?t)" for b
  proof -
    have img: "account_key ` set (budget_accounts ?t) = account_key ` set (budget_accounts s)"
      using akeys by (metis list.set_map)
    from that obtain x where x: "x \<in> set (reservations s)"
      and b: "b = (if is_row (b_tenant row) (b_id row) x
        then x\<lparr>b_status := status, b_actual := Some actual, b_updated := now\<rparr> else x)"
      by (auto simp: res in_upd_where)
    from s x have "row_ok s x" by (simp add: ledger_def)
    with b closed pos show ?thesis by (auto simp: row_ok_def img holds_def)
  qed
  moreover have "balanced ?t c" if "c \<in> set (budget_accounts ?t)" for c
  proof -
    from that obtain d where d: "d \<in> set (budget_accounts s)"
      and c: "c = (if c_tenant d = b_tenant row \<and> c_period d = b_period row
        then d\<lparr>c_reserved := c_reserved d - b_amount row, c_spent := c_spent d + actual,
               c_inflight := c_inflight d - 1\<rparr> else d)"
      by (auto simp: acc in_upd_where)
    from s d have "balanced s d" by (simp add: ledger_def)
    with ok held closed show ?thesis
      by (auto simp: c balanced_def tot held_amount_def spent_amount_def held_one_def in_account_def
          row_ok_def holds_def)
  qed
  ultimately show ?thesis using s by (simp add: ledger_def)
qed

section \<open>Admission\<close>

lemma find_account_Some:
  "find_account s tenant p = Some c \<Longrightarrow>
     c \<in> set (budget_accounts s) \<and> c_tenant c = tenant \<and> c_period c = p"
  by (auto simp: find_account_def dest: find_Some_mem)

lemma find_account_None:
  "find_account s tenant p = None \<longleftrightarrow> (tenant, p) \<notin> account_key ` set (budget_accounts s)"
  by (auto simp: find_account_def find_None_mem account_key_def image_iff)

lemma total_none:
  assumes "ledger s" and "(tenant, p) \<notin> account_key ` set (budget_accounts s)"
  shows "total (held_amount tenant p) s = 0" "total (spent_amount tenant p) s = 0"
    "total (held_one tenant p) s = 0"
proof -
  have none: "\<not> in_account tenant p b" if "b \<in> set (reservations s)" for b
    using assms that by (auto simp: ledger_def row_ok_def in_account_def)
  have zero: "total w s = 0" if "\<And>b. b \<in> set (reservations s) \<Longrightarrow> w b = 0" for w
    using that by (simp add: total_def cong: map_cong)
  show "total (held_amount tenant p) s = 0" "total (spent_amount tenant p) s = 0"
    "total (held_one tenant p) s = 0"
    by (rule zero, simp add: none held_amount_def spent_amount_def held_one_def)+
qed

lemma ensure_account_fields [simp]:
  "reservations (ensure_account tenant p s) = reservations s"
  "budget_settings (ensure_account tenant p s) = budget_settings s"
  "freezes (ensure_account tenant p s) = freezes s"
  by (simp_all add: ensure_account_def split: option.splits)

lemma ledger_ensure_account:
  assumes s: "ledger s"
  shows "ledger (ensure_account tenant p s)"
proof (cases "find_account s tenant p")
  case None
  then have new: "(tenant, p) \<notin> account_key ` set (budget_accounts s)"
    by (simp add: find_account_None)
  let ?c = "\<lparr>c_tenant = tenant, c_period = p, c_spent = 0, c_reserved = 0, c_inflight = 0\<rparr>"
  let ?t = "ensure_account tenant p s"
  have t: "budget_accounts ?t = budget_accounts s @ [?c]" "reservations ?t = reservations s"
    using None by (simp_all add: ensure_account_def)
  have "balanced ?t ?c"
    using total_none[OF s new] total_cong[OF t(2)] by (simp add: balanced_def)
  moreover have "balanced ?t c" if "c \<in> set (budget_accounts s)" for c
    using s that total_cong[OF t(2)] by (simp add: ledger_def balanced_def)
  moreover have "row_ok ?t b" if "b \<in> set (reservations s)" for b
    using s that t by (auto simp: ledger_def row_ok_def)
  moreover have "distinct (map account_key (budget_accounts ?t))"
    using s new t by (auto simp: ledger_def account_key_def)
  ultimately show ?thesis using s t by (auto simp: ledger_def)
next
  case (Some c)
  with s show ?thesis by (simp add: ensure_account_def)
qed

lemma ensure_account_present: "find_account (ensure_account tenant p s) tenant p \<noteq> None"
  by (auto simp: ensure_account_def find_account_def find_append split: option.splits)

text \<open>Inversion of \<open>admit\<close>.\<close>

lemma admitE:
  assumes "admit e now tenant key full est g s = Inr (rid, t)"
  obtains c where "find_account (ensure_account tenant (period now) s) tenant (period now) = Some c"
    and "c_spent c + c_reserved c + est \<le> g_limit g" and "rid = fresh e s"
    and "\<forall>b \<in> set (reservations s). \<not> is_row tenant rid b"
    and "reservations t = reservations s @ [new_reservation now tenant rid key full (period now) est]"
    and "budget_accounts t = upd_where (\<lambda>c. c_tenant c = tenant \<and> c_period c = period now)
      (\<lambda>c. c\<lparr>c_reserved := c_reserved c + est, c_inflight := c_inflight c + 1\<rparr>)
      (budget_accounts (ensure_account tenant (period now) s))"
    and "budget_settings t = budget_settings s" and "freezes t = freezes s"
  using assms
  by (auto simp: admit_def Let_def split: option.splits if_splits)

lemma ledger_admit:
  assumes s: "ledger s" and est: "0 \<le> est"
    and admit: "admit e now tenant key full est g s = Inr (rid, t)"
  shows "ledger t"
proof -
  let ?p = "period now" and ?u = "ensure_account tenant (period now) s"
  let ?b = "new_reservation now tenant rid key full ?p est"
  obtain c where c: "find_account ?u tenant ?p = Some c"
    and new: "\<forall>b \<in> set (reservations s). \<not> is_row tenant rid b"
    and res: "reservations t = reservations s @ [?b]"
    and acc: "budget_accounts t = upd_where (\<lambda>c. c_tenant c = tenant \<and> c_period c = ?p)
      (\<lambda>c. c\<lparr>c_reserved := c_reserved c + est, c_inflight := c_inflight c + 1\<rparr>) (budget_accounts ?u)"
    by (rule admitE[OF admit]) blast
  have u: "ledger ?u" by (rule ledger_ensure_account[OF s])
  have akeys: "map account_key (budget_accounts t) = map account_key (budget_accounts ?u)"
    unfolding acc by (rule map_upd_where) (simp add: account_key_def)
  then have img: "account_key ` set (budget_accounts t) = account_key ` set (budget_accounts ?u)"
    by (metis list.set_map)
  have tot: "total w t = total w ?u + w ?b" for w
    by (simp add: total_def res)
  have "distinct (map row_key (reservations t))"
    using u new by (auto simp: ledger_def res is_row_key row_key_def new_reservation_def)
  moreover have "distinct (map account_key (budget_accounts t))"
    using u akeys by (simp add: ledger_def)
  moreover have "row_ok t b" if "b \<in> set (reservations t)" for b
  proof (cases "b = ?b")
    case True
    have "(tenant, ?p) \<in> account_key ` set (budget_accounts ?u)"
      using c find_account_None by (metis option.distinct(1))
    then show ?thesis
      unfolding row_ok_def img True using est
      by (simp add: new_reservation_def holds_def HELD_def)
  next
    case False
    with that res have "b \<in> set (reservations ?u)" by simp
    with u have "row_ok ?u b" by (simp add: ledger_def)
    then show ?thesis unfolding row_ok_def img .
  qed
  moreover have "balanced t d" if "d \<in> set (budget_accounts t)" for d
  proof -
    from that obtain d0 where d0: "d0 \<in> set (budget_accounts ?u)"
      and d: "d = (if c_tenant d0 = tenant \<and> c_period d0 = ?p
        then d0\<lparr>c_reserved := c_reserved d0 + est, c_inflight := c_inflight d0 + 1\<rparr> else d0)"
      unfolding acc by (auto simp: in_upd_where)
    from u d0 have "balanced ?u d0" by (simp add: ledger_def)
    then show ?thesis
      by (auto simp: d balanced_def tot held_amount_def spent_amount_def held_one_def in_account_def
          new_reservation_def holds_def HELD_def)
  qed
  ultimately show ?thesis by (simp add: ledger_def)
qed

section \<open>Slot expiry\<close>

lemma slot_expired_holds: "slot_expired now tenant b \<Longrightarrow> holds b"
  by (auto simp: slot_expired_def holds_def HELD_def)

lemma expire_slot_fields [simp]:
  "reservations (expire_slot now tenant rid s) = upd_where (is_row tenant rid)
     (\<lambda>b. b\<lparr>b_status := BUnreconciled, b_updated := now\<rparr>) (reservations s)"
  "budget_accounts (expire_slot now tenant rid s) = budget_accounts s"
  "budget_settings (expire_slot now tenant rid s) = budget_settings s"
  "freezes (expire_slot now tenant rid s) = freezes s"
  by (simp_all add: expire_slot_def)

lemma ledger_expire_slot:
  assumes "ledger s" and "\<And>b. b \<in> set (reservations s) \<Longrightarrow> is_row tenant rid b \<Longrightarrow> holds b"
  shows "ledger (expire_slot now tenant rid s)"
proof -
  let ?f = "\<lambda>b. b\<lparr>b_status := BUnreconciled, b_updated := now\<rparr>"
  have "ledger (set_row tenant rid ?f s)"
    using assms by (intro ledger_set_row) (auto simp: holds_def HELD_def)
  moreover have "ledger (expire_slot now tenant rid s) = ledger (set_row tenant rid ?f s)"
    by (simp add: expire_slot_def)
  ultimately show ?thesis by simp
qed

text \<open>The whole expiry in closed form.\<close>

definition expire_row :: "int \<Rightarrow> string \<Rightarrow> reservation_row \<Rightarrow> reservation_row" where
  "expire_row now tenant b =
     (if slot_expired now tenant b then b\<lparr>b_status := BUnreconciled, b_updated := now\<rparr> else b)"

lemma upd_rows_fold:
  "reservations (fold (expire_slot now tenant) ids s) =
     map (\<lambda>b. if b_tenant b = tenant \<and> b_id b \<in> set ids
        then b\<lparr>b_status := BUnreconciled, b_updated := now\<rparr> else b) (reservations s)"
proof (induction ids arbitrary: s)
  case (Cons i ids)
  show ?case
    by (auto simp: Cons.IH upd_where_def is_row_def)
qed simp

lemma expire_slots_fields [simp]:
  "budget_accounts (expire_slots now tenant s) = budget_accounts s"
  "budget_settings (expire_slots now tenant s) = budget_settings s"
  "freezes (expire_slots now tenant s) = freezes s"
proof -
  have "budget_accounts (fold (expire_slot now tenant) ids s) = budget_accounts s
    \<and> budget_settings (fold (expire_slot now tenant) ids s) = budget_settings s
    \<and> freezes (fold (expire_slot now tenant) ids s) = freezes s" for ids
    by (induction ids arbitrary: s) auto
  then show "budget_accounts (expire_slots now tenant s) = budget_accounts s"
    "budget_settings (expire_slots now tenant s) = budget_settings s"
    "freezes (expire_slots now tenant s) = freezes s"
    by (simp_all add: expire_slots_def)
qed

lemma expire_slots_rows:
  assumes "ledger s"
  shows "reservations (expire_slots now tenant s) = map (expire_row now tenant) (reservations s)"
proof -
  let ?ids = "map b_id (filter (slot_expired now tenant) (reservations s))"
  have "b_tenant b = tenant \<and> b_id b \<in> set ?ids \<longleftrightarrow> slot_expired now tenant b"
    if b: "b \<in> set (reservations s)" for b
  proof
    assume "b_tenant b = tenant \<and> b_id b \<in> set ?ids"
    then obtain x where x: "x \<in> set (reservations s)" "slot_expired now tenant x"
      "row_key x = row_key b"
      by (auto simp: row_key_def slot_expired_def)
    with b assms have "x = b" using distinct_key_eq[of row_key "reservations s"]
      by (simp add: ledger_def)
    with x show "slot_expired now tenant b" by simp
  qed (use b in \<open>auto simp: slot_expired_def\<close>)
  then show ?thesis
    by (simp add: expire_slots_def upd_rows_fold expire_row_def del: set_map)
qed

lemma ledger_expire_slots:
  assumes s: "ledger s"
  shows "ledger (expire_slots now tenant s)"
proof -
  let ?t = "expire_slots now tenant s"
  have res: "reservations ?t = map (expire_row now tenant) (reservations s)"
    by (rule expire_slots_rows[OF s])
  have row: "b_tenant (expire_row now tenant b) = b_tenant b"
    "b_period (expire_row now tenant b) = b_period b" "b_id (expire_row now tenant b) = b_id b"
    "b_amount (expire_row now tenant b) = b_amount b"
    "b_actual (expire_row now tenant b) = b_actual b"
    "holds (expire_row now tenant b) = holds b" for b
    by (auto simp: expire_row_def slot_expired_def holds_def HELD_def)
  have "held_amount t p \<circ> expire_row now tenant = held_amount t p"
    "spent_amount t p \<circ> expire_row now tenant = spent_amount t p"
    "held_one t p \<circ> expire_row now tenant = held_one t p" for t p
    by (simp_all add: fun_eq_iff held_amount_def spent_amount_def held_one_def in_account_def row)
  then have tot: "total (held_amount t p) ?t = total (held_amount t p) s"
    "total (spent_amount t p) ?t = total (spent_amount t p) s"
    "total (held_one t p) ?t = total (held_one t p) s" for t p
    by (simp_all add: total_def res)
  have "map row_key (reservations ?t) = map row_key (reservations s)"
    by (simp add: res row_key_def row)
  then have "distinct (map row_key (reservations ?t))" using s by (simp only: ledger_def)
  then show ?thesis
    using s by (auto simp: ledger_def balanced_def tot row_ok_def row res)
qed

end
