(* ===== verification/Budget_System.thy ===== *)
theory Budget_System
  imports Budget_Ledger
begin

text \<open>
  The spending guard as a transition system: one committed transaction per step. The ledger is
  an invariant, and every existing reservation evolves along the allowed moves.
\<close>

section \<open>Steps\<close>

inductive budget_step :: "env \<Rightarrow> db \<Rightarrow> db \<Rightarrow> bool" for e where
  configured: "configure e now tenant actor currency limit inflight s = Inr (v, t) \<Longrightarrow>
     budget_step e s t"
| reserved: "reserve e now tenant key fp est currency s = Inr (rid, t) \<Longrightarrow> budget_step e s t"
| dispatched: "dispatch e now tenant rid s = Inr t \<Longrightarrow> budget_step e s t"
| left_uncertain: "uncertain now tenant rid s = Inr t \<Longrightarrow> budget_step e s t"
| cancelled: "budget_cancel now tenant rid s = Inr t \<Longrightarrow> budget_step e s t"
| released: "release now tenant rid reason s = Inr t \<Longrightarrow> budget_step e s t"
| settled: "settle now tenant rid actual s = Inr t \<Longrightarrow> budget_step e s t"
| reconciled: "reconcile_budget e now tenant rid actor actual evidence s = Inr t \<Longrightarrow>
     budget_step e s t"

inductive budget_steps :: "env \<Rightarrow> db \<Rightarrow> db \<Rightarrow> bool" for e where
  budget_refl: "budget_steps e s s"
| budget_more: "budget_steps e s t \<Longrightarrow> budget_step e t u \<Longrightarrow> budget_steps e s u"

lemma amount_Inr: "amount z v = Inr x \<Longrightarrow> x = v \<and> 0 \<le> v \<and> v \<le> MAX_AMOUNT"
  by (auto simp: amount_def split: if_splits)

text \<open>Inversions of the operations: each one is a guard and one of the updates above.\<close>

lemma configureE:
  assumes "configure e now tenant actor currency limit inflight s = Inr (v, t)"
  shows "reservations t = reservations s \<and> budget_accounts t = budget_accounts s"
  using assms
  by (auto simp: configure_def configure_tx_def res_simps Let_def split: option.splits if_splits)

lemma reserveE:
  assumes "reserve e now tenant key fp est currency s = Inr (rid, t)"
  obtains (replay) old where "find_key s tenant key = Some old" and "t = s" and "rid = b_id old"
      and "reserve_digest e fp est currency = Inr (b_fingerprint old)"
  | (new) g full where "find_key s tenant key = None" and "find_setting s tenant = Some g"
      and "g_currency g = currency" and "0 \<le> est" and "require_active e s tenant = Inr ()"
      and "reserve_digest e fp est currency = Inr full"
      and "int (slots now tenant (expire_slots now tenant s)) < g_max_inflight g"
      and "admit e now tenant key full est g (expire_slots now tenant s) = Inr (rid, t)"
proof -
  from assms obtain g full where g: "find_setting s tenant = Some g"
    and guards: "g_currency g = currency" "0 \<le> est" "require_active e s tenant = Inr ()"
      "reserve_digest e fp est currency = Inr full"
    by (cases "find_setting s tenant")
      (auto simp: reserve_def res_simps dest: amount_Inr split: if_split_asm)
  show ?thesis
  proof (cases "find_key s tenant key")
    case None
    with assms g guards have "int (slots now tenant (expire_slots now tenant s)) < g_max_inflight g"
      "admit e now tenant key full est g (expire_slots now tenant s) = Inr (rid, t)"
      by (simp_all add: reserve_def res_simps Let_def not_le)
    with None g guards show ?thesis using new by blast
  next
    case (Some old)
    with assms g guards have "b_fingerprint old = full" "t = s" "rid = b_id old"
      by (simp_all add: reserve_def res_simps)
    with Some guards show ?thesis using replay by blast
  qed
qed

lemma dispatchE:
  assumes "dispatch e now tenant rid s = Inr t"
  obtains row g c where "row \<in> set (reservations s)" "b_tenant row = tenant" "b_id row = rid"
    "b_status row = BReserved" "b_period row = period now" "require_active e s tenant = Inr ()"
    "find_setting s tenant = Some g" "find_account s tenant (period now) = Some c"
    "c_spent c + c_reserved c \<le> g_limit g"
    "int (slots now tenant (expire_slots now tenant s)) \<le> g_max_inflight g"
    "t = audit now tenant [] ''budget.dispatched'' ''budget'' [(''id'', JStr rid)]
       (set_row tenant rid (\<lambda>b. b\<lparr>b_status := BDispatching, b_updated := now\<rparr>)
         (expire_slots now tenant s))"
proof -
  from assms obtain row where row: "budget_row s tenant rid = Inr row"
    and guards: "b_status row = BReserved" "b_period row = period now"
      "require_active e s tenant = Inr ()"
    by (auto simp: dispatch_def res_simps split: if_split_asm)
  from assms row guards obtain g where g: "find_setting s tenant = Some g"
    by (cases "find_setting s tenant") (auto simp: dispatch_def Let_def)
  from assms row guards g obtain c where c: "find_account s tenant (period now) = Some c"
    by (cases "find_account s tenant (period now)") (auto simp: dispatch_def Let_def)
  from assms row guards g c show ?thesis
    using that[of row g c] budget_row_Inr[OF row]
    by (simp add: dispatch_def Let_def not_less res_simps)
qed

lemma uncertainE:
  assumes "uncertain now tenant rid s = Inr t"
  obtains "t = s" | row where "row \<in> set (reservations s)" "b_tenant row = tenant" "b_id row = rid"
    "b_status row = BDispatching"
    "t = audit now tenant [] ''budget.uncertain'' ''budget'' [(''id'', JStr rid)]
       (set_row tenant rid (\<lambda>b. b\<lparr>b_status := BUncertain, b_updated := now\<rparr>) s)"
  using assms
  by (auto simp: uncertain_def res_simps split: if_splits dest: budget_row_Inr)

text \<open>The closing operations settle one held row.\<close>

definition closes :: "env \<Rightarrow> db \<Rightarrow> db \<Rightarrow> reservation_row \<Rightarrow> int \<Rightarrow> budget_status \<Rightarrow> bool" where
  "closes e s t row actual status \<longleftrightarrow> row \<in> set (reservations s) \<and> holds row \<and> 0 \<le> actual
     \<and> (\<exists>now actor detail u. u = settle_row now (b_tenant row) row actual status actor detail s
          \<and> reservations t = reservations u \<and> budget_accounts t = budget_accounts u)
     \<and> (b_status row, status) \<in> {(BReserved, BCancelled), (BDispatching, BReleased),
          (BDispatching, BSettled)} \<union> (set HELD \<times> {BReconciled})
     \<and> (status = BReconciled \<longrightarrow>
          (\<exists>actor. authority e (b_tenant row) ''web'' actor [''owner''] = None))"

lemma cancel_closes:
  assumes "budget_cancel now tenant rid s = Inr t"
  obtains "t = s" | row where "closes e s t row 0 BCancelled"
  using assms
  by (fastforce simp: budget_cancel_def res_simps closes_def holds_def HELD_def split: if_splits
      dest: budget_row_Inr)

lemma release_closes:
  assumes "release now tenant rid reason s = Inr t"
  obtains "t = s" | row where "closes e s t row 0 BReleased"
  using assms
  by (fastforce simp: release_def res_simps closes_def holds_def HELD_def split: if_splits
      dest: budget_row_Inr)

lemma settle_closes:
  assumes "settle now tenant rid actual s = Inr t"
  obtains "t = s" | row where "closes e s t row actual BSettled"
  using assms
  by (fastforce simp: settle_def res_simps closes_def holds_def HELD_def split: if_splits
      dest: budget_row_Inr amount_Inr)

lemma reconcile_closes:
  assumes "reconcile_budget e now tenant rid actor actual evidence s = Inr t"
  obtains row where "closes e s t row actual BReconciled"
proof -
  obtain row where row: "budget_row s tenant rid = Inr row" and held: "holds row"
    and pos: "0 \<le> actual" and auth: "authority e tenant ''web'' actor [''owner''] = None"
    and t: "t = audit now tenant [] ''budget.reconciliation_evidence'' actor
      [(''id'', JStr rid), (''evidence'', JStr evidence)]
      (settle_row now tenant row actual BReconciled actor [] s)"
    using assms
    by (auto simp: reconcile_budget_def res_simps holds_def require_authority_def split: if_splits
        option.splits dest: amount_Inr)
  have mem: "row \<in> set (reservations s)" "b_tenant row = tenant"
    using budget_row_Inr[OF row] by simp_all
  have "closes e s t row actual BReconciled"
    unfolding closes_def
    using mem held pos auth by (auto simp: t holds_def)
  then show ?thesis by (rule that)
qed

lemma ledger_closes:
  assumes "closes e s t row actual status" and "ledger s"
  shows "ledger t"
proof -
  from assms(1) obtain now actor detail where
    u: "reservations t = reservations (settle_row now (b_tenant row) row actual status actor detail s)"
       "budget_accounts t = budget_accounts (settle_row now (b_tenant row) row actual status actor detail s)"
    and closed: "status \<notin> set HELD" and row: "row \<in> set (reservations s)" "holds row" "0 \<le> actual"
    by (auto simp: closes_def HELD_def)
  have "ledger (settle_row now (b_tenant row) row actual status actor detail s)"
    using ledger_settle_row assms(2) row closed by blast
  with ledger_cong[OF u] show ?thesis by simp
qed

lemma row_unique:
  assumes "ledger s" and "row \<in> set (reservations s)" and "b \<in> set (reservations s)"
    and "b_tenant b = b_tenant row" and "b_id b = b_id row"
  shows "b = row"
  using assms distinct_key_eq[of row_key "reservations s" b row] by (simp add: ledger_def row_key_def)

lemma ledger_step: "budget_step e s t \<Longrightarrow> ledger s \<Longrightarrow> ledger t"
proof (induction rule: budget_step.induct)
  case (configured now tenant actor currency limit inflight s v t)
  then show ?case using configureE ledger_cong by metis
next
  case (reserved now tenant key fp est currency s rid t)
  from reserved(1) show ?case
  proof (cases rule: reserveE)
    case (new g full)
    then show ?thesis using ledger_admit ledger_expire_slots[OF reserved(2)] by blast
  qed (use reserved in simp)
next
  case (dispatched now tenant rid s t)
  from dispatched(1) show ?case
  proof (cases rule: dispatchE)
    case (1 row g c)
    let ?u = "expire_slots now tenant s"
    have u: "ledger ?u" by (rule ledger_expire_slots[OF dispatched(2)])
    have "holds b" if b: "b \<in> set (reservations ?u)" "is_row tenant rid b" for b
    proof -
      from b obtain x where x: "x \<in> set (reservations s)" "b = expire_row now tenant x"
        by (auto simp: expire_slots_rows[OF dispatched(2)])
      with b have "is_row tenant rid x" by (simp add: expire_row_def is_row_def split: if_split_asm)
      then have "x = row" using row_unique[OF dispatched(2) 1(1) x(1)] 1 by (simp add: is_row_def)
      with x 1 show ?thesis by (simp add: expire_row_def slot_expired_def holds_def HELD_def)
    qed
    then have "ledger (set_row tenant rid (\<lambda>b. b\<lparr>b_status := BDispatching, b_updated := now\<rparr>) ?u)"
      using u by (intro ledger_set_row) (auto simp: holds_def HELD_def)
    then show ?thesis by (simp add: 1)
  qed
next
  case (left_uncertain now tenant rid s t)
  from left_uncertain(1) show ?case
  proof (cases rule: uncertainE)
    case (2 row)
    have "holds b" if b: "b \<in> set (reservations s)" "is_row tenant rid b" for b
    proof -
      have "b = row" using row_unique[OF left_uncertain(2) 2(1) b(1)] 2 b by (simp add: is_row_def)
      with 2 show ?thesis by (simp add: holds_def HELD_def)
    qed
    then have "ledger (set_row tenant rid (\<lambda>b. b\<lparr>b_status := BUncertain, b_updated := now\<rparr>) s)"
      using left_uncertain(2) by (intro ledger_set_row) (auto simp: holds_def HELD_def)
    then show ?thesis by (simp add: 2)
  qed (use left_uncertain in simp)
next
  case (cancelled now tenant rid s t)
  then show ?case by (metis cancel_closes ledger_closes)
next
  case (released now tenant rid reason s t)
  then show ?case by (metis release_closes ledger_closes)
next
  case (settled now tenant rid actual s t)
  then show ?case by (metis settle_closes ledger_closes)
next
  case (reconciled now tenant rid actor actual evidence s t)
  then show ?case by (metis reconcile_closes ledger_closes)
qed

lemma ledger_steps: "budget_steps e s t \<Longrightarrow> ledger s \<Longrightarrow> ledger t"
  by (induction rule: budget_steps.induct) (auto intro: ledger_step)

lemma ledger_empty: "reservations s = [] \<Longrightarrow> budget_accounts s = [] \<Longrightarrow> ledger s"
  by (simp add: ledger_def)

end
