(* ===== verification/Budget_Props.thy ===== *)
theory Budget_Props
  imports Budget_System Demo_Env
begin

text \<open>
  What the spending guard promises: the ledger adds up, admission respects the limits, a request
  key buys one reservation, money of an unknown outcome stays held until an owner releases it, and a
  receipt is priced at the ceiling of its exact cost.
\<close>

section \<open>How a reservation evolves\<close>

definition MOVES :: "(budget_status \<times> budget_status) set" where
  "MOVES = {(BReserved, BDispatching), (BDispatching, BUncertain), (BDispatching, BUnreconciled),
     (BUncertain, BUnreconciled), (BReserved, BCancelled), (BDispatching, BReleased),
     (BDispatching, BSettled)} \<union> (set HELD \<times> {BReconciled})"

definition ident :: "reservation_row \<Rightarrow> string \<times> string \<times> string \<times> string \<times> string \<times> int" where
  "ident b = (b_tenant b, b_id b, b_key b, b_fingerprint b, b_period b, b_amount b)"

definition row_evolves :: "env \<Rightarrow> reservation_row \<Rightarrow> reservation_row \<Rightarrow> bool" where
  "row_evolves e b b' \<longleftrightarrow> ident b' = ident b
     \<and> (b' = b \<or> (b_status b, b_status b') \<in> MOVES
          \<and> (b_status b' = BReconciled \<longrightarrow>
               (\<exists>actor. authority e (b_tenant b) ''web'' actor [''owner''] = None)))"

lemma row_evolves_refl [simp]: "row_evolves e b b"
  by (simp add: row_evolves_def)

lemma row_evolves_expire [simp]: "row_evolves e b (expire_row now tenant b)"
  by (auto simp: row_evolves_def expire_row_def slot_expired_def MOVES_def ident_def)

definition rows_evolve :: "env \<Rightarrow> db \<Rightarrow> db \<Rightarrow> bool" where
  "rows_evolve e s t \<longleftrightarrow> (\<exists>f new. reservations t = map f (reservations s) @ new
     \<and> (\<forall>b \<in> set (reservations s). row_evolves e b (f b)))"

lemma rows_evolveI:
  assumes "reservations t = map f (reservations s) @ new"
    and "\<And>b. b \<in> set (reservations s) \<Longrightarrow> row_evolves e b (f b)"
  shows "rows_evolve e s t"
  using assms by (auto simp: rows_evolve_def)

lemma rows_evolve_refl: "reservations t = reservations s \<Longrightarrow> rows_evolve e s t"
  by (rule rows_evolveI[of _ id _ "[]"]) auto

lemma closes_evolve:
  assumes "closes e s t row actual status" and "ledger s"
  shows "rows_evolve e s t"
proof -
  from assms(1) obtain now where res: "reservations t =
      upd_where (is_row (b_tenant row) (b_id row))
        (\<lambda>b. b\<lparr>b_status := status, b_actual := Some actual, b_updated := now\<rparr>) (reservations s)"
    and row: "row \<in> set (reservations s)" and move: "(b_status row, status) \<in> MOVES"
    and auth: "status = BReconciled \<longrightarrow>
      (\<exists>actor. authority e (b_tenant row) ''web'' actor [''owner''] = None)"
    by (auto simp: closes_def MOVES_def settle_row_def)
  let ?f = "\<lambda>b. if is_row (b_tenant row) (b_id row) b
    then b\<lparr>b_status := status, b_actual := Some actual, b_updated := now\<rparr> else b"
  show ?thesis
  proof (rule rows_evolveI[of _ ?f _ "[]"])
    show "reservations t = map ?f (reservations s) @ []" by (simp add: res upd_where_def)
    fix b assume "b \<in> set (reservations s)"
    then have "is_row (b_tenant row) (b_id row) b \<Longrightarrow> b = row"
      using row_unique[OF assms(2) row] by (simp add: is_row_def)
    then show "row_evolves e b (?f b)"
      using move auth by (auto simp: row_evolves_def ident_def)
  qed
qed

lemma rows_evolve_step: "budget_step e s t \<Longrightarrow> ledger s \<Longrightarrow> rows_evolve e s t"
proof (induction rule: budget_step.induct)
  case (configured now tenant actor currency limit inflight s v t)
  then show ?case using configureE rows_evolve_refl by metis
next
  case (reserved now tenant key fp est currency s rid t)
  from reserved(1) show ?case
  proof (cases rule: reserveE)
    case (new g full)
    from new(8) show ?thesis
      by (rule admitE) (rule rows_evolveI[of _ "expire_row now tenant"],
        auto simp: expire_slots_rows[OF reserved(2)])
  qed (simp add: rows_evolve_refl)
next
  case (dispatched now tenant rid s t)
  from dispatched(1) show ?case
  proof (cases rule: dispatchE)
    case (1 row g c)
    let ?d = "\<lambda>b. b\<lparr>b_status := BDispatching, b_updated := now\<rparr>"
    let ?f = "\<lambda>b. if is_row tenant rid b then ?d b else expire_row now tenant b"
    have row: "b = row" if "b \<in> set (reservations s)" "is_row tenant rid b" for b
      using row_unique[OF dispatched(2) 1(1) that(1)] that 1 by (simp add: is_row_def)
    show ?thesis
    proof (rule rows_evolveI[of _ ?f _ "[]"])
      have "expire_row now tenant row = row" using 1 by (simp add: expire_row_def slot_expired_def)
      moreover have "is_row tenant rid (expire_row now tenant b) = is_row tenant rid b" for b
        by (simp add: expire_row_def is_row_def)
      ultimately show "reservations t = map ?f (reservations s) @ []"
        using row by (auto simp: 1(11) upd_where_def expire_slots_rows[OF dispatched(2)])
      fix b assume "b \<in> set (reservations s)"
      then show "row_evolves e b (?f b)"
        using row 1 by (auto simp: row_evolves_def MOVES_def ident_def expire_row_def slot_expired_def)
    qed
  qed
next
  case (left_uncertain now tenant rid s t)
  from left_uncertain(1) show ?case
  proof (cases rule: uncertainE)
    case (2 row)
    let ?f = "\<lambda>b. if is_row tenant rid b then b\<lparr>b_status := BUncertain, b_updated := now\<rparr> else b"
    have row: "b = row" if "b \<in> set (reservations s)" "is_row tenant rid b" for b
      using row_unique[OF left_uncertain(2) 2(1) that(1)] that 2 by (simp add: is_row_def)
    show ?thesis
    proof (rule rows_evolveI[of _ ?f _ "[]"])
      show "reservations t = map ?f (reservations s) @ []" by (simp add: 2(5) upd_where_def)
      fix b assume "b \<in> set (reservations s)"
      then show "row_evolves e b (?f b)"
        using row 2 by (auto simp: row_evolves_def MOVES_def ident_def)
    qed
  qed (simp add: rows_evolve_refl)
next
  case (cancelled now tenant rid s t)
  then show ?case by (metis cancel_closes closes_evolve rows_evolve_refl)
next
  case (released now tenant rid reason s t)
  then show ?case by (metis release_closes closes_evolve rows_evolve_refl)
next
  case (settled now tenant rid actual s t)
  then show ?case by (metis settle_closes closes_evolve rows_evolve_refl)
next
  case (reconciled now tenant rid actor actual evidence s t)
  then show ?case by (metis reconcile_closes closes_evolve)
qed

section \<open>Over any number of steps\<close>

lemma rows_evolve_mem:
  assumes "rows_evolve e s t" and "b \<in> set (reservations s)"
  obtains b' where "b' \<in> set (reservations t)" and "row_evolves e b b'"
  using assms by (fastforce simp: rows_evolve_def)

lemma rows_evolve_find:
  assumes "rows_evolve e s t" and "find_key s tenant key = Some old"
  obtains old' where "find_key t tenant key = Some old'" and "ident old' = ident old"
proof -
  from assms(1) obtain f new where res: "reservations t = map f (reservations s) @ new"
    and ev: "\<forall>b \<in> set (reservations s). row_evolves e b (f b)"
    by (auto simp: rows_evolve_def)
  have "find (\<lambda>b. b_tenant b = tenant \<and> b_key b = key) (map f xs)
      = map_option f (find (\<lambda>b. b_tenant b = tenant \<and> b_key b = key) xs)"
    if "set xs \<subseteq> set (reservations s)" for xs
    using that
  proof (induction xs)
    case (Cons x xs)
    then have "ident (f x) = ident x" using ev by (simp add: row_evolves_def)
    with Cons show ?case by (simp add: ident_def)
  qed simp
  from this[of "reservations s"] have "find_key t tenant key = Some (f old)"
    using assms(2) by (simp add: find_key_def res find_append)
  moreover have "ident (f old) = ident old"
    using ev assms(2) by (auto simp: find_key_def row_evolves_def dest: find_Some_mem)
  ultimately show ?thesis by (rule that)
qed

lemma steps_find_key:
  "budget_steps e s t \<Longrightarrow> ledger s \<Longrightarrow> find_key s tenant key = Some old \<Longrightarrow>
     \<exists>old'. find_key t tenant key = Some old' \<and> ident old' = ident old"
proof (induction rule: budget_steps.induct)
  case (budget_more s t u)
  then obtain o1 where o1: "find_key t tenant key = Some o1" "ident o1 = ident old" by blast
  have "rows_evolve e t u"
    using budget_more by (intro rows_evolve_step) (auto intro: ledger_steps)
  then obtain o2 where "find_key u tenant key = Some o2" "ident o2 = ident o1"
    by (rule rows_evolve_find[OF _ o1(1)])
  with o1 show ?case by simp
qed simp

text \<open>After a successful reservation its key is taken by the returned identifier.\<close>

lemma reserve_key:
  assumes "reserve e now tenant key fp est currency s = Inr (rid, t)"
  obtains b where "find_key t tenant key = Some b" and "b_id b = rid"
    and "reserve_digest e fp est currency = Inr (b_fingerprint b)"
  using assms
proof (cases rule: reserveE)
  case (replay old)
  then show ?thesis using that by blast
next
  case (new g full)
  let ?b = "new_reservation now tenant rid key full (period now) est"
  let ?u = "expire_slots now tenant s"
  have res: "reservations t = reservations ?u @ [?b]"
    using new(8) by (rule admitE) simp
  have "map (\<lambda>b. (b_tenant b, b_key b)) (reservations ?u) = map (\<lambda>b. (b_tenant b, b_key b)) (reservations s)"
    by (simp add: expire_slots_def upd_rows_fold)
  then have "(\<lambda>b. (b_tenant b, b_key b)) ` set (reservations ?u)
      = (\<lambda>b. (b_tenant b, b_key b)) ` set (reservations s)"
    by (metis list.set_map)
  moreover have "(tenant, key) \<notin> (\<lambda>b. (b_tenant b, b_key b)) ` set (reservations s)"
    using new(1) by (auto simp: find_key_def find_None_mem)
  ultimately have "(tenant, key) \<notin> (\<lambda>b. (b_tenant b, b_key b)) ` set (reservations ?u)"
    by (simp only: not_False_eq_True)
  then have "\<not> (\<exists>b \<in> set (reservations ?u). b_tenant b = tenant \<and> b_key b = key)"
    by (simp only: image_iff prod.inject) metis
  then have "find (\<lambda>b. b_tenant b = tenant \<and> b_key b = key) (reservations ?u) = None"
    unfolding find_None_mem by blast
  then have "find_key t tenant key = Some ?b"
    unfolding find_key_def res find_append by (simp add: new_reservation_def)
  then show ?thesis by (rule that) (simp_all add: new_reservation_def new(6))
qed

lemma steps_unknown_money:
  "budget_steps e s t \<Longrightarrow> ledger s \<Longrightarrow> b \<in> set (reservations s) \<Longrightarrow>
     b_status b \<in> {BUncertain, BUnreconciled} \<Longrightarrow>
     \<exists>b' \<in> set (reservations t). ident b' = ident b \<and>
       (b_status b' \<in> {BUncertain, BUnreconciled} \<or> b_status b' = BReconciled
          \<and> (\<exists>actor. authority e (b_tenant b) ''web'' actor [''owner''] = None))"
proof (induction rule: budget_steps.induct)
  case (budget_more s t u)
  then obtain b1 where b1: "b1 \<in> set (reservations t)" "ident b1 = ident b"
    "b_status b1 \<in> {BUncertain, BUnreconciled} \<or> b_status b1 = BReconciled
       \<and> (\<exists>actor. authority e (b_tenant b) ''web'' actor [''owner''] = None)"
    by blast
  have "rows_evolve e t u"
    using budget_more by (intro rows_evolve_step) (auto intro: ledger_steps)
  then obtain b2 where b2: "b2 \<in> set (reservations u)" "row_evolves e b1 b2"
    by (rule rows_evolve_mem[OF _ b1(1)])
  have "b_tenant b1 = b_tenant b" using b1(2) by (simp add: ident_def)
  with b1 b2 have "ident b2 = ident b \<and>
     (b_status b2 \<in> {BUncertain, BUnreconciled} \<or> b_status b2 = BReconciled
        \<and> (\<exists>actor. authority e (b_tenant b) ''web'' actor [''owner''] = None))"
    by (auto simp: row_evolves_def MOVES_def HELD_def)
  with b2 show ?case by blast
qed blast

section \<open>A concrete ledger\<close>

definition budget_demo_1 :: db where
  "budget_demo_1 = ok_state (configure demo_env 0 ''t'' ''boss'' ''USD'' 1000 2 empty_db)"

definition budget_fp :: string where "budget_fp = replicate 64 CHR ''a''"

definition budget_demo_2 :: db where
  "budget_demo_2 = ok_state (reserve demo_env 1 ''t'' ''k'' budget_fp 600 ''USD'' budget_demo_1)"

definition budget_demo_3 :: db where
  "budget_demo_3 = ok_db (dispatch demo_env 2 ''t'' [] budget_demo_2)"

definition budget_demo_4 :: db where
  "budget_demo_4 = ok_db (uncertain 3 ''t'' [] budget_demo_3)"

lemma budget_demo_ok:
  "is_ok (configure demo_env 0 ''t'' ''boss'' ''USD'' 1000 2 empty_db)"
  "reserve demo_env 1 ''t'' ''k'' budget_fp 600 ''USD'' budget_demo_1 = Inr ([], budget_demo_2)"
  "is_ok (dispatch demo_env 2 ''t'' [] budget_demo_2)"
  "is_ok (uncertain 3 ''t'' [] budget_demo_3)"
proof -
  show "is_ok (configure demo_env 0 ''t'' ''boss'' ''USD'' 1000 2 empty_db)" by code_simp
  have "is_ok (reserve demo_env 1 ''t'' ''k'' budget_fp 600 ''USD'' budget_demo_1)" by code_simp
  then obtain rid where r:
    "reserve demo_env 1 ''t'' ''k'' budget_fp 600 ''USD'' budget_demo_1 = Inr (rid, budget_demo_2)"
    unfolding budget_demo_2_def by (blast dest: ok_stateI)
  moreover have "map b_id (reservations budget_demo_2) = [[]]"
    "map b_key (reservations budget_demo_2) = [''k'']" by code_simp+
  ultimately show "reserve demo_env 1 ''t'' ''k'' budget_fp 600 ''USD'' budget_demo_1
      = Inr ([], budget_demo_2)"
    by (auto elim!: reserve_key simp: find_key_def map_eq_Cons_conv split: if_splits)
  show "is_ok (dispatch demo_env 2 ''t'' [] budget_demo_2)" by code_simp
  show "is_ok (uncertain 3 ''t'' [] budget_demo_3)" by code_simp
qed

lemma budget_demo_steps:
  "budget_steps demo_env empty_db budget_demo_1"
  "budget_steps demo_env budget_demo_1 budget_demo_2"
  "budget_steps demo_env budget_demo_2 budget_demo_4"
  "budget_steps demo_env empty_db budget_demo_4"
proof -
  note ok = budget_demo_ok
  have c: "budget_step demo_env empty_db budget_demo_1"
    using ok_stateI[OF ok(1)] unfolding budget_demo_1_def[symmetric] by (blast intro: configured)
  have r: "budget_step demo_env budget_demo_1 budget_demo_2" using ok(2) by (rule reserved)
  have d: "budget_step demo_env budget_demo_2 budget_demo_3"
    using ok_dbI[OF ok(3)] unfolding budget_demo_3_def[symmetric] by (rule dispatched)
  have u: "budget_step demo_env budget_demo_3 budget_demo_4"
    using ok_dbI[OF ok(4)] unfolding budget_demo_4_def[symmetric] by (rule left_uncertain)
  show "budget_steps demo_env empty_db budget_demo_1"
    "budget_steps demo_env budget_demo_1 budget_demo_2"
    "budget_steps demo_env budget_demo_2 budget_demo_4"
    "budget_steps demo_env empty_db budget_demo_4"
    by (meson c r d u budget_refl budget_more)+
qed

section \<open>Properties\<close>

lemma sum_ones: "(\<Sum>x \<leftarrow> xs. if P x then 1 else 0) = int (length (filter P xs))"
  by (induction xs) simp_all

text \<open>
  C14: the ledger adds up. Whatever sequence of budget operations ran since the budget tables were
  empty, an account's reserved amount is exactly the sum of the amounts its held reservations were
  admitted with, its spent amount the sum of what its closed ones were settled at, and its in-flight
  count the number of held ones.
\<close>

theorem ledger_is_balanced:
  assumes "budget_steps e s t" and "reservations s = []" and "budget_accounts s = []"
    and "find_account t tenant p = Some c"
  shows "c_reserved c = (\<Sum>b \<leftarrow> filter (\<lambda>b. in_account tenant p b \<and> b_status b \<in> set HELD)
           (reservations t). b_amount b)
    \<and> c_spent c = (\<Sum>b \<leftarrow> filter (in_account tenant p) (reservations t).
           case b_actual b of None \<Rightarrow> 0 | Some a \<Rightarrow> a)
    \<and> c_inflight c = int (length (filter (\<lambda>b. in_account tenant p b \<and> b_status b \<in> set HELD)
           (reservations t)))"
proof -
  have "ledger t" using assms(1) ledger_empty[OF assms(2,3)] by (rule ledger_steps)
  then have "balanced t c" and "c_tenant c = tenant" "c_period c = p"
    using find_account_Some[OF assms(4)] by (auto simp: ledger_def)
  moreover have "total (held_amount tenant p) t = sum_list (map b_amount
      (filter (\<lambda>b. in_account tenant p b \<and> b_status b \<in> set HELD) (reservations t)))"
    by (simp add: total_def sum_list_map_filter' held_amount_def[abs_def] holds_def)
  moreover have "total (spent_amount tenant p) t = (\<Sum>b \<leftarrow> filter (in_account tenant p) (reservations t).
      case b_actual b of None \<Rightarrow> 0 | Some a \<Rightarrow> a)"
    by (simp add: total_def sum_list_map_filter' spent_amount_def[abs_def])
  moreover have "total (held_one tenant p) t = int (length (filter
      (\<lambda>b. in_account tenant p b \<and> b_status b \<in> set HELD) (reservations t)))"
    by (simp add: total_def held_one_def[abs_def] holds_def sum_ones)
  ultimately show ?thesis by (simp add: balanced_def)
qed

lemma ledger_is_balanced_witness:
  "\<exists>c. find_account budget_demo_4 ''t'' ''1970-01'' = Some c \<and> c_reserved c = 600 \<and> c_inflight c = 1"
proof -
  have "find_account budget_demo_4 ''t'' ''1970-01'' \<noteq> None" by code_simp
  then obtain c where c: "find_account budget_demo_4 ''t'' ''1970-01'' = Some c" by blast
  have rows: "map b_amount (filter (\<lambda>b. in_account ''t'' ''1970-01'' b \<and> b_status b \<in> set HELD)
      (reservations budget_demo_4)) = [600]" by code_simp
  have one: "length (filter (\<lambda>b. in_account ''t'' ''1970-01'' b \<and> b_status b \<in> set HELD)
      (reservations budget_demo_4)) = 1"
    using arg_cong[OF rows, of length] by simp
  have "c_reserved c = 600 \<and> c_inflight c = 1"
    using ledger_is_balanced[OF budget_demo_steps(4) _ _ c] rows one by (simp add: empty_db_def)
  with c show ?thesis by blast
qed

text \<open>
  Admission respects the limits. A key not yet used is admitted only for a non-negative amount
  that fits: afterwards the period's spent and reserved amounts are within the tenant's limit and
  the calls holding a slot within its parallel-call limit.
\<close>

theorem reserve_within_limits:
  assumes "reserve e now tenant key fp est currency s = Inr (rid, t)"
    and "find_key s tenant key = None"
  shows "\<exists>g c. find_setting t tenant = Some g \<and> g_currency g = currency
    \<and> find_account t tenant (period now) = Some c
    \<and> c_spent c + c_reserved c \<le> g_limit g
    \<and> int (slots now tenant t) \<le> g_max_inflight g \<and> 0 \<le> est"
  using assms(1)
proof (cases rule: reserveE)
  case (replay old)
  with assms(2) show ?thesis by simp
next
  case (new g full)
  let ?u = "expire_slots now tenant s" and ?p = "period now"
  let ?b = "new_reservation now tenant rid key full ?p est"
  obtain c where c: "find_account (ensure_account tenant ?p ?u) tenant ?p = Some c"
    and fits: "c_spent c + c_reserved c + est \<le> g_limit g"
    and res: "reservations t = reservations ?u @ [?b]"
    and acc: "budget_accounts t = upd_where (\<lambda>c. c_tenant c = tenant \<and> c_period c = ?p)
      (\<lambda>c. c\<lparr>c_reserved := c_reserved c + est, c_inflight := c_inflight c + 1\<rparr>)
      (budget_accounts (ensure_account tenant ?p ?u))"
    and set: "budget_settings t = budget_settings ?u"
    using new(8) by (rule admitE)
  have "find_account t tenant ?p = Some (c\<lparr>c_reserved := c_reserved c + est,
      c_inflight := c_inflight c + 1\<rparr>)"
    using c find_account_Some[OF c] unfolding find_account_def acc
    by (subst find_upd_where) auto
  moreover have "slots now tenant t = Suc (slots now tenant ?u)"
    by (simp add: slots_def res takes_slot_def new_reservation_def)
  moreover have "find_setting t tenant = Some g" using new(2) by (simp add: find_setting_def set)
  ultimately show ?thesis using new(3,4,7) fits by simp
qed

lemma reserve_within_limits_witness:
  "\<exists>g c. find_setting budget_demo_2 ''t'' = Some g \<and> find_account budget_demo_2 ''t'' (period 1) = Some c
     \<and> c_spent c + c_reserved c \<le> g_limit g \<and> int (slots 1 ''t'' budget_demo_2) \<le> g_max_inflight g"
proof -
  have "find_key budget_demo_1 ''t'' ''k'' = None" by code_simp
  from reserve_within_limits[OF budget_demo_ok(2) this] show ?thesis by blast
qed

text \<open>
  A request key buys one reservation. Once a reservation succeeded, in every later state of the
  ledger a reservation under the same key returns the same identifier and changes nothing, and it
  is refused unless its request, estimate and currency have the recorded digest.
\<close>

theorem reservation_key_is_final:
  assumes "ledger s" and "reserve e now tenant key fp est currency s = Inr (rid, t)"
    and "budget_steps e t u" and "reserve e now' tenant key fp' est' currency' u = Inr (rid', v)"
  shows "rid' = rid \<and> v = u \<and> reserve_digest e fp' est' currency' = reserve_digest e fp est currency"
proof -
  obtain b where b: "find_key t tenant key = Some b" "b_id b = rid"
    "reserve_digest e fp est currency = Inr (b_fingerprint b)"
    by (rule reserve_key[OF assms(2)])
  have "ledger t" by (rule ledger_step[OF reserved[OF assms(2)] assms(1)])
  then obtain b' where b': "find_key u tenant key = Some b'" "ident b' = ident b"
    using steps_find_key[OF assms(3) _ b(1)] by blast
  from assms(4) show ?thesis
    by (cases rule: reserveE) (use b b' in \<open>auto simp: ident_def\<close>)
qed

lemma reservation_key_is_final_witness:
  "ok_state (reserve demo_env 9 ''t'' ''k'' budget_fp 600 ''USD'' budget_demo_4) = budget_demo_4"
proof -
  have "is_ok (reserve demo_env 9 ''t'' ''k'' budget_fp 600 ''USD'' budget_demo_4)" by code_simp
  then obtain rid v where v: "reserve demo_env 9 ''t'' ''k'' budget_fp 600 ''USD'' budget_demo_4 = Inr (rid, v)"
    by (auto simp: is_ok_def split: sum.splits)
  have "ledger budget_demo_1"
    by (rule ledger_steps[OF budget_demo_steps(1) ledger_empty]) (simp_all add: empty_db_def)
  from reservation_key_is_final[OF this budget_demo_ok(2) budget_demo_steps(3) v] v
  show ?thesis by (simp add: ok_state_def)
qed

text \<open>
  Money of an unknown outcome stays held. A reservation whose call left without a complete
  answer keeps its amount through every later operation, and leaves the held statuses only by a
  reconciliation the directory accepts an owner for.
\<close>

theorem unknown_outcome_needs_owner:
  assumes "ledger s" and "budget_steps e s t" and "b \<in> set (reservations s)"
    and "b_status b = BUncertain \<or> b_status b = BUnreconciled"
  shows "\<exists>b' \<in> set (reservations t). b_tenant b' = b_tenant b \<and> b_id b' = b_id b
     \<and> b_amount b' = b_amount b
     \<and> (b_status b' = BUncertain \<or> b_status b' = BUnreconciled
        \<or> (b_status b' = BReconciled
           \<and> (\<exists>actor. authority e (b_tenant b) ''web'' actor [''owner''] = None)))"
  using steps_unknown_money[OF assms(2,1,3)] assms(4) by (fastforce simp: ident_def)

lemma unknown_outcome_needs_owner_witness:
  "\<exists>b' \<in> set (reservations budget_demo_4). b_amount b' = 600"
proof -
  have l: "ledger budget_demo_4"
    by (rule ledger_steps[OF budget_demo_steps(4) ledger_empty]) (simp_all add: empty_db_def)
  have "map b_status (reservations budget_demo_4) = [BUncertain]"
    "map b_amount (reservations budget_demo_4) = [600]" by code_simp+
  then obtain b where "b \<in> set (reservations budget_demo_4)" "b_status b = BUncertain" "b_amount b = 600"
    by (auto simp: map_eq_Cons_conv)
  with unknown_outcome_needs_owner[OF l budget_refl, of b] show ?thesis by auto
qed

text \<open>
  A receipt is priced at the ceiling of its exact cost in microunits, and only receipts and
  rates within the bounds of the ledger have a price.
\<close>

theorem token_cost_is_ceiling:
  "token_cost i out ri ro = Inr c \<longleftrightarrow>
     0 \<le> i \<and> i \<le> 10 ^ 8 \<and> 0 \<le> out \<and> out \<le> 10 ^ 8 \<and> 0 \<le> ri \<and> ri \<le> MAX_AMOUNT
     \<and> 0 \<le> ro \<and> ro \<le> MAX_AMOUNT \<and> c = \<lceil>of_int (i * ri + out * ro) / (10 ^ 6 :: rat)\<rceil>
     \<and> c \<le> MAX_AMOUNT"
proof -
  have ceil: "\<lceil>of_int n / (10 ^ 6 :: rat)\<rceil> = (n + 999999) div 1000000" for n :: int
  proof -
    have "\<lceil>of_int n / (10 ^ 6 :: rat)\<rceil> = \<lceil>(of_int n :: rat) / of_int 1000000\<rceil>" by simp
    also have "\<dots> = - ((- n) div 1000000)" by (rule ceiling_divide_eq_div)
    also have "\<dots> = (n + 999999) div 1000000"
    proof (rule sym, rule int_div_pos_eq)
      show "n + 999999 = 1000000 * (- ((- n) div 1000000)) + (999999 - (- n) mod 1000000)"
        using mult_div_mod_eq[of 1000000 "- n"] by linarith
      have "(- n) mod 1000000 < 1000000" "0 \<le> (- n) mod 1000000" by simp_all
      then show "0 \<le> 999999 - (- n) mod 1000000" "999999 - (- n) mod 1000000 < 1000000"
        by linarith+
    qed
    finally show ?thesis .
  qed
  define cost where "cost = (i * ri + out * ro + 999999) div 1000000"
  have pos: "0 \<le> cost" if "0 \<le> i" "0 \<le> out" "0 \<le> ri" "0 \<le> ro"
    unfolding cost_def using that by (simp add: pos_imp_zdiv_nonneg_iff add_nonneg_nonneg)
  show ?thesis
  proof (cases "0 \<le> i \<and> i \<le> 10 ^ 8 \<and> 0 \<le> out \<and> out \<le> 10 ^ 8 \<and> 0 \<le> ri \<and> ri \<le> MAX_AMOUNT
      \<and> 0 \<le> ro \<and> ro \<le> MAX_AMOUNT")
    case True
    then have "0 \<le> cost" by (intro pos) blast+
    with True show ?thesis
      unfolding ceil token_cost_def cost_def amount_def by auto
  next
    case False
    then have "\<not> is_ok (token_cost i out ri ro)"
      unfolding token_cost_def amount_def by auto
    with False show ?thesis by (metis is_ok_simps(1))
  qed
qed

end
