(* ===== verification/Model_Transport.thy ===== *)
theory Model_Transport
  imports Tools
begin

text \<open>
  The provider dialects and the retry loop of \<^verbatim>\<open>platform_runtime/model_transport.py\<close>: the
  settings of an \<^verbatim>\<open>llm\<close> block, the classification of a failed call, the bounded retries, the
  two request shapes and the strict projection of a tool schema. The sender itself
  (\<^verbatim>\<open>transport_for\<close>) is network I/O: a call is an argument of the loop. Seconds are rationals.
\<close>

section \<open>Bounds\<close>

definition MIN_LOCAL_PORT :: int where "MIN_LOCAL_PORT = 1024"
definition MAX_PORT :: int where "MAX_PORT = 65535"
definition SUPPORTED_PROVIDERS :: "string list" where
  "SUPPORTED_PROVIDERS = [''openai'', ''anthropic'']"
definition OPENAI_BASE_URL :: string where "OPENAI_BASE_URL = ''https://api.openai.com/v1''"
definition OPENAI_PATH :: string where "OPENAI_PATH = ''/chat/completions''"
definition ANTHROPIC_BASE_URL :: string where "ANTHROPIC_BASE_URL = ''https://api.anthropic.com''"
definition ANTHROPIC_VERSION :: string where "ANTHROPIC_VERSION = ''2023-06-01''"
definition ANTHROPIC_PATH :: string where "ANTHROPIC_PATH = ''/v1/messages''"
definition ANTHROPIC_MIN_MAX_TOKENS :: int where "ANTHROPIC_MIN_MAX_TOKENS = 16000"
definition EFFORT_LEVELS :: "string list" where
  "EFFORT_LEVELS = [''low'', ''medium'', ''high'', ''xhigh'', ''max'']"
definition PLANNER_PROTOCOLS :: "string list" where "PLANNER_PROTOCOLS = [''json'', ''tools'']"
definition TOOL_CHOICE :: json where
  "TOOL_CHOICE = JObj [(''type'', JStr ''auto''), (''disable_parallel_tool_use'', JBool True)]"
definition STRICT_SCHEMA_KEYS :: "string list" where
  "STRICT_SCHEMA_KEYS = [''type'', ''description'', ''enum'', ''properties'', ''required'', ''items'']"
definition DEFAULT_MODEL_TIMEOUT_SECONDS :: int where "DEFAULT_MODEL_TIMEOUT_SECONDS = 60"
definition MIN_MODEL_TIMEOUT_SECONDS :: int where "MIN_MODEL_TIMEOUT_SECONDS = 10"
definition MAX_MODEL_TIMEOUT_SECONDS :: int where "MAX_MODEL_TIMEOUT_SECONDS = 120"
definition MAX_MODEL_ATTEMPTS :: nat where "MAX_MODEL_ATTEMPTS = 3"
definition BACKOFF_BASE_SECONDS :: rat where "BACKOFF_BASE_SECONDS = 1"
definition MAX_RETRY_WAIT_SECONDS :: rat where "MAX_RETRY_WAIT_SECONDS = 8"
definition MODEL_CALL_DEADLINE_SECONDS :: rat where "MODEL_CALL_DEADLINE_SECONDS = 150"
definition RETRYABLE_CLIENT_STATUSES :: "int list" where
  "RETRYABLE_CLIENT_STATUSES = [408, 409, 429]"

section \<open>Settings of an llm block\<close>

text \<open>Membership of a configuration value in a set of strings: an unhashable value raises.\<close>

definition in_names :: "json \<Rightarrow> string list \<Rightarrow> bool res" where
  "in_names v names = (case v of
      JStr n \<Rightarrow> Inr (n \<in> set names)
    | JList _ \<Rightarrow> raise TypeError ''unhashable type''
    | JObj _ \<Rightarrow> raise TypeError ''unhashable type''
    | _ \<Rightarrow> Inr False)"

definition local_mode :: "fields \<Rightarrow> bool res" where
  "local_mode cfg =
     (let mode = jget_or cfg ''provider_mode'' (JStr ''cloud'') in
      bindr (in_names mode [''cloud'', ''local_loopback'']) (\<lambda>known.
        if \<not> known then raise ValueError ''Unknown model provider mode''
        else Inr (mode = JStr ''local_loopback'')))"

text \<open>The parts \<^verbatim>\<open>urlsplit\<close> reads off a URL.\<close>

record url_parts =
  url_scheme :: string
  url_hostname :: "string option"
  url_username :: "string option"
  url_password :: "string option"
  url_port :: "int option"
  url_query :: string
  url_fragment :: string

definition present :: "string option \<Rightarrow> bool" where
  "present v = (case v of None \<Rightarrow> False | Some t \<Rightarrow> t \<noteq> [])"

definition validate_url :: "fields \<Rightarrow> url_parts \<Rightarrow> unit res" where
  "validate_url cfg parts =
     (if \<not> present (url_hostname parts) \<or> present (url_username parts)
         \<or> present (url_password parts) \<or> url_fragment parts \<noteq> [] \<or> url_query parts \<noteq> []
      then raise ValueError ''Plain model provider URL required''
      else bindr (local_mode cfg) (\<lambda>loopback.
        if loopback then
          (if url_scheme parts \<noteq> ''http''
              \<or> url_hostname parts \<notin> {Some ''127.0.0.1'', Some ''::1''} \<or> url_port parts = None
           then raise ValueError ''Local model requires explicit numeric loopback HTTP and port''
           else if \<not> (MIN_LOCAL_PORT \<le> the (url_port parts) \<and> the (url_port parts) \<le> MAX_PORT)
             then raise ValueError ''Local model requires an unprivileged service port''
           else Inr ())
        else if url_scheme parts \<noteq> ''https'' then raise ValueError ''Cloud model HTTPS required''
        else Inr ()))"

definition provider :: "fields \<Rightarrow> string res" where
  "provider cfg =
     (let name = jget_or cfg ''provider'' (JStr ''openai'') in
      bindr (in_names name SUPPORTED_PROVIDERS) (\<lambda>known.
        if \<not> known then raise ValueError ''Unknown model provider'' else Inr (the_str name)))"

definition planner_protocol :: "fields \<Rightarrow> string res" where
  "planner_protocol cfg =
     bindr (provider cfg) (\<lambda>name.
       case jget_or cfg ''protocol'' (JStr ''json'') of
         JStr value \<Rightarrow>
           (if value \<notin> set PLANNER_PROTOCOLS
              then raise ValueError (''Model protocol must be one of '' @ py_join '', '' PLANNER_PROTOCOLS)
            else if value = ''tools'' \<and> name \<noteq> ''anthropic''
              then raise ValueError ''Model protocol tools requires provider anthropic''
            else Inr value)
       | _ \<Rightarrow> raise ValueError (''Model protocol must be one of '' @ py_join '', '' PLANNER_PROTOCOLS))"

definition model_timeout :: "fields \<Rightarrow> int res" where
  "model_timeout cfg =
     (case map_of cfg ''timeout_seconds'' of
        None \<Rightarrow> Inr DEFAULT_MODEL_TIMEOUT_SECONDS
      | Some (JInt v) \<Rightarrow>
          (if \<not> (MIN_MODEL_TIMEOUT_SECONDS \<le> v \<and> v \<le> MAX_MODEL_TIMEOUT_SECONDS)
           then raise ValueError ''Model timeout_seconds must be an integer 10..120'' else Inr v)
      | Some _ \<Rightarrow> raise ValueError ''Model timeout_seconds must be an integer 10..120'')"

definition effort_of :: "fields \<Rightarrow> json option res" where
  "effort_of cfg =
     (case map_of cfg ''effort'' of
        None \<Rightarrow> Inr None
      | Some (JStr v) \<Rightarrow>
          (if v \<notin> set EFFORT_LEVELS
           then raise ValueError (''Model effort must be one of '' @ py_join '', '' EFFORT_LEVELS)
           else Inr (Some (JStr v)))
      | Some _ \<Rightarrow> raise ValueError (''Model effort must be one of '' @ py_join '', '' EFFORT_LEVELS))"

section \<open>Failures\<close>

text \<open>
  \<^verbatim>\<open>ModelRequestFailed\<close>: \<^verbatim>\<open>classify\<close> builds the only instances, so the outcome fixes which
  fields are set.
\<close>

datatype failure =
    FNotSent
  | FRejected int "rat option"
  | FUnknown

text \<open>What a transport can raise, by the classes \<^verbatim>\<open>classify\<close> tells apart.\<close>

datatype raised =
    ModelRequestFailed failure
  | LocalRequestRejected int
  | HTTPError int "string option"
  | URLError
  | NoAnswer
  | Plain exn

definition failure_reason :: "failure \<Rightarrow> string option" where
  "failure_reason f = (case f of FNotSent \<Rightarrow> Some ''not_sent'' | FRejected _ _ \<Rightarrow> Some ''rejected''
     | FUnknown \<Rightarrow> None)"

text \<open>\<^verbatim>\<open>_retry_after\<close>; \<open>to_float\<close> is the builtin \<^verbatim>\<open>float\<close> on a text.\<close>

definition retry_after :: "(string \<Rightarrow> pyfloat option) \<Rightarrow> string option \<Rightarrow> rat option" where
  "retry_after to_float header =
     (case header of
        None \<Rightarrow> None
      | Some t \<Rightarrow> (case to_float t of
            Some (Fin v _) \<Rightarrow> (if v \<ge> 0 then Some v else None)
          | _ \<Rightarrow> None))"

fun classify :: "(string \<Rightarrow> pyfloat option) \<Rightarrow> raised \<Rightarrow> failure option" where
  "classify fl (ModelRequestFailed f) = Some f"
| "classify fl (LocalRequestRejected code) = Some (FRejected code None)"
| "classify fl (HTTPError code h) = Some (FRejected code (retry_after fl h))"
| "classify fl URLError = Some FNotSent"
| "classify fl NoAnswer = Some FUnknown"
| "classify fl (Plain x) = None"

definition retryable_status :: "int \<Rightarrow> bool" where
  "retryable_status status \<longleftrightarrow>
     status \<in> set RETRYABLE_CLIENT_STATUSES \<or> (500 \<le> status \<and> status \<le> 599)"

definition backoff :: "nat \<Rightarrow> rat \<Rightarrow> rat" where
  "backoff attempt jitter =
     min MAX_RETRY_WAIT_SECONDS (BACKOFF_BASE_SECONDS * 2 ^ attempt) * (1 - 1 / 4 * jitter)"

definition retry_wait :: "failure \<Rightarrow> nat \<Rightarrow> rat \<Rightarrow> rat option" where
  "retry_wait f attempt jitter =
     (case f of
        FRejected status after \<Rightarrow>
          if \<not> retryable_status status then None
          else (case after of
              None \<Rightarrow> Some (backoff attempt jitter)
            | Some a \<Rightarrow> if a > MAX_RETRY_WAIT_SECONDS then None else Some (max (backoff attempt jitter) a))
      | _ \<Rightarrow> Some (backoff attempt jitter))"

section \<open>The retry loop\<close>

text \<open>The world an attempt runs in, as the loop sees it: a clock, a sleep and a random number.\<close>

record 'w clockwork =
  cw_now :: "'w \<Rightarrow> rat"
  cw_sleep :: "rat \<Rightarrow> 'w \<Rightarrow> 'w"
  cw_jitter :: "'w \<Rightarrow> rat"

function retry_loop ::
  "(string \<Rightarrow> pyfloat option) \<Rightarrow> 'w clockwork \<Rightarrow> (nat \<Rightarrow> 'w \<Rightarrow> (raised + 'a) \<times> 'w)
     \<Rightarrow> rat \<Rightarrow> rat \<Rightarrow> rat \<Rightarrow> nat \<Rightarrow> 'w \<Rightarrow> (raised + 'a) \<times> 'w" where
  "retry_loop fl cw attempt timeout deadline started index w =
     (case attempt index w of
        (Inr x, w1) \<Rightarrow> (Inr x, w1)
      | (Inl exc, w1) \<Rightarrow> (case classify fl exc of
            None \<Rightarrow> (Inl exc, w1)
          | Some f \<Rightarrow>
              if index + 1 \<ge> MAX_MODEL_ATTEMPTS then (Inl (ModelRequestFailed f), w1)
              else (case retry_wait f index (cw_jitter cw w1) of
                  None \<Rightarrow> (Inl (ModelRequestFailed f), w1)
                | Some wait \<Rightarrow>
                    if cw_now cw w1 - started + wait + timeout > deadline
                    then (Inl (ModelRequestFailed f), w1)
                    else retry_loop fl cw attempt timeout deadline started (Suc index)
                           (cw_sleep cw wait w1))))"
  by pat_completeness auto

termination
  by (relation "measure (\<lambda>(fl, cw, attempt, timeout, deadline, started, index, w).
    MAX_MODEL_ATTEMPTS - index)") auto

declare retry_loop.simps [simp del]

definition with_retries ::
  "(string \<Rightarrow> pyfloat option) \<Rightarrow> 'w clockwork \<Rightarrow> (nat \<Rightarrow> 'w \<Rightarrow> (raised + 'a) \<times> 'w)
     \<Rightarrow> rat \<Rightarrow> rat \<Rightarrow> 'w \<Rightarrow> (raised + 'a) \<times> 'w" where
  "with_retries fl cw attempt timeout deadline w =
     retry_loop fl cw attempt timeout deadline (cw_now cw w) 0 w"

section \<open>Request shapes\<close>

definition rstrip_slash :: "string \<Rightarrow> string" where
  "rstrip_slash t = rev (dropWhile (\<lambda>c. c = CHR ''/'') (rev t))"

definition completion_url :: "fields \<Rightarrow> string res" where
  "completion_url cfg =
     bindr (provider cfg) (\<lambda>name.
       let base = (\<lambda>d. the_str (jget_or cfg ''base_url'' (JStr d))) in
       Inr (if name = ''anthropic'' then rstrip_slash (base ANTHROPIC_BASE_URL) @ ANTHROPIC_PATH
            else rstrip_slash (base OPENAI_BASE_URL) @ OPENAI_PATH))"

definition system_block :: "string \<Rightarrow> json" where
  "system_block system =
     JList [JObj [(''type'', JStr ''text''), (''text'', JStr system),
                  (''cache_control'', JObj [(''type'', JStr ''ephemeral'')])]]"

definition effort_fields :: "json option \<Rightarrow> fields" where
  "effort_fields v = (case v of None \<Rightarrow> [] | Some l \<Rightarrow> [(''output_config'', JObj [(''effort'', l)])])"

definition message :: "string \<Rightarrow> string \<Rightarrow> json" where
  "message role content = JObj [(''role'', JStr role), (''content'', JStr content)]"

definition completion_body :: "fields \<Rightarrow> string \<Rightarrow> string \<Rightarrow> string \<Rightarrow> int \<Rightarrow> fields res" where
  "completion_body cfg model system user_text max_tokens =
     bindr (effort_of cfg) (\<lambda>effort. bindr (provider cfg) (\<lambda>name.
       if name = ''anthropic'' then
         Inr ([(''model'', JStr model), (''max_tokens'', JInt (max max_tokens ANTHROPIC_MIN_MAX_TOKENS)),
               (''system'', system_block system),
               (''messages'', JList [message ''user'' user_text])] @ effort_fields effort)
       else if effort \<noteq> None then raise ValueError ''Model effort is an anthropic provider setting''
       else Inr [(''model'', JStr model),
                 (''messages'', JList [message ''system'' system, message ''user'' user_text]),
                 (''temperature'', JInt 0), (''max_tokens'', JInt max_tokens),
                 (''response_format'', JObj [(''type'', JStr ''json_object'')])]))"

definition wire_char :: "char \<Rightarrow> bool" where
  "wire_char c \<longleftrightarrow> is_alnum c \<or> c = CHR ''_'' \<or> c = CHR ''-''"

definition tool_name :: "json \<Rightarrow> string res" where
  "tool_name name = (case name of
      JStr n \<Rightarrow>
        (let wire = concat (map (\<lambda>c. if c = CHR ''.'' then ''__'' else [c]) n) in
         if list_all wire_char wire \<and> 1 \<le> length wire \<and> length wire \<le> 64 then Inr wire
         else raise ValueError ''Tool name outside the provider charset'')
    | _ \<Rightarrow> raise ValueError ''Tool name must be a string'')"

text \<open>\<^verbatim>\<open>list(value)\<close>.\<close>

definition list_value :: "json \<Rightarrow> json res" where
  "list_value v = (case v of
      JList xs \<Rightarrow> Inr (JList xs)
    | JObj d \<Rightarrow> Inr (JList (map (\<lambda>(k, _). JStr k) d))
    | JStr t \<Rightarrow> Inr (JList (map (\<lambda>c. JStr [c]) t))
    | _ \<Rightarrow> raise TypeError ''object is not iterable'')"

text \<open>The keys a strict schema keeps besides its nested schemas.\<close>

definition kept_key :: "fields \<Rightarrow> string \<Rightarrow> fields res" where
  "kept_key s k = (case map_of s k of
      None \<Rightarrow> Inr []
    | Some v \<Rightarrow>
        if k = ''required'' \<or> k = ''enum'' then bindr (list_value v) (\<lambda>v'. Inr [(k, v')])
        else Inr [(k, v)])"

definition kept_keys :: "fields \<Rightarrow> fields res" where
  "kept_keys s = bindr (each (kept_key s)
     (filter (\<lambda>k. k \<notin> {''properties'', ''items''}) STRICT_SCHEMA_KEYS)) (\<lambda>kss. Inr (concat kss))"

fun strict_schema :: "json \<Rightarrow> nat \<Rightarrow> json res"
  and strict_fields :: "fields \<Rightarrow> nat \<Rightarrow> fields res"
  and strict_sub :: "string \<Rightarrow> fields \<Rightarrow> nat \<Rightarrow> json option res" where
  "strict_schema (JObj s) depth =
     (if depth > MAX_SCHEMA_DEPTH then raise ValueError ''Schema nesting too deep''
      else bindr (kept_keys s) (\<lambda>kept.
        bindr (if map_of s ''type'' = Some (JStr ''object'')
            then strict_sub ''properties'' s depth else Inr None) (\<lambda>props.
        bindr (strict_sub ''items'' s depth) (\<lambda>items.
          Inr (JObj (kept
            @ (if map_of s ''type'' = Some (JStr ''object'')
               then [(''properties'', case props of None \<Rightarrow> JObj [] | Some p \<Rightarrow> p),
                     (''additionalProperties'', JBool False)] else [])
            @ (case items of None \<Rightarrow> [] | Some i \<Rightarrow> [(''items'', i)])))))))"
| "strict_schema v depth =
     (if depth > MAX_SCHEMA_DEPTH then raise ValueError ''Schema nesting too deep''
      else raise ValueError ''Tool schema must be an object'')"
| "strict_fields [] depth = Inr []"
| "strict_fields ((k, v) # d) depth =
     bindr (strict_schema v (Suc depth)) (\<lambda>v'. bindr (strict_fields d depth) (\<lambda>d'. Inr ((k, v') # d')))"
| "strict_sub key [] depth = Inr None"
| "strict_sub key ((k, v) # d) depth =
     (if k = key then
        (if key = ''properties'' then
           (case v of JObj p \<Rightarrow> bindr (strict_fields p depth) (\<lambda>p'. Inr (Some (JObj p')))
            | _ \<Rightarrow> raise (OtherError ''AttributeError'') ''items'')
         else bindr (strict_schema v (Suc depth)) (\<lambda>v'. Inr (Some v')))
      else strict_sub key d depth)"

definition tool_definition :: "string \<Rightarrow> string \<Rightarrow> json \<Rightarrow> json res" where
  "tool_definition name description schema =
     bindr (strict_schema schema 0) (\<lambda>s.
       Inr (JObj [(''name'', JStr name), (''description'', JStr description), (''strict'', JBool True),
                  (''input_schema'', s)]))"

definition tools_completion_body ::
  "fields \<Rightarrow> string \<Rightarrow> string \<Rightarrow> json \<Rightarrow> json \<Rightarrow> int \<Rightarrow> fields res" where
  "tools_completion_body cfg model system messages tools max_tokens =
     bindr (planner_protocol cfg) (\<lambda>protocol.
       if protocol \<noteq> ''tools'' then raise ValueError ''Tool-use body requires protocol tools''
       else bindr (effort_of cfg) (\<lambda>effort.
         Inr ([(''model'', JStr model), (''max_tokens'', JInt (max max_tokens ANTHROPIC_MIN_MAX_TOKENS)),
               (''system'', system_block system), (''tools'', tools), (''tool_choice'', TOOL_CHOICE),
               (''messages'', messages)] @ effort_fields effort)))"

text \<open>\<^verbatim>\<open>headers\<close>; \<open>secret\<close> is what the resolver returns for \<^verbatim>\<open>key_env\<close>.\<close>

definition headers :: "fields \<Rightarrow> string res \<Rightarrow> (string \<times> string) list res" where
  "headers cfg secret =
     bindr (provider cfg) (\<lambda>name. bindr (local_mode cfg) (\<lambda>loopback.
       let keyless = loopback \<and> \<not> truthy (jget cfg ''key_env'') in
       if name = ''anthropic'' then
         (if keyless then Inr [(''anthropic-version'', ANTHROPIC_VERSION)]
          else bindr secret (\<lambda>k. Inr [(''x-api-key'', k), (''anthropic-version'', ANTHROPIC_VERSION)]))
       else if keyless then Inr []
       else bindr secret (\<lambda>k. Inr [(''Authorization'', ''Bearer '' @ k)])))"

section \<open>The retry loop is bounded\<close>

text \<open>The same loop on attempts that are counted.\<close>

definition counted :: "(nat \<Rightarrow> 'w \<Rightarrow> (raised + 'a) \<times> 'w) \<Rightarrow> nat \<Rightarrow> nat \<times> 'w \<Rightarrow> (raised + 'a) \<times> nat \<times> 'w" where
  "counted attempt i w = (let (r, w') = attempt i (snd w) in (r, Suc (fst w), w'))"

definition counted_clock :: "'w clockwork \<Rightarrow> (nat \<times> 'w) clockwork" where
  "counted_clock cw = \<lparr>cw_now = (\<lambda>w. cw_now cw (snd w)),
     cw_sleep = (\<lambda>t w. (fst w, cw_sleep cw t (snd w))), cw_jitter = (\<lambda>w. cw_jitter cw (snd w))\<rparr>"

lemma counted_eq:
  "counted attempt i (m, w) = (case attempt i w of (r, w') \<Rightarrow> (r, Suc m, w'))"
  "cw_now (counted_clock cw) (m, w) = cw_now cw w"
  "cw_sleep (counted_clock cw) t (m, w) = (m, cw_sleep cw t w)"
  "cw_jitter (counted_clock cw) (m, w) = cw_jitter cw w"
  by (simp_all add: counted_def counted_clock_def)

lemma retry_loop_counted:
  "index < MAX_MODEL_ATTEMPTS \<Longrightarrow>
   retry_loop fl (counted_clock cw) (counted attempt) timeout deadline started index (m, w) = (r, n, w') \<Longrightarrow>
     retry_loop fl cw attempt timeout deadline started index w = (r, w')
     \<and> m < n \<and> n + index \<le> m + MAX_MODEL_ATTEMPTS"
proof (induction fl cw attempt timeout deadline started index w arbitrary: m rule: retry_loop.induct)
  case (1 fl cw attempt timeout deadline started index w)
  obtain q w1 where a: "attempt index w = (q, w1)" by fastforce
  note eqs = retry_loop.simps[of fl "counted_clock cw" "counted attempt" timeout deadline started
      index "(m, w)"] retry_loop.simps[of fl cw attempt timeout deadline started index w]
  show ?case
  proof (cases q)
    case (Inr x)
    with a "1.prems" show ?thesis by (auto simp: eqs counted_eq)
  next
    case (Inl exc)
    show ?thesis
    proof (cases "classify fl exc")
      case None
      with a Inl "1.prems" show ?thesis by (auto simp: eqs counted_eq)
    next
      case (Some f)
      show ?thesis
      proof (cases "MAX_MODEL_ATTEMPTS \<le> index + 1 \<or> retry_wait f index (cw_jitter cw w1) = None
          \<or> cw_now cw w1 - started + the (retry_wait f index (cw_jitter cw w1)) + timeout > deadline")
        case True
        with a Inl Some "1.prems" show ?thesis
          by (auto simp: eqs counted_eq split: option.splits if_split_asm)
      next
        case False
        then obtain t where t: "retry_wait f index (cw_jitter cw w1) = Some t" by auto
        have rest: "retry_loop fl (counted_clock cw) (counted attempt) timeout deadline started
            (Suc index) (Suc m, cw_sleep cw t w1) = (r, n, w')"
          using "1.prems" a Inl Some False t by (simp add: eqs counted_eq)
        have "retry_loop fl cw attempt timeout deadline started (Suc index) (cw_sleep cw t w1) = (r, w')
          \<and> Suc m < n \<and> n + Suc index \<le> Suc m + MAX_MODEL_ATTEMPTS"
          by (rule "1.IH"[OF a[symmetric] Inl Some _ t _ _ rest]) (use False t in auto)
        with a Inl Some False t show ?thesis by (simp add: eqs)
      qed
    qed
  qed
qed

end
