(* ===== verification/Metered_Call.thy ===== *)
theory Metered_Call
  imports Budget_Props Model_Transport
begin

text \<open>
  One metered provider call (\<^verbatim>\<open>usage_budget.metered_completion\<close>): up to three attempts, each
  reserving, dispatching and closing its own reservation. The provider is an argument: the outcome
  and the duration of its n-th answer. The budget operations of one decision run one after the
  other on the ledger; interleavings with other transactions are steps of \<open>budget_step\<close>.
\<close>

section \<open>Receipts as JSON\<close>

definition json_amount :: "json \<Rightarrow> int res" where
  "json_amount v = (case v of JInt n \<Rightarrow> amount True n
     | _ \<Rightarrow> raise ValueError ''Bounded integer microunits required'')"

definition json_token_cost :: "json \<Rightarrow> json \<Rightarrow> fields \<Rightarrow> int res" where
  "json_token_cost input output pricing =
     (case input of
        JInt i \<Rightarrow> (case output of
            JInt n \<Rightarrow>
              if \<not> (0 \<le> i \<and> i \<le> 10 ^ 8) \<or> \<not> (0 \<le> n \<and> n \<le> 10 ^ 8)
                then raise ValueError ''Invalid provider token usage''
              else bindr (json_amount (jget pricing ''input_micro_per_million'')) (\<lambda>ri.
                bindr (json_amount (jget pricing ''output_micro_per_million'')) (\<lambda>ro.
                  token_cost i n ri ro))
          | _ \<Rightarrow> raise ValueError ''Invalid provider token usage'')
      | _ \<Rightarrow> raise ValueError ''Invalid provider token usage'')"

definition receipt_cost :: "json \<Rightarrow> string \<Rightarrow> fields \<Rightarrow> int res" where
  "receipt_cost response name pricing =
     (case obj_get response ''usage'' of
        Some (JObj usage) \<Rightarrow>
          bindr (provider_tokens usage name) (\<lambda>(i, n). json_token_cost i n pricing)
      | _ \<Rightarrow> raise ValueError ''Model usage receipt missing'')"

section \<open>The world of one decision\<close>

record mworld =
  mw_db :: db
  mw_time :: rat
  mw_calls :: nat

text \<open>The provider and the clocks: the n-th answer with its duration, the wall clock of an instant
  and the random numbers of the waits.\<close>

record provider_env =
  pv_answer :: "nat \<Rightarrow> (raised + json) \<times> rat"
  pv_wall :: "rat \<Rightarrow> int"
  pv_jitter :: "nat \<Rightarrow> rat"
  pv_float :: "string \<Rightarrow> pyfloat option"

definition meter_clock :: "provider_env \<Rightarrow> mworld clockwork" where
  "meter_clock pv = \<lparr>cw_now = mw_time, cw_sleep = (\<lambda>t w. w\<lparr>mw_time := mw_time w + t\<rparr>),
     cw_jitter = (\<lambda>w. pv_jitter pv (mw_calls w))\<rparr>"

type_synonym 'a act = "mworld \<Rightarrow> (raised + 'a) \<times> mworld"

definition bindw :: "'a act \<Rightarrow> ('a \<Rightarrow> 'b act) \<Rightarrow> 'b act" where
  "bindw m f w = (case m w of (Inl x, w') \<Rightarrow> (Inl x, w') | (Inr a, w') \<Rightarrow> f a w')"

text \<open>One ledger transaction: an exception rolls it back.\<close>

definition run_db :: "provider_env \<Rightarrow> (int \<Rightarrow> db \<Rightarrow> db res) \<Rightarrow> unit act" where
  "run_db pv op w = (case op (pv_wall pv (mw_time w)) (mw_db w) of
     Inl x \<Rightarrow> (Inl (Plain x), w) | Inr d \<Rightarrow> (Inr (), w\<lparr>mw_db := d\<rparr>))"

definition run_reserve :: "provider_env \<Rightarrow> (int \<Rightarrow> db \<Rightarrow> (string \<times> db) res) \<Rightarrow> string act" where
  "run_reserve pv op w = (case op (pv_wall pv (mw_time w)) (mw_db w) of
     Inl x \<Rightarrow> (Inl (Plain x), w) | Inr (rid, d) \<Rightarrow> (Inr rid, w\<lparr>mw_db := d\<rparr>))"

definition call_provider :: "provider_env \<Rightarrow> (raised + json) act" where
  "call_provider pv w = (case pv_answer pv (mw_calls w) of
     (r, t) \<Rightarrow> (Inr r, w\<lparr>mw_calls := Suc (mw_calls w), mw_time := mw_time w + t\<rparr>))"

definition fail_with :: "raised \<Rightarrow> 'a act" where
  "fail_with x w = (Inl x, w)"

definition pure :: "'a \<Rightarrow> 'a act" where
  "pure a w = (Inr a, w)"

definition meter_failed :: raised where
  "meter_failed = Plain (Exn RuntimeError
     ''Metered model call failed or usage unavailable; reconciliation required'')"

text \<open>What a failed call means for its reservation.\<close>

definition close_failed :: "provider_env \<Rightarrow> string \<Rightarrow> string \<Rightarrow> raised \<Rightarrow> json act" where
  "close_failed pv tenant rid exc =
     (case classify (pv_float pv) exc of
        None \<Rightarrow> bindw (run_db pv (\<lambda>now. uncertain now tenant rid)) (\<lambda>_. fail_with meter_failed)
      | Some f \<Rightarrow> (case failure_reason f of
            Some reason \<Rightarrow>
              bindw (run_db pv (\<lambda>now. release now tenant rid reason)) (\<lambda>_. fail_with exc)
          | None \<Rightarrow> bindw (run_db pv (\<lambda>now. uncertain now tenant rid)) (\<lambda>_. fail_with exc)))"

definition close_answered ::
  "provider_env \<Rightarrow> string \<Rightarrow> string \<Rightarrow> fields \<Rightarrow> string \<Rightarrow> json \<Rightarrow> json act" where
  "close_answered pv tenant name pricing rid response =
     (case receipt_cost response name pricing of
        Inl _ \<Rightarrow> bindw (run_db pv (\<lambda>now. uncertain now tenant rid)) (\<lambda>_. fail_with meter_failed)
      | Inr cost \<Rightarrow> bindw (run_db pv (\<lambda>now. settle now tenant rid cost)) (\<lambda>_. pure response))"

definition attempt_key :: "string \<Rightarrow> nat \<Rightarrow> string" where
  "attempt_key key index = (if index = 0 then key else key @ ''#retry'' @ show_nat index)"

definition metered_attempt ::
  "env \<Rightarrow> provider_env \<Rightarrow> string \<Rightarrow> string \<Rightarrow> fields \<Rightarrow> string \<Rightarrow> string \<Rightarrow> int \<Rightarrow> string
     \<Rightarrow> nat \<Rightarrow> json act" where
  "metered_attempt e pv tenant name pricing key fingerprint estimate currency index =
     bindw (run_reserve pv (\<lambda>now.
         reserve e now tenant (attempt_key key index) fingerprint estimate currency)) (\<lambda>rid.
       bindw (run_db pv (\<lambda>now. dispatch e now tenant rid)) (\<lambda>_.
         bindw (call_provider pv) (\<lambda>r.
           case r of
             Inl exc \<Rightarrow> close_failed pv tenant rid exc
           | Inr response \<Rightarrow> close_answered pv tenant name pricing rid response)))"

text \<open>The attempt without a price list: the answer as it comes.\<close>

definition bare_attempt :: "provider_env \<Rightarrow> nat \<Rightarrow> json act" where
  "bare_attempt pv index =
     bindw (call_provider pv) (\<lambda>r. case r of Inl exc \<Rightarrow> fail_with exc | Inr v \<Rightarrow> pure v)"

definition PRICING_KEYS :: "string list" where
  "PRICING_KEYS = [''currency'', ''input_micro_per_million'', ''output_micro_per_million'']"

text \<open>The prices, and what one attempt reserves: its estimate and the digest of the request.\<close>

definition metered_plan ::
  "env \<Rightarrow> fields \<Rightarrow> string \<Rightarrow> fields \<Rightarrow> (string \<times> int \<times> string) res" where
  "metered_plan e pricing url body =
     bindr (encode (JObj body)) (\<lambda>sent.
       bindr (case map_of body ''max_tokens'' of None \<Rightarrow> raise KeyError ''max_tokens'' | Some m \<Rightarrow> Inr m)
         (\<lambda>most. bindr (json_token_cost (JInt (int (utf8_length sent) + 4096)) most pricing) (\<lambda>estimate.
           bindr (digest e (JObj [(''url'', JStr url), (''body'', JObj body), (''pricing'', JObj pricing)]))
             (\<lambda>fp. Inr (fp, estimate, the_str (jget pricing ''currency''))))))"

definition lift_res :: "'a res \<Rightarrow> 'a act" where
  "lift_res r w = (case r of Inl x \<Rightarrow> (Inl (Plain x), w) | Inr a \<Rightarrow> (Inr a, w))"

definition draw_key :: "env \<Rightarrow> string option \<Rightarrow> string act" where
  "draw_key e request_key w = (case request_key of
      Some k \<Rightarrow> (if k \<noteq> [] then (Inr k, w)
        else (Inr (''model:'' @ fresh e (mw_db w)), w\<lparr>mw_db := drawn (mw_db w)\<rparr>))
    | None \<Rightarrow> (Inr (''model:'' @ fresh e (mw_db w)), w\<lparr>mw_db := drawn (mw_db w)\<rparr>))"

definition metered_completion ::
  "env \<Rightarrow> provider_env \<Rightarrow> string \<Rightarrow> fields \<Rightarrow> string \<Rightarrow> url_parts \<Rightarrow> fields \<Rightarrow> string option
     \<Rightarrow> rat option \<Rightarrow> rat option \<Rightarrow> json act" where
  "metered_completion e pv tenant cfg url parts body request_key timeout deadline =
     bindw (lift_res (validate_url cfg parts)) (\<lambda>_.
     bindw (lift_res (provider cfg)) (\<lambda>name.
     bindw (lift_res (case map_of cfg ''usage_budget_required'' of
         None \<Rightarrow> Inr False
       | Some (JBool b) \<Rightarrow> Inr b
       | Some _ \<Rightarrow> raise ValueError ''usage_budget_required must be boolean'')) (\<lambda>required.
     bindw (lift_res (case timeout of
         Some t \<Rightarrow> Inr t | None \<Rightarrow> bindr (model_timeout cfg) (\<lambda>t. Inr (of_int t)))) (\<lambda>seconds.
     let retrying = (\<lambda>attempt. with_retries (pv_float pv) (meter_clock pv) attempt seconds
           (case deadline of None \<Rightarrow> MODEL_CALL_DEADLINE_SECONDS | Some d \<Rightarrow> d)) in
     case jget cfg ''usage_budget'' of
       JNull \<Rightarrow>
         if required then fail_with (Plain (Exn Forbidden ''Model usage budget configuration required''))
         else retrying (bare_attempt pv)
     | JObj pricing \<Rightarrow>
         if set (jkeys pricing) \<noteq> set PRICING_KEYS
           then fail_with (Plain (Exn ValueError ''Explicit model pricing required''))
         else bindw (lift_res (metered_plan e pricing url body)) (\<lambda>(fp, estimate, currency).
           bindw (draw_key e request_key) (\<lambda>key.
             retrying (metered_attempt e pv tenant name pricing key fp estimate currency)))
     | _ \<Rightarrow> fail_with (Plain (Exn ValueError ''Explicit model pricing required''))))))"

section \<open>The retry loop keeps what its attempts keep\<close>

lemma retry_loop_keeps:
  assumes fail: "\<And>i w x w'. P w \<Longrightarrow> attempt i w = (Inl x, w') \<Longrightarrow> P w'"
    and good: "\<And>i w a w'. P w \<Longrightarrow> attempt i w = (Inr a, w') \<Longrightarrow> Q a w'"
    and sleep: "\<And>t w. P w \<Longrightarrow> P (cw_sleep cw t w)"
  shows "P w \<Longrightarrow> retry_loop fl cw attempt timeout deadline started index w = (r, w') \<Longrightarrow>
    (case r of Inl _ \<Rightarrow> P w' | Inr a \<Rightarrow> Q a w')"
  using fail good sleep
proof (induction fl cw attempt timeout deadline started index w rule: retry_loop.induct)
  case (1 fl cw attempt timeout deadline started index w)
  obtain q w1 where a: "attempt index w = (q, w1)" by fastforce
  note eq = retry_loop.simps[of fl cw attempt timeout deadline started index w]
  show ?case
  proof (cases q)
    case (Inr x)
    have "Q x w1" using "1.prems"(4)[OF "1.prems"(1) a[unfolded Inr]] .
    with "1.prems"(2) a Inr show ?thesis by (auto simp: eq)
  next
    case (Inl exc)
    have w1: "P w1" using "1.prems"(3)[OF "1.prems"(1) a[unfolded Inl]] .
    show ?thesis
    proof (cases "classify fl exc")
      case None
      with "1.prems"(2) a Inl w1 show ?thesis by (auto simp: eq)
    next
      case (Some f)
      show ?thesis
      proof (cases "MAX_MODEL_ATTEMPTS \<le> index + 1 \<or> retry_wait f index (cw_jitter cw w1) = None
          \<or> cw_now cw w1 - started + the (retry_wait f index (cw_jitter cw w1)) + timeout > deadline")
        case True
        with "1.prems"(2) a Inl Some w1 show ?thesis
          by (auto simp: eq split: option.splits if_split_asm)
      next
        case False
        then obtain t where t: "retry_wait f index (cw_jitter cw w1) = Some t" by auto
        have rest: "retry_loop fl cw attempt timeout deadline started (Suc index) (cw_sleep cw t w1) = (r, w')"
          using "1.prems"(2) a Inl Some False t by (simp add: eq)
        show ?thesis
          by (rule "1.IH"[OF a[symmetric] Inl Some _ t _ "1.prems"(5)[OF w1] rest])
            (use False t "1.prems"(3,4,5) in auto)
      qed
    qed
  qed
qed

section \<open>What a decision pays\<close>

definition paid_amount :: "string \<Rightarrow> reservation_row \<Rightarrow> int" where
  "paid_amount tenant b =
     (if b_tenant b = tenant then case b_actual b of None \<Rightarrow> 0 | Some a \<Rightarrow> a else 0)"

definition paid :: "string \<Rightarrow> db \<Rightarrow> int" where
  "paid tenant s = total (paid_amount tenant) s"

lemma paid_closes:
  assumes "closes e s t row actual status" and "ledger s"
  shows "paid (b_tenant row) t = paid (b_tenant row) s + actual"
proof -
  from assms(1) obtain now actor detail where
    u: "reservations t = reservations (settle_row now (b_tenant row) row actual status actor detail s)"
    and row: "row \<in> set (reservations s)" "holds row"
    by (auto simp: closes_def)
  have "b_actual row = None" using row assms(2) by (simp add: ledger_def row_ok_def)
  then show ?thesis
    using total_settle_row[OF assms(2) row(1), of "paid_amount (b_tenant row)" now actual status actor detail]
    by (simp add: paid_def total_cong[OF u] paid_amount_def)
qed

lemma paid_map:
  assumes "reservations t = map f (reservations s) @ new"
    and "\<And>b. b \<in> set (reservations s) \<Longrightarrow> b_tenant (f b) = b_tenant b \<and> b_actual (f b) = b_actual b"
    and "\<And>b. b \<in> set new \<Longrightarrow> b_actual b = None"
  shows "paid tenant t = paid tenant s"
proof -
  have "\<forall>b \<in> set new. b_actual b = None" using assms(3) by blast
  then have "sum_list (map (paid_amount tenant) new) = 0"
    by (induction new) (auto simp: paid_amount_def)
  moreover have "map (paid_amount tenant \<circ> f) (reservations s) = map (paid_amount tenant) (reservations s)"
    using assms(2) by (simp add: paid_amount_def)
  ultimately show ?thesis
    by (simp only: paid_def total_def assms(1) map_append map_map sum_list_append)
qed

lemma reserve_paid:
  assumes "reserve e now tenant key fp est currency s = Inr (rid, t)" and "ledger s"
  shows "ledger t \<and> paid p t = paid p s"
proof
  show "ledger t" by (rule ledger_step[OF reserved[OF assms(1)] assms(2)])
  from assms(1) show "paid p t = paid p s"
  proof (cases rule: reserveE)
    case (new g full)
    from new(8) have "reservations t = map (expire_row now tenant) (reservations s)
        @ [new_reservation now tenant rid key full (period now) est]"
      by (rule admitE) (simp add: expire_slots_rows[OF assms(2)])
    then show ?thesis
      by (rule paid_map) (auto simp: expire_row_def new_reservation_def)
  qed simp
qed

lemma dispatch_paid:
  assumes "dispatch e now tenant rid s = Inr t" and "ledger s"
  shows "ledger t \<and> paid p t = paid p s
    \<and> (\<exists>row. budget_row t tenant rid = Inr row \<and> b_status row = BDispatching)"
proof -
  from assms(1) obtain row g c where row: "row \<in> set (reservations s)" "b_tenant row = tenant"
    "b_id row = rid" and t: "t = audit now tenant [] ''budget.dispatched'' ''budget'' [(''id'', JStr rid)]
       (set_row tenant rid (\<lambda>b. b\<lparr>b_status := BDispatching, b_updated := now\<rparr>)
         (expire_slots now tenant s))"
    by (rule dispatchE)
  let ?d = "\<lambda>b. b\<lparr>b_status := BDispatching, b_updated := now\<rparr>"
  let ?u = "expire_slots now tenant s"
  have res: "reservations t = upd_where (is_row tenant rid) ?d (reservations ?u)" by (simp add: t)
  have "\<exists>x \<in> set (reservations ?u). is_row tenant rid x"
    using row by (intro bexI[of _ "expire_row now tenant row"])
      (auto simp: expire_slots_rows[OF assms(2)] is_row_def expire_row_def)
  then obtain y where y: "find (is_row tenant rid) (reservations ?u) = Some y"
    using find_None_mem by fastforce
  have "find (is_row tenant rid) (reservations t) = Some (?d y)"
    unfolding res by (subst find_upd_where) (use y find_Some_mem[OF y] in \<open>auto simp: is_row_def\<close>)
  then have "budget_row t tenant rid = Inr (?d y)" by (simp add: budget_row_def)
  moreover have "reservations t =
      map (\<lambda>b. if is_row tenant rid (expire_row now tenant b) then ?d (expire_row now tenant b)
        else expire_row now tenant b) (reservations s) @ []"
    by (simp add: res upd_where_def expire_slots_rows[OF assms(2)])
  then have "paid p t = paid p s"
    by (rule paid_map) (auto simp: expire_row_def)
  moreover have "ledger t" by (rule ledger_step[OF dispatched[OF assms(1)] assms(2)])
  ultimately show ?thesis by fastforce
qed

lemma uncertain_paid:
  assumes "uncertain now tenant rid s = Inr t" and "ledger s"
  shows "ledger t \<and> paid p t = paid p s"
proof
  show "ledger t" by (rule ledger_step[OF left_uncertain[OF assms(1)] assms(2)])
  from assms(1) show "paid p t = paid p s"
  proof (cases rule: uncertainE)
    case (2 row)
    then have "reservations t = map (\<lambda>b. if is_row tenant rid b
        then b\<lparr>b_status := BUncertain, b_updated := now\<rparr> else b) (reservations s) @ []"
      by (simp add: upd_where_def)
    then show ?thesis by (rule paid_map) auto
  qed simp
qed

lemma closes_other:
  assumes "closes e s t row actual status" and "p \<noteq> b_tenant row" and "ledger s"
  shows "paid p t = paid p s"
proof -
  from assms(1) obtain now actor detail where
    u: "reservations t = reservations (settle_row now (b_tenant row) row actual status actor detail s)"
    and row: "row \<in> set (reservations s)" by (auto simp: closes_def)
  show ?thesis
    using total_settle_row[OF assms(3) row, of "paid_amount p" now actual status actor detail] assms(2)
    by (simp add: paid_def total_cong[OF u] paid_amount_def)
qed

lemma release_paid:
  assumes "release now tenant rid reason s = Inr t" and "ledger s"
  shows "ledger t \<and> paid p t = paid p s"
proof
  show "ledger t" using assms ledger_step released by blast
  consider "t = s" | row where "closes undefined s t row 0 BReleased"
    using release_closes[OF assms(1)] by metis
  then show "paid p t = paid p s"
  proof cases
    case (2 row)
    then show ?thesis
      using paid_closes[OF 2 assms(2)] closes_other[OF 2 _ assms(2)] by (cases "p = b_tenant row") auto
  qed simp
qed

lemma settle_paid:
  assumes "settle now tenant rid cost s = Inr t" and "ledger s"
    and "budget_row s tenant rid = Inr row" and "b_status row = BDispatching"
  shows "ledger t \<and> paid tenant t = paid tenant s + cost"
proof
  show "ledger t" using assms(1,2) ledger_step settled by blast
  have "closes undefined s t row cost BSettled"
    using assms budget_row_Inr[OF assms(3)] amount_Inr
    by (fastforce simp: settle_def bindr_Inr closes_def holds_def HELD_def)
  from paid_closes[OF this assms(2)] show "paid tenant t = paid tenant s + cost"
    using budget_row_Inr[OF assms(3)] by simp
qed

lemma bindw_result:
  "bindw m f w = (r, w') \<longleftrightarrow>
     (\<exists>x. m w = (Inl x, w') \<and> r = Inl x) \<or> (\<exists>a w1. m w = (Inr a, w1) \<and> f a w1 = (r, w'))"
  by (auto simp: bindw_def split: prod.splits sum.splits)

lemma run_db_result:
  "run_db pv op w = (Inr u, w') \<longleftrightarrow>
     (\<exists>d. op (pv_wall pv (mw_time w)) (mw_db w) = Inr d \<and> w' = w\<lparr>mw_db := d\<rparr>)"
  "run_db pv op w = (Inl x, w') \<Longrightarrow> w' = w"
  by (auto simp: run_db_def split: sum.splits)

lemma run_reserve_result:
  "run_reserve pv op w = (Inr rid, w') \<longleftrightarrow>
     (\<exists>d. op (pv_wall pv (mw_time w)) (mw_db w) = Inr (rid, d) \<and> w' = w\<lparr>mw_db := d\<rparr>)"
  "run_reserve pv op w = (Inl x, w') \<Longrightarrow> w' = w"
  by (auto simp: run_reserve_def split: sum.splits)

definition receipt :: "string \<Rightarrow> fields \<Rightarrow> json \<Rightarrow> int" where
  "receipt name pricing response =
     (case receipt_cost response name pricing of Inl _ \<Rightarrow> 0 | Inr c \<Rightarrow> c)"

lemma close_failed_paid:
  assumes "close_failed pv tenant rid exc w = (r, w')" and "ledger (mw_db w)"
  shows "(\<exists>x. r = Inl x) \<and> ledger (mw_db w') \<and> paid p (mw_db w') = paid p (mw_db w)"
proof (cases "classify (pv_float pv) exc")
  case None
  with assms show ?thesis
    by (auto simp: close_failed_def bindw_result fail_with_def run_db_result dest: uncertain_paid run_db_result(2))
next
  case (Some f)
  show ?thesis
  proof (cases "failure_reason f")
    case None
    with Some assms show ?thesis
      by (auto simp: close_failed_def bindw_result fail_with_def run_db_result dest: uncertain_paid run_db_result(2))
  next
    case (Some reason)
    with \<open>classify (pv_float pv) exc = Some f\<close> assms show ?thesis
      by (auto simp: close_failed_def bindw_result fail_with_def run_db_result dest: release_paid run_db_result(2))
  qed
qed

lemma close_answered_paid:
  assumes "close_answered pv tenant name pricing rid response w = (r, w')" and l: "ledger (mw_db w)"
    and row: "budget_row (mw_db w) tenant rid = Inr row" "b_status row = BDispatching"
  shows "ledger (mw_db w') \<and> (case r of Inl _ \<Rightarrow> paid tenant (mw_db w') = paid tenant (mw_db w)
    | Inr a \<Rightarrow> a = response \<and> is_ok (receipt_cost response name pricing)
        \<and> paid tenant (mw_db w') = paid tenant (mw_db w) + receipt name pricing response)"
proof (cases "receipt_cost response name pricing")
  case (Inl x)
  with assms(1) l show ?thesis
    by (auto simp: close_answered_def bindw_result fail_with_def run_db_result dest: uncertain_paid run_db_result(2))
next
  case (Inr c)
  with assms(1) l show ?thesis
    by (auto simp: close_answered_def bindw_result pure_def run_db_result receipt_def
        dest: settle_paid[OF _ l row] run_db_result(2))
qed

lemma metered_attempt_paid:
  assumes "metered_attempt e pv tenant name pricing key fp est cur i w = (r, w')"
    and "ledger (mw_db w)"
  shows "ledger (mw_db w') \<and> (case r of Inl _ \<Rightarrow> paid tenant (mw_db w') = paid tenant (mw_db w)
    | Inr a \<Rightarrow> is_ok (receipt_cost a name pricing)
        \<and> paid tenant (mw_db w') = paid tenant (mw_db w) + receipt name pricing a)"
proof -
  note run = assms(1)[unfolded metered_attempt_def bindw_result]
  show ?thesis
    using run
  proof (elim disjE exE conjE)
    fix x assume "run_reserve pv (\<lambda>now. reserve e now tenant (attempt_key key i) fp est cur) w = (Inl x, w')"
      and "r = Inl x"
    then show ?thesis using assms(2) by (auto dest: run_reserve_result(2))
  next
    fix rid w1 x
    assume 1: "run_reserve pv (\<lambda>now. reserve e now tenant (attempt_key key i) fp est cur) w = (Inr rid, w1)"
      and 2: "run_db pv (\<lambda>now. dispatch e now tenant rid) w1 = (Inl x, w')" "r = Inl x"
    from 1 obtain now d where "reserve e now tenant (attempt_key key i) fp est cur (mw_db w) = Inr (rid, d)"
      "w1 = w\<lparr>mw_db := d\<rparr>" by (auto simp: run_reserve_result)
    with 2 reserve_paid[OF this(1) assms(2)] show ?thesis by (auto dest: run_db_result(2))
  next
    fix rid w1 u w2 x
    assume "call_provider pv w2 = (Inl x, w')"
    then show ?thesis by (auto simp: call_provider_def split: prod.splits)
  next
    fix rid w1 u w2 a w3
    assume 1: "run_reserve pv (\<lambda>now. reserve e now tenant (attempt_key key i) fp est cur) w = (Inr rid, w1)"
      and 2: "run_db pv (\<lambda>now. dispatch e now tenant rid) w1 = (Inr u, w2)"
      and 3: "call_provider pv w2 = (Inr a, w3)"
      and 4: "(case a of Inl exc \<Rightarrow> close_failed pv tenant rid exc
        | Inr response \<Rightarrow> close_answered pv tenant name pricing rid response) w3 = (r, w')"
    from 1 obtain now d where d: "reserve e now tenant (attempt_key key i) fp est cur (mw_db w) = Inr (rid, d)"
      "w1 = w\<lparr>mw_db := d\<rparr>" by (auto simp: run_reserve_result)
    from 2 d obtain now' d' where d': "dispatch e now' tenant rid d = Inr d'" "mw_db w2 = d'"
      by (auto simp: run_db_result)
    have p1: "ledger d \<and> paid tenant d = paid tenant (mw_db w)" by (rule reserve_paid[OF d(1) assms(2)])
    then have "ledger d' \<and> paid tenant d' = paid tenant d
        \<and> (\<exists>row. budget_row d' tenant rid = Inr row \<and> b_status row = BDispatching)"
      by (intro dispatch_paid[OF d'(1)]) simp
    then obtain row where p2: "ledger d'" "paid tenant d' = paid tenant d"
      "budget_row d' tenant rid = Inr row" "b_status row = BDispatching" by blast
    have w3: "mw_db w3 = d'" using 3 d' by (auto simp: call_provider_def split: prod.splits)
    show ?thesis
    proof (cases a)
      case (Inl exc)
      with 4 close_failed_paid[of pv tenant rid exc w3 r w' tenant] w3 p1 p2 show ?thesis by auto
    next
      case (Inr resp)
      with 4 close_answered_paid[of pv tenant name pricing rid resp w3 r w' row] w3 p1 p2
      show ?thesis by (auto split: sum.splits)
    qed
  qed
qed

lemma lift_res_result:
  "lift_res m w = (Inr a, w') \<longleftrightarrow> m = Inr a \<and> w' = w"
  "lift_res m w = (Inl x, w') \<Longrightarrow> w' = w"
  by (auto simp: lift_res_def split: sum.splits)

lemma draw_key_paid:
  assumes "draw_key e k w = (r, w')"
  shows "(\<exists>key. r = Inr key) \<and> ledger (mw_db w') = ledger (mw_db w)
    \<and> paid p (mw_db w') = paid p (mw_db w)"
  using assms by (auto simp: draw_key_def paid_def total_def split: option.splits if_split_asm)

lemma bare_attempt_keeps: "bare_attempt pv i w = (r, w') \<Longrightarrow> mw_db w' = mw_db w"
  by (auto simp: bare_attempt_def bindw_result call_provider_def fail_with_def pure_def
      split: prod.splits sum.splits)

lemma bare_retries_keep:
  assumes "with_retries fl (meter_clock pv) (bare_attempt pv) t d w = (r, w')"
  shows "mw_db w' = mw_db w"
proof -
  have "case r of Inl _ \<Rightarrow> mw_db w' = mw_db w | Inr a \<Rightarrow> mw_db w' = mw_db w"
    by (rule retry_loop_keeps[where P = "\<lambda>v. mw_db v = mw_db w"
          and Q = "\<lambda>a v. mw_db v = mw_db w", OF _ _ _ _ assms[unfolded with_retries_def]])
      (auto dest: bare_attempt_keeps simp: meter_clock_def)
  then show ?thesis by (cases r) auto
qed

lemma metered_retries_pay:
  assumes "with_retries fl (meter_clock pv) (metered_attempt e pv tenant name pricing key fp est cur) t d w
      = (r, w')" and "ledger (mw_db w)"
  shows "ledger (mw_db w') \<and> paid tenant (mw_db w') = paid tenant (mw_db w)
    + (case r of Inl _ \<Rightarrow> 0 | Inr a \<Rightarrow> receipt name pricing a)"
proof -
  let ?P = "\<lambda>v. ledger (mw_db v) \<and> paid tenant (mw_db v) = paid tenant (mw_db w)"
  let ?Q = "\<lambda>a v. ledger (mw_db v)
    \<and> paid tenant (mw_db v) = paid tenant (mw_db w) + receipt name pricing a"
  have "case r of Inl _ \<Rightarrow> ?P w' | Inr a \<Rightarrow> ?Q a w'"
  proof (rule retry_loop_keeps[where P = ?P and Q = ?Q, OF _ _ _ _ assms(1)[unfolded with_retries_def]])
    show "?P v'" if "?P v" "metered_attempt e pv tenant name pricing key fp est cur i v = (Inl x, v')"
      for i v x v'
      using metered_attempt_paid[OF that(2)] that(1) by simp
    show "?Q a v'" if "?P v" "metered_attempt e pv tenant name pricing key fp est cur i v = (Inr a, v')"
      for i v a v'
      using metered_attempt_paid[OF that(2)] that(1) by simp
    show "?P (cw_sleep (meter_clock pv) s v)" if "?P v" for s v
      using that by (simp add: meter_clock_def)
  qed (use assms(2) in simp)
  then show ?thesis by (cases r) auto
qed

lemma provider_name: "provider cfg = Inr name \<Longrightarrow> name = the_str (jget_or cfg ''provider'' (JStr ''openai''))"
  by (auto simp: provider_def Let_def bindr_Inr split: if_split_asm)

section \<open>Properties\<close>

text \<open>
  C15: a decision is paid for once. Through all its attempts a metered call adds to the tenant's
  settled amounts exactly the priced receipt of the answer it returns, and nothing when it raises,
  whichever attempts failed on the way; the ledger stays balanced throughout. Without a price list
  it leaves the ledger alone.
\<close>

theorem metered_call_pays_its_receipt:
  assumes "ledger (mw_db w)"
    and "metered_completion e pv tenant cfg url parts body key timeout deadline w = (r, w')"
  shows "ledger (mw_db w') \<and> paid tenant (mw_db w') = paid tenant (mw_db w)
    + (case (r, jget cfg ''usage_budget'') of
         (Inr a, JObj pricing) \<Rightarrow>
           receipt (the_str (jget_or cfg ''provider'' (JStr ''openai''))) pricing a
       | _ \<Rightarrow> 0)"
proof -
  have same: ?thesis if "mw_db w' = mw_db w" "\<exists>x. r = Inl x" using that assms(1) by auto
  from assms(2) obtain name required seconds where
    "(\<exists>x. r = Inl x) \<and> w' = w \<or> provider cfg = Inr name \<and>
     (let retrying = (\<lambda>attempt. with_retries (pv_float pv) (meter_clock pv) attempt seconds
           (case deadline of None \<Rightarrow> MODEL_CALL_DEADLINE_SECONDS | Some d \<Rightarrow> d)) in
      case jget cfg ''usage_budget'' of
       JNull \<Rightarrow>
         if required then fail_with (Plain (Exn Forbidden ''Model usage budget configuration required''))
         else retrying (bare_attempt pv)
     | JObj pricing \<Rightarrow>
         if set (jkeys pricing) \<noteq> set PRICING_KEYS
           then fail_with (Plain (Exn ValueError ''Explicit model pricing required''))
         else bindw (lift_res (metered_plan e pricing url body)) (\<lambda>(fp, estimate, currency).
           bindw (draw_key e key) (\<lambda>key.
             retrying (metered_attempt e pv tenant name pricing key fp estimate currency)))
     | _ \<Rightarrow> fail_with (Plain (Exn ValueError ''Explicit model pricing required''))) w = (r, w')"
    unfolding metered_completion_def bindw_result
    by (auto simp: lift_res_result dest!: lift_res_result(2))
  then consider "(\<exists>x. r = Inl x) \<and> w' = w"
    | t d where "jget cfg ''usage_budget'' = JNull"
        "with_retries (pv_float pv) (meter_clock pv) (bare_attempt pv) t d w = (r, w')"
    | pricing fp est cur k w1 t d where "jget cfg ''usage_budget'' = JObj pricing"
        "provider cfg = Inr name" "draw_key e key w = (Inr k, w1)"
        "with_retries (pv_float pv) (meter_clock pv)
           (metered_attempt e pv tenant name pricing k fp est cur) t d w1 = (r, w')"
    using draw_key_paid
    by (auto simp: Let_def fail_with_def bindw_result lift_res_result split: json.splits if_split_asm
        dest!: lift_res_result(2))
      blast+
  then show ?thesis
  proof cases
    case 1
    with same show ?thesis by simp
  next
    case 2
    with bare_retries_keep[OF 2(2)] assms(1) show ?thesis by (auto split: sum.splits)
  next
    case 3
    have k: "ledger (mw_db w1)" "paid tenant (mw_db w1) = paid tenant (mw_db w)"
      using draw_key_paid[OF 3(3)] assms(1) by simp_all
    from metered_retries_pay[OF 3(4) k(1)] k(2) provider_name[OF 3(2)] 3(1)
    show ?thesis by (auto split: sum.splits)
  qed
qed

text \<open>A provider that fails once with a server error and then answers with a receipt.\<close>

definition demo_provider :: provider_env where
  "demo_provider =
     \<lparr>pv_answer = (\<lambda>n. (if n = 0 then Inl (HTTPError 503 None)
         else Inr (JObj [(''usage'', JObj [(''prompt_tokens'', JInt 2000000), (''completion_tokens'', JInt 1)])]),
         5)),
      pv_wall = (\<lambda>t. 10), pv_jitter = (\<lambda>n. 0), pv_float = (\<lambda>t. None)\<rparr>"

definition demo_cfg :: fields where
  "demo_cfg = [(''usage_budget'', JObj [(''currency'', JStr ''USD''),
     (''input_micro_per_million'', JInt 10), (''output_micro_per_million'', JInt 20)])]"

definition demo_parts :: url_parts where
  "demo_parts = \<lparr>url_scheme = ''https'', url_hostname = Some ''api'', url_username = None,
     url_password = None, url_port = None, url_query = [], url_fragment = []\<rparr>"

definition demo_call :: "(raised + json) \<times> mworld" where
  "demo_call = metered_completion (demo_env\<lparr>sha256hex := \<lambda>t. budget_fp\<rparr>) demo_provider ''t'' demo_cfg ''https://api'' demo_parts
     [(''max_tokens'', JInt 100)] (Some ''k'') None None
     \<lparr>mw_db = budget_demo_1, mw_time = 0, mw_calls = 0\<rparr>"

lemma metered_call_pays_its_receipt_witness:
  "(case fst demo_call of Inl _ \<Rightarrow> False | Inr _ \<Rightarrow> True)
    \<and> paid ''t'' (mw_db (snd demo_call)) = paid ''t'' budget_demo_1 + 21"
proof -
  have ok: "(case fst demo_call of Inl _ \<Rightarrow> False
      | Inr a \<Rightarrow> receipt ''openai'' (obj_fields (jget demo_cfg ''usage_budget'')) a = 21)"
    by code_simp
  have l: "ledger budget_demo_1"
    by (rule ledger_steps[OF budget_demo_steps(1) ledger_empty]) (simp_all add: empty_db_def)
  obtain r w' where r: "demo_call = (r, w')" by fastforce
  from ok have "(case r of Inl _ \<Rightarrow> False
      | Inr a \<Rightarrow> receipt ''openai'' (obj_fields (jget demo_cfg ''usage_budget'')) a = 21)"
    unfolding r fst_conv .
  then obtain a where a: "r = Inr a"
    "receipt ''openai'' (obj_fields (jget demo_cfg ''usage_budget'')) a = 21"
    by (cases r) auto
  have "paid ''t'' (mw_db w') = paid ''t'' budget_demo_1
    + (case (r, jget demo_cfg ''usage_budget'') of
         (Inr a, JObj pricing) \<Rightarrow>
           receipt (the_str (jget_or demo_cfg ''provider'' (JStr ''openai''))) pricing a
       | _ \<Rightarrow> 0)"
    using metered_call_pays_its_receipt[OF _ r[unfolded demo_call_def]] l by simp
  with a show ?thesis
    unfolding r fst_conv snd_conv by (simp add: demo_cfg_def jget_def jget_or_def obj_fields_def)
qed

end
