(* ===== verification/Transport_Props.thy ===== *)
theory Transport_Props
  imports Model_Transport
begin

text \<open>
  What the retry loop and the strict schema projection guarantee: at most three attempts, all of
  them within the deadline, and a projection that is closed at every object.
\<close>

section \<open>Time\<close>

text \<open>A sleep takes the time asked for; an attempt at most its timeout.\<close>

definition timely :: "'w clockwork \<Rightarrow> (nat \<Rightarrow> 'w \<Rightarrow> (raised + 'a) \<times> 'w) \<Rightarrow> rat \<Rightarrow> bool" where
  "timely cw attempt timeout \<longleftrightarrow>
     (\<forall>t w. cw_now cw (cw_sleep cw t w) = cw_now cw w + t)
     \<and> (\<forall>i w. cw_now cw (snd (attempt i w)) \<le> cw_now cw w + timeout)"

lemma retry_loop_time:
  "timely cw attempt timeout \<Longrightarrow> cw_now cw w - started + timeout \<le> bound \<Longrightarrow> deadline \<le> bound \<Longrightarrow>
     cw_now cw (snd (retry_loop fl cw attempt timeout deadline started index w)) - started \<le> bound"
proof (induction fl cw attempt timeout deadline started index w rule: retry_loop.induct)
  case (1 fl cw attempt timeout deadline started index w)
  obtain q w1 where a: "attempt index w = (q, w1)" by fastforce
  have w1: "cw_now cw w1 - started \<le> bound"
    using "1.prems"(1,2) a unfolding timely_def by (metis add_diff_eq diff_add_eq diff_right_mono dual_order.trans snd_conv)
  note eq = retry_loop.simps[of fl cw attempt timeout deadline started index w]
  show ?case
  proof (cases q)
    case (Inr x)
    with a w1 show ?thesis by (simp add: eq)
  next
    case (Inl exc)
    show ?thesis
    proof (cases "classify fl exc")
      case None
      with a w1 Inl show ?thesis by (simp add: eq)
    next
      case (Some f)
      show ?thesis
      proof (cases "MAX_MODEL_ATTEMPTS \<le> index + 1 \<or> retry_wait f index (cw_jitter cw w1) = None
          \<or> cw_now cw w1 - started + the (retry_wait f index (cw_jitter cw w1)) + timeout > deadline")
        case True
        with a w1 Inl Some show ?thesis by (auto simp: eq split: option.splits)
      next
        case False
        then obtain t where t: "retry_wait f index (cw_jitter cw w1) = Some t" by auto
        have "cw_now cw (cw_sleep cw t w1) - started + timeout \<le> bound"
          using "1.prems"(1,3) False t unfolding timely_def by simp
        then have "cw_now cw (snd (retry_loop fl cw attempt timeout deadline started (Suc index)
            (cw_sleep cw t w1))) - started \<le> bound"
          by (intro "1.IH"[OF a[symmetric] Inl Some _ t]) (use False t "1.prems" in auto)
        with a Inl Some False t show ?thesis by (simp add: eq)
      qed
    qed
  qed
qed

text \<open>
  A model call ends in time. If a sleep lasts what it was asked to and an attempt no longer than
  its timeout, the whole call, with all its attempts and waits, takes at most the deadline, or one
  timeout where that is longer.
\<close>

theorem retries_end_in_time:
  assumes "timely cw attempt timeout"
  shows "cw_now cw (snd (with_retries fl cw attempt timeout deadline w)) - cw_now cw w
     \<le> max timeout deadline"
  unfolding with_retries_def by (rule retry_loop_time[OF assms]) simp_all

text \<open>
  C16: at most three attempts. Counting the attempts of a call does not change it, it makes at least
  one and at most three, and what it returns or raises is what the uncounted call does.
\<close>

theorem retries_are_bounded:
  "\<exists>n. fst (with_retries fl (counted_clock cw) (counted attempt) timeout deadline (0, w))
          = fst (with_retries fl cw attempt timeout deadline w)
     \<and> snd (with_retries fl (counted_clock cw) (counted attempt) timeout deadline (0, w))
          = (n, snd (with_retries fl cw attempt timeout deadline w))
     \<and> 1 \<le> n \<and> n \<le> 3"
proof -
  obtain r n w' where run:
    "retry_loop fl (counted_clock cw) (counted attempt) timeout deadline (cw_now cw w) 0 (0, w) = (r, n, w')"
    by (metis prod_cases3)
  from retry_loop_counted[OF _ run] have
    "retry_loop fl cw attempt timeout deadline (cw_now cw w) 0 w = (r, w') \<and> 0 < n \<and> n \<le> 3"
    by (simp add: MAX_MODEL_ATTEMPTS_def)
  with run show ?thesis by (simp add: with_retries_def counted_eq)
qed

section \<open>A concrete call\<close>

text \<open>The world is the time and the number of the next answer; every answer takes ten seconds.\<close>

definition demo_clock :: "(rat \<times> nat) clockwork" where
  "demo_clock = \<lparr>cw_now = fst, cw_sleep = (\<lambda>t w. (fst w + t, snd w)), cw_jitter = (\<lambda>w. 0)\<rparr>"

definition demo_attempt :: "nat \<Rightarrow> rat \<times> nat \<Rightarrow> (raised + nat) \<times> rat \<times> nat" where
  "demo_attempt i w =
     (if i < 2 then Inl (HTTPError 503 None) else Inr i, fst w + 10, Suc (snd w))"

lemma retries_end_in_time_witness:
  "fst (with_retries (\<lambda>_. None) demo_clock demo_attempt 60 150 (0, 0)) = Inr 2
    \<and> fst (snd (with_retries (\<lambda>_. None) demo_clock demo_attempt 60 150 (0, 0))) \<le> 150"
proof
  show "fst (with_retries (\<lambda>_. None) demo_clock demo_attempt 60 150 (0, 0)) = Inr 2" by code_simp
  have "timely demo_clock demo_attempt 60"
    by (simp add: timely_def demo_clock_def demo_attempt_def)
  from retries_end_in_time[OF this, of "\<lambda>_. None" 150 "(0, 0)"]
  show "fst (snd (with_retries (\<lambda>_. None) demo_clock demo_attempt 60 150 (0, 0))) \<le> 150"
    by (simp add: demo_clock_def)
qed

section \<open>Strict schemas\<close>

definition STRICT_KEYS :: "string list" where
  "STRICT_KEYS = ''additionalProperties'' # STRICT_SCHEMA_KEYS"

text \<open>A schema in which only strict keys occur and every object is closed, down to the leaves.\<close>

fun strict_closed :: "json \<Rightarrow> bool"
  and strict_closed_fields :: "fields \<Rightarrow> bool"
  and strict_closed_parts :: "fields \<Rightarrow> bool" where
  "strict_closed (JObj s) = (set (jkeys s) \<subseteq> set STRICT_KEYS
     \<and> (map_of s ''type'' = Some (JStr ''object'') \<longrightarrow>
          map_of s ''additionalProperties'' = Some (JBool False)
          \<and> (\<exists>p. map_of s ''properties'' = Some (JObj p)))
     \<and> strict_closed_parts s)"
| "strict_closed _ = False"
| "strict_closed_fields [] = True"
| "strict_closed_fields ((k, v) # d) = (strict_closed v \<and> strict_closed_fields d)"
| "strict_closed_parts [] = True"
| "strict_closed_parts ((k, v) # d) =
     ((k = ''properties'' \<longrightarrow> (case v of JObj p \<Rightarrow> strict_closed_fields p | _ \<Rightarrow> False))
      \<and> (k = ''items'' \<longrightarrow> strict_closed v) \<and> strict_closed_parts d)"

lemma strict_closed_parts_append:
  "strict_closed_parts (a @ b) = (strict_closed_parts a \<and> strict_closed_parts b)"
  by (induction a) auto

lemma kept_keyD:
  assumes "kept_key s k = Inr xs"
  shows "fst ` set xs \<subseteq> {k}" and "k = ''type'' \<Longrightarrow> map_of xs ''type'' = map_of s ''type''"
    and "k \<notin> {''properties'', ''items''} \<Longrightarrow> strict_closed_parts xs"
proof -
  have c: "xs = [] \<and> map_of s k = None
    \<or> (\<exists>v v'. xs = [(k, v')] \<and> map_of s k = Some v \<and> (k = ''type'' \<longrightarrow> v' = v))"
  proof (cases "map_of s k")
    case None
    with assms show ?thesis by (simp add: kept_key_def)
  next
    case (Some v)
    show ?thesis
    proof (cases "k = ''required'' \<or> k = ''enum''")
      case True
      then have "k \<noteq> ''type''" by auto
      with assms Some True show ?thesis by (auto simp: kept_key_def bindr_Inr)
    next
      case False
      with assms Some have "xs = [(k, v)]" by (simp add: kept_key_def)
      with Some show ?thesis by blast
    qed
  qed
  show "fst ` set xs \<subseteq> {k}" using c by (elim disjE exE conjE) simp_all
  show "k = ''type'' \<Longrightarrow> map_of xs ''type'' = map_of s ''type''" using c by (elim disjE exE conjE) simp_all
  show "k \<notin> {''properties'', ''items''} \<Longrightarrow> strict_closed_parts xs" using c by (elim disjE exE conjE) simp_all
qed

lemma map_of_notin: "fst ` set xs \<subseteq> {k} \<Longrightarrow> k \<noteq> j \<Longrightarrow> map_of xs j = None"
  by (auto simp: map_of_eq_None_iff)

lemma four_subset:
  "A \<subseteq> {a} \<Longrightarrow> B \<subseteq> {b} \<Longrightarrow> C \<subseteq> {c} \<Longrightarrow> D \<subseteq> {d} \<Longrightarrow> A \<union> (B \<union> (C \<union> D)) \<subseteq> {a, b, c, d}"
  by blast

lemma kept_keysD:
  assumes "kept_keys s = Inr kept"
  shows "set (jkeys kept) \<subseteq> {''type'', ''description'', ''enum'', ''required''}"
    and "map_of kept ''type'' = map_of s ''type''" and "strict_closed_parts kept"
proof -
  have keys: "filter (\<lambda>k. k \<notin> {''properties'', ''items''}) STRICT_SCHEMA_KEYS
      = [''type'', ''description'', ''enum'', ''required'']"
    by (simp add: STRICT_SCHEMA_KEYS_def)
  from assms obtain kss where
    kss: "each (kept_key s) [''type'', ''description'', ''enum'', ''required''] = Inr kss"
    and kept: "kept = concat kss"
    unfolding kept_keys_def keys by (auto simp: bindr_Inr)
  have len: "length kss = 4" using each_Inr_length[OF kss] by simp
  then obtain a b c d where abcd: "kss = [a, b, c, d]"
    by (auto simp: length_Suc_conv eval_nat_numeral)
  have k: "kept_key s ''type'' = Inr a" "kept_key s ''description'' = Inr b"
    "kept_key s ''enum'' = Inr c" "kept_key s ''required'' = Inr d" "kept = a @ b @ c @ d"
    using each_Inr_nth[OF kss, of 0] each_Inr_nth[OF kss, of 1] each_Inr_nth[OF kss, of 2]
      each_Inr_nth[OF kss, of 3] by (simp_all add: abcd kept)
  note d = kept_keyD[OF k(1)] kept_keyD[OF k(2)] kept_keyD[OF k(3)] kept_keyD[OF k(4)]
  show "set (jkeys kept) \<subseteq> {''type'', ''description'', ''enum'', ''required''}"
    unfolding k(5) jkeys_def set_map set_append image_Un by (rule four_subset[OF d(1,4,7,10)])
  have "map_of b ''type'' = None" "map_of c ''type'' = None" "map_of d ''type'' = None"
    using map_of_notin[OF d(4)] map_of_notin[OF d(7)] map_of_notin[OF d(10)] by simp_all
  then show "map_of kept ''type'' = map_of s ''type''"
    using d(2) by (simp add: k(5) map_add_def split: option.splits)
  show "strict_closed_parts kept"
    using d(3,6,9,12) by (simp add: k(5) strict_closed_parts_append)
qed

lemma strict_schema_closed_aux:
  "strict_schema v n = Inr t \<Longrightarrow> strict_closed t"
  "strict_fields d n = Inr d' \<Longrightarrow> strict_closed_fields d' \<and> jkeys d' = jkeys d"
  "strict_sub key s n = Inr u \<Longrightarrow>
     (case u of None \<Rightarrow> True
      | Some p \<Rightarrow> if key = ''properties'' then \<exists>q. p = JObj q \<and> strict_closed_fields q
                 else strict_closed p)"
proof (induction v n and d n and key s n arbitrary: t and d' and u
    rule: strict_schema_strict_fields_strict_sub.induct)
  case (1 s depth)
  from "1.prems" obtain kept props items where kept: "kept_keys s = Inr kept"
    and props: "(if map_of s ''type'' = Some (JStr ''object'')
      then strict_sub ''properties'' s depth else Inr None) = Inr props"
    and items: "strict_sub ''items'' s depth = Inr items" and deep: "\<not> depth > MAX_SCHEMA_DEPTH"
    and t: "t = JObj (kept
      @ (if map_of s ''type'' = Some (JStr ''object'')
         then [(''properties'', case props of None \<Rightarrow> JObj [] | Some p \<Rightarrow> p),
               (''additionalProperties'', JBool False)] else [])
      @ (case items of None \<Rightarrow> [] | Some i \<Rightarrow> [(''items'', i)]))"
    by (auto simp: res_simps split: if_split_asm)
  note k = kept_keysD[OF kept]
  have i: "case items of None \<Rightarrow> True | Some p \<Rightarrow> strict_closed p"
    using "1.IH"(2)[OF deep kept props items] by (simp split: option.splits)
  have none: "map_of kept ''properties'' = None" "map_of kept ''additionalProperties'' = None"
    using k(1) by (auto simp: map_of_eq_None_iff jkeys_def)
  show ?case
  proof (cases "map_of s ''type'' = Some (JStr ''object'')")
    case True
    with "1.IH"(1)[OF deep kept True] props
    have "case props of None \<Rightarrow> True | Some p \<Rightarrow> \<exists>q. p = JObj q \<and> strict_closed_fields q"
      by (simp split: option.splits)
    then show ?thesis
      using True k i none
      by (auto simp: t STRICT_KEYS_def STRICT_SCHEMA_KEYS_def jkeys_def strict_closed_parts_append
          map_add_def split: option.splits)
  next
    case False
    then show ?thesis
      using k i none
      by (auto simp: t STRICT_KEYS_def STRICT_SCHEMA_KEYS_def jkeys_def strict_closed_parts_append
          map_add_def split: option.splits)
  qed
next
  case (4 k v d depth)
  then show ?case by (auto simp: res_simps jkeys_def)
next
  case (6 key k v d depth)
  show ?case
  proof (cases "k = key")
    case True
    show ?thesis
    proof (cases "key = ''properties''")
      case True
      with \<open>k = key\<close> "6.prems" obtain p p' where "v = JObj p" "strict_fields p depth = Inr p'"
        "u = Some (JObj p')"
        by (cases v) (auto simp: res_simps)
      with "6.IH"(1)[OF \<open>k = key\<close> True] True show ?thesis by simp
    next
      case False
      with \<open>k = key\<close> "6.prems" obtain v' where "strict_schema v (Suc depth) = Inr v'" "u = Some v'"
        by (auto simp: res_simps)
      with "6.IH"(2)[OF \<open>k = key\<close> False] False show ?thesis by simp
    qed
  next
    case False
    with 6 show ?thesis by simp
  qed
qed (simp_all split: if_split_asm)

lemma strict_sub_keys:
  "strict_sub ''properties'' s n = Inr (Some p) \<Longrightarrow>
     \<exists>q. map_of s ''properties'' = Some (JObj q) \<and> jkeys (obj_fields p) = jkeys q"
proof (induction s)
  case (Cons kv s)
  obtain k v where kv: "kv = (k, v)" by fastforce
  show ?case
  proof (cases "k = ''properties''")
    case True
    with Cons.prems kv obtain q q' where "v = JObj q" "strict_fields q n = Inr q'" "p = JObj q'"
      by (cases v) (auto simp: bindr_Inr)
    with strict_schema_closed_aux(2)[of q n q'] True kv show ?thesis by (simp add: obj_fields_def)
  next
    case False
    with Cons kv show ?thesis by simp
  qed
qed simp

text \<open>
  C17: the strict projection of a tool schema. Whatever it is given, a projection that is produced is
  closed at every object and holds only the keys strict mode takes, at every depth; and an object
  keeps exactly the argument names of the original, so the engine's own validation sees the same
  fields.
\<close>

theorem strict_projection_is_closed:
  assumes "strict_schema (JObj s) depth = Inr t"
  shows "strict_closed t \<and> depth \<le> MAX_SCHEMA_DEPTH
    \<and> (map_of s ''type'' = Some (JStr ''object'') \<longrightarrow>
        (\<exists>p. obj_get t ''properties'' = Some (JObj p)
          \<and> set (jkeys p) = set (jkeys (obj_fields (jget_or s ''properties'' (JObj []))))))"
proof -
  from assms obtain kept props items where kept: "kept_keys s = Inr kept"
    and props: "(if map_of s ''type'' = Some (JStr ''object'')
      then strict_sub ''properties'' s depth else Inr None) = Inr props"
    and deep: "\<not> depth > MAX_SCHEMA_DEPTH"
    and t: "t = JObj (kept
      @ (if map_of s ''type'' = Some (JStr ''object'')
         then [(''properties'', case props of None \<Rightarrow> JObj [] | Some p \<Rightarrow> p),
               (''additionalProperties'', JBool False)] else [])
      @ (case items of None \<Rightarrow> [] | Some i \<Rightarrow> [(''items'', i)]))"
    by (auto simp: res_simps split: if_split_asm)
  have none: "map_of kept ''properties'' = None"
    using kept_keysD(1)[OF kept] by (auto simp: map_of_eq_None_iff jkeys_def)
  have names: "\<exists>p. (case props of None \<Rightarrow> JObj [] | Some p \<Rightarrow> p) = JObj p
      \<and> set (jkeys p) = set (jkeys (obj_fields (jget_or s ''properties'' (JObj []))))"
    if obj: "map_of s ''type'' = Some (JStr ''object'')"
  proof (cases props)
    case None
    have "map_of s ''properties'' = None" if "strict_sub ''properties'' s depth = Inr None"
      using that by (induction s) (auto simp: bindr_Inr split: if_split_asm json.splits)
    with None props obj show ?thesis by (simp add: jget_or_def obj_fields_def)
  next
    case (Some p)
    with props obj strict_sub_keys obtain q where "map_of s ''properties'' = Some (JObj q)"
      "jkeys (obj_fields p) = jkeys q" by fastforce
    moreover from Some props obj strict_schema_closed_aux(3)[of "''properties''" s depth props]
    obtain q' where "p = JObj q'" by auto
    ultimately show ?thesis using Some by (simp add: jget_or_def obj_fields_def)
  qed
  show ?thesis
    using strict_schema_closed_aux(1)[OF assms] deep names none by (auto simp: t map_add_def)
qed

definition demo_strict :: fields where
  "demo_strict = [(''type'', JStr ''object''),
     (''properties'', JObj [(''q'', JObj [(''type'', JStr ''string''), (''maxLength'', JInt 5)])]),
     (''required'', jstrs [''q''])]"

lemma strict_projection_is_closed_witness:
  "strict_closed (case strict_schema (JObj demo_strict) 0 of Inr t \<Rightarrow> t | Inl x \<Rightarrow> JNull)"
proof -
  have "is_ok (strict_schema (JObj demo_strict) 0)" by code_simp
  then obtain t where t: "strict_schema (JObj demo_strict) 0 = Inr t"
    by (auto simp: is_ok_def split: sum.splits)
  from strict_projection_is_closed[OF t] t show ?thesis by simp
qed

end
