(* ===== verification/Model_Response.thy ===== *)
theory Model_Response
  imports Model_Transport
begin

text \<open>
  The strict parsers of a model's answer (\<^verbatim>\<open>platform_runtime/model_response.py\<close>). The JSON
  reader of the standard library is an argument: it returns the parsed tree, with the key/value
  pairs of an object as written, or nothing for malformed text; the hooks the source passes to it
  (unique keys, no constants outside JSON) are checks on that tree. The shape check is the source's
  loop over an explicit stack, and it is proved to decide the depth and size bounds.
\<close>

section \<open>Bounds\<close>

definition MAX_DECISION_BYTES :: nat where "MAX_DECISION_BYTES = 20000"
definition MAX_JSON_DEPTH :: nat where "MAX_JSON_DEPTH = 32"
definition MAX_JSON_NODES :: nat where "MAX_JSON_NODES = 5000"
definition MAX_CONTENT_BLOCKS :: nat where "MAX_CONTENT_BLOCKS = 64"
definition ANTHROPIC_STOP_ACCEPTED :: "string list" where "ANTHROPIC_STOP_ACCEPTED = [''end_turn'']"
definition ANTHROPIC_STOP_REFUSED :: "(string \<times> string) list" where
  "ANTHROPIC_STOP_REFUSED =
     [(''refusal'', ''Model refused the request; not a JSON decision''),
      (''max_tokens'', ''Truncated model response; complete JSON decision required''),
      (''tool_use'', ''Alternate tool-call envelope is not a JSON decision''),
      (''pause_turn'', ''Paused model turn is not a complete JSON decision'')]"
definition ANTHROPIC_TOOL_STOP :: string where "ANTHROPIC_TOOL_STOP = ''tool_use''"
definition ANTHROPIC_TOOL_STOP_REFUSED :: "(string \<times> string) list" where
  "ANTHROPIC_TOOL_STOP_REFUSED =
     [(''refusal'', ''Model refused the request; no tool call is executed''),
      (''max_tokens'', ''Truncated model response; a tool call may be incomplete''),
      (''pause_turn'', ''Paused model turn is not a complete tool call''),
      (''end_turn'', ''Model answered without a tool call; a decision is a tool call'')]"
definition MAX_TOOL_NAME_CHARS :: nat where "MAX_TOOL_NAME_CHARS = 64"

section \<open>The shape check\<close>

fun children :: "json \<Rightarrow> json list" where
  "children (JObj d) = map snd d"
| "children (JList xs) = xs"
| "children _ = []"

fun json_nodes :: "json \<Rightarrow> nat"
  and json_nodes_list :: "json list \<Rightarrow> nat"
  and json_nodes_fields :: "fields \<Rightarrow> nat" where
  "json_nodes (JObj d) = Suc (json_nodes_fields d)"
| "json_nodes (JList xs) = Suc (json_nodes_list xs)"
| "json_nodes _ = 1"
| "json_nodes_list [] = 0"
| "json_nodes_list (x # xs) = json_nodes x + json_nodes_list xs"
| "json_nodes_fields [] = 0"
| "json_nodes_fields ((k, v) # d) = json_nodes v + json_nodes_fields d"

lemma json_nodes_list_sum: "json_nodes_list xs = sum_list (map json_nodes xs)"
  by (induction xs) simp_all

lemma json_nodes_fields_sum: "json_nodes_fields d = sum_list (map json_nodes (map snd d))"
  by (induction d) auto

lemma json_nodes_children: "json_nodes v = Suc (sum_list (map json_nodes (children v)))"
  by (cases v) (simp_all add: json_nodes_list_sum json_nodes_fields_sum)

lemma json_nodes_children_less: "sum_list (map json_nodes (children v)) < json_nodes v"
  using json_nodes_children by simp

lemma json_depth_list_le: "json_depth_list xs \<le> n \<longleftrightarrow> (\<forall>x \<in> set xs. Suc (json_depth x) \<le> n)"
  by (induction xs) auto

lemma json_depth_fields_le: "json_depth_fields d \<le> n \<longleftrightarrow> (\<forall>x \<in> set (map snd d). Suc (json_depth x) \<le> n)"
  by (induction d) auto

lemma json_depth_children: "json_depth v \<le> n \<longleftrightarrow> (\<forall>x \<in> set (children v). Suc (json_depth x) \<le> n)"
  by (cases v) (simp_all add: json_depth_list_le json_depth_fields_le)

text \<open>The top of the stack is the head of the list; a node's children are pushed in order.\<close>

function shape_loop :: "(json \<times> nat) list \<Rightarrow> nat \<Rightarrow> unit res" where
  "shape_loop [] visited = Inr ()"
| "shape_loop ((node, depth) # stack) visited =
     (if depth > MAX_JSON_DEPTH \<or> Suc visited > MAX_JSON_NODES
      then raise ValueError ''Model JSON structure exceeds limits''
      else shape_loop (rev (map (\<lambda>c. (c, Suc depth)) (children node)) @ stack) (Suc visited))"
  by pat_completeness auto

termination
  by (relation "measure (\<lambda>(stack, visited). sum_list (map (json_nodes \<circ> fst) stack))")
     (auto simp: o_def rev_map[symmetric] sum_list_rev json_nodes_children_less)

definition bounded_shape :: "json \<Rightarrow> json res" where
  "bounded_shape v = bindr (shape_loop [(v, 0)] 0) (\<lambda>_. Inr v)"

lemma shape_loop_spec:
  "visited \<le> MAX_JSON_NODES \<Longrightarrow>
     shape_loop stack visited = Inr () \<longleftrightarrow>
       (\<forall>(v, d) \<in> set stack. d + json_depth v \<le> MAX_JSON_DEPTH)
       \<and> visited + sum_list (map (json_nodes \<circ> fst) stack) \<le> MAX_JSON_NODES"
proof (induction stack visited rule: shape_loop.induct)
  case (2 node depth stack visited)
  have nodes: "sum_list (map (json_nodes \<circ> fst) (rev (map (\<lambda>c. (c, Suc depth)) (children node)) @ stack))
      = sum_list (map json_nodes (children node)) + sum_list (map (json_nodes \<circ> fst) stack)"
    by (simp add: o_def rev_map[symmetric] sum_list_rev)
  have deep: "depth + json_depth node \<le> MAX_JSON_DEPTH \<longleftrightarrow>
      depth \<le> MAX_JSON_DEPTH \<and> (\<forall>x \<in> set (children node). Suc depth + json_depth x \<le> MAX_JSON_DEPTH)"
  proof (cases "depth \<le> MAX_JSON_DEPTH")
    case True
    then have "depth + json_depth node \<le> MAX_JSON_DEPTH \<longleftrightarrow> json_depth node \<le> MAX_JSON_DEPTH - depth"
      by linarith
    also have "\<dots> \<longleftrightarrow> (\<forall>x \<in> set (children node). Suc (json_depth x) \<le> MAX_JSON_DEPTH - depth)"
      by (rule json_depth_children)
    also have "\<dots> \<longleftrightarrow> (\<forall>x \<in> set (children node). Suc depth + json_depth x \<le> MAX_JSON_DEPTH)"
      using True by (intro ball_cong refl) linarith
    finally show ?thesis using True by blast
  qed simp
  show ?case
  proof (cases "depth > MAX_JSON_DEPTH \<or> Suc visited > MAX_JSON_NODES")
    case True
    then show ?thesis by (auto simp: json_nodes_children[of node])
  next
    case False
    have pushed: "(\<forall>(v, d) \<in> set (rev (map (\<lambda>c. (c, Suc depth)) (children node)) @ stack).
          d + json_depth v \<le> MAX_JSON_DEPTH)
        \<longleftrightarrow> depth + json_depth node \<le> MAX_JSON_DEPTH
          \<and> (\<forall>(v, d) \<in> set stack. d + json_depth v \<le> MAX_JSON_DEPTH)"
      unfolding deep using False by (simp add: ball_Un)
    have total: "Suc visited + (sum_list (map json_nodes (children node)) + n)
        = visited + (json_nodes node + n)" for n
      by (simp add: json_nodes_children[of node])
    from False have "Suc visited \<le> MAX_JSON_NODES" by simp
    from "2.IH"[OF False this] False show ?thesis
      unfolding nodes pushed total by (simp add: o_def)
  qed
qed simp

section \<open>Decisions\<close>

fun duplicate_keys :: "json \<Rightarrow> bool"
  and duplicate_keys_list :: "json list \<Rightarrow> bool"
  and duplicate_keys_fields :: "fields \<Rightarrow> bool" where
  "duplicate_keys (JObj d) = (\<not> distinct (jkeys d) \<or> duplicate_keys_fields d)"
| "duplicate_keys (JList xs) = duplicate_keys_list xs"
| "duplicate_keys _ = False"
| "duplicate_keys_list [] = False"
| "duplicate_keys_list (x # xs) = (duplicate_keys x \<or> duplicate_keys_list xs)"
| "duplicate_keys_fields [] = False"
| "duplicate_keys_fields ((k, v) # d) = (duplicate_keys v \<or> duplicate_keys_fields d)"

type_synonym reader = "string \<Rightarrow> json option"

definition decision_from_text :: "reader \<Rightarrow> json \<Rightarrow> nat \<Rightarrow> json res" where
  "decision_from_text loads value maximum =
     (case value of
        JStr t \<Rightarrow>
          if \<not> (1 \<le> utf8_length t \<and> utf8_length t \<le> maximum)
            then raise ValueError ''Bounded model decision text required''
          else (case loads t of
              None \<Rightarrow> raise ValueError ''Malformed model decision JSON''
            | Some v \<Rightarrow>
                if duplicate_keys v then raise ValueError ''Duplicate model JSON key''
                else if non_finite v then raise ValueError ''Non-finite model JSON value''
                else if \<not> is_obj v then raise ValueError ''Model decision must be an object''
                else bounded_shape v)
      | _ \<Rightarrow> raise ValueError ''Bounded model decision text required'')"

definition parse_decision :: "reader \<Rightarrow> json \<Rightarrow> nat \<Rightarrow> json res" where
  "parse_decision loads response maximum =
     (case response of
        JObj r \<Rightarrow> (case jget r ''choices'' of
            JList [JObj choice] \<Rightarrow>
              if jget choice ''finish_reason'' \<noteq> JStr ''stop'' \<or> \<not> is_obj (jget choice ''message'')
                then raise ValueError ''Complete model response required''
              else (let message = obj_fields (jget choice ''message'') in
                if truthy (jget message ''refusal'') \<or> truthy (jget message ''tool_calls'')
                  then raise ValueError ''Refusal or alternate tool-call envelope is not a JSON decision''
                else decision_from_text loads (jget message ''content'') maximum)
          | _ \<Rightarrow> raise ValueError ''Exactly one model choice required'')
      | _ \<Rightarrow> raise ValueError ''Model response must be an object'')"

text \<open>The reason a stop is refused for, a lookup in a dictionary by an untrusted value.\<close>

definition refused_stop :: "(string \<times> string) list \<Rightarrow> json \<Rightarrow> string option res" where
  "refused_stop table stop = (case stop of
      JStr t \<Rightarrow> Inr (map_of table t)
    | JList _ \<Rightarrow> raise TypeError ''unhashable type''
    | JObj _ \<Rightarrow> raise TypeError ''unhashable type''
    | _ \<Rightarrow> Inr None)"

definition typed_block :: "string \<Rightarrow> json \<Rightarrow> bool" where
  "typed_block kind block \<longleftrightarrow> obj_get block ''type'' = Some (JStr kind)"

definition parse_anthropic_decision :: "reader \<Rightarrow> json \<Rightarrow> nat \<Rightarrow> json res" where
  "parse_anthropic_decision loads response maximum =
     (case response of
        JObj r \<Rightarrow>
          if jget r ''type'' \<noteq> JStr ''message''
            then raise ValueError ''Anthropic message envelope required''
          else bindr (refused_stop ANTHROPIC_STOP_REFUSED (jget r ''stop_reason'')) (\<lambda>why.
            case why of
              Some m \<Rightarrow> raise ValueError m
            | None \<Rightarrow>
                if jget r ''stop_reason'' \<notin> JStr ` set ANTHROPIC_STOP_ACCEPTED
                  then raise ValueError ''Complete model response required''
                else (case jget r ''content'' of
                    JList blocks \<Rightarrow>
                      if length blocks > MAX_CONTENT_BLOCKS
                        then raise ValueError ''Bounded Anthropic content block list required''
                      else (case find (typed_block ''text'') blocks of
                          None \<Rightarrow> raise ValueError ''Bounded model decision text required''
                        | Some b \<Rightarrow> decision_from_text loads (jget (obj_fields b) ''text'') maximum)
                  | _ \<Rightarrow> raise ValueError ''Bounded Anthropic content block list required''))
      | _ \<Rightarrow> raise ValueError ''Model response must be an object'')"

text \<open>\<^verbatim>\<open>json.dumps\<close> with its default separators, in insertion order.\<close>

fun dumps_py :: "json \<Rightarrow> string"
  and dumps_py_list :: "json list \<Rightarrow> string list"
  and dumps_py_fields :: "fields \<Rightarrow> string list" where
  "dumps_py (JList xs) = ''['' @ py_join '', '' (dumps_py_list xs) @ '']''"
| "dumps_py (JObj d) = ''{'' @ py_join '', '' (dumps_py_fields d) @ ''}''"
| "dumps_py v = dumps v"
| "dumps_py_list [] = []"
| "dumps_py_list (x # xs) = dumps_py x # dumps_py_list xs"
| "dumps_py_fields [] = []"
| "dumps_py_fields ((k, v) # d) = (quote k @ '': '' @ dumps_py v) # dumps_py_fields d"

definition tool_call :: "json \<Rightarrow> nat \<Rightarrow> (string \<times> json) res" where
  "tool_call block maximum =
     (case jget (obj_fields block) ''name'' of
        JStr name \<Rightarrow>
          if \<not> (1 \<le> length name \<and> length name \<le> MAX_TOOL_NAME_CHARS)
            then raise ValueError ''Bounded tool name required''
          else (let arguments = jget (obj_fields block) ''input'' in
            if \<not> is_obj arguments then raise ValueError ''Tool input must be an object''
            else if non_finite arguments then raise ValueError ''Malformed tool input''
            else if utf8_length (dumps_py arguments) > maximum
              then raise ValueError ''Tool input exceeds byte limit''
            else bindr (bounded_shape arguments) (\<lambda>v. Inr (name, v)))
      | _ \<Rightarrow> raise ValueError ''Bounded tool name required'')"

definition parse_anthropic_tool_call :: "json \<Rightarrow> nat \<Rightarrow> (string \<times> json) res" where
  "parse_anthropic_tool_call response maximum =
     (case response of
        JObj r \<Rightarrow>
          if jget r ''type'' \<noteq> JStr ''message''
            then raise ValueError ''Anthropic message envelope required''
          else bindr (refused_stop ANTHROPIC_TOOL_STOP_REFUSED (jget r ''stop_reason'')) (\<lambda>why.
            case why of
              Some m \<Rightarrow> raise ValueError m
            | None \<Rightarrow>
                if jget r ''stop_reason'' \<noteq> JStr ANTHROPIC_TOOL_STOP
                  then raise ValueError ''Complete model response required''
                else (case jget r ''content'' of
                    JList blocks \<Rightarrow>
                      if length blocks > MAX_CONTENT_BLOCKS
                        then raise ValueError ''Bounded Anthropic content block list required''
                      else (case find (typed_block ''tool_use'') blocks of
                          None \<Rightarrow> raise ValueError ''Tool call required''
                        | Some b \<Rightarrow> tool_call b maximum)
                  | _ \<Rightarrow> raise ValueError ''Bounded Anthropic content block list required''))
      | _ \<Rightarrow> raise ValueError ''Model response must be an object'')"

section \<open>Properties\<close>

text \<open>
  C18: the iterative shape check decides the bounds. The loop over the explicit stack accepts a value
  exactly when the recursive measures do: nesting at most 32 and at most 5000 nodes.
\<close>

theorem bounded_shape_decides_bounds:
  "bounded_shape v = Inr w \<longleftrightarrow> w = v \<and> json_depth v \<le> 32 \<and> json_nodes v \<le> 5000"
  using shape_loop_spec[of 0 "[(v, 0)]"]
  by (auto simp: bounded_shape_def bindr_Inr MAX_JSON_DEPTH_def MAX_JSON_NODES_def)

text \<open>
  A decision is one bounded object. Whatever text a model returns under any of the envelopes,
  what the parsers hand on is an object within the depth and node bounds, with finite numbers.
\<close>

theorem decisions_are_bounded:
  assumes "parse_decision loads response m = Inr v \<or> parse_anthropic_decision loads response m = Inr v
    \<or> (\<exists>name. parse_anthropic_tool_call response m = Inr (name, v))"
  shows "is_obj v \<and> json_depth v \<le> 32 \<and> json_nodes v \<le> 5000 \<and> \<not> non_finite v"
proof -
  have bound: "json_depth x \<le> 32 \<and> json_nodes x \<le> 5000 \<and> y = x" if "bounded_shape x = Inr y" for x y
    using that shape_loop_spec[of 0 "[(x, 0)]"]
    by (auto simp: bounded_shape_def bindr_Inr MAX_JSON_DEPTH_def MAX_JSON_NODES_def)
  have parsed: "is_obj x \<and> json_depth x \<le> 32 \<and> json_nodes x \<le> 5000 \<and> \<not> non_finite x"
    if d: "decision_from_text loads t m = Inr x" for t x
  proof -
    from d obtain u where u: "t = JStr u" by (cases t) (auto simp: decision_from_text_def)
    from d u obtain y where "loads u = Some y" by (auto simp: decision_from_text_def split: option.splits if_split_asm)
    with d u bound[of y x] show ?thesis by (auto simp: decision_from_text_def split: if_split_asm)
  qed
  consider t where "decision_from_text loads t m = Inr v" | b name where "tool_call b m = Inr (name, v)"
    using assms
  proof (elim disjE exE)
    assume "parse_decision loads response m = Inr v"
    then show ?thesis using that
      by (auto simp: parse_decision_def Let_def split: json.splits list.splits if_split_asm)
  next
    assume "parse_anthropic_decision loads response m = Inr v"
    then show ?thesis using that
      by (auto simp: parse_anthropic_decision_def bindr_Inr split: json.splits option.splits if_split_asm)
  next
    fix name assume "parse_anthropic_tool_call response m = Inr (name, v)"
    then show ?thesis using that
      by (auto simp: parse_anthropic_tool_call_def bindr_Inr split: json.splits option.splits if_split_asm)
  qed
  then show ?thesis
  proof cases
    case 1
    then show ?thesis by (rule parsed)
  next
    case (2 b name)
    then obtain a where "is_obj a" "\<not> non_finite a" "bounded_shape a = Inr v"
      by (cases "jget (obj_fields b) ''name''")
        (auto simp: tool_call_def bindr_Inr Let_def split: if_split_asm)
    with bound show ?thesis by blast
  qed
qed

definition demo_response :: json where
  "demo_response = JObj [(''type'', JStr ''message''), (''stop_reason'', JStr ''tool_use''),
     (''content'', JList [JObj [(''type'', JStr ''text'')],
        JObj [(''type'', JStr ''tool_use''), (''name'', JStr ''ask''),
              (''input'', JObj [(''n'', JInt 1)])]])]"

lemma decisions_are_bounded_witness:
  "\<exists>v. parse_anthropic_tool_call demo_response 100 = Inr (''ask'', v) \<and> json_nodes v \<le> 5000"
proof -
  have "parse_anthropic_tool_call demo_response 100 = Inr (''ask'', JObj [(''n'', JInt 1)])"
    by code_simp
  with decisions_are_bounded[of "\<lambda>_. None" demo_response 100] show ?thesis by blast
qed

end
