(* ===== verification/Agent_Loop.thy ===== *)
theory Agent_Loop
  imports Engine_Run
begin

text \<open>
  The bounded, result-fed planning loop (\<^verbatim>\<open>platform_runtime/agent_loop.py\<close>): a run reserves
  one planner call at a time, the planner decides outside every transaction, and the decision is
  committed only under the run's live claim. A planner is an argument: it sees the tenant, its context
  and the database, and returns its decision with the state and the instant it finished in.
\<close>

section \<open>Bounds\<close>

definition ACTIVE :: "run_status list" where "ACTIVE = [RPending, RPlanning, RWaitingTask]"
definition TERMINAL :: "run_status list" where
  "TERMINAL = [RSucceeded, RNeedsInput, REscalated, RUncertain, RCancelled]"
definition MAX_STEPS :: int where "MAX_STEPS = 12"
definition MAX_SECONDS :: int where "MAX_SECONDS = 86400"
definition MAX_OBSERVATION_BYTES :: nat where "MAX_OBSERVATION_BYTES = 12000"
definition MAX_HISTORY_BYTES :: nat where "MAX_HISTORY_BYTES = 48000"
definition PLANNER_LEASE_SECONDS :: int where "PLANNER_LEASE_SECONDS = 180"
definition DASHBOARD_CHANNEL :: string where "DASHBOARD_CHANNEL = ''agent''"
definition MAX_CHANNEL_CHARS :: nat where "MAX_CHANNEL_CHARS = 32"
definition MAX_DECISION_REPAIRS :: nat where "MAX_DECISION_REPAIRS = 1"
definition GENERIC_REPAIR_REASON :: string where
  "GENERIC_REPAIR_REASON = ''Decision failed platform validation''"

fun run_status_text :: "run_status \<Rightarrow> string" where
  "run_status_text RPending = ''pending''"
| "run_status_text RPlanning = ''planning''"
| "run_status_text RWaitingTask = ''waiting_task''"
| "run_status_text RSucceeded = ''succeeded''"
| "run_status_text RNeedsInput = ''needs_input''"
| "run_status_text REscalated = ''escalated''"
| "run_status_text RUncertain = ''uncertain''"
| "run_status_text RCancelled = ''cancelled''"

section \<open>Creating a run\<close>

definition run_ident :: "nat \<Rightarrow> string \<Rightarrow> bool" where
  "run_ident limit v \<longleftrightarrow> \<not> blank v \<and> length v \<le> limit"

definition find_run_key :: "db \<Rightarrow> string \<Rightarrow> string \<Rightarrow> run_row option" where
  "find_run_key s tenant key = find (\<lambda>r. r_tenant r = tenant \<and> r_key r = key) (runs s)"

definition find_run :: "db \<Rightarrow> string \<Rightarrow> string \<Rightarrow> run_row option" where
  "find_run s tenant run = find (\<lambda>r. r_tenant r = tenant \<and> r_id r = run) (runs s)"

definition run_row_of :: "db \<Rightarrow> string \<Rightarrow> string \<Rightarrow> run_row res" where
  "run_row_of s tenant run =
     (case find_run s tenant run of None \<Rightarrow> raise NotFound ''Agent run not found'' | Some r \<Rightarrow> Inr r)"

definition active_runs :: "db \<Rightarrow> string \<Rightarrow> nat" where
  "active_runs s tenant = length (filter (\<lambda>r. r_tenant r = tenant \<and> r_status r \<in> set ACTIVE) (runs s))"

definition run_request :: "string \<Rightarrow> string \<Rightarrow> string \<Rightarrow> int \<Rightarrow> int \<Rightarrow> string \<Rightarrow> json" where
  "run_request agent input actor max_steps max_seconds channel =
     JObj ([(''agent'', JStr agent), (''input'', JStr input), (''actor'', JStr actor),
            (''max_steps'', JInt max_steps), (''max_seconds'', JInt max_seconds)]
       @ (if channel \<noteq> DASHBOARD_CHANNEL then [(''channel'', JStr channel)] else []))"

definition new_run ::
  "int \<Rightarrow> string \<Rightarrow> string \<Rightarrow> string \<Rightarrow> string \<Rightarrow> string \<Rightarrow> string \<Rightarrow> string \<Rightarrow> int \<Rightarrow> int \<Rightarrow> string
     \<Rightarrow> run_row" where
  "new_run now rid tenant key fp agent actor input max_steps max_seconds channel =
     \<lparr>r_id = rid, r_tenant = tenant, r_key = key, r_fingerprint = fp, r_agent = agent,
      r_actor = actor, r_input = input, r_status = RPending, r_created = now, r_updated = now,
      r_deadline = now + max_seconds, r_max_steps = max_steps, r_max_calls = max_steps + 1,
      r_calls = 0, r_steps = 0, r_task = [], r_claim = [], r_lease = 0, r_answer = [],
      r_evidence = [], r_error = [], r_channel = channel\<rparr>"

definition create_run_tx ::
  "env \<Rightarrow> int \<Rightarrow> string \<Rightarrow> string \<Rightarrow> string \<Rightarrow> string \<Rightarrow> string \<Rightarrow> int \<Rightarrow> int \<Rightarrow> string \<Rightarrow> string \<Rightarrow> db
     \<Rightarrow> (string \<times> db) res" where
  "create_run_tx e now tenant key agent input actor max_steps max_seconds channel fp s =
     bindr (require_authority e tenant channel actor default_roles) (\<lambda>_.
       case find_run_key s tenant key of
         Some old \<Rightarrow> (if r_fingerprint old \<noteq> fp then raise Conflict ''Run key reused with different input''
                    else Inr (r_id old, s))
       | None \<Rightarrow> bindr (require_active e s tenant) (\<lambda>_.
           if active_runs s tenant \<ge> 100 then raise RateLimited ''Agent run queue full''
           else let rid = fresh e s in
             if \<exists>r \<in> set (runs s). r_id r = rid
               then raise (OtherError ''IntegrityError'') ''UNIQUE constraint failed''
             else Inr (rid, audit now tenant [] ''agent_run.created'' actor
               [(''run'', JStr rid), (''max_steps'', JInt max_steps), (''max_seconds'', JInt max_seconds)]
               (drawn (s\<lparr>runs := runs s @
                  [new_run now rid tenant key fp agent actor input max_steps max_seconds channel]\<rparr>)))))"

definition create_run ::
  "env \<Rightarrow> int \<Rightarrow> string \<Rightarrow> string \<Rightarrow> string \<Rightarrow> string \<Rightarrow> string \<Rightarrow> int \<Rightarrow> int \<Rightarrow> string \<Rightarrow> db
     \<Rightarrow> (string \<times> db) res" where
  "create_run e now tenant key agent input actor max_steps max_seconds channel s =
     (if \<not> (run_ident 64 tenant \<and> run_ident 256 key \<and> run_ident 128 agent \<and> run_ident 128 actor
           \<and> run_ident MAX_CHANNEL_CHARS channel)
        then raise ValueError ''Invalid run identity''
      else if blank input \<or> length input > 4000
        then raise ValueError ''Run input must contain 1..4000 characters''
      else if \<not> (1 \<le> max_steps \<and> max_steps \<le> MAX_STEPS) then raise ValueError ''Invalid step budget''
      else if \<not> (60 \<le> max_seconds \<and> max_seconds \<le> MAX_SECONDS)
        then raise ValueError ''Invalid time budget''
      else bindr (policy_of e tenant agent) (\<lambda>p.
        if p_ladder p \<notin> set LADDERS then raise Forbidden ''Agent policy unavailable''
        else bindr (digest e (run_request agent input actor max_steps max_seconds channel)) (\<lambda>fp.
          create_run_tx e now tenant key agent input actor max_steps max_seconds channel fp s)))"

section \<open>Stopping a run\<close>

definition set_run :: "string \<Rightarrow> string \<Rightarrow> (run_row \<Rightarrow> run_row) \<Rightarrow> db \<Rightarrow> db" where
  "set_run tenant run f s = upd_runs (\<lambda>r. r_tenant r = tenant \<and> r_id r = run) f s"

definition linked_task :: "db \<Rightarrow> run_row \<Rightarrow> task_row option" where
  "linked_task s row =
     (if \<exists>l \<in> set (turns s). n_tenant l = r_tenant row \<and> n_run l = r_id row \<and> n_task l = r_task row
      then get_task s (r_tenant row) (r_task row) else None)"

text \<open>The open steps of the current task: a running one may have acted, the others have not.\<close>

definition retire_steps :: "int \<Rightarrow> run_row \<Rightarrow> string \<Rightarrow> db \<Rightarrow> db" where
  "retire_steps now row reason s =
     refresh now (r_tenant row) (r_task row)
       (upd_steps (\<lambda>x. s_tenant x = r_tenant row \<and> s_task x = r_task row \<and> active_step x)
         (\<lambda>x. x\<lparr>s_status := (if s_status x = Running then Uncertain else Cancelled),
                s_claim := [], s_lease := 0, s_error := reason\<rparr>) s)"

definition retire_approvals :: "int \<Rightarrow> run_row \<Rightarrow> string \<Rightarrow> db \<Rightarrow> db" where
  "retire_approvals now row actor s =
     upd_approvals (\<lambda>a. a_tenant a = r_tenant row \<and> a_status a \<in> {ApPending, ApApproved}
         \<and> (\<exists>x \<in> set (steps s). s_tenant x = r_tenant row \<and> s_task x = r_task row \<and> s_id x = a_step a))
       (\<lambda>a. a\<lparr>a_status := ApRejected, a_actor := actor, a_decided := Some now\<rparr>) s"

definition stop_task ::
  "int \<Rightarrow> run_row \<Rightarrow> run_status \<Rightarrow> string \<Rightarrow> string \<Rightarrow> db \<Rightarrow> run_status \<times> string \<times> db" where
  "stop_task now row status reason actor s =
     (if r_task row = [] then (status, reason, s)
      else case linked_task s row of
          None \<Rightarrow> (REscalated, ''run_task_link_invalid'', s)
        | Some t \<Rightarrow>
            if t_status t \<in> {Queued, WaitingApproval, Running} then
              (let s1 = retire_steps now row reason s;
                   after = (case get_task s1 (r_tenant row) (r_task row) of
                     None \<Rightarrow> t_status t | Some t' \<Rightarrow> t_status t') in
               (if after = Uncertain then RUncertain else status, reason,
                retire_approvals now row actor s1))
            else (if t_status t = Uncertain then RUncertain else status, reason,
                  retire_approvals now row actor s))"

definition stop_run :: "int \<Rightarrow> run_row \<Rightarrow> run_status \<Rightarrow> string \<Rightarrow> string \<Rightarrow> db \<Rightarrow> db" where
  "stop_run now row status reason actor s =
     (case stop_task now row status reason actor s of (st, why, s1) \<Rightarrow>
       audit now (r_tenant row) (r_task row) (''agent_run.'' @ run_status_text st) actor
         [(''run'', JStr (r_id row)), (''reason'', JStr why)]
         (set_run (r_tenant row) (r_id row)
           (\<lambda>r. r\<lparr>r_status := st, r_error := why, r_claim := [], r_lease := 0, r_updated := now\<rparr>) s1))"

definition cancel_run ::
  "env \<Rightarrow> int \<Rightarrow> string \<Rightarrow> string \<Rightarrow> string \<Rightarrow> db \<Rightarrow> (run_status \<times> db) res" where
  "cancel_run e now tenant run actor s =
     bindr (require_authority e tenant ''web'' actor default_roles) (\<lambda>_.
       bindr (run_row_of s tenant run) (\<lambda>row.
         if r_status row \<in> set TERMINAL then Inr (r_status row, s)
         else let t = stop_run now row RCancelled ''operator_cancelled'' actor s in
           bindr (run_row_of t tenant run) (\<lambda>row'. Inr (r_status row', t))))"

section \<open>Observations\<close>

definition turn_of :: "run_row \<Rightarrow> turn_row \<Rightarrow> bool" where
  "turn_of row l \<longleftrightarrow> n_tenant l = r_tenant row \<and> n_run l = r_id row"

text \<open>The join of a run's turns with their tasks and first steps, by position.\<close>

definition observation_rows :: "db \<Rightarrow> run_row \<Rightarrow> (turn_row \<times> task_row \<times> step_row) list" where
  "observation_rows s row =
     sort_key (\<lambda>(l, _). n_position l)
       (concat (map (\<lambda>l. concat (map (\<lambda>t. map (\<lambda>x. (l, t, x))
            (filter (\<lambda>x. s_task x = t_id t \<and> s_tenant x = t_tenant t \<and> s_position x = 0) (steps s)))
          (filter (\<lambda>t. t_id t = n_task l \<and> t_tenant t = n_tenant l) (tasks s))))
        (filter (turn_of row) (turns s))))"

record observation =
  ob_evidence :: string
  ob_json :: json

definition observe :: "turn_row \<times> task_row \<times> step_row \<Rightarrow> observation res" where
  "observe item = (case item of (l, t, x) \<Rightarrow>
     if s_status x \<noteq> Succeeded \<or> t_status t \<noteq> Succeeded
       then raise ObservationUnavailable ''Only successful steps are observations''
     else let evidence = ''step:'' @ s_id x;
              j = JObj [(''evidence_id'', JStr evidence), (''task_id'', JStr (n_task l)),
                (''tool'', JStr (s_tool x)), (''arguments'', s_args x), (''result'', s_result x)] in
       bindr (encode j) (\<lambda>t.
         if utf8_length t > MAX_OBSERVATION_BYTES
           then raise ObservationUnavailable ''Observation exceeds context bound''
         else Inr \<lparr>ob_evidence = evidence, ob_json = j\<rparr>))"

definition observations :: "db \<Rightarrow> run_row \<Rightarrow> observation list res" where
  "observations s row =
     (let rows = observation_rows s row in
      if int (length rows) \<noteq> r_steps row
        then raise ObservationUnavailable ''Observation history incomplete''
      else bindr (each observe rows) (\<lambda>obs. bindr (encode (JList (map ob_json obs))) (\<lambda>t.
        if utf8_length t > MAX_HISTORY_BYTES
          then raise ObservationUnavailable ''Observation history exceeds context bound''
        else Inr obs)))"

definition run_context :: "run_row \<Rightarrow> observation list \<Rightarrow> fields" where
  "run_context row obs =
     [(''run_id'', JStr (r_id row)), (''agent'', JStr (r_agent row)), (''input'', JStr (r_input row)),
      (''channel'', JStr (r_channel row)), (''call_index'', JInt (r_calls row + 1)),
      (''remaining_steps'', JInt (r_max_steps row - r_steps row)),
      (''remaining_calls'', JInt (r_max_calls row - r_calls row - 1)),
      (''observations'', JList (map ob_json obs))]"

section \<open>Reserving a planner call\<close>

record reservation =
  rv_claim :: string
  rv_context :: fields

definition task_verdict :: "status \<Rightarrow> run_status" where
  "task_verdict st = (if st = Uncertain then RUncertain else if st = Cancelled then RCancelled
     else REscalated)"

definition reserve_call ::
  "env \<Rightarrow> int \<Rightarrow> run_row \<Rightarrow> db \<Rightarrow> (bool \<times> reservation option) \<times> db" where
  "reserve_call e now row s =
     (if r_calls row \<ge> r_max_calls row
        then ((True, None), stop_run now row REscalated ''planner_call_budget_exhausted'' ''agent-loop'' s)
      else (case observations s row of
          Inl x \<Rightarrow> ((True, None), stop_run now row REscalated ''observation_unavailable_or_too_large'' ''agent-loop'' s)
        | Inr obs \<Rightarrow>
            let token = fresh e s in
            ((True, Some \<lparr>rv_claim = token, rv_context = run_context row obs\<rparr>),
             audit now (r_tenant row) (r_task row) ''agent_run.planner_reserved'' (r_actor row)
               [(''run'', JStr (r_id row)), (''call'', JInt (r_calls row + 1))]
               (set_run (r_tenant row) (r_id row)
                 (\<lambda>r. r\<lparr>r_status := RPlanning, r_claim := token,
                        r_lease := min (r_deadline row) (now + PLANNER_LEASE_SECONDS),
                        r_calls := r_calls r + 1, r_updated := now\<rparr>) (drawn s)))))"

definition reserve_waiting ::
  "env \<Rightarrow> int \<Rightarrow> run_row \<Rightarrow> db \<Rightarrow> (bool \<times> reservation option) \<times> db" where
  "reserve_waiting e now row s =
     (case get_task s (r_tenant row) (r_task row) of
        None \<Rightarrow> ((True, None), stop_run now row REscalated ''task_missing'' ''agent-loop'' s)
      | Some t \<Rightarrow>
          if t_status t \<in> {Queued, Running, WaitingApproval} then ((False, None), s)
          else if t_status t \<noteq> Succeeded
            then ((True, None), stop_run now row (task_verdict (t_status t))
              (''task_'' @ status_text (t_status t)) ''agent-loop'' s)
          else reserve_call e now row s)"

definition reserve_run ::
  "env \<Rightarrow> int \<Rightarrow> string \<Rightarrow> string \<Rightarrow> db \<Rightarrow> ((bool \<times> reservation option) \<times> db) res" where
  "reserve_run e now tenant run s = bindr (run_row_of s tenant run) (\<lambda>row.
     if r_status row \<notin> set ACTIVE then Inr ((False, None), s)
     else if r_deadline row \<le> now
       then Inr ((True, None), stop_run now row REscalated ''wall_deadline_exceeded'' ''agent-loop'' s)
     else case require_authority e tenant (r_channel row) (r_actor row) default_roles of
         Inl x \<Rightarrow> (if catches [Forbidden] x
             then Inr ((True, None), stop_run now row REscalated ''creator_authority_revoked'' ''agent-loop'' s)
             else Inl x)
       | Inr _ \<Rightarrow>
           if r_status row = RPlanning then
             (if r_lease row \<le> now
              then Inr ((True, None), stop_run now row REscalated ''planner_lease_expired_no_retry'' ''agent-loop'' s)
              else Inr ((False, None), s))
           else if frozen s tenant then Inr ((False, None), s)
           else if r_status row = RWaitingTask then Inr (reserve_waiting e now row s)
           else Inr (reserve_call e now row s))"

section \<open>Decisions\<close>

datatype decision =
    DTool string json
  | DFinal string "string list"
  | DAsk string

definition tool_plan :: "string \<Rightarrow> json \<Rightarrow> json" where
  "tool_plan tool args = JList [JObj [(''tool'', JStr tool), (''args'', args)]]"

definition tool_decision :: "env \<Rightarrow> run_row \<Rightarrow> fields \<Rightarrow> decision res" where
  "tool_decision e row d =
     (if set (jkeys d) \<noteq> {''action'', ''tool'', ''args''}
        then raise LoopDecisionError ''Invalid tool decision fields''
      else if \<not> is_str (jget d ''tool'') \<or> \<not> is_obj (jget d ''args'')
        then raise LoopDecisionError ''Invalid tool decision values''
      else if r_steps row \<ge> r_max_steps row then raise LoopDecisionError ''Step budget exhausted''
      else let tool = the_str (jget d ''tool'') in
        if r_channel row \<noteq> DASHBOARD_CHANNEL \<and> outbound_tool tool
          then raise Forbidden ''Conversation turn cannot send mid-loop''
        else bindr (registry_get (reg e) (jget d ''tool'')) (\<lambda>spec.
          if tl_runner spec then raise Forbidden ''Agent loop cannot plan local device actions''
          else bindr (validated e (r_tenant row) (r_agent row) (tool_plan tool (jget d ''args'')) None)
            (\<lambda>_. Inr (DTool tool (jget d ''args'')))))"

definition final_decision :: "observation list \<Rightarrow> fields \<Rightarrow> decision res" where
  "final_decision obs d =
     (if set (jkeys d) \<noteq> {''action'', ''answer'', ''evidence_ids''}
        then raise LoopDecisionError ''Invalid final decision fields''
      else case jget d ''answer'' of
          JStr answer \<Rightarrow>
            if blank answer \<or> length answer > 8000 then raise LoopDecisionError ''Invalid final answer''
            else (case jget d ''evidence_ids'' of
                JList es \<Rightarrow>
                  if \<not> (1 \<le> length es \<and> int (length es) \<le> MAX_STEPS)
                     \<or> \<not> list_all (\<lambda>v. is_str v \<and> the_str v \<in> set (map ob_evidence obs)) es
                     \<or> \<not> distinct (map the_str es)
                    then raise LoopDecisionError ''Final answer must reference actual successful observations''
                  else Inr (DFinal answer (map the_str es))
              | _ \<Rightarrow> raise LoopDecisionError ''Final answer must reference actual successful observations'')
        | _ \<Rightarrow> raise LoopDecisionError ''Invalid final answer'')"

definition ask_decision :: "fields \<Rightarrow> decision res" where
  "ask_decision d =
     (if set (jkeys d) \<noteq> {''action'', ''question''}
        then raise LoopDecisionError ''Invalid question fields''
      else case jget d ''question'' of
          JStr q \<Rightarrow> (if blank q \<or> length q > 1000
                   then raise LoopDecisionError ''Invalid clarification question'' else Inr (DAsk q))
        | _ \<Rightarrow> raise LoopDecisionError ''Invalid clarification question'')"

definition decision_of :: "env \<Rightarrow> run_row \<Rightarrow> observation list \<Rightarrow> json \<Rightarrow> decision res" where
  "decision_of e row obs j = (case j of
      JObj d \<Rightarrow> bindr (encode j) (\<lambda>t.
        if utf8_length t > 20000 then raise LoopDecisionError ''Invalid decision object''
        else if jget d ''action'' = JStr ''tool'' then tool_decision e row d
        else if jget d ''action'' = JStr ''final'' then final_decision obs d
        else if jget d ''action'' = JStr ''ask'' then ask_decision d
        else raise LoopDecisionError ''Unsupported decision action'')
    | _ \<Rightarrow> raise LoopDecisionError ''Invalid decision object'')"

section \<open>Committing a decision\<close>

text \<open>The task key of a turn: \<^verbatim>\<open>'agent-run:' + run_id + ':' + str(position)\<close>.\<close>

definition turn_key :: "run_row \<Rightarrow> string" where
  "turn_key row = ''agent-run:'' @ r_id row @ '':'' @ show_int (r_steps row)"

definition apply_tool ::
  "env \<Rightarrow> int \<Rightarrow> run_row \<Rightarrow> string \<Rightarrow> json \<Rightarrow> db \<Rightarrow> db res" where
  "apply_tool e now row tool args s =
     bindr (digest e (JObj [(''tool'', JStr tool), (''args'', args)])) (\<lambda>fp.
       if \<exists>l \<in> set (turns s). turn_of row l \<and> n_fingerprint l = fp
         then raise LoopDecisionError ''Repeated identical action blocked''
       else bindr (submit e now (r_tenant row) (r_channel row) (turn_key row) (r_agent row)
           (tool_plan tool args) (r_actor row) s) (\<lambda>(task, s1).
         if \<exists>l \<in> set (turns s1). turn_of row l \<and> n_position l = r_steps row
           then raise (OtherError ''IntegrityError'') ''UNIQUE constraint failed''
         else Inr (audit now (r_tenant row) task ''agent_run.task_linked'' (r_actor row)
           [(''run'', JStr (r_id row)), (''position'', JInt (r_steps row))]
           (set_run (r_tenant row) (r_id row)
             (\<lambda>r. r\<lparr>r_status := RWaitingTask, r_steps := r_steps r + 1, r_task := task,
                    r_claim := [], r_lease := 0, r_updated := now\<rparr>)
             (s1\<lparr>turns := turns s1 @ [\<lparr>n_tenant = r_tenant row, n_run = r_id row,
                n_position = r_steps row, n_task = task, n_fingerprint = fp\<rparr>]\<rparr>)))))"

definition apply_answer ::
  "int \<Rightarrow> run_row \<Rightarrow> run_status \<Rightarrow> string \<Rightarrow> string list \<Rightarrow> db \<Rightarrow> db" where
  "apply_answer now row status answer evidence s =
     audit now (r_tenant row) (r_task row) (''agent_run.'' @ run_status_text status) (r_actor row)
       [(''run'', JStr (r_id row)), (''evidence_ids'', jstrs evidence)]
       (set_run (r_tenant row) (r_id row)
         (\<lambda>r. r\<lparr>r_status := status, r_answer := answer, r_evidence := evidence, r_claim := [],
                r_lease := 0, r_updated := now\<rparr>) s)"

definition apply_decision :: "env \<Rightarrow> int \<Rightarrow> run_row \<Rightarrow> decision \<Rightarrow> db \<Rightarrow> db res" where
  "apply_decision e now row d s = (case d of
      DTool tool args \<Rightarrow> apply_tool e now row tool args s
    | DFinal answer evidence \<Rightarrow> Inr (apply_answer now row RSucceeded answer evidence s)
    | DAsk question \<Rightarrow> Inr (apply_answer now row RNeedsInput question [] s))"

definition repairable :: "exn \<Rightarrow> bool" where
  "repairable x \<longleftrightarrow> catches [ValueError, LookupError] x \<and> \<not> catches [Conflict, ObservationUnavailable] x"

definition repair_char :: "char \<Rightarrow> bool" where
  "repair_char c \<longleftrightarrow> is_alnum c \<or> c \<in> set '' .,:;()_-'' \<or> code_of c = 39"

definition repair_reason :: "exn \<Rightarrow> string" where
  "repair_reason x = (let t = exn_text x in
     if 1 \<le> length t \<and> length t \<le> 200 \<and> list_all repair_char t then t else GENERIC_REPAIR_REASON)"

definition repair_call ::
  "int \<Rightarrow> run_row \<Rightarrow> observation list \<Rightarrow> json \<Rightarrow> exn \<Rightarrow> db \<Rightarrow> fields \<times> db" where
  "repair_call now row obs decision x s =
     (run_context row obs @ [(''repair'', JObj [(''decision'', decision),
        (''error'', JStr (repair_reason x))])],
      audit now (r_tenant row) (r_task row) ''agent_run.planner_repair'' (r_actor row)
        [(''run'', JStr (r_id row)), (''call'', JInt (r_calls row + 1)),
         (''reason'', JStr (repair_reason x))]
        (set_run (r_tenant row) (r_id row)
          (\<lambda>r. r\<lparr>r_calls := r_calls r + 1,
                 r_lease := min (r_deadline row) (now + PLANNER_LEASE_SECONDS), r_updated := now\<rparr>) s))"

datatype commit_outcome = Stale | Committed | Repair fields

text \<open>The decision inside its savepoint, and what a rejection does after the rollback.\<close>

definition rejection_classes :: "exn_class list" where
  "rejection_classes = [ValueError, LookupError, PermissionError, RateLimited]"

definition commit_decision ::
  "env \<Rightarrow> int \<Rightarrow> run_row \<Rightarrow> json \<Rightarrow> bool \<Rightarrow> db \<Rightarrow> (commit_outcome \<times> db) res" where
  "commit_decision e now row j repair s =
     (case observations s row of
        Inl x \<Rightarrow>
          (if catches rejection_classes x
           then Inr (Committed, stop_run now row REscalated ''planner_decision_rejected'' ''agent-loop'' s)
           else Inl x)
      | Inr obs \<Rightarrow> (case bindr (decision_of e row obs j) (\<lambda>d. apply_decision e now row d s) of
          Inr t \<Rightarrow> Inr (Committed, t)
        | Inl x \<Rightarrow>
            if \<not> catches rejection_classes x then Inl x
            else if repair \<and> repairable x \<and> r_calls row < r_max_calls row
              then (case repair_call now row obs j x s of (ctx, t) \<Rightarrow> Inr (Repair ctx, t))
            else Inr (Committed, stop_run now row REscalated ''planner_decision_rejected'' ''agent-loop'' s)))"

text \<open>\<open>None\<close> is a failed planner call (\<^verbatim>\<open>failure=True\<close>).\<close>

definition commit_run ::
  "env \<Rightarrow> int \<Rightarrow> string \<Rightarrow> string \<Rightarrow> string \<Rightarrow> json option \<Rightarrow> bool \<Rightarrow> db \<Rightarrow> (commit_outcome \<times> db) res" where
  "commit_run e now tenant run token decision repair s = bindr (run_row_of s tenant run) (\<lambda>row.
     if r_status row \<noteq> RPlanning \<or> r_claim row \<noteq> token then Inr (Stale, s)
     else if r_deadline row \<le> now \<or> r_lease row \<le> now
       then Inr (Committed, stop_run now row REscalated ''planner_result_arrived_after_deadline'' ''agent-loop'' s)
     else case bindr (require_active e s tenant) (\<lambda>_.
         require_authority e tenant (r_channel row) (r_actor row) default_roles) of
         Inl x \<Rightarrow> (if catches [Forbidden] x
           then Inr (Committed, stop_run now row REscalated
             ''authority_or_freeze_changed_during_planning'' ''agent-loop'' s)
           else Inl x)
       | Inr _ \<Rightarrow> (case decision of
           None \<Rightarrow> Inr (Committed, stop_run now row REscalated ''planner_failed_no_retry'' ''agent-loop'' s)
         | Some j \<Rightarrow> commit_decision e now row j repair s))"

section \<open>One planning turn\<close>

definition planner_dispatch_allowed :: "env \<Rightarrow> int \<Rightarrow> string \<Rightarrow> string \<Rightarrow> string \<Rightarrow> db \<Rightarrow> bool res" where
  "planner_dispatch_allowed e now tenant run token s = bindr (run_row_of s tenant run) (\<lambda>row.
     if r_status row \<noteq> RPlanning \<or> r_claim row \<noteq> token \<or> r_lease row \<le> now \<or> r_deadline row \<le> now
     then Inr False
     else bindr (require_active e s tenant) (\<lambda>_.
       bindr (require_authority e tenant (r_channel row) (r_actor row) default_roles) (\<lambda>_. Inr True)))"

text \<open>A planner call: the decision or the exception, with the state and the instant it ended in.\<close>

type_synonym run_planner = "string \<Rightarrow> fields \<Rightarrow> int \<Rightarrow> db \<Rightarrow> json res \<times> int \<times> db"

fun plan_run ::
  "env \<Rightarrow> string \<Rightarrow> string \<Rightarrow> string \<Rightarrow> run_planner \<Rightarrow> nat \<Rightarrow> fields \<Rightarrow> int \<Rightarrow> db
     \<Rightarrow> (nat \<times> db) res" where
  "plan_run e tenant run token planner repairs ctx now s =
     (case planner_dispatch_allowed e now tenant run token s of
        Inr True \<Rightarrow> (case planner tenant ctx now s of
            (Inl _, later, s1) \<Rightarrow>
              bindr (commit_run e later tenant run token None False s1) (\<lambda>(_, t). Inr (1, t))
          | (Inr j, later, s1) \<Rightarrow>
              bindr (commit_run e later tenant run token (Some j) (repairs > 0) s1) (\<lambda>(o', t).
                case o' of
                  Repair ctx' \<Rightarrow>
                    (case repairs of
                       0 \<Rightarrow> Inr (1, t)
                     | Suc n \<Rightarrow> bindr (plan_run e tenant run token planner n ctx' later t)
                         (\<lambda>(k, u). Inr (Suc k, u)))
                | _ \<Rightarrow> Inr (1, t)))
      | _ \<Rightarrow> bindr (commit_run e now tenant run token None False s) (\<lambda>(_, t). Inr (0, t)))"

definition candidates :: "db \<Rightarrow> string \<Rightarrow> string list" where
  "candidates s tenant = take 100 (map r_id (sort_key r_created (sort_key r_id
     (filter (\<lambda>r. r_tenant r = tenant \<and> r_status r \<in> set ACTIVE) (runs s)))))"

text \<open>\<^verbatim>\<open>reserve_next\<close>: the first candidate that is due a call; runs it retires on the way stay
  retired.\<close>

fun reserve_first ::
  "env \<Rightarrow> int \<Rightarrow> string \<Rightarrow> string list \<Rightarrow> string list \<Rightarrow> bool \<Rightarrow> db
     \<Rightarrow> ((bool \<times> (string \<times> reservation) option) \<times> db) res" where
  "reserve_first e now tenant skip [] changed s = Inr ((changed, None), s)"
| "reserve_first e now tenant skip (run # rest) changed s =
     (if run \<in> set skip then reserve_first e now tenant skip rest changed s
      else bindr (reserve_run e now tenant run s) (\<lambda>((moved, r), t).
        case r of
          Some v \<Rightarrow> Inr ((True, Some (run, v)), t)
        | None \<Rightarrow> reserve_first e now tenant skip rest (changed \<or> moved) t))"

definition reserve_next ::
  "env \<Rightarrow> int \<Rightarrow> string \<Rightarrow> string list \<Rightarrow> db \<Rightarrow> ((bool \<times> (string \<times> reservation) option) \<times> db) res" where
  "reserve_next e now tenant skip s = reserve_first e now tenant skip (candidates s tenant) False s"

fun tick_first ::
  "env \<Rightarrow> string \<Rightarrow> run_planner \<Rightarrow> nat \<Rightarrow> string list \<Rightarrow> int \<Rightarrow> db \<Rightarrow> (bool \<times> db) res" where
  "tick_first e tenant planner repairs [] now s = Inr (False, s)"
| "tick_first e tenant planner repairs (run # rest) now s =
     bindr (reserve_run e now tenant run s) (\<lambda>((changed, r), t).
       case r of
         Some v \<Rightarrow> bindr (plan_run e tenant run (rv_claim v) planner repairs (rv_context v) now t)
           (\<lambda>(_, u). Inr (True, u))
       | None \<Rightarrow> if changed then Inr (True, t) else tick_first e tenant planner repairs rest now t)"

text \<open>\<open>repairs\<close> is what \<^verbatim>\<open>_repairs\<close> returns: 0, or \<open>MAX_DECISION_REPAIRS\<close> for a planner that
  opts in.\<close>

definition tick_run ::
  "env \<Rightarrow> string \<Rightarrow> run_planner \<Rightarrow> nat \<Rightarrow> int \<Rightarrow> db \<Rightarrow> (bool \<times> db) res" where
  "tick_run e tenant planner repairs now s =
     tick_first e tenant planner repairs (candidates s tenant) now s"

end
