(* ===== verification/Contracts.thy ===== *)
theory Contracts
  imports Prelude
begin

text \<open>
  The two interfaces the runtime's tables share. A \<open>write_once\<close> table keeps the first row written
  under a key (event keys, task keys, sync pages, record versions, reservation keys); its client law
  is that the first writer wins. A \<open>lease\<close> is a claim on a row: it is granted only while nobody
  holds the row and replaces every earlier claim; its client law is that a row never has two
  holders.
\<close>

section \<open>Write-once tables\<close>

definition put_once ::
  "('s \<Rightarrow> 'k \<Rightarrow> 'v option) \<Rightarrow> ('k \<Rightarrow> 'v \<Rightarrow> 's \<Rightarrow> 's) \<Rightarrow> 'k \<times> 'v \<Rightarrow> 's \<Rightarrow> 's" where
  "put_once look put kv s = (case look s (fst kv) of Some _ \<Rightarrow> s | None \<Rightarrow> put (fst kv) (snd kv) s)"

locale write_once =
  fixes look :: "'s \<Rightarrow> 'k \<Rightarrow> 'v option"
    and put :: "'k \<Rightarrow> 'v \<Rightarrow> 's \<Rightarrow> 's"
    and fits :: "'k \<Rightarrow> 'v \<Rightarrow> bool"
  assumes look_put: "look s k = None \<Longrightarrow> fits k v \<Longrightarrow> look (put k v s) j = (if j = k then Some v else look s j)"
begin

lemma put_once_look:
  "fits k v \<Longrightarrow> look (put_once look put (k, v) s) j =
     (if j = k \<and> look s k = None then Some v else look s j)"
  by (auto simp: put_once_def look_put split: option.splits)

lemma kept: "fits k v \<Longrightarrow> look s j = Some w \<Longrightarrow> look (put_once look put (k, v) s) j = Some w"
  by (auto simp: put_once_look)

text \<open>A sequence of writes leaves under each key what was there, or the first value written.\<close>

lemma first_writer_wins:
  "\<forall>(k, v) \<in> set kvs. fits k v \<Longrightarrow>
     look (fold (put_once look put) kvs s) j =
       (case look s j of Some w \<Rightarrow> Some w | None \<Rightarrow> map_of kvs j)"
proof (induction kvs arbitrary: s)
  case (Cons kv kvs)
  then show ?case
    by (cases kv) (auto simp: put_once_look split: option.splits)
qed (auto split: option.splits)

lemma writes_keep:
  "\<forall>(k, v) \<in> set kvs. fits k v \<Longrightarrow> look s j = Some w \<Longrightarrow>
     look (fold (put_once look put) kvs s) j = Some w"
  by (simp add: first_writer_wins)

end

section \<open>Leases\<close>

locale lease =
  fixes held :: "'s \<Rightarrow> 'k \<Rightarrow> int \<Rightarrow> 't \<Rightarrow> bool"
    and grant :: "int \<Rightarrow> 'k \<Rightarrow> 's \<Rightarrow> ('t \<times> 's) option"
  assumes grant_idle: "grant now k s = Some (t, s') \<Longrightarrow> \<not> held s k now u"
    and grant_sole: "grant now k s = Some (t, s') \<Longrightarrow> held s' k m u \<Longrightarrow> u = t"
    and held_before: "held s k m u \<Longrightarrow> n \<le> m \<Longrightarrow> held s k n u"
begin

text \<open>After a grant, a token that held the row before no longer does, now or later.\<close>

lemma stale_after_grant:
  "grant now k s = Some (t, s') \<Longrightarrow> u \<noteq> t \<Longrightarrow> \<not> held s' k m u"
  using grant_sole by blast

text \<open>Two holders of a row are never the product of one grant after the other.\<close>

lemma no_grant_while_held:
  "held s k m u \<Longrightarrow> now \<le> m \<Longrightarrow> grant now k s = None"
  using grant_idle held_before by (cases "grant now k s") fastforce+

end

text \<open>A lease whose grants last a fixed time: the granted token holds the row until then.\<close>

locale timed_lease = lease held grant
  for held :: "'s \<Rightarrow> 'k \<Rightarrow> int \<Rightarrow> 't \<Rightarrow> bool"
    and grant :: "int \<Rightarrow> 'k \<Rightarrow> 's \<Rightarrow> ('t \<times> 's) option" +
  fixes duration :: int
    and usable :: "'t \<Rightarrow> bool"
  assumes grant_held: "grant now k s = Some (t, s') \<Longrightarrow> usable t \<Longrightarrow> m < now + duration \<Longrightarrow> held s' k m t"
begin

lemma held_iff: "grant now k s = Some (t, s') \<Longrightarrow> usable t \<Longrightarrow> m < now + duration \<Longrightarrow>
    held s' k m u \<longleftrightarrow> u = t"
  using grant_sole grant_held by blast

lemma second_grant_waits:
  "grant now k s = Some (t, s') \<Longrightarrow> usable t \<Longrightarrow> now \<le> later \<Longrightarrow> later < now + duration \<Longrightarrow>
     grant later k s' = None"
  using no_grant_while_held grant_held by blast

end

end
