(* ===== verification/Agent_Loop_Props.thy ===== *)
theory Agent_Loop_Props
  imports Agent_Loop Contracts Demo_Env
begin

text \<open>
  What the planning loop guarantees: a run has one planner call in flight, spends at most the calls
  and steps it was created with, and answers only from steps that succeeded.
\<close>

section \<open>Frames\<close>

lemma set_run_fields [simp]:
  "runs (set_run tenant run f s) = upd_where (\<lambda>r. r_tenant r = tenant \<and> r_id r = run) f (runs s)"
  "turns (set_run tenant run f s) = turns s" "tasks (set_run tenant run f s) = tasks s"
  "steps (set_run tenant run f s) = steps s" "freezes (set_run tenant run f s) = freezes s"
  by (simp_all add: set_run_def)

lemma retire_runs [simp]:
  "runs (retire_steps now row reason s) = runs s" "turns (retire_steps now row reason s) = turns s"
  "runs (retire_approvals now row actor s) = runs s"
  "turns (retire_approvals now row actor s) = turns s"
  by (simp_all add: retire_steps_def retire_approvals_def)

lemma stop_task_runs:
  "stop_task now row status reason actor s = (st, why, t) \<Longrightarrow> runs t = runs s \<and> turns t = turns s"
  by (auto simp: stop_task_def Let_def split: if_split_asm option.splits)

lemma stop_task_status:
  "stop_task now row status reason actor s = (st, why, t) \<Longrightarrow> st \<in> {status, REscalated, RUncertain}"
  by (auto simp: stop_task_def Let_def split: if_split_asm option.splits)

lemma stop_run_runs:
  obtains st why where "st \<in> {status, REscalated, RUncertain}"
    and "runs (stop_run now row status reason actor s) =
      upd_where (\<lambda>r. r_tenant r = r_tenant row \<and> r_id r = r_id row)
        (\<lambda>r. r\<lparr>r_status := st, r_error := why, r_claim := [], r_lease := 0, r_updated := now\<rparr>) (runs s)"
    and "turns (stop_run now row status reason actor s) = turns s"
proof -
  obtain st why t where t: "stop_task now row status reason actor s = (st, why, t)"
    by (metis prod_cases3)
  show ?thesis
    using stop_task_runs[OF t] stop_task_status[OF t]
    by (intro that[of st why]) (simp_all add: stop_run_def t)
qed

lemma find_run_Some:
  "find_run s tenant run = Some r \<Longrightarrow> r \<in> set (runs s) \<and> r_tenant r = tenant \<and> r_id r = run"
  by (auto simp: find_run_def dest: find_Some_mem)

lemma run_row_of_Inr:
  "run_row_of s tenant run = Inr r \<longleftrightarrow> find_run s tenant run = Some r"
  by (auto simp: run_row_of_def split: option.splits)

lemma find_run_upd:
  assumes "\<And>r. r_tenant (f r) = r_tenant r \<and> r_id (f r) = r_id r"
    and "runs t = upd_where (\<lambda>r. r_tenant r = tenant \<and> r_id r = run) f (runs s)"
  shows "find_run t tenant run = map_option f (find_run s tenant run)"
proof -
  have "find_run t tenant run = (case find_run s tenant run of None \<Rightarrow> None
      | Some r \<Rightarrow> Some (if r_tenant r = tenant \<and> r_id r = run then f r else r))"
    unfolding find_run_def assms(2) using assms(1) by (intro find_upd_where) simp
  then show ?thesis by (auto split: option.splits dest: find_run_Some)
qed

text \<open>Submitting a task leaves the runs and their turns alone.\<close>

lemma insert_steps_runs [simp]:
  "runs (insert_steps e now tenant task approver pos vs s) = runs s"
  "turns (insert_steps e now tenant task approver pos vs s) = turns s"
  by (induction vs arbitrary: pos s) (simp_all add: insert_step_def Let_def)

lemma create_task_runs:
  "create_task e now tenant channel key agent plan actor vs approver s = Inr (tid, t) \<Longrightarrow>
     runs t = runs s \<and> turns t = turns s"
  by (auto simp: create_task_def res_simps Let_def split: option.splits if_split_asm)

lemma submit_runs:
  "submit e now tenant channel key agent plan actor s = Inr (tid, t) \<Longrightarrow>
     runs t = runs s \<and> turns t = turns s"
  by (auto simp: submit_def res_simps Let_def split: if_split_asm dest: create_task_runs)

section \<open>The shape of a commit and of a reservation\<close>

lemma apply_toolE:
  assumes "apply_tool e now row tool args s = Inr t"
  obtains task fp where
    "runs t = upd_where (\<lambda>r. r_tenant r = r_tenant row \<and> r_id r = r_id row)
      (\<lambda>r. r\<lparr>r_status := RWaitingTask, r_steps := r_steps r + 1, r_task := task,
             r_claim := [], r_lease := 0, r_updated := now\<rparr>) (runs s)"
    and "turns t = turns s @ [\<lparr>n_tenant = r_tenant row, n_run = r_id row,
      n_position = r_steps row, n_task = task, n_fingerprint = fp\<rparr>]"
    and "\<not> (\<exists>l \<in> set (turns s). turn_of row l \<and> n_fingerprint l = fp)"
proof -
  from assms obtain fp task s1 where
    fp: "\<not> (\<exists>l \<in> set (turns s). turn_of row l \<and> n_fingerprint l = fp)"
    and sub: "submit e now (r_tenant row) (r_channel row) (turn_key row) (r_agent row)
        (tool_plan tool args) (r_actor row) s = Inr (task, s1)"
    and t: "t = audit now (r_tenant row) task ''agent_run.task_linked'' (r_actor row)
           [(''run'', JStr (r_id row)), (''position'', JInt (r_steps row))]
           (set_run (r_tenant row) (r_id row)
             (\<lambda>r. r\<lparr>r_status := RWaitingTask, r_steps := r_steps r + 1, r_task := task,
                    r_claim := [], r_lease := 0, r_updated := now\<rparr>)
             (s1\<lparr>turns := turns s1 @ [\<lparr>n_tenant = r_tenant row, n_run = r_id row,
                n_position = r_steps row, n_task = task, n_fingerprint = fp\<rparr>]\<rparr>))"
    by (auto simp: apply_tool_def res_simps split: if_split_asm)
  show ?thesis
    using submit_runs[OF sub] fp by (intro that[of task fp]) (simp_all add: t)
qed

text \<open>
  What a transaction of the loop does to the row of its run: at most the changes below, all of them
  on that run's row.
\<close>

definition run_change :: "run_row \<Rightarrow> run_row \<Rightarrow> bool" where
  "run_change r r' \<longleftrightarrow> r_tenant r' = r_tenant r \<and> r_id r' = r_id r
     \<and> r_max_steps r' = r_max_steps r \<and> r_max_calls r' = r_max_calls r
     \<and> r_deadline r' = r_deadline r \<and> r_key r' = r_key r \<and> r_agent r' = r_agent r
     \<and> r_actor r' = r_actor r \<and> r_input r' = r_input r \<and> r_channel r' = r_channel r
     \<and> (r' = r
        \<or> (r_status r \<notin> set TERMINAL \<and>
            (r_calls r' = r_calls r \<and> r_steps r' = r_steps r \<and> r_status r' \<in> set TERMINAL
             \<or> r_calls r' = r_calls r \<and> r_steps r' = r_steps r + 1 \<and> r_steps r < r_max_steps r
                 \<and> r_status r' = RWaitingTask
             \<or> r_calls r' = r_calls r + 1 \<and> r_calls r < r_max_calls r \<and> r_steps r' = r_steps r
                 \<and> r_status r' = RPlanning)))"

definition same_other_runs :: "string \<Rightarrow> string \<Rightarrow> db \<Rightarrow> db \<Rightarrow> bool" where
  "same_other_runs tenant run s t \<longleftrightarrow> (\<exists>f. runs t =
     upd_where (\<lambda>r. r_tenant r = tenant \<and> r_id r = run) f (runs s)
     \<and> (\<forall>r. find_run s tenant run = Some r \<longrightarrow> run_change r (f r))
     \<and> (\<forall>r. r_tenant (f r) = r_tenant r \<and> r_id (f r) = r_id r))"

lemma same_other_runs_refl: "runs t = runs s \<Longrightarrow> same_other_runs tenant run s t"
  unfolding same_other_runs_def
  by (rule exI[of _ id]) (simp add: upd_where_def run_change_def map_idI)

lemma stop_change:
  assumes "find_run s tenant run = Some row" and "r_status row \<notin> set TERMINAL"
    and "status \<in> set TERMINAL"
  shows "same_other_runs tenant run s (stop_run now row status reason actor s)"
proof -
  obtain st why where st: "st \<in> {status, REscalated, RUncertain}"
    and runs: "runs (stop_run now row status reason actor s) =
      upd_where (\<lambda>r. r_tenant r = r_tenant row \<and> r_id r = r_id row)
        (\<lambda>r. r\<lparr>r_status := st, r_error := why, r_claim := [], r_lease := 0, r_updated := now\<rparr>) (runs s)"
    by (rule stop_run_runs)
  have "st \<in> set TERMINAL" using st assms(3) by (auto simp: TERMINAL_def)
  then show ?thesis
    unfolding same_other_runs_def runs
    using find_run_Some[OF assms(1)] assms(1,2) by (intro exI conjI) (auto simp: run_change_def)
qed

lemma active_not_terminal: "st \<in> set ACTIVE \<longleftrightarrow> st \<notin> set TERMINAL"
  by (cases st) (simp_all add: ACTIVE_def TERMINAL_def)

end
