(* ===== verification/Run_System.thy ===== *)
theory Run_System
  imports Agent_Loop_Props
begin

text \<open>
  The transactions of the planning loop as a step relation, and what every interleaving of them keeps:
  identifiers are unique, a run stays within the calls and steps it was created with, and a run that
  has ended never changes again. Every other transaction of the runtime leaves the runs alone and is
  the step \<open>other\<close>.
\<close>

section \<open>Every transaction changes one run\<close>

lemma other_runsI:
  assumes "find_run s tenant run = Some row"
    and "runs t = upd_where (\<lambda>r. r_tenant r = tenant \<and> r_id r = run) f (runs s)"
    and "run_change row (f row)"
    and "\<And>r. r_tenant (f r) = r_tenant r \<and> r_id (f r) = r_id r"
  shows "same_other_runs tenant run s t"
  unfolding same_other_runs_def using assms by auto

lemma reserve_call_change:
  assumes row: "find_run s tenant run = Some row" and live: "r_status row \<notin> set TERMINAL"
    and call: "reserve_call e now row s = (res, t)"
  shows "same_other_runs tenant run s t"
proof -
  note id = find_run_Some[OF row]
  have esc: "REscalated \<in> set TERMINAL" by (simp add: TERMINAL_def)
  note stopped = stop_change[OF row live esc]
  show ?thesis
  proof (cases "r_calls row \<ge> r_max_calls row")
    case True
    then show ?thesis using call stopped by (auto simp: reserve_call_def)
  next
    case left: False
    show ?thesis
    proof (cases "observations s row")
      case (Inl x)
      then show ?thesis using call left stopped by (auto simp: reserve_call_def)
    next
      case (Inr obs)
      let ?f = "\<lambda>r. r\<lparr>r_status := RPlanning, r_claim := fresh e s,
        r_lease := min (r_deadline row) (now + PLANNER_LEASE_SECONDS), r_calls := r_calls r + 1,
        r_updated := now\<rparr>"
      have "runs t = upd_where (\<lambda>r. r_tenant r = tenant \<and> r_id r = run) ?f (runs s)"
        using call left Inr id by (auto simp: reserve_call_def Let_def)
      then show ?thesis
        by (rule other_runsI[OF row]) (use left live in \<open>auto simp: run_change_def\<close>)
    qed
  qed
qed

lemma reserve_waiting_change:
  assumes row: "find_run s tenant run = Some row" and live: "r_status row \<notin> set TERMINAL"
    and call: "reserve_waiting e now row s = (res, t)"
  shows "same_other_runs tenant run s t"
proof -
  have stopped: "same_other_runs tenant run s (stop_run now row st reason ''agent-loop'' s)"
    if "st \<in> set TERMINAL" for st reason
    by (rule stop_change[OF row live that])
  have verdict: "task_verdict st \<in> set TERMINAL" for st
    by (simp add: task_verdict_def TERMINAL_def)
  have esc: "REscalated \<in> set TERMINAL" by (simp add: TERMINAL_def)
  show ?thesis
    using call stopped[OF verdict] stopped[OF esc] reserve_call_change[OF row live]
    by (auto simp: reserve_waiting_def same_other_runs_refl split: option.splits if_split_asm)
qed

lemma reserve_run_change:
  assumes "reserve_run e now tenant run s = Inr (res, t)"
  shows "same_other_runs tenant run s t"
proof -
  obtain row where row: "find_run s tenant run = Some row"
    using assms by (auto simp: reserve_run_def res_simps run_row_of_Inr)
  show ?thesis
  proof (cases "r_status row \<in> set ACTIVE")
    case False
    then show ?thesis
      using assms row by (auto simp: reserve_run_def run_row_of_def same_other_runs_refl)
  next
    case True
    then have live: "r_status row \<notin> set TERMINAL" by (simp add: active_not_terminal)
    have esc: "REscalated \<in> set TERMINAL" by (simp add: TERMINAL_def)
    note stopped = stop_change[OF row live esc]
    show ?thesis
      using assms row True stopped reserve_call_change[OF row live] reserve_waiting_change[OF row live]
      by (auto simp: reserve_run_def run_row_of_def same_other_runs_refl Let_def
          split: if_split_asm sum.splits)
  qed
qed

lemma tool_decision_steps:
  "tool_decision e row d = Inr (DTool tool args) \<Longrightarrow> r_steps row < r_max_steps row"
  by (auto simp: tool_decision_def Let_def split: if_split_asm)

lemma final_decision_form: "final_decision obs d = Inr x \<Longrightarrow> \<exists>a es. x = DFinal a es"
  by (auto simp: final_decision_def split: if_split_asm json.splits)

lemma ask_decision_form: "ask_decision d = Inr x \<Longrightarrow> \<exists>q. x = DAsk q"
  by (auto simp: ask_decision_def split: if_split_asm json.splits)

lemma tool_decision_form: "tool_decision e row d = Inr x \<Longrightarrow> \<exists>tool args. x = DTool tool args"
  by (auto simp: tool_decision_def Let_def res_simps split: if_split_asm)

lemma decision_cases:
  assumes "decision_of e row obs j = Inr x"
  shows "(\<exists>d tool args. j = JObj d \<and> tool_decision e row d = Inr x \<and> x = DTool tool args)
    \<or> (\<exists>d a es. j = JObj d \<and> final_decision obs d = Inr x \<and> x = DFinal a es)
    \<or> (\<exists>d q. j = JObj d \<and> ask_decision d = Inr x \<and> x = DAsk q)"
proof -
  from assms obtain d where d: "j = JObj d" by (auto simp: decision_of_def split: json.splits)
  with assms consider "tool_decision e row d = Inr x" | "final_decision obs d = Inr x"
    | "ask_decision d = Inr x"
    by (auto simp: decision_of_def res_simps split: if_split_asm)
  then show ?thesis
  proof cases
    case 1
    then show ?thesis using d tool_decision_form by metis
  next
    case 2
    then show ?thesis using d final_decision_form by metis
  next
    case 3
    then show ?thesis using d ask_decision_form by metis
  qed
qed

text \<open>The row a decision leaves: the run waits for the task of its step, or has ended.\<close>

definition waits_for :: "int \<Rightarrow> string \<Rightarrow> run_row \<Rightarrow> run_row" where
  "waits_for now task r = r\<lparr>r_status := RWaitingTask, r_steps := r_steps r + 1, r_task := task,
     r_claim := [], r_lease := 0, r_updated := now\<rparr>"

definition ended :: "int \<Rightarrow> run_status \<Rightarrow> string \<Rightarrow> string list \<Rightarrow> run_row \<Rightarrow> run_row" where
  "ended now status answer evidence r = r\<lparr>r_status := status, r_answer := answer,
     r_evidence := evidence, r_claim := [], r_lease := 0, r_updated := now\<rparr>"

lemma decided_ids [simp]:
  "r_tenant (waits_for now task r) = r_tenant r" "r_id (waits_for now task r) = r_id r"
  "r_tenant (ended now st a es r) = r_tenant r" "r_id (ended now st a es r) = r_id r"
  by (simp_all add: waits_for_def ended_def)

lemma apply_decision_runs:
  assumes row: "find_run s tenant run = Some row"
    and dec: "decision_of e row obs j = Inr d" and app: "apply_decision e now row d s = Inr t"
  shows "(\<exists>task. r_steps row < r_max_steps row \<and> runs t =
        upd_where (\<lambda>r. r_tenant r = tenant \<and> r_id r = run) (waits_for now task) (runs s))
    \<or> (\<exists>a es d'. j = JObj d' \<and> final_decision obs d' = Inr (DFinal a es) \<and> runs t =
        upd_where (\<lambda>r. r_tenant r = tenant \<and> r_id r = run) (ended now RSucceeded a es) (runs s))
    \<or> (\<exists>q. runs t =
        upd_where (\<lambda>r. r_tenant r = tenant \<and> r_id r = run) (ended now RNeedsInput q []) (runs s))"
proof -
  have id: "r_tenant row = tenant" "r_id row = run" using find_run_Some[OF row] by simp_all
  from decision_cases[OF dec] show ?thesis
  proof (elim disjE exE conjE)
    fix d' tool args assume td: "tool_decision e row d' = Inr d" and d: "d = DTool tool args"
    from app d have "apply_tool e now row tool args s = Inr t" by (simp add: apply_decision_def)
    then obtain task where "runs t = upd_where (\<lambda>r. r_tenant r = r_tenant row \<and> r_id r = r_id row)
        (waits_for now task) (runs s)"
      unfolding waits_for_def[abs_def] by (rule apply_toolE) blast
    then show ?thesis using tool_decision_steps td d id by metis
  next
    fix d' a es assume j: "j = JObj d'" and f: "final_decision obs d' = Inr d"
      and d: "d = DFinal a es"
    have "t = apply_answer now row RSucceeded a es s"
      using app d by (simp add: apply_decision_def)
    then have "runs t = upd_where (\<lambda>r. r_tenant r = tenant \<and> r_id r = run)
        (ended now RSucceeded a es) (runs s)"
      by (simp add: apply_answer_def id ended_def[abs_def])
    with j f d show ?thesis by metis
  next
    fix d' q assume d: "d = DAsk q"
    have "t = apply_answer now row RNeedsInput q [] s"
      using app d by (simp add: apply_decision_def)
    then have "runs t = upd_where (\<lambda>r. r_tenant r = tenant \<and> r_id r = run)
        (ended now RNeedsInput q []) (runs s)"
      by (simp add: apply_answer_def id ended_def[abs_def])
    then show ?thesis by metis
  qed
qed

lemma decided_change:
  "r_status r \<notin> set TERMINAL \<Longrightarrow> r_steps r < r_max_steps r \<Longrightarrow> run_change r (waits_for now task r)"
  "r_status r \<notin> set TERMINAL \<Longrightarrow> run_change r (ended now RSucceeded a es r)"
  "r_status r \<notin> set TERMINAL \<Longrightarrow> run_change r (ended now RNeedsInput a es r)"
  by (simp_all add: run_change_def waits_for_def ended_def TERMINAL_def)

lemma apply_decision_change:
  assumes row: "find_run s tenant run = Some row" and live: "r_status row \<notin> set TERMINAL"
    and dec: "decision_of e row obs j = Inr d" and app: "apply_decision e now row d s = Inr t"
  shows "same_other_runs tenant run s t"
  using apply_decision_runs[OF row dec app]
proof (elim disjE exE conjE)
  fix task
  assume steps: "r_steps row < r_max_steps row"
    and "runs t = upd_where (\<lambda>r. r_tenant r = tenant \<and> r_id r = run) (waits_for now task) (runs s)"
  then show ?thesis
    by - (rule other_runsI[OF row], assumption, simp_all add: decided_change[OF live])
next
  fix a es
  assume "runs t = upd_where (\<lambda>r. r_tenant r = tenant \<and> r_id r = run) (ended now RSucceeded a es) (runs s)"
  then show ?thesis by (rule other_runsI[OF row]) (simp_all add: decided_change[OF live])
next
  fix q
  assume "runs t = upd_where (\<lambda>r. r_tenant r = tenant \<and> r_id r = run) (ended now RNeedsInput q []) (runs s)"
  then show ?thesis by (rule other_runsI[OF row]) (simp_all add: decided_change[OF live])
qed

lemma commit_decision_change:
  assumes row: "find_run s tenant run = Some row" and plan: "r_status row = RPlanning"
    and com: "commit_decision e now row j repair s = Inr (o', t)"
  shows "same_other_runs tenant run s t"
proof -
  have live: "r_status row \<notin> set TERMINAL" using plan by (simp add: TERMINAL_def)
  have esc: "REscalated \<in> set TERMINAL" by (simp add: TERMINAL_def)
  note stopped = stop_change[OF row live esc]
  show ?thesis
  proof (cases "observations s row")
    case (Inl x)
    then show ?thesis using com stopped by (auto simp: commit_decision_def split: if_split_asm)
  next
    case obs: (Inr obs)
    show ?thesis
    proof (cases "bindr (decision_of e row obs j) (\<lambda>d. apply_decision e now row d s)")
      case (Inr u)
      then obtain d where "decision_of e row obs j = Inr d" "apply_decision e now row d s = Inr u"
        by (auto simp: res_simps)
      from apply_decision_change[OF row live this] show ?thesis
        using com obs Inr by (simp add: commit_decision_def)
    next
      case (Inl x)
      let ?f = "\<lambda>r. r\<lparr>r_calls := r_calls r + 1,
        r_lease := min (r_deadline row) (now + PLANNER_LEASE_SECONDS), r_updated := now\<rparr>"
      have "runs (snd (repair_call now row obs j x s)) =
          upd_where (\<lambda>r. r_tenant r = tenant \<and> r_id r = run) ?f (runs s)"
        using find_run_Some[OF row] by (simp add: repair_call_def)
      moreover have "r_calls row < r_max_calls row \<Longrightarrow> run_change row (?f row)"
        using live plan by (simp add: run_change_def)
      ultimately have "r_calls row < r_max_calls row \<Longrightarrow>
          same_other_runs tenant run s (snd (repair_call now row obs j x s))"
        by - (rule other_runsI[OF row], assumption, simp_all)
      then show ?thesis
        using com obs Inl stopped by (auto simp: commit_decision_def split: if_split_asm prod.splits)
    qed
  qed
qed

lemma commit_run_change:
  assumes com: "commit_run e now tenant run token j repair s = Inr (o', t)"
  shows "same_other_runs tenant run s t"
proof -
  obtain row where row: "find_run s tenant run = Some row"
    using com by (auto simp: commit_run_def res_simps run_row_of_Inr)
  show ?thesis
  proof (cases "r_status row \<noteq> RPlanning \<or> r_claim row \<noteq> token")
    case True
    then show ?thesis
      using com row by (auto simp: commit_run_def run_row_of_def same_other_runs_refl)
  next
    case False
    then have plan: "r_status row = RPlanning" by simp
    then have live: "r_status row \<notin> set TERMINAL" by (simp add: TERMINAL_def)
    have esc: "REscalated \<in> set TERMINAL" by (simp add: TERMINAL_def)
    show ?thesis
      using com row False stop_change[OF row live esc] commit_decision_change[OF row plan]
      by (auto simp: commit_run_def run_row_of_def split: if_split_asm sum.splits option.splits)
  qed
qed

lemma cancel_run_change:
  assumes "cancel_run e now tenant run actor s = Inr (st, t)"
  shows "same_other_runs tenant run s t"
proof -
  obtain row where row: "find_run s tenant run = Some row"
    using assms by (auto simp: cancel_run_def res_simps run_row_of_Inr)
  have can: "RCancelled \<in> set TERMINAL" by (simp add: TERMINAL_def)
  show ?thesis
    using assms row stop_change[OF row _ can]
    by (auto simp: cancel_run_def run_row_of_def Let_def res_simps same_other_runs_refl
        split: if_split_asm option.splits)
qed

lemma create_run_runs:
  assumes "create_run e now tenant key agent input actor max_steps max_seconds channel s = Inr (rid, t)"
  shows "t = s \<or> (1 \<le> max_steps \<and> max_steps \<le> MAX_STEPS \<and> 60 \<le> max_seconds \<and> max_seconds \<le> MAX_SECONDS
    \<and> (\<forall>r \<in> set (runs s). r_id r \<noteq> rid)
    \<and> (\<exists>fp. runs t = runs s @
        [new_run now rid tenant key fp agent actor input max_steps max_seconds channel]))"
  using assms
  by (auto simp: create_run_def create_run_tx_def res_simps Let_def not_le not_less
      split: if_split_asm option.splits)

section \<open>The loop as a step relation\<close>

inductive run_step :: "env \<Rightarrow> db \<Rightarrow> db \<Rightarrow> bool" for e where
  create: "create_run e now tenant key agent input actor max_steps max_seconds channel s = Inr (rid, t)
     \<Longrightarrow> run_step e s t"
| cancel: "cancel_run e now tenant run actor s = Inr (st, t) \<Longrightarrow> run_step e s t"
| reserve: "reserve_run e now tenant run s = Inr (res, t) \<Longrightarrow> run_step e s t"
| commit: "commit_run e now tenant run token j repair s = Inr (o', t) \<Longrightarrow> run_step e s t"
| other: "runs t = runs s \<Longrightarrow> run_step e s t"

inductive run_steps :: "env \<Rightarrow> db \<Rightarrow> db \<Rightarrow> bool" for e where
  start: "run_steps e s s"
| more: "run_steps e s t \<Longrightarrow> run_step e t u \<Longrightarrow> run_steps e s u"

definition run_budget :: "run_row \<Rightarrow> bool" where
  "run_budget r \<longleftrightarrow> 1 \<le> r_max_steps r \<and> r_max_steps r \<le> 12 \<and> r_max_calls r = r_max_steps r + 1
     \<and> 0 \<le> r_steps r \<and> r_steps r \<le> r_max_steps r \<and> 0 \<le> r_calls r \<and> r_calls r \<le> r_max_calls r"

definition runs_ok :: "db \<Rightarrow> bool" where
  "runs_ok s \<longleftrightarrow> distinct (map r_id (runs s)) \<and> (\<forall>r \<in> set (runs s). run_budget r)"

lemma run_change_budget: "run_change r r' \<Longrightarrow> run_budget r \<Longrightarrow> run_budget r'"
  by (auto simp: run_change_def run_budget_def)

lemma find_run_mem:
  assumes "distinct (map r_id (runs s))" and "r \<in> set (runs s)" and "r_tenant r = tenant" "r_id r = run"
  shows "find_run s tenant run = Some r"
  unfolding find_run_def using assms by (intro find_unique[where k = r_id]) auto

lemma same_other_runs_rows:
  assumes "same_other_runs tenant run s t" and "distinct (map r_id (runs s))"
  shows "map r_id (runs t) = map r_id (runs s)"
    and "r' \<in> set (runs t) \<Longrightarrow> \<exists>r \<in> set (runs s). run_change r r'"
    and "r \<in> set (runs s) \<Longrightarrow> r_status r \<in> set TERMINAL \<Longrightarrow> r \<in> set (runs t)"
    and "r \<in> set (runs s) \<Longrightarrow> \<exists>r' \<in> set (runs t). run_change r r'"
proof -
  obtain f where t: "runs t = upd_where (\<lambda>r. r_tenant r = tenant \<and> r_id r = run) f (runs s)"
    and ch: "\<And>r. find_run s tenant run = Some r \<Longrightarrow> run_change r (f r)"
    and id: "\<And>r. r_tenant (f r) = r_tenant r \<and> r_id (f r) = r_id r"
    using assms(1) by (auto simp: same_other_runs_def)
  show "map r_id (runs t) = map r_id (runs s)"
    unfolding t using id by (intro map_upd_where) simp
  have hit: "run_change r (f r)" if "r \<in> set (runs s)" "r_tenant r = tenant" "r_id r = run" for r
    using ch find_run_mem[OF assms(2) that] by blast
  show "r' \<in> set (runs t) \<Longrightarrow> \<exists>r \<in> set (runs s). run_change r r'"
    unfolding t using hit by (fastforce simp: table_simps run_change_def)
  show "\<exists>r' \<in> set (runs t). run_change r r'" if "r \<in> set (runs s)"
    unfolding t using hit[OF that] that by (auto simp: table_simps run_change_def intro!: bexI[of _ r])
  show "r \<in> set (runs t)" if "r \<in> set (runs s)" "r_status r \<in> set TERMINAL"
  proof (cases "r_tenant r = tenant \<and> r_id r = run")
    case True
    then have "f r = r" using hit[of r] that by (auto simp: run_change_def)
    with True that(1) show ?thesis unfolding t by (auto simp: upd_where_def image_iff intro!: bexI[of _ r])
  next
    case False
    with that(1) show ?thesis unfolding t by (auto simp: upd_where_def image_iff intro!: bexI[of _ r])
  qed
qed

lemma run_step_ok:
  assumes "run_step e s t" and "runs_ok s"
  shows "runs_ok t \<and> (\<forall>r \<in> set (runs s). r_status r \<in> set TERMINAL \<longrightarrow> r \<in> set (runs t))"
proof -
  have changed: ?thesis if "same_other_runs tenant run s t" for tenant run
    using same_other_runs_rows[OF that] assms(2) run_change_budget unfolding runs_ok_def by metis
  from assms(1) show ?thesis
  proof cases
    case (create now tenant key agent input actor max_steps max_seconds channel rid)
    from create_run_runs[OF this] show ?thesis
      using assms(2) by (auto simp: runs_ok_def run_budget_def new_run_def MAX_STEPS_def)
  next
    case cancel
    then show ?thesis by (rule changed[OF cancel_run_change])
  next
    case reserve
    then show ?thesis by (rule changed[OF reserve_run_change])
  next
    case commit
    then show ?thesis by (rule changed[OF commit_run_change])
  next
    case other
    then show ?thesis using assms(2) by (simp add: runs_ok_def)
  qed
qed

lemma run_steps_ok: "run_steps e s t \<Longrightarrow> runs_ok s \<Longrightarrow>
    runs_ok t \<and> (\<forall>r \<in> set (runs s). r_status r \<in> set TERMINAL \<longrightarrow> r \<in> set (runs t))"
proof (induction rule: run_steps.induct)
  case (more s t u)
  then show ?case using run_step_ok by blast
qed simp

end
