(* ===== verification/Run_Props.thy ===== *)
theory Run_Props
  imports Run_System
begin

text \<open>
  The properties of the planning loop: budgets and finality of a run, answers that rest on succeeded
  steps, and the claim of a planner call as a lease.
\<close>

section \<open>The claim of a run as a lease\<close>

definition run_held :: "db \<Rightarrow> string \<times> string \<Rightarrow> int \<Rightarrow> string \<Rightarrow> bool" where
  "run_held s k now token \<longleftrightarrow> (case find_run s (fst k) (snd k) of
     None \<Rightarrow> False
   | Some r \<Rightarrow> r_status r = RPlanning \<and> r_claim r = token \<and> now < r_lease r)"

definition run_grant :: "env \<Rightarrow> int \<Rightarrow> string \<times> string \<Rightarrow> db \<Rightarrow> (string \<times> db) option" where
  "run_grant e now k s = (case reserve_run e now (fst k) (snd k) s of
     Inr ((_, Some v), t) \<Rightarrow> Some (rv_claim v, t)
   | _ \<Rightarrow> None)"

lemma reserve_call_row:
  assumes row: "find_run s tenant run = Some row"
    and call: "reserve_call e now row s = ((c, Some v), t)"
  shows "find_run t tenant run = Some (row\<lparr>r_status := RPlanning, r_claim := rv_claim v,
      r_lease := min (r_deadline row) (now + PLANNER_LEASE_SECONDS), r_calls := r_calls row + 1,
      r_updated := now\<rparr>)
    \<and> (\<exists>obs. observations s row = Inr obs \<and> rv_context v = run_context row obs)"
proof -
  note id = find_run_Some[OF row]
  let ?f = "\<lambda>r. r\<lparr>r_status := RPlanning, r_claim := rv_claim v,
    r_lease := min (r_deadline row) (now + PLANNER_LEASE_SECONDS), r_calls := r_calls r + 1,
    r_updated := now\<rparr>"
  have t: "runs t = upd_where (\<lambda>r. r_tenant r = tenant \<and> r_id r = run) ?f (runs s)"
    using call id by (auto simp: reserve_call_def Let_def split: if_split_asm sum.splits)
  have "find_run t tenant run = map_option ?f (find_run s tenant run)"
    by (rule find_run_upd[OF _ t]) simp
  then show ?thesis
    using row call by (auto simp: reserve_call_def Let_def split: if_split_asm sum.splits)
qed

lemma reserve_run_row:
  assumes "reserve_run e now tenant run s = Inr ((c, Some v), t)"
  shows "\<exists>row. find_run s tenant run = Some row \<and> r_status row \<in> {RPending, RWaitingTask}
    \<and> now < r_deadline row \<and> \<not> frozen s tenant
    \<and> require_authority e tenant (r_channel row) (r_actor row) default_roles = Inr ()
    \<and> reserve_call e now row s = ((c, Some v), t)"
proof -
  obtain row where row: "find_run s tenant run = Some row"
    using assms by (auto simp: reserve_run_def res_simps run_row_of_Inr)
  have act: "r_status row \<in> set ACTIVE" "\<not> r_deadline row \<le> now" "r_status row \<noteq> RPlanning"
    and auth: "\<exists>u. require_authority e tenant (r_channel row) (r_actor row) default_roles = Inr u"
    and fr: "\<not> frozen s tenant"
    and call: "(if r_status row = RWaitingTask then reserve_waiting e now row s
        else reserve_call e now row s) = ((c, Some v), t)"
    using assms row
    by (auto simp: reserve_run_def run_row_of_def split: if_split_asm sum.splits)
  have "reserve_call e now row s = ((c, Some v), t)"
    using call by (auto simp: reserve_waiting_def split: if_split_asm option.splits)
  then show ?thesis using row act auth fr by (auto simp: ACTIVE_def)
qed

interpretation run_lease: lease run_held "run_grant e" for e
proof unfold_locales
  fix now k s t s' u m n
  show "\<not> run_held s k now u" if g: "run_grant e now k s = Some (t, s')"
  proof -
    from g obtain c v where "reserve_run e now (fst k) (snd k) s = Inr ((c, Some v), s')"
      by (auto simp: run_grant_def split: sum.splits option.splits)
    from reserve_run_row[OF this] show ?thesis by (auto simp: run_held_def)
  qed
  show "u = t" if g: "run_grant e now k s = Some (t, s')" and h: "run_held s' k m u"
  proof -
    from g obtain c v where "reserve_run e now (fst k) (snd k) s = Inr ((c, Some v), s')"
        and t: "t = rv_claim v"
      by (auto simp: run_grant_def split: sum.splits option.splits)
    from reserve_run_row[OF this(1)] reserve_call_row h t show ?thesis
      by (fastforce simp: run_held_def)
  qed
  show "run_held s k n u" if "run_held s k m u" "n \<le> m"
    using that by (auto simp: run_held_def split: option.splits)
qed

lemma commit_run_stale:
  assumes "find_run s tenant run = Some row" and "r_status row \<noteq> RPlanning \<or> r_claim row \<noteq> token"
  shows "commit_run e now tenant run token j repair s = Inr (Stale, s)"
  using assms by (auto simp: commit_run_def run_row_of_def)

section \<open>Evidence\<close>

lemma observe_evidence:
  "observe (l, t, x) = Inr ob \<Longrightarrow>
     ob_evidence ob = ''step:'' @ s_id x \<and> s_status x = Succeeded \<and> t_status t = Succeeded"
  by (auto simp: observe_def res_simps Let_def split: if_split_asm)

lemma observation_rows_mem:
  "(l, t, x) \<in> set (observation_rows s row) \<Longrightarrow>
     l \<in> set (turns s) \<and> turn_of row l \<and> t \<in> set (tasks s) \<and> t_id t = n_task l \<and> t_tenant t = n_tenant l
     \<and> x \<in> set (steps s) \<and> s_task x = t_id t \<and> s_tenant x = t_tenant t"
  by (auto simp: observation_rows_def)

lemma observations_evidence:
  assumes "observations s row = Inr obs" and "ev \<in> set (map ob_evidence obs)"
  shows "\<exists>x t l. x \<in> set (steps s) \<and> ev = ''step:'' @ s_id x \<and> s_status x = Succeeded
    \<and> t \<in> set (tasks s) \<and> t_status t = Succeeded \<and> s_task x = t_id t
    \<and> l \<in> set (turns s) \<and> n_task l = t_id t \<and> n_tenant l = r_tenant row \<and> n_run l = r_id row"
proof -
  from assms(1) have each: "each observe (observation_rows s row) = Inr obs"
    by (auto simp: observations_def Let_def res_simps split: if_split_asm)
  from assms(2) obtain ob where ob: "ob \<in> set obs" "ev = ob_evidence ob" by auto
  from each_Inr_mem[OF each ob(1)] obtain l t x
    where m: "(l, t, x) \<in> set (observation_rows s row)" and o': "observe (l, t, x) = Inr ob"
    by (metis prod_cases3)
  from observation_rows_mem[OF m] observe_evidence[OF o'] ob(2) show ?thesis
    by (intro exI[of _ x] exI[of _ t] exI[of _ l]) (simp add: turn_of_def)
qed

lemma guarded_str:
  assumes "(if B then Inl x else case v of JStr a \<Rightarrow> F a | _ \<Rightarrow> Inl y) = Inr r"
  shows "\<exists>a. v = JStr a \<and> F a = Inr r"
proof -
  have "\<not> B" using assms by (cases B) simp_all
  with assms show ?thesis by (cases v) simp_all
qed

lemma guarded_list:
  assumes "(if B then Inl x else case v of JList es \<Rightarrow> F es | _ \<Rightarrow> Inl y) = Inr r"
  shows "\<exists>es. v = JList es \<and> \<not> B \<and> F es = Inr r"
proof -
  have "\<not> B" using assms by (cases B) simp_all
  with assms show ?thesis by (cases v) simp_all
qed

lemma guarded_ok: "(if B then Inl x else Inr y) = Inr r \<Longrightarrow> \<not> B \<and> r = y"
  by (cases B) simp_all

lemma final_decision_evidence:
  assumes "final_decision obs d = Inr (DFinal a es)"
  shows "es \<noteq> [] \<and> length es \<le> 12 \<and> distinct es \<and> set es \<subseteq> set (map ob_evidence obs)
    \<and> \<not> blank a \<and> length a \<le> 8000"
proof -
  from guarded_str[OF assms[unfolded final_decision_def]] obtain answer where
    "(if blank answer \<or> length answer > 8000 then raise LoopDecisionError ''Invalid final answer''
      else case jget d ''evidence_ids'' of JList es \<Rightarrow>
          if \<not> (1 \<le> length es \<and> int (length es) \<le> MAX_STEPS)
             \<or> \<not> list_all (\<lambda>v. is_str v \<and> the_str v \<in> set (map ob_evidence obs)) es
             \<or> \<not> distinct (map the_str es)
          then raise LoopDecisionError ''Final answer must reference actual successful observations''
          else Inr (DFinal answer (map the_str es))
        | _ \<Rightarrow> raise LoopDecisionError ''Final answer must reference actual successful observations'')
      = Inr (DFinal a es)" by blast
  from guarded_list[OF this] obtain vs where t: "\<not> (blank answer \<or> length answer > 8000)"
    and u: "(if \<not> (1 \<le> length vs \<and> int (length vs) \<le> MAX_STEPS)
             \<or> \<not> list_all (\<lambda>v. is_str v \<and> the_str v \<in> set (map ob_evidence obs)) vs
             \<or> \<not> distinct (map the_str vs)
          then raise LoopDecisionError ''Final answer must reference actual successful observations''
          else Inr (DFinal answer (map the_str vs))) = Inr (DFinal a es)" by blast
  from guarded_ok[OF u] t show ?thesis by (auto simp: MAX_STEPS_def list_all_iff)
qed

lemma stop_run_status:
  assumes "find_run s tenant run = Some row"
    and "find_run (stop_run now row REscalated reason actor s) tenant run = Some r'"
  shows "r_status r' \<in> {REscalated, RUncertain}"
proof -
  obtain st why where st: "st \<in> {REscalated, REscalated, RUncertain}"
    and t: "runs (stop_run now row REscalated reason actor s) =
      upd_where (\<lambda>r. r_tenant r = r_tenant row \<and> r_id r = r_id row)
        (\<lambda>r. r\<lparr>r_status := st, r_error := why, r_claim := [], r_lease := 0, r_updated := now\<rparr>) (runs s)"
    by (rule stop_run_runs)
  have "find_run (stop_run now row REscalated reason actor s) tenant run = map_option
      (\<lambda>r. r\<lparr>r_status := st, r_error := why, r_claim := [], r_lease := 0, r_updated := now\<rparr>)
      (find_run s tenant run)"
    using find_run_Some[OF assms(1)] t by (intro find_run_upd) auto
  with assms st show ?thesis by auto
qed

lemma stop_run_fails:
  "find_run s tenant run = Some row \<Longrightarrow>
   find_run (stop_run now row REscalated reason actor s) tenant run = Some r' \<Longrightarrow>
   r_status r' \<noteq> RSucceeded"
  using stop_run_status by fastforce

lemma commit_decision_succeeds:
  assumes row: "find_run s tenant run = Some row" and plan: "r_status row = RPlanning"
    and com: "commit_decision e now row j repair s = Inr (o', t)"
    and r': "find_run t tenant run = Some r'" and ok: "r_status r' = RSucceeded"
  shows "\<exists>obs a es d. observations s row = Inr obs \<and> j = JObj d
    \<and> final_decision obs d = Inr (DFinal a es) \<and> r_answer r' = a \<and> r_evidence r' = es"
proof (cases "observations s row")
  case (Inl x)
  then show ?thesis
    using com stop_run_fails[OF row] r' ok by (auto simp: commit_decision_def split: if_split_asm)
next
  case obs: (Inr obs)
  show ?thesis
  proof (cases "bindr (decision_of e row obs j) (\<lambda>d. apply_decision e now row d s)")
    case (Inl x)
    have "runs (snd (repair_call now row obs j x s)) =
          upd_where (\<lambda>r. r_tenant r = tenant \<and> r_id r = run) (\<lambda>r. r\<lparr>r_calls := r_calls r + 1,
        r_lease := min (r_deadline row) (now + PLANNER_LEASE_SECONDS), r_updated := now\<rparr>) (runs s)"
      using find_run_Some[OF row] by (simp add: repair_call_def)
    from find_run_upd[OF _ this] have
      "find_run (snd (repair_call now row obs j x s)) tenant run = Some r'' \<Longrightarrow> r_status r'' = RPlanning" for r''
      using row plan by auto
    then show ?thesis
      using com obs Inl stop_run_fails[OF row] r' ok
      by (fastforce simp: commit_decision_def split: if_split_asm prod.splits)
  next
    case (Inr u)
    then obtain d where d: "decision_of e row obs j = Inr d" "apply_decision e now row d s = Inr u"
      by (auto simp: res_simps)
    have t: "t = u" using com obs Inr by (simp add: commit_decision_def)
    have upd: "find_run t tenant run = Some (f row)"
      if "runs u = upd_where (\<lambda>r. r_tenant r = tenant \<and> r_id r = run) f (runs s)"
        and "\<And>r. r_tenant (f r) = r_tenant r \<and> r_id (f r) = r_id r" for f
      using find_run_upd[OF that(2) that(1)] row t by simp
    from apply_decision_runs[OF row d] show ?thesis
    proof (elim disjE exE conjE)
      fix task
      assume "runs u = upd_where (\<lambda>r. r_tenant r = tenant \<and> r_id r = run) (waits_for now task) (runs s)"
      from upd[OF this] show ?thesis using r' ok by (auto simp: waits_for_def)
    next
      fix a es d'
      assume f: "j = JObj d'" "final_decision obs d' = Inr (DFinal a es)"
        and "runs u = upd_where (\<lambda>r. r_tenant r = tenant \<and> r_id r = run) (ended now RSucceeded a es) (runs s)"
      from upd[OF this(3)] have "r' = ended now RSucceeded a es row" using r' by simp
      then have "r_answer r' = a" "r_evidence r' = es" by (simp_all add: ended_def)
      then show ?thesis using f obs by blast
    next
      fix q
      assume "runs u = upd_where (\<lambda>r. r_tenant r = tenant \<and> r_id r = run) (ended now RNeedsInput q []) (runs s)"
      from upd[OF this] show ?thesis using r' ok by (auto simp: ended_def)
    qed
  qed
qed

lemma commit_run_succeeds:
  assumes com: "commit_run e now tenant run token j repair s = Inr (o', t)"
    and row: "find_run s tenant run = Some row" and live: "r_status row \<noteq> RSucceeded"
    and r': "find_run t tenant run = Some r'" and ok: "r_status r' = RSucceeded"
  shows "\<exists>obs a es d jd. observations s row = Inr obs \<and> j = Some jd \<and> jd = JObj d
    \<and> final_decision obs d = Inr (DFinal a es) \<and> r_answer r' = a \<and> r_evidence r' = es
    \<and> r_status row = RPlanning \<and> r_claim row = token \<and> now < r_lease row \<and> now < r_deadline row"
proof (cases "r_status row \<noteq> RPlanning \<or> r_claim row \<noteq> token")
  case True
  with commit_run_stale[OF row] com have "t = s" by fastforce
  then show ?thesis using row r' ok live by auto
next
  case False
  then have plan: "r_status row = RPlanning" and tok: "r_claim row = token" by simp_all
  note fails = stop_run_fails[OF row]
  from com row False r' ok fails obtain jd where
    j: "j = Some jd" and d: "commit_decision e now row jd repair s = Inr (o', t)"
    and "\<not> r_deadline row \<le> now" "\<not> r_lease row \<le> now"
    by (auto simp: commit_run_def run_row_of_def split: if_split_asm sum.splits option.splits)
  with commit_decision_succeeds[OF row plan d r' ok] plan tok show ?thesis by auto
qed

section \<open>A run from its request to its answer\<close>

definition run_tool_json :: json where
  "run_tool_json = JObj [(''action'', JStr ''tool''), (''tool'', JStr ''note.read''), (''args'', JObj [])]"

definition run_final_json :: json where
  "run_final_json = JObj [(''action'', JStr ''final''), (''answer'', JStr ''done''),
     (''evidence_ids'', JList [JStr ''step:xxx''])]"

definition run_demo_1 :: db where
  "run_demo_1 = ok_state (create_run demo_env 1000 ''t'' ''k'' ''a'' ''hello'' ''boss'' 3 600 ''agent'' empty_db)"

definition run_demo_2 :: db where
  "run_demo_2 = ok_state (reserve_run demo_env 1001 ''t'' [] run_demo_1)"

definition run_demo_3 :: db where
  "run_demo_3 = ok_state (commit_run demo_env 1002 ''t'' [] ''x'' (Some run_tool_json) False run_demo_2)"

text \<open>The engine runs the step of the turn.\<close>

definition run_demo_4 :: db where
  "run_demo_4 = ok_state (claim demo_env 1003 ''t'' ''w'' [] 90 run_demo_3)"

definition run_demo_5 :: db where
  "run_demo_5 = ok_db (finish 1004 ''t'' ''xxx'' ''xxxx'' (JObj []) Succeeded [] run_demo_4)"

definition run_demo_6 :: db where
  "run_demo_6 = ok_state (reserve_run demo_env 1005 ''t'' [] run_demo_5)"

definition run_demo_7 :: db where
  "run_demo_7 = ok_state (commit_run demo_env 1006 ''t'' [] ''xxxxx'' (Some run_final_json) False run_demo_6)"

definition second_reservation :: reservation where
  "second_reservation = (case reserve_run demo_env 1005 ''t'' [] run_demo_5 of
     Inr ((_, Some v), _) \<Rightarrow> v | _ \<Rightarrow> \<lparr>rv_claim = [], rv_context = []\<rparr>)"

definition granted :: "((bool \<times> reservation option) \<times> db) res \<Rightarrow> bool" where
  "granted r = (case r of Inr ((_, Some v), _) \<Rightarrow> True | _ \<Rightarrow> False)"

lemma run_demo_ok:
  "is_ok (create_run demo_env 1000 ''t'' ''k'' ''a'' ''hello'' ''boss'' 3 600 ''agent'' empty_db)"
  "is_ok (reserve_run demo_env 1001 ''t'' [] run_demo_1)"
  "is_ok (commit_run demo_env 1002 ''t'' [] ''x'' (Some run_tool_json) False run_demo_2)"
  "granted (reserve_run demo_env 1005 ''t'' [] run_demo_5)"
  "is_ok (commit_run demo_env 1006 ''t'' [] ''xxxxx'' (Some run_final_json) False run_demo_6)"
  by code_simp+

lemma run_demo_granted:
  "\<exists>c. reserve_run demo_env 1005 ''t'' [] run_demo_5 = Inr ((c, Some second_reservation), run_demo_6)"
  using run_demo_ok(4)
  by (auto simp: granted_def second_reservation_def run_demo_6_def ok_state_def
      split: sum.splits prod.splits option.splits)

lemma run_demo_other: "runs run_demo_5 = runs run_demo_3"
  by code_simp

lemma run_demo_steps: "run_steps demo_env empty_db run_demo_6" "run_steps demo_env empty_db run_demo_7"
proof -
  note ok = run_demo_ok
  have "run_step demo_env empty_db run_demo_1"
    using ok_stateI[OF ok(1)] unfolding run_demo_1_def[symmetric] by (auto intro: run_step.create)
  moreover have "run_step demo_env run_demo_1 run_demo_2"
    using ok_stateI[OF ok(2)] unfolding run_demo_2_def[symmetric] by (auto intro: run_step.reserve)
  moreover have "run_step demo_env run_demo_2 run_demo_3"
    using ok_stateI[OF ok(3)] unfolding run_demo_3_def[symmetric] by (auto intro: run_step.commit)
  moreover have "run_step demo_env run_demo_3 run_demo_5"
    by (rule run_step.other[OF run_demo_other])
  moreover have "run_step demo_env run_demo_5 run_demo_6"
    using run_demo_granted by (auto intro: run_step.reserve)
  ultimately show 6: "run_steps demo_env empty_db run_demo_6"
    by (meson run_steps.start run_steps.more)
  have "run_step demo_env run_demo_6 run_demo_7"
    using ok_stateI[OF ok(5)] unfolding run_demo_7_def[symmetric] by (auto intro: run_step.commit)
  with 6 show "run_steps demo_env empty_db run_demo_7" by (rule run_steps.more)
qed

lemma run_demo_rows:
  "map (\<lambda>r. (r_tenant r, r_id r, r_status r)) (runs run_demo_6) = [(''t'', [], RPlanning)]"
  "map (\<lambda>r. (r_tenant r, r_id r, r_status r)) (runs run_demo_7) = [(''t'', [], RSucceeded)]"
  by code_simp+

lemma run_demo_row:
  "\<exists>r. runs run_demo_6 = [r] \<and> find_run run_demo_6 ''t'' [] = Some r \<and> r_status r = RPlanning"
  "\<exists>r. runs run_demo_7 = [r] \<and> find_run run_demo_7 ''t'' [] = Some r \<and> r_status r = RSucceeded"
  using run_demo_rows by (auto simp: map_eq_Cons_conv find_run_def)

section \<open>Properties\<close>

text \<open>
  C19: whatever the order in which runs are created, cancelled, reserved and committed, a run has
  taken at most the steps it was created with and at most one planner call more, both bounded by the
  platform's limit of twelve steps; and a run that has ended keeps its status, answer and evidence in
  every later state.
\<close>

theorem run_stays_within_budget:
  assumes "run_steps e empty_db s" and "r \<in> set (runs s)"
  shows "0 \<le> r_steps r \<and> r_steps r \<le> r_max_steps r \<and> 0 \<le> r_calls r \<and> r_calls r \<le> r_max_steps r + 1
    \<and> 1 \<le> r_max_steps r \<and> r_max_steps r \<le> 12
    \<and> (r_status r \<in> set TERMINAL \<and> run_steps e s t \<longrightarrow> r \<in> set (runs t))"
proof -
  have "runs_ok empty_db" by (simp add: runs_ok_def empty_db_def)
  with assms(1) have ok: "runs_ok s" using run_steps_ok by blast
  with assms(2) have "run_budget r" by (simp add: runs_ok_def)
  moreover have "r_status r \<in> set TERMINAL \<and> run_steps e s t \<longrightarrow> r \<in> set (runs t)"
    using run_steps_ok ok assms(2) by blast
  ultimately show ?thesis by (simp add: run_budget_def)
qed

lemma run_stays_within_budget_witness:
  "run_steps demo_env empty_db run_demo_7 \<and> (\<exists>r. r \<in> set (runs run_demo_7) \<and> r_steps r \<le> r_max_steps r
     \<and> r_calls r \<le> r_max_steps r + 1 \<and> r_status r = RSucceeded)"
proof -
  obtain r where r: "runs run_demo_7 = [r]" "r_status r = RSucceeded" using run_demo_row(2) by blast
  then have "r \<in> set (runs run_demo_7)" by simp
  from run_stays_within_budget[OF run_demo_steps(2) this, of run_demo_7] this r(2) run_demo_steps(2)
  show ?thesis by blast
qed

text \<open>
  C20: a run ends as succeeded only by a planner's final decision under its live claim, and the answer
  it keeps names between one and twelve different pieces of evidence, each of them a succeeded step of
  a succeeded task that this run itself had linked.
\<close>

theorem answer_rests_on_evidence:
  assumes "commit_run e now tenant run token j repair s = Inr (o', t)"
    and "find_run s tenant run = Some row" and "r_status row \<noteq> RSucceeded"
    and "find_run t tenant run = Some row'" and "r_status row' = RSucceeded"
  shows "r_status row = RPlanning \<and> r_claim row = token \<and> now < r_lease row \<and> now < r_deadline row
    \<and> \<not> blank (r_answer row') \<and> r_evidence row' \<noteq> [] \<and> length (r_evidence row') \<le> 12
    \<and> distinct (r_evidence row')
    \<and> set (r_evidence row') \<subseteq> {''step:'' @ s_id x |x d l. x \<in> set (steps s) \<and> s_status x = Succeeded
        \<and> d \<in> set (tasks s) \<and> t_status d = Succeeded \<and> s_task x = t_id d
        \<and> l \<in> set (turns s) \<and> n_task l = t_id d \<and> n_tenant l = tenant \<and> n_run l = run}"
proof -
  have id: "r_tenant row = tenant" "r_id row = run" using find_run_Some[OF assms(2)] by simp_all
  from commit_run_succeeds[OF assms] obtain obs a es d where obs: "observations s row = Inr obs"
    and fin: "final_decision obs d = Inr (DFinal a es)" and row': "r_answer row' = a" "r_evidence row' = es"
    and claim: "r_status row = RPlanning \<and> r_claim row = token \<and> now < r_lease row \<and> now < r_deadline row"
    by blast
  have "set es \<subseteq> {''step:'' @ s_id x |x d l. x \<in> set (steps s) \<and> s_status x = Succeeded
        \<and> d \<in> set (tasks s) \<and> t_status d = Succeeded \<and> s_task x = t_id d
        \<and> l \<in> set (turns s) \<and> n_task l = t_id d \<and> n_tenant l = tenant \<and> n_run l = run}"
    using final_decision_evidence[OF fin] observations_evidence[OF obs] id by blast
  with final_decision_evidence[OF fin] row' claim show ?thesis by blast
qed

lemma answer_rests_on_evidence_witness:
  "\<exists>row'. find_run run_demo_7 ''t'' [] = Some row' \<and> r_status row' = RSucceeded
     \<and> r_evidence row' \<noteq> [] \<and> distinct (r_evidence row')"
proof -
  obtain row where row: "find_run run_demo_6 ''t'' [] = Some row" "r_status row = RPlanning"
    using run_demo_row(1) by blast
  obtain row' where row': "find_run run_demo_7 ''t'' [] = Some row'" "r_status row' = RSucceeded"
    using run_demo_row(2) by blast
  obtain o' where "commit_run demo_env 1006 ''t'' [] ''xxxxx'' (Some run_final_json) False run_demo_6
      = Inr (o', run_demo_7)"
    using ok_stateI[OF run_demo_ok(5)] unfolding run_demo_7_def[symmetric] by blast
  from answer_rests_on_evidence[OF this row(1) _ row'] row(2) row' show ?thesis by auto
qed

text \<open>
  C21: reserving a planner call happens only when nobody holds the run, in a tenant that is not frozen
  and before the run's deadline; it counts the call against the budget and holds the run for 180
  seconds, never beyond the deadline. Until then nobody else can reserve it, and a decision that
  comes back under any other claim is stale and changes nothing.
\<close>

theorem planner_call_is_exclusive:
  assumes "reserve_run e now tenant run s = Inr ((c, Some v), t)"
  shows "\<not> run_held s (tenant, run) now u \<and> \<not> frozen s tenant
    \<and> (\<exists>old row. find_run s tenant run = Some old \<and> find_run t tenant run = Some row
        \<and> now < r_deadline old \<and> r_calls row = r_calls old + 1 \<and> r_calls row \<le> r_max_calls row
        \<and> r_claim row = rv_claim v \<and> r_lease row = min (r_deadline row) (now + 180)
        \<and> (later < r_lease row \<longrightarrow> reserve_run e later tenant run t \<noteq> Inr ((c', Some v'), t')))
    \<and> (token \<noteq> rv_claim v \<longrightarrow> commit_run e later tenant run token j repair t = Inr (Stale, t))"
proof -
  obtain old where old: "find_run s tenant run = Some old" and live: "now < r_deadline old"
    and fr: "\<not> frozen s tenant" and call: "reserve_call e now old s = ((c, Some v), t)"
    using reserve_run_row[OF assms] by blast
  define row where "row = old\<lparr>r_status := RPlanning, r_claim := rv_claim v,
      r_lease := min (r_deadline old) (now + PLANNER_LEASE_SECONDS), r_calls := r_calls old + 1,
      r_updated := now\<rparr>"
  have row: "find_run t tenant run = Some row"
    using reserve_call_row[OF old call] by (simp add: row_def)
  have budget: "r_calls old < r_max_calls old"
    using call by (auto simp: reserve_call_def split: if_split_asm)
  have grant: "run_grant e now (tenant, run) s = Some (rv_claim v, t)"
    using assms by (simp add: run_grant_def)
  have later: "reserve_run e later tenant run t \<noteq> Inr ((c', Some v'), t')" if "later < r_lease row"
  proof
    assume r: "reserve_run e later tenant run t = Inr ((c', Some v'), t')"
    have "run_held t (tenant, run) later (rv_claim v)"
      using row that by (simp add: run_held_def row_def)
    from run_lease.no_grant_while_held[OF this, of later e] r show False
      by (simp add: run_grant_def)
  qed
  have stale: "commit_run e later tenant run token j repair t = Inr (Stale, t)" if "token \<noteq> rv_claim v"
    using commit_run_stale[OF row] that by (simp add: row_def)
  have fields: "r_claim row = rv_claim v" "r_calls row = r_calls old + 1"
    "r_max_calls row = r_max_calls old" "r_lease row = min (r_deadline row) (now + 180)"
    by (simp_all add: row_def PLANNER_LEASE_SECONDS_def)
  show ?thesis
    using run_lease.grant_idle[OF grant] fr old row live budget fields later stale by auto
qed

lemma planner_call_is_exclusive_witness:
  "\<exists>c. reserve_run demo_env 1005 ''t'' [] run_demo_5 = Inr ((c, Some second_reservation), run_demo_6)
     \<and> \<not> run_held run_demo_5 (''t'', []) 1005 ''x'' \<and> \<not> frozen run_demo_5 ''t''"
proof -
  obtain c where g: "reserve_run demo_env 1005 ''t'' [] run_demo_5
      = Inr ((c, Some second_reservation), run_demo_6)"
    using run_demo_granted by blast
  from planner_call_is_exclusive[OF g, of "''x''"] g show ?thesis by blast
qed

end
