(* ===== verification/Sync_Store.thy ===== *)
theory Sync_Store
  imports Engine_Policy
begin

text \<open>
  Read-sync of a connected account (\<^verbatim>\<open>platform_runtime/sync_store.py\<close>): stream leases, the
  compare-and-set of the provider cursor, idempotent pages and versioned records. The optional guard
  of \<^verbatim>\<open>commit\<close> and \<^verbatim>\<open>reset\<close> is an argument; a claim token is the next drawn identifier.
\<close>

type_synonym stream_key = "string \<times> string \<times> string"

section \<open>Field checks\<close>

definition oauth_bounded :: "nat \<Rightarrow> string \<Rightarrow> string res" where
  "oauth_bounded maximum v =
     (if \<not> (1 \<le> length v \<and> length v \<le> maximum)
         \<or> (\<exists>c \<in> set v. code_of c < 32 \<or> code_of c = 127)
      then raise ValueError ''Bounded OAuth field required'' else Inr v)"

definition ident_char :: "char \<Rightarrow> bool" where
  "ident_char c \<longleftrightarrow> is_alnum c \<or> c = CHR ''_'' \<or> c = CHR ''.'' \<or> c = CHR ''-''"

definition oauth_ident :: "string \<Rightarrow> string res" where
  "oauth_ident v =
     (if 1 \<le> length v \<and> length v \<le> 128 \<and> list_all ident_char v then Inr v
      else raise ValueError ''Invalid OAuth identifier'')"

section \<open>Streams\<close>

definition sync_authority :: "env \<Rightarrow> db \<Rightarrow> string \<Rightarrow> string \<Rightarrow> unit res" where
  "sync_authority e s tenant actor =
     bindr (require_active e s tenant) (\<lambda>_.
       require_authority e tenant ''web'' actor [''owner'', ''integrator''])"

definition sync_connection :: "db \<Rightarrow> string \<Rightarrow> string \<Rightarrow> connection_row res" where
  "sync_connection s tenant connection =
     (case find (\<lambda>x. x_tenant x = tenant \<and> x_id x = connection) (connections s) of
        Some x \<Rightarrow> (if x_status x \<in> {CnActive, CnRefreshing} then Inr x
                  else raise Forbidden ''Active OAuth connection required for sync'')
      | None \<Rightarrow> raise Forbidden ''Active OAuth connection required for sync'')"

definition find_stream :: "db \<Rightarrow> stream_key \<Rightarrow> stream_row option" where
  "find_stream s k = find (\<lambda>w. w_key w = k) (streams s)"

definition stream_row_of :: "db \<Rightarrow> stream_key \<Rightarrow> stream_row res" where
  "stream_row_of s k = (case find_stream s k of None \<Rightarrow> raise NotFound ''Sync stream not found'' | Some w \<Rightarrow> Inr w)"

definition new_stream :: "stream_key \<Rightarrow> int \<Rightarrow> stream_row" where
  "new_stream k generation = \<lparr>w_key = k, w_generation = generation, w_cursor = [], w_revision = 0,
     w_claim = [], w_lease = 0, w_owner = []\<rparr>"

definition ensure_stream :: "stream_key \<Rightarrow> int \<Rightarrow> db \<Rightarrow> db" where
  "ensure_stream k generation s = (case find_stream s k of
      Some _ \<Rightarrow> s | None \<Rightarrow> s\<lparr>streams := streams s @ [new_stream k generation]\<rparr>)"

definition set_stream :: "stream_key \<Rightarrow> (stream_row \<Rightarrow> stream_row) \<Rightarrow> db \<Rightarrow> db" where
  "set_stream k f s = s\<lparr>streams := upd_where (\<lambda>w. w_key w = k) f (streams s)\<rparr>"

record sync_ticket =
  sc_claim :: string
  sc_cursor :: string
  sc_revision :: int
  sc_generation :: int
  sc_expires :: int

definition lease_ok :: "int \<Rightarrow> bool" where
  "lease_ok seconds \<longleftrightarrow> 5 \<le> seconds \<and> seconds \<le> 300"

definition sync_claim_tx ::
  "env \<Rightarrow> int \<Rightarrow> stream_key \<Rightarrow> string \<Rightarrow> int \<Rightarrow> db \<Rightarrow> (sync_ticket \<times> db) res" where
  "sync_claim_tx e now k actor seconds s = (case k of (tenant, connection, _) \<Rightarrow>
     bindr (sync_authority e s tenant actor) (\<lambda>_. bindr (sync_connection s tenant connection) (\<lambda>conn.
       let s1 = ensure_stream k (x_generation conn) s in
       bindr (stream_row_of s1 k) (\<lambda>row.
         if w_generation row \<noteq> x_generation conn
           then raise Conflict ''Connection generation changed; owner must reset sync''
         else if w_claim row \<noteq> [] \<and> w_lease row > now then raise Conflict ''Sync lease already owned''
         else let token = fresh e s in
           Inr (\<lparr>sc_claim = token, sc_cursor = w_cursor row, sc_revision = w_revision row,
                 sc_generation = x_generation conn, sc_expires = now + seconds\<rparr>,
                set_stream k (\<lambda>w. w\<lparr>w_claim := token, w_lease := now + seconds, w_owner := actor\<rparr>)
                  (drawn s1))))))"

definition sync_claim ::
  "env \<Rightarrow> int \<Rightarrow> stream_key \<Rightarrow> string \<Rightarrow> int \<Rightarrow> db \<Rightarrow> (sync_ticket \<times> db) res" where
  "sync_claim e now k actor seconds s = (case k of (tenant, connection, stream) \<Rightarrow>
     bindr (each oauth_ident [tenant, connection, stream]) (\<lambda>_. bindr (oauth_bounded 256 actor) (\<lambda>_.
       if \<not> lease_ok seconds then raise ValueError ''Sync lease must be 5..300 seconds''
       else sync_claim_tx e now k actor seconds s)))"

text \<open>\<^verbatim>\<open>_owned\<close>: the live claim of the stream.\<close>

definition stream_held :: "int \<Rightarrow> string \<Rightarrow> string \<Rightarrow> stream_row \<Rightarrow> bool" where
  "stream_held now actor token w \<longleftrightarrow>
     w_owner w = actor \<and> w_claim w = token \<and> token \<noteq> [] \<and> now < w_lease w"

definition sync_owned ::
  "env \<Rightarrow> int \<Rightarrow> stream_key \<Rightarrow> string \<Rightarrow> string \<Rightarrow> db \<Rightarrow> stream_row res" where
  "sync_owned e now k actor token s = (case k of (tenant, connection, _) \<Rightarrow>
     bindr (sync_authority e s tenant actor) (\<lambda>_. bindr (sync_connection s tenant connection) (\<lambda>conn.
       bindr (stream_row_of s k) (\<lambda>row.
         if \<not> stream_held now actor token row then raise Conflict ''Sync claim stale''
         else if w_generation row \<noteq> x_generation conn then raise Conflict ''Sync credential fenced''
         else Inr row))))"

definition sync_renew :: "env \<Rightarrow> int \<Rightarrow> stream_key \<Rightarrow> string \<Rightarrow> string \<Rightarrow> int \<Rightarrow> db \<Rightarrow> db res" where
  "sync_renew e now k actor token seconds s =
     (if \<not> lease_ok seconds then raise ValueError ''Invalid lease''
      else bindr (sync_owned e now k actor token s) (\<lambda>_.
        Inr (set_stream k (\<lambda>w. w\<lparr>w_lease := now + seconds\<rparr>) s)))"

definition sync_release :: "env \<Rightarrow> int \<Rightarrow> stream_key \<Rightarrow> string \<Rightarrow> string \<Rightarrow> db \<Rightarrow> db res" where
  "sync_release e now k actor token s =
     bindr (sync_owned e now k actor token s) (\<lambda>_.
       Inr (set_stream k (\<lambda>w. w\<lparr>w_claim := [], w_lease := 0\<rparr>) s))"

section \<open>Pages\<close>

record sync_event =
  se_id :: string
  se_version :: int
  se_deleted :: bool
  se_data :: fields

definition event_json :: "sync_event \<Rightarrow> json" where
  "event_json v = JObj [(''id'', JStr (se_id v)), (''version'', JInt (se_version v)),
     (''deleted'', JBool (se_deleted v)), (''data'', JObj (se_data v))]"

definition sync_event_of :: "json \<Rightarrow> sync_event res" where
  "sync_event_of v = (case v of
      JObj d \<Rightarrow>
        if set (jkeys d) \<noteq> {''id'', ''version'', ''deleted'', ''data''}
          then raise ValueError ''Invalid sync event fields''
        else (case jget d ''id'' of
            JStr i \<Rightarrow> bindr (oauth_bounded 256 i) (\<lambda>_.
              case jget d ''version'' of
                JInt n \<Rightarrow>
                  if \<not> (0 \<le> n \<and> n < 2 ^ 63)
                    then raise ValueError ''Bounded monotonic provider version required''
                  else (case (jget d ''deleted'', jget d ''data'') of
                      (JBool b, JObj body) \<Rightarrow>
                        if b \<and> body \<noteq> [] then raise ValueError ''Tombstone must not retain content''
                        else bindr (encode (JObj body)) (\<lambda>t.
                          if utf8_length t > 20000 then raise ValueError ''Sync record exceeds limit''
                          else Inr \<lparr>se_id = i, se_version = n, se_deleted = b, se_data = body\<rparr>)
                    | _ \<Rightarrow> raise ValueError ''Invalid sync record'')
              | _ \<Rightarrow> raise ValueError ''Bounded monotonic provider version required'')
          | _ \<Rightarrow> raise ValueError ''Bounded OAuth field required'')
    | _ \<Rightarrow> raise ValueError ''Invalid sync event fields'')"

fun sync_events_from :: "(string \<times> int) list \<Rightarrow> json list \<Rightarrow> sync_event list res" where
  "sync_events_from seen [] = Inr []"
| "sync_events_from seen (v # vs) = bindr (sync_event_of v) (\<lambda>x.
     if (se_id x, se_version x) \<in> set seen then raise ValueError ''Duplicate version inside page''
     else bindr (sync_events_from ((se_id x, se_version x) # seen) vs) (\<lambda>xs. Inr (x # xs)))"

definition sync_events :: "json \<Rightarrow> sync_event list res" where
  "sync_events v = (case v of
      JList vs \<Rightarrow>
        if length vs > 100 then raise ValueError ''Sync page requires at most 100 events''
        else bindr (sync_events_from [] vs) (\<lambda>xs. bindr (encode (JList (map event_json xs))) (\<lambda>t.
          if utf8_length t > 500000 then raise ValueError ''Sync page exceeds limit'' else Inr xs))
    | _ \<Rightarrow> raise ValueError ''Sync page requires at most 100 events'')"

definition cursor_ok :: "string \<Rightarrow> bool" where
  "cursor_ok c \<longleftrightarrow> length c \<le> 4096 \<and> list_all (\<lambda>x. 32 \<le> code_of x) c"

definition find_page :: "db \<Rightarrow> stream_key \<Rightarrow> string \<Rightarrow> page_row option" where
  "find_page s k key = find (\<lambda>p. pg_stream p = k \<and> pg_key p = key) (sync_pages s)"

definition find_version :: "db \<Rightarrow> stream_key \<Rightarrow> string \<Rightarrow> int \<Rightarrow> version_row option" where
  "find_version s k rid n =
     find (\<lambda>v. vr_stream v = k \<and> vr_record v = rid \<and> vr_version v = n) (sync_versions s)"

definition find_record :: "db \<Rightarrow> stream_key \<Rightarrow> string \<Rightarrow> sync_row option" where
  "find_record s k rid = find (\<lambda>r. sr_stream r = k \<and> sr_record r = rid) (sync_records s)"

definition record_row_of :: "int \<Rightarrow> stream_key \<Rightarrow> sync_event \<Rightarrow> sync_row" where
  "record_row_of now k v = \<lparr>sr_stream = k, sr_record = se_id v, sr_version = se_version v,
     sr_deleted = se_deleted v, sr_body = JObj (se_data v), sr_updated = now\<rparr>"

text \<open>The upsert of one record: the number of rows it changed, and the new table.\<close>

definition put_record :: "int \<Rightarrow> stream_key \<Rightarrow> sync_event \<Rightarrow> db \<Rightarrow> nat \<times> db" where
  "put_record now k v s = (case find_record s k (se_id v) of
      None \<Rightarrow> (1, s\<lparr>sync_records := sync_records s @ [record_row_of now k v]\<rparr>)
    | Some r \<Rightarrow>
        if se_version v > sr_version r
        then (1, s\<lparr>sync_records := upd_where (\<lambda>r. sr_stream r = k \<and> sr_record r = se_id v)
                (\<lambda>_. record_row_of now k v) (sync_records s)\<rparr>)
        else (0, s))"

definition put_version :: "stream_key \<Rightarrow> sync_event \<Rightarrow> string \<Rightarrow> db \<Rightarrow> db" where
  "put_version k v fp s = (case find_version s k (se_id v) (se_version v) of
      Some _ \<Rightarrow> s
    | None \<Rightarrow> s\<lparr>sync_versions := sync_versions s @ [\<lparr>vr_stream = k, vr_record = se_id v,
        vr_version = se_version v, vr_fingerprint = fp\<rparr>]\<rparr>)"

definition apply_event :: "env \<Rightarrow> int \<Rightarrow> stream_key \<Rightarrow> sync_event \<Rightarrow> db \<Rightarrow> (nat \<times> db) res" where
  "apply_event e now k v s = bindr (digest e (event_json v)) (\<lambda>fp.
     case find_version s k (se_id v) (se_version v) of
       Some p \<Rightarrow> (if vr_fingerprint p \<noteq> fp
                 then raise Conflict ''Provider record version reused with different content''
                 else Inr (put_record now k v (put_version k v fp s)))
     | None \<Rightarrow> Inr (put_record now k v (put_version k v fp s)))"

fun apply_events :: "env \<Rightarrow> int \<Rightarrow> stream_key \<Rightarrow> sync_event list \<Rightarrow> db \<Rightarrow> (nat \<times> db) res" where
  "apply_events e now k [] s = Inr (0, s)"
| "apply_events e now k (v # vs) s = bindr (apply_event e now k v s) (\<lambda>(n, s1).
     bindr (apply_events e now k vs s1) (\<lambda>(m, s2). Inr (n + m, s2)))"

definition page_receipt :: "string \<Rightarrow> int \<Rightarrow> nat \<Rightarrow> string \<Rightarrow> json" where
  "page_receipt key revision changed next_cursor =
     JObj [(''page_key'', JStr key), (''revision'', JInt revision),
           (''changed_records'', JInt (int changed)), (''next_cursor'', JStr next_cursor)]"

definition run_guard :: "(db \<Rightarrow> exn option) option \<Rightarrow> db \<Rightarrow> unit res" where
  "run_guard guard s = (case guard of None \<Rightarrow> Inr ()
     | Some g \<Rightarrow> (case g s of None \<Rightarrow> Inr () | Some x \<Rightarrow> Inl x))"

definition page_digest :: "env \<Rightarrow> string \<Rightarrow> string \<Rightarrow> sync_event list \<Rightarrow> string res" where
  "page_digest e expected next_cursor xs =
     digest e (JObj [(''cursor'', JStr expected), (''next'', JStr next_cursor),
                     (''events'', JList (map event_json xs))])"

definition commit_new ::
  "env \<Rightarrow> int \<Rightarrow> stream_key \<Rightarrow> string \<Rightarrow> string \<Rightarrow> string \<Rightarrow> sync_event list \<Rightarrow> string \<Rightarrow> stream_row
     \<Rightarrow> db \<Rightarrow> (json \<times> db) res" where
  "commit_new e now k actor key next_cursor xs fp row s =
     bindr (apply_events e now k xs s) (\<lambda>(changed, s1).
       let receipt = page_receipt key (w_revision row + 1) changed next_cursor;
           s2 = set_stream k (\<lambda>w. w\<lparr>w_cursor := next_cursor, w_revision := w_revision w + 1\<rparr>) s1;
           s3 = s2\<lparr>sync_pages := sync_pages s2 @ [\<lparr>pg_stream = k, pg_key = key,
                  pg_fingerprint = fp, pg_receipt = receipt\<rparr>]\<rparr>
       in Inr (receipt, audit now (fst k) [] ''sync.page_committed'' actor
            [(''connection'', JStr (fst (snd k))), (''stream'', JStr (snd (snd k))),
             (''revision'', JInt (w_revision row + 1)), (''changed_records'', JInt (int changed))] s3))"

definition sync_commit ::
  "env \<Rightarrow> int \<Rightarrow> (db \<Rightarrow> exn option) option \<Rightarrow> stream_key \<Rightarrow> string \<Rightarrow> string \<Rightarrow> string \<Rightarrow> string
     \<Rightarrow> string \<Rightarrow> json \<Rightarrow> db \<Rightarrow> (json \<times> db) res" where
  "sync_commit e now guard k actor token key expected next_cursor page s =
     bindr (oauth_bounded 256 key) (\<lambda>_.
       if \<not> cursor_ok expected \<or> \<not> cursor_ok next_cursor then raise ValueError ''Invalid opaque cursor''
       else bindr (sync_events page) (\<lambda>xs. bindr (page_digest e expected next_cursor xs) (\<lambda>fp.
         bindr (sync_owned e now k actor token s) (\<lambda>row. bindr (run_guard guard s) (\<lambda>_.
           case find_page s k key of
             Some p \<Rightarrow> (if pg_fingerprint p \<noteq> fp
                       then raise Conflict ''Sync page key reused with different payload''
                       else Inr (pg_receipt p, s))
           | None \<Rightarrow>
               if w_cursor row \<noteq> expected then raise Conflict ''Sync cursor changed''
               else commit_new e now k actor key next_cursor xs fp row s)))))"

definition sync_reset ::
  "env \<Rightarrow> int \<Rightarrow> (db \<Rightarrow> exn option) option \<Rightarrow> stream_key \<Rightarrow> string \<Rightarrow> db \<Rightarrow> db res" where
  "sync_reset e now guard k actor s = (case k of (tenant, connection, stream) \<Rightarrow>
     bindr (require_authority e tenant ''web'' actor [''owner'']) (\<lambda>_.
       bindr (require_active e s tenant) (\<lambda>_. bindr (sync_connection s tenant connection) (\<lambda>conn.
         bindr (run_guard guard s) (\<lambda>_.
           Inr (audit now tenant [] ''sync.reset'' actor
             [(''connection'', JStr connection), (''stream'', JStr stream)]
             (s\<lparr>sync_pages := filter (\<lambda>p. pg_stream p \<noteq> k) (sync_pages s),
                sync_versions := filter (\<lambda>v. vr_stream v \<noteq> k) (sync_versions s),
                sync_records := filter (\<lambda>r. sr_stream r \<noteq> k) (sync_records s),
                streams := filter (\<lambda>w. w_key w \<noteq> k) (streams s) @ [new_stream k (x_generation conn)]\<rparr>)))))))"

text \<open>\<^verbatim>\<open>records\<close>: a page of the records after a key, in key order.\<close>

definition record_view :: "sync_row \<Rightarrow> json" where
  "record_view r = JObj [(''id'', JStr (sr_record r)), (''version'', JInt (sr_version r)),
     (''deleted'', JBool (sr_deleted r)), (''untrusted_content'', JBool True), (''data'', sr_body r)]"

definition sync_list ::
  "env \<Rightarrow> stream_key \<Rightarrow> string \<Rightarrow> int \<Rightarrow> string \<Rightarrow> db \<Rightarrow> json list res" where
  "sync_list e k actor limit after s = (case k of (tenant, connection, _) \<Rightarrow>
     if \<not> (1 \<le> limit \<and> limit \<le> 100) then raise ValueError ''Invalid record limit''
     else bindr (if after = [] then Inr [] else oauth_bounded 256 after) (\<lambda>_.
       bindr (sync_authority e s tenant actor) (\<lambda>_. bindr (sync_connection s tenant connection) (\<lambda>conn.
         bindr (stream_row_of s k) (\<lambda>row.
           if w_generation row \<noteq> x_generation conn then raise Conflict ''Sync credential changed''
           else Inr (map record_view (take (nat limit) (sort_key sr_record
             (filter (\<lambda>r. sr_stream r = k \<and> after < sr_record r) (sync_records s))))))))))"

end
