(* ===== verification/Sync_Props.thy ===== *)
theory Sync_Props
  imports Sync_Store Contracts Demo_Env
begin

text \<open>
  What read-sync guarantees: a stream has one writer at a time, a page is committed once and
  advances the cursor it was read at, and a record only moves to higher provider versions.
\<close>

section \<open>The stream lease\<close>

definition sync_held :: "db \<Rightarrow> stream_key \<Rightarrow> int \<Rightarrow> string \<times> string \<Rightarrow> bool" where
  "sync_held s k now h \<longleftrightarrow>
     (\<exists>w. find_stream s k = Some w \<and> stream_held now (fst h) (snd h) w)"

definition sync_grant ::
  "env \<Rightarrow> string \<Rightarrow> int \<Rightarrow> int \<Rightarrow> stream_key \<Rightarrow> db \<Rightarrow> ((string \<times> string) \<times> db) option" where
  "sync_grant e actor seconds now k s = (case sync_claim e now k actor seconds s of
     Inl _ \<Rightarrow> None | Inr (c, t) \<Rightarrow> Some ((actor, sc_claim c), t))"

lemma find_set_stream:
  assumes "\<And>w. w_key (f w) = w_key w"
  shows "find_stream (set_stream k f s) j =
    (if j = k then map_option f (find_stream s j) else find_stream s j)"
proof -
  have "find_stream (set_stream k f s) j = (case find_stream s j of None \<Rightarrow> None
      | Some r \<Rightarrow> Some (if w_key r = k then f r else r))"
    unfolding find_stream_def set_stream_def by (simp add: find_upd_where assms)
  moreover have "find_stream s j = Some r \<Longrightarrow> w_key r = j" for r
    by (auto simp: find_stream_def dest: find_Some_mem)
  ultimately show ?thesis by (auto split: option.splits)
qed

lemma find_ensure_stream:
  "find_stream (ensure_stream k g s) j =
     (if j = k \<and> find_stream s k = None then Some (new_stream k g) else find_stream s j)"
  by (auto simp: ensure_stream_def find_stream_def find_append new_stream_def split: option.splits)

lemma drawn_streams [simp]: "streams (drawn s) = streams s" "find_stream (drawn s) k = find_stream s k"
  by (simp_all add: drawn_def find_stream_def)

text \<open>A claim: the row it was granted on, and the row after it.\<close>

lemma sync_claimE:
  assumes "sync_claim e now k actor seconds s = Inr (c, t)"
  obtains w where "find_stream (ensure_stream k (sc_generation c) s) k = Some w"
    and "w_claim w = [] \<or> w_lease w \<le> now" and "sc_claim c = fresh e s" and "lease_ok seconds"
    and "find_stream t k =
      Some (w\<lparr>w_claim := sc_claim c, w_lease := now + seconds, w_owner := actor\<rparr>)"
    and "sc_cursor c = w_cursor w" and "w_generation w = sc_generation c"
proof -
  obtain tenant connection stream where k: "k = (tenant, connection, stream)"
    by (metis surj_pair)
  have tx: "sync_claim_tx e now k actor seconds s = Inr (c, t)" and ok: "lease_ok seconds"
    using assms unfolding sync_claim_def k prod.case bindr_Inr if_Inr by blast+
  obtain conn where "sync_connection s tenant connection = Inr conn"
    and tx2: "bindr (stream_row_of (ensure_stream k (x_generation conn) s) k) (\<lambda>row.
         if w_generation row \<noteq> x_generation conn
           then raise Conflict ''Connection generation changed; owner must reset sync''
         else if w_claim row \<noteq> [] \<and> w_lease row > now then raise Conflict ''Sync lease already owned''
         else let token = fresh e s in
           Inr (\<lparr>sc_claim = token, sc_cursor = w_cursor row, sc_revision = w_revision row,
                 sc_generation = x_generation conn, sc_expires = now + seconds\<rparr>,
                set_stream k (\<lambda>w. w\<lparr>w_claim := token, w_lease := now + seconds, w_owner := actor\<rparr>)
                  (drawn (ensure_stream k (x_generation conn) s)))) = Inr (c, t)"
    using tx unfolding sync_claim_tx_def k prod.case bindr_Inr Let_def by blast
  then obtain w where w: "stream_row_of (ensure_stream k (x_generation conn) s) k = Inr w"
    unfolding bindr_Inr by blast
  with tx2 have c: "w_generation w = x_generation conn" "w_claim w = [] \<or> w_lease w \<le> now"
    "c = \<lparr>sc_claim = fresh e s, sc_cursor = w_cursor w, sc_revision = w_revision w,
       sc_generation = x_generation conn, sc_expires = now + seconds\<rparr>"
    "t = set_stream k (\<lambda>w. w\<lparr>w_claim := fresh e s, w_lease := now + seconds, w_owner := actor\<rparr>)
       (drawn (ensure_stream k (x_generation conn) s))"
    by (auto simp: Let_def split: if_split_asm)
  moreover from w have "find_stream (ensure_stream k (x_generation conn) s) k = Some w"
    by (auto simp: stream_row_of_def split: option.splits)
  ultimately show ?thesis using ok by (intro that[of w]) (auto simp: find_set_stream)
qed

interpretation sync_lease: timed_lease sync_held "sync_grant e actor seconds" seconds
    "\<lambda>h. snd h \<noteq> []" for e actor seconds
proof unfold_locales
  fix now k s t s' u m n
  show "\<not> sync_held s k now u" if "sync_grant e actor seconds now k s = Some (t, s')"
  proof -
    from that obtain c where c: "sync_claim e now k actor seconds s = Inr (c, s')"
      by (auto simp: sync_grant_def split: sum.splits)
    show ?thesis
      by (rule sync_claimE[OF c])
        (auto simp: sync_held_def stream_held_def find_ensure_stream split: if_split_asm)
  qed
  show "u = t" if "sync_grant e actor seconds now k s = Some (t, s')" "sync_held s' k m u"
  proof -
    from that(1) obtain c where c: "sync_claim e now k actor seconds s = Inr (c, s')"
      and t: "t = (actor, sc_claim c)"
      by (auto simp: sync_grant_def split: sum.splits)
    show ?thesis
      by (rule sync_claimE[OF c]) (use that(2) t in \<open>auto simp: sync_held_def stream_held_def\<close>)
  qed
  show "sync_held s k n u" if "sync_held s k m u" "n \<le> m"
    using that by (auto simp: sync_held_def stream_held_def)
  show "sync_held s' k m t" if "sync_grant e actor seconds now k s = Some (t, s')" "snd t \<noteq> []"
    "m < now + seconds"
  proof -
    from that(1) obtain c where c: "sync_claim e now k actor seconds s = Inr (c, s')"
      and t: "t = (actor, sc_claim c)"
      by (auto simp: sync_grant_def split: sum.splits)
    show ?thesis
      by (rule sync_claimE[OF c]) (use that(2,3) t in \<open>auto simp: sync_held_def stream_held_def\<close>)
  qed
qed

section \<open>Write-once tables of the store\<close>

definition put_page :: "stream_key \<times> string \<Rightarrow> page_row \<Rightarrow> db \<Rightarrow> db" where
  "put_page k p s = s\<lparr>sync_pages := sync_pages s @ [p]\<rparr>"

interpretation pages: write_once "\<lambda>s k. find_page s (fst k) (snd k)" put_page
    "\<lambda>k p. (pg_stream p, pg_key p) = k"
  by unfold_locales (auto simp: find_page_def put_page_def find_append split: option.splits)

definition put_version_row :: "stream_key \<times> string \<times> int \<Rightarrow> version_row \<Rightarrow> db \<Rightarrow> db" where
  "put_version_row k v s = s\<lparr>sync_versions := sync_versions s @ [v]\<rparr>"

interpretation versions: write_once "\<lambda>s k. find_version s (fst k) (fst (snd k)) (snd (snd k))"
    put_version_row "\<lambda>k v. (vr_stream v, vr_record v, vr_version v) = k"
  by unfold_locales (auto simp: find_version_def put_version_row_def find_append split: option.splits)

lemma put_version_once:
  "put_version k v fp s = put_once (\<lambda>s k. find_version s (fst k) (fst (snd k)) (snd (snd k)))
     put_version_row ((k, se_id v, se_version v), \<lparr>vr_stream = k, vr_record = se_id v,
        vr_version = se_version v, vr_fingerprint = fp\<rparr>) s"
  by (simp add: put_version_def put_once_def put_version_row_def split: option.splits)

section \<open>Records\<close>

lemma put_version_fields [simp]:
  "sync_records (put_version k v fp s) = sync_records s"
  "streams (put_version k v fp s) = streams s" "sync_pages (put_version k v fp s) = sync_pages s"
  by (simp_all add: put_version_def split: option.splits)

lemma put_record_fields [simp]:
  "sync_versions (snd (put_record now k v s)) = sync_versions s"
  "streams (snd (put_record now k v s)) = streams s"
  "sync_pages (snd (put_record now k v s)) = sync_pages s"
  by (simp_all add: put_record_def split: option.splits)

lemma find_put_record:
  "find_record (snd (put_record now k v s)) j rid =
     (if j = k \<and> rid = se_id v
        \<and> (case find_record s k rid of None \<Rightarrow> True | Some r \<Rightarrow> sr_version r < se_version v)
      then Some (record_row_of now k v) else find_record s j rid)"
proof -
  have upd: "find (\<lambda>r. sr_stream r = j \<and> sr_record r = rid)
       (upd_where (\<lambda>r. sr_stream r = k \<and> sr_record r = se_id v) (\<lambda>_. record_row_of now k v) xs) =
     (if j = k \<and> rid = se_id v \<and> (\<exists>x \<in> set xs. sr_stream x = k \<and> sr_record x = rid)
      then Some (record_row_of now k v)
      else find (\<lambda>r. sr_stream r = j \<and> sr_record r = rid) xs)" for xs
    by (induction xs) (auto simp: record_row_of_def)
  have mem: "find_record s k rid = Some r \<Longrightarrow> \<exists>x \<in> set (sync_records s). sr_stream x = k \<and> sr_record x = rid"
    for r unfolding find_record_def by (auto dest: find_Some_mem)
  show ?thesis
  proof (cases "find_record s k (se_id v)")
    case None
    then show ?thesis
      by (auto simp: put_record_def find_record_def find_append record_row_of_def split: option.splits)
  next
    case (Some r)
    show ?thesis
    proof (cases "sr_version r < se_version v")
      case True
      let ?t = "s\<lparr>sync_records := upd_where (\<lambda>r. sr_stream r = k \<and> sr_record r = se_id v)
                (\<lambda>_. record_row_of now k v) (sync_records s)\<rparr>"
      have t: "snd (put_record now k v s) = ?t" using Some True by (simp add: put_record_def)
      have "find_record ?t j rid = find (\<lambda>r. sr_stream r = j \<and> sr_record r = rid)
          (upd_where (\<lambda>r. sr_stream r = k \<and> sr_record r = se_id v)
            (\<lambda>_. record_row_of now k v) (sync_records s))" by (simp add: find_record_def)
      also have "\<dots> = (if j = k \<and> rid = se_id v \<and> (\<exists>x \<in> set (sync_records s). sr_stream x = k \<and> sr_record x = rid)
          then Some (record_row_of now k v) else find_record s j rid)"
        unfolding upd find_record_def ..
      finally have "find_record (snd (put_record now k v s)) j rid =
        (if j = k \<and> rid = se_id v \<and> (\<exists>x \<in> set (sync_records s). sr_stream x = k \<and> sr_record x = rid)
          then Some (record_row_of now k v) else find_record s j rid)"
        unfolding t .
      then show ?thesis using Some True mem by auto
    next
      case False
      then show ?thesis using Some by (auto simp: put_record_def)
    qed
  qed
qed

text \<open>What applying events does to the record of one key.\<close>

definition forward :: "sync_row option \<Rightarrow> sync_row option \<Rightarrow> bool" where
  "forward a b \<longleftrightarrow> (case a of None \<Rightarrow> True
     | Some r \<Rightarrow> (case b of None \<Rightarrow> False
         | Some r' \<Rightarrow> r' = r \<or> sr_version r < sr_version r'))"

lemma forward_refl [simp]: "forward a a"
  by (simp add: forward_def split: option.splits)

lemma forward_trans: "forward a b \<Longrightarrow> forward b c \<Longrightarrow> forward a c"
  by (auto simp: forward_def split: option.splits)

lemma apply_eventE:
  assumes "apply_event e now k v s = Inr (n, t)"
  obtains fp where "digest e (event_json v) = Inr fp"
    and "t = snd (put_record now k v (put_version k v fp s))"
    and "\<forall>p. find_version s k (se_id v) (se_version v) = Some p \<longrightarrow> vr_fingerprint p = fp"
proof -
  from assms obtain fp where fp: "digest e (event_json v) = Inr fp"
    by (auto simp: apply_event_def bindr_Inr)
  with assms show ?thesis
    by (intro that[of fp])
      (auto simp: apply_event_def prod_eq_iff split: option.splits if_split_asm)
qed

lemma apply_events_streams:
  "apply_events e now k xs s = Inr (n, t) \<Longrightarrow> streams t = streams s \<and> sync_pages t = sync_pages s"
proof (induction xs arbitrary: s n)
  case (Cons v vs)
  then obtain m s1 m' where a: "apply_event e now k v s = Inr (m, s1)"
    and b: "apply_events e now k vs s1 = Inr (m', t)"
    by (auto simp: bindr_Inr)
  from Cons.IH[OF b] a show ?case by (auto elim: apply_eventE)
qed simp

lemma apply_events_forward:
  "apply_events e now k xs s = Inr (n, t) \<Longrightarrow>
     forward (find_record s j rid) (find_record t j rid)
     \<and> (\<forall>v \<in> set xs. \<exists>r. find_record t k (se_id v) = Some r \<and> se_version v \<le> sr_version r)"
proof (induction xs arbitrary: s n j rid)
  case (Cons v vs)
  then obtain m s1 m' where a: "apply_event e now k v s = Inr (m, s1)"
    and b: "apply_events e now k vs s1 = Inr (m', t)"
    by (auto simp: bindr_Inr)
  from a obtain fp where s1: "s1 = snd (put_record now k v (put_version k v fp s))"
    by (rule apply_eventE)
  have same: "find_record (put_version k v fp s) i q = find_record s i q" for i q
    by (simp add: find_record_def)
  have step: "forward (find_record s i q) (find_record s1 i q)" for i q
    unfolding s1 find_put_record same
    by (auto simp: forward_def record_row_of_def split: option.splits)
  have "\<exists>r. find_record s1 k (se_id v) = Some r \<and> se_version v \<le> sr_version r"
    unfolding s1 find_put_record same by (auto simp: record_row_of_def split: option.splits)
  then obtain r where r: "find_record s1 k (se_id v) = Some r" "se_version v \<le> sr_version r" by blast
  have "forward (find_record s1 k (se_id v)) (find_record t k (se_id v))"
    using Cons.IH[OF b] by blast
  with r have "\<exists>r. find_record t k (se_id v) = Some r \<and> se_version v \<le> sr_version r"
    by (auto simp: forward_def split: option.splits)
  moreover have "forward (find_record s j rid) (find_record t j rid)"
    using step[of j rid] Cons.IH[OF b, of j rid] forward_trans by blast
  ultimately show ?case using Cons.IH[OF b] by auto
qed simp

section \<open>Committing a page\<close>

lemma sync_commitE:
  assumes "sync_commit e now guard k actor token key expected next_cursor page s = Inr (receipt, t)"
  obtains (replay) p where "find_page s k key = Some p" and "receipt = pg_receipt p" and "t = s"
  | (new) xs fp row changed s1 where "sync_events page = Inr xs"
      and "find_page s k key = None" and "find_stream s k = Some row"
      and "stream_held now actor token row" and "w_cursor row = expected"
      and "apply_events e now k xs s = Inr (changed, s1)"
      and "receipt = page_receipt key (w_revision row + 1) changed next_cursor"
      and "streams t = upd_where (\<lambda>w. w_key w = k)
        (\<lambda>w. w\<lparr>w_cursor := next_cursor, w_revision := w_revision w + 1\<rparr>) (streams s)"
      and "sync_pages t = sync_pages s @ [\<lparr>pg_stream = k, pg_key = key, pg_fingerprint = fp,
        pg_receipt = receipt\<rparr>]"
      and "sync_records t = sync_records s1"
proof -
  from assms obtain xs fp row where
    xs: "sync_events page = Inr xs" and own: "sync_owned e now k actor token s = Inr row"
    and body: "(case find_page s k key of
             Some p \<Rightarrow> (if pg_fingerprint p \<noteq> fp
                       then raise Conflict ''Sync page key reused with different payload''
                       else Inr (pg_receipt p, s))
           | None \<Rightarrow>
               if w_cursor row \<noteq> expected then raise Conflict ''Sync cursor changed''
               else commit_new e now k actor key next_cursor xs fp row s) = Inr (receipt, t)"
    unfolding sync_commit_def bindr_Inr if_Inr by blast
  obtain tenant connection stream where k: "k = (tenant, connection, stream)"
    by (metis surj_pair)
  from own have row: "find_stream s k = Some row" "stream_held now actor token row"
    by (auto simp: sync_owned_def k bindr_Inr stream_row_of_def split: option.splits if_split_asm)
  show ?thesis
  proof (cases "find_page s k key")
    case (Some p)
    with body show ?thesis by (intro replay) (auto split: if_split_asm)
  next
    case None
    with body have c: "w_cursor row = expected" "commit_new e now k actor key next_cursor xs fp row s = Inr (receipt, t)"
      by (auto split: if_split_asm)
    from c(2) obtain changed s1 where a: "apply_events e now k xs s = Inr (changed, s1)"
      and t: "receipt = page_receipt key (w_revision row + 1) changed next_cursor"
      "streams t = upd_where (\<lambda>w. w_key w = k)
        (\<lambda>w. w\<lparr>w_cursor := next_cursor, w_revision := w_revision w + 1\<rparr>) (streams s1)"
      "sync_pages t = sync_pages s1 @ [\<lparr>pg_stream = k, pg_key = key, pg_fingerprint = fp,
        pg_receipt = receipt\<rparr>]" "sync_records t = sync_records s1"
      by (auto simp: commit_new_def bindr_Inr Let_def set_stream_def audit_def)
    show ?thesis
      by (rule new[OF xs None row c(1) a]) (use t apply_events_streams[OF a] in simp_all)
  qed
qed

section \<open>A concrete stream\<close>

definition sync_key :: stream_key where "sync_key = (''t'', ''c'', ''mail'')"

definition sync_demo_0 :: db where
  "sync_demo_0 = empty_db\<lparr>uuids := 1, connections := [\<lparr>x_tenant = ''t'', x_id = ''c'',
     x_provider = ''p'', x_account = ''a'', x_config = [], x_generation = 1, x_status = CnActive, x_scopes = [],
     x_envelope = [], x_expires = 0, x_attempt = [], x_started = 0, x_owner = ''u'', x_updated = 0\<rparr>]\<rparr>"

definition sync_demo_1 :: db where
  "sync_demo_1 = ok_state (sync_claim demo_env 0 sync_key ''u'' 60 sync_demo_0)"

definition demo_page :: json where
  "demo_page = JList [JObj [(''id'', JStr ''m''), (''version'', JInt 3), (''deleted'', JBool False),
     (''data'', JObj [(''a'', JInt 1)])]]"

definition sync_demo_2 :: db where
  "sync_demo_2 = ok_state (sync_commit demo_env 1 None sync_key ''u'' ''x'' ''p1'' [] ''n1'' demo_page sync_demo_1)"

lemma sync_demo_ok:
  "is_ok (sync_claim demo_env 0 sync_key ''u'' 60 sync_demo_0)"
  "is_ok (sync_commit demo_env 1 None sync_key ''u'' ''x'' ''p1'' [] ''n1'' demo_page sync_demo_1)"
  "is_ok (sync_commit demo_env 2 None sync_key ''u'' ''x'' ''p1'' [] ''n1'' demo_page sync_demo_2)"
  by code_simp+

section \<open>Properties\<close>

text \<open>
  C22: a stream has one writer. A claim is granted only while no live claim exists; until it expires
  no other claim is granted, and the only owner and token that can commit, renew or release the
  stream are the granted ones.
\<close>

theorem sync_stream_has_one_writer:
  assumes "sync_claim e now k actor seconds s = Inr (c, t)" and "sc_claim c \<noteq> []"
    and "now \<le> later" and "later < now + seconds"
  shows "(\<forall>a tok w. find_stream s k = Some w \<longrightarrow> \<not> stream_held now a tok w)
    \<and> \<not> is_ok (sync_claim e later k actor seconds t)
    \<and> (\<forall>a tok r. sync_owned e later k a tok t = Inr r \<longrightarrow> a = actor \<and> tok = sc_claim c)"
proof -
  have g: "sync_grant e actor seconds now k s = Some ((actor, sc_claim c), t)"
    by (simp add: sync_grant_def assms(1))
  have "\<not> sync_held s k now (a, tok)" for a tok by (rule sync_lease.grant_idle[OF g])
  moreover have "sync_grant e actor seconds later k t = None"
    by (rule sync_lease.second_grant_waits[OF g]) (use assms in auto)
  moreover have "(a, tok) = (actor, sc_claim c)" if "sync_held t k later (a, tok)" for a tok
    using sync_lease.grant_sole[OF g that] .
  moreover have "sync_held t k later (a, tok)" if "sync_owned e later k a tok t = Inr r" for a tok r
    using that by (cases k) (auto simp: sync_owned_def bindr_Inr stream_row_of_def sync_held_def
        split: option.splits if_split_asm)
  ultimately show ?thesis
    by (fastforce simp: sync_held_def sync_grant_def is_ok_def split: sum.splits)
qed

lemma sync_stream_has_one_writer_witness:
  "\<not> is_ok (sync_claim demo_env 30 sync_key ''u'' 60 sync_demo_1)"
proof -
  obtain c where c: "sync_claim demo_env 0 sync_key ''u'' 60 sync_demo_0 = Inr (c, sync_demo_1)"
    using ok_stateI[OF sync_demo_ok(1)] unfolding sync_demo_1_def by blast
  have "sc_claim c = ''x''"
    by (rule sync_claimE[OF c]) (simp add: fresh_def demo_env_def sync_demo_0_def)
  with sync_stream_has_one_writer[OF c, of 30] show ?thesis by simp
qed

text \<open>
  A page is committed once. A commit under a page key not yet used was made by the holder of the
  stream at the cursor it names, and advances the cursor to the next one and the revision by one;
  from then on a commit under that key returns the same receipt and changes nothing, or is refused.
\<close>

theorem sync_page_commits_once:
  assumes "sync_commit e now guard k actor token key expected next_cursor page s = Inr (receipt, t)"
  shows "(find_page s k key = None \<longrightarrow> (\<exists>w. find_stream s k = Some w \<and> w_cursor w = expected
      \<and> find_stream t k = Some (w\<lparr>w_cursor := next_cursor, w_revision := w_revision w + 1\<rparr>)))
    \<and> (\<forall>e' now' guard' actor' token' expected' next' page' receipt' u.
        sync_commit e' now' guard' k actor' token' key expected' next' page' t = Inr (receipt', u)
        \<longrightarrow> receipt' = receipt \<and> u = t)"
proof -
  have page: "\<exists>p. find_page t k key = Some p \<and> pg_receipt p = receipt"
    using assms
  proof (cases rule: sync_commitE)
    case (new xs fp row changed s1)
    let ?p = "\<lparr>pg_stream = k, pg_key = key, pg_fingerprint = fp, pg_receipt = receipt\<rparr>"
    have "find_page t k key = find_page (put_page (k, key) ?p s) k key"
      by (simp add: find_page_def put_page_def new(9))
    with pages.look_put[of s "(k, key)" ?p "(k, key)"] new(2) show ?thesis by simp
  qed auto
  have later: "receipt' = receipt \<and> u = t"
    if "sync_commit e' now' guard' k actor' token' key expected' next' page' t = Inr (receipt', u)"
    for e' now' guard' actor' token' expected' next' page' receipt' u
    using that by (cases rule: sync_commitE) (use page in auto)
  have "\<exists>w. find_stream s k = Some w \<and> w_cursor w = expected
      \<and> find_stream t k = Some (w\<lparr>w_cursor := next_cursor, w_revision := w_revision w + 1\<rparr>)"
    if none: "find_page s k key = None"
    using assms
  proof (cases rule: sync_commitE)
    case (new xs fp row changed s1)
    have "find_stream t k = find_stream (set_stream k
        (\<lambda>w. w\<lparr>w_cursor := next_cursor, w_revision := w_revision w + 1\<rparr>) s) k"
      by (simp add: find_stream_def set_stream_def new(8))
    with new show ?thesis by (simp add: find_set_stream)
  qed (use none in simp)
  with later show ?thesis by blast
qed

lemma sync_page_commits_once_witness:
  "ok_state (sync_commit demo_env 2 None sync_key ''u'' ''x'' ''p1'' [] ''n1'' demo_page sync_demo_2)
     = sync_demo_2"
proof -
  obtain r where r: "sync_commit demo_env 1 None sync_key ''u'' ''x'' ''p1'' [] ''n1'' demo_page sync_demo_1
      = Inr (r, sync_demo_2)"
    using ok_stateI[OF sync_demo_ok(2)] unfolding sync_demo_2_def by blast
  obtain r' u where u: "sync_commit demo_env 2 None sync_key ''u'' ''x'' ''p1'' [] ''n1'' demo_page sync_demo_2
      = Inr (r', u)"
    using ok_stateI[OF sync_demo_ok(3)] by blast
  with sync_page_commits_once[OF r] have "u = sync_demo_2" by blast
  with u show ?thesis by (simp add: ok_state_def)
qed

text \<open>
  Records only move forward. A committed page leaves every record of every stream as it was or
  replaces it by one of a strictly higher provider version, and afterwards each record the page
  names is at least at the version the page carries.
\<close>

theorem sync_records_move_forward:
  assumes "sync_commit e now guard k actor token key expected next_cursor page s = Inr (receipt, t)"
    and "find_page s k key = None" and "sync_events page = Inr xs"
  shows "(\<forall>j rid r. find_record s j rid = Some r \<longrightarrow>
        (\<exists>r'. find_record t j rid = Some r' \<and> (r' = r \<or> sr_version r < sr_version r')))
    \<and> (\<forall>v \<in> set xs. \<exists>r. find_record t k (se_id v) = Some r \<and> se_version v \<le> sr_version r)"
  using assms(1)
proof (cases rule: sync_commitE)
  case (new ys fp row changed s1)
  have "find_record t j rid = find_record s1 j rid" for j rid
    by (simp add: find_record_def new(10))
  note same = this
  have "\<exists>r'. find_record t j rid = Some r' \<and> (r' = r \<or> sr_version r < sr_version r')"
    if r: "find_record s j rid = Some r" for j rid r
  proof -
    have "forward (find_record s j rid) (find_record t j rid)"
      unfolding same using apply_events_forward[OF new(6)] by blast
    with r show ?thesis by (auto simp: forward_def split: option.splits)
  qed
  moreover have "ys = xs" using assms(3) new(1) by simp
  then have "\<forall>v \<in> set xs. \<exists>r. find_record t k (se_id v) = Some r \<and> se_version v \<le> sr_version r"
    unfolding same using apply_events_forward[OF new(6)] by blast
  ultimately show ?thesis by blast
qed (use assms(2) in simp)

lemma sync_records_move_forward_witness:
  "\<exists>r. find_record sync_demo_2 sync_key ''m'' = Some r \<and> 3 \<le> sr_version r"
proof -
  obtain r where r: "sync_commit demo_env 1 None sync_key ''u'' ''x'' ''p1'' [] ''n1'' demo_page sync_demo_1
      = Inr (r, sync_demo_2)"
    using ok_stateI[OF sync_demo_ok(2)] unfolding sync_demo_2_def by blast
  have n: "find_page sync_demo_1 sync_key ''p1'' = None" by code_simp
  have x: "sync_events demo_page = Inr [\<lparr>se_id = ''m'', se_version = 3, se_deleted = False,
      se_data = [(''a'', JInt 1)]\<rparr>]" by code_simp
  from sync_records_move_forward[OF r n x] show ?thesis by simp
qed

end
