(* ===== verification/Ladder.thy ===== *)
theory Ladder
  imports Prelude
begin

text \<open>
  The autonomy ladder of an agent (\<^verbatim>\<open>app/ladder.py\<close>): the level each \<^verbatim>\<open>tenant:agent\<close>
  key has, its window of outcomes, and the rules that move it. The table is a finite map; the error
  rates are exact rationals (the source divides two small integers and compares with a literal, and
  a correctly rounded division keeps that order).
\<close>

definition LEVELS :: "string list" where
  "LEVELS = [''human_led'', ''human_assisted'', ''autonomous'']"
definition DEFAULT_MIN_TASKS :: nat where "DEFAULT_MIN_TASKS = 30"
definition DEFAULT_MAX_ERR :: rat where "DEFAULT_MAX_ERR = 1 / 20"
definition DEFAULT_DEMOTE_ERR :: rat where "DEFAULT_DEMOTE_ERR = 1 / 5"
definition MIN_WINDOW :: nat where "MIN_WINDOW = 30"

definition ladder_key :: "string \<Rightarrow> string \<Rightarrow> string" where
  "ladder_key tenant agent = tenant @ '':'' @ agent"

record ladder_entry =
  le_level :: string
  le_outcomes :: "bool list"

type_synonym ladder_table = "string \<Rightarrow> ladder_entry option"

record ladder_rules =
  lr_min_tasks :: nat
  lr_max_err :: rat
  lr_demote_err :: rat
  lr_auto_cap :: bool

definition default_rules :: ladder_rules where
  "default_rules = \<lparr>lr_min_tasks = DEFAULT_MIN_TASKS, lr_max_err = DEFAULT_MAX_ERR,
     lr_demote_err = DEFAULT_DEMOTE_ERR, lr_auto_cap = True\<rparr>"

definition ladder_window :: "ladder_rules \<Rightarrow> nat" where
  "ladder_window p = max MIN_WINDOW (lr_min_tasks p)"

definition check_id :: "string \<Rightarrow> unit res" where
  "check_id agent =
     (if agent = [] \<or> (CHR '':'' \<in> set agent \<and> length (filter (\<lambda>c. c = CHR '':'') agent) \<noteq> 1)
      then raise ValueError ''agent_id'' else Inr ())"

definition ladder_level :: "string \<Rightarrow> ladder_table \<Rightarrow> string res" where
  "ladder_level agent s = bindr (check_id agent) (\<lambda>_.
     Inr (case s agent of None \<Rightarrow> ''human_led'' | Some x \<Rightarrow> le_level x))"

definition set_level :: "string \<Rightarrow> string \<Rightarrow> ladder_table \<Rightarrow> (string \<times> ladder_table) res" where
  "set_level agent level s =
     (if level \<notin> set LEVELS then raise ValueError ''level''
      else bindr (check_id agent) (\<lambda>_.
        Inr (level, s(agent \<mapsto> \<lparr>le_level = level, le_outcomes = []\<rparr>))))"

text \<open>\<^verbatim>\<open>xs[-n:]\<close> for a positive \<open>n\<close>.\<close>

definition last_n :: "nat \<Rightarrow> 'a list \<Rightarrow> 'a list" where
  "last_n n xs = drop (length xs - n) xs"

definition level_index :: "string \<Rightarrow> nat res" where
  "level_index level =
     (if level = ''human_led'' then Inr 0 else if level = ''human_assisted'' then Inr 1
      else if level = ''autonomous'' then Inr 2 else raise ValueError ''not in list'')"

definition error_rate :: "bool list \<Rightarrow> rat" where
  "error_rate xs = of_nat (length (filter Not xs)) / of_nat (length xs)"

text \<open>The entry after one more outcome.\<close>

definition ladder_step :: "ladder_rules \<Rightarrow> ladder_entry \<Rightarrow> bool \<Rightarrow> ladder_entry res" where
  "ladder_step p x ok =
     (let outs = last_n (ladder_window p) (le_outcomes x @ [ok]);
          y = x\<lparr>le_outcomes := outs\<rparr> in
      if length outs \<ge> lr_min_tasks p then
        bindr (level_index (le_level x)) (\<lambda>idx.
          if error_rate outs \<le> lr_max_err p \<and> idx < length LEVELS - 1 then
            (let nxt = LEVELS ! (idx + 1) in
             if lr_auto_cap p \<and> nxt = ''autonomous'' then Inr y
             else Inr \<lparr>le_level = nxt, le_outcomes = []\<rparr>)
          else if error_rate outs > lr_demote_err p \<and> idx > 0
            then Inr \<lparr>le_level = LEVELS ! (idx - 1), le_outcomes = []\<rparr>
          else Inr y)
      else Inr y)"

definition ladder_record ::
  "ladder_rules \<Rightarrow> string \<Rightarrow> bool \<Rightarrow> ladder_table \<Rightarrow> (string \<times> ladder_table) res" where
  "ladder_record p agent ok s = bindr (check_id agent) (\<lambda>_.
     let x = (case s agent of None \<Rightarrow> \<lparr>le_level = ''human_led'', le_outcomes = []\<rparr> | Some x \<Rightarrow> x) in
     bindr (ladder_step p x ok) (\<lambda>y. Inr (le_level y, s(agent \<mapsto> y))))"

fun ladder_records ::
  "ladder_rules \<Rightarrow> string \<Rightarrow> bool list \<Rightarrow> ladder_table \<Rightarrow> ladder_table res" where
  "ladder_records p agent [] s = Inr s"
| "ladder_records p agent (ok # oks) s =
     bindr (ladder_record p agent ok s) (\<lambda>(_, t). ladder_records p agent oks t)"

section \<open>Well-formed tables\<close>

definition ladder_ok :: "ladder_rules \<Rightarrow> ladder_table \<Rightarrow> bool" where
  "ladder_ok p s \<longleftrightarrow> (\<forall>agent x. s agent = Some x \<longrightarrow>
     le_level x \<in> set LEVELS \<and> length (le_outcomes x) \<le> ladder_window p)"

lemma level_index_ok: "level \<in> set LEVELS \<Longrightarrow> \<exists>i. level_index level = Inr i \<and> i < 3 \<and> LEVELS ! i = level"
  by (auto simp: LEVELS_def level_index_def)

lemma length_last_n [simp]: "length (last_n n xs) = min n (length xs)"
  by (simp add: last_n_def)

text \<open>Where one outcome can take an agent.\<close>

lemma ladder_step_cases:
  assumes "ladder_step p x ok = Inr y" and "le_level x \<in> set LEVELS"
  obtains (stay) "le_level y = le_level x"
      "le_outcomes y = last_n (ladder_window p) (le_outcomes x @ [ok])"
  | (up) i where "level_index (le_level x) = Inr i" "i + 1 < length LEVELS"
      "le_level y = LEVELS ! (i + 1)" "le_outcomes y = []"
      "lr_auto_cap p \<longrightarrow> le_level y \<noteq> ''autonomous''"
      "lr_min_tasks p \<le> length (last_n (ladder_window p) (le_outcomes x @ [ok]))"
      "error_rate (last_n (ladder_window p) (le_outcomes x @ [ok])) \<le> lr_max_err p"
  | (down) i where "level_index (le_level x) = Inr i" "0 < i" "i < length LEVELS"
      "le_level y = LEVELS ! (i - 1)" "le_outcomes y = []"
      "lr_demote_err p < error_rate (last_n (ladder_window p) (le_outcomes x @ [ok]))"
proof -
  obtain i where i: "level_index (le_level x) = Inr i" "i < 3"
    using level_index_ok[OF assms(2)] by blast
  have len: "length LEVELS = 3" by (simp add: LEVELS_def)
  from assms(1) i show ?thesis
    using stay up[of i] down[of i] unfolding ladder_step_def Let_def len
    by (auto split: if_split_asm)
qed

lemma levels_nth: "i < length LEVELS \<Longrightarrow> LEVELS ! i \<in> set LEVELS"
  by (rule nth_mem)

lemma ladder_step_ok:
  assumes "ladder_step p x ok = Inr y" and "le_level x \<in> set LEVELS"
  shows "le_level y \<in> set LEVELS \<and> length (le_outcomes y) \<le> ladder_window p"
  using assms
proof (cases rule: ladder_step_cases)
  case (down i)
  then show ?thesis using levels_nth[of "i - 1"] by simp
next
  case (up i)
  then show ?thesis using levels_nth[of "i + 1"] by simp
qed (use assms in simp)

section \<open>Properties\<close>

text \<open>
  Only an owner makes an agent autonomous. Under the cap an outcome moves an agent at most one
  rung, never up to \<open>autonomous\<close>, up only from a full window of at most five per cent errors
  and down only from one above twenty; levels stay on the ladder and windows bounded.
\<close>

theorem ladder_moves_one_rung:
  assumes "ladder_ok p s" and "ladder_record p agent ok s = Inr (level, t)"
  shows "ladder_ok p t \<and> (\<exists>i j. level_index level = Inr j
     \<and> level_index (case s agent of None \<Rightarrow> ''human_led'' | Some x \<Rightarrow> le_level x) = Inr i
     \<and> j \<le> i + 1 \<and> i \<le> j + 1 \<and> (lr_auto_cap p \<and> i < j \<longrightarrow> level \<noteq> ''autonomous''))"
proof -
  define x where "x = (case s agent of None \<Rightarrow> \<lparr>le_level = ''human_led'', le_outcomes = []\<rparr> | Some x \<Rightarrow> x)"
  from assms(2) obtain y where y: "ladder_step p x ok = Inr y" "level = le_level y" "t = s(agent \<mapsto> y)"
    by (auto simp: ladder_record_def Let_def bindr_Inr x_def)
  have x: "le_level x \<in> set LEVELS"
    using assms(1) by (auto simp: x_def ladder_ok_def LEVELS_def split: option.splits)
  have lev: "(case s agent of None \<Rightarrow> ''human_led'' | Some x \<Rightarrow> le_level x) = le_level x"
    by (simp add: x_def split: option.splits)
  have "ladder_ok p t"
    using assms(1) ladder_step_ok[OF y(1) x] by (auto simp: ladder_ok_def y(3))
  moreover have "\<exists>i j. level_index (le_level y) = Inr j \<and> level_index (le_level x) = Inr i
     \<and> j \<le> i + 1 \<and> i \<le> j + 1 \<and> (lr_auto_cap p \<and> i < j \<longrightarrow> le_level y \<noteq> ''autonomous'')"
    using y(1) x
  proof (cases rule: ladder_step_cases)
    case stay
    then show ?thesis using level_index_ok[OF x] by auto
  next
    case (up i)
    then have "i = 0 \<or> i = 1" by (auto simp: LEVELS_def)
    then have "level_index (LEVELS ! (i + 1)) = Inr (i + 1)"
      by (auto simp: LEVELS_def level_index_def)
    with up show ?thesis by (intro exI[of _ i] exI[of _ "i + 1"]) simp
  next
    case (down i)
    then have "i = 1 \<or> i = 2" by (auto simp: LEVELS_def)
    then have "level_index (LEVELS ! (i - 1)) = Inr (i - 1)"
      by (auto simp: LEVELS_def level_index_def)
    with down show ?thesis by (intro exI[of _ i] exI[of _ "i - 1"]) auto
  qed
  ultimately show ?thesis by (simp add: lev y(2))
qed

lemma ladder_moves_one_rung_witness:
  "\<exists>t. ladder_record default_rules ''t:a'' True Map.empty = Inr (''human_led'', t)
     \<and> ladder_ok default_rules t"
proof -
  have "ladder_record default_rules ''t:a'' True Map.empty = Inr (''human_led'',
      Map.empty(''t:a'' \<mapsto> \<lparr>le_level = ''human_led'', le_outcomes = [True]\<rparr>))"
    by (simp add: ladder_record_def check_id_def ladder_step_def Let_def last_n_def default_rules_def
        ladder_window_def DEFAULT_MIN_TASKS_def MIN_WINDOW_def)
  from ladder_moves_one_rung[OF _ this] this show ?thesis by (auto simp: ladder_ok_def)
qed

text \<open>A run of successes from an empty window.\<close>

lemma error_rate_all_ok: "error_rate (replicate n True) = 0"
  by (simp add: error_rate_def)

lemma ladder_run_below:
  "n < lr_min_tasks p \<Longrightarrow> check_id agent = Inr () \<Longrightarrow>
   s agent = Some \<lparr>le_level = level, le_outcomes = replicate m True\<rparr> \<Longrightarrow> m + n < lr_min_tasks p \<Longrightarrow>
     \<exists>t. ladder_records p agent (replicate n True) s = Inr t
       \<and> t agent = Some \<lparr>le_level = level, le_outcomes = replicate (m + n) True\<rparr>"
proof (induction n arbitrary: s m)
  case (Suc n)
  have "last_n (ladder_window p) (replicate m True @ [True]) = replicate (Suc m) True"
    using Suc.prems(4) by (simp add: last_n_def ladder_window_def replicate_append_same)
  then have step: "ladder_record p agent True s =
      Inr (level, s(agent \<mapsto> \<lparr>le_level = level, le_outcomes = replicate (Suc m) True\<rparr>))"
    using Suc.prems by (simp add: ladder_record_def ladder_step_def Let_def)
  let ?t = "s(agent \<mapsto> \<lparr>le_level = level, le_outcomes = replicate (Suc m) True\<rparr>)"
  have "\<exists>t. ladder_records p agent (replicate n True) ?t = Inr t
      \<and> t agent = Some \<lparr>le_level = level, le_outcomes = replicate (Suc m + n) True\<rparr>"
    by (rule Suc.IH) (use Suc.prems in auto)
  with step show ?case by simp
qed simp

lemma ladder_records_append:
  "ladder_records p agent (xs @ ys) s =
     bindr (ladder_records p agent xs s) (\<lambda>t. ladder_records p agent ys t)"
  by (induction xs arbitrary: s) (auto simp: bindr_assoc case_prod_unfold)

text \<open>
  The promotion rule is reachable: an agent that starts a window at \<open>human_led\<close> and
  succeeds as many times in a row as the rule asks for is promoted by the last one, for every
  setting of the rule: the stored window is never shorter than the rule needs.
\<close>

lemma promotion_is_reachable:
  assumes "1 \<le> lr_min_tasks p" and "0 \<le> lr_max_err p" and "check_id agent = Inr ()"
    and "s agent = Some \<lparr>le_level = ''human_led'', le_outcomes = []\<rparr>"
  shows "\<exists>t. ladder_records p agent (replicate (lr_min_tasks p) True) s = Inr t
    \<and> t agent = Some \<lparr>le_level = ''human_assisted'', le_outcomes = []\<rparr>"
proof -
  obtain n where n: "lr_min_tasks p = Suc n" using assms(1) by (cases "lr_min_tasks p") auto
  obtain t where t: "ladder_records p agent (replicate n True) s = Inr t"
    "t agent = Some \<lparr>le_level = ''human_led'', le_outcomes = replicate n True\<rparr>"
    using ladder_run_below[of n p agent s "''human_led''" 0] assms n by auto
  have "last_n (ladder_window p) (replicate n True @ [True]) = replicate (Suc n) True"
    by (simp add: last_n_def ladder_window_def replicate_append_same n)
  moreover have win: "Suc n \<le> ladder_window p" by (simp add: ladder_window_def n)
  moreover have "level_index ''human_led'' = Inr 0" by (simp add: level_index_def)
  ultimately have "ladder_record p agent True t = Inr (''human_assisted'',
      t(agent \<mapsto> \<lparr>le_level = ''human_assisted'', le_outcomes = []\<rparr>))"
    using t(2) assms(2,3) error_rate_all_ok[of "Suc n"] win
    by (simp add: ladder_record_def ladder_step_def Let_def n LEVELS_def)
  moreover have "replicate (lr_min_tasks p) True = replicate n True @ [True]"
    by (simp add: n replicate_append_same)
  ultimately show ?thesis using t by (simp only: ladder_records_append) simp
qed

lemma promotion_is_reachable_witness:
  "\<exists>t. ladder_records default_rules ''t:a'' (replicate 30 True)
      (Map.empty(''t:a'' \<mapsto> \<lparr>le_level = ''human_led'', le_outcomes = []\<rparr>)) = Inr t
    \<and> t ''t:a'' = Some \<lparr>le_level = ''human_assisted'', le_outcomes = []\<rparr>"
  using promotion_is_reachable[of default_rules "''t:a''"
      "Map.empty(''t:a'' \<mapsto> \<lparr>le_level = ''human_led'', le_outcomes = []\<rparr>)"]
  by (simp add: default_rules_def check_id_def DEFAULT_MIN_TASKS_def DEFAULT_MAX_ERR_def)

end
