(* ===== verification/Supervisor.thy ===== *)
theory Supervisor
  imports Run_System
begin

text \<open>
  Routing a manager's question to a section agent (\<^verbatim>\<open>platform_runtime/supervisor.py\<close>): the
  declared sections, the deterministic keyword match, and the delegation, which creates one ordinary
  run of the target agent under the target's own policy and leaves a row in the routing ledger.
\<close>

section \<open>Bounds and field checks\<close>

definition RUN_KEY_PREFIX :: string where "RUN_KEY_PREFIX = ''supervisor:''"
definition MAX_REQUEST_KEY :: nat where "MAX_REQUEST_KEY = 256 - length RUN_KEY_PREFIX"
definition MAX_SECTIONS :: nat where "MAX_SECTIONS = 20"
definition MAX_QUESTION :: nat where "MAX_QUESTION = 2000"
definition MAX_KEYWORDS :: nat where "MAX_KEYWORDS = 20"
definition MAX_KEYWORD_LENGTH :: nat where "MAX_KEYWORD_LENGTH = 60"
definition MAX_HOPS_CEILING :: int where "MAX_HOPS_CEILING = 3"
definition MAX_STEPS_CEILING :: int where "MAX_STEPS_CEILING = 12"
definition DEFAULT_MAX_HOPS :: int where "DEFAULT_MAX_HOPS = 1"
definition ROUTE_TOOL :: string where "ROUTE_TOOL = ''supervisor.route''"

definition int_between :: "string \<Rightarrow> int \<Rightarrow> int \<Rightarrow> int \<Rightarrow> int res" where
  "int_between name low high v =
     (if low \<le> v \<and> v \<le> high then Inr v
      else raise ValueError (name @ '' must be an integer '' @ show_int low @ ''..'' @ show_int high))"

text \<open>\<^verbatim>\<open>NAME_RE\<close> on a stripped text: the head, then at most 127 further characters.\<close>

definition name_head :: "char \<Rightarrow> bool" where
  "name_head c \<longleftrightarrow> is_lower c \<or> is_digit c"

definition name_tail :: "char \<Rightarrow> bool" where
  "name_tail c \<longleftrightarrow> name_head c \<or> c = CHR ''_'' \<or> c = CHR ''.'' \<or> c = CHR ''-''"

definition name_shape :: "string \<Rightarrow> bool" where
  "name_shape t \<longleftrightarrow> (case t of [] \<Rightarrow> False
     | c # cs \<Rightarrow> name_head c \<and> length cs \<le> 127 \<and> list_all name_tail cs)"

definition name_of :: "string \<Rightarrow> nat \<Rightarrow> string \<Rightarrow> string res" where
  "name_of name maximum v =
     (if blank v \<or> length v > maximum
        then raise ValueError (name @ '' must be a non-empty string of at most ''
          @ show_nat maximum @ '' characters'')
      else if \<not> name_shape (py_strip v)
        then raise ValueError (name @ '' must be lowercase letters, digits, dot, dash or underscore'')
      else Inr (py_strip v))"

text \<open>
  \<^verbatim>\<open>str.casefold\<close> for code points below 256. The micro sign folds to a Greek letter beyond that
  range and is left alone, in the question and in the keyword alike.
\<close>

definition casefold_char :: "char \<Rightarrow> string" where
  "casefold_char c =
     (let n = code_of c in
      if is_upper c \<or> (192 \<le> n \<and> n \<le> 222 \<and> n \<noteq> 215) then [char_of (n + 32)]
      else if n = 223 then ''ss'' else [c])"

definition casefold :: "string \<Rightarrow> string" where
  "casefold s = concat (map casefold_char s)"

definition keyword_of :: "json \<Rightarrow> string res" where
  "keyword_of j = (case j of
      JStr v \<Rightarrow> (if blank v \<or> length v > MAX_KEYWORD_LENGTH
        then raise ValueError ''each keyword must be a non-empty string of at most 60 characters''
        else Inr (casefold (py_strip v)))
    | _ \<Rightarrow> raise ValueError ''each keyword must be a non-empty string of at most 60 characters'')"

definition keywords_of :: "json \<Rightarrow> string list res" where
  "keywords_of j = (case j of
      JNull \<Rightarrow> Inr []
    | JList items \<Rightarrow>
        (if length items > MAX_KEYWORDS then raise ValueError ''keywords must be a list of at most 20''
         else each keyword_of items)
    | _ \<Rightarrow> raise ValueError ''keywords must be a list of at most 20'')"

section \<open>Sections\<close>

definition find_section :: "db \<Rightarrow> string \<Rightarrow> string \<Rightarrow> section_row option" where
  "find_section s tenant sid = find (\<lambda>z. z_tenant z = tenant \<and> z_id z = sid) (sections s)"

definition put_section :: "section_row \<Rightarrow> db \<Rightarrow> db" where
  "put_section z s =
     (case find_section s (z_tenant z) (z_id z) of
        None \<Rightarrow> s\<lparr>sections := sections s @ [z]\<rparr>
      | Some _ \<Rightarrow> s\<lparr>sections := upd_where (\<lambda>y. z_tenant y = z_tenant z \<and> z_id y = z_id z)
          (\<lambda>y. z\<lparr>z_created := z_created y\<rparr>) (sections s)\<rparr>)"

definition section_of :: "db \<Rightarrow> string \<Rightarrow> string \<Rightarrow> section_row res" where
  "section_of s tenant sid = (case find_section s tenant sid of
      None \<Rightarrow> raise NotFound ''Supervisor section not found'' | Some z \<Rightarrow> Inr z)"

definition declare_tx ::
  "env \<Rightarrow> int \<Rightarrow> section_row \<Rightarrow> db \<Rightarrow> db res" where
  "declare_tx e now z s =
     bindr (require_active e s (z_tenant z)) (\<lambda>_.
     bindr (require_authority e (z_tenant z) ''cron'' (z_actor z) [''owner'']) (\<lambda>_.
       if find_section s (z_tenant z) (z_id z) = None
          \<and> length (filter (\<lambda>y. z_tenant y = z_tenant z) (sections s)) \<ge> MAX_SECTIONS
         then raise ValueError ''at most 20 supervisor sections may be declared''
       else Inr (audit now (z_tenant z) [] ''supervisor.section_declared'' (z_actor z)
         [(''section'', JStr (z_id z)), (''agent'', JStr (z_agent z)), (''enabled'', JBool (z_enabled z))]
         (put_section z s))))"

definition declare_section ::
  "env \<Rightarrow> int \<Rightarrow> string \<Rightarrow> string \<Rightarrow> string \<Rightarrow> string \<Rightarrow> string \<Rightarrow> json \<Rightarrow> bool \<Rightarrow> db
     \<Rightarrow> (section_row \<times> db) res" where
  "declare_section e now tenant sid agent actor title keywords enabled s =
     bindr (name_of ''section id'' 64 sid) (\<lambda>sid'.
     bindr (name_of ''agent'' 128 agent) (\<lambda>agent'.
     bindr (name_of ''actor'' 128 actor) (\<lambda>actor'.
       if length title > 120 then raise ValueError ''title must be a string of at most 120 characters''
       else bindr (keywords_of keywords) (\<lambda>ks. bindr (policy_of e tenant agent') (\<lambda>p.
         if p_ladder p \<notin> set LADDERS
           then raise Forbidden ''Target agent policy unavailable for routing''
         else bindr (declare_tx e now \<lparr>z_tenant = tenant, z_id = sid', z_actor = actor',
             z_agent = agent', z_title = title, z_keywords = ks, z_enabled = enabled,
             z_created = now, z_updated = now\<rparr> s) (\<lambda>t.
           bindr (section_of t tenant sid') (\<lambda>z. Inr (z, t))))))))"

definition sections_of :: "db \<Rightarrow> string \<Rightarrow> section_row list" where
  "sections_of s tenant = sort_key z_id (filter (\<lambda>z. z_tenant z = tenant) (sections s))"

section \<open>Matching\<close>

record section_candidate =
  cd_section :: string
  cd_agent :: string
  cd_title :: string
  cd_keywords :: "string list"
  cd_tools :: "string list"
  cd_router :: bool

definition candidate_of :: "env \<Rightarrow> string \<Rightarrow> section_row \<Rightarrow> section_candidate option" where
  "candidate_of e tenant z =
     (if \<not> z_enabled z then None
      else case policy_of e tenant (z_agent z) of
          Inl _ \<Rightarrow> None
        | Inr p \<Rightarrow>
            if p_ladder p \<notin> set LADDERS then None
            else Some \<lparr>cd_section = z_id z, cd_agent = z_agent z, cd_title = z_title z,
              cd_keywords = z_keywords z, cd_tools = sort (p_tools p),
              cd_router = ROUTE_TOOL \<in> set (p_tools p)\<rparr>)"

definition routable :: "env \<Rightarrow> db \<Rightarrow> string \<Rightarrow> section_candidate list" where
  "routable e s tenant = List.map_filter (candidate_of e tenant) (sections_of s tenant)"

text \<open>
  The best hit so far: the index of its candidate, the candidate and the keyword. A later hit
  replaces it only with a greater score \<^verbatim>\<open>(len(keyword), -index)\<close>.
\<close>

type_synonym hit = "(nat \<times> section_candidate \<times> string) option"

fun better :: "nat \<Rightarrow> string \<Rightarrow> hit \<Rightarrow> bool" where
  "better i k None = True"
| "better i k (Some (j, _, h)) = (length h < length k \<or> length h = length k \<and> i < j)"

fun match_keywords :: "string \<Rightarrow> nat \<Rightarrow> section_candidate \<Rightarrow> string list \<Rightarrow> hit \<Rightarrow> hit" where
  "match_keywords text i c [] best = best"
| "match_keywords text i c (k # ks) best =
     match_keywords text i c ks
       (if k \<noteq> [] \<and> py_contains k text \<and> better i k best then Some (i, c, k) else best)"

fun match_candidates :: "string \<Rightarrow> nat \<Rightarrow> section_candidate list \<Rightarrow> hit \<Rightarrow> hit" where
  "match_candidates text i [] best = best"
| "match_candidates text i (c # cs) best =
     match_candidates text (Suc i) cs (match_keywords text i c (cd_keywords c) best)"

definition match_section :: "env \<Rightarrow> db \<Rightarrow> string \<Rightarrow> string \<Rightarrow> (section_candidate \<times> string) option" where
  "match_section e s tenant question =
     map_option snd (match_candidates (casefold question) 0 (routable e s tenant) None)"

section \<open>The routing ledger\<close>

text \<open>A routing request, after the type checks of the entry.\<close>

record route_request =
  rq_tenant :: string
  rq_key :: string
  rq_question :: string
  rq_actor :: string
  rq_section :: string
  rq_hops :: "int option"
  rq_steps :: int
  rq_seconds :: int
  rq_chained :: bool

definition lookup_route :: "db \<Rightarrow> string \<Rightarrow> string \<Rightarrow> route_row option" where
  "lookup_route s tenant key = find (\<lambda>l. l_tenant l = tenant \<and> l_key l = key) (routes s)"

definition counted_route :: "string \<Rightarrow> string \<Rightarrow> route_row \<Rightarrow> bool" where
  "counted_route tenant agent l \<longleftrightarrow>
     l_tenant l = tenant \<and> l_agent l = agent \<and> l_status l = ''routed'' \<and> l_run l \<noteq> []"

definition route_depth :: "db \<Rightarrow> string \<Rightarrow> string \<Rightarrow> nat" where
  "route_depth s tenant agent =
     length (remdups (map l_key (filter (counted_route tenant agent) (routes s))))"

definition record_route :: "route_row \<Rightarrow> db \<Rightarrow> db" where
  "record_route l s =
     (case lookup_route s (l_tenant l) (l_key l) of
        None \<Rightarrow> s\<lparr>routes := routes s @ [l]\<rparr>
      | Some _ \<Rightarrow> s\<lparr>routes := upd_where (\<lambda>m. l_tenant m = l_tenant l \<and> l_key m = l_key l)
          (\<lambda>m. m\<lparr>l_section := l_section l, l_agent := l_agent l, l_run := l_run l,
             l_matched := l_matched l, l_hops := l_hops l, l_status := l_status l,
             l_reason := l_reason l, l_updated := l_updated l\<rparr>) (routes s)\<rparr>)"

definition refused_route ::
  "int \<Rightarrow> route_request \<Rightarrow> string \<Rightarrow> string \<Rightarrow> string \<Rightarrow> string \<Rightarrow> string \<Rightarrow> route_row" where
  "refused_route now q sect agent matched status reason =
     \<lparr>l_tenant = rq_tenant q, l_key = rq_key q, l_question = py_strip (rq_question q),
      l_actor = rq_actor q, l_section = sect, l_agent = agent, l_run = [], l_matched = matched,
      l_hops = 0, l_status = status, l_reason = reason, l_created = now, l_updated = now\<rparr>"

definition route_history :: "db \<Rightarrow> string \<Rightarrow> int \<Rightarrow> route_row list \<times> nat \<times> bool" where
  "route_history s tenant limit =
     (let mine = filter (\<lambda>l. l_tenant l = tenant) (routes s);
          page = take (nat (min (max 1 limit) 500)) (sort_key (\<lambda>l. - l_created l) (sort_key l_key mine))
      in (page, length mine, length mine > length page))"

section \<open>Routing\<close>

definition checked_request :: "route_request \<Rightarrow> (route_request \<times> int) res" where
  "checked_request q =
     (if blank (rq_key q) \<or> length (rq_key q) > MAX_REQUEST_KEY
        then raise ValueError ''request_key must be a non-empty string of at most 245 characters''
      else if blank (rq_question q) \<or> length (rq_question q) > MAX_QUESTION
        then raise ValueError ''question must contain 1..2000 characters''
      else bindr (name_of ''actor'' 128 (rq_actor q)) (\<lambda>actor.
        bindr (case rq_hops q of None \<Rightarrow> Inr DEFAULT_MAX_HOPS
            | Some n \<Rightarrow> int_between ''max_hops'' 1 MAX_HOPS_CEILING n) (\<lambda>hops.
        bindr (int_between ''max_steps'' 1 MAX_STEPS_CEILING (rq_steps q)) (\<lambda>_.
          if \<not> (60 \<le> rq_seconds q \<and> rq_seconds q \<le> 86400)
            then raise ValueError ''max_seconds must be an integer 60..86400''
          else bindr (if rq_section q \<noteq> [] then name_of ''section'' 64 (rq_section q) else Inr []) (\<lambda>sect.
            Inr (q\<lparr>rq_actor := actor, rq_section := sect\<rparr>, hops))))))"

text \<open>The answer: the row stored under a replayed key, or the new row with the caps in force.\<close>

datatype route_answer = Replayed route_row | Delegated route_row int int

type_synonym routed = "route_answer res \<times> db"

definition refuse :: "int \<Rightarrow> route_request \<Rightarrow> section_candidate \<Rightarrow> string \<Rightarrow> string \<Rightarrow> exn \<Rightarrow> db \<Rightarrow> routed" where
  "refuse now q c matched reason x s =
     (Inl x, record_route (refused_route now q (cd_section c) (cd_agent c) matched ''refused'' reason) s)"

text \<open>The chosen section, the keyword that matched, and the run of its agent.\<close>

definition delegate ::
  "env \<Rightarrow> int \<Rightarrow> route_request \<Rightarrow> int \<Rightarrow> section_candidate \<Rightarrow> string \<Rightarrow> db \<Rightarrow> routed" where
  "delegate e now q hops c matched s =
     (case policy_of e (rq_tenant q) (cd_agent c) of
        Inl x \<Rightarrow> (Inl x, s)
      | Inr p \<Rightarrow>
          if p_ladder p \<notin> set LADDERS then (raise Forbidden ''Target agent policy unavailable'', s)
          else (case create_run e now (rq_tenant q) (RUN_KEY_PREFIX @ rq_key q) (cd_agent c)
              (py_strip (rq_question q)) (rq_actor q) (rq_steps q) (rq_seconds q) DASHBOARD_CHANNEL s of
              Inl x \<Rightarrow>
                if catches [Forbidden, RateLimited, Conflict, ValueError] x
                then refuse now q c matched (exn_name (exn_class_of x)) x s
                else (Inl x, s)
            | Inr (run, s1) \<Rightarrow>
                let l = (refused_route now q (cd_section c) (cd_agent c) matched ''routed'' [])\<lparr>l_run := run, l_hops := 1\<rparr>;
                    s2 = record_route l s1;
                    s3 = audit now (rq_tenant q) [] ''supervisor.routed'' (rq_actor q)
                      [(''section'', JStr (cd_section c)), (''agent'', JStr (cd_agent c)),
                       (''run'', JStr run), (''matched'', JStr matched), (''max_hops'', JInt hops),
                       (''max_steps'', JInt (rq_steps q))] s2 in
                (case lookup_route s2 (rq_tenant q) (rq_key q) of
                   Some row \<Rightarrow> (Inr (Delegated row hops (rq_steps q)), s3)
                 | None \<Rightarrow> (Inr (Delegated l hops (rq_steps q)), s3))))"

definition route_chosen ::
  "env \<Rightarrow> int \<Rightarrow> route_request \<Rightarrow> int \<Rightarrow> section_candidate \<Rightarrow> string \<Rightarrow> db \<Rightarrow> routed" where
  "route_chosen e now q hops c matched s =
     (if cd_router c \<and> \<not> rq_chained q
        then refuse now q c matched ''chained_router_not_allowed''
          (Exn Forbidden ''Target section is itself a router; chaining is not allowed'') s
      else if int (route_depth s (rq_tenant q) (cd_agent c)) + 1 > hops
        then refuse now q c matched ''hop_cap_reached'' (Exn Forbidden ''Hop cap reached'') s
      else delegate e now q hops c matched s)"

definition route_new :: "env \<Rightarrow> int \<Rightarrow> route_request \<Rightarrow> int \<Rightarrow> db \<Rightarrow> routed" where
  "route_new e now q hops s =
     (case require_active e s (rq_tenant q) of
        Inl x \<Rightarrow> (Inl x, s)
      | Inr _ \<Rightarrow>
          let cs = routable e s (rq_tenant q) in
          if cs = [] then (raise Forbidden ''No supervisor section is declared for this tenant'', s)
          else if rq_section q \<noteq> [] then
            (case find (\<lambda>c. cd_section c = rq_section q) cs of
               None \<Rightarrow> (raise Forbidden ''Supervisor section is not declared or is disabled'', s)
             | Some c \<Rightarrow> route_chosen e now q hops c [] s)
          else (case match_section e s (rq_tenant q) (rq_question q) of
               None \<Rightarrow> (raise Forbidden ''No section matched this question'',
                 record_route (refused_route now q [] [] [] ''unrouted'' ''no_section_matched'') s)
             | Some (c, k) \<Rightarrow> route_chosen e now q hops c k s))"

definition route_question :: "env \<Rightarrow> int \<Rightarrow> route_request \<Rightarrow> db \<Rightarrow> routed" where
  "route_question e now q0 s =
     (case checked_request q0 of
        Inl x \<Rightarrow> (Inl x, s)
      | Inr (q, hops) \<Rightarrow>
          (case lookup_route s (rq_tenant q) (rq_key q) of
             Some l \<Rightarrow>
               if l_question l \<noteq> py_strip (rq_question q)
               then (raise Conflict ''Route key reused with a different question'', s)
               else (Inr (Replayed l), s)
           | None \<Rightarrow> route_new e now q hops s))"

section \<open>The two read tools\<close>

datatype route_report =
    NoMatch string | Match string section_candidate string | Candidates "section_candidate list"

definition route_tool :: "env \<Rightarrow> db \<Rightarrow> string \<Rightarrow> string \<Rightarrow> route_report res" where
  "route_tool e s tenant question =
     (if question \<noteq> [] then
        (if length question > MAX_QUESTION then raise ValueError ''question must be at most 2000 characters''
         else case match_section e s tenant question of
             None \<Rightarrow> Inr (NoMatch question)
           | Some (c, k) \<Rightarrow> Inr (Match question c k))
      else Inr (Candidates (routable e s tenant)))"

definition sections_tool :: "env \<Rightarrow> db \<Rightarrow> string \<Rightarrow> route_report" where
  "sections_tool e s tenant = Candidates (routable e s tenant)"

end
