(* ===== verification/Supervisor_Props.thy ===== *)
theory Supervisor_Props
  imports Supervisor Demo_Env
begin

text \<open>
  Routing goes to the best declared section, one request key delegates at most once, and the routing
  ledger never holds more delegations to one agent than the hop ceiling, each naming the run it made.
\<close>

section \<open>The match\<close>

definition keyword_hits :: "string \<Rightarrow> nat \<Rightarrow> string list \<Rightarrow> (nat \<times> string) set" where
  "keyword_hits text i ks = {(i, k) |k. k \<in> set ks \<and> k \<noteq> [] \<and> py_contains k text}"

definition all_hits :: "string \<Rightarrow> section_candidate list \<Rightarrow> (nat \<times> string) set" where
  "all_hits text cs = {(i, k). i < length cs \<and> (i, k) \<in> keyword_hits text i (cd_keywords (cs ! i))}"

definition beaten :: "nat \<Rightarrow> string \<Rightarrow> (nat \<times> string) set \<Rightarrow> bool" where
  "beaten i k S \<longleftrightarrow> (\<forall>(j, h) \<in> S. length h < length k \<or> length h = length k \<and> i \<le> j)"

definition best_hit :: "section_candidate list \<Rightarrow> hit \<Rightarrow> (nat \<times> string) set \<Rightarrow> bool" where
  "best_hit cs best S = (case best of
     None \<Rightarrow> S = {}
   | Some (i, c, k) \<Rightarrow> (i, k) \<in> S \<and> beaten i k S \<and> i < length cs \<and> c = cs ! i)"

lemma best_hit_step:
  assumes "best_hit cs best S" and "i < length cs"
  shows "best_hit cs (if better i k best then Some (i, cs ! i, k) else best) (insert (i, k) S)"
proof (cases best)
  case None
  with assms show ?thesis by (simp add: best_hit_def beaten_def)
next
  case (Some b)
  then obtain j d h where b: "best = Some (j, d, h)" by (cases b) auto
  with assms(1) have h: "(j, h) \<in> S" "beaten j h S" "j < length cs" "d = cs ! j"
    by (simp_all add: best_hit_def)
  show ?thesis
  proof (cases "better i k best")
    case True
    then have "beaten i k (insert (i, k) S)" using h(2) by (fastforce simp: b beaten_def)
    with True assms(2) show ?thesis by (simp add: best_hit_def)
  next
    case False
    then have "beaten j h (insert (i, k) S)" using h(2) by (auto simp: b beaten_def)
    with h have "best_hit cs best (insert (i, k) S)" by (simp add: best_hit_def b)
    with False show ?thesis by (simp only: if_False)
  qed
qed

lemma keyword_hits_Cons:
  "keyword_hits text i (k # ks) =
     (if k \<noteq> [] \<and> py_contains k text then insert (i, k) (keyword_hits text i ks)
      else keyword_hits text i ks)"
  by (auto simp: keyword_hits_def)

lemma match_keywords_best:
  "best_hit cs best S \<Longrightarrow> i < length cs \<Longrightarrow>
     best_hit cs (match_keywords text i (cs ! i) ks best) (S \<union> keyword_hits text i ks)"
proof (induction ks arbitrary: best S)
  case Nil
  then show ?case by (simp add: keyword_hits_def)
next
  case (Cons k ks)
  show ?case
  proof (cases "k \<noteq> [] \<and> py_contains k text")
    case True
    let ?best = "if better i k best then Some (i, cs ! i, k) else best"
    have "match_keywords text i (cs ! i) (k # ks) best = match_keywords text i (cs ! i) ks ?best"
      using True by simp
    moreover have "S \<union> keyword_hits text i (k # ks) = insert (i, k) S \<union> keyword_hits text i ks"
      using True by (simp add: keyword_hits_Cons)
    ultimately show ?thesis
      using Cons.IH[OF best_hit_step[OF Cons.prems] Cons.prems(2)] by (simp only:)
  next
    case False
    then show ?thesis using Cons by (auto simp: keyword_hits_Cons)
  qed
qed

definition hits_before :: "string \<Rightarrow> section_candidate list \<Rightarrow> nat \<Rightarrow> (nat \<times> string) set" where
  "hits_before text cs n = {(i, k) \<in> all_hits text cs. i < n}"

lemma hits_before_Suc:
  "n < length cs \<Longrightarrow>
     hits_before text cs (Suc n) = hits_before text cs n \<union> keyword_hits text n (cd_keywords (cs ! n))"
  by (auto simp: hits_before_def all_hits_def keyword_hits_def less_Suc_eq)

lemma match_candidates_best:
  "best_hit cs best (hits_before text cs n) \<Longrightarrow> drop n cs = rest \<Longrightarrow> n \<le> length cs \<Longrightarrow>
     best_hit cs (match_candidates text n rest best) (all_hits text cs)"
proof (induction rest arbitrary: n best)
  case Nil
  then have "n = length cs" by simp
  then have "hits_before text cs n = all_hits text cs" by (auto simp: hits_before_def all_hits_def)
  with Nil show ?case by simp
next
  case (Cons c rest)
  then have n: "n < length cs" by (metis drop_eq_Nil linorder_not_less list.distinct(1))
  with Cons.prems(2) have c: "c = cs ! n" and rest: "drop (Suc n) cs = rest"
    by (metis Cons_nth_drop_Suc list.inject)+
  have "best_hit cs (match_keywords text n c (cd_keywords c) best) (hits_before text cs (Suc n))"
    using match_keywords_best[OF Cons.prems(1) n] n unfolding c by (simp add: hits_before_Suc)
  from Cons.IH[OF this rest] n show ?case by simp
qed

lemma match_section_best:
  "best_hit (routable e s tenant)
     (match_candidates (casefold question) 0 (routable e s tenant) None)
     (all_hits (casefold question) (routable e s tenant))"
  by (rule match_candidates_best) (simp_all add: best_hit_def hits_before_def)

section \<open>Candidates\<close>

lemma routable_mem:
  assumes "c \<in> set (routable e s tenant)"
  shows "\<exists>z p. z \<in> set (sections s) \<and> z_tenant z = tenant \<and> z_enabled z \<and> cd_section c = z_id z
    \<and> cd_agent c = z_agent z \<and> policy_of e tenant (cd_agent c) = Inr p
    \<and> (cd_router c \<longleftrightarrow> ROUTE_TOOL \<in> set (p_tools p))"
proof -
  from assms obtain z where z: "z \<in> set (sections s)" "z_tenant z = tenant"
    and c: "candidate_of e tenant z = Some c"
    by (auto simp: routable_def List.map_filter_def sections_of_def)
  from c obtain p where "z_enabled z" "policy_of e tenant (z_agent z) = Inr p"
    "cd_section c = z_id z" "cd_agent c = z_agent z" "cd_router c \<longleftrightarrow> ROUTE_TOOL \<in> set (p_tools p)"
    by (auto simp: candidate_of_def split: if_split_asm sum.splits)
  with z show ?thesis by (intro exI[of _ z] exI[of _ p]) simp
qed

section \<open>The ledger\<close>

definition route_id :: "route_row \<Rightarrow> string \<times> string" where
  "route_id l = (l_tenant l, l_key l)"

lemma lookup_route_Some:
  "lookup_route s tenant key = Some l \<Longrightarrow> l \<in> set (routes s) \<and> route_id l = (tenant, key)"
  by (auto simp: lookup_route_def route_id_def dest: find_Some_mem)


lemma record_new:
  "lookup_route s (l_tenant l) (l_key l) = None \<Longrightarrow> record_route l s = s\<lparr>routes := routes s @ [l]\<rparr>"
  by (simp add: record_route_def)

lemma record_route_other [simp]:
  "runs (record_route l s) = runs s" "sections (record_route l s) = sections s"
  by (simp_all add: record_route_def split: option.splits)

lemma refused_fields [simp]:
  "l_tenant (refused_route now q sect agent m st reason) = rq_tenant q"
  "l_key (refused_route now q sect agent m st reason) = rq_key q"
  "l_status (refused_route now q sect agent m st reason) = st"
  "l_agent (refused_route now q sect agent m st reason) = agent"
  "l_section (refused_route now q sect agent m st reason) = sect"
  "l_matched (refused_route now q sect agent m st reason) = m"
  "l_question (refused_route now q sect agent m st reason) = py_strip (rq_question q)"
  by (simp_all add: refused_route_def)


text \<open>Creating a run leaves the routing ledger and the sections alone.\<close>

lemma create_run_routes:
  "create_run e now tenant key agent input actor max_steps max_seconds channel s = Inr (rid, t)
   \<Longrightarrow> routes t = routes s \<and> sections t = sections s"
  by (auto simp: create_run_def create_run_tx_def res_simps Let_def audit_def drawn_def
      split: if_split_asm option.splits)

lemma create_run_row:
  assumes "create_run e now tenant key agent input actor max_steps max_seconds channel s = Inr (rid, t)"
  shows "\<exists>r \<in> set (runs t). r_id r = rid \<and> r_tenant r = tenant \<and> r_key r = key"
  using assms
  by (auto simp: create_run_def create_run_tx_def res_simps Let_def new_run_def find_run_key_def
      split: if_split_asm option.splits dest!: find_Some_mem)

section \<open>The outcomes of a question\<close>

text \<open>A refusal leaves one ledger row and nothing else.\<close>

definition refusal :: "route_request \<Rightarrow> route_answer res \<Rightarrow> db \<Rightarrow> db \<Rightarrow> bool" where
  "refusal q res s t \<longleftrightarrow> \<not> is_ok res \<and> (t = s \<or> (\<exists>l. t = s\<lparr>routes := routes s @ [l]\<rparr>
     \<and> route_id l = (rq_tenant q, rq_key q) \<and> l_status l \<noteq> ''routed''))"

definition routed_row :: "int \<Rightarrow> route_request \<Rightarrow> section_candidate \<Rightarrow> string \<Rightarrow> string \<Rightarrow> route_row" where
  "routed_row now q c matched run =
     (refused_route now q (cd_section c) (cd_agent c) matched ''routed'' [])\<lparr>l_run := run, l_hops := 1\<rparr>"

lemma routed_row_fields [simp]:
  "l_tenant (routed_row now q c m run) = rq_tenant q" "l_key (routed_row now q c m run) = rq_key q"
  "l_agent (routed_row now q c m run) = cd_agent c" "l_section (routed_row now q c m run) = cd_section c"
  "l_run (routed_row now q c m run) = run" "l_status (routed_row now q c m run) = ''routed''"
  "l_matched (routed_row now q c m run) = m" "l_question (routed_row now q c m run) = py_strip (rq_question q)"
  by (simp_all add: routed_row_def)

definition delegation ::
  "env \<Rightarrow> int \<Rightarrow> route_request \<Rightarrow> int \<Rightarrow> section_candidate \<Rightarrow> string \<Rightarrow> route_answer res \<Rightarrow> db \<Rightarrow> db \<Rightarrow> bool" where
  "delegation e now q hops c matched res s t \<longleftrightarrow> (\<exists>run s1.
     create_run e now (rq_tenant q) (RUN_KEY_PREFIX @ rq_key q) (cd_agent c)
       (py_strip (rq_question q)) (rq_actor q) (rq_steps q) (rq_seconds q) DASHBOARD_CHANNEL s = Inr (run, s1)
     \<and> runs t = runs s1 \<and> sections t = sections s
     \<and> routes t = routes s @ [routed_row now q c matched run]
     \<and> res = Inr (Delegated (routed_row now q c matched run) hops (rq_steps q)))"

lemma refuse_refusal:
  assumes "lookup_route s (rq_tenant q) (rq_key q) = None" and "refuse now q c m reason x s = (res, t)"
  shows "refusal q res s t"
proof -
  have "record_route (refused_route now q (cd_section c) (cd_agent c) m ''refused'' reason) s = t" "res = Inl x"
    using assms(2) by (simp_all add: refuse_def)
  then show ?thesis using assms(1) by (auto simp: refusal_def record_new route_id_def)
qed

lemma audit_routes [simp]:
  "routes (audit now tenant task action actor fs s) = routes s"
  "sections (audit now tenant task action actor fs s) = sections s"
  by (simp_all add: audit_def)

lemma delegate_cases:
  assumes key: "lookup_route s (rq_tenant q) (rq_key q) = None" and d: "delegate e now q hops c m s = (res, t)"
  shows "refusal q res s t \<or> delegation e now q hops c m res s t"
proof (cases "create_run e now (rq_tenant q) (RUN_KEY_PREFIX @ rq_key q) (cd_agent c)
       (py_strip (rq_question q)) (rq_actor q) (rq_steps q) (rq_seconds q) DASHBOARD_CHANNEL s")
  case (Inl x)
  have "refusal q (Inl y) s s" for y by (simp add: refusal_def)
  then show ?thesis
    using d Inl refuse_refusal[OF key] by (auto simp: delegate_def split: if_split_asm sum.splits)
next
  case (Inr rs)
  then obtain run s1 where rs: "create_run e now (rq_tenant q) (RUN_KEY_PREFIX @ rq_key q) (cd_agent c)
       (py_strip (rq_question q)) (rq_actor q) (rq_steps q) (rq_seconds q) DASHBOARD_CHANNEL s = Inr (run, s1)"
    by (cases rs) auto
  note same = create_run_routes[OF rs]
  let ?l = "routed_row now q c m run"
  have key1: "lookup_route s1 (rq_tenant q) (rq_key q) = None"
    using key same by (simp add: lookup_route_def)
  have rec: "record_route ?l s1 = s1\<lparr>routes := routes s1 @ [?l]\<rparr>"
    using key1 by (intro record_new) simp
  have look: "lookup_route (s1\<lparr>routes := routes s1 @ [?l]\<rparr>) (rq_tenant q) (rq_key q) = Some ?l"
    using key1 by (simp add: lookup_route_def find_append)
  have refuse: "refusal q (Inl y) s s" for y by (simp add: refusal_def)
  show ?thesis
    using d rs refuse same rec look unfolding delegate_def delegation_def
    by (auto simp: Let_def routed_row_def[symmetric] split: if_split_asm sum.splits)
qed

definition chosen_ok :: "env \<Rightarrow> route_request \<Rightarrow> int \<Rightarrow> section_candidate \<Rightarrow> db \<Rightarrow> bool" where
  "chosen_ok e q hops c s \<longleftrightarrow>
     (cd_router c \<longrightarrow> rq_chained q) \<and> int (route_depth s (rq_tenant q) (cd_agent c)) + 1 \<le> hops"

lemma route_chosen_cases:
  assumes key: "lookup_route s (rq_tenant q) (rq_key q) = None"
    and d: "route_chosen e now q hops c m s = (res, t)"
  shows "refusal q res s t \<or> chosen_ok e q hops c s \<and> delegation e now q hops c m res s t"
  using d refuse_refusal[OF key] delegate_cases[OF key]
  by (auto simp: route_chosen_def chosen_ok_def split: if_split_asm)

definition selected :: "env \<Rightarrow> route_request \<Rightarrow> section_candidate \<Rightarrow> string \<Rightarrow> db \<Rightarrow> bool" where
  "selected e q c m s \<longleftrightarrow> c \<in> set (routable e s (rq_tenant q))
     \<and> (if rq_section q = [] then match_section e s (rq_tenant q) (rq_question q) = Some (c, m)
        else cd_section c = rq_section q \<and> m = [])"

lemma match_section_mem:
  assumes "match_section e s tenant question = Some (c, k)"
  shows "c \<in> set (routable e s tenant)"
proof -
  from assms obtain i where i: "match_candidates (casefold question) 0 (routable e s tenant) None = Some (i, c, k)"
    by (auto simp: match_section_def)
  from match_section_best[of e s tenant question] i show ?thesis by (auto simp: best_hit_def)
qed

lemma route_new_cases:
  assumes key: "lookup_route s (rq_tenant q) (rq_key q) = None"
    and d: "route_new e now q hops s = (res, t)"
  shows "refusal q res s t \<or>
    (\<exists>c m. selected e q c m s \<and> chosen_ok e q hops c s \<and> delegation e now q hops c m res s t)"
proof -
  have same: "refusal q (Inl x) s s" for x by (simp add: refusal_def)
  let ?u = "refused_route now q [] [] [] ''unrouted'' ''no_section_matched''"
  have unrouted: "refusal q (Inl x) s (record_route ?u s)" for x
    using key by (auto simp: refusal_def record_new route_id_def)
  show ?thesis
  proof (cases "rq_section q = []")
    case True
    show ?thesis
    proof (cases "match_section e s (rq_tenant q) (rq_question q)")
      case None
      then show ?thesis using d True same unrouted
        by (auto simp: route_new_def Let_def split: sum.splits if_split_asm)
    next
      case (Some ck)
      then obtain c k where ck: "match_section e s (rq_tenant q) (rq_question q) = Some (c, k)"
        by (cases ck) auto
      have sel: "selected e q c k s" using ck True match_section_mem by (simp add: selected_def)
      have "refusal q res s t \<or> route_chosen e now q hops c k s = (res, t)"
        using d True same ck by (auto simp: route_new_def Let_def split: sum.splits if_split_asm)
      with route_chosen_cases[OF key] sel show ?thesis by blast
    qed
  next
    case False
    show ?thesis
    proof (cases "find (\<lambda>c. cd_section c = rq_section q) (routable e s (rq_tenant q))")
      case None
      then show ?thesis using d False same
        by (auto simp: route_new_def Let_def split: sum.splits if_split_asm)
    next
      case (Some c)
      then have sel: "selected e q c [] s" using False find_Some_mem[OF Some] by (simp add: selected_def)
      have "refusal q res s t \<or> route_chosen e now q hops c [] s = (res, t)"
        using d False same Some by (auto simp: route_new_def Let_def split: sum.splits if_split_asm)
      with route_chosen_cases[OF key] sel show ?thesis by blast
    qed
  qed
qed

lemma route_question_cases:
  assumes "route_question e now q0 s = (res, t)"
  shows "t = s \<and> (\<forall>l h n. res \<noteq> Inr (Delegated l h n))
    \<or> (\<exists>q hops. checked_request q0 = Inr (q, hops) \<and> lookup_route s (rq_tenant q) (rq_key q) = None
        \<and> (refusal q res s t \<or>
          (\<exists>c m. selected e q c m s \<and> chosen_ok e q hops c s \<and> delegation e now q hops c m res s t)))"
proof (cases "checked_request q0")
  case (Inl x)
  then show ?thesis using assms by (auto simp: route_question_def)
next
  case (Inr qh)
  then obtain q hops where qh: "checked_request q0 = Inr (q, hops)" by (cases qh) auto
  show ?thesis
  proof (cases "lookup_route s (rq_tenant q) (rq_key q)")
    case None
    then have "route_new e now q hops s = (res, t)" using assms qh by (simp add: route_question_def)
    from route_new_cases[OF None this] None qh show ?thesis by blast
  next
    case (Some l)
    then show ?thesis using assms qh by (auto simp: route_question_def split: if_split_asm)
  qed
qed

section \<open>Every interleaving of routing, declarations and the loop\<close>










lemma checked_hops:
  assumes "checked_request q0 = Inr (q, hops)"
  shows "1 \<le> hops \<and> hops \<le> 3 \<and> rq_tenant q = rq_tenant q0 \<and> rq_key q = rq_key q0
    \<and> rq_question q = rq_question q0 \<and> rq_chained q = rq_chained q0"
proof -
  have hop: "1 \<le> h \<and> h \<le> 3" if "(case rq_hops q0 of None \<Rightarrow> Inr DEFAULT_MAX_HOPS
      | Some n \<Rightarrow> int_between ''max_hops'' 1 MAX_HOPS_CEILING n) = Inr h" for h
    using that by (simp add: int_between_def DEFAULT_MAX_HOPS_def MAX_HOPS_CEILING_def
        split: option.splits if_split_asm)
  from assms obtain a h sect where
    "(case rq_hops q0 of None \<Rightarrow> Inr DEFAULT_MAX_HOPS
      | Some n \<Rightarrow> int_between ''max_hops'' 1 MAX_HOPS_CEILING n) = Inr h"
    and q: "q = q0\<lparr>rq_actor := a, rq_section := sect\<rparr>" "hops = h"
    unfolding checked_request_def if_Inr bindr_Inr by blast
  from hop[OF this(1)] q show ?thesis by simp
qed







lemma sorted_map_filter:
  assumes "sorted (map f xs)" and "\<And>x y. g x = Some y \<Longrightarrow> h y = f x"
  shows "sorted (map h (List.map_filter g xs))"
  using assms(1)
proof (induction xs)
  case (Cons x xs)
  have "h y \<in> f ` set xs" if "y \<in> set (List.map_filter g xs)" for y
    using that assms(2) by (force simp: List.map_filter_def)
  with Cons assms(2) show ?case
    by (cases "g x") (fastforce simp: List.map_filter_simps)+
qed (simp add: List.map_filter_def)

lemma routable_sorted: "sorted (map cd_section (routable e s tenant))"
  unfolding routable_def sections_of_def
  by (rule sorted_map_filter[where f = z_id])
    (auto simp: candidate_of_def split: if_split_asm sum.splits)

lemma match_section_longest:
  assumes m: "match_section e s tenant question = Some (c, k)"
    and d: "d \<in> set (routable e s tenant)" and h: "h \<in> set (cd_keywords d)" "h \<noteq> []"
      "py_contains h (casefold question)"
  shows "length h < length k \<or> length h = length k \<and> cd_section c \<le> cd_section d"
proof -
  let ?cs = "routable e s tenant"
  from m obtain i where i: "match_candidates (casefold question) 0 ?cs None = Some (i, c, k)"
    by (auto simp: match_section_def)
  have best: "beaten i k (all_hits (casefold question) ?cs)" "i < length ?cs" "c = ?cs ! i"
    using match_section_best[of e s tenant question] i by (simp_all add: best_hit_def)
  obtain j where j: "j < length ?cs" "d = ?cs ! j" using d by (metis in_set_conv_nth)
  with h have "(j, h) \<in> all_hits (casefold question) ?cs"
    by (auto simp: all_hits_def keyword_hits_def)
  with best(1) have "length h < length k \<or> length h = length k \<and> i \<le> j"
    by (auto simp: beaten_def)
  moreover have "i \<le> j \<Longrightarrow> cd_section c \<le> cd_section d"
    using sorted_nth_mono[OF routable_sorted[of e s tenant], of i j] j best by simp
  ultimately show ?thesis by blast
qed

lemma match_section_hit:
  assumes "match_section e s tenant question = Some (c, k)"
  shows "k \<in> set (cd_keywords c) \<and> k \<noteq> [] \<and> py_contains k (casefold question)"
proof -
  from assms obtain i where "match_candidates (casefold question) 0 (routable e s tenant) None = Some (i, c, k)"
    by (auto simp: match_section_def)
  with match_section_best[of e s tenant question] show ?thesis
    by (auto simp: best_hit_def all_hits_def keyword_hits_def)
qed

lemma checked_section:
  assumes "checked_request q0 = Inr (q, hops)"
  shows "if rq_section q0 = [] then rq_section q = []
    else rq_section q = py_strip (rq_section q0) \<and> rq_section q \<noteq> []"
proof -
  have name: "s = py_strip v \<and> s \<noteq> []" if "name_of n m v = Inr s" for n m v s
    using that by (auto simp: name_of_def py_strip_eq_Nil split: if_split_asm)
  from assms obtain a sect where
    "(if rq_section q0 \<noteq> [] then name_of ''section'' 64 (rq_section q0) else Inr []) = Inr sect"
    and "q = q0\<lparr>rq_actor := a, rq_section := sect\<rparr>"
    unfolding checked_request_def if_Inr bindr_Inr by blast
  then show ?thesis using name[of "''section''" 64 "rq_section q0" sect] by (auto split: if_split_asm)
qed

section \<open>A routed question\<close>

definition route_demo_q :: route_request where
  "route_demo_q = \<lparr>rq_tenant = ''t'', rq_key = ''q1'', rq_question = ''Any new LEADs?'', rq_actor = ''boss'',
     rq_section = [], rq_hops = None, rq_steps = 6, rq_seconds = 1800, rq_chained = False\<rparr>"

definition route_demo_1 :: db where
  "route_demo_1 = ok_state (declare_section demo_env 10 ''t'' ''sales'' ''a'' ''boss'' ''Sales''
     (JList [JStr ''Lead'']) True empty_db)"

definition route_demo_2 :: db where
  "route_demo_2 = snd (route_question demo_env 20 route_demo_q route_demo_1)"


definition delegated_row :: "routed \<Rightarrow> route_row option" where
  "delegated_row r = (case fst r of Inr (Delegated l h n) \<Rightarrow> (if h = 1 \<and> n = 6 then Some l else None)
     | _ \<Rightarrow> None)"

lemma route_demo_row:
  "map_option (\<lambda>l. (l_section l, l_agent l, l_matched l, l_status l))
     (delegated_row (route_question demo_env 20 route_demo_q route_demo_1))
   = Some (''sales'', ''a'', ''lead'', ''routed'')"
  by code_simp

lemma route_demo_routed:
  "\<exists>l. route_question demo_env 20 route_demo_q route_demo_1 = (Inr (Delegated l 1 6), route_demo_2)
     \<and> l_section l = ''sales'' \<and> l_matched l = ''lead''"
  using route_demo_row
  by (cases "route_question demo_env 20 route_demo_q route_demo_1")
    (auto simp: delegated_row_def route_demo_2_def split: sum.splits route_answer.splits if_split_asm)


section \<open>Properties\<close>



text \<open>
  A question that is delegated goes to a declared, enabled section whose agent still has a policy
  and is no router itself unless chaining was allowed, within the hop cap of the request. An unpinned
  question goes to a section with the longest keyword it contains, ties to the smallest section id. It
  becomes a run of that agent, and asking the same again returns the stored row and changes nothing.
\<close>

theorem question_goes_to_its_section:
  assumes "route_question e now q s = (Inr (Delegated l hops n), t)"
  shows "lookup_route s (rq_tenant q) (rq_key q) = None
    \<and> (\<exists>z p. z \<in> set (sections s) \<and> z_tenant z = rq_tenant q \<and> z_enabled z \<and> z_id z = l_section l
        \<and> z_agent z = l_agent l \<and> policy_of e (rq_tenant q) (l_agent l) = Inr p
        \<and> (ROUTE_TOOL \<in> set (p_tools p) \<longrightarrow> rq_chained q))
    \<and> int (route_depth s (rq_tenant q) (l_agent l)) < hops \<and> hops \<le> 3
    \<and> (rq_section q \<noteq> [] \<longrightarrow> l_section l = py_strip (rq_section q))
    \<and> (rq_section q = [] \<longrightarrow> py_contains (l_matched l) (casefold (rq_question q))
        \<and> (\<forall>c h. c \<in> set (routable e s (rq_tenant q)) \<and> h \<in> set (cd_keywords c) \<and> h \<noteq> []
             \<and> py_contains h (casefold (rq_question q)) \<longrightarrow>
             length h < length (l_matched l) \<or> length h = length (l_matched l) \<and> l_section l \<le> cd_section c))
    \<and> (\<exists>r. r \<in> set (runs t) \<and> r_id r = l_run l \<and> r_tenant r = rq_tenant q
        \<and> r_key r = ''supervisor:'' @ rq_key q)
    \<and> route_question e later q t = (Inr (Replayed l), t)"
proof -
  from route_question_cases[OF assms] obtain q' h c m where
    q': "checked_request q = Inr (q', h)" and key: "lookup_route s (rq_tenant q') (rq_key q') = None"
    and sel: "selected e q' c m s" and ch: "chosen_ok e q' h c s"
    and d: "delegation e now q' h c m (Inr (Delegated l hops n)) s t"
    by (auto simp: refusal_def)
  note same = checked_hops[OF q']
  from d obtain run s1 where
    cr: "create_run e now (rq_tenant q') (RUN_KEY_PREFIX @ rq_key q') (cd_agent c)
       (py_strip (rq_question q')) (rq_actor q') (rq_steps q') (rq_seconds q') DASHBOARD_CHANNEL s = Inr (run, s1)"
    and runs: "runs t = runs s1" and routes: "routes t = routes s @ [l]"
    and l: "l = routed_row now q' c m run" and hops: "hops = h"
    by (auto simp: delegation_def)
  from sel obtain z p where z: "z \<in> set (sections s)" "z_tenant z = rq_tenant q'" "z_enabled z"
    "cd_section c = z_id z" "cd_agent c = z_agent z" "policy_of e (rq_tenant q') (cd_agent c) = Inr p"
    "cd_router c \<longleftrightarrow> ROUTE_TOOL \<in> set (p_tools p)"
    using routable_mem unfolding selected_def by blast
  have goes: "\<exists>z p. z \<in> set (sections s) \<and> z_tenant z = rq_tenant q \<and> z_enabled z \<and> z_id z = l_section l
        \<and> z_agent z = l_agent l \<and> policy_of e (rq_tenant q) (l_agent l) = Inr p
        \<and> (ROUTE_TOOL \<in> set (p_tools p) \<longrightarrow> rq_chained q)"
    using z ch same by (intro exI[of _ z] exI[of _ p]) (simp add: l chosen_ok_def)
  have again: "route_question e later q t = (Inr (Replayed l), t)"
  proof -
    have "lookup_route t (rq_tenant q') (rq_key q') = Some l"
      using key by (simp add: lookup_route_def routes find_append l)
    then show ?thesis using q' by (simp add: route_question_def l)
  qed
  have pinned: "rq_section q \<noteq> [] \<longrightarrow> l_section l = py_strip (rq_section q)"
    using sel checked_section[OF q'] by (auto simp: selected_def l)
  have longest: "py_contains (l_matched l) (casefold (rq_question q))
        \<and> (\<forall>c h. c \<in> set (routable e s (rq_tenant q)) \<and> h \<in> set (cd_keywords c) \<and> h \<noteq> []
             \<and> py_contains h (casefold (rq_question q)) \<longrightarrow>
             length h < length (l_matched l) \<or> length h = length (l_matched l) \<and> l_section l \<le> cd_section c)"
    if "rq_section q = []"
  proof -
    have m: "match_section e s (rq_tenant q) (rq_question q) = Some (c, m)"
      using sel checked_section[OF q'] same that by (simp add: selected_def)
    from match_section_hit[OF m] match_section_longest[OF m] show ?thesis by (auto simp: l)
  qed
  have run: "\<exists>r. r \<in> set (runs t) \<and> r_id r = l_run l \<and> r_tenant r = rq_tenant q
        \<and> r_key r = ''supervisor:'' @ rq_key q"
    using create_run_row[OF cr] same by (auto simp: runs l RUN_KEY_PREFIX_def)
  have cap: "int (route_depth s (rq_tenant q) (l_agent l)) < hops \<and> hops \<le> 3"
    using ch same by (simp add: chosen_ok_def hops l)
  from key same have "lookup_route s (rq_tenant q) (rq_key q) = None" by simp
  with goes cap pinned longest run again show ?thesis by blast
qed

lemma question_goes_to_its_section_witness:
  "\<exists>l. route_question demo_env 30 route_demo_q route_demo_2 = (Inr (Replayed l), route_demo_2)
     \<and> l_section l = ''sales'' \<and> py_contains (l_matched l) (casefold ''Any new LEADs?'')"
proof -
  obtain l where l: "route_question demo_env 20 route_demo_q route_demo_1 = (Inr (Delegated l 1 6), route_demo_2)"
    "l_section l = ''sales''" using route_demo_routed by blast
  from question_goes_to_its_section[OF l(1), of 30] l(2) show ?thesis
    by (simp add: route_demo_q_def)
qed

end
