(* ===== verification/Regex.thy ===== *)
theory Regex
  imports Prelude
begin

text \<open>
  The part of Python's \<^verbatim>\<open>re\<close> module the sources use: a backtracking matcher over a datatype of
  patterns. A position is the text before it, reversed, and the text after it; the ends of a match are
  listed in the order the backtracking engine tries them, so its first element is the match found.
\<close>

section \<open>Patterns\<close>

datatype pattern =
    Chars "char \<Rightarrow> bool"
  | Cat pattern pattern
  | Or pattern pattern
  | Rep pattern nat "nat option"
  | Grp nat pattern
  | NotAhead pattern
  | NotBehind "char \<Rightarrow> bool"
  | WordEdge
  | AtEnd

text \<open>Where a match can end: the texts around it and the groups captured, the latest first.\<close>

type_synonym re_state = "string \<times> string \<times> (nat \<times> string) list"

text \<open>\<^verbatim>\<open>\w\<close> on one character, for code points below 256.\<close>

definition word_char :: "char \<Rightarrow> bool" where
  "word_char c \<longleftrightarrow> (let n = code_of c in is_alnum c \<or> n = 95 \<or> n \<in> {170, 178, 179, 181, 185, 186}
     \<or> (188 \<le> n \<and> n \<le> 190) \<or> (192 \<le> n \<and> n \<noteq> 215 \<and> n \<noteq> 247))"

definition at_word :: "string \<Rightarrow> bool" where
  "at_word s \<longleftrightarrow> (case s of [] \<Rightarrow> False | c # _ \<Rightarrow> word_char c)"

text \<open>
  Greedy repetition: one more round first, then stopping. After the minimum a round must consume
  something, so as many rounds as there are characters, plus the minimum, are all there can be.
\<close>

fun rounds :: "nat \<Rightarrow> (re_state \<Rightarrow> re_state list) \<Rightarrow> nat \<Rightarrow> nat option \<Rightarrow> re_state \<Rightarrow> re_state list" where
  "rounds 0 f lo hi st = (if lo = 0 then [st] else [])"
| "rounds (Suc n) f lo hi st =
     (if hi = Some 0 then (if lo = 0 then [st] else [])
      else concat (map (\<lambda>st'. if lo = 0 \<and> fst (snd st') = fst (snd st) then []
          else rounds n f (lo - 1) (map_option (\<lambda>k. k - 1) hi) st') (f st))
        @ (if lo = 0 then [st] else []))"

primrec ends :: "pattern \<Rightarrow> re_state \<Rightarrow> re_state list" where
  "ends (Chars P) = (\<lambda>(b, a, g). case a of [] \<Rightarrow> [] | c # cs \<Rightarrow> (if P c then [(c # b, cs, g)] else []))"
| "ends (Cat p q) = (\<lambda>st. concat (map (ends q) (ends p st)))"
| "ends (Or p q) = (\<lambda>st. ends p st @ ends q st)"
| "ends (Rep p lo hi) = (\<lambda>st. rounds (length (fst (snd st)) + lo) (ends p) lo hi st)"
| "ends (Grp i p) = (\<lambda>st. map (\<lambda>(b, a, g). (b, a,
     (i, rev (take (length b - length (fst st)) b)) # g)) (ends p st))"
| "ends (NotAhead p) = (\<lambda>st. if ends p st = [] then [st] else [])"
| "ends (NotBehind P) = (\<lambda>(b, a, g). case b of
     [] \<Rightarrow> [(b, a, g)] | c # _ \<Rightarrow> (if P c then [] else [(b, a, g)]))"
| "ends WordEdge = (\<lambda>(b, a, g). if at_word b \<noteq> at_word a then [(b, a, g)] else [])"
| "ends AtEnd = (\<lambda>(b, a, g). if a = [] \<or> a = [CHR 0x0A] then [(b, a, g)] else [])"

section \<open>Searching\<close>

record re_match =
  mt_start :: nat
  mt_text :: string
  mt_groups :: "(nat \<times> string) list"

definition mt_end :: "re_match \<Rightarrow> nat" where
  "mt_end m = mt_start m + length (mt_text m)"

text \<open>\<^verbatim>\<open>m.group(i)\<close>, with the empty text \<^verbatim>\<open>findall\<close> gives for a group that took no part.\<close>

definition mt_group :: "re_match \<Rightarrow> nat \<Rightarrow> string" where
  "mt_group m i = (case map_of (mt_groups m) i of None \<Rightarrow> [] | Some t \<Rightarrow> t)"

definition match_here :: "pattern \<Rightarrow> string \<Rightarrow> string \<Rightarrow> re_match option" where
  "match_here p b a = (case ends p (b, a, []) of
      [] \<Rightarrow> None
    | (b', a', g) # _ \<Rightarrow> Some \<lparr>mt_start = length b,
        mt_text = rev (take (length b' - length b) b'), mt_groups = g\<rparr>)"

text \<open>
  \<^verbatim>\<open>finditer\<close> for a pattern that matches no empty text: the leftmost match, then on from its end.
  Every round moves forward, so one more round than characters reaches the end.
\<close>

fun scan :: "nat \<Rightarrow> pattern \<Rightarrow> string \<Rightarrow> string \<Rightarrow> re_match list" where
  "scan 0 p b a = []"
| "scan (Suc n) p b a = (case a of
      [] \<Rightarrow> []
    | c # cs \<Rightarrow> (case match_here p b a of
        None \<Rightarrow> scan n p (c # b) cs
      | Some m \<Rightarrow> (case mt_text m of
          [] \<Rightarrow> scan n p (c # b) cs
        | _ # _ \<Rightarrow> m # scan n p (rev (mt_text m) @ b) (drop (length (mt_text m)) a))))"

definition re_finditer :: "pattern \<Rightarrow> string \<Rightarrow> re_match list" where
  "re_finditer p s = scan (Suc (length s)) p [] s"

text \<open>\<^verbatim>\<open>p.match(s, pos)\<close>, \<^verbatim>\<open>p.search(s)\<close> and \<^verbatim>\<open>p.fullmatch(s)\<close> as conditions.\<close>

definition re_match_at :: "pattern \<Rightarrow> string \<Rightarrow> nat \<Rightarrow> bool" where
  "re_match_at p s pos \<longleftrightarrow> match_here p (rev (take pos s)) (drop pos s) \<noteq> None"

definition re_search :: "pattern \<Rightarrow> string \<Rightarrow> bool" where
  "re_search p s \<longleftrightarrow> list_ex (re_match_at p s) [0..<Suc (length s)]"

definition re_fullmatch :: "pattern \<Rightarrow> string \<Rightarrow> bool" where
  "re_fullmatch p s \<longleftrightarrow> list_ex (\<lambda>(_, a, _). a = []) (ends p ([], s, []))"

section \<open>Building blocks\<close>

abbreviation opt :: "pattern \<Rightarrow> pattern" where "opt p \<equiv> Rep p 0 (Some 1)"
abbreviation many :: "pattern \<Rightarrow> pattern" where "many p \<equiv> Rep p 0 None"
abbreviation some :: "pattern \<Rightarrow> pattern" where "some p \<equiv> Rep p 1 None"

definition one_of :: "string \<Rightarrow> pattern" where
  "one_of s = Chars (\<lambda>c. c \<in> set s)"

definition digit :: pattern where "digit = Chars is_digit"
definition space :: pattern where "space = Chars py_isspace"
definition any_char :: pattern where "any_char = Chars (\<lambda>c. code_of c \<noteq> 10)"

text \<open>A literal under \<^verbatim>\<open>re.IGNORECASE\<close>.\<close>

fun word_ci :: "string \<Rightarrow> pattern" where
  "word_ci [] = Rep digit 0 (Some 0)"
| "word_ci [c] = Chars (\<lambda>d. to_lower d = to_lower c)"
| "word_ci (c # d # s) = Cat (Chars (\<lambda>x. to_lower x = to_lower c)) (word_ci (d # s))"

fun any_of :: "pattern list \<Rightarrow> pattern" where
  "any_of [] = NotAhead (Rep digit 0 (Some 0))"
| "any_of [p] = p"
| "any_of (p # q # ps) = Or p (any_of (q # ps))"

section \<open>Laws\<close>

text \<open>A state reached from another has consumed a prefix of what was after it.\<close>

definition consumes :: "re_state \<Rightarrow> re_state \<Rightarrow> bool" where
  "consumes st st' \<longleftrightarrow> (\<exists>t. fst (snd st) = t @ fst (snd st') \<and> fst st' = rev t @ fst st)"

lemma consumes_refl [simp]: "consumes st st"
  by (auto simp: consumes_def)

lemma consumes_trans: "consumes a b \<Longrightarrow> consumes b c \<Longrightarrow> consumes a c"
  unfolding consumes_def by (metis append.assoc rev_append)

lemma rounds_consumes:
  "(\<And>st st'. st' \<in> set (f st) \<Longrightarrow> consumes st st') \<Longrightarrow> st' \<in> set (rounds n f lo hi st) \<Longrightarrow> consumes st st'"
proof (induction n arbitrary: lo hi st st')
  case 0
  then show ?case by (auto split: if_split_asm)
next
  case (Suc n)
  from Suc.prems(2) consider "st' = st"
    | u where "u \<in> set (f st)" "st' \<in> set (rounds n f (lo - 1) (map_option (\<lambda>k. k - 1) hi) u)"
    by (auto split: if_split_asm)
  then show ?case
  proof cases
    case 2
    with Suc show ?thesis using consumes_trans by blast
  qed simp
qed

lemma ends_consumes: "st' \<in> set (ends p st) \<Longrightarrow> consumes st st'"
proof (induction p arbitrary: st st')
  case (Chars P)
  then show ?case by (cases st) (auto simp: consumes_def split: list.splits if_split_asm)
next
  case (Cat p q)
  from Cat.prems obtain u where "u \<in> set (ends p st)" "st' \<in> set (ends q u)" by auto
  then show ?case using Cat.IH consumes_trans by blast
next
  case (Rep p lo hi)
  from Rep.prems have "st' \<in> set (rounds (length (fst (snd st)) + lo) (ends p) lo hi st)" by simp
  then show ?case by (rule rounds_consumes[rotated]) (rule Rep.IH)
next
  case (Grp i p)
  from Grp.prems obtain b a g where "(b, a, g) \<in> set (ends p st)"
    "st' = (b, a, (i, rev (take (length b - length (fst st)) b)) # g)" by auto
  with Grp.IH[of "(b, a, g)" st] show ?case by (simp add: consumes_def)
next
  case (NotBehind P)
  then show ?case by (cases st) (auto split: list.splits if_split_asm)
qed (auto split: if_split_asm prod.splits)

text \<open>What \<^verbatim>\<open>finditer\<close> returns lies in the text, where it says.\<close>

lemma match_here_text:
  assumes "match_here p b a = Some m"
  shows "mt_start m = length b \<and> take (length (mt_text m)) a = mt_text m"
proof -
  from assms obtain st where st: "st \<in> set (ends p (b, a, []))"
    and m: "m = \<lparr>mt_start = length b, mt_text = rev (take (length (fst st) - length b) (fst st)),
        mt_groups = snd (snd st)\<rparr>"
  proof (cases "ends p (b, a, [])")
    case (Cons u us)
    then have "u \<in> set (ends p (b, a, []))" by simp
    then show ?thesis using assms Cons by (intro that[of u]) (auto simp: match_here_def split: prod.splits)
  qed (use assms in \<open>simp add: match_here_def\<close>)
  from ends_consumes[OF st] obtain t where "a = t @ fst (snd st)" "fst st = rev t @ b"
    by (auto simp: consumes_def)
  then show ?thesis by (simp add: m)
qed

lemma scan_text:
  "m \<in> set (scan n p b a) \<Longrightarrow> length b \<le> mt_start m
     \<and> take (length (mt_text m)) (drop (mt_start m) (rev b @ a)) = mt_text m \<and> mt_text m \<noteq> []"
proof (induction n arbitrary: b a)
  case (Suc n)
  then obtain c cs where a: "a = c # cs" by (cases a) auto
  show ?case
  proof (cases "match_here p b a")
    case None
    then show ?thesis using Suc.IH[of "c # b" cs] Suc.prems a by auto
  next
    case (Some k)
    note k = match_here_text[OF Some]
    show ?thesis
    proof (cases "mt_text k")
      case Nil
      then show ?thesis using Suc.IH[of "c # b" cs] Suc.prems a Some by auto
    next
      case (Cons x xs)
      from Suc.prems a Some Cons consider "m = k"
        | "m \<in> set (scan n p (rev (mt_text k) @ b) (drop (length (mt_text k)) a))" by auto
      then show ?thesis
      proof cases
        case 1
        then show ?thesis using k Cons by simp
      next
        case 2
        have "rev (rev (mt_text k) @ b) @ drop (length (mt_text k)) a = rev b @ a"
          using k by (metis append.assoc append_take_drop_id rev_append rev_rev_ident)
        then show ?thesis using Suc.IH[OF 2] by auto
      qed
    qed
  qed
qed simp

lemma re_finditer_text:
  "m \<in> set (re_finditer p s) \<Longrightarrow> take (length (mt_text m)) (drop (mt_start m) s) = mt_text m \<and> mt_text m \<noteq> []"
  unfolding re_finditer_def using scan_text[of m "Suc (length s)" p "[]" s] by simp

section \<open>Two classes and an end\<close>

text \<open>
  What \<^verbatim>\<open>^[a][b]{0,n}$\<close> accepts under \<^verbatim>\<open>.match\<close>: the whole text, or all of it but a final newline.
\<close>

definition line_match :: "(char \<Rightarrow> bool) \<Rightarrow> (char \<Rightarrow> bool) \<Rightarrow> nat \<Rightarrow> string \<Rightarrow> bool" where
  "line_match first rest n s =
     (let t = (if s \<noteq> [] \<and> last s = CHR 0x0A then butlast s else s) in
      t \<noteq> [] \<and> length t \<le> Suc n \<and> first (hd t) \<and> list_all rest (tl t))"

lemma line_match_chars:
  assumes "line_match a b n s" "c \<in> set s"
  shows "a c \<or> b c \<or> c = CHR 0x0A"
proof -
  have part: "a c \<or> b c" if "t \<noteq> []" "a (hd t)" "list_all b (tl t)" "c \<in> set t" for t
    using that by (cases t) (auto simp: list_all_iff)
  show ?thesis
  proof (cases "last s = CHR 0x0A")
    case True
    have "s = butlast s @ [CHR 0x0A]" using assms(2) True by (metis append_butlast_last_id empty_iff list.set(1))
    then have "c \<in> set (butlast s) \<or> c = CHR 0x0A" using assms(2) by (metis Un_iff insert_iff list.set(1,2) set_append empty_iff)
    then show ?thesis using assms part[of "butlast s"] True by (auto simp: line_match_def Let_def split: if_split_asm)
  next
    case False
    then show ?thesis using assms part[of s] by (auto simp: line_match_def Let_def)
  qed
qed

end
