(* ===== verification/Grounding.thy ===== *)
theory Grounding
  imports Regex
begin

text \<open>
  The grounding gate of \<^verbatim>\<open>platform_runtime/conversation.py\<close>: which numbers of a drafted reply
  no lookup, pack text or line of the business supports. The alternatives of its patterns that need
  code points above 255 (Cyrillic words, the euro and rouble signs) cannot occur in the text modelled
  here. Amounts are exact integers; the source's \<^verbatim>\<open>Decimal\<close> agrees up to 28 digits.
\<close>

definition MIN_GROUNDED_DIGITS :: nat where "MIN_GROUNDED_DIGITS = 4"
definition LONG_NUMBER_DIGITS :: nat where "LONG_NUMBER_DIGITS = 9"
definition YEAR_RANGE :: "nat \<times> nat" where "YEAR_RANGE = (1900, 2100)"
definition MONEY_LOOKBEHIND_CHARS :: nat where "MONEY_LOOKBEHIND_CHARS = 8"

section \<open>Patterns\<close>

definition separator :: pattern where
  "separator = Chars (\<lambda>c. c \<in> set '' ,.'' \<or> code_of c = 160)"

definition digits3 :: pattern where "digits3 = Rep digit 3 (Some 3)"

definition GROUPED :: pattern where
  "GROUPED = Or (Cat (Rep digit 1 (Some 3)) (Cat (some (Cat separator digits3)) (NotAhead digit))) (some digit)"

definition SCALED :: pattern where
  "SCALED = Cat (Grp 1 (Cat (some digit) (opt (Cat (one_of ''.,'') (some digit)))))
     (Cat (many space) (Or (Cat (Grp 2 (word_ci ''k'')) WordEdge)
       (Grp 3 (any_of (map word_ci [''ming'', ''mln'', ''million'', ''mlrd'', ''milliard''])))))"

fun scale_of :: "string \<Rightarrow> nat" where
  "scale_of w = (if w = ''k'' \<or> w = ''ming'' then 1000
     else if w = ''mln'' \<or> w = ''million'' then 1000000 else 1000000000)"

definition CURRENCY :: pattern where
  "CURRENCY = any_of [Cat (word_ci ''so'') (Cat (opt any_char) (word_ci ''m'')), word_ci ''uzs'',
     word_ci ''usd'', word_ci ''eur'', word_ci ''rub'', word_ci ''dollar'', word_ci ''$'']"

definition PLAIN_FOUR :: pattern where
  "PLAIN_FOUR = Cat (NotBehind (\<lambda>c. is_digit c \<or> c = CHR ''.'' \<or> c = CHR '',''))
     (Cat (Grp 1 (Rep digit 4 (Some 4)))
       (Cat (NotAhead (Or digit (Cat separator digits3))) (NotAhead (Cat (many space) CURRENCY))))"

definition DIGIT_RUN :: pattern where
  "DIGIT_RUN = Cat (NotBehind is_digit) (Cat (some digit) (NotAhead digit))"

definition phone_part :: pattern where
  "phone_part = Cat (opt (one_of ''('')) (Cat (Rep digit 1 (Some 4)) (opt (one_of '')'')))"

definition PHONE_SPAN :: pattern where
  "PHONE_SPAN = Cat (NotBehind (\<lambda>c. is_digit c \<or> c = CHR ''+''))
     (Cat (opt (one_of ''+'')) (Cat phone_part
       (Cat (some (Cat (Chars (\<lambda>c. c \<in> set '' -.'' \<or> code_of c = 160)) phone_part)) (NotAhead digit))))"

definition THOUSANDS :: pattern where
  "THOUSANDS = Cat (Rep digit 1 (Some 3)) (some (Cat separator digits3))"

definition MONEY_AFTER :: pattern where "MONEY_AFTER = Cat (many space) CURRENCY"

definition MONEY_BEFORE :: pattern where
  "MONEY_BEFORE = Cat (any_of (map word_ci [''$'', ''uzs'', ''usd'', ''eur'', ''rub'']))
     (Cat (many space) AtEnd)"

section \<open>Numbers\<close>

definition digits_of :: "string \<Rightarrow> string" where
  "digits_of s = filter is_digit s"

definition nat_of_digits :: "string \<Rightarrow> nat" where
  "nat_of_digits s = foldl (\<lambda>n c. 10 * n + (code_of c - 48)) 0 s"

text \<open>\<^verbatim>\<open>str(int(Decimal(raw) * scale))\<close> for a text of digits with at most one point or comma.\<close>

definition scaled_amount :: "string \<Rightarrow> string \<Rightarrow> string" where
  "scaled_amount raw word =
     (let whole = takeWhile is_digit raw; frac = drop (Suc (length whole)) raw in
      show_nat (nat_of_digits (whole @ frac) * scale_of (map to_lower word) div 10 ^ length frac))"

definition scaled_numbers :: "string \<Rightarrow> string list" where
  "scaled_numbers text = map (\<lambda>m. scaled_amount (mt_group m 1)
     (if mt_group m 2 \<noteq> [] then mt_group m 2 else mt_group m 3)) (re_finditer SCALED text)"

definition numbers_in :: "string \<Rightarrow> string list" where
  "numbers_in text = map (\<lambda>m. digits_of (mt_text m)) (re_finditer GROUPED text) @ scaled_numbers text"

definition years_in :: "string \<Rightarrow> string list" where
  "years_in text = filter (\<lambda>y. fst YEAR_RANGE \<le> nat_of_digits y \<and> nat_of_digits y \<le> snd YEAR_RANGE)
     (map (\<lambda>m. mt_group m 1) (re_finditer PLAIN_FOUR text))"

section \<open>Identifiers\<close>

text \<open>A span of identifier shape: long enough, not grouped by thousands, not next to a currency.\<close>

definition identifier_match :: "string \<Rightarrow> re_match \<Rightarrow> bool" where
  "identifier_match text m \<longleftrightarrow> \<not> (length (digits_of (mt_text m)) < LONG_NUMBER_DIGITS
     \<or> re_fullmatch THOUSANDS (dropWhile (\<lambda>c. c = CHR ''+'') (mt_text m))
     \<or> re_match_at MONEY_AFTER text (mt_end m)
     \<or> re_search MONEY_BEFORE
         (take (mt_start m - (mt_start m - MONEY_LOOKBEHIND_CHARS))
           (drop (mt_start m - MONEY_LOOKBEHIND_CHARS) text)))"

definition identifier_spans :: "string \<Rightarrow> re_match list" where
  "identifier_spans text =
     filter (identifier_match text) (re_finditer DIGIT_RUN text @ re_finditer PHONE_SPAN text)"

definition blank_span :: "string \<Rightarrow> re_match \<Rightarrow> string" where
  "blank_span s m = take (mt_start m) s @ replicate (length (mt_text m)) CHR '' '' @ drop (mt_end m) s"

definition without_customer_identifiers :: "string \<Rightarrow> string \<Rightarrow> string" where
  "without_customer_identifiers reply customer =
     (let known = map (\<lambda>m. digits_of (mt_text m)) (identifier_spans customer) in
      foldl (\<lambda>s m. if list_ex (py_contains (digits_of (mt_text m))) known then blank_span s m else s)
        reply (identifier_spans reply))"

section \<open>The gate\<close>

definition allowed_numbers :: "string \<Rightarrow> string list" where
  "allowed_numbers grounding =
     numbers_in grounding @ map mt_text (re_finditer (some digit) grounding)"

definition grounded :: "string list \<Rightarrow> string list \<Rightarrow> string \<Rightarrow> bool" where
  "grounded allowed years n \<longleftrightarrow> length n < MIN_GROUNDED_DIGITS \<or> n \<in> set allowed \<or> n \<in> set years
     \<or> list_ex (py_contains n) (filter (\<lambda>i. length i \<ge> LONG_NUMBER_DIGITS) allowed)"

definition ungrounded_numbers :: "string \<Rightarrow> string \<Rightarrow> string \<Rightarrow> string list" where
  "ungrounded_numbers reply grounding customer =
     (let r = without_customer_identifiers reply customer in
      sort (remdups (filter (\<lambda>n. \<not> grounded (allowed_numbers grounding) (years_in r) n) (numbers_in r))))"

section \<open>Laws\<close>

lemma sort_filter_empty: "sort (remdups (filter P xs)) = [] \<longleftrightarrow> (\<forall>x \<in> set xs. \<not> P x)"
proof -
  have "sort (remdups (filter P xs)) = [] \<longleftrightarrow> set (sort (remdups (filter P xs))) = {}"
    by (simp only: set_empty)
  then show ?thesis by (simp only: set_sort set_remdups set_filter) blast
qed

lemma ungrounded_none:
  "ungrounded_numbers reply grounding customer = [] \<longleftrightarrow>
     (\<forall>n \<in> set (numbers_in (without_customer_identifiers reply customer)).
        grounded (allowed_numbers grounding) (years_in (without_customer_identifiers reply customer)) n)"
  by (simp only: ungrounded_numbers_def Let_def sort_filter_empty not_not)

lemma length_blank_span:
  "mt_end m \<le> length s \<Longrightarrow> length (blank_span s m) = length s"
  by (simp add: blank_span_def mt_end_def)

lemma span_inside: "m \<in> set (identifier_spans s) \<Longrightarrow> mt_end m \<le> length s"
proof -
  assume "m \<in> set (identifier_spans s)"
  then have m: "take (length (mt_text m)) (drop (mt_start m) s) = mt_text m" "mt_text m \<noteq> []"
    using re_finditer_text by (auto simp: identifier_spans_def)
  from arg_cong[OF m(1), of length] have "min (length (mt_text m)) (length s - mt_start m) = length (mt_text m)"
    by (simp add: min.commute)
  moreover have "0 < length (mt_text m)" using m(2) by simp
  ultimately show ?thesis unfolding mt_end_def by linarith
qed

text \<open>Blanking keeps the places of everything else: the length never changes.\<close>

lemma blanking_length:
  "\<forall>m \<in> set ms. mt_end m \<le> length s \<Longrightarrow>
     length (foldl (\<lambda>s m. if P m then blank_span s m else s) s ms) = length s"
proof (induction ms arbitrary: s)
  case (Cons m ms)
  then show ?case by (cases "P m") (simp_all add: length_blank_span)
qed simp

lemma blanking_keeps_length:
  "length (without_customer_identifiers reply customer) = length reply"
  unfolding without_customer_identifiers_def Let_def by (rule blanking_length) (simp add: span_inside)

text \<open>A customer text without identifiers grounds nothing: the gate is the one without it.\<close>

lemma customer_grounds_only_identifiers:
  "identifier_spans customer = [] \<Longrightarrow>
     ungrounded_numbers reply grounding customer = ungrounded_numbers reply grounding []"
proof -
  have none: "foldl (\<lambda>s m. if list_ex (Q m) [] then f s m else s) r ms = r" for Q f r and ms :: "re_match list"
    by (induction ms) auto
  have "identifier_spans [] = []"
    by (simp add: identifier_spans_def re_finditer_def)
  with none show "identifier_spans customer = [] \<Longrightarrow> ?thesis"
    by (simp add: ungrounded_numbers_def without_customer_identifiers_def)
qed

end
