(* ===== verification/Conversation_Turns.thy ===== *)
theory Conversation_Turns
  imports Conversation_Text Grounding Engine_Events
begin

text \<open>
  The turns of \<^verbatim>\<open>platform_runtime/conversation.py\<close>: operator takeovers, handoffs and their
  resolution, and the four stages of \<^verbatim>\<open>ConversationTurns.tick\<close>, which open a run for a queued
  turn, settle its answer through the grounding gate, deliver it and read the delivery back. Whether
  the tenant has opted in to the model loop (a configuration file) is the argument \<open>llm\<close>.
\<close>

section \<open>Takeover\<close>

definition takeover_state :: "db \<Rightarrow> string \<Rightarrow> string \<Rightarrow> string \<Rightarrow> int \<Rightarrow> takeover_row option" where
  "takeover_state s tenant channel conv now = (case takeovers s (tenant, channel, conv) of
      None \<Rightarrow> None | Some w \<Rightarrow> (if o_until w > now then Some w else None))"

definition takeover_in ::
  "int \<Rightarrow> string \<Rightarrow> string \<Rightarrow> string \<Rightarrow> string \<Rightarrow> int \<Rightarrow> db \<Rightarrow> (int \<times> db) res" where
  "takeover_in now tenant channel conv actor minutes s =
     (if \<not> (ident_ok tenant \<and> ident_ok channel \<and> ident_ok conv \<and> ident_ok actor)
        then raise ValueError ''Invalid takeover identity''
      else let m = (if 1 \<le> minutes \<and> minutes \<le> 1440 then minutes else 30); until = now + m * 60 in
        Inr (until, audit now tenant [] ''conversation.takeover_started'' actor
          [(''channel'', JStr channel), (''until'', JInt until)]
          (s\<lparr>takeovers := (takeovers s)((tenant, channel, conv) \<mapsto>
             \<lparr>o_actor = actor, o_until = until, o_updated = now\<rparr>)\<rparr>)))"

definition start_takeover ::
  "env \<Rightarrow> int \<Rightarrow> string \<Rightarrow> string \<Rightarrow> string \<Rightarrow> string \<Rightarrow> string \<Rightarrow> db \<Rightarrow> (int \<times> db) res" where
  "start_takeover e now tenant channel conv actor agent s =
     bindr (policy_of e tenant agent) (\<lambda>p.
       takeover_in now tenant channel conv actor (takeover_length (Some p)) s)"

definition takeover_minutes :: "env \<Rightarrow> string \<Rightarrow> string \<Rightarrow> int res" where
  "takeover_minutes e tenant agent = bindr (conv_policy e tenant agent) (\<lambda>p. Inr (takeover_length p))"

definition release_takeover ::
  "env \<Rightarrow> int \<Rightarrow> string \<Rightarrow> string \<Rightarrow> string \<Rightarrow> string \<Rightarrow> db \<Rightarrow> (bool \<times> db) res" where
  "release_takeover e now tenant channel conv actor s =
     bindr (require_authority e tenant ''web'' actor [''owner'', ''operator'']) (\<lambda>_.
       Inr (case takeover_state s tenant channel conv now of
           None \<Rightarrow> (False, s)
         | Some w \<Rightarrow> (True, audit now tenant [] ''conversation.takeover_released'' actor
             [(''channel'', JStr channel)]
             (s\<lparr>takeovers := (takeovers s)((tenant, channel, conv) \<mapsto>
                w\<lparr>o_until := now, o_updated := now\<rparr>)\<rparr>))))"

section \<open>Handoffs\<close>

definition find_kept :: "db \<Rightarrow> string \<Rightarrow> string \<Rightarrow> string \<Rightarrow> record_row option" where
  "find_kept s tenant kind rid =
     find (\<lambda>k. k_tenant k = tenant \<and> k_kind k = kind \<and> k_id k = rid) (records s)"

text \<open>\<^verbatim>\<open>INSERT OR IGNORE INTO p_records\<close>: whether the row was added, and the table after it.\<close>

definition insert_record ::
  "int \<Rightarrow> string \<Rightarrow> string \<Rightarrow> string \<Rightarrow> json \<Rightarrow> db \<Rightarrow> bool \<times> db" where
  "insert_record now tenant kind rid body s = (case find_kept s tenant kind rid of
      Some _ \<Rightarrow> (False, s)
    | None \<Rightarrow> (True, s\<lparr>records := records s @ [\<lparr>k_tenant = tenant, k_kind = kind, k_id = rid,
        k_body = body, k_created = now\<rparr>]\<rparr>))"

definition event_of :: "db \<Rightarrow> conv_row \<Rightarrow> event_row option" where
  "event_of s q = find (\<lambda>v. e_tenant v = q_tenant q \<and> e_channel v = q_channel q \<and> e_key v = q_key q)
     (events s)"

definition event_text :: "db \<Rightarrow> conv_row \<Rightarrow> string res" where
  "event_text s q = (case event_of s q of
      None \<Rightarrow> Inr []
    | Some v \<Rightarrow> (case e_payload v of
        JObj d \<Rightarrow> Inr (str_or [] (jget_or d ''text'' (JStr [])))
      | _ \<Rightarrow> raise (OtherError ''AttributeError'') ''get''))"

text \<open>
  A task derived from a turn. A refusal of the engine is rolled back to the savepoint and audited, and
  never undoes the transaction it rides with.
\<close>

definition side_task ::
  "env \<Rightarrow> int \<Rightarrow> conv_row \<Rightarrow> string \<Rightarrow> string \<Rightarrow> string \<Rightarrow> json \<Rightarrow> string \<Rightarrow> string \<Rightarrow> string \<Rightarrow> db
     \<Rightarrow> (string option \<times> db) res" where
  "side_task e now q channel key agent plan actor done_action failed s =
     (case find_task s (q_tenant q) channel key of
        Some t \<Rightarrow> Inr (Some (t_id t), s)
      | None \<Rightarrow> (case submit e now (q_tenant q) channel key agent plan actor s of
          Inr (task, t) \<Rightarrow> Inr (Some task, audit now (q_tenant q) task done_action LOOP_ACTOR
            [(''event_key'', JStr (q_key q))] t)
        | Inl x \<Rightarrow>
            (if catches [PermissionError, ValueError, LookupError, RateLimited] x
             then Inr (None, audit now (q_tenant q) [] failed LOOP_ACTOR
               [(''event_key'', JStr (q_key q)), (''error'', JStr (event_error x))] s)
             else Inl x)))"

definition notify ::
  "env \<Rightarrow> int \<Rightarrow> conv_row \<Rightarrow> string \<Rightarrow> string \<Rightarrow> db \<Rightarrow> db res" where
  "notify e now q kind text s = bindr (conv_settings_for e (q_tenant q) (q_agent q)) (\<lambda>cs.
     if cs_notify cs = [] then Inr s
     else bindr (derived_key e [q_channel q, q_key q, ''notify'', kind]) (\<lambda>key.
       bindr (side_task e now q NOTIFY_CHANNEL key (q_agent q)
           (tool_plan NOTIFY_TOOL (JObj [(''conversation_id'', JStr (cs_notify cs)),
              (''text'', JStr (take MAX_NOTIFY_CHARS text))]))
           LOOP_ACTOR ''conversation.notify_submitted'' ''conversation.notify_failed'' s)
         (\<lambda>(_, t). Inr t)))"

definition handoff_body :: "conv_row \<Rightarrow> string \<Rightarrow> string \<Rightarrow> json" where
  "handoff_body q reason text = JObj [(''channel'', JStr (q_channel q)), (''event_key'', JStr (q_key q)),
     (''conversation_id'', JStr (q_conversation q)), (''sender'', JStr (q_sender q)),
     (''agent'', JStr (q_agent q)), (''reason'', JStr reason),
     (''text'', JStr (take MAX_HANDOFF_TEXT_CHARS text))]"

definition handoff :: "env \<Rightarrow> int \<Rightarrow> conv_row \<Rightarrow> string \<Rightarrow> db \<Rightarrow> db res" where
  "handoff e now q reason s = bindr (event_text s q) (\<lambda>text.
     case insert_record now (q_tenant q) HANDOFF_KIND (q_channel q @ '':'' @ q_key q)
         (handoff_body q reason text) s of
       (False, _) \<Rightarrow> Inr s
     | (True, t) \<Rightarrow> notify e now q ''handoff'' (handoff_note q reason text)
         (audit now (q_tenant q) (q_task q) ''conversation.handoff'' LOOP_ACTOR
           [(''event_key'', JStr (q_key q)), (''reason'', JStr reason)] t))"

text \<open>Resolving a handoff resolves the older open ones of its conversation with it.\<close>

definition handoff_resolution :: "db \<Rightarrow> string \<Rightarrow> string \<Rightarrow> resolution_row option" where
  "handoff_resolution s tenant hid = find (\<lambda>h. hr_tenant h = tenant \<and> hr_handoff h = hid) (resolutions s)"

definition same_chat :: "json \<Rightarrow> json \<Rightarrow> bool" where
  "same_chat a b \<longleftrightarrow> jget (obj_fields a) ''channel'' = jget (obj_fields b) ''channel''
     \<and> jget (obj_fields a) ''conversation_id'' = jget (obj_fields b) ''conversation_id''"

definition older_open :: "db \<Rightarrow> string \<Rightarrow> record_row \<Rightarrow> string list" where
  "older_open s tenant row = map k_id (filter (\<lambda>k. k_tenant k = tenant \<and> k_kind k = HANDOFF_KIND
     \<and> k_created k \<le> k_created row \<and> same_chat (k_body k) (k_body row)
     \<and> handoff_resolution s tenant (k_id k) = None) (records s))"

record resolved =
  rs_by :: string
  rs_at :: int
  rs_changed :: bool
  rs_ids :: "string list"

definition resolve_handoff ::
  "env \<Rightarrow> int \<Rightarrow> string \<Rightarrow> string \<Rightarrow> string \<Rightarrow> string \<Rightarrow> db \<Rightarrow> (resolved option \<times> db) res" where
  "resolve_handoff e now tenant hid actor note s =
     (if hid = [] \<or> length hid > MAX_HANDOFF_ID_CHARS then Inr (None, s)
      else bindr (require_authority e tenant ''web'' actor [''owner'', ''operator'']) (\<lambda>_.
        case find_kept s tenant HANDOFF_KIND hid of
          None \<Rightarrow> Inr (None, s)
        | Some row \<Rightarrow>
            let ids = older_open s tenant row;
                s1 = s\<lparr>resolutions := resolutions s @ map (\<lambda>i. \<lparr>hr_tenant = tenant, hr_handoff = i,
                  hr_actor = actor, hr_note = take MAX_RESOLUTION_NOTE_CHARS note, hr_created = now\<rparr>) ids\<rparr>;
                s2 = (if ids = [] then s1 else audit now tenant [] ''conversation.handoff_resolved'' actor
                  [(''handoff_id'', JStr hid), (''resolved'', JInt (int (length ids)))] s1) in
            (case handoff_resolution s2 tenant hid of
               None \<Rightarrow> raise TypeError ''first''
             | Some h \<Rightarrow> Inr (Some \<lparr>rs_by = hr_actor h, rs_at = hr_created h,
                 rs_changed = hid \<in> set ids, rs_ids = ids\<rparr>, s2))))"

section \<open>Changing a turn\<close>

definition is_turn :: "conv_row \<Rightarrow> conv_status \<Rightarrow> conv_row \<Rightarrow> bool" where
  "is_turn q st r \<longleftrightarrow> q_tenant r = q_tenant q \<and> q_channel r = q_channel q \<and> q_key r = q_key q
     \<and> q_status r = st"

text \<open>\<^verbatim>\<open>UPDATE ... WHERE ... AND status=?\<close> with its row count, then the rest of the write.\<close>

definition change_turn ::
  "conv_row \<Rightarrow> conv_status \<Rightarrow> (conv_row \<Rightarrow> conv_row) \<Rightarrow> (db \<Rightarrow> db res) \<Rightarrow> db \<Rightarrow> db res" where
  "change_turn q st f rest s =
     (if \<exists>r \<in> set (conv_turns s). is_turn q st r
      then rest (s\<lparr>conv_turns := upd_where (is_turn q st) f (conv_turns s)\<rparr>) else Inr s)"

fun conv_status_text :: "conv_status \<Rightarrow> string" where
  "conv_status_text CtQueued = ''queued''"
| "conv_status_text CtThrottled = ''throttled''"
| "conv_status_text CtOpen = ''open''"
| "conv_status_text CtDelivering = ''delivering''"
| "conv_status_text CtDelivered = ''delivered''"
| "conv_status_text CtFailed = ''failed''"
| "conv_status_text CtUncertain = ''uncertain''"
| "conv_status_text CtOperator = ''operator''"

definition finish_turn ::
  "env \<Rightarrow> int \<Rightarrow> conv_row \<Rightarrow> conv_status \<Rightarrow> string \<Rightarrow> db \<Rightarrow> (bool \<times> db) res" where
  "finish_turn e now q st err s =
     bindr (change_turn q CtDelivering (\<lambda>r. r\<lparr>q_status := st, q_error := err, q_updated := now\<rparr>)
       (\<lambda>t. handoff e now q err
          (audit now (q_tenant q) (q_task q) (''conversation.'' @ conv_status_text st) LOOP_ACTOR
            [(''event_key'', JStr (q_key q)), (''error'', JStr err)] t)) s)
       (\<lambda>t. Inr (True, t))"

section \<open>Stage 1: open\<close>

definition busy :: "conv_row \<Rightarrow> bool" where
  "busy q \<longleftrightarrow> q_status q = CtOpen \<or> q_status q = CtDelivering"

definition same_conversation :: "conv_row \<Rightarrow> conv_row \<Rightarrow> bool" where
  "same_conversation q r \<longleftrightarrow> q_tenant r = q_tenant q \<and> q_channel r = q_channel q
     \<and> q_conversation r = q_conversation q"

definition in_flight :: "db \<Rightarrow> string \<Rightarrow> nat" where
  "in_flight s tenant = length (filter (\<lambda>q. q_tenant q = tenant \<and> q_status q = CtOpen) (conv_turns s))"

definition first_turn :: "db \<Rightarrow> (conv_row \<Rightarrow> bool) \<Rightarrow> conv_row option" where
  "first_turn s P = (case sort_key q_created (filter P (conv_turns s)) of [] \<Rightarrow> None | q # _ \<Rightarrow> Some q)"

definition openable :: "db \<Rightarrow> string \<Rightarrow> conv_row \<Rightarrow> bool" where
  "openable s tenant q \<longleftrightarrow> q_tenant q = tenant \<and> q_status q = CtQueued
     \<and> \<not> (\<exists>b \<in> set (conv_turns s). same_conversation q b \<and> busy b)"

definition leave_to_operator :: "env \<Rightarrow> int \<Rightarrow> conv_row \<Rightarrow> takeover_row \<Rightarrow> db \<Rightarrow> (bool \<times> db) res" where
  "leave_to_operator e now q w s =
     bindr (change_turn q CtQueued (\<lambda>r. r\<lparr>q_status := CtOperator, q_updated := now\<rparr>)
       (\<lambda>t. handoff e now q ''operator_takeover''
          (audit now (q_tenant q) [] ''conversation.turn_operator'' LOOP_ACTOR
            [(''event_key'', JStr (q_key q)), (''operator'', JStr (o_actor w)),
             (''until'', JInt (o_until w))] t)) s)
       (\<lambda>t. Inr (True, t))"

definition run_key :: "env \<Rightarrow> conv_row \<Rightarrow> string res" where
  "run_key e q = (let key = ''conv:'' @ q_channel q @ '':'' @ q_key q in
     if length key > 256 then bindr (digest e (jstrs [q_channel q, q_key q])) (\<lambda>h. Inr (''conv:'' @ h))
     else Inr key)"

text \<open>The run of a turn: its identifier, or the error the turn opens with; \<open>None\<close> waits.\<close>

definition open_run ::
  "env \<Rightarrow> (string \<Rightarrow> bool) \<Rightarrow> int \<Rightarrow> conv_row \<Rightarrow> db \<Rightarrow> ((string \<times> string) option \<times> db) res" where
  "open_run e llm now q s = bindr (event_text s q) (\<lambda>text.
     bindr (conv_settings_for e (q_tenant q) (q_agent q)) (\<lambda>cs.
       if \<not> llm (q_tenant q) then Inr (Some ([], ''llm_unavailable''), s)
       else if \<not> cs_enabled cs then Inr (Some ([], ''conversation_disabled''), s)
       else bindr (run_key e q) (\<lambda>key. case find_run_key s (q_tenant q) key of
           Some r \<Rightarrow> Inr (Some (r_id r, []), s)
         | None \<Rightarrow> (case create_run e now (q_tenant q) key (q_agent q)
               (run_input s (q_tenant q) q text (cs_history_turns cs)) (q_sender q)
               (cs_max_steps cs) (cs_max_seconds cs) (q_channel q) s of
             Inr (run, t) \<Rightarrow> Inr (Some (run, []), t)
           | Inl x \<Rightarrow>
               if catches [RateLimited] x then Inr (None, s)
               else if catches [Conflict, PermissionError, ValueError, LookupError] x
                 then Inr (Some ([], ''run_rejected''), s)
               else Inl x))))"

definition open_turn ::
  "env \<Rightarrow> (string \<Rightarrow> bool) \<Rightarrow> int \<Rightarrow> conv_row \<Rightarrow> db \<Rightarrow> (bool \<times> db) res" where
  "open_turn e llm now q s = bindr (open_run e llm now q s) (\<lambda>(verdict, s1). case verdict of
      None \<Rightarrow> Inr (False, s1)
    | Some (run, err) \<Rightarrow>
        if in_flight s1 (q_tenant q) \<ge> MAX_OPEN_TURNS then Inr (False, s1)
        else bindr (change_turn q CtQueued
            (\<lambda>r. r\<lparr>q_status := CtOpen, q_run := run, q_error := err, q_updated := now\<rparr>)
            (\<lambda>t. Inr (audit now (q_tenant q) [] ''conversation.turn_opened'' (q_sender q)
              [(''event_key'', JStr (q_key q)), (''run'', JStr run), (''error'', JStr err)] t)) s1)
          (\<lambda>t. Inr (True, t)))"

definition stage_open ::
  "env \<Rightarrow> (string \<Rightarrow> bool) \<Rightarrow> int \<Rightarrow> string \<Rightarrow> db \<Rightarrow> (bool \<times> db) res" where
  "stage_open e llm now tenant s =
     (if frozen s tenant then Inr (False, s)
      else case first_turn s (openable s tenant) of
          None \<Rightarrow> Inr (False, s)
        | Some q \<Rightarrow> (case takeover_state s tenant (q_channel q) (q_conversation q) now of
            Some w \<Rightarrow> leave_to_operator e now q w s
          | None \<Rightarrow>
              if in_flight s tenant \<ge> MAX_OPEN_TURNS then Inr (False, s)
              else open_turn e llm now q s))"

section \<open>Orders\<close>

definition order_rows :: "db \<Rightarrow> string \<Rightarrow> string \<Rightarrow> (turn_row \<times> step_row) list" where
  "order_rows s tenant run = sort_key (\<lambda>(l, x). - n_position l)
     (concat (map (\<lambda>l. map (Pair l) (filter (\<lambda>x. s_tenant x = n_tenant l \<and> s_task x = n_task l
          \<and> s_tool x = ORDER_DRAFT_TOOL \<and> s_status x = Succeeded) (steps s)))
        (filter (\<lambda>l. n_tenant l = tenant \<and> n_run l = run) (turns s))))"

definition draft_of :: "json \<Rightarrow> fields option" where
  "draft_of result = (case result of
      JObj d \<Rightarrow> (if jget d ''valid'' = JBool True
        then (case jget d ''draft'' of JObj f \<Rightarrow> Some f | _ \<Rightarrow> None) else None)
    | _ \<Rightarrow> None)"

definition order_draft :: "db \<Rightarrow> string \<Rightarrow> string \<Rightarrow> fields option" where
  "order_draft s tenant run =
     (case List.map_filter (\<lambda>(l, x). draft_of (s_result x)) (order_rows s tenant run) of
        [] \<Rightarrow> None | d # _ \<Rightarrow> Some d)"

text \<open>\<^verbatim>\<open>LIKE '%:order'\<close> and \<^verbatim>\<open>LIKE 'order:%'\<close>, which SQLite compares without case.\<close>

definition order_key :: "string \<Rightarrow> bool" where
  "order_key key \<longleftrightarrow> py_endswith '':order'' (map to_lower key) \<or> py_startswith ''order:'' (map to_lower key)"

definition pending_orders :: "db \<Rightarrow> conv_row \<Rightarrow> string \<Rightarrow> nat" where
  "pending_orders s q agent = length (filter (\<lambda>t. t_tenant t = q_tenant q \<and> t_channel t = q_channel q
     \<and> t_actor t = q_sender q \<and> t_agent t = agent \<and> t_status t \<in> {Queued, Running, WaitingApproval}
     \<and> order_key (t_event_key t)
     \<and> (\<exists>x \<in> set (steps s). s_tenant x = t_tenant t \<and> s_task x = t_id t \<and> s_tool x = ORDER_WRITE_TOOL))
     (tasks s))"

text \<open>\<^verbatim>\<open>{**draft, 'channel': ...}\<close>.\<close>

definition put_field :: "string \<Rightarrow> json \<Rightarrow> fields \<Rightarrow> fields" where
  "put_field k v d = (if k \<in> set (jkeys d) then map (\<lambda>(j, w). (j, if j = k then v else w)) d
     else d @ [(k, v)])"

definition order_body :: "conv_row \<Rightarrow> fields \<Rightarrow> json" where
  "order_body q draft = JObj (put_field ''event_key'' (JStr (q_key q))
     (put_field ''conversation_id'' (JStr (q_conversation q))
       (put_field ''channel'' (JStr (q_channel q)) draft)))"

definition capture_order :: "env \<Rightarrow> int \<Rightarrow> conv_row \<Rightarrow> db \<Rightarrow> db res" where
  "capture_order e now q s = bindr (conv_settings_for e (q_tenant q) (q_agent q)) (\<lambda>cs.
     case (if q_run q = [] then None else order_draft s (q_tenant q) (q_run q)) of
       None \<Rightarrow> Inr s
     | Some draft \<Rightarrow>
         if cs_order_agent cs = [] then Inr s
         else bindr (derived_key e [q_key q, ''order'']) (\<lambda>key.
           let pending = (if find_task s (q_tenant q) (q_channel q) key \<noteq> None then 0
                          else pending_orders s q (cs_order_agent cs)) in
           if pending \<ge> MAX_PENDING_ORDERS_PER_SENDER
           then handoff e now q ''order_pending''
             (audit now (q_tenant q) [] ''conversation.order_throttled'' LOOP_ACTOR
               [(''event_key'', JStr (q_key q)), (''pending'', JInt (int pending))] s)
           else bindr (encode (order_body q draft)) (\<lambda>body.
             bindr (side_task e now q (q_channel q) key (cs_order_agent cs)
               (tool_plan ORDER_WRITE_TOOL (JObj [(''kind'', JStr (cs_order_kind cs)),
                  (''title'', JStr (order_title draft)), (''body'', JStr body)]))
               (q_sender q) ''conversation.order_captured'' ''conversation.order_failed'' s) (\<lambda>(task, t).
               case task of
                 None \<Rightarrow> handoff e now q ''order_rejected'' t
               | Some _ \<Rightarrow> bindr (event_text t q) (\<lambda>text.
                   notify e now q ''order'' (order_note q draft text) t)))))"

section \<open>Stage 2: settle\<close>

definition stored_text :: "json \<Rightarrow> string" where
  "stored_text j = (case encode j of Inr t \<Rightarrow> t | Inl _ \<Rightarrow> [])"

definition evidence_text :: "db \<Rightarrow> string \<Rightarrow> string \<Rightarrow> string list \<Rightarrow> string" where
  "evidence_text s tenant run evidence =
     (let ids = map (drop 5) (filter (py_startswith ''step:'') evidence) in
      py_join newline (concat (map (\<lambda>x. map (\<lambda>l. stored_text (s_result x))
          (filter (\<lambda>l. n_tenant l = s_tenant x \<and> n_task l = s_task x \<and> n_run l = run) (turns s)))
        (filter (\<lambda>x. s_tenant x = tenant \<and> s_status x = Succeeded \<and> s_id x \<in> set ids) (steps s)))))"

text \<open>The text whose numbers a reply may state, and what the customer typed.\<close>

definition grounding_texts :: "env \<Rightarrow> db \<Rightarrow> conv_row \<Rightarrow> string list \<Rightarrow> (string \<times> string) res" where
  "grounding_texts e s q evidence = bindr (conv_policy e (q_tenant q) (q_agent q)) (\<lambda>p.
     let rows = conversation_lines s (q_tenant q) (q_channel q) (q_conversation q);
         said = map y_text (filter (\<lambda>y. y_role y \<in> set BUSINESS_ROLES) rows);
         typed = map y_text (filter (\<lambda>y. y_role y \<notin> set BUSINESS_ROLES) rows);
         persona = (case p of None \<Rightarrow> [] | Some r \<Rightarrow> str_or [] (p_persona r)) in
     Inr (py_join newline ([evidence_text s (q_tenant q) (q_run q) evidence] @ said
            @ [persona, cs_fallback (settings_of p)]),
          py_join newline typed))"

text \<open>\<^verbatim>\<open>_limit\<close>: the reply cut to the send tool's declared text length.\<close>

definition limit_reply :: "env \<Rightarrow> string \<Rightarrow> string \<Rightarrow> string res" where
  "limit_reply e channel reply =
     bindr (registry_get (reg e) (JStr (channel @ ''.send''))) (\<lambda>t.
       case obj_get (jget (tl_schema t) ''properties'') ''text'' of
         Some (JObj d) \<Rightarrow> (case jget_or d ''maxLength'' (JInt (int (length reply))) of
             JInt n \<Rightarrow> Inr (if n < 0 then take (length reply - nat (- n)) reply else take (nat n) reply)
           | _ \<Rightarrow> raise TypeError ''slice indices must be integers'')
       | _ \<Rightarrow> raise KeyError ''text'')"

datatype verdict = Waiting | Answer string "string list" | Fallback string

definition run_verdict :: "db \<Rightarrow> conv_row \<Rightarrow> verdict" where
  "run_verdict s q =
     (if q_error q \<noteq> [] then Fallback (q_error q)
      else case find_run s (q_tenant q) (q_run q) of
          None \<Rightarrow> Fallback ''run_missing''
        | Some r \<Rightarrow>
            if r_status r \<in> set ACTIVE then Waiting
            else if r_status r = RSucceeded then Answer (r_answer r) (r_evidence r)
            else if r_status r = RNeedsInput then Answer (r_answer r) []
            else Fallback (''run_'' @ run_status_text (r_status r)))"

text \<open>The reply that will be sent, the reason it is not the model's (empty when it is), and the numbers
  nothing supports.\<close>

definition settled_reply ::
  "env \<Rightarrow> db \<Rightarrow> conv_row \<Rightarrow> string option \<Rightarrow> string list \<Rightarrow> string \<Rightarrow> (string \<times> string \<times> string list) res" where
  "settled_reply e s q answer evidence reason =
     bindr (case answer of
         None \<Rightarrow> Inr []
       | Some a \<Rightarrow> bindr (grounding_texts e s q evidence) (\<lambda>(grounding, typed).
           Inr (ungrounded_numbers a grounding typed))) (\<lambda>bad.
     let kept = (if bad = [] then answer else None);
         why = (if bad = [] then reason else ''ungrounded_number'') in
     bindr (case kept of
         Some a \<Rightarrow>
           if blank a then bindr (conv_settings_for e (q_tenant q) (q_agent q)) (\<lambda>cs.
             Inr (if blank (cs_fallback cs) then DEFAULT_HANDOFF_TEXT else cs_fallback cs,
                  if why = [] then ''empty_reply'' else why))
           else Inr (a, why)
       | None \<Rightarrow> bindr (conv_settings_for e (q_tenant q) (q_agent q)) (\<lambda>cs.
             Inr (if blank (cs_fallback cs) then DEFAULT_HANDOFF_TEXT else cs_fallback cs,
                  if why = [] then ''empty_reply'' else why))) (\<lambda>(text, r).
     bindr (limit_reply e (q_channel q) text) (\<lambda>cut. Inr (cut, r, bad))))"

definition settle_write ::
  "env \<Rightarrow> int \<Rightarrow> conv_row \<Rightarrow> string \<Rightarrow> string \<Rightarrow> string list \<Rightarrow> db \<Rightarrow> (bool \<times> db) res" where
  "settle_write e now q text reason bad s =
     bindr (change_turn q CtOpen
       (\<lambda>r. r\<lparr>q_status := CtDelivering, q_reply := text, q_error := reason, q_updated := now\<rparr>)
       (\<lambda>t. let t1 = (if bad = [] then t
               else audit now (q_tenant q) [] ''conversation.ungrounded_number'' LOOP_ACTOR
                 [(''event_key'', JStr (q_key q)), (''run'', JStr (q_run q)),
                  (''numbers'', jstrs (take 10 bad))] t) in
         bindr (if reason = [] then Inr t1 else handoff e now q reason t1) (capture_order e now q)) s)
       (\<lambda>t. Inr (True, t))"

definition settle_turn ::
  "env \<Rightarrow> int \<Rightarrow> conv_row \<Rightarrow> string option \<Rightarrow> string list \<Rightarrow> string \<Rightarrow> db \<Rightarrow> (bool \<times> db) res" where
  "settle_turn e now q answer evidence reason s =
     bindr (settled_reply e s q answer evidence reason) (\<lambda>(text, r, bad).
       settle_write e now q text r bad s)"

fun settle_first :: "env \<Rightarrow> int \<Rightarrow> conv_row list \<Rightarrow> db \<Rightarrow> (bool \<times> db) res" where
  "settle_first e now [] s = Inr (False, s)"
| "settle_first e now (q # qs) s = (case run_verdict s q of
      Waiting \<Rightarrow> settle_first e now qs s
    | Answer a evidence \<Rightarrow> settle_turn e now q (Some a) evidence [] s
    | Fallback reason \<Rightarrow> settle_turn e now q None [] reason s)"

definition stage_settle :: "env \<Rightarrow> int \<Rightarrow> string \<Rightarrow> db \<Rightarrow> (bool \<times> db) res" where
  "stage_settle e now tenant s =
     (if frozen s tenant then Inr (False, s)
      else settle_first e now (take MAX_SETTLE_SCAN (sort_key q_created
        (filter (\<lambda>q. q_tenant q = tenant \<and> q_status q = CtOpen) (conv_turns s)))) s)"

section \<open>Stage 3: deliver\<close>

definition undelivered :: "string \<Rightarrow> conv_row \<Rightarrow> bool" where
  "undelivered tenant q \<longleftrightarrow> q_tenant q = tenant \<and> q_status q = CtDelivering \<and> q_task q = []"

text \<open>An update of the turn while its reply is still unsubmitted.\<close>

definition change_unsent ::
  "conv_row \<Rightarrow> (conv_row \<Rightarrow> conv_row) \<Rightarrow> (db \<Rightarrow> db) \<Rightarrow> db \<Rightarrow> db" where
  "change_unsent q f rest s =
     (if \<exists>r \<in> set (conv_turns s). is_turn q CtDelivering r \<and> q_task r = []
      then rest (s\<lparr>conv_turns := upd_where (\<lambda>r. is_turn q CtDelivering r \<and> q_task r = []) f (conv_turns s)\<rparr>)
      else s)"

definition link_reply :: "int \<Rightarrow> conv_row \<Rightarrow> string \<Rightarrow> db \<Rightarrow> db" where
  "link_reply now q task s = change_unsent q (\<lambda>r. r\<lparr>q_task := task, q_updated := now\<rparr>)
     (audit now (q_tenant q) task ''conversation.reply_submitted'' LOOP_ACTOR
       [(''event_key'', JStr (q_key q))]) s"

definition deliver_turn :: "env \<Rightarrow> int \<Rightarrow> conv_row \<Rightarrow> db \<Rightarrow> (bool \<times> db) res" where
  "deliver_turn e now q s =
     (case destination_field (q_channel q @ ''.send'') of
        None \<Rightarrow> raise KeyError (q_channel q @ ''.send'')
      | Some fld \<Rightarrow>
          (case submit e now (q_tenant q) (q_channel q) (q_key q) (q_agent q)
              (tool_plan (q_channel q @ ''.send'') (JObj [(fld, JStr (q_conversation q)),
                 (''text'', JStr (q_reply q))])) (q_sender q) s of
             Inr (task, t) \<Rightarrow> Inr (True, link_reply now q task t)
           | Inl x \<Rightarrow>
               if catches [Conflict] x then
                 (case find_task s (q_tenant q) (q_channel q) (q_key q) of
                    None \<Rightarrow> finish_turn e now q CtFailed ''delivery_conflict'' s
                  | Some t \<Rightarrow> Inr (True, link_reply now q (t_id t) s))
               else if catches [RateLimited] x then Inr (False, s)
               else if catches [PermissionError, ValueError, LookupError] x
                 then finish_turn e now q CtFailed ''delivery_rejected'' s
               else Inl x))"

definition stage_deliver :: "env \<Rightarrow> int \<Rightarrow> string \<Rightarrow> db \<Rightarrow> (bool \<times> db) res" where
  "stage_deliver e now tenant s =
     (if frozen s tenant then Inr (False, s)
      else case first_turn s (undelivered tenant) of
          None \<Rightarrow> Inr (False, s)
        | Some q \<Rightarrow> (case takeover_state s tenant (q_channel q) (q_conversation q) now of
            Some _ \<Rightarrow> Inr (True, change_unsent q
              (\<lambda>r. r\<lparr>q_status := CtOperator, q_error := ''operator_took_over'', q_updated := now\<rparr>)
              (audit now tenant [] ''conversation.reply_suppressed'' LOOP_ACTOR
                [(''event_key'', JStr (q_key q)), (''channel'', JStr (q_channel q))]) s)
          | None \<Rightarrow> deliver_turn e now q s))"

section \<open>Stage 4: close\<close>

definition closing :: "db \<Rightarrow> string \<Rightarrow> conv_row \<Rightarrow> bool" where
  "closing s tenant q \<longleftrightarrow> q_tenant q = tenant \<and> q_status q = CtDelivering \<and> q_task q \<noteq> []
     \<and> (case get_task s tenant (q_task q) of None \<Rightarrow> False
        | Some t \<Rightarrow> t_status t \<in> {Succeeded, Failed, Cancelled, Uncertain})"

definition close_delivered :: "int \<Rightarrow> conv_row \<Rightarrow> db \<Rightarrow> db res" where
  "close_delivered now q s =
     change_turn q CtDelivering (\<lambda>r. r\<lparr>q_status := CtDelivered, q_updated := now\<rparr>)
       (\<lambda>t. Inr (audit now (q_tenant q) (q_task q) ''conversation.delivered'' LOOP_ACTOR
          [(''event_key'', JStr (q_key q))]
          (append_line (q_tenant q) (q_channel q) (q_conversation q)
            (next_seq t (q_tenant q) (q_channel q) (q_conversation q)) ''agent'' (q_reply q) now t))) s"

definition stage_close :: "env \<Rightarrow> int \<Rightarrow> string \<Rightarrow> db \<Rightarrow> (bool \<times> db) res" where
  "stage_close e now tenant s = (case first_turn s (closing s tenant) of
      None \<Rightarrow> Inr (False, s)
    | Some q \<Rightarrow> (case get_task s tenant (q_task q) of
        None \<Rightarrow> Inr (False, s)
      | Some t \<Rightarrow>
          if t_status t = Uncertain then finish_turn e now q CtUncertain ''send_uncertain'' s
          else if t_status t \<noteq> Succeeded
            then finish_turn e now q CtFailed (''send_'' @ status_text (t_status t)) s
          else bindr (close_delivered now q s) (\<lambda>u. Inr (True, u))))"

section \<open>One tick\<close>

text \<open>Each stage in turn, until one of them made a transition.\<close>

fun stages :: "(db \<Rightarrow> (bool \<times> db) res) list \<Rightarrow> db \<Rightarrow> (bool \<times> db) res" where
  "stages [] s = Inr (False, s)"
| "stages (f # fs) s = bindr (f s) (\<lambda>(moved, t). if moved then Inr (True, t) else stages fs t)"

definition turns_tick ::
  "env \<Rightarrow> (string \<Rightarrow> bool) \<Rightarrow> int \<Rightarrow> string \<Rightarrow> db \<Rightarrow> (bool \<times> db) res" where
  "turns_tick e llm now tenant s = stages [stage_close e now tenant, stage_deliver e now tenant,
     stage_settle e now tenant, stage_open e llm now tenant] s"

section \<open>Delivered operator replies\<close>

definition OPERATOR_LINE_KIND :: string where "OPERATOR_LINE_KIND = ''conversation.operator_line''"
definition OPERATOR_ROLE :: string where "OPERATOR_ROLE = ''operator''"
definition MAX_SETTLE_BATCH :: nat where "MAX_SETTLE_BATCH = 50"

definition pending_replies :: "db \<Rightarrow> string \<Rightarrow> (task_row \<times> step_row) list" where
  "pending_replies s tenant = take MAX_SETTLE_BATCH
     (sort_key (\<lambda>(t, x). t_updated t) (sort_key (\<lambda>(t, x). t_created t)
       (concat (map (\<lambda>t. map (Pair t) (filter (\<lambda>x. s_tenant x = t_tenant t \<and> s_task x = t_id t
            \<and> s_position x = 0) (steps s)))
          (filter (\<lambda>t. t_tenant t = tenant \<and> t_channel t = OPERATOR_CHANNEL \<and> t_status t = Succeeded
             \<and> find_kept s tenant OPERATOR_LINE_KIND (t_id t) = None) (tasks s))))))"

definition settle_reply :: "env \<Rightarrow> int \<Rightarrow> string \<Rightarrow> task_row \<times> step_row \<Rightarrow> db \<Rightarrow> (bool \<times> db) res" where
  "settle_reply e now tenant row s = (case row of (t, x) \<Rightarrow>
     let channel = take (length (s_tool x) - length ''.send'') (s_tool x) in
     (case destination_field (s_tool x) of
        None \<Rightarrow> raise KeyError (s_tool x)
      | Some fld \<Rightarrow> (case (obj_get (s_args x) fld, obj_get (s_args x) ''text'') of
          (Some (JStr conv), Some (JStr text)) \<Rightarrow>
            (case insert_record now tenant OPERATOR_LINE_KIND (t_id t)
                (JObj [(''actor'', JStr (t_actor t)), (''channel'', JStr channel),
                       (''conversation_id'', JStr conv)]) s of
               (False, _) \<Rightarrow> Inr (False, s)
             | (True, s1) \<Rightarrow> bindr (takeover_minutes e tenant (t_agent t)) (\<lambda>m.
                 bindr (takeover_in now tenant channel conv (t_actor t) m
                   (audit now tenant (t_id t) ''conversation.operator_delivered'' (t_actor t)
                     [(''channel'', JStr channel)]
                     (append_line tenant channel conv (next_seq s1 tenant channel conv) OPERATOR_ROLE text now s1)))
                 (\<lambda>(_, u). Inr (True, u))))
        | _ \<Rightarrow> raise KeyError fld)))"

text \<open>Whether any reply was added, and the state after the batch.\<close>

fun settle_replies :: "env \<Rightarrow> int \<Rightarrow> string \<Rightarrow> (task_row \<times> step_row) list \<Rightarrow> db \<Rightarrow> (bool \<times> db) res" where
  "settle_replies e now tenant [] s = Inr (False, s)"
| "settle_replies e now tenant (r # rs) s = bindr (settle_reply e now tenant r s) (\<lambda>(a, t).
     bindr (settle_replies e now tenant rs t) (\<lambda>(b, u). Inr (a \<or> b, u)))"

definition settle_operator_replies :: "env \<Rightarrow> int \<Rightarrow> string \<Rightarrow> db \<Rightarrow> (bool \<times> db) res" where
  "settle_operator_replies e now tenant s = settle_replies e now tenant (pending_replies s tenant) s"

end
