(* ===== verification/Turn_Frames.thy ===== *)
theory Turn_Frames
  imports Conversation_Turns Agent_Loop_Props Contracts
begin

text \<open>
  What the transactions of a conversation turn leave alone: submitting a task, creating a run, a
  handoff, a notification or an order never touches the table of turns, and never takes a record out.
\<close>

definition keeps_turns :: "db \<Rightarrow> db \<Rightarrow> bool" where
  "keeps_turns s t \<longleftrightarrow> conv_turns t = conv_turns s
     \<and> (\<forall>tenant kind rid r. find_kept s tenant kind rid = Some r \<longrightarrow> find_kept t tenant kind rid = Some r)"

named_theorems frames \<open>what an operation keeps of the table of turns\<close>

lemma keeps_turns_refl [simp, frames]: "keeps_turns s s"
  by (simp add: keeps_turns_def)

lemma keeps_turns_trans: "keeps_turns s t \<Longrightarrow> keeps_turns t u \<Longrightarrow> keeps_turns s u"
  by (simp add: keeps_turns_def)

lemma keeps_turnsI: "conv_turns t = conv_turns s \<Longrightarrow> records t = records s \<Longrightarrow> keeps_turns s t"
  by (simp add: keeps_turns_def find_kept_def)

lemma keeps_conv: "keeps_turns s t \<Longrightarrow> conv_turns t = conv_turns s"
  by (simp add: keeps_turns_def)

lemma keeps_found:
  "keeps_turns s t \<Longrightarrow> find_kept s tenant kind rid = Some r \<Longrightarrow> find_kept t tenant kind rid = Some r"
  by (simp add: keeps_turns_def)

lemma audit_turns [simp]:
  "conv_turns (audit now tenant task action actor fs s) = conv_turns s"
  "records (audit now tenant task action actor fs s) = records s"
  by (simp_all add: audit_def)

lemma refresh_turns [simp]:
  "conv_turns (refresh now tenant task s) = conv_turns s" "records (refresh now tenant task s) = records s"
  by (simp_all add: refresh_def upd_tasks_def)

lemma drawn_turns [simp]: "conv_turns (drawn s) = conv_turns s" "records (drawn s) = records s"
  by (simp_all add: drawn_def)

lemma insert_steps_turns [simp]:
  "conv_turns (insert_steps e now tenant task approver pos vs s) = conv_turns s"
  "records (insert_steps e now tenant task approver pos vs s) = records s"
  by (induction vs arbitrary: pos s) (simp_all add: insert_step_def Let_def)

lemma submit_turns:
  "submit e now tenant channel key agent plan actor s = Inr (tid, t) \<Longrightarrow> keeps_turns s t"
  by (rule submitE) (auto elim!: create_taskE intro!: keeps_turnsI)

lemma create_run_turns:
  assumes "create_run e now tenant key agent input actor max_steps max_seconds channel s = Inr (rid, t)"
  shows "keeps_turns s t"
  using assms
  by (auto simp: create_run_def create_run_tx_def res_simps Let_def
      split: if_split_asm option.splits intro!: keeps_turnsI)

lemma audit_keeps: "keeps_turns s (audit now tenant task action actor fs s)"
  by (rule keeps_turnsI) simp_all

lemmas then_audit_keeps = keeps_turns_trans[OF _ audit_keeps]

lemma side_task_turns:
  assumes "side_task e now q channel key agent plan actor a b s = Inr (task, t)"
  shows "keeps_turns s t"
proof (cases "find_task s (q_tenant q) channel key")
  case (Some x)
  with assms show ?thesis by (simp add: side_task_def)
next
  case None
  show ?thesis
  proof (cases "submit e now (q_tenant q) channel key agent plan actor s")
    case (Inl x)
    with assms None show ?thesis by (auto simp: side_task_def audit_keeps split: if_split_asm)
  next
    case (Inr r)
    obtain tid u where r: "r = (tid, u)" by fastforce
    have "keeps_turns s u" using Inr r submit_turns by simp
    with assms None Inr r show ?thesis by (auto simp: side_task_def intro: then_audit_keeps)
  qed
qed

lemma notify_turns:
  assumes "notify e now q kind body s = Inr t"
  shows "keeps_turns s t"
proof -
  from assms obtain cs where cs: "conv_settings_for e (q_tenant q) (q_agent q) = Inr cs"
    by (auto simp: notify_def res_simps)
  show ?thesis
  proof (cases "cs_notify cs = []")
    case True
    with assms cs show ?thesis by (simp add: notify_def)
  next
    case False
    with assms cs show ?thesis
      by (auto simp: notify_def res_simps dest: side_task_turns)
  qed
qed

text \<open>Records are write-once.\<close>

definition put_kept :: "string \<times> string \<times> string \<Rightarrow> record_row \<Rightarrow> db \<Rightarrow> db" where
  "put_kept k r s = s\<lparr>records := records s @ [r]\<rparr>"

interpretation kept_records: write_once "\<lambda>s k. find_kept s (fst k) (fst (snd k)) (snd (snd k))" put_kept
    "\<lambda>k r. (k_tenant r, k_kind r, k_id r) = k"
  by unfold_locales (auto simp: find_kept_def put_kept_def find_append split: option.splits)

lemma insert_record_once:
  "snd (insert_record now tenant kind rid body s) =
     put_once (\<lambda>s k. find_kept s (fst k) (fst (snd k)) (snd (snd k))) put_kept
       ((tenant, kind, rid), \<lparr>k_tenant = tenant, k_kind = kind, k_id = rid, k_body = body, k_created = now\<rparr>) s"
  by (simp add: insert_record_def put_once_def put_kept_def split: option.splits)

lemma insert_record_turns:
  assumes "insert_record now tenant kind rid body s = (added, t)"
  shows "keeps_turns s t \<and> find_kept t tenant kind rid \<noteq> None"
proof -
  let ?row = "\<lparr>k_tenant = tenant, k_kind = kind, k_id = rid, k_body = body, k_created = now\<rparr>"
  have t: "t = put_once (\<lambda>s k. find_kept s (fst k) (fst (snd k)) (snd (snd k))) put_kept ((tenant, kind, rid), ?row) s"
    using insert_record_once[of now tenant kind rid body s] assms by simp
  have look: "find_kept t a b c = (if (a, b, c) = (tenant, kind, rid) \<and> find_kept s tenant kind rid = None
      then Some ?row else find_kept s a b c)" for a b c
    using kept_records.put_once_look[of ?row "(tenant, kind, rid)" s "(a, b, c)"] by (simp add: t)
  have "conv_turns t = conv_turns s"
    using assms by (auto simp: insert_record_def split: option.splits)
  then show ?thesis by (auto simp: keeps_turns_def look)
qed

lemma handoff_turns:
  assumes "handoff e now q reason s = Inr t"
  shows "keeps_turns s t \<and> find_kept t (q_tenant q) HANDOFF_KIND (q_channel q @ '':'' @ q_key q) \<noteq> None"
proof -
  from assms obtain body where body: "event_text s q = Inr body"
    by (auto simp: handoff_def res_simps)
  obtain added s1 where ins: "insert_record now (q_tenant q) HANDOFF_KIND (q_channel q @ '':'' @ q_key q)
      (handoff_body q reason body) s = (added, s1)" by fastforce
  note k = insert_record_turns[OF ins]
  show ?thesis
  proof (cases added)
    case True
    from assms body ins True have "notify e now q ''handoff'' (handoff_note q reason body)
        (audit now (q_tenant q) (q_task q) ''conversation.handoff'' LOOP_ACTOR
           [(''event_key'', JStr (q_key q)), (''reason'', JStr reason)] s1) = Inr t"
      by (simp add: handoff_def)
    then have "keeps_turns s1 t" using notify_turns audit_keeps keeps_turns_trans by blast
    with k have "keeps_turns s t" using keeps_turns_trans by blast
    moreover obtain r where "find_kept s1 (q_tenant q) HANDOFF_KIND (q_channel q @ '':'' @ q_key q) = Some r"
      using k by blast
    then have "find_kept t (q_tenant q) HANDOFF_KIND (q_channel q @ '':'' @ q_key q) = Some r"
      using \<open>keeps_turns s1 t\<close> by (rule keeps_found[rotated])
    ultimately show ?thesis by simp
  next
    case False
    with assms body ins have "t = s" by (simp add: handoff_def)
    moreover have "s1 = s" using ins False by (auto simp: insert_record_def split: option.splits)
    ultimately show ?thesis using k by simp
  qed
qed

lemmas handoff_keeps = handoff_turns[THEN conjunct1]

text \<open>The task of a captured order, and the notes after it.\<close>

lemma order_task_keeps:
  assumes "side_task e now q channel key agent plan actor a b s = Inr (task, u)"
    and "(case task of None \<Rightarrow> handoff e now q r u
          | Some _ \<Rightarrow> bindr (event_text u q) (\<lambda>body. notify e now q kind (n body) u)) = Inr t"
  shows "keeps_turns s t"
proof -
  have "keeps_turns u t"
    using assms(2) by (cases task) (auto simp: res_simps dest: handoff_keeps notify_turns)
  with side_task_turns[OF assms(1)] show ?thesis by (rule keeps_turns_trans)
qed

lemma capture_order_turns:
  assumes "capture_order e now q s = Inr t"
  shows "keeps_turns s t"
proof -
  from assms obtain cs where cs: "conv_settings_for e (q_tenant q) (q_agent q) = Inr cs"
    by (auto simp: capture_order_def res_simps)
  define draft where "draft = (if q_run q = [] then None else order_draft s (q_tenant q) (q_run q))"
  show ?thesis
  proof (cases draft)
    case None
    then show ?thesis using assms cs unfolding draft_def capture_order_def by simp
  next
    case (Some d)
    note a = assms[unfolded capture_order_def cs bindr_simps draft_def[symmetric] Some option.case]
    show ?thesis
    proof (cases "cs_order_agent cs = []")
      case True
      with a show ?thesis by simp
    next
      case False
      from a False obtain key where key: "derived_key e [q_key q, ''order''] = Inr key"
        by (auto simp: res_simps)
      define pending where "pending = (if find_task s (q_tenant q) (q_channel q) key \<noteq> None then 0
        else pending_orders s q (cs_order_agent cs))"
      note b = a[unfolded key bindr_simps Let_def pending_def[symmetric]]
      show ?thesis
      proof (cases "pending \<ge> MAX_PENDING_ORDERS_PER_SENDER")
        case True
        with b False show ?thesis
          by (auto dest!: handoff_keeps intro: keeps_turns_trans[OF audit_keeps])
      next
        case low: False
        from b False low obtain body where body: "encode (order_body q d) = Inr body"
          by (auto simp: res_simps)
        note c = b[unfolded body bindr_simps if_not_P[OF False] if_not_P[OF low]]
        from c show ?thesis unfolding bindr_Inr by (auto intro: order_task_keeps)
      qed
    qed
  qed
qed

end
