(* ===== verification/Turn_Moves.thy ===== *)
theory Turn_Moves
  imports Turn_Frames
begin

text \<open>
  One tick of the conversation moves at most one turn: the lemmas here find the row each stage
  changes and what it writes there.
\<close>

definition turn_id :: "conv_row \<Rightarrow> string \<times> string \<times> string" where
  "turn_id q = (q_tenant q, q_channel q, q_key q)"

definition turns_unique :: "db \<Rightarrow> bool" where
  "turns_unique s \<longleftrightarrow> distinct (map turn_id (conv_turns s))"

text \<open>The edges of a turn's life; the loop on \<open>CtDelivering\<close> is the submission of its reply.\<close>

inductive next_status :: "conv_status \<Rightarrow> conv_status \<Rightarrow> bool" where
  opened: "next_status CtQueued CtOpen"
| left_alone: "next_status CtQueued CtOperator"
| settled: "next_status CtOpen CtDelivering"
| submitted: "next_status CtDelivering CtDelivering"
| delivered: "next_status CtDelivering CtDelivered"
| failed: "next_status CtDelivering CtFailed"
| uncertain: "next_status CtDelivering CtUncertain"
| suppressed: "next_status CtDelivering CtOperator"

inductive_cases next_statusE: "next_status a b"
inductive_simps next_from_queued: "next_status CtQueued b"
inductive_simps next_to_open: "next_status a CtOpen"

section \<open>The row an update hits\<close>

lemma single_row:
  assumes "distinct (map k xs)" and "q \<in> set xs" and "P q"
    and "\<And>r. P r \<Longrightarrow> k r = k q"
  shows "\<exists>i < length xs. xs ! i = q \<and> upd_where P f xs = xs[i := f q]"
  using assms(1,2)
proof (induction xs)
  case (Cons x xs)
  show ?case
  proof (cases "x = q")
    case True
    have "\<not> P r" if "r \<in> set xs" for r
      using that Cons.prems True assms(4)[of r] by (auto simp: image_iff)
    then have "upd_where P f xs = xs" by (rule upd_where_id)
    with True assms(3) show ?thesis by (intro exI[of _ 0]) simp
  next
    case False
    with Cons.prems have q: "q \<in> set xs" by simp
    then have "k x \<noteq> k q" using Cons.prems by (auto simp: image_iff)
    then have "\<not> P x" using assms(4) by blast
    from Cons q obtain i where "i < length xs" "xs ! i = q" "upd_where P f xs = xs[i := f q]" by auto
    with \<open>\<not> P x\<close> show ?thesis by (intro exI[of _ "Suc i"]) simp
  qed
qed simp

lemma is_turn_id: "is_turn q st r \<Longrightarrow> turn_id r = turn_id q"
  by (simp add: is_turn_def turn_id_def)

lemma is_turn_self: "q_status q = st \<Longrightarrow> is_turn q st q"
  by (simp add: is_turn_def)

text \<open>\<open>sets_turn s q r t\<close>: the row \<open>q\<close> of the table has become \<open>r\<close>, and nothing else of it changed.\<close>

definition sets_turn :: "db \<Rightarrow> conv_row \<Rightarrow> conv_row \<Rightarrow> db \<Rightarrow> bool" where
  "sets_turn s q r t \<longleftrightarrow> (\<exists>i < length (conv_turns s). conv_turns s ! i = q
     \<and> conv_turns t = (conv_turns s)[i := r])"

lemma sets_then_keeps: "sets_turn s q r t \<Longrightarrow> keeps_turns t u \<Longrightarrow> sets_turn s q r u"
  by (simp add: sets_turn_def keeps_turns_def)

lemma keeps_then_sets: "keeps_turns s t \<Longrightarrow> sets_turn t q r u \<Longrightarrow> sets_turn s q r u"
  by (simp add: sets_turn_def keeps_turns_def)

lemma upd_sets_turn:
  assumes "turns_unique s" and "q \<in> set (conv_turns s)" and "P q"
    and "\<And>r. P r \<Longrightarrow> is_turn q st r"
  shows "sets_turn s q (f q) (s\<lparr>conv_turns := upd_where P f (conv_turns s)\<rparr>)"
proof -
  have "turn_id r = turn_id q" if "P r" for r using assms(4)[OF that] by (rule is_turn_id)
  then have "\<exists>i < length (conv_turns s). conv_turns s ! i = q
      \<and> upd_where P f (conv_turns s) = (conv_turns s)[i := f q]"
    using single_row[of turn_id "conv_turns s" q P f] assms(1-3) unfolding turns_unique_def by blast
  then show ?thesis by (simp add: sets_turn_def)
qed

lemma change_turn_sets:
  assumes "change_turn q st f rest s = Inr t" and "turns_unique s" and "q \<in> set (conv_turns s)"
    and "q_status q = st"
  shows "\<exists>u. sets_turn s q (f q) u \<and> records u = records s \<and> rest u = Inr t"
proof -
  have self: "is_turn q st q" using assms(4) by (rule is_turn_self)
  have "sets_turn s q (f q) (s\<lparr>conv_turns := upd_where (is_turn q st) f (conv_turns s)\<rparr>)"
    using assms(2,3) self by (rule upd_sets_turn)
  moreover have "rest (s\<lparr>conv_turns := upd_where (is_turn q st) f (conv_turns s)\<rparr>) = Inr t"
    using assms(1,3) self by (auto simp: change_turn_def split: if_split_asm)
  ultimately show ?thesis by auto
qed

lemma change_unsent_sets:
  assumes "turns_unique s" and "q \<in> set (conv_turns s)" and "q_status q = CtDelivering" and "q_task q = []"
    and "\<And>u. keeps_turns u (rest u)"
  shows "sets_turn s q (f q) (change_unsent q f rest s)"
proof -
  have self: "is_turn q CtDelivering q \<and> q_task q = []" using assms(3,4) is_turn_self by blast
  let ?u = "s\<lparr>conv_turns := upd_where (\<lambda>r. is_turn q CtDelivering r \<and> q_task r = []) f (conv_turns s)\<rparr>"
  have "sets_turn s q (f q) ?u"
    by (rule upd_sets_turn[OF assms(1,2)]) (use self in auto)
  then have "sets_turn s q (f q) (rest ?u)" using assms(5) by (rule sets_then_keeps)
  moreover have "\<exists>r \<in> set (conv_turns s). is_turn q CtDelivering r \<and> q_task r = []"
    using assms(2) self by (rule bexI[rotated])
  ultimately show ?thesis by (simp add: change_unsent_def)
qed

section \<open>What a stage does\<close>

text \<open>The effect of a stage that reported a transition: one turn took one edge, and opened only when
  nothing of its conversation was in hand and the tenant had room.\<close>

definition turn_moves :: "db \<Rightarrow> db \<Rightarrow> bool" where
  "turn_moves s t \<longleftrightarrow> (\<exists>q r. q \<in> set (conv_turns s) \<and> sets_turn s q r t \<and> turn_id r = turn_id q
     \<and> q_conversation r = q_conversation q \<and> next_status (q_status q) (q_status r)
     \<and> (q_status r = CtOpen \<longrightarrow> openable s (q_tenant q) q \<and> in_flight s (q_tenant q) < MAX_OPEN_TURNS))"

definition stage_effect :: "db \<Rightarrow> bool \<Rightarrow> db \<Rightarrow> bool" where
  "stage_effect s moved t \<longleftrightarrow> (if moved then turn_moves s t else keeps_turns s t)"

lemma turn_movesI:
  assumes "q \<in> set (conv_turns s)" and "sets_turn s q r t" and "turn_id r = turn_id q"
    and "q_conversation r = q_conversation q" and "next_status (q_status q) (q_status r)"
    and "q_status r \<noteq> CtOpen"
  shows "turn_moves s t"
  using assms by (auto simp: turn_moves_def)

lemma effect_refl: "stage_effect s False s"
  by (simp add: stage_effect_def)

lemma first_turn_mem:
  assumes "first_turn s P = Some q"
  shows "q \<in> set (conv_turns s) \<and> P q"
proof -
  from assms have "q \<in> set (sort_key q_created (filter P (conv_turns s)))"
    by (cases "sort_key q_created (filter P (conv_turns s))") (auto simp: first_turn_def)
  then show ?thesis by simp
qed

lemma finish_turn_effect:
  assumes "finish_turn e now q st err s = Inr (m, t)" and "turns_unique s" and "q \<in> set (conv_turns s)"
    and "q_status q = CtDelivering" and "next_status CtDelivering st" and "st \<noteq> CtOpen"
  shows "stage_effect s m t"
proof -
  from assms(1) have m: m
    and c: "change_turn q CtDelivering (\<lambda>r. r\<lparr>q_status := st, q_error := err, q_updated := now\<rparr>)
       (\<lambda>t. handoff e now q err
          (audit now (q_tenant q) (q_task q) (''conversation.'' @ conv_status_text st) LOOP_ACTOR
            [(''event_key'', JStr (q_key q)), (''error'', JStr err)] t)) s = Inr t"
    by (auto simp: finish_turn_def res_simps)
  from change_turn_sets[OF c assms(2,3,4)] obtain u where
    u: "sets_turn s q (q\<lparr>q_status := st, q_error := err, q_updated := now\<rparr>) u"
      "handoff e now q err
          (audit now (q_tenant q) (q_task q) (''conversation.'' @ conv_status_text st) LOOP_ACTOR
            [(''event_key'', JStr (q_key q)), (''error'', JStr err)] u) = Inr t" by blast
  from u(2) have "keeps_turns u t" using handoff_keeps audit_keeps keeps_turns_trans by blast
  with u(1) have "sets_turn s q (q\<lparr>q_status := st, q_error := err, q_updated := now\<rparr>) t"
    by (rule sets_then_keeps)
  with assms(3-6) m show ?thesis
    by (auto simp: stage_effect_def turn_id_def intro!: turn_movesI)
qed


subsection \<open>Opening\<close>

lemma keeps_busy: "keeps_turns s t \<Longrightarrow> openable t tenant q = openable s tenant q"
  by (simp add: keeps_turns_def openable_def)

lemma keeps_in_flight: "keeps_turns s t \<Longrightarrow> in_flight t tenant = in_flight s tenant"
  by (simp add: keeps_turns_def in_flight_def)

lemma open_run_keeps:
  assumes "open_run e llm now q s = Inr (v, t)"
  shows "keeps_turns s t"
proof -
  from assms obtain body cs where b: "event_text s q = Inr body"
    and cs: "conv_settings_for e (q_tenant q) (q_agent q) = Inr cs"
    by (auto simp: open_run_def res_simps)
  note a = assms[unfolded open_run_def b cs bindr_simps]
  show ?thesis
  proof (cases "llm (q_tenant q) \<and> cs_enabled cs")
    case False
    with a show ?thesis by (auto split: if_split_asm)
  next
    case True
    with a obtain key where k: "run_key e q = Inr key" by (auto simp: res_simps)
    let ?c = "create_run e now (q_tenant q) key (q_agent q)
       (run_input s (q_tenant q) q body (cs_history_turns cs)) (q_sender q) (cs_max_steps cs)
       (cs_max_seconds cs) (q_channel q) s"
    show ?thesis
    proof (cases "find_run_key s (q_tenant q) key")
      case (Some r)
      with a True k show ?thesis by simp
    next
      case None
      show ?thesis
      proof (cases ?c)
        case (Inl x)
        with a True k None show ?thesis by (auto split: if_split_asm)
      next
        case (Inr c)
        obtain rid u where c: "c = (rid, u)" by fastforce
        with Inr have "keeps_turns s u" using create_run_turns by blast
        with a True k None Inr c show ?thesis by simp
      qed
    qed
  qed
qed

lemma open_turn_effect:
  assumes "open_turn e llm now q s = Inr (m, t)" and "turns_unique s" and "q \<in> set (conv_turns s)"
    and "openable s (q_tenant q) q" and "in_flight s (q_tenant q) < MAX_OPEN_TURNS"
  shows "stage_effect s m t"
proof -
  from assms(1) obtain v s1 where o: "open_run e llm now q s = Inr (v, s1)"
    by (auto simp: open_turn_def res_simps)
  then have k: "keeps_turns s s1" by (rule open_run_keeps)
  note a = assms(1)[unfolded open_turn_def o bindr_simps]
  show ?thesis
  proof (cases "v = None \<or> in_flight s1 (q_tenant q) \<ge> MAX_OPEN_TURNS")
    case True
    with a k show ?thesis by (auto simp: stage_effect_def split: option.splits)
  next
    case False
    then obtain run err where v: "v = Some (run, err)" by auto
    from a False v have m: m
      and c: "change_turn q CtQueued
            (\<lambda>r. r\<lparr>q_status := CtOpen, q_run := run, q_error := err, q_updated := now\<rparr>)
            (\<lambda>t. Inr (audit now (q_tenant q) [] ''conversation.turn_opened'' (q_sender q)
              [(''event_key'', JStr (q_key q)), (''run'', JStr run), (''error'', JStr err)] t)) s1 = Inr t"
      by (auto simp: res_simps split: if_split_asm)
    have q: "q_status q = CtQueued" using assms(4) by (simp add: openable_def)
    have mem: "turns_unique s1" "q \<in> set (conv_turns s1)"
      using k assms(2,3) by (simp_all add: keeps_turns_def turns_unique_def)
    from change_turn_sets[OF c mem q] obtain u where
      u: "sets_turn s1 q (q\<lparr>q_status := CtOpen, q_run := run, q_error := err, q_updated := now\<rparr>) u"
        "t = audit now (q_tenant q) [] ''conversation.turn_opened'' (q_sender q)
              [(''event_key'', JStr (q_key q)), (''run'', JStr run), (''error'', JStr err)] u" by auto
    have "sets_turn s q (q\<lparr>q_status := CtOpen, q_run := run, q_error := err, q_updated := now\<rparr>) t"
      unfolding u(2) by (rule keeps_then_sets[OF k sets_then_keeps[OF u(1) audit_keeps]])
    with assms(3-5) q have "turn_moves s t"
      unfolding turn_moves_def
      by (intro exI[of _ q] exI[of _ "q\<lparr>q_status := CtOpen, q_run := run, q_error := err, q_updated := now\<rparr>"])
        (simp add: turn_id_def opened)
    with m show ?thesis by (simp add: stage_effect_def)
  qed
qed


lemma leave_to_operator_effect:
  assumes "leave_to_operator e now q w s = Inr (m, t)" and "turns_unique s" and "q \<in> set (conv_turns s)"
    and "q_status q = CtQueued"
  shows "stage_effect s m t"
proof -
  from assms(1) have m: m
    and c: "change_turn q CtQueued (\<lambda>r. r\<lparr>q_status := CtOperator, q_updated := now\<rparr>)
       (\<lambda>t. handoff e now q ''operator_takeover''
          (audit now (q_tenant q) [] ''conversation.turn_operator'' LOOP_ACTOR
            [(''event_key'', JStr (q_key q)), (''operator'', JStr (o_actor w)),
             (''until'', JInt (o_until w))] t)) s = Inr t"
    by (auto simp: leave_to_operator_def res_simps)
  from change_turn_sets[OF c assms(2,3,4)] obtain u where
    u: "sets_turn s q (q\<lparr>q_status := CtOperator, q_updated := now\<rparr>) u"
      "handoff e now q ''operator_takeover''
          (audit now (q_tenant q) [] ''conversation.turn_operator'' LOOP_ACTOR
            [(''event_key'', JStr (q_key q)), (''operator'', JStr (o_actor w)),
             (''until'', JInt (o_until w))] u) = Inr t" by blast
  from u(2) have "keeps_turns u t" using handoff_keeps audit_keeps keeps_turns_trans by blast
  with u(1) have "sets_turn s q (q\<lparr>q_status := CtOperator, q_updated := now\<rparr>) t"
    by (rule sets_then_keeps)
  with assms(3,4) m show ?thesis
    by (auto simp: stage_effect_def turn_id_def left_alone intro!: turn_movesI)
qed

lemma stage_open_effect:
  assumes "stage_open e llm now tenant s = Inr (m, t)" and "turns_unique s"
  shows "stage_effect s m t"
proof (cases "frozen s tenant \<or> first_turn s (openable s tenant) = None")
  case True
  with assms(1) show ?thesis by (auto simp: stage_open_def effect_refl split: if_split_asm)
next
  case False
  then obtain q where q: "first_turn s (openable s tenant) = Some q" by blast
  then have mem: "q \<in> set (conv_turns s)" "openable s tenant q" using first_turn_mem by blast+
  then have st: "q_status q = CtQueued" "q_tenant q = tenant" by (simp_all add: openable_def)
  show ?thesis
  proof (cases "takeover_state s tenant (q_channel q) (q_conversation q) now")
    case (Some w)
    with assms(1) False q have "leave_to_operator e now q w s = Inr (m, t)"
      by (simp add: stage_open_def)
    then show ?thesis using assms(2) mem(1) st(1) by (rule leave_to_operator_effect)
  next
    case None
    show ?thesis
    proof (cases "in_flight s tenant \<ge> MAX_OPEN_TURNS")
      case True
      with assms(1) False q None show ?thesis by (simp add: stage_open_def effect_refl)
    next
      case low: False
      with assms(1) False q None have "open_turn e llm now q s = Inr (m, t)" by (simp add: stage_open_def)
      then show ?thesis
        by (rule open_turn_effect) (use assms(2) mem st low in simp_all)
    qed
  qed
qed

subsection \<open>Settling\<close>

text \<open>What a settled turn holds, and the handoff record of one that is not the model's answer.\<close>

definition settles :: "db \<Rightarrow> int \<Rightarrow> conv_row \<Rightarrow> string \<Rightarrow> string \<Rightarrow> db \<Rightarrow> bool" where
  "settles s now q body reason t \<longleftrightarrow>
     sets_turn s q (q\<lparr>q_status := CtDelivering, q_reply := body, q_error := reason, q_updated := now\<rparr>) t
     \<and> (reason \<noteq> [] \<longrightarrow> find_kept t (q_tenant q) HANDOFF_KIND (q_channel q @ '':'' @ q_key q) \<noteq> None)"

lemma settle_write_settles:
  assumes "settle_write e now q body reason bad s = Inr (m, t)" and "turns_unique s"
    and "q \<in> set (conv_turns s)" and "q_status q = CtOpen"
  shows "m \<and> settles s now q body reason t"
proof -
  let ?flag = "\<lambda>t. if bad = [] then t
      else audit now (q_tenant q) [] ''conversation.ungrounded_number'' LOOP_ACTOR
        [(''event_key'', JStr (q_key q)), (''run'', JStr (q_run q)), (''numbers'', jstrs (take 10 bad))] t"
  from assms(1) have m: m
    and c: "change_turn q CtOpen
       (\<lambda>r. r\<lparr>q_status := CtDelivering, q_reply := body, q_error := reason, q_updated := now\<rparr>)
       (\<lambda>t. bindr (if reason = [] then Inr (?flag t) else handoff e now q reason (?flag t))
          (capture_order e now q)) s = Inr t"
    by (auto simp: settle_write_def res_simps Let_def)
  from change_turn_sets[OF c assms(2,3,4)] obtain u where
    u: "sets_turn s q (q\<lparr>q_status := CtDelivering, q_reply := body, q_error := reason, q_updated := now\<rparr>) u"
      "bindr (if reason = [] then Inr (?flag u) else handoff e now q reason (?flag u))
          (capture_order e now q) = Inr t" by blast
  from u(2) obtain v where v: "(if reason = [] then Inr (?flag u) else handoff e now q reason (?flag u)) = Inr v"
      "capture_order e now q v = Inr t"
    unfolding bindr_Inr by blast
  have "keeps_turns u (?flag u)" by (simp add: audit_keeps)
  moreover have "keeps_turns (?flag u) v" and
    rec: "reason \<noteq> [] \<Longrightarrow> find_kept v (q_tenant q) HANDOFF_KIND (q_channel q @ '':'' @ q_key q) \<noteq> None"
    using v(1) handoff_turns[of e now q reason "?flag u" v] by (simp_all split: if_split_asm)
  moreover have vt: "keeps_turns v t" using v(2) by (rule capture_order_turns)
  ultimately have "keeps_turns u t" using keeps_turns_trans by blast
  moreover have "find_kept t (q_tenant q) HANDOFF_KIND (q_channel q @ '':'' @ q_key q) \<noteq> None"
    if "reason \<noteq> []"
    using rec[OF that] keeps_found[OF vt] by fastforce
  ultimately show ?thesis using u(1) m sets_then_keeps unfolding settles_def by blast
qed

lemma settle_turn_settles:
  assumes "settle_turn e now q answer evidence reason s = Inr (m, t)" and "turns_unique s"
    and "q \<in> set (conv_turns s)" and "q_status q = CtOpen"
  shows "m \<and> (\<exists>body why bad. settled_reply e s q answer evidence reason = Inr (body, why, bad)
    \<and> settles s now q body why t)"
proof -
  from assms(1) obtain body why bad where r: "settled_reply e s q answer evidence reason = Inr (body, why, bad)"
      "settle_write e now q body why bad s = Inr (m, t)"
    unfolding settle_turn_def bindr_Inr by auto
  from settle_write_settles[OF r(2) assms(2-4)] r(1) show ?thesis by blast
qed

text \<open>The turn a settling pass settles, with its verdict.\<close>

fun settle_input :: "verdict \<Rightarrow> (string option \<times> string list \<times> string) option" where
  "settle_input Waiting = None"
| "settle_input (Answer a evidence) = Some (Some a, evidence, [])"
| "settle_input (Fallback reason) = Some (None, [], reason)"

definition settled_by :: "env \<Rightarrow> int \<Rightarrow> conv_row \<Rightarrow> db \<Rightarrow> db \<Rightarrow> bool" where
  "settled_by e now q s t \<longleftrightarrow> (\<exists>answer evidence reason body why bad.
     settle_input (run_verdict s q) = Some (answer, evidence, reason)
     \<and> settled_reply e s q answer evidence reason = Inr (body, why, bad) \<and> settles s now q body why t)"

lemma settled_byI:
  assumes "settle_turn e now q answer evidence reason s = Inr (m, t)"
    and "settle_input (run_verdict s q) = Some (answer, evidence, reason)"
    and "turns_unique s" and "q \<in> set (conv_turns s)" and "q_status q = CtOpen"
  shows "m \<and> settled_by e now q s t"
  using settle_turn_settles[OF assms(1,3,4,5)] assms(2) unfolding settled_by_def by blast

lemma settle_first_settles:
  assumes "settle_first e now qs s = Inr (m, t)" and "turns_unique s"
    and "\<And>q. q \<in> set qs \<Longrightarrow> q \<in> set (conv_turns s) \<and> q_status q = CtOpen"
  shows "if m then \<exists>q \<in> set qs. settled_by e now q s t else t = s"
  using assms
proof (induction qs)
  case (Cons q qs)
  have q: "q \<in> set (conv_turns s)" "q_status q = CtOpen" using Cons.prems(3) by simp_all
  show ?case
  proof (cases "run_verdict s q")
    case Waiting
    with Cons.prems(1) have "settle_first e now qs s = Inr (m, t)" by simp
    from Cons.IH[OF this Cons.prems(2)] Cons.prems(3) show ?thesis by (cases m) auto
  next
    case (Answer a evidence)
    with Cons.prems(1) have "settle_turn e now q (Some a) evidence [] s = Inr (m, t)" by simp
    from settled_byI[OF this _ Cons.prems(2) q] Answer show ?thesis by simp
  next
    case (Fallback reason)
    with Cons.prems(1) have "settle_turn e now q None [] reason s = Inr (m, t)" by simp
    from settled_byI[OF this _ Cons.prems(2) q] Fallback show ?thesis by simp
  qed
qed simp

lemma stage_settle_settles:
  assumes "stage_settle e now tenant s = Inr (m, t)" and "turns_unique s"
  shows "if m then \<exists>q \<in> set (conv_turns s). q_tenant q = tenant \<and> q_status q = CtOpen \<and> settled_by e now q s t
     else t = s"
proof (cases "frozen s tenant")
  case True
  with assms(1) show ?thesis by (simp add: stage_settle_def)
next
  case False
  define qs where "qs = take MAX_SETTLE_SCAN (sort_key q_created
        (filter (\<lambda>q. q_tenant q = tenant \<and> q_status q = CtOpen) (conv_turns s)))"
  have mem: "q \<in> set (conv_turns s) \<and> q_tenant q = tenant \<and> q_status q = CtOpen" if "q \<in> set qs" for q
    using in_set_takeD[OF that[unfolded qs_def]] by simp
  from assms(1) False have "settle_first e now qs s = Inr (m, t)" by (simp add: stage_settle_def qs_def)
  then have "if m then \<exists>q \<in> set qs. settled_by e now q s t else t = s"
    by (rule settle_first_settles) (use assms(2) mem in blast)+
  then show ?thesis using mem by (cases m) auto
qed

lemma stage_settle_effect:
  assumes "stage_settle e now tenant s = Inr (m, t)" and "turns_unique s"
  shows "stage_effect s m t"
proof (cases m)
  case True
  with stage_settle_settles[OF assms] obtain q where
    q: "q \<in> set (conv_turns s)" "q_status q = CtOpen" "settled_by e now q s t" by auto
  then obtain body why where "settles s now q body why t" unfolding settled_by_def by blast
  then have "sets_turn s q (q\<lparr>q_status := CtDelivering, q_reply := body, q_error := why, q_updated := now\<rparr>) t"
    by (simp add: settles_def)
  with q(1) have "turn_moves s t"
    by (rule turn_movesI) (simp_all add: turn_id_def q(2) settled)
  with True show ?thesis by (simp add: stage_effect_def)
next
  case False
  with stage_settle_settles[OF assms] show ?thesis by (simp add: effect_refl)
qed


subsection \<open>Delivering and closing\<close>

lemma keeps_unique: "keeps_turns s t \<Longrightarrow> turns_unique s \<Longrightarrow> turns_unique t"
  by (simp add: keeps_turns_def turns_unique_def)

lemma link_reply_effect:
  assumes "keeps_turns s u" and "turns_unique s" and "q \<in> set (conv_turns s)"
    and "q_status q = CtDelivering" and "q_task q = []"
  shows "stage_effect s True (link_reply now q task u)"
proof -
  have u: "turns_unique u" "q \<in> set (conv_turns u)"
    using assms(1-3) by (simp_all add: keeps_turns_def turns_unique_def)
  have "sets_turn u q (q\<lparr>q_task := task, q_updated := now\<rparr>) (link_reply now q task u)"
    unfolding link_reply_def by (rule change_unsent_sets[OF u assms(4,5)]) (rule audit_keeps)
  with assms(1) have "sets_turn s q (q\<lparr>q_task := task, q_updated := now\<rparr>) (link_reply now q task u)"
    by (rule keeps_then_sets)
  with assms(3) have "turn_moves s (link_reply now q task u)"
    by (rule turn_movesI) (simp_all add: turn_id_def assms(4) submitted)
  then show ?thesis by (simp add: stage_effect_def)
qed

lemma deliver_turn_effect:
  assumes "deliver_turn e now q s = Inr (m, t)" and "turns_unique s" and "q \<in> set (conv_turns s)"
    and "q_status q = CtDelivering" and "q_task q = []"
  shows "stage_effect s m t"
proof (cases "destination_field (q_channel q @ ''.send'')")
  case None
  with assms(1) show ?thesis by (simp add: deliver_turn_def)
next
  case (Some fld)
  let ?sub = "submit e now (q_tenant q) (q_channel q) (q_key q) (q_agent q)
      (tool_plan (q_channel q @ ''.send'') (JObj [(fld, JStr (q_conversation q)),
         (''text'', JStr (q_reply q))])) (q_sender q) s"
  have fin: "stage_effect s m t" if "finish_turn e now q CtFailed err s = Inr (m, t)" for err
    using that assms(2-4) by (rule finish_turn_effect) (simp_all add: failed)
  show ?thesis
  proof (cases ?sub)
    case (Inr r)
    obtain task u where r: "r = (task, u)" by fastforce
    with Inr have "keeps_turns s u" using submit_turns by blast
    moreover from assms(1) Some Inr r have "m" "t = link_reply now q task u"
      by (simp_all add: deliver_turn_def)
    ultimately show ?thesis using link_reply_effect assms(2-5) by simp
  next
    case (Inl x)
    note a = assms(1)[unfolded deliver_turn_def Some option.case Inl sum.case]
    show ?thesis
    proof (cases "catches [Conflict] x")
      case True
      show ?thesis
      proof (cases "find_task s (q_tenant q) (q_channel q) (q_key q)")
        case None
        with a True have "finish_turn e now q CtFailed ''delivery_conflict'' s = Inr (m, t)" by simp
        then show ?thesis by (rule fin)
      next
        case (Some w)
        with a True have "m" "t = link_reply now q (t_id w) s" by simp_all
        then show ?thesis using link_reply_effect[OF keeps_turns_refl assms(2-5)] by simp
      qed
    next
      case False
      show ?thesis
      proof (cases "catches [RateLimited] x")
        case True
        with a False show ?thesis by (simp add: effect_refl)
      next
        case no: False
        show ?thesis
        proof (cases "catches [PermissionError, ValueError, LookupError] x")
          case True
          with a False no have "finish_turn e now q CtFailed ''delivery_rejected'' s = Inr (m, t)" by simp
          then show ?thesis by (rule fin)
        next
          case other: False
          with a False no show ?thesis by simp
        qed
      qed
    qed
  qed
qed

lemma stage_deliver_effect:
  assumes "stage_deliver e now tenant s = Inr (m, t)" and "turns_unique s"
  shows "stage_effect s m t"
proof (cases "frozen s tenant \<or> first_turn s (undelivered tenant) = None")
  case True
  with assms(1) show ?thesis by (auto simp: stage_deliver_def effect_refl split: if_split_asm)
next
  case False
  then obtain q where q: "first_turn s (undelivered tenant) = Some q" by blast
  then have mem: "q \<in> set (conv_turns s)" and "undelivered tenant q" using first_turn_mem by blast+
  then have st: "q_status q = CtDelivering" "q_task q = []" by (simp_all add: undelivered_def)
  show ?thesis
  proof (cases "takeover_state s tenant (q_channel q) (q_conversation q) now")
    case (Some w)
    let ?t = "change_unsent q
              (\<lambda>r. r\<lparr>q_status := CtOperator, q_error := ''operator_took_over'', q_updated := now\<rparr>)
              (audit now tenant [] ''conversation.reply_suppressed'' LOOP_ACTOR
                [(''event_key'', JStr (q_key q)), (''channel'', JStr (q_channel q))]) s"
    have "sets_turn s q (q\<lparr>q_status := CtOperator, q_error := ''operator_took_over'', q_updated := now\<rparr>) ?t"
      by (rule change_unsent_sets[OF assms(2) mem st]) (rule audit_keeps)
    with mem have "turn_moves s ?t"
      by (rule turn_movesI) (simp_all add: turn_id_def st suppressed)
    with assms(1) False q Some show ?thesis by (simp add: stage_deliver_def stage_effect_def)
  next
    case None
    with assms(1) False q have "deliver_turn e now q s = Inr (m, t)" by (simp add: stage_deliver_def)
    then show ?thesis using assms(2) mem st by (rule deliver_turn_effect)
  qed
qed

lemma close_delivered_effect:
  assumes "close_delivered now q s = Inr t" and "turns_unique s" and "q \<in> set (conv_turns s)"
    and "q_status q = CtDelivering"
  shows "turn_moves s t"
proof -
  let ?rest = "\<lambda>t. audit now (q_tenant q) (q_task q) ''conversation.delivered'' LOOP_ACTOR
      [(''event_key'', JStr (q_key q))]
      (append_line (q_tenant q) (q_channel q) (q_conversation q)
        (next_seq t (q_tenant q) (q_channel q) (q_conversation q)) ''agent'' (q_reply q) now t)"
  from change_turn_sets[OF assms(1)[unfolded close_delivered_def] assms(2-4)] obtain u where
    u: "sets_turn s q (q\<lparr>q_status := CtDelivered, q_updated := now\<rparr>) u" "t = ?rest u" by blast
  have "keeps_turns u (?rest u)" by (rule keeps_turnsI) (simp_all add: append_line_def)
  with u have "sets_turn s q (q\<lparr>q_status := CtDelivered, q_updated := now\<rparr>) t"
    by (metis sets_then_keeps)
  with assms(3) show ?thesis by (rule turn_movesI) (simp_all add: turn_id_def assms(4) delivered)
qed

lemma stage_close_effect:
  assumes "stage_close e now tenant s = Inr (m, t)" and "turns_unique s"
  shows "stage_effect s m t"
proof (cases "first_turn s (closing s tenant)")
  case None
  with assms(1) show ?thesis by (simp add: stage_close_def effect_refl)
next
  case (Some q)
  then have mem: "q \<in> set (conv_turns s)" and "closing s tenant q" using first_turn_mem by blast+
  then have st: "q_status q = CtDelivering" by (simp add: closing_def)
  show ?thesis
  proof (cases "get_task s tenant (q_task q)")
    case None
    with assms(1) Some show ?thesis by (simp add: stage_close_def effect_refl)
  next
    case (Some w)
    note a = assms(1)[unfolded stage_close_def \<open>first_turn s (closing s tenant) = Some q\<close> option.case Some]
    show ?thesis
    proof (cases "t_status w = Uncertain")
      case True
      with a have "finish_turn e now q CtUncertain ''send_uncertain'' s = Inr (m, t)" by simp
      then show ?thesis using assms(2) mem st by (rule finish_turn_effect) (simp_all add: next_status.uncertain)
    next
      case no: False
      show ?thesis
      proof (cases "t_status w = Succeeded")
        case True
        with a have "m" "close_delivered now q s = Inr t" by (auto simp: res_simps)
        with close_delivered_effect assms(2) mem st show ?thesis by (simp add: stage_effect_def)
      next
        case False
        with a no have "finish_turn e now q CtFailed (''send_'' @ status_text (t_status w)) s = Inr (m, t)"
          by simp
        then show ?thesis using assms(2) mem st by (rule finish_turn_effect) (simp_all add: failed)
      qed
    qed
  qed
qed

subsection \<open>A tick\<close>

lemma keeps_then_moves:
  assumes "keeps_turns s t" and "turn_moves t u"
  shows "turn_moves s u"
proof -
  have "openable t tenant q = openable s tenant q" "in_flight t tenant = in_flight s tenant"
    "conv_turns t = conv_turns s" for tenant q
    using assms(1) by (simp_all add: keeps_busy keeps_in_flight keeps_conv)
  with assms(2) show ?thesis unfolding turn_moves_def sets_turn_def by simp
qed

lemma effect_trans:
  assumes "stage_effect s False t" and "stage_effect t m u"
  shows "stage_effect s m u"
  using assms keeps_turns_trans keeps_then_moves by (cases m) (auto simp: stage_effect_def)

lemma stages_effect:
  assumes "stages fs s = Inr (m, t)" and "turns_unique s"
    and "\<And>f u m t. f \<in> set fs \<Longrightarrow> f u = Inr (m, t) \<Longrightarrow> turns_unique u \<Longrightarrow> stage_effect u m t"
  shows "stage_effect s m t"
  using assms
proof (induction fs arbitrary: s)
  case (Cons f fs)
  from Cons.prems(1) obtain moved u where f: "f s = Inr (moved, u)"
      "(if moved then Inr (True, u) else stages fs u) = Inr (m, t)"
    by (auto simp: res_simps)
  have e: "stage_effect s moved u"
    by (rule Cons.prems(3)[of f]) (simp_all add: f(1) Cons.prems(2))
  show ?case
  proof (cases moved)
    case True
    with e f(2) show ?thesis by simp
  next
    case False
    with e have "keeps_turns s u" by (simp add: stage_effect_def)
    then have un: "turns_unique u" using Cons.prems(2) by (rule keeps_unique)
    have "stages fs u = Inr (m, t)" using f(2) False by simp
    then have "stage_effect u m t" using un
      by (rule Cons.IH) (erule Cons.prems(3)[OF list.set_intros(2)], assumption+)
    with e False show ?thesis using effect_trans by simp
  qed
qed (simp add: effect_refl)

lemma turns_tick_effect:
  assumes "turns_tick e llm now tenant s = Inr (m, t)" and "turns_unique s"
  shows "stage_effect s m t"
  using assms(1)[unfolded turns_tick_def] assms(2)
  by (rule stages_effect)
    (auto dest: stage_close_effect stage_deliver_effect stage_settle_effect stage_open_effect)

end
