(* ===== verification/Conversation_Props.thy ===== *)
theory Conversation_Props
  imports Turn_Moves Demo_Env
begin

text \<open>
  What the conversation loop guarantees: only grounded answers are sent as the model's, turns are
  served one at a time, and the table of turns refines a machine of eight states.
\<close>

section \<open>Grounded answers\<close>







text \<open>A turn whose run has ended with one price, which an earlier line of the agent stated.\<close>

definition talk_turn :: conv_row where
  "talk_turn = \<lparr>q_tenant = ''t'', q_channel = ''telegram'', q_key = ''e1'', q_conversation = ''chat-1'',
     q_sender = ''u'', q_agent = ''a'', q_seq = 1, q_run = ''r'', q_status = CtOpen, q_reply = [], q_task = [],
     q_error = [], q_created = 1, q_updated = 1\<rparr>"

definition talk_run :: run_row where
  "talk_run = \<lparr>r_id = ''r'', r_tenant = ''t'', r_key = ''conv:telegram:e1'', r_fingerprint = ''h'',
     r_agent = ''a'', r_actor = ''u'', r_input = ''x'', r_status = RSucceeded, r_created = 1, r_updated = 1,
     r_deadline = 100, r_max_steps = 3, r_max_calls = 4, r_calls = 1, r_steps = 0, r_task = [], r_claim = [],
     r_lease = 0, r_answer = ''Price 5000 UZS'', r_evidence = [], r_error = [], r_channel = ''telegram''\<rparr>"

definition talk :: "string \<Rightarrow> db" where
  "talk line = empty_db\<lparr>conv_turns := [talk_turn], runs := [talk_run],
     histories := [\<lparr>y_tenant = ''t'', y_channel = ''telegram'', y_conversation = ''chat-1'', y_seq = 1,
       y_role = ''agent'', y_text = line, y_created = 1\<rparr>]\<rparr>"






section \<open>The system around the turns\<close>

text \<open>
  Every operation of the conversation component, in any order, with any collaborators at each step;
  \<open>elsewhere\<close> is any transaction of another component, which may change every other table.
\<close>

inductive conv_step :: "db \<Rightarrow> db \<Rightarrow> bool" where
  recorded: "record_turn e now tenant channel key agent payload s = Inr (k, t) \<Longrightarrow> conv_step s t"
| ticked: "turns_tick e llm now tenant s = Inr (m, t) \<Longrightarrow> conv_step s t"
| replied: "settle_operator_replies e now tenant s = Inr (m, t) \<Longrightarrow> conv_step s t"
| taken_over: "start_takeover e now tenant channel conv actor agent s = Inr (until, t) \<Longrightarrow> conv_step s t"
| released: "release_takeover e now tenant channel conv actor s = Inr (m, t) \<Longrightarrow> conv_step s t"
| resolved: "resolve_handoff e now tenant hid actor remark s = Inr (r, t) \<Longrightarrow> conv_step s t"
| elsewhere: "conv_turns t = conv_turns s \<Longrightarrow> conv_step s t"

inductive conv_reach :: "db \<Rightarrow> bool" where
  start: "conv_turns s = [] \<Longrightarrow> conv_reach s"
| step: "conv_reach s \<Longrightarrow> conv_step s t \<Longrightarrow> conv_reach t"

lemma takeover_in_turns: "takeover_in now tenant channel conv actor m s = Inr (u, t) \<Longrightarrow> conv_turns t = conv_turns s"
  by (auto simp: takeover_in_def Let_def split: if_split_asm)

lemma insert_record_conv: "insert_record now tenant kind rid body s = (a, t) \<Longrightarrow> conv_turns t = conv_turns s"
  using insert_record_turns keeps_conv by blast

text \<open>The second half of a settled reply, once its record has been added.\<close>

lemma reply_line_turns:
  assumes "bindr (takeover_minutes e tenant agent) (\<lambda>m.
      bindr (takeover_in now tenant channel conv actor m (audit now tenant task action actor fs
        (append_line tenant channel conv seq role body now s))) (\<lambda>(_, u). Inr (True, u))) = Inr (m, t)"
  shows "conv_turns t = conv_turns s"
  using assms by (auto simp: res_simps dest!: takeover_in_turns)

lemma settle_reply_turns:
  assumes "settle_reply e now tenant (w, x) s = Inr (m, t)"
  shows "conv_turns t = conv_turns s"
proof -
  note a = assms[unfolded settle_reply_def Let_def prod.case]
  from a obtain fld where f: "destination_field (s_tool x) = Some fld"
    by (cases "destination_field (s_tool x)") simp_all
  note b = a[unfolded f option.case]
  from b obtain conv body where c: "obj_get (s_args x) fld = Some (JStr conv)"
      "obj_get (s_args x) ''text'' = Some (JStr body)"
    by (simp split: option.splits json.splits)
  note d = b[unfolded c prod.case option.case json.case]
  obtain ok s1 where r: "insert_record now tenant OPERATOR_LINE_KIND (t_id w)
      (JObj [(''actor'', JStr (t_actor w)), (''channel'', JStr (take (length (s_tool x) - length ''.send'') (s_tool x))),
        (''conversation_id'', JStr conv)]) s = (ok, s1)" by (rule prod.exhaust)
  from insert_record_conv[OF r] have s1: "conv_turns s1 = conv_turns s" .
  show ?thesis
  proof (cases ok)
    case True
    from d[unfolded r True[THEN eqTrueI] prod.case bool.case] have "conv_turns t = conv_turns s1"
      by (rule reply_line_turns)
    with s1 show ?thesis by simp
  next
    case False
    from d[unfolded r iffD2[OF eq_False False] prod.case bool.case] show ?thesis by simp
  qed
qed

lemma settle_replies_turns:
  "settle_replies e now tenant rows s = Inr (m, t) \<Longrightarrow> conv_turns t = conv_turns s"
proof (induction rows arbitrary: s m t)
  case (Cons row rows)
  obtain w x where row: "row = (w, x)" by (rule prod.exhaust)
  from Cons.prems obtain a u b where "settle_reply e now tenant row s = Inr (a, u)"
      "settle_replies e now tenant rows u = Inr (b, t)"
    by (auto simp: res_simps)
  with Cons.IH settle_reply_turns row show ?case by metis
qed simp


lemma conv_step_turns:
  assumes "conv_step s t" and "turns_unique s"
  shows "conv_turns t = conv_turns s \<or> turn_moves s t
    \<or> (\<exists>r. conv_turns t = conv_turns s @ [r] \<and> turn_id r \<notin> turn_id ` set (conv_turns s)
         \<and> (q_status r = CtQueued \<or> q_status r = CtThrottled))"
  using assms(1)
proof cases
  case (recorded e now tenant channel key agent payload k)
  then obtain conv sender body where "t = insert_turn now tenant channel key agent conv sender body s"
    by (auto simp: record_turn_def res_simps Let_def)
  then show ?thesis
    by (auto simp: insert_turn_def Let_def turn_recorded_def turn_id_def)
next
  case (ticked e llm now tenant m)
  from turns_tick_effect[OF this assms(2)] show ?thesis
    by (cases m) (auto simp: stage_effect_def keeps_conv)
next
  case (replied e now tenant m)
  then show ?thesis using settle_replies_turns unfolding settle_operator_replies_def by blast
next
  case (taken_over e now tenant channel conv actor agent until)
  then show ?thesis by (auto simp: start_takeover_def res_simps dest!: takeover_in_turns)
next
  case (released e now tenant channel conv actor m)
  then show ?thesis by (auto simp: release_takeover_def res_simps split: option.splits)
next
  case (resolved e now tenant hid actor remark r)
  then show ?thesis
    by (auto simp: resolve_handoff_def res_simps Let_def split: if_split_asm option.splits)
qed simp

section \<open>One turn at a time\<close>

definition one_busy :: "conv_row list \<Rightarrow> bool" where
  "one_busy qs \<longleftrightarrow> (\<forall>i < length qs. \<forall>j < length qs.
     busy (qs ! i) \<and> busy (qs ! j) \<and> same_conversation (qs ! i) (qs ! j) \<longrightarrow> i = j)"

definition turns_ok :: "db \<Rightarrow> bool" where
  "turns_ok s \<longleftrightarrow> turns_unique s \<and> one_busy (conv_turns s)
     \<and> (\<forall>tenant. in_flight s tenant \<le> MAX_OPEN_TURNS)"

lemma length_filter_update:
  "i < length xs \<Longrightarrow> length (filter P (xs[i := r])) \<le>
     length (filter P xs) + (if P r \<and> \<not> P (xs ! i) then 1 else 0)"
proof (induction xs arbitrary: i)
  case (Cons x xs)
  show ?case
  proof (cases i)
    case (Suc n)
    with Cons.IH[of n] Cons.prems show ?thesis by (auto split: if_split_asm)
  qed simp
qed simp

lemma busy_edge: "next_status a b \<Longrightarrow> b = CtOpen \<or> b = CtDelivering \<Longrightarrow> b \<noteq> CtOpen \<Longrightarrow> a = CtOpen \<or> a = CtDelivering"
  by (erule next_status.cases) auto

lemma open_edge: "next_status a CtOpen \<Longrightarrow> a = CtQueued"
  by (simp add: next_to_open)

lemma one_busy_update:
  assumes ob: "one_busy qs" and i: "i < length qs"
    and same: "turn_id r = turn_id (qs ! i)" "q_conversation r = q_conversation (qs ! i)"
    and free: "busy r \<Longrightarrow> busy (qs ! i) \<or> (\<forall>b \<in> set qs. same_conversation (qs ! i) b \<longrightarrow> \<not> busy b)"
  shows "one_busy (qs[i := r])"
proof -
  have sc: "same_conversation r q = same_conversation (qs ! i) q"
    "same_conversation q r = same_conversation q (qs ! i)" for q
    using same by (simp_all add: same_conversation_def turn_id_def)
  have sym: "same_conversation a b = same_conversation b a" for a b
    by (auto simp: same_conversation_def)
  have clash: False if "busy r" "j < length qs" "j \<noteq> i" "busy (qs ! j)" "same_conversation (qs ! i) (qs ! j)" for j
    using free[OF that(1)] ob i that nth_mem unfolding one_busy_def by blast
  show ?thesis
    unfolding one_busy_def
  proof (intro allI impI)
    fix a b
    assume ab: "a < length (qs[i := r])" "b < length (qs[i := r])"
      "busy (qs[i := r] ! a) \<and> busy (qs[i := r] ! b) \<and> same_conversation (qs[i := r] ! a) (qs[i := r] ! b)"
    show "a = b"
    proof (rule ccontr)
      assume ne: "a \<noteq> b"
      consider "a = i" | "b = i" | "a \<noteq> i" "b \<noteq> i" by blast
      then show False
      proof cases
        case 1
        with ab ne show False using clash[of b] i by (simp add: sc)
      next
        case 2
        with ab ne show False using clash[of a] i sym[of "qs ! a"] by (simp add: sc)
      next
        case 3
        with ab ne ob show False unfolding one_busy_def by simp
      qed
    qed
  qed
qed

lemma turn_moves_ok:
  assumes "turn_moves s t" and "turns_ok s"
  shows "turns_ok t"
proof -
  from assms(1) obtain i r where i: "i < length (conv_turns s)" and t: "conv_turns t = (conv_turns s)[i := r]"
    and same: "turn_id r = turn_id (conv_turns s ! i)" "q_conversation r = q_conversation (conv_turns s ! i)"
    and edge: "next_status (q_status (conv_turns s ! i)) (q_status r)"
    and room: "q_status r = CtOpen \<longrightarrow> openable s (q_tenant (conv_turns s ! i)) (conv_turns s ! i)
       \<and> in_flight s (q_tenant (conv_turns s ! i)) < MAX_OPEN_TURNS"
    unfolding turn_moves_def sets_turn_def by blast
  let ?q = "conv_turns s ! i"
  have "map turn_id (conv_turns t) = map turn_id (conv_turns s)"
    using same(1) i by (simp add: t map_update list_update_same_conv)
  then have u: "turns_unique t" using assms(2) by (simp add: turns_ok_def turns_unique_def)
  have "busy ?q \<or> (\<forall>b \<in> set (conv_turns s). same_conversation ?q b \<longrightarrow> \<not> busy b)" if "busy r"
  proof (cases "q_status r = CtOpen")
    case True
    with room show ?thesis unfolding openable_def by blast
  next
    case False
    with that edge busy_edge show ?thesis unfolding busy_def by blast
  qed
  with assms(2) i same have o: "one_busy (conv_turns t)"
    unfolding t turns_ok_def by (intro one_busy_update) blast+
  have "in_flight t tenant \<le> MAX_OPEN_TURNS" for tenant
  proof -
    have le: "in_flight s tenant \<le> MAX_OPEN_TURNS" using assms(2) by (simp add: turns_ok_def)
    have "in_flight t tenant \<le> in_flight s tenant
        + (if (q_tenant r = tenant \<and> q_status r = CtOpen) \<and> \<not> (q_tenant ?q = tenant \<and> q_status ?q = CtOpen) then 1 else 0)"
      unfolding in_flight_def t using i by (rule length_filter_update)
    moreover have "q_tenant r = q_tenant ?q" using same(1) by (simp add: turn_id_def)
    ultimately show ?thesis using room le by (auto split: if_split_asm)
  qed
  with u o show ?thesis by (simp add: turns_ok_def)
qed

lemma new_turn_ok:
  assumes "turns_ok s" and "conv_turns t = conv_turns s @ [r]" and "turn_id r \<notin> turn_id ` set (conv_turns s)"
    and "q_status r = CtQueued \<or> q_status r = CtThrottled"
  shows "turns_ok t"
proof -
  have nb: "\<not> busy r" using assms(4) by (auto simp: busy_def)
  have "one_busy (conv_turns t)"
    using assms(1,2) nb by (auto simp: turns_ok_def one_busy_def nth_append less_Suc_eq)
  moreover have "in_flight t tenant = in_flight s tenant" for tenant
    using assms(2,4) by (auto simp: in_flight_def)
  ultimately show ?thesis using assms(1-3) by (simp add: turns_ok_def turns_unique_def)
qed

lemma conv_step_ok: "conv_step s t \<Longrightarrow> turns_ok s \<Longrightarrow> turns_ok t"
proof -
  assume "conv_step s t" "turns_ok s"
  then have "conv_turns t = conv_turns s \<or> turn_moves s t
    \<or> (\<exists>r. conv_turns t = conv_turns s @ [r] \<and> turn_id r \<notin> turn_id ` set (conv_turns s)
         \<and> (q_status r = CtQueued \<or> q_status r = CtThrottled))"
    by (intro conv_step_turns) (simp_all add: turns_ok_def)
  then show "turns_ok t"
    using \<open>turns_ok s\<close> turn_moves_ok new_turn_ok
    by (metis in_flight_def turns_ok_def turns_unique_def)
qed

lemma conv_reach_ok: "conv_reach s \<Longrightarrow> turns_ok s"
proof (induction rule: conv_reach.induct)
  case (start s)
  then show ?case by (simp add: turns_ok_def turns_unique_def one_busy_def in_flight_def)
next
  case (step s t)
  then show ?case using conv_step_ok by blast
qed


lemma one_busy_filter:
  assumes "one_busy qs"
  shows "length (filter (\<lambda>q. busy q \<and> same_conversation c q) qs) \<le> 1"
proof -
  have eq: "i = j" if "i < length qs" "j < length qs" "busy (qs ! i)" "busy (qs ! j)"
      "same_conversation c (qs ! i)" "same_conversation c (qs ! j)" for i j
  proof -
    have "same_conversation (qs ! i) (qs ! j)" using that(5,6) by (simp add: same_conversation_def)
    with assms that show ?thesis unfolding one_busy_def by blast
  qed
  have "card {i. i < length qs \<and> busy (qs ! i) \<and> same_conversation c (qs ! i)} \<le> Suc 0"
    using eq by (subst card_le_Suc0_iff_eq) auto
  then show ?thesis by (simp add: length_filter_conv_card)
qed

text \<open>
  C25: One turn at a time. In every state the conversation operations reach, whatever the rest of the
  runtime does in between, an event has at most one turn, a conversation has at most one turn that is
  open or being delivered, and a tenant has at most twenty open turns.
\<close>

theorem turns_served_one_at_a_time:
  assumes "conv_reach s"
  shows "distinct (map (\<lambda>q. (q_tenant q, q_channel q, q_key q)) (conv_turns s))
    \<and> length (filter (\<lambda>q. busy q \<and> same_conversation c q) (conv_turns s)) \<le> 1
    \<and> in_flight s tenant \<le> 20"
  using conv_reach_ok[OF assms] one_busy_filter
  by (simp add: turns_ok_def turns_unique_def turn_id_def[abs_def] MAX_OPEN_TURNS_def)

text \<open>An event recorded, opened and settled in the collaborators of \<^verbatim>\<open>Demo_Env\<close>.\<close>

definition chat_payload :: json where
  "chat_payload = JObj [(''conversation_id'', JStr ''chat-1''), (''sender'', JStr ''u''), (''text'', JStr ''hi'')]"

definition chat_1 :: db where
  "chat_1 = ok_state (record_turn demo_env 10 ''t'' ''telegram'' ''e1'' ''a'' chat_payload empty_db)"

definition chat_2 :: db where
  "chat_2 = ok_state (turns_tick demo_env (\<lambda>t. True) 11 ''t'' chat_1)"

definition chat_3 :: db where
  "chat_3 = ok_state (turns_tick demo_env (\<lambda>t. True) 12 ''t'' chat_2)"

lemma chat_runs:
  "is_ok (record_turn demo_env 10 ''t'' ''telegram'' ''e1'' ''a'' chat_payload empty_db)"
  "is_ok (turns_tick demo_env (\<lambda>t. True) 11 ''t'' chat_1)"
  "is_ok (turns_tick demo_env (\<lambda>t. True) 12 ''t'' chat_2)"
  "map q_status (conv_turns chat_2) = [CtOpen]"
  "map q_status (conv_turns chat_3) = [CtDelivering]"
  by code_simp+

lemma chat_reach: "conv_reach chat_1" "conv_reach chat_2"
proof -
  have 0: "conv_reach empty_db" by (rule conv_reach.start) (simp add: empty_db_def)
  show 1: "conv_reach chat_1"
    using ok_stateI[OF chat_runs(1)] unfolding chat_1_def[symmetric]
    by (elim exE) (rule conv_reach.step[OF 0 conv_step.recorded])
  show "conv_reach chat_2"
    using ok_stateI[OF chat_runs(2)] unfolding chat_2_def[symmetric]
    by (elim exE) (rule conv_reach.step[OF 1 conv_step.ticked])
qed

lemma turns_served_one_at_a_time_witness:
  "\<exists>s. conv_reach s \<and> map q_status (conv_turns s) = [CtOpen]
     \<and> length (filter (\<lambda>q. busy q \<and> same_conversation talk_turn q) (conv_turns s)) \<le> 1
     \<and> in_flight s ''t'' \<le> 20"
  using turns_served_one_at_a_time[OF chat_reach(2), of talk_turn "''t''"] chat_reach(2) chat_runs(4)
  by (intro exI[of _ chat_2]) simp

section \<open>The machine of a turn\<close>

text \<open>
  The abstract specification: a list of turn identifiers with their status. A new turn waits or is
  throttled; every other step takes one turn along one edge of \<^const>\<open>next_status\<close>.
\<close>

type_synonym turn_states = "((string \<times> string \<times> string) \<times> conv_status) list"

inductive machine_step :: "turn_states \<Rightarrow> turn_states \<Rightarrow> bool" where
  arrives: "k \<notin> fst ` set a \<Longrightarrow> st = CtQueued \<or> st = CtThrottled \<Longrightarrow> machine_step a (a @ [(k, st)])"
| advances: "i < length a \<Longrightarrow> a ! i = (k, st) \<Longrightarrow> next_status st st' \<Longrightarrow> machine_step a (a[i := (k, st')])"

definition turn_view :: "db \<Rightarrow> turn_states" where
  "turn_view s = map (\<lambda>q. (turn_id q, q_status q)) (conv_turns s)"

lemma turn_moves_advance:
  assumes "turn_moves s t"
  shows "machine_step (turn_view s) (turn_view t)"
proof -
  from assms obtain i r where i: "i < length (conv_turns s)" and t: "conv_turns t = (conv_turns s)[i := r]"
    and same: "turn_id r = turn_id (conv_turns s ! i)"
    and edge: "next_status (q_status (conv_turns s ! i)) (q_status r)"
    unfolding turn_moves_def sets_turn_def by blast
  have "turn_view t = (turn_view s)[i := (turn_id (conv_turns s ! i), q_status r)]"
    using same by (simp add: turn_view_def t map_update)
  moreover have "machine_step (turn_view s) ((turn_view s)[i := (turn_id (conv_turns s ! i), q_status r)])"
    using i edge by (intro machine_step.advances) (simp_all add: turn_view_def)
  ultimately show ?thesis by simp
qed

lemma conv_step_simulated:
  assumes "conv_step s t" and "turns_unique s"
  shows "machine_step\<^sup>=\<^sup>= (turn_view s) (turn_view t)"
proof -
  have "machine_step (turn_view s) (turn_view t)"
    if "conv_turns t = conv_turns s @ [r]" "turn_id r \<notin> turn_id ` set (conv_turns s)"
      "q_status r = CtQueued \<or> q_status r = CtThrottled" for r
    using that machine_step.arrives[of "turn_id r" "turn_view s" "q_status r"]
    by (simp add: turn_view_def image_image)
  then show ?thesis
    using conv_step_turns[OF assms] turn_moves_advance by (auto simp: turn_view_def)
qed

lemma conv_reach_simulated: "conv_reach s \<Longrightarrow> machine_step\<^sup>*\<^sup>* [] (turn_view s)"
proof (induction rule: conv_reach.induct)
  case (start s)
  then show ?case by (simp add: turn_view_def)
next
  case (step s t)
  then have "machine_step\<^sup>=\<^sup>= (turn_view s) (turn_view t)"
    using conv_step_simulated conv_reach_ok turns_ok_def by blast
  with step.IH show ?case by auto
qed

text \<open>
  C26: The turns refine their machine. Whatever operations led to a state, its turns are a state of
  the abstract machine, which never leaves a final status and never delivers what was not settled;
  and from there a tick that reports a transition takes exactly one turn along exactly one edge,
  while a tick that reports none changes no turn.
\<close>

theorem turns_refine_their_machine:
  assumes "conv_reach s" and "turns_tick e llm now tenant s = Inr (m, t)"
  shows "machine_step\<^sup>*\<^sup>* [] (turn_view s)
    \<and> (if m then machine_step (turn_view s) (turn_view t) else conv_turns t = conv_turns s)"
proof -
  have "stage_effect s m t"
    using assms(2) conv_reach_ok[OF assms(1)] unfolding turns_ok_def
    by (intro turns_tick_effect) blast+
  then show ?thesis
    using conv_reach_simulated[OF assms(1)] turn_moves_advance
    by (auto simp: stage_effect_def keeps_conv)
qed

lemma turns_refine_their_machine_witness:
  "\<exists>m. turns_tick demo_env (\<lambda>t. True) 12 ''t'' chat_2 = Inr (m, chat_3)
     \<and> map q_status (conv_turns chat_2) = [CtOpen] \<and> map q_status (conv_turns chat_3) = [CtDelivering]
     \<and> machine_step (turn_view chat_2) (turn_view chat_3)"
proof -
  obtain m where m: "turns_tick demo_env (\<lambda>t. True) 12 ''t'' chat_2 = Inr (m, chat_3)"
    using ok_stateI[OF chat_runs(3)] unfolding chat_3_def by (rule exE)
  have "conv_turns chat_3 \<noteq> conv_turns chat_2"
    using chat_runs(4,5) by auto
  with turns_refine_their_machine[OF chat_reach(2) m] have "machine_step (turn_view chat_2) (turn_view chat_3)"
    by (cases m) simp_all
  with m chat_runs(4,5) show ?thesis by (intro exI[of _ m]) simp
qed


section \<open>Two consequences of the order of writes\<close>

text \<open>
  The gate reads the whole answer and the reply is cut to the channel's length afterwards. On a
  channel of ten characters, a grounded price of 50000 is sent as 5000, a number that the gate itself
  would refuse.
\<close>

definition narrow_env :: env where
  "narrow_env = demo_env\<lparr>reg := [demo_tool ''telegram.send'' ''write''
     (obj_schema [(''conversation_id'', string_schema 100), (''text'', string_schema 10)]
        (Some [''conversation_id'', ''text''])) True]\<rparr>"

definition dear_talk :: db where
  "dear_talk = (talk ''It costs 50 000 UZS'')\<lparr>runs := [talk_run\<lparr>r_answer := ''Price 50000 UZS''\<rparr>]\<rparr>"

definition settled_texts :: "(bool \<times> db) res \<Rightarrow> (string \<times> string) list" where
  "settled_texts r = (case r of Inl x \<Rightarrow> [] | Inr (m, t) \<Rightarrow> map (\<lambda>q. (q_reply q, q_error q)) (conv_turns t))"

lemma cut_reply_states_another_number:
  "settled_texts (stage_settle narrow_env 5 ''t'' dear_talk) = [(''Price 5000'', [])]"
  "ungrounded_numbers ''Price 50000 UZS'' ''It costs 50 000 UZS'' [] = []"
  "ungrounded_numbers ''Price 5000'' ''It costs 50 000 UZS'' [] = [''5000'']"
  by code_simp+

text \<open>
  A turn has one handoff record. A second handoff of the same turn, as when the fallback reply of a
  turn that was handed off already is not delivered, writes nothing and notifies nobody.
\<close>

lemma second_handoff_is_silent:
  assumes "find_kept s (q_tenant q) HANDOFF_KIND (q_channel q @ '':'' @ q_key q) = Some k"
    and "event_text s q = Inr body"
  shows "handoff e now q reason s = Inr s"
  using assms by (simp add: handoff_def insert_record_def)

end
