(* ===== verification/Json_Reader.thy ===== *)
theory Json_Reader
  imports Json
begin

text \<open>
  \<^verbatim>\<open>json.loads\<close> of Python's standard library, as the sources use it: a scanner that returns the
  value and the unread rest, with the key/value pairs of an object in the order they are written. The
  value of a number with a fraction or an exponent is the argument \<open>rd\<close>. An escape above
  \<^verbatim>\<open>\u00ff\<close> is outside the text modelled and refused. The law of the reader is that it reads
  back what \<^const>\<open>encode\<close> writes, with the keys of every object in order.
\<close>

section \<open>Scanning\<close>

definition json_space :: "char \<Rightarrow> bool" where
  "json_space c \<longleftrightarrow> code_of c \<in> {32, 9, 10, 13}"

definition skip_space :: "string \<Rightarrow> string" where
  "skip_space s = dropWhile json_space s"

definition hex_value :: "char \<Rightarrow> nat option" where
  "hex_value c = (let n = code_of c in
     if 48 \<le> n \<and> n \<le> 57 then Some (n - 48)
     else if 97 \<le> n \<and> n \<le> 102 then Some (n - 87)
     else if 65 \<le> n \<and> n \<le> 70 then Some (n - 55) else None)"

definition latin_escape :: "char \<Rightarrow> char \<Rightarrow> char \<Rightarrow> char \<Rightarrow> char option" where
  "latin_escape a b c d = (case (hex_value a, hex_value b, hex_value c, hex_value d) of
      (Some 0, Some 0, Some h, Some l) \<Rightarrow> Some (char_of (16 * h + l)) | _ \<Rightarrow> None)"

definition short_escape :: "char \<Rightarrow> char option" where
  "short_escape e = (if e \<in> {CHR 0x22, CHR 0x5C, CHR ''/''} then Some e
     else if e = CHR ''b'' then Some (CHR 0x08) else if e = CHR ''f'' then Some (CHR 0x0C)
     else if e = CHR ''n'' then Some (CHR 0x0A) else if e = CHR ''r'' then Some (CHR 0x0D)
     else if e = CHR ''t'' then Some (CHR 0x09) else None)"

definition with_char :: "char \<Rightarrow> (string \<times> string) option \<Rightarrow> (string \<times> string) option" where
  "with_char c m = map_option (\<lambda>(t, r). (c # t, r)) m"

fun scan_string :: "string \<Rightarrow> (string \<times> string) option" where
  "scan_string [] = None"
| "scan_string (c # s) =
     (if c = CHR 0x22 then Some ([], s)
      else if c = CHR 0x5C then (case s of
          [] \<Rightarrow> None
        | e # s1 \<Rightarrow>
            if e = CHR ''u'' then (case s1 of
                h1 # h2 # h3 # h4 # s2 \<Rightarrow> (case latin_escape h1 h2 h3 h4 of
                    None \<Rightarrow> None | Some x \<Rightarrow> with_char x (scan_string s2))
              | _ \<Rightarrow> None)
            else (case short_escape e of None \<Rightarrow> None | Some x \<Rightarrow> with_char x (scan_string s1)))
      else if code_of c < 32 then None
      else with_char c (scan_string s))"

text \<open>A number: its text, whether it has a fraction or an exponent, and the rest.\<close>

definition scan_fraction :: "string \<Rightarrow> string \<times> string" where
  "scan_fraction s = (case s of
      c # r \<Rightarrow> (if c = CHR ''.'' \<and> takeWhile is_digit r \<noteq> []
               then (c # takeWhile is_digit r, dropWhile is_digit r) else ([], s))
    | [] \<Rightarrow> ([], s))"

definition scan_exponent :: "string \<Rightarrow> string \<times> string" where
  "scan_exponent s = (case s of
      c # r \<Rightarrow>
        (let sg = (case r of d # _ \<Rightarrow> if d = CHR ''+'' \<or> d = CHR ''-'' then [d] else [] | [] \<Rightarrow> []);
             r1 = drop (length sg) r in
         if (c = CHR ''e'' \<or> c = CHR ''E'') \<and> takeWhile is_digit r1 \<noteq> []
         then (c # sg @ takeWhile is_digit r1, dropWhile is_digit r1) else ([], s))
    | [] \<Rightarrow> ([], s))"

definition scan_whole :: "string \<Rightarrow> (string \<times> string) option" where
  "scan_whole s = (case s of
      [] \<Rightarrow> None
    | d # r \<Rightarrow> if d = CHR ''0'' then Some ([d], r)
        else if is_digit d then Some (takeWhile is_digit s, dropWhile is_digit s) else None)"

definition scan_number :: "string \<Rightarrow> (string \<times> bool \<times> string) option" where
  "scan_number s =
     (let sg = (case s of d # _ \<Rightarrow> if d = CHR ''-'' then [d] else [] | [] \<Rightarrow> []) in
      case scan_whole (drop (length sg) s) of
        None \<Rightarrow> None
      | Some (w, r) \<Rightarrow> (let (fr, r1) = scan_fraction r; (ex, r2) = scan_exponent r1 in
          Some (sg @ w @ fr @ ex, fr \<noteq> [] \<or> ex \<noteq> [], r2)))"

definition digits_value :: "string \<Rightarrow> nat" where
  "digits_value s = foldl (\<lambda>n c. 10 * n + (code_of c - 48)) 0 s"

text \<open>\<^verbatim>\<open>int(text)\<close>, which refuses more than 4300 digits.\<close>

definition read_int :: "string \<Rightarrow> int option" where
  "read_int t = (let neg = (case t of c # _ \<Rightarrow> c = CHR ''-'' | [] \<Rightarrow> False);
       ds = (if neg then tl t else t) in
     if length ds > 4300 then None
     else Some (if neg then - int (digits_value ds) else int (digits_value ds)))"

definition read_number :: "(string \<Rightarrow> pyfloat) \<Rightarrow> string \<Rightarrow> (json \<times> string) option" where
  "read_number rd s = (case scan_number s of
      Some (t, True, r) \<Rightarrow> Some (JFloat (rd t), r)
    | Some (t, False, r) \<Rightarrow> (case read_int t of None \<Rightarrow> None | Some i \<Rightarrow> Some (JInt i, r))
    | None \<Rightarrow> None)"

text \<open>The words of the scanner, tried before and after a number.\<close>

definition read_word :: "(string \<times> json) list \<Rightarrow> string \<Rightarrow> (json \<times> string) option" where
  "read_word ws s = (case find (\<lambda>(w, v). py_startswith w s) ws of
      None \<Rightarrow> None | Some (w, v) \<Rightarrow> Some (v, drop (length w) s))"

definition read_plain :: "(string \<Rightarrow> pyfloat) \<Rightarrow> string \<Rightarrow> (json \<times> string) option" where
  "read_plain rd s = (case read_word [(''null'', JNull), (''true'', JBool True), (''false'', JBool False)] s of
      Some x \<Rightarrow> Some x
    | None \<Rightarrow> (case read_number rd s of
        Some x \<Rightarrow> Some x
      | None \<Rightarrow> read_word [(''NaN'', JFloat NaN), (''Infinity'', JFloat PosInf),
          (''-Infinity'', JFloat NegInf)] s))"

section \<open>The reader\<close>

text \<open>
  The first argument bounds the nesting; every level reads a character, so the length of the text is
  always enough.
\<close>

fun read_value :: "nat \<Rightarrow> (string \<Rightarrow> pyfloat) \<Rightarrow> string \<Rightarrow> (json \<times> string) option"
  and read_items :: "nat \<Rightarrow> (string \<Rightarrow> pyfloat) \<Rightarrow> string \<Rightarrow> (json list \<times> string) option"
  and read_pairs :: "nat \<Rightarrow> (string \<Rightarrow> pyfloat) \<Rightarrow> string \<Rightarrow> (fields \<times> string) option" where
  "read_value 0 rd s = None"
| "read_value (Suc n) rd s = (case s of
      [] \<Rightarrow> None
    | c # r \<Rightarrow>
        if c = CHR 0x22 then map_option (\<lambda>(t, r1). (JStr t, r1)) (scan_string r)
        else if c = CHR ''{'' then (case skip_space r of
            [] \<Rightarrow> None
          | d # r1 \<Rightarrow> if d = CHR ''}'' then Some (JObj [], r1)
              else map_option (\<lambda>(f, r2). (JObj f, r2)) (read_pairs n rd (d # r1)))
        else if c = CHR ''['' then (case skip_space r of
            [] \<Rightarrow> None
          | d # r1 \<Rightarrow> if d = CHR '']'' then Some (JList [], r1)
              else map_option (\<lambda>(f, r2). (JList f, r2)) (read_items n rd (d # r1)))
        else read_plain rd s)"
| "read_items 0 rd s = None"
| "read_items (Suc n) rd s = (case read_value n rd s of
      None \<Rightarrow> None
    | Some (v, r) \<Rightarrow> (case skip_space r of
        [] \<Rightarrow> None
      | d # r1 \<Rightarrow>
          if d = CHR '']'' then Some ([v], r1)
          else if d = CHR '','' then map_option (\<lambda>(vs, r2). (v # vs, r2)) (read_items n rd (skip_space r1))
          else None))"
| "read_pairs 0 rd s = None"
| "read_pairs (Suc n) rd s = (case s of
      [] \<Rightarrow> None
    | q # s1 \<Rightarrow>
        if q \<noteq> CHR 0x22 then None
        else (case scan_string s1 of
            None \<Rightarrow> None
          | Some (k, s2) \<Rightarrow> (case skip_space s2 of
              [] \<Rightarrow> None
            | co # s3 \<Rightarrow>
                if co \<noteq> CHR '':'' then None
                else (case read_value n rd (skip_space s3) of
                    None \<Rightarrow> None
                  | Some (v, r) \<Rightarrow> (case skip_space r of
                      [] \<Rightarrow> None
                    | d # r1 \<Rightarrow>
                        if d = CHR ''}'' then Some ([(k, v)], r1)
                        else if d = CHR '','' then
                          map_option (\<lambda>(kvs, r2). ((k, v) # kvs, r2)) (read_pairs n rd (skip_space r1))
                        else None)))))"

definition json_loads :: "(string \<Rightarrow> pyfloat) \<Rightarrow> string \<Rightarrow> json option" where
  "json_loads rd s = (case read_value (Suc (length s)) rd (skip_space s) of
      None \<Rightarrow> None | Some (v, r) \<Rightarrow> (if skip_space r = [] then Some v else None))"


section \<open>Reading back\<close>

text \<open>A value with the keys of every object in order, and its text.\<close>

fun ksort :: "json \<Rightarrow> json"
  and ksort_list :: "json list \<Rightarrow> json list"
  and ksort_fields :: "fields \<Rightarrow> fields" where
  "ksort (JList xs) = JList (ksort_list xs)"
| "ksort (JObj d) = JObj (sort_key fst (ksort_fields d))"
| "ksort v = v"
| "ksort_list [] = []"
| "ksort_list (x # xs) = ksort x # ksort_list xs"
| "ksort_fields [] = []"
| "ksort_fields ((k, v) # d) = (k, ksort v) # ksort_fields d"

fun jtext :: "json \<Rightarrow> string"
  and items_text :: "json list \<Rightarrow> string"
  and pairs_text :: "fields \<Rightarrow> string" where
  "jtext (JList xs) = CHR ''['' # items_text xs"
| "jtext (JObj d) = CHR ''{'' # pairs_text d"
| "jtext v = dumps v"
| "items_text [] = '']''"
| "items_text (x # xs) = jtext x @ (if xs = [] then '']'' else CHR '','' # items_text xs)"
| "pairs_text [] = ''}''"
| "pairs_text ((k, v) # d) = quote k @ CHR '':'' # jtext v @ (if d = [] then ''}'' else CHR '','' # pairs_text d)"

lemma insort_key_map:
  "(\<And>x. f (g x) = h x) \<Longrightarrow> insort_key f (g x) (map g xs) = map g (insort_key h x xs)"
  by (induction xs) simp_all

lemma sort_key_map:
  "(\<And>x. f (g x) = h x) \<Longrightarrow> sort_key f (map g xs) = map g (sort_key h xs)"
  by (induction xs) (simp_all add: insort_key_map)

lemma dumps_fields_map: "dumps_fields d = map (\<lambda>kv. (fst kv, dumps (snd kv))) d"
  by (induction d) auto

lemma ksort_fields_map: "ksort_fields d = map (\<lambda>kv. (fst kv, ksort (snd kv))) d"
  by (induction d) auto

lemma items_text_join: "items_text xs = py_join '','' (map jtext xs) @ '']''"
  by (induction xs) (auto simp: neq_Nil_conv)

lemma pairs_text_join:
  "pairs_text d = py_join '','' (map (\<lambda>kv. quote (fst kv) @ '':'' @ jtext (snd kv)) d) @ ''}''"
  by (induction d) (auto simp: neq_Nil_conv)

lemma dumps_jtext:
  "dumps v = jtext (ksort v)"
  "dumps_list xs = map jtext (ksort_list xs)"
  "map (\<lambda>kv. (fst kv, dumps (snd kv))) d = map (\<lambda>kv. (fst kv, jtext (snd kv))) (ksort_fields d)"
proof (induction v and xs and d rule: ksort_ksort_list_ksort_fields.induct)
  case (2 d)
  have "sort_key fst (dumps_fields d) = map (\<lambda>kv. (fst kv, jtext (snd kv))) (sort_key fst (ksort_fields d))"
    unfolding dumps_fields_map 2 by (rule sort_key_map) simp
  then show ?case by (simp add: pairs_text_join comp_def split_beta)
qed (auto simp: items_text_join)

subsection \<open>Strings\<close>

lemma hex_value_char: "n < 16 \<Longrightarrow> hex_value (hex_char n) = Some n"
  by (auto simp: hex_value_def hex_char_def code_of_def Let_def)

lemma char_code: "char_of (code_of c) = c"
  by (simp add: code_of_def)

lemma code_inj: "code_of c = code_of d \<Longrightarrow> c = d"
  using char_code by metis

lemma special_codes:
  "code_of (CHR 0x22) = 34" "code_of (CHR 0x5C) = 92" "code_of (CHR 0x0A) = 10" "code_of (CHR 0x0D) = 13"
  "code_of (CHR 0x09) = 9" "code_of (CHR 0x08) = 8" "code_of (CHR 0x0C) = 12"
  by (simp_all add: code_of_def)

definition special_chars :: string where
  "special_chars = [CHR 0x22, CHR 0x5C, CHR 0x0A, CHR 0x0D, CHR 0x09, CHR 0x08, CHR 0x0C]"

lemma scan_escape: "scan_string (escape_char c @ r) = with_char c (scan_string r)"
proof -
  consider "code_of c \<in> {34, 92, 10, 13, 9, 8, 12}" | "code_of c < 32" "code_of c \<notin> {10, 13, 9, 8, 12}"
    | "code_of c \<ge> 32" "code_of c \<noteq> 34" "code_of c \<noteq> 92" by force
  then show ?thesis
  proof cases
    case 1
    then have "code_of c \<in> set (map code_of special_chars)" by (simp add: special_codes special_chars_def)
    then obtain d where "d \<in> set special_chars" "code_of c = code_of d" by auto
    then have "c \<in> set special_chars" using code_inj by metis
    then show ?thesis
      unfolding special_chars_def set_simps
      by (elim insertE emptyE) (simp_all add: escape_char_def special_codes short_escape_def with_char_def Let_def)
  next
    case 2
    let ?n = "code_of c"
    have e: "escape_char c = [CHR 0x5C, CHR ''u'', CHR ''0'', CHR ''0'', hex_char (?n div 16), hex_char (?n mod 16)]"
      using 2 by (simp add: escape_char_def Let_def)
    have "?n div 16 < 16" using 2(1) by simp
    then have "latin_escape (CHR ''0'') (CHR ''0'') (hex_char (?n div 16)) (hex_char (?n mod 16)) = Some c"
      using hex_value_char[of "?n div 16"] hex_value_char[of "?n mod 16"] hex_value_char[of 0]
      by (simp add: latin_escape_def char_code) (simp add: hex_value_def code_of_def Let_def)
    then show ?thesis by (simp add: e with_char_def)
  next
    case 3
    then have "escape_char c = [c]" "c \<noteq> CHR 0x22" "c \<noteq> CHR 0x5C"
      by (auto simp: escape_char_def Let_def code_of_def)
    with 3 show ?thesis by simp
  qed
qed

lemma scan_quoted: "scan_string (concat (map escape_char s) @ CHR 0x22 # r) = Some (s, r)"
proof (induction s)
  case (Cons c s)
  then show ?case by (simp only: list.map concat.simps append_assoc scan_escape) (simp add: with_char_def)
qed simp


subsection \<open>Numbers\<close>

text \<open>What may follow a number in a serialised value.\<close>

definition ends_value :: "string \<Rightarrow> bool" where
  "ends_value r \<longleftrightarrow> (case r of [] \<Rightarrow> True | c # _ \<Rightarrow> c \<in> {CHR '','', CHR '']'', CHR ''}''})"

lemma ends_value_simps [simp]:
  "ends_value []" "ends_value (CHR '','' # r)" "ends_value (CHR '']'' # r)" "ends_value (CHR ''}'' # r)"
  by (simp_all add: ends_value_def)

lemma ends_cases: "ends_value r \<Longrightarrow> r = [] \<or> (\<exists>r'. r = CHR '','' # r' \<or> r = CHR '']'' # r' \<or> r = CHR ''}'' # r')"
  by (cases r) (auto simp: ends_value_def)

lemma not_digits [simp]: "\<not> is_digit (CHR '','')" "\<not> is_digit (CHR '']'')" "\<not> is_digit (CHR ''}'')"
    "\<not> is_digit (CHR ''-'')"
  by (simp_all add: is_digit_def code_of_def)

lemma ends_stops: "ends_value r \<Longrightarrow> takeWhile is_digit r = [] \<and> dropWhile is_digit r = r"
  by (auto dest!: ends_cases)

lemma take_digits_append:
  assumes "ends_value r"
  shows "takeWhile is_digit (s @ r) = takeWhile is_digit s"
    and "dropWhile is_digit (s @ r) = dropWhile is_digit s @ r"
  using ends_stops[OF assms] by (induction s) auto

lemma scan_fraction_append:
  assumes "ends_value r"
  shows "scan_fraction (s @ r) = (case scan_fraction s of (t, u) \<Rightarrow> (t, u @ r))"
proof (cases s)
  case Nil
  with ends_cases[OF assms] show ?thesis by (auto simp: scan_fraction_def)
next
  case (Cons c s')
  then show ?thesis by (simp add: scan_fraction_def take_digits_append[OF assms])
qed

lemma scan_exponent_append:
  assumes "ends_value r"
  shows "scan_exponent (s @ r) = (case scan_exponent s of (t, u) \<Rightarrow> (t, u @ r))"
proof (cases s)
  case Nil
  with ends_cases[OF assms] show ?thesis by (auto simp: scan_exponent_def)
next
  case (Cons c s')
  show ?thesis
  proof (cases s')
    case Nil
    with Cons ends_cases[OF assms] ends_stops[OF assms] show ?thesis
      by (auto simp: scan_exponent_def Let_def)
  next
    case (Cons d s'')
    with \<open>s = c # s'\<close> show ?thesis
      using take_digits_append[OF assms, of s''] take_digits_append[OF assms, of "d # s''"]
      by (simp add: scan_exponent_def Let_def)
  qed
qed

lemma scan_whole_append:
  assumes "ends_value r" and "scan_whole s = Some (w, u)"
  shows "scan_whole (s @ r) = Some (w, u @ r)"
  using assms(2) take_digits_append[OF assms(1), of s]
  by (auto simp: scan_whole_def split: list.splits if_split_asm)

lemma scan_number_append:
  assumes "ends_value r" and "scan_number s = Some (t, b, u)"
  shows "scan_number (s @ r) = Some (t, b, u @ r)"
proof -
  let ?sg = "case s of d # _ \<Rightarrow> if d = CHR ''-'' then [d] else [] | [] \<Rightarrow> []"
  from assms(2) obtain w v where w: "scan_whole (drop (length ?sg) s) = Some (w, v)"
    by (auto simp: scan_number_def Let_def split: option.splits)
  obtain fr v1 where fr: "scan_fraction v = (fr, v1)" by (rule prod.exhaust)
  obtain ex v2 where ex: "scan_exponent v1 = (ex, v2)" by (rule prod.exhaust)
  from assms(2) w fr ex have res: "t = ?sg @ w @ fr @ ex" "b \<longleftrightarrow> fr \<noteq> [] \<or> ex \<noteq> []" "u = v2"
    by (auto simp: scan_number_def Let_def)
  have ne: "s \<noteq> []" using w by (auto simp: scan_whole_def)
  then have sg: "(case s @ r of d # _ \<Rightarrow> if d = CHR ''-'' then [d] else [] | [] \<Rightarrow> []) = ?sg"
    by (cases s) simp_all
  have "drop (length ?sg) (s @ r) = drop (length ?sg) s @ r" using ne by (cases s) auto
  then have "scan_whole (drop (length ?sg) (s @ r)) = Some (w, v @ r)"
    using scan_whole_append[OF assms(1) w] by simp
  moreover have "scan_fraction (v @ r) = (fr, v1 @ r)" using scan_fraction_append[OF assms(1), of v] fr by simp
  moreover have "scan_exponent (v1 @ r) = (ex, v2 @ r)" using scan_exponent_append[OF assms(1), of v1] ex by simp
  ultimately show ?thesis unfolding scan_number_def sg Let_def using res by simp
qed

lemma digits_value_append: "digits_value (s @ [c]) = 10 * digits_value s + (code_of c - 48)"
  by (simp add: digits_value_def)

lemma digit_code: "n < 10 \<Longrightarrow> code_of (digit_char n) = 48 + n"
  by (simp add: code_of_def digit_char_def)

lemma digits_value_show: "digits_value (show_nat n) = n"
proof (induction n rule: show_nat.induct)
  case (1 n)
  show ?case
  proof (cases "n < 10")
    case True
    then have "show_nat n = [digit_char n]" by (subst show_nat.simps) simp
    with True show ?thesis by (simp add: digits_value_def digit_code)
  next
    case False
    then have "show_nat n = show_nat (n div 10) @ [digit_char (n mod 10)]"
      by (subst show_nat.simps) simp
    with 1 False show ?thesis by (simp add: digits_value_append digit_code)
  qed
qed

lemma show_nat_head: "n > 0 \<Longrightarrow> hd (show_nat n) \<noteq> CHR ''0''"
proof (induction n rule: show_nat.induct)
  case (1 n)
  show ?case
  proof (cases "n < 10")
    case True
    then have "show_nat n = [digit_char n]" by (subst show_nat.simps) simp
    moreover have "code_of (digit_char n) \<noteq> code_of (CHR ''0'')"
      using True 1(2) by (simp add: digit_code) (simp add: code_of_def)
    ultimately show ?thesis by auto
  next
    case False
    then have e: "show_nat n = show_nat (n div 10) @ [digit_char (n mod 10)]"
      by (subst show_nat.simps) simp
    have "hd (show_nat (n div 10)) \<noteq> CHR ''0''" using 1(1) False by simp
    then show ?thesis using show_nat_nonempty by (simp add: e hd_append)
  qed
qed

lemma takeWhile_show: "takeWhile is_digit (show_nat n) = show_nat n" "dropWhile is_digit (show_nat n) = []"
  using show_nat_digits[of n] by (simp_all add: takeWhile_eq_all_conv dropWhile_eq_Nil_conv list_all_iff)

lemma show_nat_0: "show_nat 0 = ''0''"
proof -
  have "code_of (digit_char 0) = code_of (CHR ''0'')"
    by (simp only: digit_code) (simp add: code_of_def)
  then show ?thesis by (subst show_nat.simps) (simp add: code_inj)
qed

lemma scan_whole_show: "scan_whole (show_nat n) = Some (show_nat n, [])"
proof (cases "n = 0")
  case True
  then show ?thesis by (simp add: show_nat_0 scan_whole_def)
next
  case False
  obtain d ds where d: "show_nat n = d # ds" using show_nat_nonempty by (cases "show_nat n") auto
  then have "d \<noteq> CHR ''0''" using show_nat_head[of n] False by simp
  moreover have "is_digit d" using show_nat_digits[of n] d by simp
  ultimately show ?thesis using takeWhile_show[of n] d by (simp add: scan_whole_def)
qed

lemma show_nat_no_minus: "show_nat n = d # ds \<Longrightarrow> d \<noteq> CHR ''-''"
  using show_nat_digits[of n] by auto

lemma scan_show_int: "scan_number (show_int i) = Some (show_int i, False, [])"
proof -
  have nil: "scan_fraction [] = ([], [])" "scan_exponent [] = ([], [])"
    by (simp_all add: scan_fraction_def scan_exponent_def)
  show ?thesis
  proof (cases "i < 0")
    case True
    then show ?thesis by (simp add: show_int_def scan_number_def scan_whole_show nil)
  next
    case False
    obtain d ds where d: "show_nat (nat i) = d # ds"
      using show_nat_nonempty by (cases "show_nat (nat i)") auto
    then have "d \<noteq> CHR ''-''" by (rule show_nat_no_minus)
    with False show ?thesis
      using scan_whole_show[of "nat i"] unfolding show_int_def scan_number_def d by (simp add: nil d)
  qed
qed

lemma read_show_int:
  assumes "length (show_nat (nat \<bar>i\<bar>)) \<le> 4300"
  shows "read_int (show_int i) = Some i"
proof (cases "i < 0")
  case True
  then show ?thesis using assms by (simp add: read_int_def show_int_def digits_value_show)
next
  case False
  obtain d ds where d: "show_nat (nat i) = d # ds"
    using show_nat_nonempty by (cases "show_nat (nat i)") auto
  then have "d \<noteq> CHR ''-''" by (rule show_nat_no_minus)
  with False d assms show ?thesis
    using digits_value_show[of "nat i"] by (simp add: read_int_def show_int_def)
qed


subsection \<open>Values\<close>

text \<open>
  What the reader gets back: integers of at most 4300 digits, and floats whose text has the form of a
  number with a fraction or an exponent and stands for the float.
\<close>

fun readable :: "(string \<Rightarrow> pyfloat) \<Rightarrow> json \<Rightarrow> bool"
  and readable_list :: "(string \<Rightarrow> pyfloat) \<Rightarrow> json list \<Rightarrow> bool"
  and readable_fields :: "(string \<Rightarrow> pyfloat) \<Rightarrow> fields \<Rightarrow> bool" where
  "readable rd (JInt i) = (length (show_nat (nat \<bar>i\<bar>)) \<le> 4300)"
| "readable rd (JFloat f) = (case f of Fin r t \<Rightarrow> scan_number t = Some (t, True, []) \<and> rd t = Fin r t
     | _ \<Rightarrow> False)"
| "readable rd (JList xs) = readable_list rd xs"
| "readable rd (JObj d) = readable_fields rd d"
| "readable rd v = True"
| "readable_list rd [] = True"
| "readable_list rd (x # xs) = (readable rd x \<and> readable_list rd xs)"
| "readable_fields rd [] = True"
| "readable_fields rd ((k, v) # d) = (readable rd v \<and> readable_fields rd d)"

lemma readable_fields_all: "readable_fields rd d \<longleftrightarrow> (\<forall>kv \<in> set d. readable rd (snd kv))"
  by (induction d) auto

lemma readable_ksort:
  "readable rd v \<Longrightarrow> readable rd (ksort v)"
  "readable_list rd xs \<Longrightarrow> readable_list rd (ksort_list xs)"
  "readable_fields rd d \<Longrightarrow> readable_fields rd (ksort_fields d)"
  by (induction v and xs and d rule: ksort_ksort_list_ksort_fields.induct)
    (auto simp: readable_fields_all)

lemma number_start:
  assumes "scan_number s = Some (t, b, u)"
  shows "s \<noteq> [] \<and> (hd s = CHR ''-'' \<or> is_digit (hd s))"
  using assms by (cases s) (auto simp: scan_number_def scan_whole_def is_digit_def code_of_def Let_def
      split: option.splits list.splits if_split_asm)

lemma number_head: "c = CHR ''-'' \<or> is_digit c \<Longrightarrow> \<not> json_space c \<and>
    c \<notin> {CHR 0x22, CHR ''{'', CHR ''['', CHR '']'', CHR ''}'', CHR ''n'', CHR ''t'', CHR ''f''}"
  by (auto simp: json_space_def is_digit_def code_of_def)

lemma read_word_no:
  "s \<noteq> [] \<Longrightarrow> hd s \<notin> {CHR ''n'', CHR ''t'', CHR ''f''} \<Longrightarrow>
     read_word [(''null'', JNull), (''true'', JBool True), (''false'', JBool False)] s = None"
  by (cases s) (auto simp: read_word_def py_startswith_def)

lemma read_number_value:
  assumes "scan_number t = Some (t, b, [])" and "ends_value r"
    and "read_number rd t = Some (v, [])"
  shows "read_value (Suc n) rd (t @ r) = Some (v, r)"
proof -
  have h: "t \<noteq> []" "hd t = CHR ''-'' \<or> is_digit (hd t)" using number_start[OF assms(1)] by blast+
  then obtain c s where t: "t = c # s" by (cases t) auto
  have sn: "scan_number (t @ r) = Some (t, b, r)" using scan_number_append[OF assms(2,1)] by simp
  have "read_number rd (t @ r) = Some (v, r)"
    using assms(1,3) sn by (cases b) (auto simp: read_number_def split: option.splits)
  moreover have "read_word [(''null'', JNull), (''true'', JBool True), (''false'', JBool False)] (t @ r) = None"
    using number_head[OF h(2)] t by (intro read_word_no) auto
  ultimately have "read_plain rd (t @ r) = Some (v, r)" by (simp add: read_plain_def)
  then show ?thesis using number_head[OF h(2)] t by simp
qed

definition is_list :: "json \<Rightarrow> bool" where
  "is_list v = (case v of JList _ \<Rightarrow> True | _ \<Rightarrow> False)"

lemma is_list_simps [simp]: "is_list (JList xs)" "\<not> is_list JNull" "\<not> is_list (JBool b)" "\<not> is_list (JInt i)"
    "\<not> is_list (JFloat f)" "\<not> is_list (JStr t)" "\<not> is_list (JObj d)"
    "\<not> is_obj (JBool b)" "\<not> is_obj (JInt i)" "\<not> is_obj (JFloat f)"
  by (simp_all add: is_list_def is_obj_def)

text \<open>No serialised value starts with a space or a closing bracket.\<close>

definition starts_value :: "string \<Rightarrow> bool" where
  "starts_value s \<longleftrightarrow> s \<noteq> [] \<and> \<not> json_space (hd s) \<and> hd s \<notin> {CHR '']'', CHR ''}''}"

lemma starts_number: "scan_number t = Some (t, b, []) \<Longrightarrow> starts_value t"
  using number_start[of t t b "[]"] number_head[of "hd t"] by (auto simp: starts_value_def)

lemma plain_starts [simp]:
  "starts_value ''null''" "starts_value ''true''" "starts_value ''false''" "starts_value (quote s)"
  "starts_value (CHR ''['' # t)" "starts_value (CHR ''{'' # t)"
  by (simp_all add: starts_value_def json_space_def code_of_def quote_def)

lemma jtext_starts: "readable rd v \<Longrightarrow> starts_value (jtext v)"
  by (cases v) (auto simp: starts_number starts_number[OF scan_show_int] split: pyfloat.splits)

lemma starts_skip: "starts_value s \<Longrightarrow> skip_space (s @ r) = s @ r"
  by (cases s) (auto simp: starts_value_def skip_space_def)

lemma punct_skip [simp]:
  "skip_space (CHR '','' # r) = CHR '','' # r" "skip_space (CHR '']'' # r) = CHR '']'' # r"
  "skip_space (CHR ''}'' # r) = CHR ''}'' # r" "skip_space (CHR '':'' # r) = CHR '':'' # r"
  "skip_space (CHR 0x22 # r) = CHR 0x22 # r"
  by (simp_all add: skip_space_def json_space_def code_of_def)

lemma length_quote: "2 \<le> length (quote k)"
  by (simp add: quote_def)

lemma quote_text: "quote k @ r = CHR 0x22 # (concat (map escape_char k) @ CHR 0x22 # r)"
  by (simp add: quote_def)

lemma read_string_value: "read_value (Suc n) rd (quote t @ r) = Some (JStr t, r)"
  unfolding quote_text by (simp add: scan_quoted)

lemma read_words:
  "read_value (Suc n) rd (''null'' @ r) = Some (JNull, r)"
  "read_value (Suc n) rd (''true'' @ r) = Some (JBool True, r)"
  "read_value (Suc n) rd (''false'' @ r) = Some (JBool False, r)"
  by (simp_all add: read_plain_def read_word_def py_startswith_def)

lemma read_atom:
  assumes "readable rd v" and "ends_value r" and "\<not> is_list v" and "\<not> is_obj v"
  shows "read_value (Suc n) rd (dumps v @ r) = Some (v, r)"
proof (cases v)
  case JNull
  show ?thesis unfolding JNull dumps.simps by (rule read_words)
next
  case (JBool b)
  show ?thesis unfolding JBool dumps.simps by (cases b) (simp_all only: if_True if_False read_words)
next
  case (JInt i)
  have "read_number rd (show_int i) = Some (JInt i, [])"
    using assms(1) JInt by (simp add: read_number_def scan_show_int read_show_int)
  with scan_show_int assms(2) show ?thesis unfolding JInt dumps.simps by (rule read_number_value)
next
  case (JFloat f)
  with assms(1) obtain x t where f: "f = Fin x t" "scan_number t = Some (t, True, [])" "rd t = Fin x t"
    by (auto split: pyfloat.splits)
  then have "read_number rd t = Some (JFloat f, [])" by (simp add: read_number_def)
  with f(2) assms(2) show ?thesis unfolding JFloat f(1) dumps.simps by (rule read_number_value)
next
  case (JStr t)
  show ?thesis unfolding JStr dumps.simps by (rule read_string_value)
qed (use assms(3,4) in simp_all)

lemma read_back:
  "readable rd v \<Longrightarrow> ends_value r \<Longrightarrow> length (jtext v) \<le> n \<Longrightarrow> read_value (Suc n) rd (jtext v @ r) = Some (v, r)"
  "readable_list rd xs \<Longrightarrow> xs \<noteq> [] \<Longrightarrow> length (items_text xs) \<le> n \<Longrightarrow>
     read_items (Suc n) rd (items_text xs @ r) = Some (xs, r)"
  "readable_fields rd d \<Longrightarrow> d \<noteq> [] \<Longrightarrow> length (pairs_text d) \<le> n \<Longrightarrow>
     read_pairs (Suc n) rd (pairs_text d @ r) = Some (d, r)"
proof (induction v and xs and d arbitrary: n r and n r and n r rule: jtext_items_text_pairs_text.induct)
  case (1 xs)
  show ?case
  proof (cases "xs = []")
    case False
    then obtain x ys where xs: "xs = x # ys" by (cases xs) auto
    with 1(2) have "starts_value (jtext x)" by (auto intro: jtext_starts)
    then have st: "starts_value (items_text xs)" by (auto simp: xs starts_value_def)
    then obtain c s where cs: "items_text xs = c # s" "c \<noteq> CHR '']''" "\<not> json_space c"
      by (cases "items_text xs") (auto simp: starts_value_def)
    obtain m where n: "n = Suc m" using 1(4) by (cases n) simp_all
    have "read_items n rd (items_text xs @ r) = Some (xs, r)"
      using 1(1)[of m r] 1(2,4) False n by simp
    then show ?thesis using cs by (simp add: skip_space_def)
  qed simp
next
  case (2 d)
  show ?case
  proof (cases "d = []")
    case False
    then obtain k v e where d: "d = (k, v) # e" by (cases d) auto
    then have cs: "\<exists>s. pairs_text d = CHR 0x22 # s" by (auto simp: quote_def)
    obtain m where n: "n = Suc m" using 2(4) by (cases n) simp_all
    have "read_pairs n rd (pairs_text d @ r) = Some (d, r)"
      using 2(1)[of m r] 2(2,4) False n by simp
    then show ?thesis using cs by auto
  qed simp
next
  case (5 x xs)
  obtain m where n: "n = Suc m" using 5(5) jtext_starts[of rd x] 5(3) by (cases n) (auto simp: starts_value_def)
  let ?q = "if xs = [] then '']'' else CHR '','' # items_text xs"
  have "ends_value (?q @ r)" by simp
  moreover have "length (jtext x) \<le> m" using 5(5) n by (simp split: if_split_asm)
  ultimately have v: "read_value n rd (jtext x @ ?q @ r) = Some (x, ?q @ r)"
    using 5(1)[of "?q @ r" m] 5(3) n by simp
  show ?case
  proof (cases "xs = []")
    case True
    with v show ?thesis by simp
  next
    case False
    then obtain y ys where xs: "xs = y # ys" by (cases xs) auto
    with 5(3) have "starts_value (jtext y)" by (auto intro: jtext_starts)
    then have "starts_value (items_text xs)" by (auto simp: xs starts_value_def)
    then have sk: "skip_space (items_text xs @ r) = items_text xs @ r" by (rule starts_skip)
    have "length (items_text xs) \<le> m" using 5(5) n False by simp
    then have "read_items n rd (items_text xs @ r) = Some (xs, r)"
      using 5(2)[of m r] 5(3) n False by simp
    with v False sk show ?thesis by simp
  qed
next
  case (7 k v d)
  obtain m where n: "n = Suc m" using 7(5) by (cases n) (auto simp: quote_def)
  let ?q = "if d = [] then ''}'' else CHR '','' # pairs_text d"
  have "ends_value (?q @ r)" by simp
  moreover have "length (jtext v) \<le> m" using 7(5) n by (simp split: if_split_asm)
  ultimately have v: "read_value n rd (jtext v @ ?q @ r) = Some (v, ?q @ r)"
    using 7(1)[of "?q @ r" m] 7(3) n by simp
  have sv: "skip_space (jtext v @ ?q @ r) = jtext v @ ?q @ r"
    using 7(3) by (intro starts_skip jtext_starts[of rd]) simp
  have t: "pairs_text ((k, v) # d) @ r = CHR 0x22 # (concat (map escape_char k) @ CHR 0x22 # CHR '':'' # jtext v @ ?q @ r)"
    by (simp add: quote_def)
  show ?case
  proof (cases "d = []")
    case True
    with v sv show ?thesis unfolding t by (simp add: scan_quoted)
  next
    case False
    then obtain k2 v2 e where d: "d = (k2, v2) # e" by (cases d) auto
    then have sk: "skip_space (pairs_text d @ r) = pairs_text d @ r" by (simp add: quote_def)
    have "length (pairs_text d) \<le> m" using 7(5) n False by simp
    then have "read_pairs n rd (pairs_text d @ r) = Some (d, r)"
      using 7(2)[of m r] 7(3) n False by simp
    with v sv False sk show ?thesis unfolding t by (simp add: scan_quoted)
  qed
qed (simp_all only: jtext.simps, auto intro!: read_atom simp del: read_value.simps dumps.simps)

lemma loads_encode:
  assumes "encode v = Inr s" and "readable rd v"
  shows "json_loads rd s = Some (ksort v)"
proof -
  have s: "s = jtext (ksort v)" using assms(1) by (simp add: encode_Inr dumps_jtext(1))
  have r: "readable rd (ksort v)" using assms(2) by (rule readable_ksort(1))
  then have "skip_space s = s" using starts_skip[OF jtext_starts[OF r], of "[]"] s by simp
  moreover have "read_value (Suc (length s)) rd s = Some (ksort v, [])"
    using read_back(1)[OF r, of "[]" "length s"] s by simp
  ultimately show ?thesis by (simp add: json_loads_def skip_space_def)
qed


subsection \<open>Equality\<close>

text \<open>Ordering the keys does not change a value in Python's sense.\<close>

lemma canon_fields_map: "canon_fields d = map (\<lambda>kv. (fst kv, canon (snd kv))) d"
  by (induction d) auto

lemma sort_key_idem: "sort_key f (sort_key f xs) = sort_key f xs"
  by (rule sort_key_id_if_sorted) (rule sorted_sort_key)

lemma canon_ksort:
  "canon (ksort v) = canon v"
  "canon_list (ksort_list xs) = canon_list xs"
  "canon_fields (ksort_fields d) = canon_fields d"
proof (induction v and xs and d rule: ksort_ksort_list_ksort_fields.induct)
  case (2 d)
  have k: "sort_key fst (map (\<lambda>kv. (fst kv, canon (snd kv))) e) = map (\<lambda>kv. (fst kv, canon (snd kv))) (sort_key fst e)"
    for e :: fields by (rule sort_key_map) simp
  have "sort_key fst (canon_fields (sort_key fst (ksort_fields d))) = sort_key fst (canon_fields (ksort_fields d))"
    unfolding canon_fields_map k by (simp only: sort_key_idem)
  then show ?case by (simp add: 2)
qed simp_all

lemma py_eq_ksort: "py_eq v (ksort v)"
  by (simp add: py_eq_def canon_ksort)

subsection \<open>Unique keys\<close>

text \<open>What an \<^verbatim>\<open>object_pairs_hook\<close> that refuses a repeated key leaves.\<close>

fun unique_keys :: "json \<Rightarrow> bool"
  and unique_keys_list :: "json list \<Rightarrow> bool"
  and unique_keys_fields :: "fields \<Rightarrow> bool" where
  "unique_keys (JList xs) = unique_keys_list xs"
| "unique_keys (JObj d) = (distinct (map fst d) \<and> unique_keys_fields d)"
| "unique_keys v = True"
| "unique_keys_list [] = True"
| "unique_keys_list (x # xs) = (unique_keys x \<and> unique_keys_list xs)"
| "unique_keys_fields [] = True"
| "unique_keys_fields ((k, v) # d) = (unique_keys v \<and> unique_keys_fields d)"

lemma unique_fields_all: "unique_keys_fields d \<longleftrightarrow> (\<forall>kv \<in> set d. unique_keys (snd kv))"
  by (induction d) auto

lemma map_fst_ksort: "map fst (ksort_fields d) = map fst d"
  by (induction d) auto

lemma unique_ksort:
  "unique_keys v \<Longrightarrow> unique_keys (ksort v)"
  "unique_keys_list xs \<Longrightarrow> unique_keys_list (ksort_list xs)"
  "unique_keys_fields d \<Longrightarrow> unique_keys_fields (ksort_fields d)"
proof (induction v and xs and d rule: ksort_ksort_list_ksort_fields.induct)
  case (2 d)
  have "distinct (map fst (ksort_fields d))" using 2(2) by (simp add: map_fst_ksort)
  then have "distinct (map fst (sort_key fst (ksort_fields d)))" by (simp add: distinct_map)
  with 2 show ?case by (simp add: unique_fields_all)
qed auto

definition loads_unique :: "(string \<Rightarrow> pyfloat) \<Rightarrow> string \<Rightarrow> json option" where
  "loads_unique rd s = (case json_loads rd s of
      None \<Rightarrow> None | Some v \<Rightarrow> (if unique_keys v then Some v else None))"

lemma loads_unique_encode:
  "encode v = Inr s \<Longrightarrow> readable rd v \<Longrightarrow> unique_keys v \<Longrightarrow> loads_unique rd s = Some (ksort v)"
  by (simp add: loads_unique_def loads_encode unique_ksort)

end
