(* ===== verification/Codec.thy ===== *)
theory Codec
  imports Json_Reader
begin

text \<open>
  The byte codecs of Python's standard library the sources use: Base64 with validation and UTF-8 for
  the code points modelled. A byte string is a \<^typ>\<open>string\<close>, one character per byte. Both share
  the law of a codec, stated once.
\<close>

locale codec =
  fixes enc :: "'a \<Rightarrow> 'b" and dec :: "'b \<Rightarrow> 'a option"
  assumes decodes: "dec (enc x) = Some x"
begin

lemma enc_inj: "enc x = enc y \<longleftrightarrow> x = y"
  using decodes by (metis option.inject)

end

section \<open>Base64\<close>

definition b64_char :: "nat \<Rightarrow> char" where
  "b64_char n = (if n < 26 then char_of (65 + n) else if n < 52 then char_of (71 + n)
     else if n < 62 then char_of (n - 4) else if n = 62 then CHR ''+'' else CHR ''/'')"

definition b64_value :: "char \<Rightarrow> nat option" where
  "b64_value c = (let n = code_of c in
     if 65 \<le> n \<and> n \<le> 90 then Some (n - 65) else if 97 \<le> n \<and> n \<le> 122 then Some (n - 71)
     else if 48 \<le> n \<and> n \<le> 57 then Some (n + 4) else if n = 43 then Some 62
     else if n = 47 then Some 63 else None)"

definition pad_char :: char where "pad_char = CHR ''=''"

definition byte :: "nat \<Rightarrow> char" where "byte n = char_of n"

fun b64encode :: "string \<Rightarrow> string" where
  "b64encode [] = []"
| "b64encode [a] = [b64_char (code_of a div 4), b64_char (code_of a mod 4 * 16), pad_char, pad_char]"
| "b64encode [a, b] = [b64_char (code_of a div 4), b64_char (code_of a mod 4 * 16 + code_of b div 16),
     b64_char (code_of b mod 16 * 4), pad_char]"
| "b64encode (a # b # c # s) = b64_char (code_of a div 4) # b64_char (code_of a mod 4 * 16 + code_of b div 16) #
     b64_char (code_of b mod 16 * 4 + code_of c div 64) # b64_char (code_of c mod 64) # b64encode s"

text \<open>\<^verbatim>\<open>base64.b64decode(text, validate=True)\<close>: padding only at the end; spare bits are ignored.\<close>

fun b64decode :: "string \<Rightarrow> string option" where
  "b64decode [] = Some []"
| "b64decode (a # b # c # d # s) =
     (case (b64_value a, b64_value b) of
        (Some v, Some w) \<Rightarrow>
          if c = pad_char \<and> d = pad_char then (if s = [] then Some [byte (v * 4 + w div 16)] else None)
          else (case b64_value c of
              None \<Rightarrow> None
            | Some x \<Rightarrow>
                if d = pad_char then (if s = [] then Some [byte (v * 4 + w div 16), byte (w mod 16 * 16 + x div 4)]
                  else None)
                else (case b64_value d of
                    None \<Rightarrow> None
                  | Some y \<Rightarrow> map_option (\<lambda>r. byte (v * 4 + w div 16) # byte (w mod 16 * 16 + x div 4) #
                        byte (x mod 4 * 64 + y) # r) (b64decode s)))
      | _ \<Rightarrow> None)"
| "b64decode s = None"

lemma b64_value_char: "n < 64 \<Longrightarrow> b64_value (b64_char n) = Some n"
proof -
  have "list_all (\<lambda>n. b64_value (b64_char n) = Some n) [0..<64]" by code_simp
  then show "n < 64 \<Longrightarrow> b64_value (b64_char n) = Some n" by (simp add: list_all_iff)
qed

lemma b64_not_pad: "n < 64 \<Longrightarrow> b64_char n \<noteq> pad_char"
proof
  assume "n < 64" "b64_char n = pad_char"
  then have "b64_value pad_char = Some n" using b64_value_char by metis
  then show False by (simp add: b64_value_def pad_char_def code_of_def)
qed

lemma code_bound: "code_of c < 256"
  by (simp add: code_of_def)

lemma byte_code: "byte (code_of c) = c"
  by (simp add: byte_def code_of_def)

lemma code_parts: "code_of a div 4 < 64" "code_of a div 16 < 16" "code_of a div 64 < 4"
  "code_of a mod 4 < 4" "code_of a mod 16 < 16" "code_of a mod 64 < 64"
  using code_bound[of a] by (simp_all add: less_mult_imp_div_less)

lemma sextet_bounds:
  "code_of a div 4 < 64" "code_of a mod 4 * 16 < 64" "code_of a mod 4 * 16 + code_of b div 16 < 64"
  "code_of b mod 16 * 4 < 64" "code_of b mod 16 * 4 + code_of c div 64 < 64" "code_of c mod 64 < 64"
  using code_parts[of a] code_parts[of b] code_parts[of c] by linarith+

lemma sextet_join:
  "code_of a div 4 * 4 + code_of a mod 4 * 16 div 16 = code_of a"
  "code_of a div 4 * 4 + (code_of a mod 4 * 16 + code_of b div 16) div 16 = code_of a"
  "(code_of a mod 4 * 16 + code_of b div 16) mod 16 * 16 + code_of b mod 16 * 4 div 4 = code_of b"
  "(code_of a mod 4 * 16 + code_of b div 16) mod 16 * 16 + (code_of b mod 16 * 4 + code_of c div 64) div 4 = code_of b"
  "(code_of b mod 16 * 4 + code_of c div 64) mod 4 * 64 + code_of c mod 64 = code_of c"
proof -
  have up: "(code_of a mod 4 * 16 + code_of b div 16) div 16 = code_of a mod 4"
    "(code_of a mod 4 * 16 + code_of b div 16) mod 16 = code_of b div 16"
    "(code_of b mod 16 * 4 + code_of c div 64) div 4 = code_of b mod 16"
    "(code_of b mod 16 * 4 + code_of c div 64) mod 4 = code_of c div 64"
    using code_parts(2)[of b] code_parts(3)[of c] by (simp_all add: mod_add_eq)
  show "code_of a div 4 * 4 + code_of a mod 4 * 16 div 16 = code_of a" by simp
  show "code_of a div 4 * 4 + (code_of a mod 4 * 16 + code_of b div 16) div 16 = code_of a"
    unfolding up by simp
  show "(code_of a mod 4 * 16 + code_of b div 16) mod 16 * 16 + code_of b mod 16 * 4 div 4 = code_of b"
    unfolding up by simp
  show "(code_of a mod 4 * 16 + code_of b div 16) mod 16 * 16 + (code_of b mod 16 * 4 + code_of c div 64) div 4 = code_of b"
    unfolding up by simp
  show "(code_of b mod 16 * 4 + code_of c div 64) mod 4 * 64 + code_of c mod 64 = code_of c"
    unfolding up by simp
qed

lemmas sextets = sextet_bounds b64_value_char b64_not_pad

interpretation b64: codec b64encode b64decode
proof
  fix s show "b64decode (b64encode s) = Some s"
  proof (induction s rule: b64encode.induct)
    case (2 a)
    have "b64decode (b64encode [a]) = Some [byte (code_of a div 4 * 4 + code_of a mod 4 * 16 div 16)]"
      by (simp add: sextets del: div_mult_self_is_m)
    then show ?case unfolding sextet_join byte_code .
  next
    case (3 a b)
    have "b64decode (b64encode [a, b]) = Some [byte (code_of a div 4 * 4 + (code_of a mod 4 * 16 + code_of b div 16) div 16),
        byte ((code_of a mod 4 * 16 + code_of b div 16) mod 16 * 16 + code_of b mod 16 * 4 div 4)]"
      by (simp only: b64encode.simps b64decode.simps sextets option.case prod.case if_False simp_thms if_True)
    then show ?case unfolding sextet_join byte_code .
  next
    case (4 a b c s)
    have "b64decode (b64encode (a # b # c # s)) = map_option (\<lambda>r.
        byte (code_of a div 4 * 4 + (code_of a mod 4 * 16 + code_of b div 16) div 16) #
         byte ((code_of a mod 4 * 16 + code_of b div 16) mod 16 * 16 + (code_of b mod 16 * 4 + code_of c div 64) div 4) #
         byte ((code_of b mod 16 * 4 + code_of c div 64) mod 4 * 64 + code_of c mod 64) # r) (b64decode (b64encode s))"
      by (simp only: b64encode.simps b64decode.simps sextets option.case prod.case if_False simp_thms if_True)
    then show ?case unfolding sextet_join byte_code 4 by simp
  qed simp
qed

lemma length_b64encode: "length (b64encode s) = 4 * ((length s + 2) div 3)"
proof (induction s rule: b64encode.induct)
  case (4 a b c s)
  have "(5 + length s) div 3 = (length s + 2 + 3) div 3" by (simp add: add.commute)
  then have "(5 + length s) div 3 = Suc (Suc (Suc (length s)) div 3)" by simp
  with 4 show ?case by simp
qed simp_all

section \<open>UTF-8\<close>

definition utf8_char :: "char \<Rightarrow> string" where
  "utf8_char c = (let n = code_of c in
     if n < 128 then [c] else [byte (192 + n div 64), byte (128 + n mod 64)])"

definition utf8_encode :: "string \<Rightarrow> string" where
  "utf8_encode s = concat (map utf8_char s)"

fun utf8_decode :: "string \<Rightarrow> string option" where
  "utf8_decode [] = Some []"
| "utf8_decode (c # s) =
     (if code_of c < 128 then map_option (Cons c) (utf8_decode s)
      else if code_of c = 194 \<or> code_of c = 195 then (case s of
          [] \<Rightarrow> None
        | d # r \<Rightarrow> if 128 \<le> code_of d \<and> code_of d < 192
            then map_option (Cons (byte ((code_of c - 192) * 64 + (code_of d - 128)))) (utf8_decode r)
            else None)
      else None)"

lemma code_byte: "n < 256 \<Longrightarrow> code_of (byte n) = n"
  by (simp add: code_of_def byte_def)

lemma utf8_decode_char: "utf8_decode (utf8_char c @ r) = map_option (Cons c) (utf8_decode r)"
proof (cases "code_of c < 128")
  case True
  then show ?thesis by (simp add: utf8_char_def)
next
  case False
  let ?n = "code_of c"
  have b: "?n < 256" by (rule code_bound)
  have "2 * 64 \<le> ?n" using False by simp
  then have "2 \<le> ?n div 64" by (simp add: less_eq_div_iff_mult_less_eq)
  with code_parts(3,6)[of c] have l: "192 + ?n div 64 \<in> {194, 195}" "128 + ?n mod 64 < 192"
    by auto
  have j: "(192 + ?n div 64 - 192) * 64 + (128 + ?n mod 64 - 128) = ?n" by simp
  have "utf8_char c = [byte (192 + ?n div 64), byte (128 + ?n mod 64)]"
    using False by (simp add: utf8_char_def Let_def)
  moreover have "code_of (byte (192 + ?n div 64)) = 192 + ?n div 64" "code_of (byte (128 + ?n mod 64)) = 128 + ?n mod 64"
    using l by (auto intro!: code_byte)
  ultimately show ?thesis using l j byte_code[of c] by auto
qed

interpretation utf8: codec utf8_encode utf8_decode
proof
  fix s show "utf8_decode (utf8_encode s) = Some s"
    by (induction s) (simp_all add: utf8_encode_def utf8_decode_char)
qed

lemma length_utf8: "length (utf8_encode s) = utf8_length s"
  by (induction s) (simp_all add: utf8_encode_def utf8_char_def Let_def)

section \<open>Plain text in JSON\<close>

text \<open>Characters that are written as they are.\<close>

definition plain_char :: "char \<Rightarrow> bool" where
  "plain_char c \<longleftrightarrow> 32 \<le> code_of c \<and> code_of c \<noteq> 34 \<and> code_of c \<noteq> 92"

lemma escape_plain: "plain_char c \<Longrightarrow> escape_char c = [c]"
  by (auto simp: plain_char_def escape_char_def Let_def)

lemma length_quote_plain: "list_all plain_char s \<Longrightarrow> length (quote s) = length s + 2"
  by (induction s) (simp_all add: quote_def escape_plain)

lemma plain_b64_char: "n < 64 \<Longrightarrow> plain_char (b64_char n)"
proof -
  have "list_all (\<lambda>n. plain_char (b64_char n)) [0..<64]" by code_simp
  then show "n < 64 \<Longrightarrow> plain_char (b64_char n)" by (simp add: list_all_iff)
qed

lemma plain_b64: "list_all plain_char (b64encode s)"
proof -
  have "plain_char pad_char" by (simp add: pad_char_def plain_char_def code_of_def)
  then show ?thesis
    by (induction s rule: b64encode.induct) (simp_all add: plain_b64_char sextet_bounds)
qed

end
