(* ===== verification/Secret_Vault.thy ===== *)
theory Secret_Vault
  imports Codec
begin

text \<open>
  Encrypted envelopes (\<^verbatim>\<open>platform_runtime/secret_vault.py\<close>). AES-256-GCM is third-party code:
  a pair of functions of the key, the nonce, the text and the associated data. The nonce
  \<^verbatim>\<open>os.urandom\<close> draws is an argument, and so are the two environment variables.
\<close>

definition MIN_KEY_RING :: nat where "MIN_KEY_RING = 1"
definition MAX_KEY_RING :: nat where "MAX_KEY_RING = 8"
definition KEY_BYTES :: nat where "KEY_BYTES = 32"
definition MAX_CONTEXT_BYTES :: nat where "MAX_CONTEXT_BYTES = 4096"
definition MAX_SEALED_BYTES :: nat where "MAX_SEALED_BYTES = 64000"
definition MAX_ENVELOPE_CHARS :: nat where "MAX_ENVELOPE_CHARS = 90000"
definition MAX_ENCODED_FIELD :: nat where "MAX_ENCODED_FIELD = 150000"
definition NONCE_BYTES :: nat where "NONCE_BYTES = 12"
definition ENVELOPE_FIELDS :: "string list" where
  "ENVELOPE_FIELDS = [''v'', ''kid'', ''nonce'', ''ciphertext'']"
definition ENVELOPE_VERSION :: int where "ENVELOPE_VERSION = 1"
definition AAD_FORMAT :: int where "AAD_FORMAT = 1"

definition VaultError :: exn_class where "VaultError = OtherError ''VaultError''"

record gcm =
  gcm_encrypt :: "string \<Rightarrow> string \<Rightarrow> string \<Rightarrow> string \<Rightarrow> string"
  gcm_decrypt :: "string \<Rightarrow> string \<Rightarrow> string \<Rightarrow> string \<Rightarrow> string option"

record vault =
  va_keys :: "(string \<times> string) list"
  va_active :: string

section \<open>The key ring\<close>

definition key_id_char :: "char \<Rightarrow> bool" where
  "key_id_char c \<longleftrightarrow> is_alnum c \<or> c = CHR ''_'' \<or> c = CHR ''-''"

definition key_id_ok :: "string \<Rightarrow> bool" where
  "key_id_ok k \<longleftrightarrow> 1 \<le> length k \<and> length k \<le> 64 \<and> list_all key_id_char k"

definition make_vault :: "(string \<times> string) list \<Rightarrow> string \<Rightarrow> vault res" where
  "make_vault keys active =
     (if \<not> (MIN_KEY_RING \<le> length keys \<and> length keys \<le> MAX_KEY_RING) \<or> active \<notin> set (map fst keys)
        then raise VaultError ''Configured encryption key ring required''
      else if list_ex (\<lambda>(k, v). \<not> key_id_ok k \<or> length v \<noteq> KEY_BYTES) keys
        then raise VaultError ''AES-256 key ring invalid''
      else if \<not> distinct (map snd keys) then raise VaultError ''Duplicate encryption keys denied''
      else Inr \<lparr>va_keys = keys, va_active = active\<rparr>)"

definition unb64 :: "json \<Rightarrow> string option" where
  "unb64 v = (case v of JStr t \<Rightarrow> (if length t > MAX_ENCODED_FIELD then None else b64decode t) | _ \<Rightarrow> None)"

fun decode_keys :: "fields \<Rightarrow> (string \<times> string) list option" where
  "decode_keys [] = Some []"
| "decode_keys ((k, v) # d) = (case unb64 v of
      None \<Rightarrow> None | Some b \<Rightarrow> map_option (Cons (k, b)) (decode_keys d))"

definition from_environment :: "(string \<Rightarrow> pyfloat) \<Rightarrow> string \<Rightarrow> string \<Rightarrow> vault res" where
  "from_environment rd keys_json active =
     (case loads_unique rd keys_json of
        Some (JObj d) \<Rightarrow> (case decode_keys d of
            Some keys \<Rightarrow> (case make_vault keys active of
                Inr v \<Rightarrow> Inr v | Inl _ \<Rightarrow> raise VaultError ''Encryption configuration unavailable'')
          | None \<Rightarrow> raise VaultError ''Encryption configuration unavailable'')
      | _ \<Rightarrow> raise VaultError ''Encryption configuration unavailable'')"

section \<open>Envelopes\<close>

definition vault_aad :: "json \<Rightarrow> string \<Rightarrow> string res" where
  "vault_aad context kid = (case context of
      JObj d \<Rightarrow>
        if d = [] then raise VaultError ''Bounded encryption context required''
        else bindr (encode context) (\<lambda>t.
          if length t > MAX_CONTEXT_BYTES then raise VaultError ''Bounded encryption context required''
          else bindr (encode (JObj [(''format'', JInt AAD_FORMAT), (''kid'', JStr kid), (''context'', context)]))
            (\<lambda>u. Inr (utf8_encode u)))
    | _ \<Rightarrow> raise VaultError ''Bounded encryption context required'')"

definition envelope_of :: "string \<Rightarrow> string \<Rightarrow> string \<Rightarrow> json" where
  "envelope_of kid nonce ciphertext = JObj [(''v'', JInt ENVELOPE_VERSION), (''kid'', JStr kid),
     (''nonce'', JStr (b64encode nonce)), (''ciphertext'', JStr (b64encode ciphertext))]"

definition seal_steps :: "gcm \<Rightarrow> string \<Rightarrow> vault \<Rightarrow> json \<Rightarrow> json \<Rightarrow> string res" where
  "seal_steps g nonce v value context = bindr (encode value) (\<lambda>t. let raw = utf8_encode t in
     if length raw > MAX_SEALED_BYTES then raise ValueError []
     else (case map_of (va_keys v) (va_active v) of
         None \<Rightarrow> raise KeyError (va_active v)
       | Some key \<Rightarrow> bindr (vault_aad context (va_active v)) (\<lambda>aad.
           encode (envelope_of (va_active v) nonce (gcm_encrypt g key nonce raw aad)))))"

text \<open>\<^verbatim>\<open>seal\<close>: only a refusal of the caller's own context is told apart.\<close>

definition vault_seal :: "gcm \<Rightarrow> string \<Rightarrow> vault \<Rightarrow> json \<Rightarrow> json \<Rightarrow> string res" where
  "vault_seal g nonce v value context = (case seal_steps g nonce v value context of
      Inr s \<Rightarrow> Inr s
    | Inl x \<Rightarrow> (if exn_class_of x = VaultError then Inl x
              else raise VaultError ''Secret encryption failed''))"

definition loads_bytes :: "(string \<Rightarrow> pyfloat) \<Rightarrow> string \<Rightarrow> json option" where
  "loads_bytes rd b = (case utf8_decode b of None \<Rightarrow> None | Some t \<Rightarrow> loads_unique rd t)"

definition ok_of :: "'a res \<Rightarrow> 'a option" where
  "ok_of r = (case r of Inl _ \<Rightarrow> None | Inr x \<Rightarrow> Some x)"

definition open_fields :: "gcm \<Rightarrow> (string \<Rightarrow> pyfloat) \<Rightarrow> vault \<Rightarrow> fields \<Rightarrow> json \<Rightarrow> json option" where
  "open_fields g rd v d context =
     (if set (jkeys d) \<noteq> set ENVELOPE_FIELDS \<or> jget d ''v'' \<noteq> JInt ENVELOPE_VERSION then None
      else (case (unb64 (jget d ''nonce''), jget d ''kid'') of
         (Some nonce, JStr kid) \<Rightarrow>
           (if length nonce \<noteq> NONCE_BYTES then None
            else (case (map_of (va_keys v) kid, unb64 (jget d ''ciphertext''), ok_of (vault_aad context kid)) of
               (Some key, Some ct, Some aad) \<Rightarrow> (case gcm_decrypt g key nonce ct aad of
                   None \<Rightarrow> None
                 | Some raw \<Rightarrow> (if length raw > MAX_SEALED_BYTES then None else loads_bytes rd raw))
             | _ \<Rightarrow> None))
       | _ \<Rightarrow> None))"

definition open_text :: "gcm \<Rightarrow> (string \<Rightarrow> pyfloat) \<Rightarrow> vault \<Rightarrow> json \<Rightarrow> json \<Rightarrow> json option" where
  "open_text g rd v envelope context = (case envelope of
      JStr s \<Rightarrow>
        (if length s > MAX_ENVELOPE_CHARS then None
         else (case loads_unique rd s of Some (JObj d) \<Rightarrow> open_fields g rd v d context | _ \<Rightarrow> None))
    | _ \<Rightarrow> None)"

definition vault_open :: "gcm \<Rightarrow> (string \<Rightarrow> pyfloat) \<Rightarrow> vault \<Rightarrow> json \<Rightarrow> json \<Rightarrow> json res" where
  "vault_open g rd v envelope context = (case open_text g rd v envelope context of
      Some value \<Rightarrow> Inr value | None \<Rightarrow> raise VaultError ''Secret authentication failed'')"

definition rewrap :: "gcm \<Rightarrow> (string \<Rightarrow> pyfloat) \<Rightarrow> string \<Rightarrow> vault \<Rightarrow> json \<Rightarrow> json \<Rightarrow> string res" where
  "rewrap g rd nonce v envelope context =
     bindr (vault_open g rd v envelope context) (\<lambda>value. vault_seal g nonce v value context)"

section \<open>Round trip\<close>

lemma plain_key_id: "key_id_ok k \<Longrightarrow> list_all plain_char k"
proof -
  have "key_id_char c \<Longrightarrow> plain_char c" for c
    by (auto simp: key_id_char_def plain_char_def char_class_defs)
  then show "key_id_ok k \<Longrightarrow> list_all plain_char k" by (auto simp: key_id_ok_def list_all_iff)
qed

lemma make_vault_ok:
  assumes "make_vault keys active = Inr v"
  shows "v = \<lparr>va_keys = keys, va_active = active\<rparr> \<and> key_id_ok active \<and> (\<exists>key. map_of keys active = Some key)"
proof -
  from assms have v: "v = \<lparr>va_keys = keys, va_active = active\<rparr>" "active \<in> set (map fst keys)"
    "\<not> list_ex (\<lambda>(k, v). \<not> key_id_ok k \<or> length v \<noteq> KEY_BYTES) keys"
    by (auto simp: make_vault_def split: if_split_asm)
  from v(2) obtain b where b: "(active, b) \<in> set keys" by auto
  with v(3) have "key_id_ok active" by (auto simp: list_ex_iff)
  moreover have "\<exists>key. map_of keys active = Some key" using b by (rule weak_map_of_SomeI)
  ultimately show ?thesis using v(1) by simp
qed

text \<open>The envelope as it is written: its keys in order, and its length.\<close>

lemma envelope_sorted:
  "ksort (envelope_of kid nonce ct) = JObj [(''ciphertext'', JStr (b64encode ct)), (''kid'', JStr kid),
     (''nonce'', JStr (b64encode nonce)), (''v'', JInt 1)]"
  by (simp add: envelope_of_def ENVELOPE_VERSION_def)

lemma envelope_length:
  assumes "encode (envelope_of kid nonce ct) = Inr s" and "list_all plain_char kid"
  shows "length s = 43 + length kid + length (b64encode nonce) + length (b64encode ct)"
proof -
  have k: "length (quote ''ciphertext'') = 12" "length (quote ''kid'') = 5" "length (quote ''nonce'') = 7"
    "length (quote ''v'') = 3" "length (show_int 1) = 1"
    by code_simp+
  have "s = jtext (ksort (envelope_of kid nonce ct))" using assms(1) by (simp add: encode_Inr dumps_jtext(1))
  then show ?thesis
    unfolding envelope_sorted by (simp add: k length_quote_plain assms(2) plain_b64)
qed


lemma vault_sealE:
  assumes "vault_seal g nonce v value context = Inr s"
  shows "\<exists>t key aad. encode value = Inr t \<and> length (utf8_encode t) \<le> MAX_SEALED_BYTES
    \<and> map_of (va_keys v) (va_active v) = Some key \<and> vault_aad context (va_active v) = Inr aad
    \<and> encode (envelope_of (va_active v) nonce (gcm_encrypt g key nonce (utf8_encode t) aad)) = Inr s"
proof -
  from assms have "seal_steps g nonce v value context = Inr s"
    by (auto simp: vault_seal_def split: sum.splits if_split_asm)
  then show ?thesis
    by (auto simp: seal_steps_def res_simps Let_def split: if_split_asm option.splits)
qed

lemma unb64_encoded: "length (b64encode x) \<le> MAX_ENCODED_FIELD \<Longrightarrow> unb64 (JStr (b64encode x)) = Some x"
  by (simp add: unb64_def b64.decodes)

lemma sealed_sizes:
  assumes "length raw \<le> MAX_SEALED_BYTES" and "length ct = length raw + 16" and "length nonce = NONCE_BYTES"
  shows "length (b64encode nonce) = 16" and "length (b64encode ct) \<le> 85356"
proof -
  show "length (b64encode nonce) = 16" using assms(3) by (simp add: length_b64encode NONCE_BYTES_def)
  have "(length ct + 2) div 3 \<le> (64018 :: nat) div 3"
    using assms(1,2) by (intro div_le_mono) (simp add: MAX_SEALED_BYTES_def)
  then show "length (b64encode ct) \<le> 85356" by (simp add: length_b64encode)
qed

text \<open>
  C27: A vault opens what it sealed. Let AES-GCM decrypt what it encrypts, with a 16-byte tag. A value
  sealed under the active key opens, in the same context and in every vault whose ring still holds
  that key under its name, to the same value with its keys in order, which Python considers equal;
  and no such envelope comes near the parse guard on envelopes.
\<close>

theorem vault_opens_what_it_sealed:
  assumes "make_vault keys active = Inr v" and "make_vault ring current = Inr w"
    and "map_of ring active = map_of keys active"
    and "\<forall>key n raw aad. gcm_decrypt g key n (gcm_encrypt g key n raw aad) aad = Some raw"
    and "\<forall>key n raw aad. length (gcm_encrypt g key n raw aad) = length raw + 16"
    and "vault_seal g nonce v value context = Inr s" and "length nonce = 12"
    and "readable rd value" and "unique_keys value"
  shows "vault_open g rd w (JStr s) context = Inr (ksort value) \<and> py_eq value (ksort value)
    \<and> length s \<le> 85479"
proof -
  note v = make_vault_ok[OF assms(1)] and w = make_vault_ok[OF assms(2)]
  from vault_sealE[OF assms(6)] v obtain t key aad where
    t: "encode value = Inr t" "length (utf8_encode t) \<le> MAX_SEALED_BYTES" "map_of keys active = Some key"
      "vault_aad context active = Inr aad"
    and s: "encode (envelope_of active nonce (gcm_encrypt g key nonce (utf8_encode t) aad)) = Inr s"
    by auto
  define ct where "ct = gcm_encrypt g key nonce (utf8_encode t) aad"
  have n: "length nonce = NONCE_BYTES" using assms(7) by (simp add: NONCE_BYTES_def)
  have "length ct = length (utf8_encode t) + 16" using assms(5) by (simp add: ct_def)
  note sizes = sealed_sizes[OF t(2) this n]
  have "length active \<le> 64" using v by (simp add: key_id_ok_def)
  with envelope_length[OF s plain_key_id] v sizes have len: "length s \<le> 85479"
    unfolding ct_def[symmetric] by simp
  have "readable rd (envelope_of active nonce ct)" "unique_keys (envelope_of active nonce ct)"
    by (simp_all add: envelope_of_def ENVELOPE_VERSION_def show_nat.simps)
  with s have "loads_unique rd s = Some (ksort (envelope_of active nonce ct))"
    unfolding ct_def[symmetric] by (rule loads_unique_encode)
  moreover have "open_fields g rd w [(''ciphertext'', JStr (b64encode ct)), (''kid'', JStr active),
     (''nonce'', JStr (b64encode nonce)), (''v'', JInt 1)] context = Some (ksort value)"
  proof -
    have "unb64 (JStr (b64encode nonce)) = Some nonce" "unb64 (JStr (b64encode ct)) = Some ct"
      using sizes by (simp_all add: unb64_encoded MAX_ENCODED_FIELD_def)
    moreover have "loads_bytes rd (utf8_encode t) = Some (ksort value)"
      using loads_unique_encode[OF t(1) assms(8,9)] by (simp add: loads_bytes_def utf8.decodes)
    moreover have "gcm_decrypt g key nonce ct aad = Some (utf8_encode t)" using assms(4) by (simp add: ct_def)
    moreover have "map_of (va_keys w) active = Some key" using w assms(3) t(3) by simp
    moreover have "set (jkeys [(''ciphertext'', JStr (b64encode ct)), (''kid'', JStr active),
       (''nonce'', JStr (b64encode nonce)), (''v'', JInt 1)]) = set ENVELOPE_FIELDS"
      by (auto simp: jkeys_def ENVELOPE_FIELDS_def)
    ultimately show ?thesis
      using t(2,4) n by (simp add: open_fields_def jget_def ENVELOPE_VERSION_def ok_of_def)
  qed
  ultimately have "open_text g rd w (JStr s) context = Some (ksort value)"
    using len by (simp add: open_text_def envelope_sorted MAX_ENVELOPE_CHARS_def)
  then show ?thesis using len py_eq_ksort by (simp add: vault_open_def)
qed

text \<open>A concrete cipher with the two laws: the text with a 16-byte tag of the associated data's length.\<close>

definition demo_tag :: "string \<Rightarrow> string" where
  "demo_tag aad = replicate 16 (byte (length aad mod 256))"

definition demo_gcm :: gcm where
  "demo_gcm = \<lparr>gcm_encrypt = (\<lambda>key n raw aad. demo_tag aad @ raw),
     gcm_decrypt = (\<lambda>key n ct aad. if take 16 ct = demo_tag aad then Some (drop 16 ct) else None)\<rparr>"

definition demo_ring :: "(string \<times> string) list" where
  "demo_ring = [(''k1'', replicate 32 (CHR ''a'')), (''k2'', replicate 32 (CHR ''b''))]"

definition demo_context :: json where "demo_context = JObj [(''tenant'', JStr ''t'')]"

definition demo_secret :: json where
  "demo_secret = JObj [(''token'', JStr ''s3cret''), (''expires'', JInt 3600)]"

lemma demo_sealed:
  "is_ok (make_vault demo_ring ''k1'')" "is_ok (make_vault demo_ring ''k2'')"
  "is_ok (vault_seal demo_gcm (replicate 12 (CHR ''n'')) \<lparr>va_keys = demo_ring, va_active = ''k1''\<rparr> demo_secret demo_context)"
  by code_simp+

lemma vault_opens_what_it_sealed_witness:
  "\<exists>s. vault_seal demo_gcm (replicate 12 (CHR ''n'')) \<lparr>va_keys = demo_ring, va_active = ''k1''\<rparr> demo_secret demo_context
        = Inr s
     \<and> vault_open demo_gcm (\<lambda>t. NaN) \<lparr>va_keys = demo_ring, va_active = ''k2''\<rparr> (JStr s) demo_context
        = Inr (JObj [(''expires'', JInt 3600), (''token'', JStr ''s3cret'')])"
proof -
  have v: "make_vault demo_ring k = Inr \<lparr>va_keys = demo_ring, va_active = k\<rparr>" if "is_ok (make_vault demo_ring k)" for k
    using that by (auto simp: make_vault_def split: if_split_asm)
  obtain s where s: "vault_seal demo_gcm (replicate 12 (CHR ''n'')) \<lparr>va_keys = demo_ring, va_active = ''k1''\<rparr>
      demo_secret demo_context = Inr s"
    using demo_sealed(3) by (cases "vault_seal demo_gcm (replicate 12 (CHR ''n''))
      \<lparr>va_keys = demo_ring, va_active = ''k1''\<rparr> demo_secret demo_context") auto
  have laws: "\<forall>key n raw aad. gcm_decrypt demo_gcm key n (gcm_encrypt demo_gcm key n raw aad) aad = Some raw"
    "\<forall>key n raw aad. length (gcm_encrypt demo_gcm key n raw aad) = length raw + 16"
    by (simp_all add: demo_gcm_def demo_tag_def)
  have r: "readable (\<lambda>t. NaN) demo_secret" "unique_keys demo_secret"
    "ksort demo_secret = JObj [(''expires'', JInt 3600), (''token'', JStr ''s3cret'')]"
    by (simp add: demo_secret_def show_nat.simps, simp add: demo_secret_def, simp add: demo_secret_def)
  have "vault_open demo_gcm (\<lambda>t. NaN) \<lparr>va_keys = demo_ring, va_active = ''k2''\<rparr> (JStr s) demo_context
      = Inr (ksort demo_secret)"
    using vault_opens_what_it_sealed[OF v[OF demo_sealed(1)] v[OF demo_sealed(2)] refl laws s _ r(1,2)]
    by simp
  then show ?thesis unfolding r(3) using s by (intro exI conjI)
qed

end
