(* ===== verification/Erp_Fields.thy ===== *)
theory Erp_Fields
  imports Regex Codec Json_Reader Conversation_Text Engine_Policy
begin

text \<open>
  What a posting into the customer's ERP may carry (\<^verbatim>\<open>platform_runtime/erp.py\<close>, first half): the
  tenant's declared target, the fields of a document and their checks, the operator's registers and
  the request body. The configuration of the tenant and the process environment are arguments.
\<close>

section \<open>Constants\<close>

definition MAX_NOTE_CHARS :: nat where "MAX_NOTE_CHARS = 500"
definition MAX_AMOUNT_MINOR :: int where "MAX_AMOUNT_MINOR = 10 ^ 15"

definition REQUIRED_FIELDS :: "string list" where
  "REQUIRED_FIELDS = [''supplier'', ''number'', ''doc_date'', ''currency'', ''total_minor'',
     ''account'', ''counterparty'']"

definition DRIVERS :: "string list" where "DRIVERS = [''onec_http'', ''custom_http'']"

definition NOT_DEFINITIVE_4XX :: "int list" where "NOT_DEFINITIVE_4XX = [408, 409, 425, 429]"

definition RESERVED_HEADERS :: "string list" where
  "RESERVED_HEADERS = [''authorization'', ''content-type'', ''content-length'', ''host'', ''cookie'',
     ''transfer-encoding'', ''connection'']"

definition lower_alnum :: "char \<Rightarrow> bool" where
  "lower_alnum c \<longleftrightarrow> is_lower c \<or> is_digit c"

definition ENV_REF_RE :: pattern where
  "ENV_REF_RE = Cat (Chars is_upper)
     (Cat (Rep (Chars (\<lambda>c. is_upper c \<or> is_digit c \<or> c = CHR ''_'')) 0 None) AtEnd)"

definition host_label :: pattern where
  "host_label = Cat (Chars lower_alnum)
     (Rep (Cat (Rep (Chars (\<lambda>c. lower_alnum c \<or> c = CHR ''-'')) 0 (Some 61)) (Chars lower_alnum)) 0 (Some 1))"

definition HOST_RE :: pattern where
  "HOST_RE = Cat host_label (Cat (Rep (Cat (one_of ''.'') host_label) 1 None) AtEnd)"

definition HEADER_NAME_RE :: pattern where
  "HEADER_NAME_RE = Cat (Chars (\<lambda>c. is_upper c \<or> is_lower c))
     (Cat (Rep (Chars (\<lambda>c. is_alnum c \<or> c = CHR ''-'')) 0 (Some 63)) AtEnd)"

definition ALIAS_RE :: pattern where
  "ALIAS_RE = Cat (Chars lower_alnum)
     (Rep (Chars (\<lambda>c. lower_alnum c \<or> c \<in> {CHR ''_'', CHR ''.'', CHR ''-''})) 0 (Some 63))"

definition re_match_start :: "pattern \<Rightarrow> string \<Rightarrow> bool" where
  "re_match_start p s = re_match_at p s 0"

section \<open>Request paths\<close>

definition CUSTOM_HTTP_PLACEHOLDERS :: "string list" where
  "CUSTOM_HTTP_PLACEHOLDERS = [''query'', ''phone'', ''email'', ''lead_id'', ''contact_id'', ''limit'',
     ''minutes'', ''since'']"

definition PLACEHOLDER :: pattern where
  "PLACEHOLDER = Cat (one_of ''{'') (Cat (Grp 1 (Rep (Chars (\<lambda>c. c \<noteq> CHR ''}'')) 0 None)) (one_of ''}''))"

definition path_tokens :: "string \<Rightarrow> string list" where
  "path_tokens path = map (\<lambda>m. mt_group m 1) (re_finditer PLACEHOLDER path)"

definition safe_relative_path :: "string \<Rightarrow> string \<Rightarrow> nat \<Rightarrow> string res" where
  "safe_relative_path v name maximum =
     (if v = [] then raise ValueError (name @ '' must be a non-empty string'')
      else let path = py_strip v in
        if \<not> py_startswith ''/'' path then raise ValueError (name @ '' must be an absolute path beginning with /'')
        else if length path > maximum
          then raise ValueError (name @ '' exceeds '' @ show_nat maximum @ '' characters'')
        else if py_startswith ''//'' path
          then raise ValueError (name @ '' must not be protocol-relative (//)'')
        else if CHR 0x5C \<in> set path \<or> py_contains ''..'' path \<or> py_contains ''//'' path
          then raise ValueError (name @ '' contains traversal or separator characters'')
        else if \<exists>c \<in> set path. code_of c < 32 \<or> py_isspace c \<or> c = CHR 0x22 \<or> c = CHR 0x27
          then raise ValueError (name @ '' contains control, space or quote characters'')
        else if CHR '':'' \<in> set path then raise ValueError (name @ '' must not contain a scheme or port'')
        else if CHR ''#'' \<in> set path then raise ValueError (name @ '' must not contain a fragment'')
        else case find (\<lambda>k. k \<notin> set CUSTOM_HTTP_PLACEHOLDERS) (path_tokens path) of
            Some k \<Rightarrow> raise ValueError (name @ '' uses unsupported placeholder {'' @ k @ ''}'')
          | None \<Rightarrow>
              if count_list path (CHR ''{'') \<noteq> count_list path (CHR ''}'')
                then raise ValueError (name @ '' has unbalanced placeholder braces'')
              else Inr path)"

definition clean_path :: "string \<Rightarrow> string \<Rightarrow> string res" where
  "clean_path v name = (if v = [] then Inr [] else safe_relative_path v name 256)"

definition slashes_off :: "string \<Rightarrow> string" where
  "slashes_off s = (let t = rev (dropWhile (\<lambda>c. c = CHR ''/'') (rev s)) in if t = [] then ''/'' else t)"

section \<open>The declared target\<close>

record erp_settings =
  es_driver :: string
  es_enabled :: bool
  es_host :: string
  es_base_path :: string
  es_timeout :: int
  es_auth :: string
  es_credential :: string
  es_post_path :: string
  es_search_path :: string
  es_response_map :: fields
  es_accounts :: "(string \<times> string) list"
  es_counterparties :: "(string \<times> string) list"
  es_auto_submit :: bool
  es_header :: string

definition no_erp :: erp_settings where
  "no_erp = \<lparr>es_driver = [], es_enabled = False, es_host = [], es_base_path = [], es_timeout = 0,
     es_auth = [], es_credential = [], es_post_path = [], es_search_path = [], es_response_map = [],
     es_accounts = [], es_counterparties = [], es_auto_submit = False, es_header = []\<rparr>"

definition erp_keys :: "string list" where
  "erp_keys = [''driver'', ''enabled'', ''host'', ''base_path'', ''timeout_seconds'', ''auth'',
     ''credential_env'', ''token_env'', ''basic_auth_env'', ''post_path'', ''search_path'',
     ''response_map'', ''accounts'', ''counterparties'', ''allow_auto_submit'', ''idempotency_header'']"

definition alias_entry :: "string \<Rightarrow> string \<times> json \<Rightarrow> (string \<times> string) res" where
  "alias_entry name kv =
     (if \<not> re_fullmatch ALIAS_RE (fst kv)
        then raise ValueError (''erp_posting.'' @ name @ '' has an invalid alias: '' @ repr_str (fst kv))
      else case snd kv of
          JStr t \<Rightarrow> if t = [] \<or> length t > 64
              then raise ValueError (''erp_posting.'' @ name @ ''.'' @ fst kv @ '' must be a bounded string'')
              else Inr (fst kv, t)
        | _ \<Rightarrow> raise ValueError (''erp_posting.'' @ name @ ''.'' @ fst kv @ '' must be a bounded string''))"

definition erp_mapping :: "json \<Rightarrow> string \<Rightarrow> (string \<times> string) list res" where
  "erp_mapping v name = (case v of
      JNull \<Rightarrow> Inr []
    | JObj d \<Rightarrow> each (alias_entry name) d
    | _ \<Rightarrow> raise ValueError (''erp_posting.'' @ name @ '' must be an object''))"

definition bool_field :: "json \<Rightarrow> string \<Rightarrow> bool res" where
  "bool_field v name = (case v of
      JBool b \<Rightarrow> Inr b | _ \<Rightarrow> raise ValueError (name @ '' must be a boolean''))"

definition path_field :: "fields \<Rightarrow> string \<Rightarrow> string res" where
  "path_field raw name = (case jget_or raw name (JStr []) of
      JStr p \<Rightarrow> bindr (clean_path p (''erp_posting.'' @ name)) (\<lambda>_. Inr p)
    | _ \<Rightarrow> raise ValueError (''erp_posting.'' @ name @ '' must be a string''))"

definition base_path_field :: "fields \<Rightarrow> string res" where
  "base_path_field raw = (case jget_or raw ''base_path'' (JStr ''/'') of
      JStr p \<Rightarrow> bindr (clean_path (slashes_off p) ''erp_posting.base_path'') (\<lambda>q. Inr (slashes_off q))
    | _ \<Rightarrow> raise ValueError ''erp_posting.base_path must be a string'')"

definition auth_field :: "fields \<Rightarrow> (string \<times> string) res" where
  "auth_field raw = (case jget_or raw ''auth'' (JStr ''bearer'') of
      JStr mode \<Rightarrow>
        if mode \<noteq> ''bearer'' \<and> mode \<noteq> ''basic''
          then raise ValueError ''erp_posting.auth must be bearer or basic''
        else let key = (if mode = ''basic'' then ''basic_auth_env'' else ''token_env'');
               ref = or_else (jget raw key) (jget raw ''credential_env'') in
          (case ref of
              JStr r \<Rightarrow> if re_match_start ENV_REF_RE r then Inr (mode, r)
                else raise ValueError (''erp_posting.'' @ key @ '' must be an environment variable reference'')
            | _ \<Rightarrow> raise ValueError (''erp_posting.'' @ key @ '' must be an environment variable reference''))
    | JList _ \<Rightarrow> raise TypeError ''unhashable type''
    | JObj _ \<Rightarrow> raise TypeError ''unhashable type''
    | _ \<Rightarrow> raise ValueError ''erp_posting.auth must be bearer or basic'')"

definition header_field :: "fields \<Rightarrow> string res" where
  "header_field raw = (case jget_or raw ''idempotency_header'' (JStr ''Idempotency-Key'') of
      JStr h \<Rightarrow>
        if h \<noteq> [] \<and> (\<not> re_match_start HEADER_NAME_RE h \<or> map to_lower h \<in> set RESERVED_HEADERS)
          then raise ValueError ''erp_posting.idempotency_header must be a plain header name other than Authorization/Content-Type/Host, or empty''
        else Inr h
    | _ \<Rightarrow> raise ValueError ''erp_posting.idempotency_header must be a plain header name other than Authorization/Content-Type/Host, or empty'')"

definition host_field :: "fields \<Rightarrow> string res" where
  "host_field raw = (case jget raw ''host'' of
      JStr h \<Rightarrow> if re_match_start HOST_RE h then Inr h
        else raise ValueError ''erp_posting.host must be a bare lowercase hostname''
    | _ \<Rightarrow> raise ValueError ''erp_posting.host must be a bare lowercase hostname'')"

definition timeout_field :: "fields \<Rightarrow> int res" where
  "timeout_field raw = (case jget_or raw ''timeout_seconds'' (JInt 15) of
      JInt n \<Rightarrow> if 1 \<le> n \<and> n \<le> 60 then Inr n
        else raise ValueError ''erp_posting.timeout_seconds must be an integer 1..60''
    | _ \<Rightarrow> raise ValueError ''erp_posting.timeout_seconds must be an integer 1..60'')"

definition driver_field :: "fields \<Rightarrow> string res" where
  "driver_field raw = (case jget raw ''driver'' of
      JStr d \<Rightarrow> if d \<in> set DRIVERS then Inr d
        else raise ValueError ''erp_posting driver must be one of the declared drivers''
    | _ \<Rightarrow> raise ValueError ''erp_posting driver must be one of the declared drivers'')"

definition response_map_field :: "fields \<Rightarrow> fields res" where
  "response_map_field raw = (case jget_or raw ''response_map'' (JObj []) of
      JObj d \<Rightarrow> Inr d | _ \<Rightarrow> raise ValueError ''erp_posting.response_map must be an object'')"

text \<open>\<^verbatim>\<open>erp_config\<close>, over the \<^verbatim>\<open>erp_posting\<close> value of the tenant's configuration.\<close>

definition erp_config :: "json \<Rightarrow> erp_settings res" where
  "erp_config v = (case v of
      JNull \<Rightarrow> Inr no_erp
    | JObj raw \<Rightarrow>
        if \<not> set (jkeys raw) \<subseteq> set erp_keys then raise ValueError ''erp_posting has unsupported keys''
        else bindr (driver_field raw) (\<lambda>driver.
          bindr (bool_field (jget_or raw ''enabled'' (JBool False)) ''erp_posting.enabled'') (\<lambda>enabled.
          bindr (host_field raw) (\<lambda>host. bindr (base_path_field raw) (\<lambda>base.
          bindr (timeout_field raw) (\<lambda>timeout. bindr (auth_field raw) (\<lambda>auth.
          bindr (path_field raw ''post_path'') (\<lambda>post. bindr (path_field raw ''search_path'') (\<lambda>search.
          bindr (response_map_field raw) (\<lambda>rmap.
          bindr (erp_mapping (jget raw ''accounts'') ''accounts'') (\<lambda>accounts.
          bindr (erp_mapping (jget raw ''counterparties'') ''counterparties'') (\<lambda>parties.
          bindr (bool_field (jget_or raw ''allow_auto_submit'' (JBool False)) ''erp_posting.allow_auto_submit'') (\<lambda>auto.
          bindr (header_field raw) (\<lambda>header.
            Inr \<lparr>es_driver = driver, es_enabled = enabled, es_host = host, es_base_path = base,
              es_timeout = timeout, es_auth = fst auth, es_credential = snd auth, es_post_path = post,
              es_search_path = search, es_response_map = rmap, es_accounts = accounts,
              es_counterparties = parties, es_auto_submit = auto, es_header = header\<rparr>)))))))))))))
    | _ \<Rightarrow> raise ValueError ''erp_posting must be an object'')"

section \<open>Fields of a document\<close>

text \<open>\<^verbatim>\<open>_text\<close>, required or optional.\<close>

definition missing_text :: "string \<Rightarrow> bool \<Rightarrow> string res" where
  "missing_text name required =
     (if required then raise ErpError (name @ '' is required for a posting and the document did not carry it'')
      else Inr [])"

definition erp_text :: "json \<Rightarrow> string \<Rightarrow> nat \<Rightarrow> bool \<Rightarrow> string res" where
  "erp_text v name maximum required =
     (if v = JNull \<or> v = JStr [] then missing_text name required
      else let text = py_strip (py_str v) in
        if text = [] then missing_text name required
        else if length text > maximum
          then raise ErpError (name @ '' exceeds '' @ show_nat maximum @ '' characters'')
        else Inr text)"

text \<open>\<^verbatim>\<open>cells.is_ascii_digit_run\<close>.\<close>

definition is_ascii_digit_run :: "string \<Rightarrow> bool" where
  "is_ascii_digit_run text \<longleftrightarrow> text \<noteq> [] \<and> list_all is_digit text"

definition leap_year :: "nat \<Rightarrow> bool" where
  "leap_year y \<longleftrightarrow> y mod 4 = 0 \<and> (y mod 100 \<noteq> 0 \<or> y mod 400 = 0)"

definition month_days :: "nat \<Rightarrow> nat \<Rightarrow> nat" where
  "month_days y m = (if m = 2 then (if leap_year y then 29 else 28)
     else if m \<in> {4, 6, 9, 11} then 30 else 31)"

definition real_date :: "nat \<Rightarrow> nat \<Rightarrow> nat \<Rightarrow> bool" where
  "real_date y m d \<longleftrightarrow> 1 \<le> m \<and> m \<le> 12 \<and> 1 \<le> d \<and> d \<le> 31 \<and> 1900 \<le> y \<and> y \<le> 2999 \<and> d \<le> month_days y m"

text \<open>\<^verbatim>\<open>f'{n:0wd}'\<close>.\<close>

definition zero_pad :: "nat \<Rightarrow> nat \<Rightarrow> string" where
  "zero_pad w n = (let t = show_nat n in replicate (w - length t) (CHR ''0'') @ t)"

definition iso_text :: "nat \<Rightarrow> nat \<Rightarrow> nat \<Rightarrow> string" where
  "iso_text y m d = zero_pad 4 y @ ''-'' @ zero_pad 2 m @ ''-'' @ zero_pad 2 d"

definition ISO_DATE :: pattern where
  "ISO_DATE = Cat (Grp 1 (Rep digit 4 (Some 4))) (Cat (one_of ''-'')
     (Cat (Grp 2 (Rep digit 2 (Some 2))) (Cat (one_of ''-'') (Grp 3 (Rep digit 2 (Some 2))))))"

definition TRIPLE_DATE :: pattern where
  "TRIPLE_DATE = Cat (Grp 1 (Rep digit 1 (Some 2))) (Cat (one_of ''./-'')
     (Cat (Grp 2 (Rep digit 1 (Some 2))) (Cat (one_of ''./-'') (Grp 3 (Rep digit 4 (Some 4))))))"

text \<open>The groups of \<^verbatim>\<open>re.fullmatch\<close> as numbers.\<close>

definition date_groups :: "pattern \<Rightarrow> string \<Rightarrow> (nat \<times> nat \<times> nat) option" where
  "date_groups p s = (case find (\<lambda>(_, a, _). a = []) (ends p ([], s, [])) of
      None \<Rightarrow> None
    | Some (_, _, g) \<Rightarrow> (let part = (\<lambda>i. digits_value (case map_of g i of None \<Rightarrow> [] | Some t \<Rightarrow> t)) in
        Some (part 1, part 2, part 3)))"

definition triple_date :: "string \<Rightarrow> nat \<times> nat \<times> nat \<Rightarrow> string res" where
  "triple_date text parts = (case parts of (first, second, year) \<Rightarrow>
     bindr (if first > 12 \<and> second \<le> 12 then Inr (first, second)
            else if second > 12 \<and> first \<le> 12 then Inr (second, first)
            else if first > 12
              then raise ErpError (''doc_date '' @ repr_str text @ '' names no month: both parts are greater than 12'')
            else raise ErpError (''doc_date '' @ repr_str text @ '' is ambiguous: both parts could be a month''))
       (\<lambda>(day, month). if real_date year month day then Inr (iso_text year month day)
          else raise ErpError (''doc_date '' @ repr_str text @ '' is not a real calendar date'')))"

definition erp_date :: "json \<Rightarrow> string res" where
  "erp_date v = bindr (erp_text v ''doc_date'' 32 True) (\<lambda>text.
     if \<not> is_ascii_digit_run (filter (\<lambda>c. c \<notin> {CHR ''-'', CHR ''.'', CHR ''/''}) text)
       then raise ErpError (''doc_date '' @ repr_str text @ '' is not written in ASCII digits'')
     else case date_groups ISO_DATE text of
         Some (y, m, d) \<Rightarrow> if real_date y m d then Inr text
           else raise ErpError (''doc_date '' @ repr_str text @ '' is not a real calendar date'')
       | None \<Rightarrow> (case date_groups TRIPLE_DATE text of
             Some parts \<Rightarrow> triple_date text parts
           | None \<Rightarrow> raise ErpError (''doc_date '' @ repr_str text @ '' is unsupported'')))"

definition erp_amount :: "json \<Rightarrow> int res" where
  "erp_amount v = (case v of
      JInt n \<Rightarrow> if 0 \<le> n \<and> n \<le> MAX_AMOUNT_MINOR then Inr n
        else raise ErpError (''total_minor must be between 0 and '' @ show_int MAX_AMOUNT_MINOR)
    | _ \<Rightarrow> raise ErpError ''total_minor must be an integer count of minor units'')"

definition erp_currency :: "json \<Rightarrow> string res" where
  "erp_currency v = bindr (erp_text v ''currency'' 8 True) (\<lambda>t.
     if length t = 3 \<and> list_all is_upper t then Inr t
     else raise ErpError ''currency must be a three-letter code such as UZS'')"

section \<open>Resolution\<close>

record posting =
  po_driver :: string
  po_supplier :: string
  po_number :: string
  po_date :: string
  po_currency :: string
  po_total :: int
  po_account :: string
  po_counterparty :: string

text \<open>
  A field is absent (\<open>None\<close>) or checked; an alias is absent or read from the operator's register.
\<close>

definition doc_field :: "fields \<Rightarrow> string \<Rightarrow> (json \<Rightarrow> 'a res) \<Rightarrow> 'a option res" where
  "doc_field d name f = (let v = jget d name in
     if v = JNull \<or> v = JStr [] then Inr None else bindr (f v) (\<lambda>x. Inr (Some x)))"

definition register_field ::
  "(string \<times> string) list \<Rightarrow> string \<Rightarrow> json \<Rightarrow> string option res" where
  "register_field table name v = bindr (erp_text v name 64 False) (\<lambda>key.
     if key = [] then Inr None
     else case map_of table key of
         None \<Rightarrow> raise ErpError (name @ '' alias '' @ repr_str key @ '' is not declared by the operator'')
       | Some t \<Rightarrow> Inr (Some t))"

definition erp_ready :: "erp_settings \<Rightarrow> unit res" where
  "erp_ready c =
     (if es_driver c = [] then raise Forbidden ''ERP posting is not configured for this tenant''
      else if \<not> es_enabled c then raise Forbidden ''ERP posting is disabled for this tenant''
      else Inr ())"

definition absent_fields :: "(string \<times> bool) list \<Rightarrow> string list" where
  "absent_fields xs = map fst (filter snd xs)"

definition assemble ::
  "erp_settings \<Rightarrow> string option \<Rightarrow> string option \<Rightarrow> string option \<Rightarrow> string option \<Rightarrow> int option
     \<Rightarrow> string option \<Rightarrow> string option \<Rightarrow> posting res" where
  "assemble c supplier number date currency amount acc party =
     (case (supplier, number, date, currency, amount, acc, party) of
        (Some s, Some n, Some dt, Some cur, Some t, Some a, Some p) \<Rightarrow>
          Inr \<lparr>po_driver = es_driver c, po_supplier = s, po_number = n, po_date = dt,
            po_currency = cur, po_total = t, po_account = a, po_counterparty = p\<rparr>
      | _ \<Rightarrow> raise ErpError (''refusing to post an incomplete document: ''
           @ py_join '', '' (sort (absent_fields
               [(''supplier'', supplier = None), (''number'', number = None), (''doc_date'', date = None),
                (''currency'', currency = None), (''total_minor'', amount = None),
                (''account'', acc = None), (''counterparty'', party = None)]))))"

definition resolve_posting :: "erp_settings \<Rightarrow> json \<Rightarrow> json \<Rightarrow> json \<Rightarrow> posting res" where
  "resolve_posting c document account counterparty =
     bindr (erp_ready c) (\<lambda>_. case document of
       JObj d \<Rightarrow>
         bindr (doc_field d ''supplier'' (\<lambda>v. erp_text v ''supplier'' 200 True)) (\<lambda>supplier.
         bindr (doc_field d ''number'' (\<lambda>v. erp_text v ''number'' 200 True)) (\<lambda>number.
         bindr (doc_field d ''doc_date'' erp_date) (\<lambda>date.
         bindr (doc_field d ''currency'' erp_currency) (\<lambda>currency.
         bindr (doc_field d ''total_minor'' erp_amount) (\<lambda>total.
         bindr (register_field (es_accounts c) ''account'' account) (\<lambda>acc.
         bindr (register_field (es_counterparties c) ''counterparty'' counterparty) (\<lambda>party.
           assemble c supplier number date currency total acc party)))))))
     | _ \<Rightarrow> raise ErpError ''document must be an object'')"

section \<open>The request\<close>

definition posting_body :: "posting \<Rightarrow> json \<Rightarrow> fields res" where
  "posting_body p note = bindr (erp_text note ''note'' MAX_NOTE_CHARS False) (\<lambda>comment.
     Inr (filter (\<lambda>kv. snd kv \<noteq> JStr [])
       [(''document_type'', JStr ''invoice''), (''counterparty'', JStr (po_counterparty p)),
        (''account'', JStr (po_account p)), (''document_number'', JStr (po_number p)),
        (''document_date'', JStr (po_date p)), (''amount'', JInt (po_total p)),
        (''currency'', JStr (po_currency p)), (''counterparty_name'', JStr (po_supplier p)),
        (''comment'', JStr comment)]))"

text \<open>\<^verbatim>\<open>_dig\<close>: a dotted pointer of at most four segments, through dictionaries only.\<close>

fun split_dots :: "string \<Rightarrow> string list" where
  "split_dots [] = [[]]"
| "split_dots (c # s) = (if c = CHR ''.'' then [] # split_dots s
     else case split_dots s of [] \<Rightarrow> [[c]] | w # ws \<Rightarrow> (c # w) # ws)"

fun dig_path :: "nat \<Rightarrow> string list \<Rightarrow> json \<Rightarrow> json option" where
  "dig_path fuel [] v = Some v"
| "dig_path 0 (k # ks) v = None"
| "dig_path (Suc n) (k # ks) v = (case obj_get v k of None \<Rightarrow> None | Some w \<Rightarrow> dig_path n ks w)"

definition erp_dig :: "json \<Rightarrow> json \<Rightarrow> json \<Rightarrow> json" where
  "erp_dig v pointer otherwise = (case pointer of
      JStr p \<Rightarrow> if p = [] then otherwise
        else (case dig_path 4 (split_dots p) v of
            None \<Rightarrow> otherwise | Some JNull \<Rightarrow> otherwise | Some w \<Rightarrow> w)
    | _ \<Rightarrow> otherwise)"

text \<open>\<^verbatim>\<open>_auth_headers\<close>; \<open>environ\<close> is the process environment, empty for an unset name.\<close>

definition before_colon :: "string \<Rightarrow> string" where
  "before_colon s = takeWhile (\<lambda>c. c \<noteq> CHR '':'') s"

definition after_colon :: "string \<Rightarrow> string" where
  "after_colon s = drop (Suc (length (before_colon s))) s"

definition credential :: "(string \<Rightarrow> string) \<Rightarrow> string \<Rightarrow> string res" where
  "credential environ ref =
     (if \<not> re_match_start ENV_REF_RE ref
        then raise ValueError ''credential_env must be an environment variable reference''
      else if environ ref = []
        then raise RuntimeError (''Missing ERP credential in environment variable '' @ ref)
      else Inr (environ ref))"

definition auth_headers :: "(string \<Rightarrow> string) \<Rightarrow> erp_settings \<Rightarrow> (string \<times> string) list res" where
  "auth_headers environ c = bindr (credential environ (es_credential c)) (\<lambda>raw.
     if es_auth c = ''basic'' then
       (if CHR '':'' \<notin> set raw \<or> before_colon raw = [] \<or> after_colon raw = []
          then raise ValueError ''ERP basic credential must be user:password''
        else Inr [(''Authorization'', ''Basic '' @ b64encode (utf8_encode raw))])
     else Inr [(''Authorization'', ''Bearer '' @ py_strip raw)])"

text \<open>\<^verbatim>\<open>urllib.parse.urlencode\<close> of string values.\<close>

definition quote_char :: "char \<Rightarrow> string" where
  "quote_char c = (let n = code_of c; hex = (\<lambda>i. to_upper (hex_char i)) in
     if is_alnum c \<or> n \<in> {45, 46, 95, 126} then [c]
     else if n = 32 then ''+''
     else [CHR 0x25, hex (n div 16), hex (n mod 16)])"

definition quote_plus :: "string \<Rightarrow> string" where
  "quote_plus s = concat (map quote_char (utf8_encode s))"

definition erp_url :: "erp_settings \<Rightarrow> string \<Rightarrow> string" where
  "erp_url c path = ''https://'' @ es_host c @ es_base_path c @ path"

definition search_query :: "posting \<Rightarrow> string" where
  "search_query p = ''number='' @ quote_plus (po_number p)
     @ ''&counterparty='' @ quote_plus (po_counterparty p)"

text \<open>\<^verbatim>\<open>_json_arg\<close>; \<open>loads\<close> reads JSON text, \<open>None\<close> when it does not parse.\<close>

definition json_arg :: "(string \<Rightarrow> json option) \<Rightarrow> fields \<Rightarrow> string \<Rightarrow> bool \<Rightarrow> json res" where
  "json_arg loads args key required = (let v = jget args key in
     if v = JNull \<or> v = JStr []
       then (if required then raise ValueError (key @ '' is required'') else Inr JNull)
     else case v of
         JObj d \<Rightarrow> Inr v
       | JStr t \<Rightarrow> (case loads t of
             None \<Rightarrow> raise ValueError (key @ '' must be valid JSON'')
           | Some (JObj d) \<Rightarrow> Inr (JObj d)
           | Some w \<Rightarrow> raise ValueError (key @ '' must be a JSON object''))
       | _ \<Rightarrow> raise ValueError (key @ '' must be a JSON object''))"

end
