(* ===== verification/Erp_Ledger.thy ===== *)
theory Erp_Ledger
  imports Erp_Fields
begin

text \<open>
  The posting ledger (\<^verbatim>\<open>platform_runtime/erp.py\<close>, the table \<^verbatim>\<open>p_erp_postings\<close>): one
  transaction per definition. A row claims its document unless the posting failed; the unique indices
  of the table are the check of \<open>insert_posting\<close>.
\<close>

section \<open>Identity\<close>

type_synonym doc_identity = "string \<times> string \<times> string \<times> string"

definition identity_of :: "posting \<Rightarrow> doc_identity" where
  "identity_of p = (po_driver p, ''invoice'', po_supplier p, po_number p)"

definition row_identity :: "posting_row \<Rightarrow> doc_identity" where
  "row_identity r = (ep_driver r, ep_kind r, ep_supplier r, ep_number r)"

definition claim_text :: "doc_identity \<Rightarrow> string" where
  "claim_text k = (case k of (driver, kind, supplier, number) \<Rightarrow>
     driver @ ''|'' @ kind @ ''|'' @ supplier @ ''|'' @ number)"

definition claim_key :: "posting \<Rightarrow> string" where
  "claim_key p = claim_text (identity_of p)"

definition CLAIMING_STATUSES :: "posting_status list" where
  "CLAIMING_STATUSES = [PsPosted, PsSkipped, PsPosting, PsUncertain, PsUnconfirmed]"

definition UNKNOWN_STATUSES :: "posting_status list" where
  "UNKNOWN_STATUSES = [PsUncertain, PsUnconfirmed]"

definition RESERVATION_STALE_SECONDS :: int where "RESERVATION_STALE_SECONDS = 180"

lemma claiming_iff: "st \<in> set CLAIMING_STATUSES \<longleftrightarrow> st \<noteq> PsFailed"
  by (cases st) (simp_all add: CLAIMING_STATUSES_def)

fun posting_status_text :: "posting_status \<Rightarrow> string" where
  "posting_status_text PsPosting = ''posting''"
| "posting_status_text PsPosted = ''posted''"
| "posting_status_text PsSkipped = ''skipped_existing''"
| "posting_status_text PsUncertain = ''uncertain''"
| "posting_status_text PsUnconfirmed = ''unconfirmed''"
| "posting_status_text PsFailed = ''failed''"

definition idempotency_key :: "env \<Rightarrow> string \<Rightarrow> posting \<Rightarrow> nat \<Rightarrow> string" where
  "idempotency_key e tenant p attempt =
     take 24 (sha256hex e (py_join [CHR 0x1F]
       [tenant, po_driver p, ''invoice'', po_supplier p, po_number p, show_nat attempt]))"

section \<open>Reads\<close>

definition of_document :: "string \<Rightarrow> doc_identity \<Rightarrow> posting_row \<Rightarrow> bool" where
  "of_document tenant k r \<longleftrightarrow> ep_tenant r = tenant \<and> row_identity r = k"

definition find_claiming :: "db \<Rightarrow> string \<Rightarrow> doc_identity \<Rightarrow> posting_row option" where
  "find_claiming s tenant k =
     find (\<lambda>r. of_document tenant k r \<and> ep_status r \<in> set CLAIMING_STATUSES) (postings s)"

definition posted :: "db \<Rightarrow> string \<Rightarrow> posting \<Rightarrow> posting_row option" where
  "posted s tenant p = find_claiming s tenant (identity_of p)"

definition ledger_rows :: "db \<Rightarrow> string \<Rightarrow> string \<Rightarrow> posting_row list" where
  "ledger_rows s tenant document = filter (\<lambda>r. ep_tenant r = tenant
     \<and> (document = [] \<or> ep_document r = document)) (postings s)"

text \<open>\<^verbatim>\<open>ledger_page\<close>: the newest rows, how many there are, and whether any was left out.\<close>

definition ledger_page ::
  "db \<Rightarrow> string \<Rightarrow> nat \<Rightarrow> string \<Rightarrow> posting_row list \<times> nat \<times> bool" where
  "ledger_page s tenant limit document =
     (let all = ledger_rows s tenant document;
          rows = take limit (sort_key (\<lambda>r. - ep_created r) all) in
      (rows, length all, length all > length rows))"

section \<open>Transactions\<close>

definition insert_posting :: "posting_row \<Rightarrow> db \<Rightarrow> db option" where
  "insert_posting row s =
     (if \<exists>r \<in> set (postings s). ep_tenant r = ep_tenant row
           \<and> (ep_id r = ep_id row \<or> (ep_claim row \<noteq> None \<and> ep_claim r = ep_claim row))
      then None else Some (s\<lparr>postings := postings s @ [row]\<rparr>))"

definition upd_postings ::
  "(posting_row \<Rightarrow> bool) \<Rightarrow> (posting_row \<Rightarrow> posting_row) \<Rightarrow> db \<Rightarrow> db" where
  "upd_postings P f s = s\<lparr>postings := upd_where P f (postings s)\<rparr>"

definition outlived :: "int \<Rightarrow> string \<Rightarrow> posting_row \<Rightarrow> bool" where
  "outlived now tenant r \<longleftrightarrow> ep_tenant r = tenant \<and> ep_status r = PsPosting
     \<and> ep_created r \<le> now - RESERVATION_STALE_SECONDS"

definition recover_postings :: "int \<Rightarrow> string \<Rightarrow> db \<Rightarrow> nat \<times> db" where
  "recover_postings now tenant s =
     (length (filter (outlived now tenant) (postings s)),
      upd_postings (outlived now tenant)
        (\<lambda>r. r\<lparr>ep_status := PsUncertain,
               ep_response := dumps (JObj [(''error'', JStr ''reservation_expired'')])\<rparr>) s)"

text \<open>The columns a row takes from a posting.\<close>

definition new_posting :: "string \<Rightarrow> posting \<Rightarrow> string \<Rightarrow> string \<Rightarrow> posting_row" where
  "new_posting tenant p rid document = \<lparr>ep_tenant = tenant, ep_id = rid, ep_document = document,
     ep_driver = po_driver p, ep_kind = ''invoice'', ep_supplier = po_supplier p,
     ep_number = po_number p, ep_currency = po_currency p, ep_total = po_total p, ep_external = [],
     ep_status = PsPosting, ep_request = [], ep_response = [], ep_plan = [], ep_created = 0,
     ep_settled = None, ep_claim = Some (claim_key p)\<rparr>"

text \<open>\<^verbatim>\<open>_record\<close>, as \<^verbatim>\<open>submit\<close> calls it: the ERP held the document already.\<close>

definition record_existing ::
  "env \<Rightarrow> int \<Rightarrow> string \<Rightarrow> posting \<Rightarrow> string \<Rightarrow> fields \<Rightarrow> string \<Rightarrow> db \<Rightarrow> (string \<times> db) res" where
  "record_existing e now tenant p document plan external s =
     (let rid = take 24 (fresh e s) in
      bindr (require_active e s tenant) (\<lambda>_.
      bindr (encode (JObj [(''existing_id'', JStr external)])) (\<lambda>response.
      bindr (encode (JObj plan)) (\<lambda>plan_text.
        case insert_posting ((new_posting tenant p rid document)\<lparr>ep_external := external,
            ep_status := PsSkipped, ep_request := dumps (JObj []), ep_response := response,
            ep_plan := plan_text, ep_created := now\<rparr>) (drawn s) of
          None \<Rightarrow> raise Conflict (''document '' @ po_supplier p @ ''/'' @ po_number p
            @ '' has already been posted to '' @ po_driver p @ ''; refusing a second posting'')
        | Some t \<Rightarrow> Inr (rid, t)))))"

definition attempts :: "db \<Rightarrow> string \<Rightarrow> posting \<Rightarrow> nat" where
  "attempts s tenant p = length (filter (of_document tenant (identity_of p)) (postings s))"

text \<open>\<^verbatim>\<open>_reserve\<close>.\<close>

definition reserve_posting ::
  "env \<Rightarrow> int \<Rightarrow> string \<Rightarrow> posting \<Rightarrow> string \<Rightarrow> fields \<Rightarrow> fields \<Rightarrow> db \<Rightarrow> (string \<times> db) res" where
  "reserve_posting e now tenant p document plan request s =
     bindr (require_active e s tenant) (\<lambda>_.
       let rid = idempotency_key e tenant p (attempts s tenant p) in
       bindr (encode (JObj request)) (\<lambda>request_text. bindr (encode (JObj plan)) (\<lambda>plan_text.
         case insert_posting ((new_posting tenant p rid document)\<lparr>ep_request := request_text,
             ep_plan := plan_text, ep_created := now\<rparr>) s of
           None \<Rightarrow> raise Conflict (''document '' @ po_supplier p @ ''/'' @ po_number p
             @ '' is already being posted to '' @ po_driver p @ ''; refusing a concurrent posting'')
         | Some t \<Rightarrow> Inr (rid, t))))"

text \<open>\<^verbatim>\<open>_finish\<close>.\<close>

definition awaiting :: "string \<Rightarrow> string \<Rightarrow> posting_row \<Rightarrow> bool" where
  "awaiting tenant rid r \<longleftrightarrow> ep_tenant r = tenant \<and> ep_id r = rid
     \<and> (ep_status r = PsPosting \<or> ep_status r = PsUncertain)"

definition finished ::
  "int \<Rightarrow> posting_status \<Rightarrow> string \<Rightarrow> string \<Rightarrow> posting_row \<Rightarrow> posting_row" where
  "finished now status external response r =
     r\<lparr>ep_status := status, ep_external := external, ep_response := response, ep_settled := Some now,
       ep_claim := (if status = PsFailed then None else ep_claim r)\<rparr>"

definition finish_posting ::
  "int \<Rightarrow> string \<Rightarrow> string \<Rightarrow> posting_status \<Rightarrow> string \<Rightarrow> json \<Rightarrow> db \<Rightarrow> db res" where
  "finish_posting now tenant rid status external response s =
     bindr (encode response) (\<lambda>text.
       Inr (upd_postings (awaiting tenant rid) (finished now status external text) s))"

section \<open>The owner's verdict\<close>

definition MAX_RECONCILE_EVIDENCE_CHARS :: nat where "MAX_RECONCILE_EVIDENCE_CHARS = 500"
definition MAX_EXTERNAL_ID_CHARS :: nat where "MAX_EXTERNAL_ID_CHARS = 128"

record owner_verdict =
  vd_posting :: string
  vd_actor :: string
  vd_role :: string
  vd_outcome :: string
  vd_evidence :: string
  vd_external :: string

definition verdict_check :: "owner_verdict \<Rightarrow> posting_status res" where
  "verdict_check v =
     (if vd_role v \<noteq> ''owner'' \<and> vd_role v \<noteq> ''super-admin'' then raise Forbidden ''Owner required''
      else if vd_outcome v \<noteq> ''posted'' \<and> vd_outcome v \<noteq> ''failed''
        then raise ValueError ''outcome must be posted or failed''
      else if blank (vd_evidence v) \<or> length (vd_evidence v) > MAX_RECONCILE_EVIDENCE_CHARS
        then raise ValueError ''Evidence required, maximum 500 characters''
      else if vd_outcome v = ''posted''
          \<and> (blank (vd_external v) \<or> length (vd_external v) > MAX_EXTERNAL_ID_CHARS)
        then raise ValueError ''a posted verdict needs the ERP document id (max 128 characters)''
      else Inr (if vd_outcome v = ''posted'' then PsPosted else PsFailed))"

definition undecided :: "string \<Rightarrow> string \<Rightarrow> posting_row \<Rightarrow> bool" where
  "undecided tenant rid r \<longleftrightarrow> ep_tenant r = tenant \<and> ep_id r = rid
     \<and> ep_status r \<in> set UNKNOWN_STATUSES"

definition decided_row :: "int \<Rightarrow> posting_status \<Rightarrow> string \<Rightarrow> posting_row \<Rightarrow> posting_row" where
  "decided_row now status external r =
     r\<lparr>ep_status := status, ep_external := (if status = PsPosted then py_strip external else []),
       ep_settled := Some now,
       ep_claim := (if status = PsPosted then Some (claim_text (row_identity r)) else None)\<rparr>"

definition reconcile_tx :: "env \<Rightarrow> int \<Rightarrow> string \<Rightarrow> posting_status \<Rightarrow> owner_verdict \<Rightarrow> db \<Rightarrow> db res" where
  "reconcile_tx e now tenant status v s =
     bindr (require_authority e tenant ''web'' (vd_actor v) [''owner'']) (\<lambda>_.
       case find (undecided tenant (vd_posting v)) (postings s) of
         None \<Rightarrow> raise Conflict ''Posting is not in an unknown state''
       | Some row \<Rightarrow>
           let new = decided_row now status (vd_external v) row in
           if \<exists>r \<in> set (postings s). ep_tenant r = tenant \<and> ep_id r \<noteq> vd_posting v
               \<and> ep_claim new \<noteq> None \<and> ep_claim r = ep_claim new
             then raise Conflict ''another row already claims this document''
           else Inr (audit now tenant [] ''erp.posting_reconciled'' (vd_actor v)
             [(''posting'', JStr (vd_posting v)), (''from'', JStr (posting_status_text (ep_status row))),
              (''outcome'', JStr (vd_outcome v)), (''evidence'', JStr (take 500 (vd_evidence v)))]
             (upd_postings (\<lambda>r. ep_tenant r = tenant \<and> ep_id r = vd_posting v)
               (decided_row now status (vd_external v)) s)))"

text \<open>The expired reservations are recovered, and that is committed, before the verdict is taken.\<close>

definition reconcile_posting ::
  "env \<Rightarrow> int \<Rightarrow> int \<Rightarrow> string \<Rightarrow> owner_verdict \<Rightarrow> db \<Rightarrow> (string \<times> string) res \<times> db" where
  "reconcile_posting e n1 n2 tenant v s = (case verdict_check v of
      Inl x \<Rightarrow> (Inl x, s)
    | Inr status \<Rightarrow> (let s1 = snd (recover_postings n1 tenant s) in
        case reconcile_tx e n2 tenant status v s1 of
          Inl x \<Rightarrow> (Inl x, s1)
        | Inr t \<Rightarrow> (Inr (posting_status_text status,
            if status = PsPosted then py_strip (vd_external v) else []), t)))"

end
