(* ===== verification/Erp_Posting.thy ===== *)
theory Erp_Posting
  imports Erp_Ledger
begin

text \<open>
  Posting one document (\<^verbatim>\<open>platform_runtime/erp.py\<close>, \<^verbatim>\<open>submit\<close> and its tool handlers): the
  ledger, the ERP's own answer, the reservation, the POST and its outcome, in the order of the code.
  The transport is a function from requests to replies; a reply is a decoded answer or an exception
  with the provider's HTTP status, where there was one.
\<close>

section \<open>Requests and replies\<close>

record erp_request =
  rq_method :: string
  rq_url :: string
  rq_headers :: "(string \<times> string) list"
  rq_body :: json
  rq_timeout :: int

type_synonym erp_reply = "(exn \<times> int option) + json"

definition MAX_RESPONSE_BYTES :: nat where "MAX_RESPONSE_BYTES = 80000"

text \<open>What the HTTP library gives \<^verbatim>\<open>default_erp_transport\<close>: an answer with its bytes, an
  \<^verbatim>\<open>HTTPError\<close>, or any other failure.\<close>

datatype wire = Answered int string | HttpError int | WireDown

definition transport_failure :: erp_reply where
  "transport_failure = Inl (Exn ErpError ''ERP transport failure'', None)"

definition read_reply :: "(string \<Rightarrow> json option) \<Rightarrow> wire \<Rightarrow> erp_reply" where
  "read_reply loads w = (case w of
      HttpError code \<Rightarrow> Inl (Exn ErpError (''ERP HTTP status '' @ show_int code), Some code)
    | WireDown \<Rightarrow> transport_failure
    | Answered status raw \<Rightarrow>
        if status = 204 then Inr (JObj [])
        else if length raw > MAX_RESPONSE_BYTES
          then Inl (Exn ErpError ''ERP response exceeded maximum allowed bytes (80KB)'', None)
        else if raw = [] then Inr (JObj [])
        else (case utf8_decode raw of
            None \<Rightarrow> transport_failure
          | Some text \<Rightarrow> (case loads text of None \<Rightarrow> transport_failure | Some v \<Rightarrow> Inr v)))"

text \<open>\<^verbatim>\<open>_definitive_refusal\<close>.\<close>

definition definitive_refusal :: "exn \<times> int option \<Rightarrow> bool" where
  "definitive_refusal x \<longleftrightarrow> exn_class_of (fst x) = ErpError
     \<and> (case snd x of None \<Rightarrow> False
        | Some code \<Rightarrow> 400 \<le> code \<and> code < 500 \<and> code \<notin> set NOT_DEFINITIVE_4XX)"

section \<open>Asking the ERP\<close>

definition search_error :: "posting \<Rightarrow> exn \<Rightarrow> exn" where
  "search_error p x =
     (if catches [RuntimeError, ValueError] x
      then (if exn_class_of x = RuntimeError \<or> exn_class_of x = ValueError then x
            else Exn ErpError (exn_text x))
      else Exn ErpError (''could not ask the ERP whether '' @ repr_str (po_number p)
        @ '' is already posted ('' @ exn_name (exn_class_of x) @ '')''))"

definition held_in :: "fields \<Rightarrow> json \<Rightarrow> string option" where
  "held_in rmap answer =
     (let existing = erp_dig answer (jget_or rmap ''existing_id'' (JStr ''id'')) JNull in
      if truthy existing then Some (py_str existing)
      else case erp_dig answer (jget_or rmap ''items'' (JStr ''items'')) JNull of
          JList (x # _) \<Rightarrow> Some (py_str (or_else (erp_dig x (JStr ''id'') x) (JStr ''found'')))
        | _ \<Rightarrow> None)"

definition search_request ::
  "erp_settings \<Rightarrow> (string \<times> string) list \<Rightarrow> posting \<Rightarrow> erp_request" where
  "search_request c headers p = \<lparr>rq_method = ''GET'',
     rq_url = erp_url c (es_search_path c) @ ''?'' @ search_query p, rq_headers = headers,
     rq_body = JNull, rq_timeout = es_timeout c\<rparr>"

definition find_posted ::
  "(string \<Rightarrow> string) \<Rightarrow> erp_settings \<Rightarrow> posting \<Rightarrow> (erp_request \<Rightarrow> erp_reply) \<Rightarrow> string option res" where
  "find_posted environ c p transport = bindr (auth_headers environ c) (\<lambda>headers.
     if es_search_path c = [] then Inr None
     else case transport (search_request c headers p) of
         Inl x \<Rightarrow> Inl (search_error p (fst x))
       | Inr (JObj d) \<Rightarrow> Inr (held_in (es_response_map c) (JObj d))
       | Inr v \<Rightarrow> raise ErpError ''ERP search response was not an object'')"

section \<open>Phases of a submission\<close>

record job =
  j_tenant :: string
  j_settings :: erp_settings
  j_posting :: posting
  j_document :: string
  j_plan :: fields
  j_note :: json

definition already :: "posting \<Rightarrow> posting_row \<Rightarrow> exn" where
  "already p r = Exn Conflict (''document '' @ po_supplier p @ ''/'' @ po_number p @
     (if ep_status r = PsPosting
        then '' is in flight: posting '' @ ep_id r @ '' was reserved and its ERP answer has not arrived''
      else if ep_status r \<in> set UNKNOWN_STATUSES
        then '' has a posting whose outcome is unknown (idempotency key '' @ ep_id r @ '')''
      else '' was already posted by this platform; refusing a second posting''))"

definition submit_gate :: "int \<Rightarrow> job \<Rightarrow> db \<Rightarrow> unit res \<times> db" where
  "submit_gate now j s = (case erp_ready (j_settings j) of
      Inl x \<Rightarrow> (Inl x, s)
    | Inr _ \<Rightarrow> (let s1 = snd (recover_postings now (j_tenant j) s) in
        case posted s1 (j_tenant j) (j_posting j) of
          Some r \<Rightarrow> (Inl (already (j_posting j) r), s1)
        | None \<Rightarrow> (Inr (), s1)))"

definition submit_existing :: "env \<Rightarrow> int \<Rightarrow> job \<Rightarrow> string \<Rightarrow> db \<Rightarrow> (fields \<times> db) res" where
  "submit_existing e now j external s =
     bindr (record_existing e now (j_tenant j) (j_posting j) (j_document j) (j_plan j) external s)
       (\<lambda>(rid, t). Inr ([(''posted'', JBool False), (''duplicate'', JBool True),
          (''reason'', JStr ''already_in_erp''), (''external_id'', JStr external),
          (''posting_id'', JStr rid)], t))"

text \<open>Everything that can fail without I/O fails before the reservation.\<close>

definition prepare_post ::
  "(string \<Rightarrow> string) \<Rightarrow> job \<Rightarrow> (fields \<times> (string \<times> string) list) res" where
  "prepare_post environ j = bindr (posting_body (j_posting j) (j_note j)) (\<lambda>body.
     if es_post_path (j_settings j) = [] then raise Forbidden ''erp_posting.post_path is not declared''
     else bindr (auth_headers environ (j_settings j)) (\<lambda>headers. Inr (body, headers)))"

definition set_header ::
  "string \<Rightarrow> string \<Rightarrow> (string \<times> string) list \<Rightarrow> (string \<times> string) list" where
  "set_header name v hs = (if name \<in> fst ` set hs
     then map (\<lambda>kv. if fst kv = name then (name, v) else kv) hs else hs @ [(name, v)])"

definition post_request ::
  "job \<Rightarrow> fields \<Rightarrow> (string \<times> string) list \<Rightarrow> string \<Rightarrow> erp_request" where
  "post_request j body headers rid = (let c = j_settings j in
     \<lparr>rq_method = ''POST'', rq_url = erp_url c (es_post_path c),
      rq_headers = (if es_header c = [] then headers else set_header (es_header c) rid headers),
      rq_body = JObj body, rq_timeout = es_timeout c\<rparr>)"

definition submit_reserve ::
  "env \<Rightarrow> int \<Rightarrow> (string \<Rightarrow> string) \<Rightarrow> job \<Rightarrow> db \<Rightarrow> (string \<times> erp_request \<times> db) res" where
  "submit_reserve e now environ j s = bindr (prepare_post environ j) (\<lambda>(body, headers).
     bindr (reserve_posting e now (j_tenant j) (j_posting j) (j_document j) (j_plan j) body s)
       (\<lambda>(rid, t). Inr (rid, post_request j body headers rid, t)))"

definition CREATED_KEYS :: "string list" where
  "CREATED_KEYS = [''id'', ''Ref_Key'', ''Number'', ''document_id'']"

definition created_id :: "fields \<Rightarrow> json \<Rightarrow> json" where
  "created_id rmap response =
     (let declared = erp_dig response (jget_or rmap ''created_id'' (JStr [])) JNull in
      if truthy declared then declared
      else case response of
          JObj d \<Rightarrow> (case find (\<lambda>k. truthy (jget d k)) CREATED_KEYS of
              Some k \<Rightarrow> jget d k | None \<Rightarrow> JNull)
        | _ \<Rightarrow> JNull)"

definition posted_answer :: "job \<Rightarrow> string \<Rightarrow> string \<Rightarrow> fields" where
  "posted_answer j external rid = (let p = j_posting j in
     [(''posted'', JBool True), (''duplicate'', JBool False), (''external_id'', JStr external),
      (''posting_id'', JStr rid),
      (''document'', JObj [(''supplier'', JStr (po_supplier p)), (''number'', JStr (po_number p)),
         (''date'', JStr (po_date p)), (''currency'', JStr (po_currency p)),
         (''total_minor'', JInt (po_total p))]),
      (''moves_money'', JBool False)])"

definition error_note :: "exn \<times> int option \<Rightarrow> json" where
  "error_note x = JObj [(''error'', JStr (exn_name (exn_class_of (fst x)))),
     (''status'', case snd x of None \<Rightarrow> JNull | Some code \<Rightarrow> JInt code)]"

text \<open>The outcome a reply stands for, with the ERP's identifier and what is stored.\<close>

definition outcome_of :: "fields \<Rightarrow> erp_reply \<Rightarrow> posting_status \<times> string \<times> json" where
  "outcome_of rmap reply = (case reply of
      Inl x \<Rightarrow> (if definitive_refusal x then PsFailed else PsUncertain, [], error_note x)
    | Inr response \<Rightarrow> (let external = created_id rmap response in
        if truthy external then (PsPosted, py_str external, response)
        else (PsUnconfirmed, [], response)))"

definition unconfirmed_error :: exn where
  "unconfirmed_error = Exn Conflict ''ERP accepted the posting but returned no document identifier''"

definition submit_settle ::
  "int \<Rightarrow> job \<Rightarrow> string \<Rightarrow> erp_reply \<Rightarrow> db \<Rightarrow> fields res \<times> db" where
  "submit_settle now j rid reply s =
     (case outcome_of (es_response_map (j_settings j)) reply of (status, external, note) \<Rightarrow>
        (case finish_posting now (j_tenant j) rid status external note s of
           Inl y \<Rightarrow> (Inl y, s)
         | Inr t \<Rightarrow> (case reply of
               Inl x \<Rightarrow> (Inl (fst x), t)
             | Inr _ \<Rightarrow> (if status = PsPosted then Inr (posted_answer j external rid)
                 else Inl unconfirmed_error, t))))"

text \<open>\<^verbatim>\<open>submit\<close>; the three times are those of its transactions.\<close>

definition submit_posting ::
  "env \<Rightarrow> (string \<Rightarrow> string) \<Rightarrow> (erp_request \<Rightarrow> erp_reply) \<Rightarrow> int \<times> int \<times> int \<Rightarrow> job \<Rightarrow> db
     \<Rightarrow> fields res \<times> db" where
  "submit_posting e environ transport stamps j s = (case stamps of (n1, n2, n3) \<Rightarrow>
     (case submit_gate n1 j s of
        (Inl x, s1) \<Rightarrow> (Inl x, s1)
      | (Inr _, s1) \<Rightarrow> (case find_posted environ (j_settings j) (j_posting j) transport of
            Inl x \<Rightarrow> (Inl x, s1)
          | Inr (Some (c # cs)) \<Rightarrow> (case submit_existing e n2 j (c # cs) s1 of
                Inl x \<Rightarrow> (Inl x, s1) | Inr (answer, t) \<Rightarrow> (Inr answer, t))
          | Inr _ \<Rightarrow> (case submit_reserve e n2 environ j s1 of
                Inl x \<Rightarrow> (Inl x, s1)
              | Inr (rid, request, s2) \<Rightarrow> submit_settle n3 j rid (transport request) s2))))"

section \<open>Tool handlers\<close>

definition tool_allowed :: "env \<Rightarrow> string \<Rightarrow> string \<Rightarrow> string \<Rightarrow> unit res" where
  "tool_allowed e tenant agent tool = bindr (policy_of e tenant agent) (\<lambda>p.
     if tool \<in> set (p_tools p) then Inr () else raise Forbidden (tool @ '' not permitted for agent''))"

definition existing_json :: "posting_row \<Rightarrow> json" where
  "existing_json r = JObj [(''id'', JStr (ep_id r)), (''external_id'', JStr (ep_external r)),
     (''status'', JStr (posting_status_text (ep_status r))), (''created'', JInt (ep_created r)),
     (''settled'', case ep_settled r of None \<Rightarrow> JNull | Some t \<Rightarrow> JInt t)]"

definition prepare_reason :: "posting_row option \<Rightarrow> string" where
  "prepare_reason found = (case found of
      None \<Rightarrow> []
    | Some r \<Rightarrow> if ep_status r = PsPosted \<or> ep_status r = PsSkipped then ''already posted by this platform''
        else ''a posting of this document is '' @ posting_status_text (ep_status r)
          @ ''; nothing may be sent until it is answered or the owner reconciles it'')"

text \<open>
  \<^verbatim>\<open>_prepare_tool\<close>: \<open>config\<close> is the \<^verbatim>\<open>erp_posting\<close> block of the tenant and \<open>approver\<close> the
  \<^verbatim>\<open>approver_role\<close> of its document block.
\<close>

definition resolve_args :: "json \<Rightarrow> json \<Rightarrow> fields \<Rightarrow> posting res" where
  "resolve_args config document args = bindr (erp_config config) (\<lambda>c.
     resolve_posting c document (jget_or args ''account'' (JStr [])) (jget_or args ''counterparty'' (JStr [])))"

definition prepare_answer ::
  "erp_settings \<Rightarrow> posting \<Rightarrow> json \<Rightarrow> json \<Rightarrow> posting_row option \<Rightarrow> fields res" where
  "prepare_answer c p note approver found = bindr (posting_body p note) (\<lambda>body.
     Inr [(''ready'', JBool (found = None)), (''reason'', JStr (prepare_reason found)),
       (''driver'', JStr (es_driver c)), (''would_send'', JObj body),
       (''ledger'', case found of None \<Rightarrow> JNull | Some r \<Rightarrow> existing_json r),
       (''in_erp'', if found \<noteq> None then JNull
          else JStr ''not checked (use erp.posting_submit to check)''),
       (''approver_role'', approver)])"

definition prepare_tool ::
  "env \<Rightarrow> (string \<Rightarrow> json option) \<Rightarrow> json \<Rightarrow> json \<Rightarrow> int \<Rightarrow> string \<Rightarrow> string \<Rightarrow> fields \<Rightarrow> db \<Rightarrow> fields res \<times> db" where
  "prepare_tool e loads config approver now tenant agent args s =
     (case bindr (tool_allowed e tenant agent ''erp.posting_prepare'') (\<lambda>_. json_arg loads args ''document'' True) of
        Inl x \<Rightarrow> (Inl x, s)
      | Inr document \<Rightarrow> (case resolve_args config document args of
            Inl x \<Rightarrow> (if exn_class_of x = ErpError
              then Inr [(''ready'', JBool False), (''reason'', JStr (exn_text x)), (''driver'', JStr []),
                 (''would_send'', JNull), (''ledger'', JNull), (''in_erp'', JNull)]
              else Inl x, s)
          | Inr p \<Rightarrow> (let s1 = snd (recover_postings now tenant s) in
              (bindr (erp_config config) (\<lambda>c. prepare_answer c p (jget_or args ''note'' (JStr [])) approver
                 (posted s1 tenant p)), s1))))"

definition plan_fields :: "json \<Rightarrow> fields" where
  "plan_fields v = (case v of JObj d \<Rightarrow> d | _ \<Rightarrow> [])"

definition submit_args ::
  "env \<Rightarrow> (string \<Rightarrow> json option) \<Rightarrow> json \<Rightarrow> string \<Rightarrow> string \<Rightarrow> fields \<Rightarrow> job res" where
  "submit_args e loads config tenant agent args =
     bindr (tool_allowed e tenant agent ''erp.posting_submit'') (\<lambda>_.
     bindr (json_arg loads args ''document'' True) (\<lambda>document.
     bindr (resolve_args config document args) (\<lambda>p.
     bindr (json_arg loads args ''plan'' False) (\<lambda>plan. bindr (erp_config config) (\<lambda>c.
       Inr \<lparr>j_tenant = tenant, j_settings = c, j_posting = p,
            j_document = py_str (jget_or args ''document_id'' (JStr [])), j_plan = plan_fields plan,
            j_note = jget_or args ''note'' (JStr [])\<rparr>)))))"

definition submit_tool ::
  "env \<Rightarrow> (string \<Rightarrow> json option) \<Rightarrow> (string \<Rightarrow> string) \<Rightarrow> (erp_request \<Rightarrow> erp_reply) \<Rightarrow> json
     \<Rightarrow> int \<times> int \<times> int \<Rightarrow> string \<Rightarrow> string \<Rightarrow> fields \<Rightarrow> db \<Rightarrow> fields res \<times> db" where
  "submit_tool e loads environ transport config stamps tenant agent args s =
     (case submit_args e loads config tenant agent args of
        Inl x \<Rightarrow> (Inl x, s)
      | Inr j \<Rightarrow> submit_posting e environ transport stamps j s)"

definition status_limit :: "fields \<Rightarrow> nat res" where
  "status_limit args = (case jget_or args ''limit'' (JInt 20) of
      JNull \<Rightarrow> Inr 20
    | JInt n \<Rightarrow> Inr (nat (min (max 1 n) 200))
    | _ \<Rightarrow> raise ValueError ''limit must be an integer'')"

definition ledger_json :: "posting_row \<Rightarrow> json" where
  "ledger_json r = JObj [(''id'', JStr (ep_id r)), (''document'', JStr (ep_document r)),
     (''driver'', JStr (ep_driver r)), (''kind'', JStr (ep_kind r)), (''supplier'', JStr (ep_supplier r)),
     (''number'', JStr (ep_number r)), (''currency'', JStr (ep_currency r)),
     (''total_minor'', JInt (ep_total r)), (''external_id'', JStr (ep_external r)),
     (''status'', JStr (posting_status_text (ep_status r))), (''created'', JInt (ep_created r)),
     (''settled'', case ep_settled r of None \<Rightarrow> JNull | Some t \<Rightarrow> JInt t)]"

definition status_tool ::
  "env \<Rightarrow> json \<Rightarrow> int \<Rightarrow> string \<Rightarrow> string \<Rightarrow> fields \<Rightarrow> db \<Rightarrow> fields res \<times> db" where
  "status_tool e config now tenant agent args s =
     (case bindr (tool_allowed e tenant agent ''erp.posting_status'') (\<lambda>_.
         bindr (status_limit args) (\<lambda>n. bindr (erp_config config) (\<lambda>c. Inr (n, c)))) of
        Inl x \<Rightarrow> (Inl x, s)
      | Inr (limit, c) \<Rightarrow> (let s1 = snd (recover_postings now tenant s) in
          case ledger_page s1 tenant limit (py_str (jget_or args ''document_id'' (JStr []))) of
            (rows, population, truncated) \<Rightarrow>
              (Inr [(''driver'', JStr (es_driver c)), (''enabled'', JBool (es_enabled c)),
                 (''postings'', JList (map ledger_json rows)), (''count'', JInt (int population)),
                 (''returned'', JInt (int (length rows))), (''truncated'', JBool truncated)], s1)))"

end
