(* ===== verification/Erp_System.thy ===== *)
theory Erp_System
  imports Erp_Posting Contracts
begin

text \<open>
  Every interleaving of submissions, crashes, recoveries and verdicts on the posting ledger. A process
  that has reserved a posting may send it once, or die; the worlds keep the reservations not yet sent
  and the POSTs that left. The abstract machine says what one document can be and which event moves it.
\<close>

section \<open>Tables\<close>

lemma postings_frames [simp]:
  "postings (drawn s) = postings s"
  "postings (audit now tenant task action actor fs s) = postings s"
  "postings (upd_postings P f s) = upd_where P f (postings s)"
  by (simp_all add: drawn_def audit_def upd_postings_def)

definition posting_key :: "posting_row \<Rightarrow> string \<times> string" where
  "posting_key r = (ep_tenant r, ep_id r)"

definition posting_ok :: "db \<Rightarrow> bool" where
  "posting_ok s \<longleftrightarrow> distinct (map posting_key (postings s))
     \<and> (\<forall>r \<in> set (postings s). ep_claim r =
          (if ep_status r = PsFailed then None else Some (claim_text (row_identity r))))
     \<and> (\<forall>r \<in> set (postings s). \<forall>q \<in> set (postings s).
          ep_tenant r = ep_tenant q \<longrightarrow> ep_claim r \<noteq> None \<longrightarrow> ep_claim r = ep_claim q \<longrightarrow> ep_id r = ep_id q)"

definition posting_move :: "posting_row \<Rightarrow> posting_row \<Rightarrow> bool" where
  "posting_move r q \<longleftrightarrow> posting_key q = posting_key r \<and> row_identity q = row_identity r
     \<and> ep_claim q = (if ep_status q = PsFailed then None else ep_claim r) \<and> ep_status r \<noteq> PsFailed"

lemma posting_ok_claim:
  "posting_ok s \<Longrightarrow> r \<in> set (postings s) \<Longrightarrow>
     ep_claim r = (if ep_status r = PsFailed then None else Some (claim_text (row_identity r)))"
  by (simp add: posting_ok_def)

lemma posting_ok_distinct: "posting_ok s \<Longrightarrow> distinct (map posting_key (postings s))"
  by (simp add: posting_ok_def)

lemma posting_ok_owner:
  "posting_ok s \<Longrightarrow> r \<in> set (postings s) \<Longrightarrow> q \<in> set (postings s) \<Longrightarrow> ep_tenant r = ep_tenant q \<Longrightarrow>
     ep_claim r \<noteq> None \<Longrightarrow> ep_claim r = ep_claim q \<Longrightarrow> ep_id r = ep_id q"
  unfolding posting_ok_def by blast

lemma posting_ok_key:
  "posting_ok s \<Longrightarrow> r \<in> set (postings s) \<Longrightarrow> q \<in> set (postings s) \<Longrightarrow> posting_key r = posting_key q \<Longrightarrow> r = q"
  using posting_ok_distinct by (meson distinct_map inj_onD)

lemma posting_ok_same_doc:
  assumes ok: "posting_ok s" and r: "r \<in> set (postings s)" and q: "q \<in> set (postings s)"
    and same: "ep_tenant r = ep_tenant q" "row_identity r = row_identity q"
    and live: "ep_status r \<noteq> PsFailed" "ep_status q \<noteq> PsFailed"
  shows "r = q"
proof -
  have "ep_claim r = Some (claim_text (row_identity q))" "ep_claim q = Some (claim_text (row_identity q))"
    using posting_ok_claim[OF ok r] posting_ok_claim[OF ok q] same live by simp_all
  then have "ep_id r = ep_id q" using posting_ok_owner[OF ok r q same(1)] by simp
  then show ?thesis using posting_ok_key[OF ok r q] same by (simp add: posting_key_def)
qed

lemma posting_ok_upd:
  assumes ok: "posting_ok s"
    and mv: "\<And>r. r \<in> set (postings s) \<Longrightarrow> P r \<Longrightarrow> posting_move r (f r)"
  shows "posting_ok (upd_postings P f s)"
proof -
  define g where "g r = (if P r then f r else r)" for r
  have rows: "upd_where P f (postings s) = map g (postings s)" by (simp add: upd_where_def g_def)
  have moved: "posting_key (g r) = posting_key r \<and> row_identity (g r) = row_identity r
      \<and> ep_claim (g r) = (if ep_status (g r) = PsFailed then None else ep_claim r)"
    if "r \<in> set (postings s)" for r
    using mv[OF that] posting_ok_claim[OF ok that] by (auto simp: g_def posting_move_def)
  have live: "ep_status r \<noteq> PsFailed" if "r \<in> set (postings s)" "ep_status (g r) \<noteq> PsFailed" for r
    using mv[OF that(1)] that(2) by (auto simp: g_def posting_move_def split: if_split_asm)
  have keys: "map posting_key (map g (postings s)) = map posting_key (postings s)" using moved by simp
  have claims: "ep_claim (g r) = (if ep_status (g r) = PsFailed then None else Some (claim_text (row_identity (g r))))"
    if r: "r \<in> set (postings s)" for r
    using moved[OF r] live[OF r] posting_ok_claim[OF ok r] by auto
  have owner: "ep_id (g r) = ep_id (g q)"
    if r: "r \<in> set (postings s)" and q: "q \<in> set (postings s)" and t: "ep_tenant (g r) = ep_tenant (g q)"
      and c: "ep_claim (g r) \<noteq> None" and eq: "ep_claim (g r) = ep_claim (g q)" for r q
  proof -
    have ids: "ep_tenant (g r) = ep_tenant r" "ep_id (g r) = ep_id r" "ep_tenant (g q) = ep_tenant q"
      "ep_id (g q) = ep_id q" using moved[OF r] moved[OF q] by (simp_all add: posting_key_def)
    have same: "ep_claim (g r) = ep_claim r" using moved[OF r] c by (auto split: if_split_asm)
    have "ep_claim (g q) \<noteq> None" using c unfolding eq .
    then have "ep_claim (g q) = ep_claim q" using moved[OF q] by (auto split: if_split_asm)
    then have "ep_claim r = ep_claim q" "ep_claim r \<noteq> None" using eq c unfolding same by simp_all
    moreover have "ep_tenant r = ep_tenant q" using t unfolding ids .
    ultimately show ?thesis unfolding ids using posting_ok_owner[OF ok r q] by blast
  qed
  have "distinct (map posting_key (map g (postings s)))"
    unfolding keys by (rule posting_ok_distinct[OF ok])
  moreover have "\<forall>r \<in> set (map g (postings s)). ep_claim r =
      (if ep_status r = PsFailed then None else Some (claim_text (row_identity r)))"
    using claims unfolding set_map by blast
  moreover have "\<forall>r \<in> set (map g (postings s)). \<forall>q \<in> set (map g (postings s)).
      ep_tenant r = ep_tenant q \<longrightarrow> ep_claim r \<noteq> None \<longrightarrow> ep_claim r = ep_claim q \<longrightarrow> ep_id r = ep_id q"
    using owner unfolding set_map by blast
  ultimately show ?thesis
    unfolding posting_ok_def postings_frames rows by blast
qed

lemma insert_posting_Some:
  "insert_posting row s = Some t \<longleftrightarrow> t = s\<lparr>postings := postings s @ [row]\<rparr>
     \<and> (\<forall>r \<in> set (postings s). ep_tenant r = ep_tenant row \<longrightarrow> ep_id r \<noteq> ep_id row
          \<and> (ep_claim row \<noteq> None \<longrightarrow> ep_claim r \<noteq> ep_claim row))"
  by (auto simp: insert_posting_def split: if_split_asm)

definition claiming_row :: "posting_row \<Rightarrow> bool" where
  "claiming_row row \<longleftrightarrow> ep_claim row = Some (claim_text (row_identity row)) \<and> ep_status row \<noteq> PsFailed"

lemma posting_ok_insert:
  assumes ok: "posting_ok s" and ins: "insert_posting row s = Some t" and row: "claiming_row row"
  shows "posting_ok t"
proof -
  have t: "postings t = postings s @ [row]" using ins by (simp add: insert_posting_Some)
  have new: "ep_id r \<noteq> ep_id row" "ep_claim r \<noteq> ep_claim row"
    if "r \<in> set (postings s)" "ep_tenant r = ep_tenant row" for r
    using ins row that by (simp_all add: insert_posting_Some claiming_row_def)
  have "posting_key row \<notin> posting_key ` set (postings s)"
    using new(1) by (fastforce simp: posting_key_def)
  then have "distinct (map posting_key (postings t))"
    using posting_ok_distinct[OF ok] by (simp add: t)
  moreover have "\<forall>r \<in> set (postings t). ep_claim r =
      (if ep_status r = PsFailed then None else Some (claim_text (row_identity r)))"
    using posting_ok_claim[OF ok] row by (simp add: t claiming_row_def)
  moreover have "ep_id r = ep_id q"
    if "r \<in> set (postings t)" "q \<in> set (postings t)" "ep_tenant r = ep_tenant q" "ep_claim r \<noteq> None"
      "ep_claim r = ep_claim q" for r q
  proof -
    consider "r = row" "q = row" | "r = row" "q \<in> set (postings s)" | "r \<in> set (postings s)" "q = row"
      | "r \<in> set (postings s)" "q \<in> set (postings s)" using \<open>r \<in> _\<close> \<open>q \<in> _\<close> by (auto simp: t)
    then show ?thesis
    proof cases
      case 2
      then show ?thesis using new(2)[of q] \<open>ep_tenant r = _\<close> \<open>ep_claim r = _\<close> by metis
    next
      case 3
      then show ?thesis using new(2)[of r] \<open>ep_tenant r = _\<close> \<open>ep_claim r = _\<close> by metis
    next
      case 4
      then show ?thesis using posting_ok_owner[OF ok] that by blast
    qed simp
  qed
  ultimately show ?thesis unfolding posting_ok_def by blast
qed

text \<open>What the operations do to the table.\<close>

lemma new_posting_row [simp]:
  "row_identity (new_posting tenant p rid document) = identity_of p"
  "ep_tenant (new_posting tenant p rid document) = tenant"
  "ep_id (new_posting tenant p rid document) = rid"
  "ep_claim (new_posting tenant p rid document) = Some (claim_key p)"
  "ep_status (new_posting tenant p rid document) = PsPosting"
  by (simp_all add: new_posting_def row_identity_def identity_of_def)

lemma row_identity_upd [simp]:
  "row_identity (r\<lparr>ep_status := a\<rparr>) = row_identity r"
  "row_identity (r\<lparr>ep_request := b\<rparr>) = row_identity r"
  "row_identity (r\<lparr>ep_response := b\<rparr>) = row_identity r"
  "row_identity (r\<lparr>ep_plan := b\<rparr>) = row_identity r"
  "row_identity (r\<lparr>ep_created := c\<rparr>) = row_identity r"
  "row_identity (r\<lparr>ep_external := b\<rparr>) = row_identity r"
  "row_identity (r\<lparr>ep_settled := d\<rparr>) = row_identity r"
  "row_identity (r\<lparr>ep_claim := v\<rparr>) = row_identity r"
  by (simp_all add: row_identity_def)

definition adds_row :: "string \<Rightarrow> doc_identity \<Rightarrow> string \<Rightarrow> posting_status \<Rightarrow> db \<Rightarrow> db \<Rightarrow> bool" where
  "adds_row tenant k rid st s t \<longleftrightarrow> (\<exists>row u. insert_posting row u = Some t \<and> postings u = postings s
     \<and> claiming_row row \<and> ep_tenant row = tenant \<and> ep_id row = rid \<and> row_identity row = k
     \<and> ep_status row = st)"

lemma reserve_adds:
  assumes "reserve_posting e now tenant p document plan request s = Inr (rid, t)"
  shows "adds_row tenant (identity_of p) rid PsPosting s t"
  using assms
  by (auto simp: reserve_posting_def res_simps Let_def adds_row_def claiming_row_def claim_key_def
      split: option.splits intro!: exI)

lemma existing_adds:
  assumes "record_existing e now tenant p document plan external s = Inr (rid, t)"
  shows "adds_row tenant (identity_of p) rid PsSkipped s t"
  using assms
  by (auto simp: record_existing_def res_simps Let_def adds_row_def claiming_row_def claim_key_def
      split: option.splits intro!: exI)

lemma submit_reserve_adds:
  "submit_reserve e now environ j s = Inr (rid, rq, t) \<Longrightarrow>
     adds_row (j_tenant j) (identity_of (j_posting j)) rid PsPosting s t"
  by (auto simp: submit_reserve_def res_simps dest: reserve_adds)

lemma recover_moves: "outlived now tenant r \<Longrightarrow> posting_move r (r\<lparr>ep_status := PsUncertain, ep_response := x\<rparr>)"
  by (simp add: posting_move_def outlived_def posting_key_def)

lemma finish_moves: "awaiting tenant rid r \<Longrightarrow> posting_move r (finished now status external text r)"
  by (auto simp: posting_move_def awaiting_def finished_def posting_key_def)

lemma decided_moves:
  "undecided tenant rid r \<Longrightarrow> status = PsPosted \<or> status = PsFailed \<Longrightarrow>
     ep_claim r = (if ep_status r = PsFailed then None else Some (claim_text (row_identity r))) \<Longrightarrow>
     posting_move r (decided_row now status external r)"
  by (auto simp: posting_move_def undecided_def decided_row_def posting_key_def UNKNOWN_STATUSES_def)

section \<open>The state of one document\<close>

datatype doc_phase = Free | InFlight | Unknown | Held

fun state_of :: "posting_status \<Rightarrow> doc_phase" where
  "state_of PsPosting = InFlight"
| "state_of PsPosted = Held"
| "state_of PsSkipped = Held"
| "state_of PsUncertain = Unknown"
| "state_of PsUnconfirmed = Unknown"
| "state_of PsFailed = Free"

definition doc_state :: "db \<Rightarrow> string \<Rightarrow> doc_identity \<Rightarrow> doc_phase" where
  "doc_state s tenant k = (case find_claiming s tenant k of
      None \<Rightarrow> Free | Some r \<Rightarrow> state_of (ep_status r))"

lemma claiming_SomeD:
  "find_claiming s tenant k = Some r \<Longrightarrow>
     r \<in> set (postings s) \<and> of_document tenant k r \<and> ep_status r \<noteq> PsFailed"
  by (auto simp: find_claiming_def claiming_iff dest!: find_Some_mem)

lemma claiming_NoneD:
  "find_claiming s tenant k = None \<Longrightarrow> r \<in> set (postings s) \<Longrightarrow> of_document tenant k r \<Longrightarrow> ep_status r = PsFailed"
  by (auto simp: find_claiming_def claiming_iff find_None_mem)

lemma claiming_SomeI:
  assumes ok: "posting_ok s" and r: "r \<in> set (postings s)" "of_document tenant k r" "ep_status r \<noteq> PsFailed"
  shows "find_claiming s tenant k = Some r"
proof (cases "find_claiming s tenant k")
  case None
  then show ?thesis using claiming_NoneD r by blast
next
  case (Some q)
  note q = claiming_SomeD[OF Some]
  have "q = r"
    using posting_ok_same_doc[OF ok, of q r] q r by (simp add: of_document_def)
  then show ?thesis using Some by simp
qed

lemma doc_state_row:
  assumes "posting_ok s" "r \<in> set (postings s)" "of_document tenant k r" "ep_status r \<noteq> PsFailed"
  shows "doc_state s tenant k = state_of (ep_status r)"
  by (simp add: doc_state_def claiming_SomeI[OF assms])

lemma doc_state_free:
  "(\<And>r. r \<in> set (postings s) \<Longrightarrow> of_document tenant k r \<Longrightarrow> ep_status r = PsFailed) \<Longrightarrow>
     doc_state s tenant k = Free"
  unfolding doc_state_def using claiming_SomeD[of s tenant k] by (auto split: option.splits)

lemma of_document_move: "posting_move r q \<Longrightarrow> of_document tenant k q = of_document tenant k r"
  by (simp add: posting_move_def of_document_def posting_key_def)

text \<open>An update of rows moves a document by the change of its claiming row.\<close>

lemma doc_state_upd:
  assumes ok: "posting_ok s"
    and mv: "\<And>r. r \<in> set (postings s) \<Longrightarrow> P r \<Longrightarrow> posting_move r (f r)"
  shows "doc_state (upd_postings P f s) tenant k = (case find_claiming s tenant k of
      None \<Rightarrow> Free | Some r \<Rightarrow> state_of (ep_status (if P r then f r else r)))"
proof -
  define g where "g r = (if P r then f r else r)" for r
  have rows: "set (postings (upd_postings P f s)) = g ` set (postings s)"
    by (simp add: upd_where_def g_def)
  have doc: "of_document tenant k (g r) = of_document tenant k r" if "r \<in> set (postings s)" for r
    using of_document_move[OF mv[OF that]] by (simp add: g_def)
  have failed: "ep_status (g r) = PsFailed" if "r \<in> set (postings s)" "ep_status r = PsFailed" for r
    using mv[OF that(1)] that(2) by (auto simp: g_def posting_move_def)
  have ok': "posting_ok (upd_postings P f s)" by (rule posting_ok_upd[OF ok mv])
  show ?thesis
  proof (cases "find_claiming s tenant k")
    case None
    have "doc_state (upd_postings P f s) tenant k = Free"
      by (rule doc_state_free) (use rows doc failed claiming_NoneD[OF None] in auto)
    then show ?thesis using None by simp
  next
    case (Some r)
    note r = claiming_SomeD[OF Some]
    show ?thesis
    proof (cases "ep_status (g r) = PsFailed")
      case True
      have "doc_state (upd_postings P f s) tenant k = Free"
      proof (rule doc_state_free)
        fix q assume "q \<in> set (postings (upd_postings P f s))" "of_document tenant k q"
        then obtain q0 where q0: "q = g q0" "q0 \<in> set (postings s)" "of_document tenant k q0"
          using rows doc by auto
        show "ep_status q = PsFailed"
        proof (cases "ep_status q0 = PsFailed")
          case True
          then show ?thesis using failed q0 by simp
        next
          case live: False
          have "q0 = r" using posting_ok_same_doc[OF ok, of q0 r] q0 r live by (simp add: of_document_def)
          then show ?thesis using True q0 by simp
        qed
      qed
      then show ?thesis using Some True by (simp add: g_def)
    next
      case False
      have "doc_state (upd_postings P f s) tenant k = state_of (ep_status (g r))"
        by (rule doc_state_row[OF ok']) (use rows doc r False in auto)
      then show ?thesis using Some by (simp add: g_def)
    qed
  qed
qed

lemma doc_state_same: "postings t = postings s \<Longrightarrow> doc_state t = doc_state s"
  by (intro ext) (simp add: doc_state_def find_claiming_def)

lemma posting_ok_same: "postings t = postings s \<Longrightarrow> posting_ok t = posting_ok s"
  by (simp add: posting_ok_def)

text \<open>A new claiming row takes a free document.\<close>

lemma adds_row_effect:
  assumes ok: "posting_ok s" and add: "adds_row tenant k rid st s t"
  shows "posting_ok t"
    and "doc_state s tenant k = Free"
    and "doc_state t = (\<lambda>t' k'. if t' = tenant \<and> k' = k then state_of st else doc_state s t' k')"
    and "map posting_key (postings t) = map posting_key (postings s) @ [(tenant, rid)]"
    and "(tenant, rid) \<notin> posting_key ` set (postings s)"
proof -
  from add obtain row u where ins: "insert_posting row u = Some t" and u: "postings u = postings s"
    and row: "claiming_row row" "ep_tenant row = tenant" "ep_id row = rid" "row_identity row = k" "ep_status row = st"
    unfolding adds_row_def by blast
  have oku: "posting_ok u" using ok posting_ok_same[OF u] by simp
  show okt: "posting_ok t" by (rule posting_ok_insert[OF oku ins row(1)])
  have t: "postings t = postings s @ [row]" using ins u by (simp add: insert_posting_Some)
  show keys: "map posting_key (postings t) = map posting_key (postings s) @ [(tenant, rid)]"
    using row by (simp add: t posting_key_def)
  show "(tenant, rid) \<notin> posting_key ` set (postings s)"
    using posting_ok_distinct[OF okt] unfolding keys by simp
  have free: "ep_status r = PsFailed" if "r \<in> set (postings s)" "of_document tenant k r" for r
  proof (rule ccontr)
    assume live: "ep_status r \<noteq> PsFailed"
    have "r = row"
      using posting_ok_same_doc[OF okt, of r row] that row live t
      by (simp add: of_document_def claiming_row_def)
    then show False using posting_ok_distinct[OF okt] that by (simp add: t)
  qed
  then show "doc_state s tenant k = Free" by (rule doc_state_free)
  have new: "doc_state t tenant k = state_of st"
    using doc_state_row[OF okt, of row tenant k] row by (simp add: t of_document_def claiming_row_def)
  have old: "doc_state t t' k' = doc_state s t' k'" if "\<not> (t' = tenant \<and> k' = k)" for t' k'
    using row that by (auto simp: doc_state_def find_claiming_def t find_append of_document_def split: option.splits)
  show "doc_state t = (\<lambda>t' k'. if t' = tenant \<and> k' = k then state_of st else doc_state s t' k')"
    using new old by (intro ext) auto
qed

section \<open>Worlds and steps\<close>

record erp_world =
  ew_db :: db
  ew_held :: "(string \<times> string) list"
  ew_sent :: "(string \<times> string) list"

datatype erp_event =
    Recovered | FoundInErp | Reserved | PostSent | Answered posting_status | Ruled posting_status | Elsewhere

text \<open>
  A step is one transaction or the departure of one POST. \<open>answer\<close> is the end of a submission whose
  POST left; \<open>elsewhere\<close> is any other transaction of the runtime.
\<close>

inductive erp_step :: "env \<Rightarrow> erp_event \<Rightarrow> erp_world \<Rightarrow> erp_world \<Rightarrow> bool" for e where
  recover: "erp_step e Recovered w (w\<lparr>ew_db := snd (recover_postings now tenant (ew_db w))\<rparr>)"
| existing: "submit_existing e now j external (ew_db w) = Inr (answer, t) \<Longrightarrow>
    erp_step e FoundInErp w (w\<lparr>ew_db := t\<rparr>)"
| reserve: "submit_reserve e now environ j (ew_db w) = Inr (rid, request, t) \<Longrightarrow>
    erp_step e Reserved w (w\<lparr>ew_db := t, ew_held := (j_tenant j, rid) # ew_held w\<rparr>)"
| post: "ew_held w = xs @ x # ys \<Longrightarrow>
    erp_step e PostSent w (w\<lparr>ew_held := xs @ ys, ew_sent := x # ew_sent w\<rparr>)"
| answer: "(j_tenant j, rid) \<in> set (ew_sent w) \<Longrightarrow> submit_settle now j rid reply (ew_db w) = (res, t) \<Longrightarrow>
    erp_step e (Answered (fst (outcome_of (es_response_map (j_settings j)) reply))) w (w\<lparr>ew_db := t\<rparr>)"
| verdict: "verdict_check v = Inr status \<Longrightarrow> reconcile_tx e now tenant status v (ew_db w) = Inr t \<Longrightarrow>
    erp_step e (Ruled status) w (w\<lparr>ew_db := t\<rparr>)"
| elsewhere: "postings t = postings (ew_db w) \<Longrightarrow> erp_step e Elsewhere w (w\<lparr>ew_db := t\<rparr>)"

inductive erp_reachable :: "env \<Rightarrow> erp_world \<Rightarrow> bool" for e where
  start: "postings s = [] \<Longrightarrow> erp_reachable e \<lparr>ew_db = s, ew_held = [], ew_sent = []\<rparr>"
| later: "erp_reachable e w \<Longrightarrow> erp_step e ev w w' \<Longrightarrow> erp_reachable e w'"

text \<open>The machine of one document.\<close>

inductive doc_move :: "erp_event \<Rightarrow> doc_phase \<Rightarrow> doc_phase \<Rightarrow> bool" where
  "doc_move FoundInErp Free Held"
| "doc_move Reserved Free InFlight"
| "doc_move Recovered InFlight Unknown"
| "d = InFlight \<or> d = Unknown \<Longrightarrow> doc_move (Answered st) d (state_of st)"
| "doc_move (Ruled st) Unknown (state_of st)"

inductive_cases doc_moveE [elim!]: "doc_move ev d d'"
inductive_simps doc_move_held: "doc_move ev Held d"
inductive_simps doc_move_free: "doc_move ev d Free"

section \<open>The steps refine the machine\<close>

text \<open>What a step may do: nothing to the rows' keys but add one, and to a document only its move.\<close>

definition refines_step :: "erp_event \<Rightarrow> db \<Rightarrow> db \<Rightarrow> bool" where
  "refines_step ev s t \<longleftrightarrow> posting_ok t
     \<and> (\<forall>tenant k. doc_state t tenant k = doc_state s tenant k
          \<or> doc_move ev (doc_state s tenant k) (doc_state t tenant k))
     \<and> posting_key ` set (postings s) \<subseteq> posting_key ` set (postings t)"

lemma refines_stepI:
  assumes "posting_ok t"
    and "\<And>tenant k. doc_state t tenant k = doc_state s tenant k
          \<or> doc_move ev (doc_state s tenant k) (doc_state t tenant k)"
    and "posting_key ` set (postings s) \<subseteq> posting_key ` set (postings t)"
  shows "refines_step ev s t"
  using assms by (simp add: refines_step_def)

lemma refines_upd:
  assumes ok: "posting_ok s"
    and mv: "\<And>r. r \<in> set (postings s) \<Longrightarrow> P r \<Longrightarrow> posting_move r (f r)"
    and dm: "\<And>r. r \<in> set (postings s) \<Longrightarrow> P r \<Longrightarrow>
       state_of (ep_status (f r)) = state_of (ep_status r)
       \<or> doc_move ev (state_of (ep_status r)) (state_of (ep_status (f r)))"
  shows "refines_step ev s (upd_postings P f s)"
proof (rule refines_stepI)
  show "posting_ok (upd_postings P f s)" by (rule posting_ok_upd[OF ok mv])
  fix tenant k
  show "doc_state (upd_postings P f s) tenant k = doc_state s tenant k
      \<or> doc_move ev (doc_state s tenant k) (doc_state (upd_postings P f s) tenant k)"
  proof (cases "find_claiming s tenant k")
    case None
    then have "doc_state (upd_postings P f s) tenant k = Free"
      using doc_state_upd[OF ok mv, of P tenant k] by simp
    then show ?thesis using None by (simp add: doc_state_def[of s])
  next
    case (Some r)
    have new: "doc_state (upd_postings P f s) tenant k = (case find_claiming s tenant k of
        None \<Rightarrow> Free | Some r \<Rightarrow> state_of (ep_status (if P r then f r else r)))"
      by (rule doc_state_upd[OF ok mv])
    have old: "doc_state s tenant k = state_of (ep_status r)" using Some by (simp add: doc_state_def)
    show ?thesis unfolding new old using Some dm[of r] claiming_SomeD[OF Some] by simp
  qed
next
  have "posting_key (if P r then f r else r) = posting_key r" if "r \<in> set (postings s)" for r
    using mv[OF that] by (simp add: posting_move_def)
  then show "posting_key ` set (postings s) \<subseteq> posting_key ` set (postings (upd_postings P f s))"
    unfolding postings_frames upd_where_def set_map image_image by (auto simp: image_iff)
qed

lemma refines_same:
  assumes ok: "posting_ok s" and same: "postings t = postings s"
  shows "refines_step ev s t"
  by (rule refines_stepI) (simp_all add: posting_ok_same[OF same] ok doc_state_same[OF same] same)


lemma refines_adds:
  assumes ok: "posting_ok s" and add: "adds_row tenant k rid st s t"
    and ev: "doc_move ev Free (state_of st)"
  shows "refines_step ev s t"
  by (rule refines_stepI)
    (use adds_row_effect(1-3)[OF ok add] arg_cong[OF adds_row_effect(4)[OF ok add], of set] ev in auto)

lemma recover_refines: "posting_ok s \<Longrightarrow> refines_step Recovered s (snd (recover_postings now tenant s))"
  unfolding recover_postings_def snd_conv
  by (rule refines_upd) (auto simp: recover_moves outlived_def intro: doc_move.intros)

lemma finish_refines:
  assumes "posting_ok s" "finish_posting now tenant rid st external note s = Inr t"
  shows "refines_step (Answered st) s t"
proof -
  from assms obtain x where t: "t = upd_postings (awaiting tenant rid) (finished now st external x) s"
    by (auto simp: finish_posting_def res_simps)
  show ?thesis unfolding t
    by (rule refines_upd[OF assms(1)])
      (auto simp: finish_moves, auto simp: awaiting_def finished_def intro: doc_move.intros)
qed

lemma settle_cases:
  assumes "submit_settle now j rid reply s = (res, t)"
  shows "t = s \<or> (\<exists>external note. finish_posting now (j_tenant j) rid
    (fst (outcome_of (es_response_map (j_settings j)) reply)) external note s = Inr t)"
  using assms by (auto simp: submit_settle_def split: prod.splits sum.splits)

lemma settle_refines:
  assumes ok: "posting_ok s" and st: "submit_settle now j rid reply s = (res, t)"
  shows "refines_step (Answered (fst (outcome_of (es_response_map (j_settings j)) reply))) s t"
  using settle_cases[OF st] refines_same[OF ok] finish_refines[OF ok] by auto

lemma verdict_status: "verdict_check v = Inr status \<Longrightarrow> status = PsPosted \<or> status = PsFailed"
  by (auto simp: verdict_check_def split: if_split_asm)

lemma undecided_unknown: "undecided tenant rid r \<Longrightarrow> state_of (ep_status r) = Unknown"
  by (auto simp: undecided_def UNKNOWN_STATUSES_def)

lemma verdict_refines:
  assumes ok: "posting_ok s" and v: "verdict_check v = Inr status"
    and tx: "reconcile_tx e now tenant status v s = Inr t"
  shows "refines_step (Ruled status) s t"
proof -
  let ?P = "\<lambda>r. ep_tenant r = tenant \<and> ep_id r = vd_posting v"
  let ?f = "decided_row now status (vd_external v)"
  from tx obtain row where row: "find (undecided tenant (vd_posting v)) (postings s) = Some row"
    and t: "postings t = postings (upd_postings ?P ?f s)"
    by (auto simp: reconcile_tx_def res_simps Let_def split: option.splits if_split_asm)
  note row = find_Some_mem[OF row]
  have same: "r = row" if "r \<in> set (postings s)" "?P r" for r
    using posting_ok_key[OF ok that(1), of row] row that by (simp add: posting_key_def undecided_def)
  have "refines_step (Ruled status) s (upd_postings ?P ?f s)"
  proof (rule refines_upd[OF ok])
    fix r assume "r \<in> set (postings s)" "?P r"
    then have r: "r = row" by (rule same)
    show "posting_move r (?f r)"
      using decided_moves verdict_status[OF v] posting_ok_claim[OF ok] row r by blast
    have "doc_move (Ruled status) (state_of (ep_status r)) (state_of status)"
      using undecided_unknown row r by (auto intro: doc_move.intros)
    then show "state_of (ep_status (?f r)) = state_of (ep_status r)
        \<or> doc_move (Ruled status) (state_of (ep_status r)) (state_of (ep_status (?f r)))"
      by (simp add: decided_row_def)
  qed
  then show ?thesis
    by (simp add: refines_step_def t posting_ok_same[OF t] doc_state_same[OF t])
qed

section \<open>Reachable worlds\<close>

definition world_ok :: "erp_world \<Rightarrow> bool" where
  "world_ok w \<longleftrightarrow> posting_ok (ew_db w) \<and> distinct (ew_held w @ ew_sent w)
     \<and> set (ew_held w @ ew_sent w) \<subseteq> posting_key ` set (postings (ew_db w))"

lemma existing_refines:
  assumes ok: "posting_ok s" and call: "submit_existing e now j external s = Inr (answer, t)"
  shows "refines_step FoundInErp s t"
proof -
  from call obtain rid where "record_existing e now (j_tenant j) (j_posting j) (j_document j) (j_plan j) external s = Inr (rid, t)"
    by (auto simp: submit_existing_def res_simps)
  from refines_adds[OF ok existing_adds[OF this]] show ?thesis by (auto intro: doc_move.intros)
qed

lemma reserve_refines:
  assumes ok: "posting_ok s" and call: "submit_reserve e now environ j s = Inr (rid, request, t)"
  shows "refines_step Reserved s t"
  using refines_adds[OF ok submit_reserve_adds[OF call]] by (auto intro: doc_move.intros)

lemma step_refines:
  assumes step: "erp_step e ev w w'" and ok: "world_ok w"
  shows "refines_step ev (ew_db w) (ew_db w')"
proof -
  have p: "posting_ok (ew_db w)" using ok by (simp add: world_ok_def)
  show ?thesis using step
    by cases (use p in \<open>auto intro: recover_refines existing_refines reserve_refines settle_refines
        verdict_refines refines_same\<close>)
qed

lemma step_queue:
  assumes step: "erp_step e ev w w'" and ok: "world_ok w"
  shows "distinct (ew_held w' @ ew_sent w')
    \<and> set (ew_held w' @ ew_sent w') \<subseteq> posting_key ` set (postings (ew_db w'))"
proof -
  have p: "posting_ok (ew_db w)" using ok by (simp add: world_ok_def)
  have keys: "posting_key ` set (postings (ew_db w)) \<subseteq> posting_key ` set (postings (ew_db w'))"
    using step_refines[OF step ok] by (simp add: refines_step_def)
  show ?thesis using step
  proof cases
    case (reserve now environ j rid request t)
    note new = adds_row_effect(4,5)[OF p submit_reserve_adds[OF reserve(3)]]
    have "posting_key ` set (postings t) = insert (j_tenant j, rid) (posting_key ` set (postings (ew_db w)))"
      using arg_cong[OF new(1), of set] by auto
    then show ?thesis using ok new(2) reserve by (auto simp: world_ok_def)
  next
    case (post xs x ys)
    then show ?thesis using ok by (auto simp: world_ok_def)
  qed (use ok keys in \<open>auto simp: world_ok_def\<close>)
qed

lemma step_ok: "erp_step e ev w w' \<Longrightarrow> world_ok w \<Longrightarrow> world_ok w'"
  using step_refines step_queue by (simp add: world_ok_def refines_step_def)

lemma reachable_ok: "erp_reachable e w \<Longrightarrow> world_ok w"
proof (induction rule: erp_reachable.induct)
  case (start s)
  then show ?case by (simp add: world_ok_def posting_ok_def)
next
  case (later w ev w')
  then show ?case by (blast intro: step_ok)
qed

end
