(* ===== verification/Erp_Dates.thy ===== *)
theory Erp_Dates
  imports Erp_Fields
begin

text \<open>
  The date check of a posting (\<^verbatim>\<open>_date_text\<close> of \<^verbatim>\<open>platform_runtime/erp.py\<close>): what it returns is the
  ISO form of a real calendar day, and for a numeric triple the only reading of it as a day and month.
\<close>

section \<open>Digits\<close>

lemma digit_char_value: "is_digit c \<Longrightarrow> digit_char (code_of c - 48) = c \<and> code_of c - 48 < 10"
  by (auto simp: digit_char_def is_digit_def code_of_def)

lemma show_nat_step: "0 < n \<Longrightarrow> d < 10 \<Longrightarrow> show_nat (10 * n + d) = show_nat n @ [digit_char d]"
  by (subst show_nat.simps) simp

lemma show_nat_digit: "d < 10 \<Longrightarrow> show_nat d = [digit_char d]"
  by (subst show_nat.simps) simp

lemma zero_pad_step:
  assumes "0 < w" "d < 10"
  shows "zero_pad (Suc w) (10 * n + d) = zero_pad w n @ [digit_char d]"
proof (cases "n = 0")
  case True
  obtain v where w: "w = Suc v" using assms(1) by (cases w) auto
  have zero: "digit_char 0 = CHR ''0''" by code_simp
  have "replicate v (CHR ''0'') @ [CHR ''0''] = CHR ''0'' # replicate v (CHR ''0'')"
    by (simp add: replicate_append_same)
  then show ?thesis using True assms(2) by (simp add: zero_pad_def show_nat_digit w zero)
next
  case False
  then show ?thesis using assms(2) by (simp add: zero_pad_def show_nat_step Let_def)
qed

lemma zero_pad_digits: "t \<noteq> [] \<Longrightarrow> list_all is_digit t \<Longrightarrow> zero_pad (length t) (digits_value t) = t"
proof (induction t rule: rev_nonempty_induct)
  case (single c)
  then show ?case
    using digit_char_value[of c] digits_value_append[of "[]" c]
    by (simp add: zero_pad_def show_nat_digit digits_value_def)
next
  case (snoc c t)
  then show ?case
    using digit_char_value[of c] zero_pad_step[of "length t" "code_of c - 48" "digits_value t"]
    by (simp add: digits_value_append)
qed

section \<open>The date patterns\<close>

lemma rounds_chars:
  "st \<in> set (rounds n (ends (Chars P)) k (Some k) (b, a, g)) \<Longrightarrow>
     \<exists>t s. length t = k \<and> list_all P t \<and> a = t @ s \<and> st = (rev t @ b, s, g)"
proof (induction n arbitrary: k b a)
  case 0
  then show ?case by (auto split: if_split_asm)
next
  case (Suc n)
  show ?case
  proof (cases k)
    case 0
    then show ?thesis using Suc.prems by auto
  next
    case (Suc j)
    with Suc.prems obtain c cs where a: "a = c # cs" "P c"
      and st: "st \<in> set (rounds n (ends (Chars P)) j (Some j) (c # b, cs, g))"
      by (auto split: list.splits if_split_asm)
    obtain t s where "length t = j" "list_all P t" "cs = t @ s" "st = (rev t @ c # b, s, g)"
      using Suc.IH[OF st] by blast
    then have "length (c # t) = k \<and> list_all P (c # t) \<and> a = (c # t) @ s \<and> st = (rev (c # t) @ b, s, g)"
      using a Suc by simp
    then show ?thesis by blast
  qed
qed

lemma ends_digits:
  assumes "st \<in> set (ends (Grp i (Rep digit k (Some k))) (b, a, g))"
  shows "\<exists>t s. length t = k \<and> list_all is_digit t \<and> a = t @ s \<and> st = (rev t @ b, s, (i, t) # g)"
proof -
  from assms obtain st0 where st0: "st0 \<in> set (rounds (length a + k) (ends (Chars is_digit)) k (Some k) (b, a, g))"
    and st: "st = (case st0 of (b', a', g') \<Rightarrow> (b', a', (i, rev (take (length b' - length b) b')) # g'))"
    by (auto simp: digit_def)
  from rounds_chars[OF st0] st show ?thesis by fastforce
qed

lemma ends_Cat: "st \<in> set (ends (Cat p q) u) \<longleftrightarrow> (\<exists>v \<in> set (ends p u). st \<in> set (ends q v))"
  by auto

lemma ends_sep: "st \<in> set (ends (one_of cs) (b, a, g)) \<Longrightarrow> \<exists>c s. c \<in> set cs \<and> a = c # s \<and> st = (c # b, s, g)"
  by (auto simp: one_of_def split: list.splits if_split_asm)

lemma iso_groups:
  assumes "date_groups ISO_DATE s = Some (y, m, d)"
  shows "s = iso_text y m d"
proof -
  from assms obtain b g where st: "(b, [], g) \<in> set (ends ISO_DATE ([], s, []))"

    and grp: "(let part = (\<lambda>i. digits_value (case map_of g i of None \<Rightarrow> [] | Some t \<Rightarrow> t)) in
        (part 1, part 2, part 3)) = (y, m, d)"
    by (auto simp: date_groups_def split: option.splits dest!: find_Some_mem)
  from st obtain u1 u2 u3 u4 where
    u: "u1 \<in> set (ends (Grp 1 (Rep digit 4 (Some 4))) ([], s, []))" "u2 \<in> set (ends (one_of ''-'') u1)"
      "u3 \<in> set (ends (Grp 2 (Rep digit 2 (Some 2))) u2)" "u4 \<in> set (ends (one_of ''-'') u3)"
      "(b, [], g) \<in> set (ends (Grp 3 (Rep digit 2 (Some 2))) u4)"
    unfolding ISO_DATE_def ends_Cat by blast
  obtain t1 s1 where t1: "length t1 = 4" "list_all is_digit t1" "s = t1 @ s1" "u1 = (rev t1 @ [], s1, [(1, t1)])"
    using ends_digits[OF u(1)] by blast
  obtain s2 where s2: "s1 = CHR ''-'' # s2" "u2 = (CHR ''-'' # rev t1 @ [], s2, [(1, t1)])"
    using ends_sep[OF u(2)[unfolded t1(4)]] by auto
  obtain t2 s3 where t2: "length t2 = 2" "list_all is_digit t2" "s2 = t2 @ s3"
      "u3 = (rev t2 @ CHR ''-'' # rev t1 @ [], s3, [(2, t2), (1, t1)])"
    using ends_digits[OF u(3)[unfolded s2(2)]] by blast
  obtain s4 where s4: "s3 = CHR ''-'' # s4" "u4 = (CHR ''-'' # rev t2 @ CHR ''-'' # rev t1 @ [], s4, [(2, t2), (1, t1)])"
    using ends_sep[OF u(4)[unfolded t2(4)]] by auto
  obtain t3 where t3: "length t3 = 2" "list_all is_digit t3" "s4 = t3" "g = [(3, t3), (2, t2), (1, t1)]"
    using ends_digits[OF u(5)[unfolded s4(2)]] by auto
  have "s = t1 @ ''-'' @ t2 @ ''-'' @ t3" using t1(3) s2(1) t2(3) s4(1) t3(3) by simp
  moreover have "y = digits_value t1" "m = digits_value t2" "d = digits_value t3"
    using grp t3(4) by (simp_all add: Let_def)
  moreover have "zero_pad 4 (digits_value t1) = t1" "zero_pad 2 (digits_value t2) = t2" "zero_pad 2 (digits_value t3) = t3"
    using zero_pad_digits[OF _ t1(2)] zero_pad_digits[OF _ t2(2)] zero_pad_digits[OF _ t3(2)]
      t1(1) t2(1) t3(1) by fastforce+
  ultimately show ?thesis by (simp add: iso_text_def)
qed

lemma triple_date_real: "triple_date text parts = Inr t \<Longrightarrow> \<exists>y m d. real_date y m d \<and> t = iso_text y m d"
  by (auto simp: triple_date_def res_simps split: prod.splits if_split_asm)

lemma erp_date_real:
  assumes "erp_date v = Inr t"
  shows "\<exists>y m d. real_date y m d \<and> t = iso_text y m d"
proof -
  from assms obtain x where x: "(case date_groups ISO_DATE x of
         Some (y, m, d) \<Rightarrow> if real_date y m d then Inr x
           else raise ErpError (''doc_date '' @ repr_str x @ '' is not a real calendar date'')
       | None \<Rightarrow> (case date_groups TRIPLE_DATE x of
             Some parts \<Rightarrow> triple_date x parts
           | None \<Rightarrow> raise ErpError (''doc_date '' @ repr_str x @ '' is unsupported''))) = Inr t"
    by (auto simp: erp_date_def res_simps split: if_split_asm)
  show ?thesis
  proof (cases "date_groups ISO_DATE x")
    case None
    then show ?thesis using x triple_date_real by (auto split: option.splits)
  next
    case (Some p)
    obtain y m d where p: "p = (y, m, d)" by (cases p)
    then have "real_date y m d" "t = x" using x Some by (auto split: if_split_asm)
    then show ?thesis using iso_groups Some p by blast
  qed
qed

end
