(* ===== verification/Erp_Props.thy ===== *)
theory Erp_Props
  imports Erp_System Erp_Dates Demo_Env
begin

text \<open>
  What the posting ledger promises: a document is posted once in every interleaving, its ledger rows
  move as one small machine, and a posting carries what the document and the operator's register say.
\<close>

section \<open>One posting per document\<close>

text \<open>A POST that left and has not been refused, by the ERP or by the owner's verdict.\<close>

definition live_post :: "db \<Rightarrow> string \<Rightarrow> doc_identity \<Rightarrow> string \<times> string \<Rightarrow> bool" where
  "live_post s tenant k x \<longleftrightarrow>
     (\<exists>r \<in> set (postings s). posting_key r = x \<and> of_document tenant k r \<and> ep_status r \<noteq> PsFailed)"

lemma live_posts_equal:
  assumes ok: "posting_ok s" and x: "live_post s tenant k x" and y: "live_post s tenant k y"
  shows "x = y"
proof -
  obtain r where r: "r \<in> set (postings s)" "posting_key r = x" "of_document tenant k r" "ep_status r \<noteq> PsFailed"
    using x by (auto simp: live_post_def)
  obtain q where q: "q \<in> set (postings s)" "posting_key q = y" "of_document tenant k q" "ep_status q \<noteq> PsFailed"
    using y by (auto simp: live_post_def)
  have "ep_tenant r = ep_tenant q" "row_identity r = row_identity q"
    using r(3) q(3) unfolding of_document_def by auto
  then have "r = q" by (rule posting_ok_same_doc[OF ok r(1) q(1) _ _ r(4) q(4)])
  then show ?thesis using r q by simp
qed

lemma at_most_one:
  assumes "distinct xs" and "\<And>x y. x \<in> set xs \<Longrightarrow> y \<in> set xs \<Longrightarrow> x = y"
  shows "length xs \<le> 1"
proof (cases xs)
  case (Cons x ys)
  show ?thesis
  proof (cases ys)
    case (Cons y zs)
    then show ?thesis using \<open>xs = x # ys\<close> assms(1) assms(2)[of x y] by simp
  qed (simp add: Cons)
qed simp

text \<open>
  C11: a document is posted once. In every interleaving of submissions, lost answers, crashes,
  recoveries and verdicts, no idempotency key is sent twice, every POST that left is on the ledger,
  and of the POSTs of one document at most one is not refused: a second POST can leave only after
  the ERP definitively refused the first, or the owner ruled that it failed.
\<close>

theorem one_posting_per_document:
  assumes "erp_reachable e w"
  shows "distinct (ew_sent w) \<and> set (ew_sent w) \<subseteq> posting_key ` set (postings (ew_db w))
    \<and> length (filter (live_post (ew_db w) tenant k) (ew_sent w)) \<le> 1"
proof -
  have ok: "world_ok w" by (rule reachable_ok[OF assms])
  then have d: "distinct (ew_sent w)" and p: "posting_ok (ew_db w)"
    and s: "set (ew_sent w) \<subseteq> posting_key ` set (postings (ew_db w))" by (auto simp: world_ok_def)
  have "length (filter (live_post (ew_db w) tenant k) (ew_sent w)) \<le> 1"
    by (rule at_most_one) (use d in simp, unfold set_filter mem_Collect_eq, meson live_posts_equal[OF p])
  with d s show ?thesis by blast
qed

text \<open>A refused posting, and a retry of the same document that is under way.\<close>

definition erp_env :: env where
  "erp_env = demo_env\<lparr>sha256hex := rev\<rparr>"

definition erp_target :: erp_settings where
  "erp_target = no_erp\<lparr>es_driver := ''custom_http'', es_enabled := True, es_host := ''erp.uz'',
     es_base_path := ''/api'', es_timeout := 15, es_auth := ''bearer'', es_credential := ''K'',
     es_post_path := ''/post'', es_header := ''Idempotency-Key'',
     es_accounts := [(''purchase'', ''6010'')], es_counterparties := [(''acme'', ''A-1'')]\<rparr>"

definition erp_posting :: posting where
  "erp_posting = \<lparr>po_driver = ''custom_http'', po_supplier = ''Acme'', po_number = ''7'',
     po_date = ''2026-01-13'', po_currency = ''UZS'', po_total = 500, po_account = ''6010'',
     po_counterparty = ''A-1''\<rparr>"

definition erp_job :: job where
  "erp_job = \<lparr>j_tenant = ''t'', j_settings = erp_target, j_posting = erp_posting, j_document = [],
     j_plan = [], j_note = JNull\<rparr>"

definition erp_secrets :: "string \<Rightarrow> string" where
  "erp_secrets name = ''s''"

definition reserve_demo :: "int \<Rightarrow> db \<Rightarrow> (string \<times> erp_request \<times> db) res" where
  "reserve_demo now s = submit_reserve erp_env now erp_secrets erp_job s"

definition got_id :: "(string \<times> erp_request \<times> db) res \<Rightarrow> string" where
  "got_id r = (case r of Inl x \<Rightarrow> [] | Inr (rid, _) \<Rightarrow> rid)"

definition got_db :: "(string \<times> erp_request \<times> db) res \<Rightarrow> db" where
  "got_db r = (case r of Inl x \<Rightarrow> empty_db | Inr (_, _, s) \<Rightarrow> s)"

lemma got_reserved: "is_ok r \<Longrightarrow> \<exists>rq. r = Inr (got_id r, rq, got_db r)"
  by (auto simp: is_ok_def got_id_def got_db_def split: sum.splits)

definition refused :: erp_reply where
  "refused = read_reply (\<lambda>t. None) (HttpError 422)"

definition erp_db1 :: db where "erp_db1 = got_db (reserve_demo 10 empty_db)"
definition erp_id1 :: string where "erp_id1 = got_id (reserve_demo 10 empty_db)"
definition erp_db2 :: db where "erp_db2 = snd (submit_settle 20 erp_job erp_id1 refused erp_db1)"
definition erp_db3 :: db where "erp_db3 = got_db (reserve_demo 30 erp_db2)"
definition erp_id3 :: string where "erp_id3 = got_id (reserve_demo 30 erp_db2)"

definition erp_sent :: erp_world where
  "erp_sent = \<lparr>ew_db = erp_db1, ew_held = [], ew_sent = [(''t'', erp_id1)]\<rparr>"

definition erp_refused :: erp_world where
  "erp_refused = erp_sent\<lparr>ew_db := erp_db2\<rparr>"

definition erp_again :: erp_world where
  "erp_again = \<lparr>ew_db = erp_db3, ew_held = [], ew_sent = [(''t'', erp_id3), (''t'', erp_id1)]\<rparr>"

lemma erp_runs: "is_ok (reserve_demo 10 empty_db)" "is_ok (reserve_demo 30 erp_db2)"
  by code_simp+

lemma j_tenant_demo: "j_tenant erp_job = ''t''"
  by (simp add: erp_job_def)

lemma erp_sent_reachable: "erp_reachable erp_env erp_sent"
proof -
  have "erp_reachable erp_env \<lparr>ew_db = empty_db, ew_held = [], ew_sent = []\<rparr>"
    by (rule erp_reachable.start) (simp add: empty_db_def)
  moreover obtain rq where "reserve_demo 10 empty_db = Inr (erp_id1, rq, erp_db1)"
    using got_reserved[OF erp_runs(1)] unfolding erp_id1_def erp_db1_def by blast
  ultimately have "erp_reachable erp_env \<lparr>ew_db = erp_db1, ew_held = [(''t'', erp_id1)], ew_sent = []\<rparr>"
    using erp_reachable.later[OF _ erp_step.reserve[where w = "\<lparr>ew_db = empty_db, ew_held = [], ew_sent = []\<rparr>"]]
    by (fastforce simp: reserve_demo_def j_tenant_demo)
  from erp_reachable.later[OF this erp_step.post[of _ "[]" "(''t'', erp_id1)" "[]"]]
  show ?thesis by (simp add: erp_sent_def)
qed

lemma erp_refused_step: "erp_step erp_env (Answered PsFailed) erp_sent erp_refused"
proof -
  have out: "fst (outcome_of (es_response_map (j_settings erp_job)) refused) = PsFailed" by code_simp
  have call: "submit_settle 20 erp_job erp_id1 refused (ew_db erp_sent)
      = (fst (submit_settle 20 erp_job erp_id1 refused erp_db1), erp_db2)"
    by (simp add: erp_db2_def erp_sent_def)
  have sent: "(j_tenant erp_job, erp_id1) \<in> set (ew_sent erp_sent)"
    by (simp add: erp_sent_def j_tenant_demo)
  from erp_step.answer[OF sent call, of erp_env] show ?thesis
    unfolding out erp_refused_def .
qed

lemma erp_again_reachable: "erp_reachable erp_env erp_again"
proof -
  have "erp_reachable erp_env erp_refused"
    by (rule erp_reachable.later[OF erp_sent_reachable erp_refused_step])
  moreover obtain rq where "reserve_demo 30 (ew_db erp_refused) = Inr (erp_id3, rq, erp_db3)"
    using got_reserved[OF erp_runs(2)] unfolding erp_id3_def erp_db3_def erp_refused_def by auto
  ultimately have "erp_reachable erp_env
      (erp_refused\<lparr>ew_db := erp_db3, ew_held := (''t'', erp_id3) # ew_held erp_refused\<rparr>)"
    unfolding reserve_demo_def using erp_reachable.later[OF _ erp_step.reserve] j_tenant_demo by metis
  from erp_reachable.later[OF this erp_step.post[of _ "[]" "(''t'', erp_id3)" "[]"]]
  show ?thesis by (simp add: erp_again_def erp_refused_def erp_sent_def)
qed

lemma one_posting_per_document_witness:
  "length (ew_sent erp_again) = 2 \<and> live_post (ew_db erp_again) ''t'' (identity_of erp_posting) (''t'', erp_id3)
     \<and> length (filter (live_post (ew_db erp_again) ''t'' (identity_of erp_posting)) (ew_sent erp_again)) \<le> 1"
proof -
  have "live_post (ew_db erp_again) ''t'' (identity_of erp_posting) (''t'', erp_id3)" by code_simp
  moreover have "length (ew_sent erp_again) = 2" by (simp add: erp_again_def)
  ultimately show ?thesis
    using one_posting_per_document[OF erp_again_reachable, of "''t''" "identity_of erp_posting"] by blast
qed

section \<open>The machine of one document\<close>

text \<open>
  C12: the ledger refines the machine of one document. Every step of every reachable world leaves a
  document where it was or moves it as the machine allows under that event; a document the ERP holds
  stays held, and one that was taken becomes free again only when its posting was answered or ruled
  failed.
\<close>

theorem ledger_refines_document_machine:
  assumes "erp_reachable e w" and "erp_step e ev w w'"
  shows "(doc_state (ew_db w') tenant k = doc_state (ew_db w) tenant k
        \<or> doc_move ev (doc_state (ew_db w) tenant k) (doc_state (ew_db w') tenant k))
    \<and> (doc_state (ew_db w) tenant k = Held \<longrightarrow> doc_state (ew_db w') tenant k = Held)
    \<and> (doc_state (ew_db w) tenant k \<noteq> Free \<and> doc_state (ew_db w') tenant k = Free
        \<longrightarrow> ev = Answered PsFailed \<or> ev = Ruled PsFailed)"
proof -
  have moved: "doc_state (ew_db w') tenant k = doc_state (ew_db w) tenant k
      \<or> doc_move ev (doc_state (ew_db w) tenant k) (doc_state (ew_db w') tenant k)"
    using step_refines[OF assms(2) reachable_ok[OF assms(1)]] unfolding refines_step_def by blast
  have free: "state_of st = Free \<Longrightarrow> st = PsFailed" for st by (cases st) simp_all
  have "doc_state (ew_db w') tenant k = Held" if "doc_state (ew_db w) tenant k = Held"
    using moved that by (auto simp: doc_move_held)
  moreover have "ev = Answered PsFailed \<or> ev = Ruled PsFailed"
    if "doc_state (ew_db w) tenant k \<noteq> Free" "doc_state (ew_db w') tenant k = Free"
    using moved that free by (auto simp: doc_move_free)
  ultimately show ?thesis using moved by blast
qed

lemma ledger_refines_document_machine_witness:
  "doc_move (Answered PsFailed) InFlight Free
     \<and> doc_state (ew_db erp_sent) ''t'' (identity_of erp_posting) = InFlight"
proof -
  have "doc_state (ew_db erp_sent) ''t'' (identity_of erp_posting) = InFlight"
    "doc_state (ew_db erp_refused) ''t'' (identity_of erp_posting) = Free" by code_simp+
  then show ?thesis
    using ledger_refines_document_machine[OF erp_sent_reachable erp_refused_step, of "''t''" "identity_of erp_posting"]
    by simp
qed

text \<open>An answer counts as failed exactly when the provider refused with a definitive status.\<close>

lemma failure_is_definitive:
  "fst (outcome_of rmap reply) = PsFailed \<longleftrightarrow>
     (\<exists>x code. reply = Inl (x, Some code) \<and> exn_class_of x = ErpError \<and> 400 \<le> code \<and> code < 500
        \<and> code \<notin> {408, 409, 425, 429})"
  by (cases reply) (auto simp: outcome_of_def definitive_refusal_def NOT_DEFINITIVE_4XX_def Let_def
      split: option.splits)

section \<open>What a posting carries\<close>

lemma doc_field_Some:
  "doc_field d name f = Inr (Some x) \<longleftrightarrow> jget d name \<noteq> JNull \<and> jget d name \<noteq> JStr [] \<and> f (jget d name) = Inr x"
  by (auto simp: doc_field_def Let_def res_simps)

lemma erp_text_Inr:
  "erp_text v name maximum True = Inr t \<longleftrightarrow> v \<noteq> JNull \<and> v \<noteq> JStr [] \<and> t = py_strip (py_str v) \<and> t \<noteq> []
     \<and> length t \<le> maximum"
  by (auto simp: erp_text_def missing_text_def Let_def split: if_split_asm)

lemma register_field_Some:
  "register_field table name v = Inr (Some t) \<Longrightarrow> map_of table (py_strip (py_str v)) = Some t"
  by (auto simp: register_field_def res_simps erp_text_def missing_text_def Let_def
      split: if_split_asm option.splits)

lemma erp_amount_Inr: "erp_amount v = Inr n \<longleftrightarrow> v = JInt n \<and> 0 \<le> n \<and> n \<le> MAX_AMOUNT_MINOR"
  by (auto simp: erp_amount_def split: json.splits if_split_asm)

lemma assemble_Inr:
  assumes "assemble c su nu dt cu tt ac pa = Inr p"
  shows "su = Some (po_supplier p) \<and> nu = Some (po_number p) \<and> dt = Some (po_date p)
    \<and> cu = Some (po_currency p) \<and> tt = Some (po_total p) \<and> ac = Some (po_account p)
    \<and> pa = Some (po_counterparty p) \<and> po_driver p = es_driver c"
  using assms unfolding assemble_def
  by (cases su, simp, cases nu, simp, cases dt, simp, cases cu, simp, cases tt, simp, cases ac, simp, cases pa) auto

lemma resolve_postingE:
  assumes "resolve_posting c (JObj d) account party = Inr p"
  shows "erp_ready c = Inr ()"
    and "doc_field d ''supplier'' (\<lambda>v. erp_text v ''supplier'' 200 True) = Inr (Some (po_supplier p))"
    and "doc_field d ''number'' (\<lambda>v. erp_text v ''number'' 200 True) = Inr (Some (po_number p))"
    and "doc_field d ''doc_date'' erp_date = Inr (Some (po_date p))"
    and "doc_field d ''currency'' erp_currency = Inr (Some (po_currency p))"
    and "doc_field d ''total_minor'' erp_amount = Inr (Some (po_total p))"
    and "register_field (es_accounts c) ''account'' account = Inr (Some (po_account p))"
    and "register_field (es_counterparties c) ''counterparty'' party = Inr (Some (po_counterparty p))"
    and "po_driver p = es_driver c"
  using assms by (auto simp: resolve_posting_def res_simps dest: assemble_Inr)

text \<open>
  C13: a posting is exact. When a document resolves, the target is configured and enabled, supplier and
  number are the document's own texts, bounded and never empty, the date is the ISO form of a real day,
  the currency has three capital letters, the amount is the document's integer within its bound, and
  account and counterparty stand in the operator's registers under the aliases given.
\<close>

theorem resolved_posting_is_exact:
  assumes "resolve_posting c (JObj d) account party = Inr p"
  shows "es_enabled c \<and> po_driver p = es_driver c
    \<and> po_supplier p = py_strip (py_str (jget d ''supplier'')) \<and> po_supplier p \<noteq> [] \<and> length (po_supplier p) \<le> 200
    \<and> po_number p = py_strip (py_str (jget d ''number'')) \<and> po_number p \<noteq> [] \<and> length (po_number p) \<le> 200
    \<and> (\<exists>y m day. real_date y m day \<and> po_date p = iso_text y m day)
    \<and> length (po_currency p) = 3 \<and> list_all is_upper (po_currency p)
    \<and> jget d ''total_minor'' = JInt (po_total p) \<and> 0 \<le> po_total p \<and> po_total p \<le> MAX_AMOUNT_MINOR
    \<and> map_of (es_accounts c) (py_strip (py_str account)) = Some (po_account p)
    \<and> map_of (es_counterparties c) (py_strip (py_str party)) = Some (po_counterparty p)"
proof -
  note r = resolve_postingE[OF assms]
  have "es_enabled c" using r(1) by (simp add: erp_ready_def split: if_split_asm)
  moreover note r(9)
  moreover have "po_supplier p = py_strip (py_str (jget d ''supplier'')) \<and> po_supplier p \<noteq> [] \<and> length (po_supplier p) \<le> 200"
    using r(2) unfolding doc_field_Some erp_text_Inr by blast
  moreover have "po_number p = py_strip (py_str (jget d ''number'')) \<and> po_number p \<noteq> [] \<and> length (po_number p) \<le> 200"
    using r(3) unfolding doc_field_Some erp_text_Inr by blast
  moreover have "\<exists>y m day. real_date y m day \<and> po_date p = iso_text y m day"
    using r(4) unfolding doc_field_Some by (intro erp_date_real) blast
  moreover have "length (po_currency p) = 3 \<and> list_all is_upper (po_currency p)"
    using r(5) unfolding doc_field_Some by (auto simp: erp_currency_def res_simps split: if_split_asm)
  moreover have "jget d ''total_minor'' = JInt (po_total p) \<and> 0 \<le> po_total p \<and> po_total p \<le> MAX_AMOUNT_MINOR"
    using r(6) unfolding doc_field_Some erp_amount_Inr by blast
  moreover note register_field_Some[OF r(7)] register_field_Some[OF r(8)]
  ultimately show ?thesis by blast
qed

definition erp_document :: fields where
  "erp_document = [(''supplier'', JStr '' Acme ''), (''number'', JInt 7), (''doc_date'', JStr ''13.01.2026''),
     (''currency'', JStr ''UZS''), (''total_minor'', JInt 500)]"

lemma erp_document_resolves:
  "resolve_posting erp_target (JObj erp_document) (JStr ''purchase'') (JStr ''acme'') = Inr erp_posting"
  by code_simp

lemma resolved_posting_is_exact_witness:
  "\<exists>y m day. real_date y m day \<and> po_date erp_posting = iso_text y m day"
  using resolved_posting_is_exact[OF erp_document_resolves] by blast

section \<open>Notes on the code\<close>

text \<open>The claim key joins with a bar, so two documents can share one: the second cannot be posted.\<close>

lemma claim_keys_collide:
  "claim_text (d, ''invoice'', ''A|B'', ''C'') = claim_text (d, ''invoice'', ''A'', ''B|C'')"
  by (simp add: claim_text_def)

text \<open>With the default base path a request URL has a doubled slash.\<close>

lemma default_base_doubles_slash:
  "erp_url (erp_target\<lparr>es_base_path := ''/''\<rparr>) ''/post'' = ''https://erp.uz//post''"
  "base_path_field [] = Inr ''/''"
  by code_simp+

text \<open>A pointer does not reach into a list, so an identifier declared through one is not read.\<close>

lemma list_pointers_do_not_resolve:
  "held_in [(''existing_id'', JStr ''items.0.Ref_Key'')]
     (JObj [(''items'', JList [JObj [(''Ref_Key'', JStr ''R1'')]])])
   = Some ([CHR 0x7B, CHR 0x27] @ ''Ref_Key'' @ [CHR 0x27] @ '': '' @ [CHR 0x27] @ ''R1'' @ [CHR 0x27, CHR 0x7D])"
  by code_simp

text \<open>A host name followed by a line break passes the check of the declared host.\<close>

lemma host_check_admits_newline:
  "host_field [(''host'', JStr (''erp.uz'' @ [CHR 0x0A]))] = Inr (''erp.uz'' @ [CHR 0x0A])"
  by code_simp

text \<open>A path is checked without its outer blanks and kept with them.\<close>

lemma path_check_keeps_blanks: "path_field [(''post_path'', JStr '' /post'')] ''post_path'' = Inr '' /post''"
  by code_simp

end
