(* ===== verification/Oauth.thy ===== *)
theory Oauth
  imports Sync_Store Secret_Vault
begin

text \<open>
  Provider authorisation (\<^verbatim>\<open>platform_runtime/oauth.py\<close>): the authorisation-code flow with PKCE, stored
  credentials sealed by the vault, generations that fence late replies, and the outbox of remote
  revocations. One definition per transaction; the provider's replies are arguments of what follows
  them. Random values are the next drawn identifiers, or arguments where they are drawn before the
  transaction.
\<close>

section \<open>The manager\<close>

record oauth_provider =
  pv_name :: string
  pv_account :: string
  pv_scopes :: "string list"
  pv_config :: json
  pv_url :: "string \<Rightarrow> string \<Rightarrow> string"

record manager =
  mg_env :: env
  mg_name :: string
  mg_account :: string
  mg_config :: string
  mg_scopes :: "string list"
  mg_url :: "string \<Rightarrow> string \<Rightarrow> string"
  mg_gcm :: gcm
  mg_float :: "string \<Rightarrow> pyfloat"
  mg_vault :: vault
  mg_nonce :: "nat \<Rightarrow> string"

type_synonym sealer = "gcm \<times> (string \<Rightarrow> pyfloat) \<times> vault \<times> (nat \<Rightarrow> string)"

definition make_manager :: "env \<Rightarrow> sealer \<Rightarrow> oauth_provider \<Rightarrow> manager res" where
  "make_manager e v p = (case v of (g, rd, w, nonce) \<Rightarrow>
     bindr (digest e (pv_config p)) (\<lambda>h. bindr (oauth_ident (pv_name p)) (\<lambda>name.
     bindr (oauth_bounded 256 (pv_account p)) (\<lambda>account.
       let scopes = remdups (pv_scopes p) in
       if scopes = [] \<or> length scopes > 40 then raise ValueError ''Explicit OAuth scopes required''
       else bindr (each (oauth_bounded 256) scopes) (\<lambda>_.
         Inr \<lparr>mg_env = e, mg_name = name, mg_account = account, mg_config = h, mg_scopes = scopes,
              mg_url = pv_url p, mg_gcm = g, mg_float = rd, mg_vault = w, mg_nonce = nonce\<rparr>)))))"

definition opaque_hash :: "env \<Rightarrow> string \<Rightarrow> string res" where
  "opaque_hash e v = bindr (oauth_bounded 4096 v) (\<lambda>t. Inr (sha256hex e t))"

definition verifier_char :: "char \<Rightarrow> bool" where
  "verifier_char c \<longleftrightarrow> is_alnum c \<or> c \<in> {CHR ''.'', CHR ''_'', CHR ''~'', CHR ''-''}"

definition hex_digit_value :: "char \<Rightarrow> nat" where
  "hex_digit_value c = (let n = code_of c in if n < 58 then n - 48 else n - 87)"

fun unhex :: "string \<Rightarrow> string" where
  "unhex (a # b # s) = byte (16 * hex_digit_value a + hex_digit_value b) # unhex s"
| "unhex _ = []"

definition url_safe :: "char \<Rightarrow> char" where
  "url_safe c = (if c = CHR ''+'' then CHR ''-'' else if c = CHR ''/'' then CHR ''_'' else c)"

definition pkce_challenge :: "env \<Rightarrow> string \<Rightarrow> string res" where
  "pkce_challenge e verifier =
     (if 43 \<le> length verifier \<and> length verifier \<le> 128 \<and> list_all verifier_char verifier
      then Inr (map url_safe (rev (dropWhile (\<lambda>c. c = pad_char) (rev (b64encode (unhex (sha256hex e verifier)))))))
      else raise ValueError ''Invalid PKCE verifier'')"

definition oauth_context :: "manager \<Rightarrow> string \<Rightarrow> string \<Rightarrow> int \<Rightarrow> string \<Rightarrow> json" where
  "oauth_context m tenant connection generation purpose = JObj [(''tenant'', JStr tenant),
     (''connection'', JStr connection), (''generation'', JInt generation),
     (''provider'', JStr (mg_name m)), (''account'', JStr (mg_account m)), (''purpose'', JStr purpose)]"

definition seal_value :: "manager \<Rightarrow> db \<Rightarrow> json \<Rightarrow> json \<Rightarrow> string res" where
  "seal_value m s value context = vault_seal (mg_gcm m) (mg_nonce m (uuids s)) (mg_vault m) value context"

definition open_value :: "manager \<Rightarrow> string \<Rightarrow> json \<Rightarrow> json res" where
  "open_value m envelope context = vault_open (mg_gcm m) (mg_float m) (mg_vault m) (JStr envelope) context"

section \<open>Rows\<close>

definition is_connection :: "string \<Rightarrow> string \<Rightarrow> connection_row \<Rightarrow> bool" where
  "is_connection tenant connection x \<longleftrightarrow> x_tenant x = tenant \<and> x_id x = connection"

definition find_connection :: "db \<Rightarrow> string \<Rightarrow> string \<Rightarrow> connection_row option" where
  "find_connection s tenant connection = find (is_connection tenant connection) (connections s)"

definition connection_of :: "db \<Rightarrow> string \<Rightarrow> string \<Rightarrow> connection_row res" where
  "connection_of s tenant connection = (case find_connection s tenant connection of
      None \<Rightarrow> raise NotFound ''OAuth connection not found'' | Some x \<Rightarrow> Inr x)"

definition set_connection ::
  "string \<Rightarrow> string \<Rightarrow> (connection_row \<Rightarrow> connection_row) \<Rightarrow> db \<Rightarrow> db" where
  "set_connection tenant connection f s =
     s\<lparr>connections := upd_where (is_connection tenant connection) f (connections s)\<rparr>"

definition put_connection :: "connection_row \<Rightarrow> db \<Rightarrow> db" where
  "put_connection x s = (case find_connection s (x_tenant x) (x_id x) of
      Some _ \<Rightarrow> set_connection (x_tenant x) (x_id x) (\<lambda>_. x) s
    | None \<Rightarrow> s\<lparr>connections := connections s @ [x]\<rparr>)"

definition drop_states :: "string \<Rightarrow> string \<Rightarrow> db \<Rightarrow> db" where
  "drop_states tenant connection s =
     s\<lparr>oauth_states := filter (\<lambda>q. \<not> (os_tenant q = tenant \<and> os_connection q = connection)) (oauth_states s)\<rparr>"

definition configured :: "manager \<Rightarrow> connection_row \<Rightarrow> unit res" where
  "configured m x =
     (if x_provider x \<noteq> mg_name m \<or> x_account x \<noteq> mg_account m \<or> x_config x \<noteq> mg_config m
      then raise Forbidden ''OAuth configuration changed; authorize again'' else Inr ())"

definition oauth_owner :: "manager \<Rightarrow> db \<Rightarrow> string \<Rightarrow> string \<Rightarrow> bool \<Rightarrow> unit res" where
  "oauth_owner m s tenant actor active =
     bindr (require_authority (mg_env m) tenant ''web'' actor [''owner'']) (\<lambda>_.
       if active then require_active (mg_env m) s tenant else Inr ())"

definition oauth_audit :: "int \<Rightarrow> string \<Rightarrow> string \<Rightarrow> string \<Rightarrow> fields \<Rightarrow> db \<Rightarrow> db" where
  "oauth_audit now tenant action actor details s = audit now tenant [] (''oauth.'' @ action) actor details s"

section \<open>Starting a flow\<close>

definition unresolved :: "string \<Rightarrow> string \<Rightarrow> revocation_row \<Rightarrow> bool" where
  "unresolved tenant connection r \<longleftrightarrow> rv_tenant r = tenant \<and> rv_connection r = connection
     \<and> rv_status r \<noteq> RvConfirmed"

definition BUSY :: "conn_status list" where "BUSY = [CnActive, CnRefreshing, CnExchanging]"

definition new_connection :: "manager \<Rightarrow> int \<Rightarrow> string \<Rightarrow> string \<Rightarrow> int \<Rightarrow> string \<Rightarrow> connection_row" where
  "new_connection m now tenant connection generation actor = \<lparr>x_tenant = tenant, x_id = connection,
     x_provider = mg_name m, x_account = mg_account m, x_config = mg_config m,
     x_generation = generation, x_status = CnAuthorizing, x_scopes = [], x_envelope = [], x_expires = 0,
     x_attempt = [], x_started = 0, x_owner = actor, x_updated = now\<rparr>"

definition next_generation :: "connection_row option \<Rightarrow> int" where
  "next_generation old = (case old of None \<Rightarrow> 1 | Some x \<Rightarrow> x_generation x + 1)"

record authorization =
  az_tenant :: string
  az_connection :: string
  az_actor :: string
  az_session :: string

definition begin_tx :: "manager \<Rightarrow> int \<Rightarrow> authorization \<Rightarrow> string \<Rightarrow> string \<Rightarrow> db \<Rightarrow> (int \<times> db) res" where
  "begin_tx m now z state verifier s = (let tenant = az_tenant z; connection = az_connection z;
       old = find_connection s tenant connection; generation = next_generation old in
     bindr (oauth_owner m s tenant (az_actor z) True) (\<lambda>_.
       if list_ex (unresolved tenant connection) (revocations s)
         then raise Conflict ''Resolve pending remote revocation before reauthorization''
       else if (case old of None \<Rightarrow> False | Some x \<Rightarrow> x_status x \<in> set BUSY)
         then raise Conflict ''Disconnect active or in-flight OAuth connection before reconnecting''
       else bindr (seal_value m s (JObj [(''verifier'', JStr verifier)])
              (oauth_context m tenant connection generation ''pkce'')) (\<lambda>pending.
         bindr (opaque_hash (mg_env m) state) (\<lambda>sh. bindr (opaque_hash (mg_env m) (az_session z)) (\<lambda>zh.
           let s1 = put_connection (new_connection m now tenant connection generation (az_actor z))
                 (drop_states tenant connection (drawn s)) in
           if list_ex (\<lambda>q. os_hash q = sh) (oauth_states s1)
             then raise (OtherError ''IntegrityError'') ''UNIQUE constraint failed: p_oauth_states.state_hash''
           else Inr (generation, oauth_audit now tenant ''started'' (az_actor z)
             [(''connection'', JStr connection), (''generation'', JInt generation)]
             (s1\<lparr>oauth_states := oauth_states s1 @ [\<lparr>os_hash = sh, os_tenant = tenant,
                os_connection = connection, os_actor = az_actor z, os_session = zh,
                os_generation = generation, os_config = mg_config m, os_expires = now + 600,
                os_envelope = pending, os_consumed = False\<rparr>]\<rparr>)))))))"

definition checked_authorization :: "authorization \<Rightarrow> unit res" where
  "checked_authorization z = bindr (oauth_ident (az_tenant z)) (\<lambda>_. bindr (oauth_ident (az_connection z)) (\<lambda>_.
     bindr (oauth_bounded 256 (az_actor z)) (\<lambda>_. bindr (oauth_bounded 256 (az_session z)) (\<lambda>_. Inr ()))))"

definition oauth_begin ::
  "manager \<Rightarrow> int \<Rightarrow> authorization \<Rightarrow> string \<Rightarrow> string \<Rightarrow> db \<Rightarrow> ((string \<times> int) \<times> db) res" where
  "oauth_begin m now z state verifier s =
     bindr (checked_authorization z) (\<lambda>_. bindr (pkce_challenge (mg_env m) verifier) (\<lambda>challenge.
       let url = mg_url m state challenge in
       bindr (begin_tx m now z state verifier s) (\<lambda>(generation, t). Inr ((url, generation), t))))"

section \<open>Provider answers\<close>

record tokens =
  tk_access :: string
  tk_refresh :: string
  tk_scopes :: "string list"

definition tokens_json :: "tokens \<Rightarrow> json" where
  "tokens_json t = JObj [(''access_token'', JStr (tk_access t)), (''refresh_token'', JStr (tk_refresh t)),
     (''scopes'', jstrs (tk_scopes t))]"

definition str_items :: "json \<Rightarrow> string list" where
  "str_items v = (case v of JList xs \<Rightarrow> map the_str xs | _ \<Rightarrow> [])"

definition tokens_of_json :: "json \<Rightarrow> tokens" where
  "tokens_of_json v = (let d = obj_fields v in \<lparr>tk_access = the_str (jget d ''access_token''),
     tk_refresh = the_str (jget d ''refresh_token''), tk_scopes = str_items (jget d ''scopes'')\<rparr>)"

lemma tokens_round_trip [simp]: "tokens_of_json (tokens_json t) = t"
  by (simp add: tokens_of_json_def tokens_json_def obj_fields_def jget_def jstrs_def str_items_def comp_def)

definition issued_credential :: "json \<Rightarrow> string \<Rightarrow> string res" where
  "issued_credential v name = (case v of
      JStr t \<Rightarrow> (case oauth_bounded 16000 t of
          Inl _ \<Rightarrow> raise OAuthError (''Provider '' @ name @ '' exceeds the accepted size'') | Inr u \<Rightarrow> Inr u)
    | _ \<Rightarrow> raise OAuthError (''Provider '' @ name @ '' exceeds the accepted size''))"

definition clean_credential :: "string \<Rightarrow> bool" where
  "clean_credential t \<longleftrightarrow> \<not> list_ex py_isspace t \<and> list_all (\<lambda>c. code_of c < 128) t"

definition split_space :: "string \<Rightarrow> string list" where
  "split_space t = filter (\<lambda>w. w \<noteq> []) (foldr (\<lambda>c ws. if py_isspace c then [] # ws
      else (case ws of [] \<Rightarrow> [[c]] | w # us \<Rightarrow> (c # w) # us)) t [[]])"

definition granted_scopes :: "json \<Rightarrow> tokens option \<Rightarrow> string list res" where
  "granted_scopes v old = (case (v, old) of
      (JNull, Some t) \<Rightarrow> Inr (tk_scopes t)
    | (JStr t, _) \<Rightarrow> if length t \<le> 10000 then Inr (sort (remdups (split_space t)))
        else raise OAuthError ''Granted scopes missing''
    | _ \<Rightarrow> raise OAuthError ''Granted scopes missing'')"

definition bearer :: "json \<Rightarrow> fields res" where
  "bearer body = (case body of
      JObj d \<Rightarrow> (case jget_or d ''token_type'' (JStr []) of
          JStr t \<Rightarrow> if map to_lower t = ''bearer'' then Inr d
            else raise OAuthError ''Invalid provider token response''
        | _ \<Rightarrow> raise (OtherError ''AttributeError'') ''lower'')
    | _ \<Rightarrow> raise OAuthError ''Invalid provider token response'')"

definition issued_refresh :: "fields \<Rightarrow> tokens option \<Rightarrow> json" where
  "issued_refresh d old = jget_or d ''refresh_token''
     (case old of None \<Rightarrow> JNull | Some t \<Rightarrow> JStr (tk_refresh t))"

text \<open>\<^verbatim>\<open>_tokens\<close>.\<close>

definition read_tokens :: "manager \<Rightarrow> int \<Rightarrow> json \<Rightarrow> tokens option \<Rightarrow> (tokens \<times> int) res" where
  "read_tokens m now body old = bindr (bearer body) (\<lambda>d.
     bindr (issued_credential (jget d ''access_token'') ''access token'') (\<lambda>access.
     if \<not> clean_credential access then raise OAuthError ''Invalid access credential''
     else bindr (issued_credential (issued_refresh d old) ''refresh token'') (\<lambda>refresh.
     if \<not> clean_credential refresh then raise OAuthError ''Invalid refresh credential''
     else (case jget d ''expires_in'' of
         JInt n \<Rightarrow>
           if \<not> (60 \<le> n \<and> n \<le> 86400) then raise OAuthError ''Invalid token expiry''
           else bindr (granted_scopes (jget d ''scope'') old) (\<lambda>scopes.
             if set scopes \<noteq> set (mg_scopes m) then raise Forbidden ''Granted scopes differ from configured scopes''
             else Inr (\<lparr>tk_access = access, tk_refresh = refresh, tk_scopes = sort scopes\<rparr>, now + n))
       | _ \<Rightarrow> raise OAuthError ''Invalid token expiry''))))"

section \<open>Completing a flow\<close>

definition callback_binding :: "oauth_state_row \<Rightarrow> string \<times> string \<times> string \<times> string \<times> int \<times> string" where
  "callback_binding q = (os_tenant q, os_connection q, os_actor q, os_session q, os_generation q, os_config q)"

record code_claim =
  cl_generation :: int
  cl_attempt :: string
  cl_verifier :: string

text \<open>The first transaction of \<^verbatim>\<open>complete\<close>: the state is consumed before the code leaves.\<close>

definition complete_claim :: "manager \<Rightarrow> int \<Rightarrow> authorization \<Rightarrow> string \<Rightarrow> db \<Rightarrow> (code_claim \<times> db) res" where
  "complete_claim m now z state s = (let e = mg_env m; tenant = az_tenant z; connection = az_connection z in
     bindr (oauth_owner m s tenant (az_actor z) True) (\<lambda>_.
     bindr (connection_of s tenant connection) (\<lambda>row. bindr (configured m row) (\<lambda>_.
     bindr (opaque_hash e state) (\<lambda>sh.
       case find (\<lambda>q. os_hash q = sh) (oauth_states s) of
         None \<Rightarrow> raise Forbidden ''OAuth state invalid or expired''
       | Some q \<Rightarrow>
           if os_consumed q \<or> os_expires q \<le> now then raise Forbidden ''OAuth state invalid or expired''
           else bindr (opaque_hash e (az_session z)) (\<lambda>zh.
             if callback_binding q \<noteq> (tenant, connection, az_actor z, zh, x_generation row, mg_config m)
               then raise Forbidden ''OAuth callback binding mismatch''
             else if x_status row \<noteq> CnAuthorizing then raise Conflict ''OAuth flow no longer pending''
             else bindr (open_value m (os_envelope q)
                    (oauth_context m tenant connection (x_generation row) ''pkce'')) (\<lambda>secret.
               let attempt = fresh e s; s1 = drawn s in
               Inr (\<lparr>cl_generation = x_generation row, cl_attempt = attempt,
                     cl_verifier = the_str (jget (obj_fields secret) ''verifier'')\<rparr>,
                 set_connection tenant connection
                   (\<lambda>x. x\<lparr>x_status := CnExchanging, x_attempt := attempt, x_started := now\<rparr>)
                   (s1\<lparr>oauth_states := upd_where (\<lambda>p. os_hash p = sh)
                      (\<lambda>p. p\<lparr>os_consumed := True, os_envelope := []\<rparr>) (oauth_states s1)\<rparr>)))))))))"

definition fenced :: "connection_row \<Rightarrow> int \<Rightarrow> string \<Rightarrow> bool" where
  "fenced x generation attempt \<longleftrightarrow> x_generation x \<noteq> generation \<or> x_attempt x \<noteq> attempt
     \<or> x_status x \<notin> {CnRefreshing, CnExchanging}"

text \<open>\<^verbatim>\<open>_store\<close>; \<open>guard\<close> is the exception of the session guard, if it raises.\<close>

definition store_tokens ::
  "manager \<Rightarrow> int \<Rightarrow> exn option \<Rightarrow> string \<Rightarrow> string \<Rightarrow> string \<Rightarrow> int \<Rightarrow> string \<Rightarrow> tokens \<Rightarrow> int \<Rightarrow> db \<Rightarrow> db res" where
  "store_tokens m now guard tenant connection actor generation attempt tk expires s =
     (case guard of Some x \<Rightarrow> Inl x | None \<Rightarrow>
       bindr (oauth_owner m s tenant actor True) (\<lambda>_. bindr (connection_of s tenant connection) (\<lambda>row.
       bindr (configured m row) (\<lambda>_.
         if fenced row generation attempt then raise Conflict ''OAuth operation fenced''
         else bindr (seal_value m s (tokens_json tk) (oauth_context m tenant connection generation ''tokens'')) (\<lambda>envelope.
           Inr (oauth_audit now tenant ''active'' actor
             [(''connection'', JStr connection), (''generation'', JInt generation)]
             (set_connection tenant connection (\<lambda>x. x\<lparr>x_status := CnActive, x_envelope := envelope,
                x_scopes := tk_scopes tk, x_expires := expires, x_attempt := [], x_updated := now\<rparr>) (drawn s))))))))"

fun conn_text :: "conn_status \<Rightarrow> string" where
  "conn_text CnAuthorizing = ''authorizing''"
| "conn_text CnExchanging = ''exchanging''"
| "conn_text CnActive = ''active''"
| "conn_text CnRefreshing = ''refreshing''"
| "conn_text CnUncertain = ''uncertain''"
| "conn_text CnReauthRequired = ''reauth_required''"
| "conn_text CnRevoked = ''revoked''"

definition attempt_row :: "string \<Rightarrow> string \<Rightarrow> int \<Rightarrow> string \<Rightarrow> connection_row \<Rightarrow> bool" where
  "attempt_row tenant connection generation attempt x \<longleftrightarrow> is_connection tenant connection x
     \<and> x_generation x = generation \<and> x_attempt x = attempt"

text \<open>\<^verbatim>\<open>_failure\<close>.\<close>

definition fail_attempt ::
  "int \<Rightarrow> string \<Rightarrow> string \<Rightarrow> int \<Rightarrow> string \<Rightarrow> conn_status \<Rightarrow> db \<Rightarrow> db" where
  "fail_attempt now tenant connection generation attempt status s =
     (let P = attempt_row tenant connection generation attempt;
          t = s\<lparr>connections := upd_where P (\<lambda>x. x\<lparr>x_status := status, x_envelope := [],
                x_attempt := [], x_updated := now\<rparr>) (connections s)\<rparr> in
      if list_ex P (connections s)
      then oauth_audit now tenant (conn_text status) ''oauth''
        [(''connection'', JStr connection), (''generation'', JInt generation)] t
      else t)"

section \<open>Remote revocations\<close>

definition queue_revoke ::
  "manager \<Rightarrow> int \<Rightarrow> string \<Rightarrow> string \<Rightarrow> int \<Rightarrow> json \<Rightarrow> db \<Rightarrow> (string \<times> db) res" where
  "queue_revoke m now tenant connection generation token s = (case token of
      JStr t \<Rightarrow> bindr (oauth_bounded 16000 t) (\<lambda>_.
        if \<not> clean_credential t then raise OAuthError ''Invalid revocation credential''
        else let rid = fresh (mg_env m) s; s1 = drawn s in
          bindr (seal_value m s1 (JObj [(''refresh_token'', JStr t)])
              (oauth_context m tenant connection generation (''revoke:'' @ rid))) (\<lambda>envelope.
            Inr (rid, s1\<lparr>revocations := revocations s1 @ [\<lparr>rv_id = rid, rv_tenant = tenant,
              rv_connection = connection, rv_generation = generation, rv_config = mg_config m,
              rv_envelope = envelope, rv_status = RvPending, rv_attempt = [], rv_started = 0,
              rv_updated = now\<rparr>]\<rparr>)))
    | _ \<Rightarrow> raise ValueError ''Bounded OAuth field required'')"

text \<open>
  \<^verbatim>\<open>_drain_revoke\<close>: a claim that hands out the token, or finds it confirmed; then the recorded outcome.
\<close>

datatype drain_claim = AlreadyConfirmed | ToRevoke string string

definition drain_claim_tx :: "manager \<Rightarrow> int \<Rightarrow> string \<Rightarrow> string \<Rightarrow> db \<Rightarrow> (drain_claim \<times> db) res" where
  "drain_claim_tx m now tenant rid s =
     (case find (\<lambda>r. rv_tenant r = tenant \<and> rv_id r = rid) (revocations s) of
        None \<Rightarrow> raise NotFound ''Revocation not found''
      | Some r \<Rightarrow>
          if rv_status r = RvConfirmed then Inr (AlreadyConfirmed, s)
          else if rv_config r \<noteq> mg_config m
            then raise Forbidden ''Revocation requires original provider configuration''
          else if rv_status r = RvInflight \<and> rv_started r + 120 > now
            then raise Conflict ''Revocation already in flight''
          else bindr (open_value m (rv_envelope r)
                (oauth_context m tenant (rv_connection r) (rv_generation r) (''revoke:'' @ rid))) (\<lambda>secret.
            let attempt = fresh (mg_env m) s; s1 = drawn s in
            Inr (ToRevoke attempt (the_str (jget (obj_fields secret) ''refresh_token'')),
              s1\<lparr>revocations := upd_where (\<lambda>x. rv_id x = rid)
                 (\<lambda>x. x\<lparr>rv_status := RvInflight, rv_attempt := attempt, rv_started := now, rv_updated := now\<rparr>)
                 (revocations s1)\<rparr>)))"

definition drain_settle_tx :: "int \<Rightarrow> string \<Rightarrow> revocation_row \<Rightarrow> string \<Rightarrow> bool \<Rightarrow> db \<Rightarrow> db" where
  "drain_settle_tx now tenant r attempt confirmed s =
     (let P = (\<lambda>x. rv_id x = rv_id r \<and> rv_attempt x = attempt);
          status = (if confirmed then RvConfirmed else RvUncertain);
          t = s\<lparr>revocations := upd_where P (\<lambda>x. x\<lparr>rv_status := status,
                 rv_envelope := (if confirmed then [] else rv_envelope r), rv_attempt := [], rv_updated := now\<rparr>)
                 (revocations s)\<rparr> in
      if list_ex P (revocations s)
      then oauth_audit now tenant ''remote_revoke'' ''oauth''
        [(''connection'', JStr (rv_connection r)), (''id'', JStr (rv_id r)),
         (''status'', JStr (if confirmed then ''confirmed'' else ''uncertain''))] t
      else t)"

definition drain_revoke ::
  "manager \<Rightarrow> int \<times> int \<Rightarrow> (string \<Rightarrow> bool) \<Rightarrow> string \<Rightarrow> string \<Rightarrow> db \<Rightarrow> string res \<times> db" where
  "drain_revoke m stamps revoked tenant rid s =
     (case (drain_claim_tx m (fst stamps) tenant rid s, find (\<lambda>r. rv_tenant r = tenant \<and> rv_id r = rid) (revocations s)) of
        (Inr (AlreadyConfirmed, t), _) \<Rightarrow> (Inr ''confirmed'', t)
      | (Inr (ToRevoke attempt token, t), Some r) \<Rightarrow>
          (Inr (if revoked token then ''confirmed'' else ''uncertain''),
           drain_settle_tx (snd stamps) tenant r attempt (revoked token) t)
      | (Inl x, _) \<Rightarrow> (Inl x, s)
      | (_, None) \<Rightarrow> (raise NotFound ''Revocation not found'', s))"

text \<open>\<^verbatim>\<open>_cleanup_issued\<close>: a credential that cannot be used is queued for revocation.\<close>

definition cleanup_issued ::
  "manager \<Rightarrow> int \<times> int \<times> int \<Rightarrow> (string \<Rightarrow> bool) \<Rightarrow> string \<Rightarrow> string \<Rightarrow> int \<Rightarrow> json \<Rightarrow> tokens option \<Rightarrow> db \<Rightarrow> db" where
  "cleanup_issued m stamps revoked tenant connection generation body old s =
     (case (body, stamps) of
        (JObj d, n1, n2, n3) \<Rightarrow>
          (let unavailable = oauth_audit n3 tenant ''cleanup_unavailable'' ''oauth'' [(''connection'', JStr connection)] in
           case queue_revoke m n1 tenant connection generation (issued_refresh d old) s of
             Inl _ \<Rightarrow> unavailable s
           | Inr (rid, t) \<Rightarrow> (case drain_revoke m (n2, n3) revoked tenant rid t of
                 (Inl _, u) \<Rightarrow> unavailable u | (Inr _, u) \<Rightarrow> u))
      | _ \<Rightarrow> s)"

section \<open>Reading a reply\<close>

text \<open>
  The provider as the flow uses it: the reply to an exchange or a refresh, the identity behind an
  access token and the success of a revocation.
\<close>

record remote =
  rm_exchange :: "string \<Rightarrow> string \<Rightarrow> exn + json"
  rm_refresh :: "string \<Rightarrow> exn + json"
  rm_identity :: "string \<Rightarrow> exn + string"
  rm_revoke :: "string \<Rightarrow> bool"

definition verified_tokens ::
  "manager \<Rightarrow> (string \<Rightarrow> exn + string) \<Rightarrow> int \<Rightarrow> string \<Rightarrow> json \<Rightarrow> tokens option \<Rightarrow> (tokens \<times> int) res" where
  "verified_tokens m identity now mismatch body old =
     bindr (read_tokens m now body old) (\<lambda>(tk, expires).
     bindr (identity (tk_access tk)) (\<lambda>account.
       if account \<noteq> mg_account m then raise Forbidden mismatch else Inr (tk, expires)))"

text \<open>How the handlers of \<^verbatim>\<open>complete\<close> and \<^verbatim>\<open>access\<close> end: the new status and the error they raise.\<close>

definition outcome_error :: "string \<Rightarrow> string \<Rightarrow> exn \<Rightarrow> conn_status \<times> exn" where
  "outcome_error rejected unavailable x =
     (if catches [InvalidGrant] x then (CnReauthRequired, Exn OAuthError rejected)
      else (CnUncertain,
        if catches [Forbidden] x then Exn OAuthError (exn_text x)
        else if catches [OAuthError] x then x
        else Exn OAuthError unavailable))"

definition settle_failure ::
  "manager \<Rightarrow> remote \<Rightarrow> int \<Rightarrow> string \<Rightarrow> string \<Rightarrow> int \<Rightarrow> string \<Rightarrow> json \<Rightarrow> tokens option \<Rightarrow> conn_status \<Rightarrow> db \<Rightarrow> db" where
  "settle_failure m p now tenant connection generation attempt body old status s =
     (let t = fail_attempt now tenant connection generation attempt status s in
      if status = CnReauthRequired then t
      else cleanup_issued m (now, now, now) (rm_revoke p) tenant connection generation body old t)"

text \<open>What follows the provider's reply, for an exchange (\<open>old = None\<close>) and for a refresh.\<close>

definition settle_exchange ::
  "manager \<Rightarrow> remote \<Rightarrow> int \<Rightarrow> exn option \<Rightarrow> string \<times> string \<times> string \<Rightarrow> string \<Rightarrow> string \<Rightarrow> int \<Rightarrow> string
     \<Rightarrow> exn + json \<Rightarrow> tokens option \<Rightarrow> string \<Rightarrow> db \<Rightarrow> (tokens \<times> int) res \<times> db" where
  "settle_exchange m p now guard who rejected unavailable generation attempt reply old mismatch s =
     (case who of (tenant, connection, actor) \<Rightarrow>
       (case bindr reply (\<lambda>body. bindr (verified_tokens m (rm_identity p) now mismatch body old) (\<lambda>(tk, expires).
            bindr (store_tokens m now guard tenant connection actor generation attempt tk expires s) (\<lambda>t.
              Inr ((tk, expires), t)))) of
          Inr (r, t) \<Rightarrow> (Inr r, t)
        | Inl x \<Rightarrow> (case outcome_error rejected unavailable x of (status, y) \<Rightarrow>
            (Inl y, settle_failure m p now tenant connection generation attempt
               (case reply of Inr body \<Rightarrow> body | Inl _ \<Rightarrow> JNull) old status s))))"

definition describe :: "db \<Rightarrow> string \<Rightarrow> string \<Rightarrow> fields res" where
  "describe s tenant connection = bindr (connection_of s tenant connection) (\<lambda>x. Inr
     [(''id'', JStr (x_id x)), (''provider'', JStr (x_provider x)), (''account'', JStr (x_account x)),
      (''generation'', JInt (x_generation x)), (''status'', JStr (conn_text (x_status x))),
      (''expires'', JInt (x_expires x)), (''updated'', JInt (x_updated x))])"

text \<open>\<^verbatim>\<open>complete\<close>: the claim at \<open>n1\<close>, the provider, and everything after its reply at \<open>n2\<close>.\<close>

definition oauth_complete ::
  "manager \<Rightarrow> remote \<Rightarrow> int \<times> int \<Rightarrow> exn option \<Rightarrow> authorization \<Rightarrow> string \<Rightarrow> string \<Rightarrow> db \<Rightarrow> fields res \<times> db" where
  "oauth_complete m p stamps guard z state code s =
     (case bindr (checked_authorization z) (\<lambda>_. bindr (oauth_bounded 4096 code) (\<lambda>_.
         complete_claim m (fst stamps) z state s)) of
        Inl x \<Rightarrow> (Inl x, s)
      | Inr (c, s1) \<Rightarrow>
          (case settle_exchange m p (snd stamps) guard (az_tenant z, az_connection z, az_actor z)
               ''Provider authorization rejected; authorize again''
               ''Authorization outcome unavailable; authorize again''
               (cl_generation c) (cl_attempt c) (rm_exchange p code (cl_verifier c)) None
               ''Provider account mismatch'' s1 of
             (Inl x, t) \<Rightarrow> (Inl x, t)
           | (Inr _, t) \<Rightarrow> (describe t (az_tenant z) (az_connection z), t)))"

section \<open>Using a credential\<close>

record grant =
  gr_token :: string
  gr_generation :: int
  gr_expires :: int
  gr_account :: string

definition agent_connection ::
  "manager \<Rightarrow> db \<Rightarrow> string \<Rightarrow> string \<Rightarrow> string \<Rightarrow> string list \<Rightarrow> connection_row res" where
  "agent_connection m s tenant connection agent required = (let e = mg_env m in
     bindr (require_active e s tenant) (\<lambda>_. bindr (policy_of e tenant agent) (\<lambda>p.
       if connection \<notin> set (p_connections p) then raise Forbidden ''Agent connection access denied''
       else bindr (connection_of s tenant connection) (\<lambda>row. bindr (configured m row) (\<lambda>_.
         bindr (oauth_owner m s tenant (x_owner row) True) (\<lambda>_.
           if \<not> set required \<subseteq> set (x_scopes row) then raise Forbidden ''Operation scope denied''
           else Inr row))))))"

datatype access_claim = Usable grant | Renew tokens int string string

definition access_tx ::
  "manager \<Rightarrow> int \<Rightarrow> string \<Rightarrow> string \<Rightarrow> string \<Rightarrow> string list \<Rightarrow> db \<Rightarrow> (access_claim \<times> db) res" where
  "access_tx m now tenant connection agent required s =
     bindr (agent_connection m s tenant connection agent required) (\<lambda>row.
       if x_status row = CnRefreshing
         then raise RefreshInProgress ''Refresh in progress; retry only the safe read later''
       else if x_status row \<noteq> CnActive then raise Forbidden ''OAuth connection requires authorization''
       else bindr (open_value m (x_envelope row)
              (oauth_context m tenant connection (x_generation row) ''tokens'')) (\<lambda>secret.
         let tk = tokens_of_json secret in
         if x_expires row > now + 60
           then Inr (Usable \<lparr>gr_token = tk_access tk, gr_generation = x_generation row,
             gr_expires = x_expires row, gr_account = x_account row\<rparr>, s)
         else let attempt = fresh (mg_env m) s in
           Inr (Renew tk (x_generation row) attempt (x_owner row),
             set_connection tenant connection (\<lambda>x. x\<lparr>x_status := CnRefreshing, x_attempt := attempt,
               x_started := now, x_updated := now\<rparr>) (drawn s))))"

definition scopes_declared :: "manager \<Rightarrow> string list \<Rightarrow> unit res" where
  "scopes_declared m required = (if required = [] \<or> \<not> set required \<subseteq> set (mg_scopes m)
     then raise Forbidden ''Explicit configured operation scopes required'' else Inr ())"

definition oauth_access ::
  "manager \<Rightarrow> remote \<Rightarrow> int \<times> int \<Rightarrow> string \<Rightarrow> string \<Rightarrow> string \<Rightarrow> string list \<Rightarrow> db \<Rightarrow> grant res \<times> db" where
  "oauth_access m p stamps tenant connection agent required s =
     (case bindr (oauth_ident tenant) (\<lambda>_. bindr (oauth_ident connection) (\<lambda>_. bindr (oauth_bounded 256 agent) (\<lambda>_.
         bindr (scopes_declared m required) (\<lambda>_. access_tx m (fst stamps) tenant connection agent required s)))) of
        Inl x \<Rightarrow> (Inl x, s)
      | Inr (Usable g, t) \<Rightarrow> (Inr g, t)
      | Inr (Renew tk generation attempt owner, s1) \<Rightarrow>
          (case settle_exchange m p (snd stamps) None (tenant, connection, owner)
               ''Provider refresh rejected; authorize again'' ''Refresh outcome unavailable; authorize again''
               generation attempt (rm_refresh p (tk_refresh tk)) (Some tk)
               ''Provider account mismatch after refresh'' s1 of
             (Inl x, t) \<Rightarrow> (Inl x, t)
           | (Inr (new, expires), t) \<Rightarrow> (Inr \<lparr>gr_token = tk_access new, gr_generation = generation,
                gr_expires = expires, gr_account = mg_account m\<rparr>, t)))"

definition fence :: "manager \<Rightarrow> int \<Rightarrow> string \<Rightarrow> string \<Rightarrow> string \<Rightarrow> string list \<Rightarrow> grant \<Rightarrow> db \<Rightarrow> unit res" where
  "fence m now tenant connection agent required g s =
     bindr (agent_connection m s tenant connection agent required) (\<lambda>row.
       if x_status row \<noteq> CnActive \<or> x_generation row \<noteq> gr_generation g \<or> x_expires row \<le> now
       then raise Forbidden ''OAuth grant no longer valid'' else Inr ())"

section \<open>Ending a connection\<close>

definition revoke_row :: "int \<Rightarrow> connection_row \<Rightarrow> connection_row" where
  "revoke_row now x = x\<lparr>x_status := CnRevoked, x_generation := x_generation x + 1, x_envelope := [],
     x_attempt := [], x_expires := 0, x_updated := now\<rparr>"

text \<open>The credential of the row is queued for remote revocation where it can be read.\<close>

definition queue_stored ::
  "manager \<Rightarrow> int \<Rightarrow> bool \<Rightarrow> connection_row \<Rightarrow> db \<Rightarrow> string option \<times> bool \<times> db" where
  "queue_stored m now remote row s =
     (if remote \<and> x_envelope row \<noteq> [] then
        (case bindr (configured m row) (\<lambda>_. bindr (open_value m (x_envelope row)
              (oauth_context m (x_tenant row) (x_id row) (x_generation row) ''tokens'')) (\<lambda>secret.
            queue_revoke m now (x_tenant row) (x_id row) (x_generation row)
              (jget (obj_fields secret) ''refresh_token'') s)) of
           Inl _ \<Rightarrow> (None, True, s)
         | Inr (rid, t) \<Rightarrow> (Some rid, False, t))
      else (None, False, s))"

datatype revoke_claim = AlreadyRevoked | Revoked "string option" bool

definition revoke_tx ::
  "manager \<Rightarrow> int \<Rightarrow> string \<Rightarrow> string \<Rightarrow> string \<Rightarrow> bool \<Rightarrow> db \<Rightarrow> (revoke_claim \<times> db) res" where
  "revoke_tx m now tenant connection actor remote s =
     bindr (oauth_owner m s tenant actor False) (\<lambda>_. bindr (connection_of s tenant connection) (\<lambda>row.
       if x_status row = CnRevoked then Inr (AlreadyRevoked, s)
       else (case queue_stored m now remote row s of (rid, unavailable, t) \<Rightarrow>
         Inr (Revoked rid unavailable,
           oauth_audit now tenant ''revoked'' actor [(''connection'', JStr connection),
             (''remote_requested'', JBool remote), (''remote_unavailable'', JBool unavailable)]
           (drop_states tenant connection (set_connection tenant connection (revoke_row now) t))))))"

definition oauth_revoke ::
  "manager \<Rightarrow> remote \<Rightarrow> int \<times> int \<times> int \<Rightarrow> string \<Rightarrow> string \<Rightarrow> string \<Rightarrow> bool \<Rightarrow> db \<Rightarrow> string res \<times> db" where
  "oauth_revoke m p stamps tenant connection actor remote s =
     (case revoke_tx m (fst stamps) tenant connection actor remote s of
        Inl x \<Rightarrow> (Inl x, s)
      | Inr (AlreadyRevoked, t) \<Rightarrow> (Inr ''see_revocation_outbox'', t)
      | Inr (Revoked None unavailable, t) \<Rightarrow>
          (Inr (if \<not> remote then ''not_requested'' else if unavailable then ''unavailable'' else ''no_credential''), t)
      | Inr (Revoked (Some rid) _, t) \<Rightarrow> (case drain_revoke m (snd stamps) (rm_revoke p) tenant rid t of
            (Inr status, u) \<Rightarrow> (Inr status, u) | (Inl _, u) \<Rightarrow> (Inr ''uncertain'', u)))"

text \<open>\<^verbatim>\<open>retry_revocations\<close>: at most twenty, oldest first; a refusal ends the pass.\<close>

fun drain_each ::
  "manager \<Rightarrow> int \<times> int \<Rightarrow> (string \<Rightarrow> bool) \<Rightarrow> string \<Rightarrow> string list \<Rightarrow> db \<Rightarrow> (string \<times> string) list res \<times> db" where
  "drain_each m stamps revoked tenant [] s = (Inr [], s)"
| "drain_each m stamps revoked tenant (rid # rids) s = (case drain_revoke m stamps revoked tenant rid s of
      (Inl x, t) \<Rightarrow> (Inl x, t)
    | (Inr status, t) \<Rightarrow> (case drain_each m stamps revoked tenant rids t of
          (Inl x, u) \<Rightarrow> (Inl x, u) | (Inr rest, u) \<Rightarrow> (Inr ((rid, status) # rest), u)))"

definition retry_revocations ::
  "manager \<Rightarrow> remote \<Rightarrow> int \<times> int \<Rightarrow> string \<Rightarrow> string \<Rightarrow> string \<Rightarrow> db \<Rightarrow> (string \<times> string) list res \<times> db" where
  "retry_revocations m p stamps tenant connection actor s =
     (case oauth_owner m s tenant actor False of
        Inl x \<Rightarrow> (Inl x, s)
      | Inr _ \<Rightarrow> drain_each m stamps (rm_revoke p) tenant
          (map rv_id (take 20 (sort_key rv_updated (filter (unresolved tenant connection) (revocations s))))) s)"

definition stale_row :: "int \<Rightarrow> connection_row \<Rightarrow> connection_row" where
  "stale_row now x = x\<lparr>x_status := CnUncertain, x_generation := x_generation x + 1, x_envelope := [],
     x_attempt := [], x_updated := now\<rparr>"

definition recover_stale :: "manager \<Rightarrow> int \<Rightarrow> string \<Rightarrow> string \<Rightarrow> string \<Rightarrow> db \<Rightarrow> db res" where
  "recover_stale m now tenant connection actor s =
     bindr (oauth_owner m s tenant actor False) (\<lambda>_. bindr (connection_of s tenant connection) (\<lambda>row.
       if x_status row \<notin> {CnRefreshing, CnExchanging} \<or> x_started row + 120 > now
         then raise Conflict ''No stale OAuth attempt''
       else Inr (oauth_audit now tenant ''stale_fenced'' actor [(''connection'', JStr connection)]
         (set_connection tenant connection (stale_row now) s))))"

definition oauth_rewrap :: "manager \<Rightarrow> int \<Rightarrow> string \<Rightarrow> string \<Rightarrow> string \<Rightarrow> db \<Rightarrow> db res" where
  "oauth_rewrap m now tenant connection actor s =
     bindr (oauth_owner m s tenant actor True) (\<lambda>_. bindr (connection_of s tenant connection) (\<lambda>row.
     bindr (configured m row) (\<lambda>_.
       if x_status row \<noteq> CnActive then raise Conflict ''Only idle active credentials may be rewrapped''
       else bindr (rewrap (mg_gcm m) (mg_float m) (mg_nonce m (uuids s)) (mg_vault m) (JStr (x_envelope row))
              (oauth_context m tenant connection (x_generation row) ''tokens'')) (\<lambda>envelope.
         Inr (oauth_audit now tenant ''rewrapped'' actor
           [(''connection'', JStr connection), (''kid'', JStr (va_active (mg_vault m)))]
           (set_connection tenant connection (\<lambda>x. x\<lparr>x_envelope := envelope, x_updated := now\<rparr>) (drawn s)))))))"

end
