(* ===== verification/Oauth_System.thy ===== *)
theory Oauth_System
  imports Oauth
begin

text \<open>
  Every interleaving of the transactions of provider authorisation, with lost and late replies,
  against the lifecycle of one connection: its status and its generation.
\<close>

section \<open>The lifecycle\<close>

datatype oauth_event =
    Begun | ExchangeSent | RefreshSent | Stored | Failed conn_status | Withdrawn | StaleFenced | Other

type_synonym conn_phase = "(conn_status \<times> int) option"

inductive conn_move :: "oauth_event \<Rightarrow> conn_phase \<Rightarrow> conn_phase \<Rightarrow> bool" where
  first: "conn_move Begun None (Some (CnAuthorizing, 1))"
| again: "st \<notin> set BUSY \<Longrightarrow> conn_move Begun (Some (st, g)) (Some (CnAuthorizing, g + 1))"
| exchange: "conn_move ExchangeSent (Some (CnAuthorizing, g)) (Some (CnExchanging, g))"
| refresh: "conn_move RefreshSent (Some (CnActive, g)) (Some (CnRefreshing, g))"
| stored: "st = CnExchanging \<or> st = CnRefreshing \<Longrightarrow> conn_move Stored (Some (st, g)) (Some (CnActive, g))"
| failed: "st = CnExchanging \<or> st = CnRefreshing \<Longrightarrow>
    conn_move (Failed st') (Some (st, g)) (Some (st', g))"
| withdrawn: "st \<noteq> CnRevoked \<Longrightarrow> conn_move Withdrawn (Some (st, g)) (Some (CnRevoked, g + 1))"
| stale: "st = CnExchanging \<or> st = CnRefreshing \<Longrightarrow>
    conn_move StaleFenced (Some (st, g)) (Some (CnUncertain, g + 1))"

inductive_cases conn_moveE [elim!]: "conn_move ev p q"
inductive_simps conn_move_authorizing: "conn_move ev p (Some (CnAuthorizing, g))"
inductive_simps conn_move_active: "conn_move ev p (Some (CnActive, g))"

definition phase_of :: "connection_row \<Rightarrow> conn_status \<times> int" where
  "phase_of x = (x_status x, x_generation x)"

definition phase :: "db \<Rightarrow> string \<Rightarrow> string \<Rightarrow> conn_phase" where
  "phase s tenant connection = map_option phase_of (find_connection s tenant connection)"

section \<open>Rows\<close>

definition conn_key :: "connection_row \<Rightarrow> string \<times> string" where
  "conn_key x = (x_tenant x, x_id x)"

text \<open>An attempt belongs to a call in flight, a credential to a row that may use it.\<close>

definition conn_ok :: "connection_row \<Rightarrow> bool" where
  "conn_ok x \<longleftrightarrow> (x_status x \<notin> {CnExchanging, CnRefreshing} \<longrightarrow> x_attempt x = [])
     \<and> (x_envelope x \<noteq> [] \<longrightarrow> x_status x \<in> {CnActive, CnRefreshing})"

definition conns_ok :: "db \<Rightarrow> bool" where
  "conns_ok s \<longleftrightarrow> distinct (map conn_key (connections s)) \<and> list_all conn_ok (connections s)"

lemma is_connection_key: "is_connection tenant connection x \<longleftrightarrow> conn_key x = (tenant, connection)"
  by (simp add: is_connection_def conn_key_def)

lemma find_connection_Some:
  "find_connection s tenant connection = Some x \<Longrightarrow> x \<in> set (connections s) \<and> conn_key x = (tenant, connection)"
  by (auto simp: find_connection_def is_connection_key dest!: find_Some_mem)

lemma connection_of_Inr: "connection_of s tenant connection = Inr x \<longleftrightarrow> find_connection s tenant connection = Some x"
  by (auto simp: connection_of_def split: option.splits)

lemma oauth_frames [simp]:
  "connections (drawn s) = connections s" "connections (audit now t k a u d s) = connections s"
  "connections (oauth_audit now t a' u d s) = connections s" "connections (drop_states t c s) = connections s"
  "revocations (drawn s) = revocations s" "revocations (oauth_audit now t a' u d s) = revocations s"
  "oauth_states (drawn s) = oauth_states s" "oauth_states (oauth_audit now t a' u d s) = oauth_states s"
  "connections (set_connection t c f s) = upd_where (is_connection t c) f (connections s)"
  by (simp_all add: drawn_def audit_def oauth_audit_def drop_states_def set_connection_def)

text \<open>What an update of rows does to the phase of a connection.\<close>

lemma phase_upd:
  assumes t: "connections t = upd_where P f (connections s)" and key: "\<And>x. conn_key (f x) = conn_key x"
  shows "phase t tenant connection = map_option (\<lambda>x. phase_of (if P x then f x else x)) (find_connection s tenant connection)"
proof -
  have "find (is_connection tenant connection) (upd_where P f xs)
      = map_option (\<lambda>x. if P x then f x else x) (find (is_connection tenant connection) xs)" for xs
    by (induction xs) (auto simp: is_connection_key key)
  then show ?thesis by (simp add: phase_def find_connection_def t option.map_comp comp_def)
qed

lemma conns_ok_upd:
  assumes ok: "conns_ok s" and t: "connections t = upd_where P f (connections s)"
    and key: "\<And>x. conn_key (f x) = conn_key x"
    and row: "\<And>x. x \<in> set (connections s) \<Longrightarrow> P x \<Longrightarrow> conn_ok x \<Longrightarrow> conn_ok (f x)"
  shows "conns_ok t"
proof -
  have "map conn_key (connections t) = map conn_key (connections s)"
    unfolding t by (rule map_upd_where) (rule key)
  moreover have "conn_ok y" if "y \<in> set (connections t)" for y
    using that ok row unfolding t conns_ok_def list_all_iff by (auto simp: upd_where_def)
  ultimately show ?thesis using ok unfolding conns_ok_def list_all_iff by simp
qed

section \<open>What each transaction does\<close>

text \<open>
  \<open>oauth_effect ev s t\<close>: the table stays well formed and every connection keeps its phase or makes a
  move of the lifecycle.
\<close>

definition oauth_effect :: "oauth_event \<Rightarrow> db \<Rightarrow> db \<Rightarrow> bool" where
  "oauth_effect ev s t \<longleftrightarrow> conns_ok t \<and> (\<forall>tenant connection.
     phase t tenant connection = phase s tenant connection
     \<or> conn_move ev (phase s tenant connection) (phase t tenant connection))"

lemma effect_same: "conns_ok s \<Longrightarrow> connections t = connections s \<Longrightarrow> oauth_effect ev s t"
  by (simp add: oauth_effect_def conns_ok_def phase_def find_connection_def)

lemma effect_upd:
  assumes ok: "conns_ok s" and t: "connections t = upd_where P f (connections s)"
    and key: "\<And>x. conn_key (f x) = conn_key x"
    and row: "\<And>x. x \<in> set (connections s) \<Longrightarrow> P x \<Longrightarrow> conn_ok x \<Longrightarrow> conn_ok (f x)
      \<and> (phase_of (f x) = phase_of x \<or> conn_move ev (Some (phase_of x)) (Some (phase_of (f x))))"
  shows "oauth_effect ev s t"
  unfolding oauth_effect_def
proof (intro conjI allI)
  show "conns_ok t" by (rule conns_ok_upd[OF ok t key]) (use row in blast)
next
  fix tenant connection
  show "phase t tenant connection = phase s tenant connection
      \<or> conn_move ev (phase s tenant connection) (phase t tenant connection)"
  proof (cases "find_connection s tenant connection")
    case None
    then show ?thesis using phase_upd[OF t key, of tenant connection] by (simp add: phase_def)
  next
    case (Some x)
    then have x: "x \<in> set (connections s)" using find_connection_Some by blast
    then have "conn_ok x" using ok by (simp add: conns_ok_def list_all_iff)
    have new: "phase t tenant connection = Some (phase_of (if P x then f x else x))"
      using phase_upd[OF t key, of tenant connection] Some by simp
    have old: "phase s tenant connection = Some (phase_of x)" using Some by (simp add: phase_def)
    show ?thesis unfolding new old using row[OF x _ \<open>conn_ok x\<close>] by auto
  qed
qed

text \<open>An update of the one row an operation has read.\<close>

lemma effect_row:
  assumes ok: "conns_ok s" and found: "find_connection s tenant connection = Some row"
    and t: "connections t = upd_where (is_connection tenant connection) f (connections s)"
    and key: "\<And>x. conn_key (f x) = conn_key x"
    and new: "conn_ok row \<Longrightarrow> conn_ok (f row)"
    and mv: "phase_of (f row) = phase_of row \<or> conn_move ev (Some (phase_of row)) (Some (phase_of (f row)))"
  shows "oauth_effect ev s t"
proof (rule effect_upd[OF ok t key])
  fix x assume x: "x \<in> set (connections s)" "is_connection tenant connection x" "conn_ok x"
  have "conn_key x = conn_key row" "row \<in> set (connections s)"
    using x(2) find_connection_Some[OF found] by (simp_all add: is_connection_key)
  then have "x = row" using ok x(1) unfolding conns_ok_def by (meson distinct_map inj_onD)
  then show "conn_ok (f x) \<and> (phase_of (f x) = phase_of x \<or> conn_move ev (Some (phase_of x)) (Some (phase_of (f x))))"
    using new mv x(3) by simp
qed

lemma begin_connections:
  assumes "begin_tx m now z state verifier s = Inr (g, t)"
  shows "connections t = connections (put_connection (new_connection m now (az_tenant z) (az_connection z) g (az_actor z)) s)"
    and "g = next_generation (find_connection s (az_tenant z) (az_connection z))"
    and "case find_connection s (az_tenant z) (az_connection z) of None \<Rightarrow> True | Some x \<Rightarrow> x_status x \<notin> set BUSY"
    and "\<not> list_ex (unresolved (az_tenant z) (az_connection z)) (revocations s)"
proof -
  have found: "find_connection (drop_states a b (drawn s)) = find_connection s" for a b
    by (intro ext) (simp add: find_connection_def)
  show "connections t = connections (put_connection (new_connection m now (az_tenant z) (az_connection z) g (az_actor z)) s)"
    using assms by (auto simp: begin_tx_def res_simps Let_def put_connection_def found split: option.splits)
  show "g = next_generation (find_connection s (az_tenant z) (az_connection z))"
    "case find_connection s (az_tenant z) (az_connection z) of None \<Rightarrow> True | Some x \<Rightarrow> x_status x \<notin> set BUSY"
    "\<not> list_ex (unresolved (az_tenant z) (az_connection z)) (revocations s)"
    using assms by (auto simp: begin_tx_def res_simps Let_def split: option.splits)
qed

lemma new_connection_row [simp]:
  "conn_key (new_connection m now tenant connection g actor) = (tenant, connection)"
  "phase_of (new_connection m now tenant connection g actor) = (CnAuthorizing, g)"
  "conn_ok (new_connection m now tenant connection g actor)"
  "x_tenant (new_connection m now tenant connection g actor) = tenant"
  "x_id (new_connection m now tenant connection g actor) = connection"
  by (simp_all add: new_connection_def conn_key_def phase_of_def conn_ok_def)

lemma begin_effect:
  assumes ok: "conns_ok s" and call: "begin_tx m now z state verifier s = Inr (g, t)"
  shows "oauth_effect Begun s t"
proof -
  let ?n = "new_connection m now (az_tenant z) (az_connection z) g (az_actor z)"
  note c = begin_connections[OF call]
  show ?thesis
  proof (cases "find_connection s (az_tenant z) (az_connection z)")
    case None
    have t: "connections t = connections s @ [?n]" using c(1) None by (simp add: put_connection_def)
    have "(az_tenant z, az_connection z) \<notin> conn_key ` set (connections s)"
      using None unfolding find_connection_def find_None_mem is_connection_key by auto
    then have "conns_ok t" using ok by (simp add: conns_ok_def t)
    moreover have "g = 1" using c(2) None by (simp add: next_generation_def)
    then have "phase t tenant connection = phase s tenant connection
        \<or> conn_move Begun (phase s tenant connection) (phase t tenant connection)" for tenant connection
      using None conn_move.first
      by (auto simp: phase_def find_connection_def t find_append is_connection_key split: option.splits)
    ultimately show ?thesis by (simp add: oauth_effect_def)
  next
    case (Some x)
    have t: "connections t = upd_where (is_connection (az_tenant z) (az_connection z)) (\<lambda>_. ?n) (connections s)"
      using c(1) Some by (simp add: put_connection_def)
    have "conn_move Begun (Some (phase_of x)) (Some (phase_of ?n))"
      using c(2,3) Some by (simp add: next_generation_def phase_of_def[of x] conn_move.again)
    define f where "f y = (if conn_key y = (az_tenant z, az_connection z) then ?n else y)" for y
    have t': "connections t = upd_where (is_connection (az_tenant z) (az_connection z)) f (connections s)"
      unfolding t upd_where_def by (auto simp: f_def is_connection_key)
    show ?thesis
      by (rule effect_row[OF ok Some t'])
        (use find_connection_Some[OF Some] \<open>conn_move Begun _ _\<close> in \<open>auto simp: f_def\<close>)
  qed
qed

lemma claim_effect:
  assumes ok: "conns_ok s" and call: "complete_claim m now z state s = Inr (c, t)"
  shows "oauth_effect ExchangeSent s t"
    and "phase s (az_tenant z) (az_connection z) = Some (CnAuthorizing, cl_generation c)"
    and "phase t (az_tenant z) (az_connection z) = Some (CnExchanging, cl_generation c)"
proof -
  from call obtain row where row: "find_connection s (az_tenant z) (az_connection z) = Some row"
    "x_status row = CnAuthorizing" "cl_generation c = x_generation row"
    and t: "connections t = upd_where (is_connection (az_tenant z) (az_connection z))
        (\<lambda>x. x\<lparr>x_status := CnExchanging, x_attempt := cl_attempt c, x_started := now\<rparr>) (connections s)"
    by (auto simp: complete_claim_def res_simps Let_def connection_of_Inr split: option.splits if_split_asm)
  show "oauth_effect ExchangeSent s t"
    by (rule effect_row[OF ok row(1) t])
      (use row(2) in \<open>auto simp: conn_key_def conn_ok_def phase_of_def intro: conn_move.exchange\<close>)
  show "phase s (az_tenant z) (az_connection z) = Some (CnAuthorizing, cl_generation c)"
    using row by (simp add: phase_def phase_of_def)
  have "is_connection (az_tenant z) (az_connection z) row"
    using find_connection_Some[OF row(1)] by (simp add: is_connection_key)
  then show "phase t (az_tenant z) (az_connection z) = Some (CnExchanging, cl_generation c)"
    using phase_upd[OF t, of "az_tenant z" "az_connection z"] row by (simp add: conn_key_def phase_of_def)
qed

lemma access_effect:
  assumes ok: "conns_ok s" and call: "access_tx m now tenant connection agent required s = Inr (Renew tk g attempt owner, t)"
  shows "oauth_effect RefreshSent s t"
proof -
  from call obtain row where row: "find_connection s tenant connection = Some row" "x_status row = CnActive"
    and t: "connections t = upd_where (is_connection tenant connection)
        (\<lambda>x. x\<lparr>x_status := CnRefreshing, x_attempt := attempt, x_started := now, x_updated := now\<rparr>) (connections s)"
    by (auto simp: access_tx_def agent_connection_def res_simps Let_def connection_of_Inr split: if_split_asm)
  show ?thesis
    by (rule effect_row[OF ok row(1) t])
      (use row(2) in \<open>auto simp: conn_key_def conn_ok_def phase_of_def intro: conn_move.refresh\<close>)
qed

lemma store_row:
  assumes "store_tokens m now guard tenant connection actor g attempt tk expires s = Inr t"
  shows "\<exists>row envelope. find_connection s tenant connection = Some row \<and> \<not> fenced row g attempt
    \<and> seal_value m s (tokens_json tk) (oauth_context m tenant connection g ''tokens'') = Inr envelope
    \<and> connections t = upd_where (is_connection tenant connection) (\<lambda>x. x\<lparr>x_status := CnActive,
        x_envelope := envelope, x_scopes := tk_scopes tk, x_expires := expires, x_attempt := [],
        x_updated := now\<rparr>) (connections s)"
  using assms
  by (auto simp: store_tokens_def res_simps connection_of_Inr split: option.splits if_split_asm)

lemma store_effect:
  assumes ok: "conns_ok s" and call: "store_tokens m now guard tenant connection actor g attempt tk expires s = Inr t"
  shows "oauth_effect Stored s t"
proof -
  from store_row[OF call] obtain row envelope where row: "find_connection s tenant connection = Some row"
    "\<not> fenced row g attempt"
    and t: "connections t = upd_where (is_connection tenant connection) (\<lambda>x. x\<lparr>x_status := CnActive,
        x_envelope := envelope, x_scopes := tk_scopes tk, x_expires := expires, x_attempt := [],
        x_updated := now\<rparr>) (connections s)" by blast
  show ?thesis
    by (rule effect_row[OF ok row(1) t])
      (use row(2) in \<open>auto simp: conn_key_def conn_ok_def phase_of_def fenced_def intro: conn_move.stored\<close>)
qed

lemma fail_effect:
  assumes ok: "conns_ok s" and attempt: "attempt \<noteq> []" and st: "status \<notin> {CnExchanging, CnRefreshing}"
  shows "oauth_effect (Failed status) s (fail_attempt now tenant connection g attempt status s)"
proof (rule effect_upd[OF ok, where P = "attempt_row tenant connection g attempt"])
  show "connections (fail_attempt now tenant connection g attempt status s)
      = upd_where (attempt_row tenant connection g attempt) (\<lambda>x. x\<lparr>x_status := status, x_envelope := [],
          x_attempt := [], x_updated := now\<rparr>) (connections s)"
    by (simp add: fail_attempt_def Let_def)
next
  fix x assume "attempt_row tenant connection g attempt x" "conn_ok x"
  then have "x_status x = CnExchanging \<or> x_status x = CnRefreshing"
    using attempt by (auto simp: attempt_row_def conn_ok_def)
  then show "conn_ok (x\<lparr>x_status := status, x_envelope := [], x_attempt := [], x_updated := now\<rparr>)
      \<and> (phase_of (x\<lparr>x_status := status, x_envelope := [], x_attempt := [], x_updated := now\<rparr>) = phase_of x
        \<or> conn_move (Failed status) (Some (phase_of x))
            (Some (phase_of (x\<lparr>x_status := status, x_envelope := [], x_attempt := [], x_updated := now\<rparr>))))"
    by (auto simp: conn_ok_def phase_of_def intro: conn_move.failed)
qed (simp add: conn_key_def)

lemma queue_connections:
  "queue_revoke m now tenant connection g token s = Inr (rid, t) \<Longrightarrow> connections t = connections s"
  by (auto simp: queue_revoke_def res_simps Let_def split: json.splits if_split_asm)

lemma queue_stored_connections: "queue_stored m now remote row s = (rid, u, t) \<Longrightarrow> connections t = connections s"
  by (auto simp: queue_stored_def res_simps dest: queue_connections split: if_split_asm sum.splits)

lemma revoke_row_found:
  assumes "revoke_tx m now tenant connection actor remote s = Inr (Revoked rid u, t)"
  shows "\<exists>row. find_connection s tenant connection = Some row \<and> x_status row \<noteq> CnRevoked
    \<and> connections t = upd_where (is_connection tenant connection) (revoke_row now) (connections s)"
proof -
  from assms obtain row where row: "find_connection s tenant connection = Some row"
    and tx: "(if x_status row = CnRevoked then Inr (AlreadyRevoked, s)
       else (case queue_stored m now remote row s of (rid, unavailable, t) \<Rightarrow>
         Inr (Revoked rid unavailable,
           oauth_audit now tenant ''revoked'' actor [(''connection'', JStr connection),
             (''remote_requested'', JBool remote), (''remote_unavailable'', JBool unavailable)]
           (drop_states tenant connection (set_connection tenant connection (revoke_row now) t)))))
      = (Inr (Revoked rid u, t) :: (revoke_claim \<times> db) res)"
    unfolding revoke_tx_def by (auto simp: res_simps connection_of_Inr)
  obtain i v w where q: "queue_stored m now remote row s = (i, v, w)" by (rule prod_cases3)
  show ?thesis using tx row queue_stored_connections[OF q] unfolding q by (auto split: if_split_asm)
qed

lemma revoke_effect:
  assumes ok: "conns_ok s" and call: "revoke_tx m now tenant connection actor remote s = Inr (Revoked rid u, t)"
  shows "oauth_effect Withdrawn s t"
proof -
  from revoke_row_found[OF call] obtain row where row: "find_connection s tenant connection = Some row"
    "x_status row \<noteq> CnRevoked" and t: "connections t = upd_where (is_connection tenant connection) (revoke_row now) (connections s)"
    by blast
  show ?thesis
    by (rule effect_row[OF ok row(1) t])
      (use row(2) in \<open>auto simp: revoke_row_def conn_key_def conn_ok_def phase_of_def intro: conn_move.withdrawn\<close>)
qed

lemma stale_effect:
  assumes ok: "conns_ok s" and call: "recover_stale m now tenant connection actor s = Inr t"
  shows "oauth_effect StaleFenced s t"
proof -
  from call obtain row where row: "find_connection s tenant connection = Some row"
    "x_status row = CnRefreshing \<or> x_status row = CnExchanging"
    and t: "connections t = upd_where (is_connection tenant connection) (stale_row now) (connections s)"
    by (auto simp: recover_stale_def res_simps connection_of_Inr split: if_split_asm)
  show ?thesis
    by (rule effect_row[OF ok row(1) t])
      (use row(2) in \<open>auto simp: stale_row_def conn_key_def conn_ok_def phase_of_def intro: conn_move.stale\<close>)
qed

lemma rewrap_effect:
  assumes ok: "conns_ok s" and call: "oauth_rewrap m now tenant connection actor s = Inr t"
  shows "oauth_effect Other s t"
proof -
  from call obtain row envelope where row: "find_connection s tenant connection = Some row" "x_status row = CnActive"
    and t: "connections t = upd_where (is_connection tenant connection)
        (\<lambda>x. x\<lparr>x_envelope := envelope, x_updated := now\<rparr>) (connections s)"
    by (auto simp: oauth_rewrap_def res_simps connection_of_Inr split: if_split_asm)
  show ?thesis
    by (rule effect_row[OF ok row(1) t]) (use row(2) in \<open>auto simp: conn_key_def conn_ok_def phase_of_def\<close>)
qed

section \<open>Worlds and steps\<close>

text \<open>
  The codes that have left: one entry per call of \<^verbatim>\<open>provider.exchange\<close>, made right after the
  transaction that consumed its state. A reply may be stored, fail, come late or never.
\<close>

record oauth_world =
  ow_db :: db
  ow_exchanged :: "(string \<times> string \<times> int) list"

inductive oauth_step :: "manager \<Rightarrow> oauth_event \<Rightarrow> oauth_world \<Rightarrow> oauth_world \<Rightarrow> bool" for m where
  begin_flow: "begin_tx m now z state verifier (ow_db w) = Inr (g, t) \<Longrightarrow> oauth_step m Begun w (w\<lparr>ow_db := t\<rparr>)"
| send_code: "complete_claim m now z state (ow_db w) = Inr (c, t) \<Longrightarrow>
    oauth_step m ExchangeSent w (w\<lparr>ow_db := t,
      ow_exchanged := (az_tenant z, az_connection z, cl_generation c) # ow_exchanged w\<rparr>)"
| send_refresh: "access_tx m now tenant connection agent required (ow_db w) = Inr (Renew tk g attempt owner, t) \<Longrightarrow>
    oauth_step m RefreshSent w (w\<lparr>ow_db := t\<rparr>)"
| store: "store_tokens m now guard tenant connection actor g attempt tk expires (ow_db w) = Inr t \<Longrightarrow>
    oauth_step m Stored w (w\<lparr>ow_db := t\<rparr>)"
| fail: "attempt \<noteq> [] \<Longrightarrow> status \<in> {CnUncertain, CnReauthRequired} \<Longrightarrow>
    oauth_step m (Failed status) w (w\<lparr>ow_db := fail_attempt now tenant connection g attempt status (ow_db w)\<rparr>)"
| withdraw: "revoke_tx m now tenant connection actor remote (ow_db w) = Inr (Revoked rid u, t) \<Longrightarrow>
    oauth_step m Withdrawn w (w\<lparr>ow_db := t\<rparr>)"
| stale: "recover_stale m now tenant connection actor (ow_db w) = Inr t \<Longrightarrow>
    oauth_step m StaleFenced w (w\<lparr>ow_db := t\<rparr>)"
| rewrapped: "oauth_rewrap m now tenant connection actor (ow_db w) = Inr t \<Longrightarrow>
    oauth_step m Other w (w\<lparr>ow_db := t\<rparr>)"
| elsewhere: "connections t = connections (ow_db w) \<Longrightarrow> oauth_step m Other w (w\<lparr>ow_db := t\<rparr>)"

inductive oauth_run :: "manager \<Rightarrow> oauth_world \<Rightarrow> oauth_world \<Rightarrow> bool" for m where
  stay: "oauth_run m w w"
| onward: "oauth_run m w v \<Longrightarrow> oauth_step m ev v u \<Longrightarrow> oauth_run m w u"

definition oauth_start :: "oauth_world \<Rightarrow> bool" where
  "oauth_start w \<longleftrightarrow> connections (ow_db w) = [] \<and> ow_exchanged w = []"

lemma step_effect:
  assumes step: "oauth_step m ev w w'" and ok: "conns_ok (ow_db w)"
  shows "oauth_effect ev (ow_db w) (ow_db w')"
  using step
  by cases (auto intro: begin_effect[OF ok] claim_effect(1)[OF ok] access_effect[OF ok] store_effect[OF ok]
      fail_effect[OF ok] revoke_effect[OF ok] stale_effect[OF ok] rewrap_effect[OF ok] effect_same[OF ok])

text \<open>Generations only grow, and a sent code leaves its generation in a later status.\<close>

definition past :: "conn_phase \<Rightarrow> int \<Rightarrow> bool" where
  "past p g \<longleftrightarrow> (case p of None \<Rightarrow> False | Some (st, h) \<Rightarrow> g < h \<or> (g = h \<and> st \<noteq> CnAuthorizing))"

definition world_good :: "oauth_world \<Rightarrow> bool" where
  "world_good w \<longleftrightarrow> conns_ok (ow_db w) \<and> distinct (ow_exchanged w)
     \<and> (\<forall>(tenant, connection, g) \<in> set (ow_exchanged w). past (phase (ow_db w) tenant connection) g)"

lemma past_move: "past p g \<Longrightarrow> q = p \<or> conn_move (ev :: oauth_event) p q \<Longrightarrow> ev \<notin> {Failed CnAuthorizing} \<Longrightarrow> past q g"
  by (auto simp: past_def)

lemma step_event: "oauth_step m ev w w' \<Longrightarrow> ev \<noteq> Failed CnAuthorizing"
  by (induction rule: oauth_step.induct) auto

lemma past_step:
  assumes step: "oauth_step m ev w w'" and ok: "conns_ok (ow_db w)" and p: "past (phase (ow_db w) tenant connection) g"
  shows "past (phase (ow_db w') tenant connection) g"
proof -
  have "phase (ow_db w') tenant connection = phase (ow_db w) tenant connection
      \<or> conn_move ev (phase (ow_db w) tenant connection) (phase (ow_db w') tenant connection)"
    using step_effect[OF step ok] unfolding oauth_effect_def by blast
  from past_move[OF p this] show ?thesis using step_event[OF step] by simp
qed

lemma step_good:
  assumes step: "oauth_step m ev w w'" and ok: "world_good w"
  shows "world_good w'"
proof -
  have c: "conns_ok (ow_db w)" using ok by (simp add: world_good_def)
  have c': "conns_ok (ow_db w')" using step_effect[OF step c] by (simp add: oauth_effect_def)
  have kept: "\<forall>(tenant, connection, g) \<in> set (ow_exchanged w). past (phase (ow_db w') tenant connection) g"
    using ok past_step[OF step c] unfolding world_good_def by blast
  show ?thesis using step
  proof cases
    case (send_code now z state cl t)
    note e = claim_effect(2,3)[OF c send_code(3)]
    have "(az_tenant z, az_connection z, cl_generation cl) \<notin> set (ow_exchanged w)"
      using ok e(1) unfolding world_good_def by (force simp: past_def)
    moreover have "past (phase t (az_tenant z) (az_connection z)) (cl_generation cl)"
      using e(2) by (simp add: past_def)
    ultimately show ?thesis using c' kept ok send_code by (simp add: world_good_def)
  qed (use c' kept ok in \<open>simp_all add: world_good_def\<close>)
qed

lemma run_good: "oauth_run m w w' \<Longrightarrow> world_good w \<Longrightarrow> world_good w'"
  by (induction rule: oauth_run.induct) (auto intro: step_good)

lemma start_good: "oauth_start w \<Longrightarrow> world_good w"
  by (simp add: oauth_start_def world_good_def conns_ok_def)

text \<open>The generation of a connection never falls.\<close>

definition beyond :: "conn_phase \<Rightarrow> int \<Rightarrow> bool" where
  "beyond p g \<longleftrightarrow> (case p of None \<Rightarrow> False | Some (_, h) \<Rightarrow> g < h)"

lemma beyond_step:
  assumes "oauth_step m ev w w'" "conns_ok (ow_db w)" "beyond (phase (ow_db w) tenant connection) g"
  shows "beyond (phase (ow_db w') tenant connection) g"
proof -
  have "phase (ow_db w') tenant connection = phase (ow_db w) tenant connection
      \<or> conn_move ev (phase (ow_db w) tenant connection) (phase (ow_db w') tenant connection)"
    using step_effect[OF assms(1,2)] unfolding oauth_effect_def by blast
  then show ?thesis using assms(3) by (auto simp: beyond_def)
qed

lemma beyond_run:
  "oauth_run m w w' \<Longrightarrow> world_good w \<Longrightarrow> beyond (phase (ow_db w) tenant connection) g \<Longrightarrow>
     beyond (phase (ow_db w') tenant connection) g"
proof (induction rule: oauth_run.induct)
  case (onward w v ev u)
  have "conns_ok (ow_db v)" using run_good[OF onward(1,4)] by (simp add: world_good_def)
  then show ?case using beyond_step[OF onward(2)] onward.IH onward.prems by blast
qed

end
