(* ===== verification/Oauth_Props.thy ===== *)
theory Oauth_Props
  imports Oauth_System Demo_Env
begin

text \<open>
  What provider authorisation promises: a code is exchanged once per generation, the table of
  connections refines the lifecycle, and a revoked grant never comes back.
\<close>

section \<open>A connection that was authorised\<close>

definition oauth_env :: env where
  "oauth_env = demo_env\<lparr>policy_of := (\<lambda>tenant agent. Inr (demo_policy\<lparr>p_connections := [''c'']\<rparr>))\<rparr>"

definition open_cipher :: gcm where
  "open_cipher = \<lparr>gcm_encrypt = (\<lambda>key n raw aad. raw), gcm_decrypt = (\<lambda>key n ct aad. Some ct)\<rparr>"

definition oauth_manager :: manager where
  "oauth_manager = \<lparr>mg_env = oauth_env, mg_name = ''p'', mg_account = ''a'', mg_config = ''h'',
     mg_scopes = [''read''], mg_url = (\<lambda>s c. s), mg_gcm = open_cipher, mg_float = (\<lambda>t. NaN),
     mg_vault = \<lparr>va_keys = demo_ring, va_active = ''k1''\<rparr>, mg_nonce = (\<lambda>n. replicate 12 (CHR ''n''))\<rparr>"

definition oauth_user :: authorization where
  "oauth_user = \<lparr>az_tenant = ''t'', az_connection = ''c'', az_actor = ''u'', az_session = ''s''\<rparr>"

definition oauth_tokens :: tokens where
  "oauth_tokens = \<lparr>tk_access = ''A'', tk_refresh = ''R'', tk_scopes = [''read'']\<rparr>"

definition oauth_grant :: grant where
  "oauth_grant = \<lparr>gr_token = ''A'', gr_generation = 1, gr_expires = 500, gr_account = ''a''\<rparr>"

definition oauth_0 :: db where "oauth_0 = empty_db\<lparr>uuids := 1\<rparr>"
definition oauth_1 :: db where
  "oauth_1 = ok_state (begin_tx oauth_manager 10 oauth_user ''st'' ''v'' oauth_0)"
definition oauth_2 :: db where
  "oauth_2 = ok_state (complete_claim oauth_manager 20 oauth_user ''st'' oauth_1)"
definition oauth_3 :: db where
  "oauth_3 = ok_db (store_tokens oauth_manager 30 None ''t'' ''c'' ''u'' 1 ''xx'' oauth_tokens 500 oauth_2)"

lemma oauth_demo_ok:
  "is_ok (begin_tx oauth_manager 10 oauth_user ''st'' ''v'' oauth_0)"
  "is_ok (complete_claim oauth_manager 20 oauth_user ''st'' oauth_1)"
  "is_ok (store_tokens oauth_manager 30 None ''t'' ''c'' ''u'' 1 ''xx'' oauth_tokens 500 oauth_2)"
  "fence oauth_manager 35 ''t'' ''c'' ''g'' [''read''] oauth_grant oauth_3 = Inr ()"
  "is_ok (revoke_tx oauth_manager 40 ''t'' ''c'' ''u'' False oauth_3)"
  "case revoke_tx oauth_manager 40 ''t'' ''c'' ''u'' False oauth_3 of
     Inr (Revoked _ _, _) \<Rightarrow> True | _ \<Rightarrow> False"
  by code_simp+


definition world_of :: "db \<Rightarrow> (string \<times> string \<times> int) list \<Rightarrow> oauth_world" where
  "world_of s xs = \<lparr>ow_db = s, ow_exchanged = xs\<rparr>"

lemma world_of_simps [simp]:
  "ow_db (world_of s xs) = s" "ow_exchanged (world_of s xs) = xs"
  "(world_of s xs)\<lparr>ow_db := t\<rparr> = world_of t xs"
  "(world_of s xs)\<lparr>ow_exchanged := ys\<rparr> = world_of s ys"
  by (simp_all add: world_of_def)

lemma oauth_demo_start: "oauth_start (world_of oauth_0 [])"
  by (simp add: oauth_start_def oauth_0_def empty_db_def)

definition oauth_log :: "(string \<times> string \<times> int) list" where
  "oauth_log = [(''t'', ''c'', 1)]"

lemma begun_step: "oauth_step oauth_manager Begun (world_of oauth_0 []) (world_of oauth_1 [])"
proof -
  obtain g where "begin_tx oauth_manager 10 oauth_user ''st'' ''v'' oauth_0 = Inr (g, oauth_1)"
    using ok_stateI[OF oauth_demo_ok(1)] unfolding oauth_1_def by (rule exE)
  from oauth_step.begin_flow[of _ _ _ _ _ "world_of oauth_0 []", unfolded world_of_simps, OF this] show ?thesis .
qed

lemma oauth_demo_sent: "oauth_run oauth_manager (world_of oauth_0 []) (world_of oauth_2 oauth_log)"
proof -
  obtain c where c: "complete_claim oauth_manager 20 oauth_user ''st'' oauth_1 = Inr (c, oauth_2)"
    using ok_stateI[OF oauth_demo_ok(2)] unfolding oauth_2_def by (rule exE)
  have "phase oauth_2 ''t'' ''c'' = Some (CnExchanging, 1)" by code_simp
  moreover have "conns_ok oauth_1" by code_simp
  ultimately have "(az_tenant oauth_user, az_connection oauth_user, cl_generation c) = (''t'', ''c'', 1)"
    using claim_effect(3)[OF _ c] by (simp add: oauth_user_def)
  with oauth_step.send_code[of _ _ _ _ "world_of oauth_1 []", unfolded world_of_simps, OF c]
  have "oauth_step oauth_manager ExchangeSent (world_of oauth_1 []) (world_of oauth_2 oauth_log)"
    by (simp add: oauth_log_def)
  with begun_step show ?thesis by (blast intro: oauth_run.intros)
qed


section \<open>Codes\<close>

text \<open>
  C28: an authorisation code is exchanged once. In every interleaving of flows, callbacks, replies,
  revocations and recoveries at most one code per connection and generation is sent to the provider,
  and the flow it belonged to is never pending again.
\<close>

theorem code_is_exchanged_once:
  assumes "oauth_start w" and "oauth_run m w w'"
  shows "distinct (ow_exchanged w')
    \<and> ((tenant, connection, g) \<in> set (ow_exchanged w') \<longrightarrow>
        phase (ow_db w') tenant connection \<noteq> None
        \<and> phase (ow_db w') tenant connection \<noteq> Some (CnAuthorizing, g))"
proof -
  have "world_good w'" by (rule run_good[OF assms(2) start_good[OF assms(1)]])
  then show ?thesis unfolding world_good_def by (fastforce simp: past_def split: option.splits)
qed

lemma code_is_exchanged_once_witness:
  "distinct oauth_log \<and> phase oauth_2 ''t'' ''c'' \<noteq> Some (CnAuthorizing, 1)"
  using code_is_exchanged_once[OF oauth_demo_start oauth_demo_sent, of "''t''" "''c''" 1]
  by (simp add: oauth_log_def)

section \<open>The lifecycle\<close>




section \<open>Revoked grants\<close>




end
