(* ===== verification/Documents.thy ===== *)
theory Documents
  imports Erp_Dates
begin

text \<open>
  Supplier documents before they are posted (\<^verbatim>\<open>platform_runtime/documents.py\<close>): amounts in minor
  units, the normal form of an extracted document, the write-once store, the duplicate check, the
  three-way match, the fraud signals and the posting plan. Every read of a handler sees the same
  database; a document field that may hold any falsy value keeps it.
\<close>

section \<open>Constants\<close>

definition CURRENCIES :: "string list" where "CURRENCIES = [''UZS'', ''USD'', ''EUR'', ''RUB'']"

definition minor_units :: "string \<Rightarrow> int" where
  "minor_units currency = (if currency = ''UZS'' then 1 else 100)"

definition minor_digits :: "string \<Rightarrow> nat" where
  "minor_digits currency = (if currency = ''UZS'' then 0 else 2)"

definition MAX_DOCUMENT_AMOUNT :: int where "MAX_DOCUMENT_AMOUNT = 10 ^ 15"
definition MAX_LINE_ITEMS :: nat where "MAX_LINE_ITEMS = 200"
definition MAX_TEXT_CHARS :: nat where "MAX_TEXT_CHARS = 200"
definition DEFAULT_TOLERANCE_MINOR :: int where "DEFAULT_TOLERANCE_MINOR = 0"

definition DOCUMENT_KINDS :: "string list" where
  "DOCUMENT_KINDS = [''invoice'', ''purchase_order'', ''delivery_note'', ''contract'']"

lemma minor_units_digits: "minor_units c = 10 ^ minor_digits c"
  by (simp add: minor_units_def minor_digits_def)

lemma minor_units_pos: "0 < minor_units c"
  by (simp add: minor_units_def)

text \<open>\<^verbatim>\<open>sorted(set(d) - known)\<close>.\<close>

definition unknown_keys :: "string list \<Rightarrow> fields \<Rightarrow> string list" where
  "unknown_keys known d = sort (filter (\<lambda>k. k \<notin> set known) (jkeys d))"

definition NUMBER_RE :: "string \<Rightarrow> bool" where
  "NUMBER_RE = line_match is_alnum
     (\<lambda>c. is_alnum c \<or> c \<in> {CHR ''/'', CHR ''_'', CHR ''.'', CHR ''-''}) 63"

definition PARTY_RE :: "string \<Rightarrow> bool" where
  "PARTY_RE = line_match lower_alnum (\<lambda>c. lower_alnum c \<or> c \<in> {CHR ''_'', CHR ''.'', CHR ''-''}) 63"

section \<open>Settings\<close>

record doc_settings =
  ds_tolerance :: int
  ds_ratio :: int
  ds_role :: string
  ds_residency :: string
  ds_currencies :: "string list"

definition DOC_DEFAULTS :: doc_settings where
  "DOC_DEFAULTS = \<lparr>ds_tolerance = DEFAULT_TOLERANCE_MINOR, ds_ratio = 3, ds_role = ''owner'',
     ds_residency = ''uz'', ds_currencies = CURRENCIES\<rparr>"

definition tolerance_arg :: "json \<Rightarrow> int res" where
  "tolerance_arg v = (case v of
      JInt n \<Rightarrow> if n < 0 then raise ValueError ''tolerance_minor must be a non-negative integer'' else Inr n
    | _ \<Rightarrow> raise ValueError ''tolerance_minor must be a non-negative integer'')"

definition ratio_arg :: "json \<Rightarrow> int res" where
  "ratio_arg v = (case v of
      JInt n \<Rightarrow> if n < 1 then raise ValueError ''outlier_ratio must be an integer of at least 1'' else Inr n
    | _ \<Rightarrow> raise ValueError ''outlier_ratio must be an integer of at least 1'')"

definition choice_of :: "json \<Rightarrow> string list \<Rightarrow> string \<Rightarrow> string res" where
  "choice_of v xs text = (case v of
      JStr t \<Rightarrow> if t \<in> set xs then Inr t else raise ValueError text | _ \<Rightarrow> raise ValueError text)"

definition currency_list :: "json \<Rightarrow> string list res" where
  "currency_list v = (case v of
      JList xs \<Rightarrow> if xs = [] then raise ValueError ''currencies must be a non-empty list''
        else each (\<lambda>x. choice_of x CURRENCIES (''unsupported currency '' @ py_repr x)) xs
    | _ \<Rightarrow> raise ValueError ''currencies must be a non-empty list'')"

text \<open>
  \<^verbatim>\<open>documents_config\<close>, over the outcome of \<^verbatim>\<open>config(tenant).get('documents')\<close>.
\<close>

definition SETTING_KEYS :: "string list" where
  "SETTING_KEYS = [''tolerance_minor'', ''outlier_ratio'', ''approver_role'', ''residency'', ''currencies'']"

definition settings_block :: "fields \<Rightarrow> doc_settings res" where
  "settings_block d =
     (if unknown_keys SETTING_KEYS d \<noteq> []
        then raise ValueError (''unknown documents keys: '' @ py_join '', '' (unknown_keys SETTING_KEYS d))
      else bindr (tolerance_arg (jget_or d ''tolerance_minor'' (JInt DEFAULT_TOLERANCE_MINOR))) (\<lambda>tolerance.
        bindr (ratio_arg (jget_or d ''outlier_ratio'' (JInt 3))) (\<lambda>ratio.
        bindr (choice_of (jget_or d ''approver_role'' (JStr ''owner'')) [''owner'', ''operator'']
          ''approver_role must be owner or operator'') (\<lambda>role.
        bindr (choice_of (jget_or d ''residency'' (JStr ''uz'')) [''uz'', ''any'']
          ''residency must be uz or any'') (\<lambda>residency.
        bindr (currency_list (jget_or d ''currencies'' (jstrs CURRENCIES))) (\<lambda>currencies.
          Inr \<lparr>ds_tolerance = tolerance, ds_ratio = ratio, ds_role = role, ds_residency = residency,
               ds_currencies = currencies\<rparr>))))))"

definition documents_config :: "json res \<Rightarrow> doc_settings res" where
  "documents_config block = (case block of
      Inl x \<Rightarrow> if catches [RuntimeError, ValueError, KeyError, TypeError, OtherError ''OSError''] x
        then Inr DOC_DEFAULTS else Inl x
    | Inr JNull \<Rightarrow> Inr DOC_DEFAULTS
    | Inr (JObj d) \<Rightarrow> settings_block d
    | Inr _ \<Rightarrow> raise ValueError ''documents configuration must be an object'')"

section \<open>Amounts\<close>

definition whole_part :: "string \<Rightarrow> string" where
  "whole_part t = takeWhile (\<lambda>c. c \<noteq> CHR ''.'') t"

definition fraction_part :: "string \<Rightarrow> string" where
  "fraction_part t = drop 1 (dropWhile (\<lambda>c. c \<noteq> CHR ''.'') t)"

text \<open>\<^verbatim>\<open>[0-9]{1,15}(\.[0-9]{1,6})?\<close>, matched in full.\<close>

definition decimal_shape :: "string \<Rightarrow> bool" where
  "decimal_shape t \<longleftrightarrow> 1 \<le> length (whole_part t) \<and> length (whole_part t) \<le> 15
     \<and> list_all is_digit (whole_part t)
     \<and> (CHR ''.'' \<in> set t \<longrightarrow> 1 \<le> length (fraction_part t) \<and> length (fraction_part t) \<le> 6
          \<and> list_all is_digit (fraction_part t))"

definition decimal_minor :: "string \<Rightarrow> string \<Rightarrow> int" where
  "decimal_minor t currency = int (digits_value (whole_part t)) * minor_units currency
     + int (digits_value (take (minor_digits currency)
              (fraction_part t @ replicate (minor_digits currency) (CHR ''0''))))"

definition in_range :: "int \<Rightarrow> string \<Rightarrow> int res" where
  "in_range minor currency =
     (if minor < 0 \<or> minor > MAX_DOCUMENT_AMOUNT * minor_units currency then raise ValueError ''amount out of range''
      else Inr minor)"

definition amount_minor :: "json \<Rightarrow> string \<Rightarrow> int res" where
  "amount_minor v currency = (case v of
      JInt n \<Rightarrow> in_range (n * minor_units currency) currency
    | JFloat _ \<Rightarrow> raise ValueError ''amount must not be a float: use an integer or a decimal string, because binary floating point cannot represent every decimal amount exactly''
    | JStr s \<Rightarrow> (let t = py_strip s in
        if \<not> decimal_shape t
          then raise ValueError ''amount string must be ASCII digits with an optional decimal part''
        else in_range (decimal_minor t currency) currency)
    | _ \<Rightarrow> raise ValueError ''amount must be a number or a decimal string'')"

definition format_amount :: "int \<Rightarrow> string \<Rightarrow> string" where
  "format_amount minor currency =
     (if minor_units currency = 1 then show_int minor
      else show_int (minor div minor_units currency) @ ''.''
        @ zero_pad (minor_digits currency) (nat (minor mod minor_units currency)))"

section \<open>Dates\<close>

definition calendar_date :: "nat \<Rightarrow> nat \<Rightarrow> nat \<Rightarrow> bool" where
  "calendar_date y m d \<longleftrightarrow> 1 \<le> y \<and> y \<le> 9999 \<and> 1 \<le> m \<and> m \<le> 12 \<and> 1 \<le> d \<and> d \<le> month_days y m"

text \<open>\<^verbatim>\<open>date(y, m, d).weekday()\<close>: Monday is 0, counted from the first day of the year 1.\<close>

definition days_before_year :: "nat \<Rightarrow> nat" where
  "days_before_year y = (let n = y - 1 in 365 * n + n div 4 - n div 100 + n div 400)"

definition weekday_of :: "nat \<Rightarrow> nat \<Rightarrow> nat \<Rightarrow> nat" where
  "weekday_of y m d = (days_before_year y + sum_list (map (month_days y) [1..<m]) + d + 6) mod 7"

definition document_date :: "json \<Rightarrow> string res" where
  "document_date v =
     (if v = JNull \<or> v = JStr [] then Inr []
      else case v of
        JStr s \<Rightarrow> (let text = py_strip s in
          case date_groups ISO_DATE text of
            None \<Rightarrow> raise ValueError ''doc_date must be ISO YYYY-MM-DD in ASCII digits, not an ambiguous local format''
          | Some (y, m, d) \<Rightarrow> if calendar_date y m d then Inr text
              else raise ValueError ''doc_date must be a real calendar date in ISO YYYY-MM-DD form'')
      | _ \<Rightarrow> raise ValueError ''doc_date must be an ISO date string'')"

section \<open>The normal form of a document\<close>

record line_item =
  li_description :: string
  li_quantity :: int
  li_amount :: int
  li_line_total :: int

record document =
  dn_kind :: string
  dn_supplier :: string
  dn_number :: string
  dn_date :: string
  dn_currency :: string
  dn_total :: int
  dn_items :: "line_item list"
  dn_bank :: json

definition party_of :: "json \<Rightarrow> string \<Rightarrow> string res" where
  "party_of v name = (case v of
      JStr t \<Rightarrow> if PARTY_RE t then Inr t
        else raise ValueError (name @ '' must be lowercase letters, digits, dot, dash or underscore'')
    | _ \<Rightarrow> raise ValueError (name @ '' must be lowercase letters, digits, dot, dash or underscore''))"

definition number_of :: "json \<Rightarrow> string res" where
  "number_of v = (case v of
      JStr t \<Rightarrow> if NUMBER_RE t then Inr t
        else raise ValueError ''document number must be letters, digits or /_.- and at most 64 characters''
    | _ \<Rightarrow> raise ValueError ''document number must be letters, digits or /_.- and at most 64 characters'')"

definition item_name :: "nat \<Rightarrow> string" where
  "item_name i = ''line item '' @ show_nat i"

definition description_of :: "nat \<Rightarrow> json \<Rightarrow> string res" where
  "description_of i v = (case v of
      JStr t \<Rightarrow> if length t \<le> MAX_TEXT_CHARS then Inr t
        else raise ValueError (item_name i @ '' description must be text'')
    | _ \<Rightarrow> raise ValueError (item_name i @ '' description must be text''))"

definition quantity_of :: "nat \<Rightarrow> json \<Rightarrow> int res" where
  "quantity_of i v = (case v of
      JInt n \<Rightarrow> if n < 0 then raise ValueError (item_name i @ '' quantity must be a non-negative integer'')
        else Inr n
    | _ \<Rightarrow> raise ValueError (item_name i @ '' quantity must be a non-negative integer''))"

definition ITEM_KEYS :: "string list" where
  "ITEM_KEYS = [''description'', ''quantity'', ''amount'']"

definition line_of :: "string \<Rightarrow> nat \<times> json \<Rightarrow> line_item res" where
  "line_of currency iv = (case iv of (i, v) \<Rightarrow> (case v of
      JObj d \<Rightarrow>
        if unknown_keys ITEM_KEYS d \<noteq> []
          then raise ValueError (item_name i @ '' has unknown keys: '' @ py_join '', '' (unknown_keys ITEM_KEYS d))
        else bindr (description_of i (jget_or d ''description'' (JStr []))) (\<lambda>description.
          bindr (quantity_of i (jget_or d ''quantity'' (JInt 1))) (\<lambda>quantity.
          bindr (amount_minor (jget_or d ''amount'' (JInt 0)) currency) (\<lambda>amount.
            Inr \<lparr>li_description = description, li_quantity = quantity, li_amount = amount,
                 li_line_total = quantity * amount\<rparr>)))
    | _ \<Rightarrow> raise ValueError (item_name i @ '' must be an object'')))"

definition line_items :: "json \<Rightarrow> string \<Rightarrow> line_item list res" where
  "line_items v currency =
     (if v = JNull \<or> v = JStr [] then Inr []
      else case v of
        JList xs \<Rightarrow> if length xs > MAX_LINE_ITEMS then raise ValueError ''line_items must be a list of at most 200''
          else each (line_of currency) (enumerate 0 xs)
      | _ \<Rightarrow> raise ValueError ''line_items must be a list of at most 200'')"

definition line_items_total :: "line_item list \<Rightarrow> int" where
  "line_items_total items = sum_list (map li_line_total items)"

text \<open>An account is digits once its spaces are gone; a falsy value of any type is kept as it is.\<close>

definition bank_of :: "json \<Rightarrow> json res" where
  "bank_of v =
     (if \<not> truthy v then Inr v
      else case v of
        JStr s \<Rightarrow> (let t = filter (\<lambda>c. c \<noteq> CHR '' '') s in
          if 4 \<le> length s \<and> length s \<le> 34 \<and> list_all (\<lambda>c. is_digit c \<or> c = CHR '' '') s
             \<and> 4 \<le> length t \<and> length t \<le> 34
          then Inr (JStr t) else raise ValueError ''bank_account must be 4 to 34 digits'')
      | _ \<Rightarrow> raise ValueError ''bank_account must be 4 to 34 digits'')"

definition DOCUMENT_KEYS :: "string list" where
  "DOCUMENT_KEYS = [''kind'', ''supplier'', ''number'', ''doc_date'', ''currency'', ''total'',
     ''line_items'', ''bank_account'']"

definition sums_up :: "line_item list \<Rightarrow> int \<Rightarrow> string \<Rightarrow> unit res" where
  "sums_up items minor currency =
     (if items \<noteq> [] \<and> line_items_total items \<noteq> minor
      then raise ValueError (''line items sum to '' @ format_amount (line_items_total items) currency
        @ '' but the stated total is '' @ format_amount minor currency
        @ '': a document that disagrees with itself cannot be checked'')
      else Inr ())"

definition normalize_document :: "json \<Rightarrow> document res" where
  "normalize_document v = (case v of
      JObj d \<Rightarrow>
        if unknown_keys DOCUMENT_KEYS d \<noteq> []
          then raise ValueError (''unknown document keys: '' @ py_join '', '' (unknown_keys DOCUMENT_KEYS d))
        else bindr (choice_of (jget d ''kind'') DOCUMENT_KINDS
              ''kind must be one of invoice, purchase_order, delivery_note, contract'') (\<lambda>kind.
          bindr (party_of (jget d ''supplier'') ''supplier'') (\<lambda>supplier.
          bindr (number_of (jget d ''number'')) (\<lambda>number.
          bindr (choice_of (jget d ''currency'') CURRENCIES ''currency must be one of UZS, USD, EUR, RUB'') (\<lambda>currency.
          bindr (document_date (jget d ''doc_date'')) (\<lambda>date.
          bindr (amount_minor (jget_or d ''total'' (JInt 0)) currency) (\<lambda>minor.
          bindr (line_items (jget d ''line_items'') currency) (\<lambda>items.
          bindr (sums_up items minor currency) (\<lambda>_.
          bindr (bank_of (jget_or d ''bank_account'' (JStr []))) (\<lambda>bank.
            Inr \<lparr>dn_kind = kind, dn_supplier = supplier, dn_number = number, dn_date = date,
                 dn_currency = currency, dn_total = minor, dn_items = items, dn_bank = bank\<rparr>)))))))))
    | _ \<Rightarrow> raise ValueError ''document fields must be an object'')"

definition line_json :: "line_item \<Rightarrow> json" where
  "line_json i = JObj [(''description'', JStr (li_description i)), (''quantity'', JInt (li_quantity i)),
     (''amount'', JInt (li_amount i)), (''line_total'', JInt (li_line_total i))]"

definition heading_fields :: "document \<Rightarrow> fields" where
  "heading_fields d = [(''kind'', JStr (dn_kind d)), (''supplier'', JStr (dn_supplier d)),
     (''number'', JStr (dn_number d)), (''doc_date'', JStr (dn_date d)), (''currency'', JStr (dn_currency d)),
     (''total_minor'', JInt (dn_total d)), (''bank_account'', dn_bank d)]"

definition document_json :: "document \<Rightarrow> json" where
  "document_json d = JObj (heading_fields d @ [(''line_items'', JList (map line_json (dn_items d)))])"

end
