(* ===== verification/Document_Checks.thy ===== *)
theory Document_Checks
  imports Documents
begin

text \<open>
  The control chain of \<^verbatim>\<open>platform_runtime/documents.py\<close> over stored documents: remembering one,
  the duplicate check, the three-way match, the fraud signals, the posting plan and the five tool
  handlers. The JSON reader and the tenant's configuration are arguments.
\<close>

section \<open>The store\<close>

type_synonym doc_key = "string \<times> string \<times> string"

definition document_key :: "document \<Rightarrow> doc_key" where
  "document_key d = (dn_kind d, dn_supplier d, dn_number d)"

definition document_row_key :: "document_row \<Rightarrow> doc_key" where
  "document_row_key r = (dc_kind r, dc_supplier r, dc_number r)"

definition document_id :: "doc_key \<Rightarrow> string" where
  "document_id k = (case k of (kind, supplier, number) \<Rightarrow> kind @ '':'' @ supplier @ '':'' @ number)"

definition find_document :: "db \<Rightarrow> string \<Rightarrow> doc_key \<Rightarrow> document_row option" where
  "find_document s tenant k = find (\<lambda>r. dc_tenant r = tenant \<and> document_row_key r = k) (documents s)"

definition new_document :: "string \<Rightarrow> int \<Rightarrow> document \<Rightarrow> document_row" where
  "new_document tenant now d = \<lparr>dc_tenant = tenant, dc_id = document_id (document_key d),
     dc_kind = dn_kind d, dc_supplier = dn_supplier d, dc_number = dn_number d, dc_date = dn_date d,
     dc_currency = dn_currency d, dc_total = dn_total d, dc_body = document_json d, dc_created = now\<rparr>"

definition put_document :: "document_row \<Rightarrow> db \<Rightarrow> db" where
  "put_document r s = s\<lparr>documents := documents s @ [r]\<rparr>"

text \<open>The primary key and the unique index of \<^verbatim>\<open>p_documents\<close>.\<close>

definition insert_document :: "document_row \<Rightarrow> db \<Rightarrow> db res" where
  "insert_document r s =
     (if \<exists>x \<in> set (documents s). dc_tenant x = dc_tenant r \<and> (dc_id x = dc_id r \<or> document_row_key x = document_row_key r)
      then raise (OtherError ''IntegrityError'') ''UNIQUE constraint failed: p_documents''
      else Inr (put_document r s))"

record remembered =
  rd_id :: string
  rd_duplicate :: bool
  rd_same_amount :: bool
  rd_first_total :: string
  rd_first_currency :: string

definition remember_document ::
  "env \<Rightarrow> int \<Rightarrow> string \<Rightarrow> document \<Rightarrow> db \<Rightarrow> (remembered \<times> db) res" where
  "remember_document e now tenant d s = bindr (require_active e s tenant) (\<lambda>_.
     case find_document s tenant (document_key d) of
       Some r \<Rightarrow> Inr (\<lparr>rd_id = dc_id r, rd_duplicate = True, rd_same_amount = (dc_total r = dn_total d),
         rd_first_total = format_amount (dc_total r) (dc_currency r), rd_first_currency = dc_currency r\<rparr>, s)
     | None \<Rightarrow> bindr (encode (document_json d)) (\<lambda>_.
         bindr (insert_document (new_document tenant now d) s) (\<lambda>t.
           Inr (\<lparr>rd_id = document_id (document_key d), rd_duplicate = False, rd_same_amount = False,
             rd_first_total = [], rd_first_currency = []\<rparr>, t))))"

text \<open>\<^verbatim>\<open>load\<close> and \<^verbatim>\<open>supplier_history\<close>.\<close>

definition load_document :: "db \<Rightarrow> string \<Rightarrow> string \<Rightarrow> document_row res" where
  "load_document s tenant i = (case find (\<lambda>r. dc_tenant r = tenant \<and> dc_id r = i) (documents s) of
      None \<Rightarrow> raise NotFound ''Document not found'' | Some r \<Rightarrow> Inr r)"

definition supplier_history :: "db \<Rightarrow> string \<Rightarrow> string \<Rightarrow> int \<Rightarrow> document_row list" where
  "supplier_history s tenant supplier limit = take (nat (min (max 1 limit) 500))
     (sort_key (\<lambda>r. - dc_created r) (filter (\<lambda>r. dc_tenant r = tenant \<and> dc_supplier r = supplier) (documents s)))"

section \<open>Duplicates\<close>

definition same_currency :: "document_row \<Rightarrow> document \<Rightarrow> bool" where
  "same_currency r d \<longleftrightarrow> dc_currency r = dn_currency d"

definition altered :: "document_row \<Rightarrow> document \<Rightarrow> bool" where
  "altered r d \<longleftrightarrow> \<not> (dc_total r = dn_total d \<and> same_currency r d)"

definition duplicate_of :: "db \<Rightarrow> string \<Rightarrow> json \<Rightarrow> (document \<times> document_row option) res" where
  "duplicate_of s tenant v = bindr (normalize_document v) (\<lambda>d.
     Inr (d, find_document s tenant (document_key d)))"

definition changed_amount :: "document_row \<Rightarrow> document \<Rightarrow> json" where
  "changed_amount r d =
     (let old = JStr (format_amount (dc_total r) (dc_currency r)) in
      if \<not> same_currency r d then JObj [(''from'', old), (''to'', old),
        (''note'', JStr ''the number is unchanged; the currency is what differs'')]
      else if dc_total r = dn_total d then JNull
      else JObj [(''from'', old), (''to'', JStr (format_amount (dn_total d) (dn_currency d)))])"

definition duplicate_report :: "document \<Rightarrow> document_row option \<Rightarrow> fields" where
  "duplicate_report d found = (case found of
      None \<Rightarrow> [(''duplicate'', JBool False), (''original'', JNull), (''altered'', JBool False)]
    | Some r \<Rightarrow> [(''duplicate'', JBool True), (''altered'', JBool (altered r d)),
        (''same_amount'', JBool (\<not> altered r d)), (''same_currency'', JBool (same_currency r d)),
        (''original'', JObj [(''id'', JStr (dc_id r)), (''number'', JStr (dc_number r)),
           (''supplier'', JStr (dc_supplier r)), (''date'', JStr (dc_date r)),
           (''total'', JStr (format_amount (dc_total r) (dc_currency r))), (''currency'', JStr (dc_currency r))]),
        (''submitted'', JObj [(''date'', JStr (dn_date d)),
           (''total'', JStr (format_amount (dn_total d) (dn_currency d))), (''currency'', JStr (dn_currency d))]),
        (''amount_changed'', changed_amount r d),
        (''currency_changed'', if same_currency r d then JNull
           else JObj [(''from'', JStr (dc_currency r)), (''to'', JStr (dn_currency d))]),
        (''amount_delta_minor'', if same_currency r d then JInt (dn_total d - dc_total r) else JNull)])"

section \<open>The three-way match\<close>

record match_check =
  mk_against :: string
  mk_ok :: bool
  mk_reason :: string
  mk_detail :: fields

datatype match_status = Matched | PartialMatch | Mismatch | Incomplete

record match_report =
  mr_status :: match_status
  mr_currency :: string
  mr_total :: int
  mr_tolerance :: int
  mr_checks :: "match_check list"
  mr_missing :: "string list"

definition compare_total :: "document \<Rightarrow> int \<Rightarrow> string \<Rightarrow> document \<Rightarrow> match_check" where
  "compare_total d tolerance label other =
     (let currency = dn_currency d; delta = dn_total d - dn_total other; fits = \<bar>delta\<bar> \<le> tolerance in
      if dn_currency other \<noteq> currency
      then \<lparr>mk_against = label, mk_ok = False, mk_reason = ''currency'',
        mk_detail = [(''from'', JStr (dn_currency other)), (''to'', JStr currency)]\<rparr>
      else \<lparr>mk_against = label, mk_ok = fits,
        mk_reason = (if fits then ''within tolerance'' else if delta > 0 then ''invoice above'' else ''invoice below''),
        mk_detail = [(''counterpart_total'', JStr (format_amount (dn_total other) currency)),
          (''difference'', JStr (format_amount \<bar>delta\<bar> currency))]\<rparr>)"

text \<open>A counterpart that is absent or the empty object is missing: \<open>Inl\<close> its label.\<close>

definition counterpart_check :: "document \<Rightarrow> int \<Rightarrow> string \<times> json \<Rightarrow> (string + match_check) res" where
  "counterpart_check d tolerance lv = (case lv of (label, v) \<Rightarrow>
     if v = JNull \<or> v = JObj [] then Inr (Inl label)
     else bindr (normalize_document v) (\<lambda>other. Inr (Inr (compare_total d tolerance label other))))"

definition labels_of :: "('a + 'b) list \<Rightarrow> 'a list" where
  "labels_of xs = concat (map (\<lambda>x. case x of Inl l \<Rightarrow> [l] | Inr _ \<Rightarrow> []) xs)"

definition checks_of :: "('a + 'b) list \<Rightarrow> 'b list" where
  "checks_of xs = concat (map (\<lambda>x. case x of Inl _ \<Rightarrow> [] | Inr c \<Rightarrow> [c]) xs)"

definition match_outcome :: "string list \<Rightarrow> match_check list \<Rightarrow> match_status" where
  "match_outcome missing checks =
     (if length missing = 2 then Incomplete
      else if missing \<noteq> [] then (if list_all mk_ok checks then PartialMatch else Mismatch)
      else if list_all mk_ok checks then Matched else Mismatch)"

definition three_way_match :: "json \<Rightarrow> json \<Rightarrow> json \<Rightarrow> json \<Rightarrow> match_report res" where
  "three_way_match invoice purchase_order delivery_note tolerance =
     bindr (tolerance_arg tolerance) (\<lambda>n. bindr (normalize_document invoice) (\<lambda>d.
     bindr (each (counterpart_check d n) [(''purchase_order'', purchase_order), (''delivery_note'', delivery_note)]) (\<lambda>xs.
       let missing = labels_of xs; checks = checks_of xs in
       Inr \<lparr>mr_status = match_outcome missing checks, mr_currency = dn_currency d, mr_total = dn_total d,
         mr_tolerance = n, mr_checks = checks, mr_missing = missing\<rparr>)))"

fun match_text :: "match_status \<Rightarrow> string" where
  "match_text Matched = ''matched''"
| "match_text PartialMatch = ''partial''"
| "match_text Mismatch = ''mismatch''"
| "match_text Incomplete = ''incomplete''"

definition match_json :: "match_report \<Rightarrow> fields" where
  "match_json r = [(''status'', JStr (match_text (mr_status r))), (''currency'', JStr (mr_currency r)),
     (''invoice_total'', JStr (format_amount (mr_total r) (mr_currency r))),
     (''tolerance'', JStr (format_amount (mr_tolerance r) (mr_currency r))),
     (''checks'', JList (map (\<lambda>c. JObj ([(''against'', JStr (mk_against c)), (''ok'', JBool (mk_ok c)),
        (''reason'', JStr (mk_reason c))] @ mk_detail c)) (mr_checks r))),
     (''missing'', jstrs (mr_missing r)), (''complete'', JBool (mr_missing r = []))]"

section \<open>Fraud signals\<close>

definition MATERIAL_SIGNALS :: "string list" where
  "MATERIAL_SIGNALS = [''amount_outlier'', ''bank_account_changed'', ''duplicate_altered'']"

definition WEAK_SIGNALS :: "string list" where
  "WEAK_SIGNALS = [''no_history'', ''round_number'', ''weekend_date'']"

definition ROUND_TRAILING_ZEROS :: nat where "ROUND_TRAILING_ZEROS = 3"

record signal =
  sg_name :: string
  sg_detail :: string
  sg_evidence :: json

definition median :: "int list \<Rightarrow> int" where
  "median xs = (let ordered = sort xs; middle = length ordered div 2 in
     if odd (length ordered) then ordered ! middle
     else (ordered ! (middle - 1) + ordered ! middle) div 2)"

text \<open>The rows a document is compared with: its supplier's, in its currency, without its own.\<close>

definition prior_rows :: "document \<Rightarrow> document_row list \<Rightarrow> document_row list" where
  "prior_rows d history =
     filter (\<lambda>r. dc_currency r = dn_currency d \<and> document_row_key r \<noteq> document_key d) history"

definition outlier_signal :: "document \<Rightarrow> int \<Rightarrow> document_row list \<Rightarrow> signal list" where
  "outlier_signal d ratio prior =
     (let m = median (map dc_total prior) in
      if m > 0 \<and> dn_total d \<ge> m * ratio
      then [\<lparr>sg_name = ''amount_outlier'',
        sg_detail = format_amount (dn_total d) (dn_currency d) @ '' is at least '' @ show_int ratio
          @ ''x this supplier's median of '' @ format_amount m (dn_currency d) @ '' over ''
          @ show_nat (length prior) @ '' prior document(s)'',
        sg_evidence = JObj [(''median'', JStr (format_amount m (dn_currency d))), (''count'', JInt (int (length prior)))]\<rparr>]
      else [])"

definition row_bank :: "document_row \<Rightarrow> json" where
  "row_bank r = jget_or (obj_fields (dc_body r)) ''bank_account'' (JStr [])"

definition bank_signal :: "document \<Rightarrow> document_row list \<Rightarrow> signal list" where
  "bank_signal d prior = (case prior of
      [] \<Rightarrow> []
    | r # _ \<Rightarrow> if truthy (dn_bank d) \<and> truthy (row_bank r) \<and> \<not> py_eq (row_bank r) (dn_bank d)
        then [\<lparr>sg_name = ''bank_account_changed'',
          sg_detail = ''the supplier bank account differs from the most recent stored document: confirm with the supplier by a channel other than the document itself'',
          sg_evidence = JObj [(''mismatch'', JBool True)]\<rparr>]
        else [])"

definition history_signals :: "document \<Rightarrow> int \<Rightarrow> document_row list \<Rightarrow> signal list" where
  "history_signals d ratio prior =
     (if prior = []
      then [\<lparr>sg_name = ''no_history'', sg_detail = ''no prior '' @ dn_currency d @ '' document from ''
        @ [CHR 0x22] @ dn_supplier d @ [CHR 0x22] @ '' to compare against'', sg_evidence = JObj []\<rparr>]
      else outlier_signal d ratio prior @ bank_signal d prior)"

definition trailing_zeros :: "string \<Rightarrow> nat" where
  "trailing_zeros t = length (takeWhile (\<lambda>c. c = CHR ''0'') (rev t))"

definition round_signal :: "document \<Rightarrow> signal list" where
  "round_signal d =
     (let factor = minor_units (dn_currency d);
          trailing = trailing_zeros (show_int (dn_total d div factor)) in
      if dn_total d > 0 \<and> dn_total d mod factor = 0 \<and> trailing \<ge> ROUND_TRAILING_ZEROS
      then [\<lparr>sg_name = ''round_number'', sg_detail = ''the amount is exactly round to '' @ show_nat trailing
          @ '' trailing zero(s) in whole '' @ dn_currency d @ '', which is unusual for an invoice'',
        sg_evidence = JObj [(''trailing_zeros'', JInt (int trailing)), (''threshold'', JInt (int ROUND_TRAILING_ZEROS))]\<rparr>]
      else [])"

fun split_dashes :: "string \<Rightarrow> string list" where
  "split_dashes [] = [[]]"
| "split_dashes (c # s) = (if c = CHR ''-'' then [] # split_dashes s
     else case split_dashes s of [] \<Rightarrow> [[c]] | w # ws \<Rightarrow> (c # w) # ws)"

definition date_parts :: "string \<Rightarrow> (nat \<times> nat \<times> nat) option" where
  "date_parts t =
     (if \<not> is_ascii_digit_run (filter (\<lambda>c. c \<noteq> CHR ''-'') t) then None
      else case split_dashes t of
        [y, m, d] \<Rightarrow> if [] \<in> {y, m, d} then None else Some (digits_value y, digits_value m, digits_value d)
      | _ \<Rightarrow> None)"

definition on_weekend :: "nat \<times> nat \<times> nat \<Rightarrow> bool" where
  "on_weekend p = (case p of (y, m, d) \<Rightarrow> calendar_date y m d \<and> weekday_of y m d \<ge> 5)"

definition prior_dates :: "document_row list \<Rightarrow> (nat \<times> nat \<times> nat) list" where
  "prior_dates prior = concat (map (\<lambda>r. if dc_date r = [] then []
     else case date_parts (dc_date r) of None \<Rightarrow> [] | Some p \<Rightarrow> [p]) prior)"

definition weekend_signal :: "document \<Rightarrow> document_row list \<Rightarrow> signal list" where
  "weekend_signal d prior = (case (if dn_date d = [] then None else date_parts (dn_date d)) of
      None \<Rightarrow> []
    | Some p \<Rightarrow> (case p of (y, m, day) \<Rightarrow>
        if on_weekend p \<and> prior_dates prior \<noteq> [] \<and> \<not> list_ex on_weekend (prior_dates prior)
        then [\<lparr>sg_name = ''weekend_date'', sg_detail = ''the document date falls on a weekend, but none of this supplier's last ''
            @ show_nat (length (prior_dates prior)) @ '' document(s) did'',
          sg_evidence = JObj [(''weekday'', JInt (int (weekday_of y m day))), (''prior_weekend'', JInt 0)]\<rparr>]
        else []))"

definition altered_signal :: "document \<Rightarrow> document_row option \<Rightarrow> signal list" where
  "altered_signal d found = (case found of
      None \<Rightarrow> []
    | Some r \<Rightarrow> if altered r d
        then [\<lparr>sg_name = ''duplicate_altered'',
          sg_detail = ''a document with this number already exists and the amount differs: a re-issued or altered invoice is more suspicious than an exact repeat'',
          sg_evidence = (if truthy (changed_amount r d) then changed_amount r d else JObj [])\<rparr>]
        else [])"

record fraud_report =
  fr_signals :: "signal list"
  fr_supplier :: string
  fr_rows :: nat
  fr_considered :: nat

definition signals_for ::
  "document \<Rightarrow> int \<Rightarrow> document_row list \<Rightarrow> document_row option \<Rightarrow> signal list" where
  "signals_for d ratio prior found = history_signals d ratio prior @ round_signal d
     @ weekend_signal d prior @ altered_signal d found"

definition HISTORY_LIMIT :: int where "HISTORY_LIMIT = 50"

definition fraud_signals :: "db \<Rightarrow> string \<Rightarrow> json \<Rightarrow> json \<Rightarrow> fraud_report res" where
  "fraud_signals s tenant v ratio = bindr (ratio_arg ratio) (\<lambda>n. bindr (normalize_document v) (\<lambda>d.
     let history = supplier_history s tenant (dn_supplier d) HISTORY_LIMIT; prior = prior_rows d history in
     Inr \<lparr>fr_signals = signals_for d n prior (find_document s tenant (document_key d)),
          fr_supplier = dn_supplier d, fr_rows = length history, fr_considered = length prior\<rparr>))"

definition among :: "string list \<Rightarrow> fraud_report \<Rightarrow> string list" where
  "among names f = filter (\<lambda>n. n \<in> set (map sg_name (fr_signals f))) names"

definition fraud_json :: "fraud_report \<Rightarrow> fields" where
  "fraud_json f = [(''signals'', JList (map (\<lambda>g. JObj [(''signal'', JStr (sg_name g)),
        (''detail'', JStr (sg_detail g)), (''evidence'', sg_evidence g)]) (fr_signals f))),
     (''count'', JInt (int (length (fr_signals f)))), (''material'', jstrs (among MATERIAL_SIGNALS f)),
     (''weak'', jstrs (among WEAK_SIGNALS f)), (''supplier'', JStr (fr_supplier f)),
     (''history_rows'', JInt (int (fr_rows f))), (''history_considered'', JInt (int (fr_considered f)))]"

section \<open>The posting plan\<close>

record posting_plan =
  pp_document :: document
  pp_found :: "document_row option"
  pp_match :: match_report
  pp_fraud :: fraud_report

definition material_signals :: "posting_plan \<Rightarrow> bool" where
  "material_signals p \<longleftrightarrow> among MATERIAL_SIGNALS (pp_fraud p) \<noteq> []"

definition needs_attention :: "posting_plan \<Rightarrow> bool" where
  "needs_attention p \<longleftrightarrow> pp_found p \<noteq> None \<or> mr_status (pp_match p) \<noteq> Matched \<or> material_signals p"

definition recommendation :: "posting_plan \<Rightarrow> string" where
  "recommendation p =
     (if pp_found p \<noteq> None then ''hold_for_duplicate_review''
      else if mr_status (pp_match p) = Mismatch then ''hold_for_mismatch_review''
      else if mr_status (pp_match p) = Incomplete then ''attach_missing_document''
      else if material_signals p then ''review_fraud_signals''
      else ''ready_for_approval'')"

definition make_plan :: "db \<Rightarrow> string \<Rightarrow> json \<Rightarrow> json \<Rightarrow> json \<Rightarrow> json \<Rightarrow> json \<Rightarrow> posting_plan res" where
  "make_plan s tenant v tolerance purchase_order delivery_note ratio =
     bindr (duplicate_of s tenant v) (\<lambda>(d, found).
     bindr (three_way_match v purchase_order delivery_note tolerance) (\<lambda>m.
     bindr (fraud_signals s tenant v ratio) (\<lambda>f.
       Inr \<lparr>pp_document = d, pp_found = found, pp_match = m, pp_fraud = f\<rparr>)))"

definition plan_json :: "posting_plan \<Rightarrow> json" where
  "plan_json p = (let d = pp_document p in JObj [
     (''document'', JObj [(''kind'', JStr (dn_kind d)), (''supplier'', JStr (dn_supplier d)),
        (''number'', JStr (dn_number d)), (''date'', JStr (dn_date d)), (''currency'', JStr (dn_currency d)),
        (''total'', JStr (format_amount (dn_total d) (dn_currency d)))]),
     (''duplicate'', JObj (duplicate_report d (pp_found p))), (''match'', JObj (match_json (pp_match p))),
     (''fraud'', JObj (fraud_json (pp_fraud p))), (''needs_attention'', JBool (needs_attention p)),
     (''recommendation'', JStr (recommendation p)), (''executes_payment'', JBool False),
     (''note'', JStr ''This is a control plan, not a payment. The platform does not move money; posting to the ERP requires a human approval.'')])"

definition record_posting_plan ::
  "env \<Rightarrow> int \<Rightarrow> string \<Rightarrow> string \<Rightarrow> string \<Rightarrow> json \<Rightarrow> db \<Rightarrow> (string \<times> db) res" where
  "record_posting_plan e now tenant document run plan s = bindr (require_active e s tenant) (\<lambda>_.
     bindr (encode plan) (\<lambda>_. let i = take 24 (fresh e s); t = drawn s in
       Inr (i, t\<lparr>posting_plans := posting_plans t @ [\<lparr>pl_tenant = tenant, pl_id = i, pl_document = document,
         pl_run = run, pl_plan = plan, pl_status = ''prepared'', pl_created = now\<rparr>]\<rparr>)))"

definition document_plans :: "db \<Rightarrow> string \<Rightarrow> string \<Rightarrow> plan_row list" where
  "document_plans s tenant document = sort_key (\<lambda>r. - pl_created r)
     (filter (\<lambda>r. pl_tenant r = tenant \<and> pl_document r = document) (posting_plans s))"

section \<open>Tool handlers\<close>

definition payload :: "(string \<Rightarrow> json option) \<Rightarrow> fields \<Rightarrow> string \<Rightarrow> bool \<Rightarrow> json res" where
  "payload loads args key required = (case jget args key of
      JNull \<Rightarrow> if required then raise ValueError (key @ '' is required'') else Inr JNull
    | JObj d \<Rightarrow> Inr (JObj d)
    | JStr t \<Rightarrow>
        if t = [] then (if required then raise ValueError (key @ '' is required'') else Inr JNull)
        else (case loads t of
            None \<Rightarrow> raise ValueError (key @ '' must be valid JSON'')
          | Some (JObj d) \<Rightarrow> Inr (JObj d)
          | Some _ \<Rightarrow> raise ValueError (key @ '' must be a JSON object''))
    | _ \<Rightarrow> raise ValueError (key @ '' must be a JSON object''))"

definition parse_answer :: "document \<Rightarrow> remembered \<Rightarrow> fields" where
  "parse_answer d r = [(''document'', JObj (heading_fields d)),
     (''line_items'', JList (map line_json (dn_items d))),
     (''total'', JStr (format_amount (dn_total d) (dn_currency d))), (''stored_id'', JStr (rd_id r)),
     (''duplicate'', JBool (rd_duplicate r))]
     @ (if rd_duplicate r then [(''first_seen'', JObj [(''total'', JStr (rd_first_total r)),
          (''currency'', JStr (rd_first_currency r)), (''same_amount'', JBool (rd_same_amount r))])] else [])"

definition parse_tool ::
  "env \<Rightarrow> (string \<Rightarrow> json option) \<Rightarrow> int \<Rightarrow> string \<Rightarrow> fields \<Rightarrow> db \<Rightarrow> (fields \<times> db) res" where
  "parse_tool e loads now tenant args s = bindr (payload loads args ''fields'' True) (\<lambda>v.
     bindr (normalize_document v) (\<lambda>d. bindr (remember_document e now tenant d s) (\<lambda>(r, t).
       Inr (parse_answer d r, t))))"

definition match_tool :: "(string \<Rightarrow> json option) \<Rightarrow> fields \<Rightarrow> fields res" where
  "match_tool loads args = bindr (payload loads args ''invoice'' True) (\<lambda>v.
     bindr (payload loads args ''purchase_order'' False) (\<lambda>po.
     bindr (payload loads args ''delivery_note'' False) (\<lambda>dn.
     bindr (three_way_match v po dn (jget_or args ''tolerance_minor'' (JInt DEFAULT_TOLERANCE_MINOR))) (\<lambda>m.
       Inr (match_json m)))))"

definition duplicates_tool :: "(string \<Rightarrow> json option) \<Rightarrow> string \<Rightarrow> fields \<Rightarrow> db \<Rightarrow> fields res" where
  "duplicates_tool loads tenant args s = bindr (payload loads args ''fields'' True) (\<lambda>v.
     bindr (duplicate_of s tenant v) (\<lambda>(d, found). Inr (duplicate_report d found)))"

definition fraud_tool :: "(string \<Rightarrow> json option) \<Rightarrow> json res \<Rightarrow> string \<Rightarrow> fields \<Rightarrow> db \<Rightarrow> fields res" where
  "fraud_tool loads config tenant args s = bindr (documents_config config) (\<lambda>c.
     bindr (payload loads args ''fields'' True) (\<lambda>v.
     bindr (fraud_signals s tenant v (jget_or args ''outlier_ratio'' (JInt (ds_ratio c)))) (\<lambda>f.
       Inr (fraud_json f))))"

text \<open>\<^verbatim>\<open>_plan_tool\<close>: the plan is made first, then the document and the plan are stored.\<close>

definition plan_request ::
  "(string \<Rightarrow> json option) \<Rightarrow> json res \<Rightarrow> string \<Rightarrow> fields \<Rightarrow> db \<Rightarrow> posting_plan res" where
  "plan_request loads config tenant args s = bindr (documents_config config) (\<lambda>c.
     bindr (tolerance_arg (jget_or args ''tolerance_minor'' (JInt (ds_tolerance c)))) (\<lambda>n.
     bindr (payload loads args ''fields'' True) (\<lambda>v.
     bindr (payload loads args ''purchase_order'' False) (\<lambda>po.
     bindr (payload loads args ''delivery_note'' False) (\<lambda>dn.
       make_plan s tenant v (JInt n) po dn (JInt (ds_ratio c)))))))"

definition plan_tool ::
  "env \<Rightarrow> (string \<Rightarrow> json option) \<Rightarrow> json res \<Rightarrow> int \<times> int \<Rightarrow> string \<Rightarrow> fields \<Rightarrow> string \<Rightarrow> db
     \<Rightarrow> fields res \<times> db" where
  "plan_tool e loads config stamps tenant args step s =
     (case bindr (plan_request loads config tenant args s) (\<lambda>p.
         bindr (remember_document e (fst stamps) tenant (pp_document p) s) (\<lambda>(r, t). Inr (p, r, t))) of
        Inl x \<Rightarrow> (Inl x, s)
      | Inr (p, r, t) \<Rightarrow> (case record_posting_plan e (snd stamps) tenant (rd_id r) step (plan_json p) t of
            Inl x \<Rightarrow> (Inl x, t)
          | Inr (i, u) \<Rightarrow> (Inr [(''plan_id'', JStr i), (''document_id'', JStr (rd_id r)),
              (''recommendation'', JStr (recommendation p)), (''needs_attention'', JBool (needs_attention p)),
              (''executes_payment'', JBool False)], u)))"

end
