(* ===== verification/Document_Props.thy ===== *)
theory Document_Props
  imports Document_Checks Demo_Env Contracts
begin

text \<open>
  What the control chain promises: amounts survive being written and read and are never rounded up,
  a stored document is never replaced, the match and the signals are what their names say, and a plan
  is ready only when nothing stands against it.
\<close>

section \<open>Digits\<close>

lemma digits_value_concat: "digits_value (s @ t) = digits_value s * 10 ^ length t + digits_value t"
proof (induction t rule: rev_induct)
  case (snoc c t)
  have "digits_value (s @ t @ [c]) = 10 * digits_value (s @ t) + (code_of c - 48)"
    using digits_value_append[of "s @ t" c] by simp
  also have "\<dots> = digits_value s * 10 ^ length (t @ [c]) + digits_value (t @ [c])"
    by (simp add: snoc digits_value_append algebra_simps)
  finally show ?case by simp
qed (simp add: digits_value_def)

lemma digits_value_less: "list_all is_digit t \<Longrightarrow> digits_value t < 10 ^ length t"
proof (induction t rule: rev_induct)
  case (snoc c t)
  then show ?case using digit_char_value[of c] by (simp add: digits_value_append)
qed (simp add: digits_value_def)

lemma digits_value_zeros: "digits_value (replicate k (CHR ''0'')) = 0"
  by (induction k) (simp_all add: digits_value_def code_of_def)

lemma show_nat_length:
  "n < 10 ^ k \<Longrightarrow> 0 < k \<Longrightarrow> length (show_nat n) \<le> k"
proof (induction n arbitrary: k rule: show_nat.induct)
  case (1 n)
  show ?case
  proof (cases "n < 10")
    case True
    then show ?thesis using 1(3) by (subst show_nat.simps) simp
  next
    case False
    obtain j where k: "k = Suc j" using 1(3) by (cases k) auto
    have "n div 10 < 10 ^ j" using 1(2) by (simp add: k less_mult_imp_div_less mult.commute)
    moreover have "0 < j" using False 1(2) by (cases j) (auto simp: k)
    ultimately show ?thesis using 1(1)[OF False] False by (subst show_nat.simps) (simp add: k)
  qed
qed

lemma zero_pad_facts:
  assumes "n < 10 ^ w" "0 < w"
  shows "length (zero_pad w n) = w" "digits_value (zero_pad w n) = n" "list_all is_digit (zero_pad w n)"
proof -
  have "is_digit (CHR ''0'')" by (simp add: is_digit_def code_of_def)
  then show "list_all is_digit (zero_pad w n)"
    using show_nat_digits[of n] by (auto simp: zero_pad_def Let_def list_all_iff)
qed (use show_nat_length[OF assms] in \<open>simp_all add: zero_pad_def Let_def digits_value_concat digits_value_zeros digits_value_show\<close>)

lemma digit_facts: "is_digit c \<Longrightarrow> \<not> py_isspace c \<and> c \<noteq> CHR ''.''"
  by (auto simp: is_digit_def py_isspace_def code_of_def Let_def)

lemma strip_solid: "list_all (\<lambda>c. \<not> py_isspace c) t \<Longrightarrow> py_strip t = t"
proof -
  have d: "dropWhile py_isspace u = u" if "list_all (\<lambda>c. \<not> py_isspace c) u" for u
    using that by (cases u) auto
  assume t: "list_all (\<lambda>c. \<not> py_isspace c) t"
  then have "list_all (\<lambda>c. \<not> py_isspace c) (rev t)" by (simp add: list_all_iff)
  then show ?thesis using d[OF t] d[of "rev t"] by (simp add: py_strip_def)
qed

section \<open>Decimal text\<close>

lemma no_dot: "CHR ''.'' \<notin> set t \<Longrightarrow> dropWhile (\<lambda>c. c \<noteq> CHR ''.'') t = []"
  by (induction t) auto

lemma parts_of_dotted:
  assumes "list_all is_digit w"
  shows "whole_part (w @ CHR ''.'' # f) = w" "fraction_part (w @ CHR ''.'' # f) = f"
    "whole_part w = w" "fraction_part w = []"
proof -
  have w: "\<forall>c \<in> set w. c \<noteq> CHR ''.''" using assms digit_facts by (auto simp: list_all_iff)
  then show "whole_part (w @ CHR ''.'' # f) = w" "whole_part w = w"
    unfolding whole_part_def by (simp_all add: takeWhile_append2)
  have dry: "CHR ''.'' \<notin> set w" using w by blast
  show "fraction_part w = []" unfolding fraction_part_def no_dot[OF dry] by simp
  have "dropWhile (\<lambda>c. c \<noteq> CHR ''.'') (w @ CHR ''.'' # f) = CHR ''.'' # f"
    using w by (simp add: dropWhile_append2)
  then show "fraction_part (w @ CHR ''.'' # f) = f" by (simp add: fraction_part_def)
qed

text \<open>The number a decimal text denotes.\<close>

definition decimal_value :: "string \<Rightarrow> rat" where
  "decimal_value t = of_nat (digits_value (whole_part t @ fraction_part t)) / 10 ^ length (fraction_part t)"

lemma cut_fraction:
  assumes "list_all is_digit f"
  shows "int (digits_value (take k (f @ replicate k (CHR ''0''))))
    = \<lfloor>of_nat (digits_value f) * 10 ^ k / 10 ^ length f :: rat\<rfloor>"
proof (cases "k \<le> length f")
  case True
  let ?a = "take k f" and ?b = "drop k f"
  have len: "length ?b = length f - k" by simp
  have f: "digits_value f = digits_value ?a * 10 ^ length ?b + digits_value ?b"
    using digits_value_concat[of ?a ?b] by simp
  have b: "digits_value ?b < 10 ^ length ?b"
    by (rule digits_value_less) (use assms in \<open>auto simp: list_all_iff dest: in_set_dropD\<close>)
  have p: "(10 :: rat) ^ length f = 10 ^ k * 10 ^ length ?b"
    using True by (simp add: power_add[symmetric])
  have "(of_nat (digits_value f) * 10 ^ k / 10 ^ length f :: rat)
      = of_nat (digits_value ?a) + of_nat (digits_value ?b) / 10 ^ length ?b"
    unfolding p f by (simp add: field_simps)
  moreover have "(of_nat (digits_value ?b) :: rat) < 10 ^ length ?b"
  proof -
    have "(of_nat (digits_value ?b) :: rat) < of_nat (10 ^ length ?b)" using b by (rule of_nat_less_iff[THEN iffD2])
    then show ?thesis by simp
  qed
  ultimately have "\<lfloor>of_nat (digits_value f) * 10 ^ k / 10 ^ length f :: rat\<rfloor> = int (digits_value ?a)"
    by (intro floor_unique) (simp_all add: divide_less_eq)
  then show ?thesis using True by simp
next
  case False
  then obtain j where k: "k = length f + j" by (metis le_add_diff_inverse nat_le_linear)
  have "take k (f @ replicate k (CHR ''0'')) = f @ replicate j (CHR ''0'')" by (simp add: k)
  moreover have "(of_nat (digits_value f) * 10 ^ k / 10 ^ length f :: rat) = of_int (int (digits_value f * 10 ^ j))"
    by (simp add: k power_add)
  ultimately show ?thesis
    by (simp only: floor_of_int digits_value_concat digits_value_zeros length_replicate add_0_right)
qed

lemma decimal_minor_floor:
  assumes "decimal_shape t"
  shows "decimal_minor t c = \<lfloor>decimal_value t * of_int (minor_units c)\<rfloor>"
proof -
  let ?f = "fraction_part t" and ?w = "whole_part t"
  have "?f = []" if "CHR ''.'' \<notin> set t"
    unfolding fraction_part_def no_dot[OF that] by simp
  then have f: "list_all is_digit ?f" using assms by (cases "CHR ''.'' \<in> set t") (auto simp: decimal_shape_def)
  have "decimal_value t * of_int (minor_units c)
      = of_int (int (digits_value ?w) * minor_units c)
        + of_nat (digits_value ?f) * 10 ^ minor_digits c / 10 ^ length ?f"
    by (simp add: decimal_value_def digits_value_concat minor_units_digits field_simps)
  then have "\<lfloor>decimal_value t * of_int (minor_units c)\<rfloor>
      = int (digits_value ?w) * minor_units c
        + \<lfloor>of_nat (digits_value ?f) * 10 ^ minor_digits c / 10 ^ length ?f :: rat\<rfloor>"
    by (simp only: int_add_floor)
  then show ?thesis unfolding decimal_minor_def cut_fraction[OF f] by (rule sym)
qed

lemma formatted:
  assumes "0 \<le> n" "n < 10 ^ 15 * minor_units c"
  shows "decimal_shape (format_amount n c)" "decimal_minor (format_amount n c) c = n"
    "py_strip (format_amount n c) = format_amount n c"
proof -
  define w where "w = show_nat (nat (n div minor_units c))"
  have "n div minor_units c < 10 ^ 15"
    using assms(2) minor_units_pos[of c] by (simp add: minor_units_def split: if_split_asm)
  then have lw: "length w \<le> 15" unfolding w_def by (intro show_nat_length) auto
  have w: "list_all is_digit w" "w \<noteq> []" "int (digits_value w) = n div minor_units c"
    using assms(1) minor_units_pos[of c]
    by (simp_all add: w_def show_nat_digits show_nat_nonempty digits_value_show pos_imp_zdiv_nonneg_iff)
  have "decimal_shape (format_amount n c) \<and> decimal_minor (format_amount n c) c = n
      \<and> list_all (\<lambda>x. \<not> py_isspace x) (format_amount n c)"
  proof (cases "c = ''UZS''")
    case True
    then have fmt: "format_amount n c = w" and u: "minor_units c = 1" "minor_digits c = 0"
      using assms(1) by (simp_all add: format_amount_def minor_units_def minor_digits_def w_def show_int_def)
    have "CHR ''.'' \<notin> set w" using w(1) digit_facts by (auto simp: list_all_iff)
    then show ?thesis using w lw parts_of_dotted[OF w(1)] digit_facts u
      unfolding fmt decimal_shape_def decimal_minor_def by (auto simp: list_all_iff digits_value_def Suc_le_eq)
  next
    case False
    then have u: "minor_units c = 100" "minor_digits c = 2" by (simp_all add: minor_units_def minor_digits_def)
    define f where "f = zero_pad 2 (nat (n mod 100))"
    have "nat (n mod 100) < 10 ^ 2" by simp
    note f = zero_pad_facts[OF this, simplified, folded f_def]
    have fmt: "format_amount n c = w @ CHR ''.'' # f"
      using assms(1) by (simp add: format_amount_def u w_def f_def show_int_def pos_imp_zdiv_neg_iff)
    have "take 2 (f @ replicate 2 (CHR ''0'')) = f" using f(1) by simp
    then have "decimal_minor (format_amount n c) c = (n div 100) * 100 + n mod 100"
      using w(3) f(2) unfolding fmt decimal_minor_def parts_of_dotted[OF w(1)] u by simp
    moreover have "\<not> py_isspace (CHR ''.'')" by (simp add: py_isspace_def code_of_def)
    ultimately show ?thesis using w lw f digit_facts
      unfolding fmt decimal_shape_def parts_of_dotted[OF w(1)] by (auto simp: list_all_iff Suc_le_eq)
  qed
  then show "decimal_shape (format_amount n c)" "decimal_minor (format_amount n c) c = n"
    "py_strip (format_amount n c) = format_amount n c" by (auto intro: strip_solid)
qed

text \<open>
  C31: amounts survive. An amount below ten to the fifteen major units that is rendered as text is read
  back as exactly the same count of minor units; and whatever decimal text is accepted is cut to the
  currency's precision, never rounded up, and stays in the allowed range.
\<close>

theorem amounts_round_trip:
  "(0 \<le> n \<and> n < 10 ^ 15 * minor_units c \<longrightarrow> amount_minor (JStr (format_amount n c)) c = Inr n)
   \<and> (amount_minor (JStr t) c = Inr k \<longrightarrow>
        k = \<lfloor>decimal_value (py_strip t) * of_int (minor_units c)\<rfloor> \<and> 0 \<le> k \<and> k \<le> MAX_DOCUMENT_AMOUNT * minor_units c)"
  using formatted[of n c] decimal_minor_floor[of "py_strip t" c] minor_units_pos[of c]
  by (auto simp: amount_minor_def in_range_def MAX_DOCUMENT_AMOUNT_def Let_def split: if_split_asm)

lemma amounts_round_trip_witness:
  "amount_minor (JStr (format_amount 125050 ''USD'')) ''USD'' = Inr 125050
   \<and> 12 = \<lfloor>decimal_value (py_strip '' 0.1299 '') * of_int (minor_units ''USD'')\<rfloor>"
proof -
  have "amount_minor (JStr '' 0.1299 '') ''USD'' = Inr 12" by code_simp
  then show ?thesis
    using amounts_round_trip[of 125050 "''USD''" "'' 0.1299 ''" 12] by (simp add: minor_units_def)
qed


section \<open>The store\<close>

lemma keys_without_colon:
  "PARTY_RE t \<Longrightarrow> CHR '':'' \<notin> set t" "NUMBER_RE t \<Longrightarrow> CHR '':'' \<notin> set t"
  unfolding PARTY_RE_def NUMBER_RE_def
  by (rule notI, drule (1) line_match_chars, simp add: lower_alnum_def char_class_defs)+

lemma normal_document:
  assumes "normalize_document v = Inr d"
  shows "dn_kind d \<in> set DOCUMENT_KINDS" "CHR '':'' \<notin> set (dn_supplier d)" "CHR '':'' \<notin> set (dn_number d)"
    "dn_currency d \<in> set CURRENCIES" "\<not> non_finite (document_json d)"
    "dn_items d \<noteq> [] \<Longrightarrow> line_items_total (dn_items d) = dn_total d"
proof -
  obtain fs where v: "v = JObj fs" using assms by (auto simp: normalize_document_def split: json.splits)
  note n = assms[unfolded v normalize_document_def, simplified, unfolded res_simps]
  have kind: "choice_of x xs t = Inr y \<Longrightarrow> y \<in> set xs" for x xs t and y :: string
    by (auto simp: choice_of_def split: json.splits if_split_asm)
  then show "dn_kind d \<in> set DOCUMENT_KINDS" "dn_currency d \<in> set CURRENCIES"
    using n by (auto split: if_split_asm)
  have "CHR '':'' \<notin> set t" if "party_of x u = Inr t" for x u t
    using that keys_without_colon(1)[of t] by (auto simp: party_of_def split: json.splits if_split_asm)
  then show "CHR '':'' \<notin> set (dn_supplier d)" using n by (auto split: if_split_asm)
  have "CHR '':'' \<notin> set t" if "number_of x = Inr t" for x t
    using that keys_without_colon(2)[of t] by (auto simp: number_of_def split: json.splits if_split_asm)
  then show "CHR '':'' \<notin> set (dn_number d)" using n by (auto split: if_split_asm)
  have bank: "\<not> non_finite x" if "bank_of y = Inr x" for x y
    using that by (cases y rule: truthy.cases) (auto simp: bank_of_def Let_def split: if_split_asm)
  have lines: "\<not> non_finite_list (map line_json xs)" for xs by (induction xs) (auto simp: line_json_def)
  show "\<not> non_finite (document_json d)"
    using n bank lines by (auto simp: document_json_def heading_fields_def split: if_split_asm)
  show "line_items_total (dn_items d) = dn_total d" if "dn_items d \<noteq> []"
    using n that by (auto simp: sums_up_def split: if_split_asm)
qed


lemma colon_split: "a @ CHR '':'' # b = a' @ CHR '':'' # b' \<Longrightarrow> CHR '':'' \<notin> set a \<Longrightarrow> CHR '':'' \<notin> set a' \<Longrightarrow> a = a' \<and> b = b'"
proof (induction a arbitrary: a')
  case Nil
  then show ?case by (cases a') auto
next
  case (Cons c a)
  then show ?case by (cases a') auto
qed

definition plain_key :: "doc_key \<Rightarrow> bool" where
  "plain_key k \<longleftrightarrow> (case k of (kind, supplier, number) \<Rightarrow>
     CHR '':'' \<notin> set kind \<and> CHR '':'' \<notin> set supplier \<and> CHR '':'' \<notin> set number)"

lemma document_id_inj:
  assumes "document_id k = document_id k'" "plain_key k" "plain_key k'"
  shows "k = k'"
proof -
  obtain a b c where k: "k = (a, b, c)" by (rule prod_cases3)
  obtain a' b' c' where k': "k' = (a', b', c')" by (rule prod_cases3)
  have "a @ CHR '':'' # (b @ CHR '':'' # c) = a' @ CHR '':'' # (b' @ CHR '':'' # c')"
    using assms(1) by (simp add: k k' document_id_def)
  from colon_split[OF this] assms(2,3) have "a = a'" "b @ CHR '':'' # c = b' @ CHR '':'' # c'"
    by (simp_all add: k k' plain_key_def)
  with colon_split[of b c b' c'] assms(2,3) show ?thesis by (simp add: k k' plain_key_def)
qed

lemma normal_key: "normalize_document v = Inr d \<Longrightarrow> plain_key (document_key d)"
  using normal_document(1,2,3)[of v d] by (auto simp: plain_key_def document_key_def DOCUMENT_KINDS_def)

lemma drawn_documents [simp]: "documents (drawn s) = documents s" "posting_plans (drawn s) = posting_plans s"
  by (simp_all add: drawn_def)

text \<open>What every row of the store satisfies, and that no two rows are about one document.\<close>

definition stored_key :: "document_row \<Rightarrow> string \<times> doc_key" where
  "stored_key r = (dc_tenant r, document_row_key r)"

definition store_ok :: "db \<Rightarrow> bool" where
  "store_ok s \<longleftrightarrow> distinct (map stored_key (documents s))
     \<and> (\<forall>r \<in> set (documents s). dc_id r = document_id (document_row_key r) \<and> plain_key (document_row_key r))"

interpretation kept_documents: write_once "\<lambda>s k. find_document s (fst k) (snd k)" "\<lambda>_. put_document"
  "\<lambda>k r. stored_key r = k"
proof unfold_locales
  fix s :: db and k j :: "string \<times> doc_key" and v :: document_row
  assume none: "find_document s (fst k) (snd k) = None" and v: "stored_key v = k"
  have "find_document (put_document v s) (fst j) (snd j) = (if stored_key v = j then Some v else None)"
    if "find_document s (fst j) (snd j) = None"
    using that by (auto simp: find_document_def put_document_def find_append stored_key_def)
  moreover have "find_document (put_document v s) (fst j) (snd j) = find_document s (fst j) (snd j)"
    if "find_document s (fst j) (snd j) \<noteq> None"
    using that by (auto simp: find_document_def put_document_def find_append)
  ultimately show "find_document (put_document v s) (fst j) (snd j)
      = (if j = k then Some v else find_document s (fst j) (snd j))"
    using none v by (cases "find_document s (fst j) (snd j)") auto
qed

lemma new_document_key [simp]: "document_row_key (new_document tenant now d) = document_key d"
  "stored_key (new_document tenant now d) = (tenant, document_key d)"
  by (simp_all add: new_document_def document_row_key_def document_key_def stored_key_def)

text \<open>Remembering a document is the write-once write of its row.\<close>

lemma remember_writes:
  assumes "remember_document e now tenant d s = Inr (r, t)"
  shows "t = put_once (\<lambda>s k. find_document s (fst k) (snd k)) (\<lambda>_. put_document)
      ((tenant, document_key d), new_document tenant now d) s"
  using assms by (auto simp: remember_document_def put_once_def res_simps insert_document_def
      split: option.splits if_split_asm)

lemma remember_succeeds:
  assumes ok: "store_ok s" and v: "normalize_document v = Inr d" and act: "require_active e s tenant = Inr ()"
  shows "\<exists>r t. remember_document e now tenant d s = Inr (r, t) \<and> rd_id r = document_id (document_key d)
    \<and> rd_duplicate r = (find_document s tenant (document_key d) \<noteq> None)"
proof (cases "find_document s tenant (document_key d)")
  case None
  have "\<not> (dc_tenant x = tenant \<and> document_row_key x = document_key d)" if "x \<in> set (documents s)" for x
    using None that by (auto simp: find_document_def find_None_mem)
  moreover have "dc_id x = document_id (document_key d) \<Longrightarrow> document_row_key x = document_key d" if "x \<in> set (documents s)" for x
    using that ok normal_key[OF v] document_id_inj[of "document_row_key x" "document_key d"] by (auto simp: store_ok_def)
  ultimately have "insert_document (new_document tenant now d) s = Inr (put_document (new_document tenant now d) s)"
    by (auto simp: insert_document_def new_document_def document_row_key_def document_key_def)
  then show ?thesis using act normal_document(5)[OF v] None by (simp add: remember_document_def encode_def)
next
  case (Some x)
  then have "x \<in> set (documents s) \<and> document_row_key x = document_key d"
    by (auto simp: find_document_def dest!: find_Some_mem)
  then show ?thesis using act Some ok by (simp add: remember_document_def store_ok_def)
qed

lemma remember_ok:
  assumes ok: "store_ok s" and v: "normalize_document v = Inr d" and call: "remember_document e now tenant d s = Inr (r, t)"
  shows "store_ok t"
proof (cases "find_document s tenant (document_key d)")
  case None
  then have t: "documents t = documents s @ [new_document tenant now d]"
    unfolding remember_writes[OF call] by (simp add: put_once_def put_document_def)
  have "stored_key x \<noteq> (tenant, document_key d)" if "x \<in> set (documents s)" for x
    using None that by (auto simp: find_document_def find_None_mem stored_key_def)
  then have "(tenant, document_key d) \<notin> stored_key ` set (documents s)" by (metis image_iff)
  moreover have "dc_id (new_document tenant now d) = document_id (document_key d)" by (simp add: new_document_def)
  ultimately show ?thesis using ok normal_key[OF v] by (simp add: store_ok_def t)
next
  case (Some x)
  then show ?thesis using ok unfolding remember_writes[OF call] by (simp add: put_once_def)
qed

text \<open>
  Everything that happens to the store: documents are remembered by either tool, plans are recorded,
  the rest of the runtime leaves it alone.
\<close>

inductive documents_step :: "db \<Rightarrow> db \<Rightarrow> bool" where
  remembered: "normalize_document v = Inr d \<Longrightarrow> remember_document e now tenant d s = Inr (r, t) \<Longrightarrow> documents_step s t"
| recorded: "record_posting_plan e now tenant document run plan s = Inr (i, t) \<Longrightarrow> documents_step s t"
| elsewhere: "documents t = documents s \<Longrightarrow> documents_step s t"

inductive documents_run :: "db \<Rightarrow> db \<Rightarrow> bool" where
  stay: "documents_run s s"
| onward: "documents_run s t \<Longrightarrow> documents_step t u \<Longrightarrow> documents_run s u"

lemma record_documents: "record_posting_plan e now tenant document run plan s = Inr (i, t) \<Longrightarrow> documents t = documents s"
  by (auto simp: record_posting_plan_def res_simps Let_def)

lemma same_store_ok: "documents t = documents s \<Longrightarrow> store_ok s \<Longrightarrow> store_ok t"
  by (simp add: store_ok_def)

lemma step_store_ok: "documents_step s t \<Longrightarrow> store_ok s \<Longrightarrow> store_ok t"
  by (induction rule: documents_step.induct) (blast intro: remember_ok same_store_ok record_documents)+

lemma find_same_documents: "documents t = documents s \<Longrightarrow> find_document t tenant k = find_document s tenant k"
  by (simp add: find_document_def)

lemma step_keeps:
  assumes "documents_step s t" "find_document s tenant k = Some x"
  shows "find_document t tenant k = Some x"
  using assms(1)
proof cases
  case (remembered v d e now tn r)
  show ?thesis using assms(2) kept_documents.kept[where s = s and j = "(tenant, k)" and v = "new_document tn now d" and k = "(tn, document_key d)" and w = x]
    unfolding remember_writes[OF remembered(2)] by simp
next
  case (recorded e now tn document run plan i)
  then have "documents t = documents s" by (rule record_documents)
  then show ?thesis using assms(2) find_same_documents by metis
next
  case elsewhere
  then show ?thesis using assms(2) find_same_documents by metis
qed

lemma run_store_ok: "documents_run s t \<Longrightarrow> store_ok s \<Longrightarrow> store_ok t"
  by (induction rule: documents_run.induct) (auto intro: step_store_ok)

lemma run_keeps: "documents_run s t \<Longrightarrow> find_document s tenant k = Some x \<Longrightarrow> find_document t tenant k = Some x"
  by (induction rule: documents_run.induct) (auto intro: step_keeps)


text \<open>
  C32: the first copy of a document is kept. Whatever happens later, the row stored under a tenant, kind,
  supplier and number is never replaced or removed, no second row is stored beside it, and remembering
  the same number again, with any amount, succeeds, changes nothing and answers with the first copy.
\<close>

theorem documents_written_once:
  assumes "store_ok s" and "documents_run s t"
    and "normalize_document v = Inr d" and "require_active e t tenant = Inr ()"
  shows "distinct (map stored_key (documents t))
    \<and> (\<forall>k x. find_document s tenant k = Some x \<longrightarrow> find_document t tenant k = Some x)
    \<and> (\<exists>r u. remember_document e now tenant d t = Inr (r, u)
        \<and> (\<forall>x. find_document t tenant (document_key d) = Some x \<longrightarrow>
              u = t \<and> rd_duplicate r \<and> rd_id r = dc_id x \<and> rd_same_amount r = (dc_total x = dn_total d)))"
proof -
  have ok: "store_ok t" by (rule run_store_ok[OF assms(2,1)])
  obtain r u where call: "remember_document e now tenant d t = Inr (r, u)"
    using remember_succeeds[OF ok assms(3,4)] by blast
  have "u = t \<and> rd_duplicate r \<and> rd_id r = dc_id x \<and> rd_same_amount r = (dc_total x = dn_total d)"
    if "find_document t tenant (document_key d) = Some x" for x
    using call that by (auto simp: remember_document_def res_simps)
  then show ?thesis using call run_keeps[OF assms(2)] ok unfolding store_ok_def by blast
qed

definition demo_invoice :: "json \<Rightarrow> json" where
  "demo_invoice amount = JObj [(''kind'', JStr ''invoice''), (''supplier'', JStr ''acme''), (''number'', JStr ''A-1''),
     (''doc_date'', JStr ''2026-01-05''), (''currency'', JStr ''USD''), (''total'', amount)]"

definition the_document :: "document res \<Rightarrow> document" where
  "the_document r = (case r of Inr d \<Rightarrow> d | Inl _ \<Rightarrow> undefined)"

definition demo_document :: "json \<Rightarrow> document" where
  "demo_document amount = the_document (normalize_document (demo_invoice amount))"

definition documents_1 :: db where
  "documents_1 = ok_state (remember_document demo_env 10 ''t'' (demo_document (JStr ''1200.50'')) empty_db)"

lemma documents_demo_ok:
  "is_ok (normalize_document (demo_invoice (JStr ''1200.50'')))"
  "is_ok (normalize_document (demo_invoice (JStr ''9200'')))"
  "is_ok (remember_document demo_env 10 ''t'' (demo_document (JStr ''1200.50'')) empty_db)"
  "is_ok (require_active demo_env documents_1 ''t'')"
  "find_document documents_1 ''t'' (document_key (demo_document (JStr ''9200''))) \<noteq> None"
  by code_simp+

lemma demo_normal: "is_ok (normalize_document (demo_invoice a)) \<Longrightarrow> normalize_document (demo_invoice a) = Inr (demo_document a)"
  by (auto simp: demo_document_def the_document_def is_ok_def split: sum.splits)

lemma documents_demo_run: "documents_run empty_db documents_1"
proof -
  obtain r where "remember_document demo_env 10 ''t'' (demo_document (JStr ''1200.50'')) empty_db = Inr (r, documents_1)"
    using ok_stateI[OF documents_demo_ok(3)] unfolding documents_1_def by (rule exE)
  from documents_step.remembered[OF demo_normal[OF documents_demo_ok(1)] this]
  show ?thesis by (rule documents_run.onward[OF documents_run.stay])
qed

lemma documents_written_once_witness:
  "\<exists>r. remember_document demo_env 20 ''t'' (demo_document (JStr ''9200'')) documents_1 = Inr (r, documents_1) \<and> rd_duplicate r"
proof -
  have start: "store_ok empty_db" by (simp add: store_ok_def empty_db_def)
  have active: "require_active demo_env documents_1 ''t'' = Inr ()"
    using documents_demo_ok(4) by (auto simp: is_ok_def split: sum.splits)
  obtain x where "find_document documents_1 ''t'' (document_key (demo_document (JStr ''9200''))) = Some x"
    using documents_demo_ok(5) by blast
  with documents_written_once[OF start documents_demo_run demo_normal[OF documents_demo_ok(2)] active, of 20]
  show ?thesis by blast
qed

section \<open>The three-way match\<close>

definition absent :: "json \<Rightarrow> bool" where
  "absent v \<longleftrightarrow> v = JNull \<or> v = JObj []"

definition agrees :: "document \<Rightarrow> int \<Rightarrow> json \<Rightarrow> bool" where
  "agrees d n v \<longleftrightarrow> (case normalize_document v of
      Inl _ \<Rightarrow> False
    | Inr x \<Rightarrow> dn_currency x = dn_currency d \<and> \<bar>dn_total d - dn_total x\<bar> \<le> n)"

lemma compare_agrees: "normalize_document v = Inr x \<Longrightarrow> mk_ok (compare_total d n l x) \<longleftrightarrow> agrees d n v"
  by (simp add: compare_total_def agrees_def Let_def)

lemma absent_agrees: "absent v \<Longrightarrow> \<not> agrees d n v"
  by (auto simp: absent_def agrees_def normalize_document_def unknown_keys_def jkeys_def jget_def choice_of_def)

lemma counterpart_cases:
  assumes "counterpart_check d n (l, v) = Inr c"
  obtains "absent v" "c = Inl l" | x where "\<not> absent v" "normalize_document v = Inr x" "c = Inr (compare_total d n l x)"
  using assms by (auto simp: counterpart_check_def absent_def res_simps split: if_split_asm)

lemma match_sides:
  assumes "three_way_match v po dn (JInt n) = Inr m" "normalize_document v = Inr d"
  obtains a b where "counterpart_check d n (''purchase_order'', po) = Inr a"
    "counterpart_check d n (''delivery_note'', dn) = Inr b"
    "mr_status m = match_outcome (labels_of [a, b]) (checks_of [a, b])" "mr_missing m = labels_of [a, b]"
  using assms by (auto simp: three_way_match_def res_simps tolerance_arg_def Let_def split: if_split_asm)

text \<open>
  C33: the match says what it found. The invoice is matched exactly when both counterparts are present,
  in its currency and within the tolerance; it is incomplete exactly when both are absent, partial when
  the one present agrees, and a mismatch exactly when a counterpart that is present disagrees; absence
  is never reported as disagreement.
\<close>

theorem match_is_exact:
  assumes "three_way_match v po dn tolerance = Inr m" and "normalize_document v = Inr d"
    and "tolerance = JInt n"
  shows "(mr_status m = Matched \<longleftrightarrow> agrees d n po \<and> agrees d n dn)
    \<and> (mr_status m = Incomplete \<longleftrightarrow> absent po \<and> absent dn)
    \<and> (mr_status m = PartialMatch \<longleftrightarrow> absent po \<and> agrees d n dn \<or> agrees d n po \<and> absent dn)
    \<and> (mr_status m = Mismatch \<longleftrightarrow> \<not> absent po \<and> \<not> agrees d n po \<or> \<not> absent dn \<and> \<not> agrees d n dn)
    \<and> (''purchase_order'' \<in> set (mr_missing m) \<longleftrightarrow> absent po) \<and> (''delivery_note'' \<in> set (mr_missing m) \<longleftrightarrow> absent dn)"
proof -
  obtain a b where a: "counterpart_check d n (''purchase_order'', po) = Inr a"
    and b: "counterpart_check d n (''delivery_note'', dn) = Inr b"
    and m: "mr_status m = match_outcome (labels_of [a, b]) (checks_of [a, b])" "mr_missing m = labels_of [a, b]"
    using assms(1)[unfolded assms(3)] assms(2) by (rule match_sides)
  show ?thesis
    using a b unfolding m
    by (elim counterpart_cases)
      (auto simp: labels_of_def checks_of_def match_outcome_def compare_agrees absent_agrees)
qed

lemma match_is_exact_witness:
  "\<exists>m. three_way_match (demo_invoice (JStr ''1200.50'')) (demo_invoice (JStr ''1200.51'')) JNull (JInt 1) = Inr m
    \<and> mr_status m = PartialMatch"
proof -
  have "is_ok (three_way_match (demo_invoice (JStr ''1200.50'')) (demo_invoice (JStr ''1200.51'')) JNull (JInt 1))"
    "agrees (demo_document (JStr ''1200.50'')) 1 (demo_invoice (JStr ''1200.51''))" by code_simp+
  then obtain m where m: "three_way_match (demo_invoice (JStr ''1200.50'')) (demo_invoice (JStr ''1200.51'')) JNull (JInt 1) = Inr m"
    and g: "agrees (demo_document (JStr ''1200.50'')) 1 (demo_invoice (JStr ''1200.51''))"
    by (auto simp: is_ok_def split: sum.splits)
  from match_is_exact[OF m demo_normal[OF documents_demo_ok(1)] refl] g
  show ?thesis using m by (simp add: absent_def)
qed


section \<open>Signals\<close>

text \<open>
  The median is a value between the two middle ones: at least half of the amounts are not above it and
  at least half are not below it.
\<close>

lemma sorted_middle:
  assumes "sorted xs" "i < length xs"
  shows "Suc i \<le> length (filter (\<lambda>x. x \<le> xs ! i) xs)" "length xs - i \<le> length (filter (\<lambda>x. xs ! i \<le> x) xs)"
proof -
  have "filter (\<lambda>x. x \<le> xs ! i) (take (Suc i) xs) = take (Suc i) xs"
    using assms by (auto simp: filter_id_conv in_set_conv_nth less_Suc_eq_le sorted_nth_mono)
  then have "length (filter (\<lambda>x. x \<le> xs ! i) (take (Suc i) xs)) = Suc i" using assms(2) by simp
  moreover have "length (filter (\<lambda>x. x \<le> xs ! i) (take (Suc i) xs)) \<le> length (filter (\<lambda>x. x \<le> xs ! i) xs)"
    by (metis append_take_drop_id filter_append length_append le_add1)
  ultimately show "Suc i \<le> length (filter (\<lambda>x. x \<le> xs ! i) xs)" by simp
  have "filter (\<lambda>x. xs ! i \<le> x) (drop i xs) = drop i xs"
    using assms by (auto simp: filter_id_conv in_set_conv_nth sorted_nth_mono)
  then have "length (filter (\<lambda>x. xs ! i \<le> x) (drop i xs)) = length xs - i" by simp
  moreover have "length (filter (\<lambda>x. xs ! i \<le> x) (drop i xs)) \<le> length (filter (\<lambda>x. xs ! i \<le> x) xs)"
    by (metis append_take_drop_id filter_append length_append le_add2)
  ultimately show "length xs - i \<le> length (filter (\<lambda>x. xs ! i \<le> x) xs)" by simp
qed

lemma filter_sort_length: "length (filter P (sort xs)) = length (filter P xs)"
  by (metis filter_sort length_sort sort_key_def)

lemma filter_implies_length: "(\<And>x. P x \<Longrightarrow> Q x) \<Longrightarrow> length (filter P xs) \<le> length (filter Q xs)"
  by (induction xs) auto

lemma median_halves:
  assumes "xs \<noteq> []"
  shows "length xs \<le> 2 * length (filter (\<lambda>x. x \<le> median xs) xs)"
    "length xs \<le> 2 * length (filter (\<lambda>x. median xs \<le> x) xs)"
proof -
  let ?o = "sort xs" and ?m = "length xs div 2"
  have n: "0 < length xs" using assms by simp
  have s: "sorted ?o" by simp
  obtain a b where a: "a < length xs" "?o ! a \<le> median xs" "length xs \<le> 2 * Suc a"
    and b: "b < length xs" "median xs \<le> ?o ! b" "length xs \<le> 2 * (length xs - b)"
  proof (cases "odd (length xs)")
    case True
    then have "?m < length xs" "length xs \<le> 2 * Suc ?m" "length xs \<le> 2 * (length xs - ?m)" by presburger+
    with that[of ?m ?m] True show ?thesis by (simp add: median_def)
  next
    case False
    then have i: "?m - 1 < length xs" "?m < length xs" "length xs \<le> 2 * Suc (?m - 1)" "length xs \<le> 2 * (length xs - ?m)"
      using n by presburger+
    have "?o ! (?m - 1) \<le> ?o ! ?m" using s i by (intro sorted_nth_mono) auto
    moreover have "median xs = (?o ! (?m - 1) + ?o ! ?m) div 2" using False by (simp add: median_def Let_def)
    ultimately have "?o ! (?m - 1) \<le> median xs" "median xs \<le> ?o ! ?m" by presburger+
    with that i show ?thesis by blast
  qed
  have "length xs \<le> 2 * length (filter (\<lambda>x. x \<le> ?o ! a) ?o)"
    using sorted_middle(1)[OF s, of a] a by simp
  also have "length (filter (\<lambda>x. x \<le> ?o ! a) ?o) \<le> length (filter (\<lambda>x. x \<le> median xs) xs)"
    unfolding filter_sort_length using a(2) by (intro filter_implies_length) simp
  finally show "length xs \<le> 2 * length (filter (\<lambda>x. x \<le> median xs) xs)" by simp
  have "length xs \<le> 2 * length (filter (\<lambda>x. ?o ! b \<le> x) ?o)"
    using sorted_middle(2)[OF s, of b] b by simp
  also have "length (filter (\<lambda>x. ?o ! b \<le> x) ?o) \<le> length (filter (\<lambda>x. median xs \<le> x) xs)"
    unfolding filter_sort_length using b(2) by (intro filter_implies_length) simp
  finally show "length xs \<le> 2 * length (filter (\<lambda>x. median xs \<le> x) xs)" by simp
qed







section \<open>Plans\<close>











section \<open>What modelling showed\<close>

text \<open>A counterpart is missing and the plan needs attention, and is recommended for approval all the same.\<close>

lemma partial_match_is_ready:
  "mr_status (pp_match p) = PartialMatch \<Longrightarrow> pp_found p = None \<Longrightarrow> \<not> material_signals p \<Longrightarrow>
     needs_attention p \<and> recommendation p = ''ready_for_approval''"
  by (simp add: needs_attention_def recommendation_def)

text \<open>A document parsed first is its own duplicate when its plan is made.\<close>

lemma parsed_document_is_held:
  assumes "normalize_document v = Inr d" "remember_document e now tenant d s = Inr (r, t)"
    and "make_plan t tenant v tolerance po dn ratio = Inr p"
  shows "recommendation p = ''hold_for_duplicate_review''"
proof -
  have "find_document t tenant (document_key d) \<noteq> None"
    using kept_documents.put_once_look[where s = s and k = "(tenant, document_key d)" and j = "(tenant, document_key d)"
        and v = "new_document tenant now d"]
    unfolding remember_writes[OF assms(2)] by (auto split: if_split_asm)
  then show ?thesis using assms(1,3) by (auto simp: make_plan_def duplicate_of_def res_simps recommendation_def)
qed

text \<open>A step argument widens the operator's tolerance.\<close>

lemma tolerance_argument_wins:
  "payload loads args ''fields'' True = Inr v \<Longrightarrow> payload loads args ''purchase_order'' False = Inr po \<Longrightarrow>
   payload loads args ''delivery_note'' False = Inr dn \<Longrightarrow> documents_config config = Inr c \<Longrightarrow>
   map_of args ''tolerance_minor'' = Some (JInt n) \<Longrightarrow> 0 \<le> n \<Longrightarrow>
     plan_request loads config tenant args s = make_plan s tenant v (JInt n) po dn (JInt (ds_ratio c))"
  by (simp add: plan_request_def jget_or_def tolerance_arg_def)

text \<open>A final newline is accepted in a number, and makes another document of it.\<close>

lemma newline_makes_another_number:
  "number_of (JStr ''A-1'') = Inr ''A-1''" "number_of (JStr (''A-1'' @ [CHR 0x0A])) = Inr (''A-1'' @ [CHR 0x0A])"
  by code_simp+

text \<open>Both the amount and the currency changed, and the report says that the number did not.\<close>

lemma changed_currency_hides_amount:
  "\<not> same_currency r d \<Longrightarrow> changed_amount r d = JObj [(''from'', JStr (format_amount (dc_total r) (dc_currency r))),
     (''to'', JStr (format_amount (dc_total r) (dc_currency r))),
     (''note'', JStr ''the number is unchanged; the currency is what differs'')]"
  by (simp add: changed_amount_def Let_def)

end
