(* ===== verification/Outreach_Props.thy ===== *)
theory Outreach_Props
  imports Outreach Run_System Demo_Env
begin

text \<open>
  What the re-engagement loop promises whatever its workers do: how often and how soon a lead may be
  contacted, under whose authority a run is opened, and that an unreadable feed is not an empty one.
\<close>

section \<open>Policies stay within their bounds\<close>

definition outreach_ok :: "outreach_row \<Rightarrow> bool" where
  "outreach_ok p \<longleftrightarrow> 1 \<le> rp_max_attempts p \<and> rp_max_attempts p \<le> 10 \<and> 300 \<le> rp_cooldown p
     \<and> 1 \<le> rp_per_cycle p \<and> rp_per_cycle p \<le> 20 \<and> 300 \<le> rp_interval p
     \<and> 1 \<le> rp_max_steps p \<and> rp_max_steps p \<le> 12 \<and> 60 \<le> rp_max_seconds p \<and> rp_max_seconds p \<le> 86400"

lemma bounded_knob_Inr:
  "bounded_knob limits name v = Inr n \<Longrightarrow> map_of limits name = Some (low, high) \<Longrightarrow> low \<le> n \<and> n \<le> high"
  by (auto simp: bounded_knob_def Let_def split: json.splits if_split_asm)

lemma outreach_knobs:
  "outreach_knob d ''max_attempts'' = Inr n \<Longrightarrow> 1 \<le> n \<and> n \<le> 10"
  "outreach_knob d ''cooldown_seconds'' = Inr n \<Longrightarrow> 300 \<le> n \<and> n \<le> 2592000"
  "outreach_knob d ''max_per_cycle'' = Inr n \<Longrightarrow> 1 \<le> n \<and> n \<le> 20"
  "outreach_knob d ''interval_seconds'' = Inr n \<Longrightarrow> 300 \<le> n \<and> n \<le> 604800"
  "outreach_knob d ''max_steps'' = Inr n \<Longrightarrow> 1 \<le> n \<and> n \<le> 12"
  "outreach_knob d ''max_seconds'' = Inr n \<Longrightarrow> 60 \<le> n \<and> n \<le> 86400"
  unfolding outreach_knob_def by (erule bounded_knob_Inr, simp add: OUTREACH_LIMITS_def)+

lemma checked_outreach_ok:
  assumes "checked_outreach tenant q = Inr r"
  shows "outreach_ok r"
proof (cases "oq_enabled q")
  case (JBool enabled)
  with assms show ?thesis unfolding checked_outreach_def
    by (auto simp: res_simps outreach_ok_def dest: outreach_knobs split: if_split_asm)
qed (use assms in \<open>auto simp: checked_outreach_def res_simps split: if_split_asm\<close>)

definition outreaches_ok :: "db \<Rightarrow> bool" where
  "outreaches_ok s \<longleftrightarrow> (\<forall>p \<in> set (outreaches s). outreach_ok p)"

lemma audit_outreach [simp]:
  "outreaches (audit now t k a u d s) = outreaches s" "leads (audit now t k a u d s) = leads s"
  by (simp_all add: audit_def)

lemma outreaches_ok_upd:
  "outreaches_ok s \<Longrightarrow> (\<And>p. outreach_ok p \<Longrightarrow> outreach_ok (f p)) \<Longrightarrow> outreaches_ok (set_outreach tenant i f s)"
  by (auto simp: outreaches_ok_def set_outreach_def table_simps)

lemma configure_ok:
  assumes "configure_outreach e now tenant q s = Inr (row, t)" "outreaches_ok s"
  shows "outreaches_ok t" "leads t = leads s"
proof -
  obtain r where r: "checked_outreach tenant q = Inr r" and t: "configure_outreach_tx e now r s = Inr t"
    using assms(1) by (auto simp: configure_outreach_def res_simps split: if_split_asm)
  let ?r = "r\<lparr>rp_next := now + rp_interval r\<rparr>"
  have "outreach_ok ?r" using checked_outreach_ok[OF r] by (simp add: outreach_ok_def)
  moreover from this have "outreach_ok (?r\<lparr>rp_last := k\<rparr>)" for k by (simp add: outreach_ok_def)
  ultimately have "outreaches_ok (put_outreach ?r s)"
    using assms(2) by (auto simp: put_outreach_def outreaches_ok_def set_outreach_def table_simps split: option.splits)
  then show "outreaches_ok t" using t by (auto simp: configure_outreach_tx_def res_simps outreaches_ok_def)
  show "leads t = leads s"
    using t by (auto simp: configure_outreach_tx_def res_simps put_outreach_def set_outreach_def split: option.splits)
qed

section \<open>Workers\<close>

text \<open>
  The policies some worker has read and the claims that were granted, the latest first. A worker may
  be late with anything it does, or never do it.
\<close>

record lead_claim =
  lc_key :: customer_key
  lc_policy :: outreach_row
  lc_attempt :: int
  lc_time :: int

record outreach_world =
  uw_db :: db
  uw_read :: "outreach_row list"
  uw_claims :: "lead_claim list"

inductive outreach_step :: "env \<Rightarrow> outreach_world \<Rightarrow> outreach_world \<Rightarrow> bool" for e where
  configured: "configure_outreach e now tenant q (uw_db w) = Inr (row, t) \<Longrightarrow> outreach_step e w (w\<lparr>uw_db := t\<rparr>)"
| due: "outreach_due now tenant (uw_db w) = Some p \<Longrightarrow> outreach_step e w (w\<lparr>uw_read := p # uw_read w\<rparr>)"
| granted: "p \<in> set (uw_read w) \<Longrightarrow> claim_lead tenant p lead now (uw_db w) = (Some n, t) \<Longrightarrow>
    outreach_step e w (w\<lparr>uw_db := t, uw_claims :=
      \<lparr>lc_key = (tenant, rp_connection p, lead), lc_policy = p, lc_attempt = n, lc_time = now\<rparr> # uw_claims w\<rparr>)"
| refused: "p \<in> set (uw_read w) \<Longrightarrow> claim_lead tenant p lead now (uw_db w) = (None, t) \<Longrightarrow>
    outreach_step e w (w\<lparr>uw_db := t\<rparr>)"
| opened: "p \<in> set (uw_read w) \<Longrightarrow> open_outreach e now tenant p lead n (uw_db w) = Inr (run, t) \<Longrightarrow>
    outreach_step e w (w\<lparr>uw_db := t\<rparr>)"
| marked: "outreach_step e w (w\<lparr>uw_db := mark_lead now tenant p lead st run error (uw_db w)\<rparr>)"
| synced: "outreach_step e w (w\<lparr>uw_db := snd (sync_leads now tenant policy (uw_db w))\<rparr>)"
| advanced: "outreach_step e w (w\<lparr>uw_db := advance_outreach now tenant p (uw_db w)\<rparr>)"
| disabled: "outreach_step e w (w\<lparr>uw_db := disable_outreach now tenant p reason (uw_db w)\<rparr>)"
| elsewhere: "leads t = leads (uw_db w) \<Longrightarrow> outreaches t = outreaches (uw_db w) \<Longrightarrow> outreach_step e w (w\<lparr>uw_db := t\<rparr>)"

inductive outreach_run :: "env \<Rightarrow> outreach_world \<Rightarrow> outreach_world \<Rightarrow> bool" for e where
  stay: "outreach_run e w w"
| onward: "outreach_run e w v \<Longrightarrow> outreach_step e v u \<Longrightarrow> outreach_run e w u"

definition outreach_start :: "outreach_world \<Rightarrow> bool" where
  "outreach_start w \<longleftrightarrow> leads (uw_db w) = [] \<and> outreaches (uw_db w) = [] \<and> uw_read w = [] \<and> uw_claims w = []"

text \<open>
  The claims of one lead, the latest first: numbered without a gap, each within the cap of the policy
  that made it and each a cooldown of that policy after the one before.
\<close>

fun contact_chain :: "lead_claim list \<Rightarrow> bool" where
  "contact_chain [] = True"
| "contact_chain [c] = (lc_attempt c = 1 \<and> outreach_ok (lc_policy c))"
| "contact_chain (c # d # cs) = (lc_attempt c = lc_attempt d + 1
     \<and> lc_attempt c \<le> rp_max_attempts (lc_policy c) \<and> outreach_ok (lc_policy c)
     \<and> lc_time d + rp_cooldown (lc_policy c) \<le> lc_time c \<and> contact_chain (d # cs))"

lemma chain_length: "contact_chain (c # cs) \<Longrightarrow> lc_attempt c = int (length (c # cs)) \<and> lc_attempt c \<le> 10"
  by (induction cs arbitrary: c) (auto simp: outreach_ok_def)

definition claims_of :: "outreach_world \<Rightarrow> customer_key \<Rightarrow> lead_claim list" where
  "claims_of w k = filter (\<lambda>c. lc_key c = k) (uw_claims w)"

definition ledger_of :: "outreach_world \<Rightarrow> customer_key \<Rightarrow> bool" where
  "ledger_of w k \<longleftrightarrow> contact_chain (claims_of w k) \<and> (case (find_lead (uw_db w) k, claims_of w k) of
      (None, []) \<Rightarrow> True
    | (Some l, c # cs) \<Rightarrow> rl_attempt l = lc_attempt c \<and> rl_last l = lc_time c
    | _ \<Rightarrow> False)"

definition outreach_good :: "outreach_world \<Rightarrow> bool" where
  "outreach_good w \<longleftrightarrow> outreaches_ok (uw_db w) \<and> (\<forall>p \<in> set (uw_read w). outreach_ok p)
     \<and> (\<forall>k. ledger_of w k)"

lemma find_set_lead:
  assumes "\<And>l. lead_key (f l) = lead_key l"
  shows "find_lead (set_lead P f s) k = map_option (\<lambda>l. if P l then f l else l) (find_lead s k)"
  unfolding find_lead_def set_lead_def
  using find_upd_where[of P "\<lambda>l. lead_key l = k" f "leads s"] assms by (simp split: option.splits)

text \<open>Updates that leave the key, the attempt and the time of the last attempt as they are.\<close>

lemma quiet_update:
  assumes "\<And>l. lead_key (f l) = lead_key l \<and> rl_attempt (f l) = rl_attempt l \<and> rl_last (f l) = rl_last l"
  shows "ledger_of (w\<lparr>uw_db := set_lead P f (uw_db w)\<rparr>) k = ledger_of w k"
  using assms by (auto simp: ledger_of_def claims_of_def find_set_lead split: option.splits list.splits)

lemma same_leads: "leads t = leads (uw_db w) \<Longrightarrow> ledger_of (w\<lparr>uw_db := t\<rparr>) k = ledger_of w k"
  by (simp add: ledger_of_def claims_of_def find_lead_def)


lemma find_lead_key: "find_lead s k = Some l \<Longrightarrow> lead_key l = k"
  by (auto simp: find_lead_def dest!: find_Some_mem)

text \<open>What a granted claim found, and what it leaves.\<close>

lemma claim_granted:
  assumes "claim_lead tenant p lead now s = (Some n, t)"
  defines "k \<equiv> (tenant, rp_connection p, lead)"
  shows "\<exists>l. find_lead t k = Some l \<and> rl_attempt l = n \<and> rl_last l = now"
    and "j \<noteq> k \<Longrightarrow> find_lead t j = find_lead s j"
    and "find_lead s k = None \<and> n = 1 \<or> (\<exists>row. find_lead s k = Some row \<and> rl_status row = LdQueued
       \<and> n = rl_attempt row + 1 \<and> n \<le> rp_max_attempts p \<and> rl_last row + rp_cooldown p \<le> now)"
    and "outreaches t = outreaches s"
proof -
  have "(\<exists>l. find_lead t k = Some l \<and> rl_attempt l = n \<and> rl_last l = now)
      \<and> (j \<noteq> k \<longrightarrow> find_lead t j = find_lead s j)
      \<and> (find_lead s k = None \<and> n = 1 \<or> (\<exists>row. find_lead s k = Some row \<and> rl_status row = LdQueued
       \<and> n = rl_attempt row + 1 \<and> n \<le> rp_max_attempts p \<and> rl_last row + rp_cooldown p \<le> now))
      \<and> outreaches t = outreaches s"
  proof (cases "find_lead s k")
    case None
    then have t: "t = s\<lparr>leads := leads s @ [new_lead tenant p lead now]\<rparr>" and n: "n = 1"
      using assms by (auto simp: claim_lead_def Let_def)
    have key: "lead_key (new_lead tenant p lead now) = k" by (simp add: new_lead_def lead_key_def k_def)
    have "find_lead t i = (case find_lead s i of Some l \<Rightarrow> Some l | None \<Rightarrow> if i = k then Some (new_lead tenant p lead now) else None)" for i
      using key by (auto simp: find_lead_def t find_append split: option.splits)
    then show ?thesis using None n by (auto simp: t new_lead_def split: option.splits)
  next
    case (Some row)
    let ?P = "\<lambda>l. lead_key l = k \<and> rl_last l = rl_last row"
    let ?f = "\<lambda>l. l\<lparr>rl_attempt := rl_attempt l + 1, rl_status := LdQueued, rl_last := now,
              rl_updated := now, rl_run := [], rl_error := [], rl_policy := rp_id p\<rparr>"
    have t: "t = set_lead ?P ?f s" and row: "rl_status row = LdQueued" "n = rl_attempt row + 1"
      "rl_attempt row < rp_max_attempts p" "rl_last row + rp_cooldown p \<le> now"
      using assms(1) Some unfolding k_def by (auto simp: claim_lead_def Let_def split: if_split_asm)
    have f: "lead_key (?f l) = lead_key l" for l by (simp add: lead_key_def)
    have "find_lead t i = map_option (\<lambda>l. if ?P l then ?f l else l) (find_lead s i)" for i
      unfolding t by (rule find_set_lead) (rule f)
    moreover have "?P row" using find_lead_key[OF Some] by simp
    moreover have "\<not> ?P l" if "find_lead s j = Some l" "j \<noteq> k" for l using find_lead_key[OF that(1)] that(2) by simp
    ultimately show ?thesis using Some row by (cases "find_lead s j") (auto simp: t set_lead_def)
  qed
  then show "\<exists>l. find_lead t k = Some l \<and> rl_attempt l = n \<and> rl_last l = now"
    "j \<noteq> k \<Longrightarrow> find_lead t j = find_lead s j"
    "find_lead s k = None \<and> n = 1 \<or> (\<exists>row. find_lead s k = Some row \<and> rl_status row = LdQueued
       \<and> n = rl_attempt row + 1 \<and> n \<le> rp_max_attempts p \<and> rl_last row + rp_cooldown p \<le> now)"
    "outreaches t = outreaches s" by blast+
qed

lemma filter_row_single:
  assumes "distinct (map lead_key (leads s))" "find_lead s k = Some row"
  shows "filter (\<lambda>l. lead_key l = k \<and> rl_last l = rl_last row) (leads s) = [row]"
proof -
  have row: "row \<in> set (leads s)" "lead_key row = k"
    using assms(2) by (auto simp: find_lead_def dest!: find_Some_mem)
  have "filter (\<lambda>l. lead_key l = lead_key row) (leads s) = [row]"
    by (rule filter_key_single[OF assms(1) row(1)])
  then have "filter (\<lambda>l. rl_last l = rl_last row) (filter (\<lambda>l. lead_key l = k) (leads s)) = [row]"
    using row(2) by simp
  then show ?thesis by (simp add: conj_commute)
qed

lemma claim_refused:
  assumes "claim_lead tenant p lead now s = (None, t)" "distinct (map lead_key (leads s))"
  shows "t = s \<or> t = set_lead (\<lambda>l. lead_key l = (tenant, rp_connection p, lead))
    (\<lambda>l. l\<lparr>rl_status := LdExhausted, rl_updated := now\<rparr>) s"
proof (cases "find_lead s (tenant, rp_connection p, lead)")
  case None
  then show ?thesis using assms by (simp add: claim_lead_def Let_def)
next
  case (Some row)
  then show ?thesis using assms(1) filter_row_single[OF assms(2) Some]
    by (auto simp: claim_lead_def Let_def split: if_split_asm)
qed

section \<open>How often a lead is contacted\<close>

lemma keys_set_lead:
  "(\<And>l. lead_key (f l) = lead_key l) \<Longrightarrow> map lead_key (leads (set_lead P f s)) = map lead_key (leads s)"
  unfolding set_lead_def by (simp add: map_upd_where)

definition lead_keys_ok :: "db \<Rightarrow> bool" where
  "lead_keys_ok s \<longleftrightarrow> distinct (map lead_key (leads s))"

lemma claim_keys:
  assumes "lead_keys_ok s"
  shows "lead_keys_ok (snd (claim_lead tenant p lead now s))"
proof (cases "find_lead s (tenant, rp_connection p, lead)")
  case None
  then have "(tenant, rp_connection p, lead) \<notin> lead_key ` set (leads s)"
    by (auto simp: find_lead_def find_None_mem)
  then show ?thesis using None assms by (simp add: claim_lead_def Let_def lead_keys_ok_def new_lead_def lead_key_def)
next
  case (Some row)
  then show ?thesis using assms
    by (auto simp: claim_lead_def Let_def lead_keys_ok_def keys_set_lead lead_key_def)
qed

lemma mark_keys: "lead_key (l\<lparr>rl_status := st, rl_run := run, rl_error := x, rl_updated := now\<rparr>) = lead_key l"
  by (simp add: lead_key_def)

lemma granted_ledger:
  assumes w: "\<forall>k. ledger_of w k" and p: "outreach_ok p"
    and call: "claim_lead tenant p lead now (uw_db w) = (Some n, t)"
  shows "ledger_of (w\<lparr>uw_db := t, uw_claims := \<lparr>lc_key = (tenant, rp_connection p, lead), lc_policy = p,
      lc_attempt = n, lc_time = now\<rparr> # uw_claims w\<rparr>) k"
proof -
  let ?k = "(tenant, rp_connection p, lead)" and ?w = "w\<lparr>uw_db := t, uw_claims := \<lparr>lc_key = (tenant, rp_connection p, lead),
      lc_policy = p, lc_attempt = n, lc_time = now\<rparr> # uw_claims w\<rparr>"
  note c = claim_granted[OF call]
  show ?thesis
  proof (cases "k = ?k")
    case False
    then have "claims_of ?w k = claims_of w k" by (auto simp: claims_of_def)
    moreover have "ledger_of w k" using w by blast
    ultimately show ?thesis using c(2)[OF False] by (simp add: ledger_of_def)
  next
    case True
    obtain l where l: "find_lead t ?k = Some l" "rl_attempt l = n" "rl_last l = now" using c(1) by blast
    have cl: "claims_of ?w ?k = \<lparr>lc_key = ?k, lc_policy = p, lc_attempt = n, lc_time = now\<rparr> # claims_of w ?k"
      by (simp add: claims_of_def)
    have old: "ledger_of w ?k" using w by blast
    have "contact_chain (claims_of ?w ?k)"
    proof (cases "find_lead (uw_db w) ?k")
      case None
      then have "claims_of w ?k = []" "n = 1" using old c(3) by (auto simp: ledger_of_def split: list.splits)
      then show ?thesis using p unfolding cl by simp
    next
      case (Some row)
      then obtain d ds where d: "claims_of w ?k = d # ds" "rl_attempt row = lc_attempt d" "rl_last row = lc_time d"
        using old by (auto simp: ledger_of_def split: list.splits)
      then show ?thesis using old p c(3) Some unfolding cl by (auto simp: ledger_of_def)
    qed
    then show ?thesis using l True by (simp add: ledger_of_def cl)
  qed
qed

lemma open_leads:
  assumes "open_outreach e now tenant p lead n s = Inr (run, t)"
  shows "leads t = leads s" "outreaches t = outreaches s"
  using assms by (auto simp: open_outreach_def create_run_def create_run_tx_def res_simps Let_def drawn_def
      split: if_split_asm option.splits)

lemma outreach_due_row:
  assumes "outreach_due now tenant s = Some p"
  shows "p \<in> set (outreaches s) \<and> rp_tenant p = tenant \<and> rp_enabled p \<and> rp_next p \<le> now"
proof -
  let ?rows = "sort_key rp_next (sort_key rp_id
       (filter (\<lambda>r. rp_tenant r = tenant \<and> rp_enabled r \<and> rp_next r \<le> now) (outreaches s)))"
  obtain ps where ps: "?rows = p # ps" using assms by (auto simp: outreach_due_def split: list.splits)
  have "p \<in> set ?rows" unfolding ps by simp
  then show ?thesis by simp
qed

lemma outreach_step_good:
  assumes step: "outreach_step e w v" and good: "outreach_good w" "lead_keys_ok (uw_db w)"
  shows "outreach_good v \<and> lead_keys_ok (uw_db v)"
proof -
  have base: "outreaches_ok (uw_db w)" "\<forall>p \<in> set (uw_read w). outreach_ok p" "\<forall>k. ledger_of w k"
    using good(1) by (auto simp: outreach_good_def)
  have quiet: "outreach_good (w\<lparr>uw_db := t\<rparr>)" if "\<And>k. ledger_of (w\<lparr>uw_db := t\<rparr>) k = ledger_of w k" "outreaches_ok t" for t
    using that base by (simp add: outreach_good_def)
  show ?thesis using step
  proof cases
    case (configured now tenant q row t)
    note c = configure_ok[OF configured(2) base(1)]
    have "outreach_good v" unfolding configured(1) by (rule quiet[OF same_leads[OF c(2)] c(1)])
    then show ?thesis using c(2) good(2) by (simp add: configured lead_keys_ok_def)
  next
    case (due now tenant p)
    have "p \<in> set (outreaches (uw_db w))"
      using outreach_due_row[OF due(2)] by simp
    then have "outreach_ok p" using base(1) by (simp add: outreaches_ok_def)
    moreover have "ledger_of v k = ledger_of w k" for k by (simp add: due ledger_of_def claims_of_def)
    ultimately show ?thesis using base good(2) by (simp add: outreach_good_def due(1))
  next
    case (granted p tenant lead now n t)
    have "outreach_ok p" using base(2) granted(2) by blast
    note l = granted_ledger[OF base(3) this granted(3)]
    have "outreaches_ok t" using base(1) claim_granted(4)[OF granted(3)] by (simp add: outreaches_ok_def)
    then show ?thesis using l base claim_keys[OF good(2), of tenant p lead now]
      by (simp add: outreach_good_def granted(1,3))
  next
    case (refused p tenant lead now t)
    let ?x = "set_lead (\<lambda>l. lead_key l = (tenant, rp_connection p, lead))
        (\<lambda>l. l\<lparr>rl_status := LdExhausted, rl_updated := now\<rparr>) (uw_db w)"
    have t: "t = uw_db w \<or> t = ?x" using claim_refused[OF refused(3)] good(2) by (simp add: lead_keys_ok_def)
    then have "outreaches_ok t" using base(1) by (auto simp: outreaches_ok_def set_lead_def)
    moreover have "ledger_of (w\<lparr>uw_db := t\<rparr>) k = ledger_of w k" for k
      using t quiet_update[where f = "\<lambda>l. l\<lparr>rl_status := LdExhausted, rl_updated := now\<rparr>" and w = w and k = k] by (auto simp: lead_key_def)
    moreover have "lead_keys_ok t" using claim_keys[OF good(2), of tenant p lead now] refused(3) by simp
    ultimately show ?thesis using quiet refused(1) by simp
  next
    case (opened p tenant lead now n run t)
    note o = open_leads[OF opened(3)]
    have "outreaches_ok t" using base(1) o(2) by (simp add: outreaches_ok_def)
    then show ?thesis using quiet[OF same_leads[OF o(1)]] good(2) o(1) by (simp add: opened(1) lead_keys_ok_def)
  next
    case (marked now tenant p lead st run error)
    have "outreaches_ok (mark_lead now tenant p lead st run error (uw_db w))"
      using base(1) by (simp add: mark_lead_def set_lead_def outreaches_ok_def)
    moreover have "ledger_of (w\<lparr>uw_db := mark_lead now tenant p lead st run error (uw_db w)\<rparr>) k = ledger_of w k" for k
      unfolding mark_lead_def by (rule quiet_update) (simp add: lead_key_def)
    ultimately show ?thesis using quiet good(2) by (simp add: marked lead_keys_ok_def mark_lead_def keys_set_lead mark_keys)
  next
    case (synced now tenant policy)
    let ?f = "\<lambda>l. l\<lparr>rl_status := the (lead_verdict (uw_db w) l), rl_updated := now\<rparr>"
    let ?t = "set_lead (settled_lead (uw_db w) tenant policy) ?f (uw_db w)"
    have t: "leads (snd (sync_leads now tenant policy (uw_db w))) = leads ?t"
      "outreaches (snd (sync_leads now tenant policy (uw_db w))) = outreaches (uw_db w)"
      by (auto simp: sync_leads_def Let_def set_lead_def)
    have "ledger_of v k = ledger_of (w\<lparr>uw_db := ?t\<rparr>) k" for k
      using t(1) by (simp add: synced ledger_of_def claims_of_def find_lead_def)
    also have "ledger_of (w\<lparr>uw_db := ?t\<rparr>) k = ledger_of w k" for k by (rule quiet_update) (simp add: lead_key_def)
    finally have "outreach_good v" using quiet t(2) base(1) by (simp add: synced outreaches_ok_def)
    moreover have "map lead_key (leads ?t) = map lead_key (leads (uw_db w))" by (rule keys_set_lead) (simp add: lead_key_def)
    ultimately show ?thesis using good(2) t(1) by (simp add: synced lead_keys_ok_def)
  next
    case (advanced now tenant p)
    have "outreaches_ok (advance_outreach now tenant p (uw_db w))"
      unfolding advance_outreach_def by (rule outreaches_ok_upd[OF base(1)]) (simp add: outreach_ok_def)
    moreover have l: "leads (advance_outreach now tenant p (uw_db w)) = leads (uw_db w)"
      by (simp add: advance_outreach_def set_outreach_def)
    ultimately show ?thesis using quiet[OF same_leads[OF l]] good(2) by (simp add: advanced lead_keys_ok_def)
  next
    case (disabled now tenant p reason)
    have "outreaches_ok (set_outreach tenant (rp_id p) (\<lambda>r. r\<lparr>rp_enabled := False\<rparr>) (uw_db w))"
      by (rule outreaches_ok_upd[OF base(1)]) (simp add: outreach_ok_def)
    then have "outreaches_ok (disable_outreach now tenant p reason (uw_db w))"
      by (simp add: disable_outreach_def outreaches_ok_def)
    moreover have l: "leads (disable_outreach now tenant p reason (uw_db w)) = leads (uw_db w)"
      by (simp add: disable_outreach_def set_outreach_def)
    ultimately show ?thesis using quiet[OF same_leads[OF l]] good(2) by (simp add: disabled lead_keys_ok_def)
  next
    case (elsewhere t)
    then have "outreaches_ok t" using base(1) by (simp add: outreaches_ok_def)
    then show ?thesis using quiet[OF same_leads[OF elsewhere(2)]] good(2) elsewhere by (simp add: lead_keys_ok_def)
  qed
qed

lemma outreach_run_good:
  "outreach_run e w v \<Longrightarrow> outreach_good w \<Longrightarrow> lead_keys_ok (uw_db w) \<Longrightarrow> outreach_good v \<and> lead_keys_ok (uw_db v)"
  by (induction rule: outreach_run.induct) (auto dest: outreach_step_good)

lemma outreach_start_good: "outreach_start w \<Longrightarrow> outreach_good w \<and> lead_keys_ok (uw_db w)"
  by (simp add: outreach_start_def outreach_good_def lead_keys_ok_def outreaches_ok_def ledger_of_def claims_of_def
      find_lead_def)


text \<open>
  C36: a lead is contacted sparingly. However many workers tick, stop or come late, the attempts on one
  lead of one connection are numbered without a gap, never more than ten, each within the cap of the
  policy that made it and at least that policy's cooldown after the attempt before; two policies on one
  connection share the count. A lead whose row is not waiting is never claimed again.
\<close>

theorem lead_is_contacted_sparingly:
  assumes "outreach_start w" and "outreach_run e w v"
  shows "contact_chain (claims_of v k) \<and> length (claims_of v k) \<le> 10
    \<and> (claim_lead tenant p lead now (uw_db v) = (Some n, t)
        \<longrightarrow> (find_lead (uw_db v) (tenant, rp_connection p, lead) = None \<and> n = 1
             \<or> (\<exists>l. find_lead (uw_db v) (tenant, rp_connection p, lead) = Some l \<and> rl_status l = LdQueued
                  \<and> n = rl_attempt l + 1 \<and> rl_last l + rp_cooldown p \<le> now)))"
proof -
  have "outreach_good v"
    using outreach_run_good[OF assms(2)] outreach_start_good[OF assms(1)] by blast
  then have "ledger_of v k" unfolding outreach_good_def by blast
  then have chain: "contact_chain (claims_of v k)" by (simp add: ledger_of_def)
  have "length (claims_of v k) \<le> 10"
  proof (cases "claims_of v k")
    case (Cons c cs)
    have "lc_attempt c = int (length (c # cs)) \<and> lc_attempt c \<le> 10"
      by (rule chain_length) (use chain Cons in simp)
    then show ?thesis unfolding Cons by linarith
  qed simp
  then show ?thesis using chain claim_granted(3)[of tenant p lead now "uw_db v" n t] by blast
qed

section \<open>Who opens a run\<close>

definition lead_linked :: "db \<Rightarrow> customer_key \<Rightarrow> int \<Rightarrow> int \<Rightarrow> string \<Rightarrow> bool" where
  "lead_linked s k n now run \<longleftrightarrow>
     (\<exists>l. find_lead s k = Some l \<and> rl_attempt l = n \<and> rl_last l = now \<and> rl_run l = run)"

lemma find_same_leads: "leads t = leads s \<Longrightarrow> find_lead t k = find_lead s k"
  by (simp add: find_lead_def)

lemma find_marked:
  "find_lead (mark_lead now tenant p lead st run error s) k = map_option (\<lambda>l.
     if lead_key l = (tenant, rp_connection p, lead)
     then l\<lparr>rl_status := st, rl_run := run, rl_error := take 200 error, rl_updated := now\<rparr> else l) (find_lead s k)"
  unfolding mark_lead_def by (rule find_set_lead) (simp add: lead_key_def)

text \<open>A claim made in this cycle is not made again in it.\<close>

lemma claim_once_a_cycle:
  assumes "lead_linked s k n now run" "0 < rp_cooldown p"
  shows "claim_lead tenant p lead now s = (Some m, t) \<Longrightarrow> (tenant, rp_connection p, lead) \<noteq> k"
    "lead_linked (snd (claim_lead tenant p lead now s)) k n now run"
proof -
  obtain l where l: "find_lead s k = Some l" "rl_attempt l = n" "rl_last l = now" "rl_run l = run"
    using assms(1) by (auto simp: lead_linked_def)
  show other: "(tenant, rp_connection p, lead) \<noteq> k" if "claim_lead tenant p lead now s = (Some m, t)" for m t
    using claim_granted(3)[OF that] l assms(2) by auto
  show "lead_linked (snd (claim_lead tenant p lead now s)) k n now run"
  proof (cases "fst (claim_lead tenant p lead now s)")
    case None
    have q: "lead_key (x\<lparr>rl_status := LdExhausted, rl_updated := now\<rparr>) = lead_key x" for x by (simp add: lead_key_def)
    show ?thesis
    proof (cases "find_lead s (tenant, rp_connection p, lead)")
      case None
      then show ?thesis using \<open>fst _ = None\<close> by (simp add: claim_lead_def)
    next
      case (Some row)
      show ?thesis
      proof (cases "rl_status row \<noteq> LdQueued \<or> rl_attempt row \<ge> rp_max_attempts p \<or> rl_last row + rp_cooldown p > now")
        case True
        then show ?thesis using Some l q
          by (auto simp: claim_lead_def Let_def lead_linked_def find_set_lead)
      next
        case False
        then have "(tenant, rp_connection p, lead) \<noteq> k" using Some l assms(2) by auto
        moreover have "lead_key l = k" by (rule find_lead_key[OF l(1)])
        moreover have "lead_key (x\<lparr>rl_attempt := rl_attempt x + 1, rl_status := LdQueued, rl_last := now,
              rl_updated := now, rl_run := [], rl_error := [], rl_policy := rp_id p\<rparr>) = lead_key x" for x
          by (simp add: lead_key_def)
        ultimately show ?thesis using False Some l
          by (auto simp: claim_lead_def Let_def lead_linked_def find_set_lead)
      qed
    qed
  next
    case (Some m)
    then have c: "claim_lead tenant p lead now s = (Some m, snd (claim_lead tenant p lead now s))"
      by (metis prod.collapse)
    show ?thesis using claim_granted(2)[OF c other[OF c, symmetric]] l by (simp add: lead_linked_def)
  qed
qed

lemma linked_marked:
  "lead_linked s k n now run \<Longrightarrow> (tenant, rp_connection p, lead) \<noteq> k \<Longrightarrow>
     lead_linked (mark_lead later tenant p lead st r x s) k n now run"
  using find_lead_key[of s k] by (fastforce simp: lead_linked_def find_marked)

lemma linked_opened:
  "lead_linked s k n now run \<Longrightarrow> open_outreach e later tenant p lead m s = Inr (r, t) \<Longrightarrow> lead_linked t k n now run"
  by (simp add: lead_linked_def find_same_leads[OF open_leads(1)])

lemma dispatch_keeps:
  assumes "lead_linked s k n now run" "0 < rp_cooldown p"
  shows "lead_linked (snd (dispatch_lead e now later tenant p v s)) k n now run"
proof (cases v)
  case (JObj lead)
  let ?i = "lead_id_of lead"
  note once = claim_once_a_cycle[OF assms, of tenant ?i]
  obtain o' t where c: "claim_lead tenant p ?i now s = (o', t)" by (rule prod.exhaust)
  have t: "lead_linked t k n now run" using once(2) c by simp
  show ?thesis
  proof (cases o')
    case None
    then show ?thesis using assms t c by (simp add: dispatch_lead_def JObj)
  next
    case (Some m)
    have other: "(tenant, rp_connection p, ?i) \<noteq> k" using once(1) c Some by blast
    show ?thesis
    proof (cases "open_outreach e later tenant p lead m t")
      case (Inl x)
      then show ?thesis using assms c Some linked_marked[OF t other] by (simp add: dispatch_lead_def JObj)
    next
      case (Inr ru)
      obtain r u where ru: "ru = (r, u)" by (rule prod.exhaust)
      have "lead_linked u k n now run" using linked_opened[OF t] Inr ru by simp
      then show ?thesis using assms c Some Inr ru linked_marked[OF _ other] by (simp add: dispatch_lead_def JObj)
    qed
  qed
qed (use assms in \<open>simp_all add: dispatch_lead_def\<close>)


lemma claim_runs: "runs (snd (claim_lead tenant p lead now s)) = runs s"
  by (auto simp: claim_lead_def Let_def set_lead_def split: option.splits)

lemma mark_runs: "runs (mark_lead now tenant p lead st run x s) = runs s"
  by (simp add: mark_lead_def set_lead_def)

text \<open>What a new run of a policy carries, and the row of the ledger that stands for it.\<close>

definition opened_by :: "string \<Rightarrow> outreach_row \<Rightarrow> int \<Rightarrow> db \<Rightarrow> run_row \<Rightarrow> bool" where
  "opened_by tenant p now t r \<longleftrightarrow> (\<exists>lead n. r_tenant r = tenant \<and> r_agent r = rp_agent p \<and> r_actor r = rp_actor p
     \<and> r_max_steps r = rp_max_steps p \<and> r_key r = outreach_key p lead n
     \<and> lead_linked t (tenant, rp_connection p, lead) n now (r_id r))"

lemma dispatch_new:
  assumes "dispatch_lead e now later tenant p v s = (b, t)" "r \<in> set (runs t)" "r \<notin> set (runs s)" "0 < rp_cooldown p"
  shows "opened_by tenant p now t r"
proof (cases v)
  case (JObj lead)
  let ?i = "lead_id_of lead" and ?k = "(tenant, rp_connection p, lead_id_of lead)"
  obtain o' u where c: "claim_lead tenant p ?i now s = (o', u)" by (rule prod.exhaust)
  have u: "runs u = runs s" using claim_runs[of tenant p ?i now s] c by simp
  have i: "?i \<noteq> []" using assms(1-3) by (auto simp: dispatch_lead_def JObj)
  obtain m where m: "o' = Some m"
    using assms(1-3) c u i by (cases o') (auto simp: dispatch_lead_def JObj)
  obtain run x where o: "open_outreach e later tenant p lead m u = Inr (run, x)"
    using assms(1-3) c u i m by (cases "open_outreach e later tenant p lead m u") (auto simp: dispatch_lead_def JObj mark_runs)
  have t: "t = mark_lead later tenant p ?i LdQueued run [] x"
    using assms(1) c i m o by (simp add: dispatch_lead_def JObj)
  from create_run_runs[OF o[unfolded open_outreach_def]] obtain fp where r:
    "r = new_run later run tenant (outreach_key p ?i m) fp (rp_agent p) (rp_actor p) (outreach_input p lead)
        (rp_max_steps p) (rp_max_seconds p) DASHBOARD_CHANNEL"
    using assms(2,3) u unfolding t mark_runs by auto
  obtain l where l: "find_lead u ?k = Some l" "rl_attempt l = m" "rl_last l = now"
    using claim_granted(1)[OF c[unfolded m]] by blast
  have "lead_linked t ?k m now run"
    using l find_lead_key[OF l(1)] unfolding lead_linked_def t find_marked find_same_leads[OF open_leads(1)[OF o]] by simp
  then show ?thesis unfolding opened_by_def by (intro exI[of _ ?i] exI[of _ m]) (simp add: r new_run_def)
qed (use assms in \<open>simp_all add: dispatch_lead_def\<close>)

lemma dispatches_keep:
  "lead_linked s k n now run \<Longrightarrow> 0 < rp_cooldown p \<Longrightarrow> dispatch_leads e now later tenant p vs s = (m, t) \<Longrightarrow>
     lead_linked t k n now run"
proof (induction vs arbitrary: s m t)
  case (Cons v vs)
  obtain b u where d: "dispatch_lead e now later tenant p v s = (b, u)" by (rule prod.exhaust)
  obtain m' u' where ds: "dispatch_leads e now later tenant p vs u = (m', u')" by (rule prod.exhaust)
  have "lead_linked u k n now run" using dispatch_keeps[OF Cons.prems(1,2), of e later tenant v] d by simp
  from Cons.IH[OF this Cons.prems(2) ds] show ?case using Cons.prems(3) d ds by (simp split: if_split_asm)
qed simp

lemma dispatches_new:
  "dispatch_leads e now later tenant p vs s = (m, t) \<Longrightarrow> r \<in> set (runs t) \<Longrightarrow> r \<notin> set (runs s) \<Longrightarrow>
     0 < rp_cooldown p \<Longrightarrow> opened_by tenant p now t r"
proof (induction vs arbitrary: s m t)
  case (Cons v vs)
  obtain b u where d: "dispatch_lead e now later tenant p v s = (b, u)" by (rule prod.exhaust)
  obtain m' u' where ds: "dispatch_leads e now later tenant p vs u = (m', u')" by (rule prod.exhaust)
  have t: "u' = t" using Cons.prems(1) d ds by (simp split: if_split_asm)
  show ?case
  proof (cases "r \<in> set (runs u)")
    case True
    from dispatch_new[OF d True Cons.prems(3,4)] show ?thesis
      using dispatches_keep[OF _ Cons.prems(4) ds] unfolding opened_by_def t by blast
  next
    case False
    then show ?thesis using Cons.IH[OF ds[unfolded t] Cons.prems(2) False Cons.prems(4)] by blast
  qed
qed simp

lemma sync_frames:
  "runs (snd (sync_leads now tenant policy s)) = runs s" "outreaches (snd (sync_leads now tenant policy s)) = outreaches s"
  "freezes (snd (sync_leads now tenant policy s)) = freezes s"
  by (auto simp: sync_leads_def Let_def set_lead_def)

lemma opened_elsewhere: "leads t = leads u \<Longrightarrow> opened_by tenant p now t r = opened_by tenant p now u r"
  by (simp add: opened_by_def lead_linked_def find_lead_def)

lemma advance_frames:
  "leads (advance_outreach now tenant p s) = leads s" "runs (advance_outreach now tenant p s) = runs s"
  "leads (disable_outreach now tenant p x s) = leads s" "runs (disable_outreach now tenant p x s) = runs s"
  by (simp_all add: advance_outreach_def disable_outreach_def set_outreach_def)

text \<open>
  The loop opens runs only in its owner's name. Every run a cycle opens belongs to a policy that is
  enabled and due, of a tenant that is not frozen, whose owner still has that authority; it carries that
  policy's agent, owner and step budget; and the ledger holds, for the lead of its key, the attempt of
  its key with the run itself.
\<close>

theorem outreach_opens_authorised_runs:
  assumes "outreach_tick e handler (n1, n2, n3) tenant s = (res, t)" and "outreaches_ok s"
    and "r \<in> set (runs t)" and "r \<notin> set (runs s)"
  shows "\<exists>p \<in> set (outreaches s). rp_tenant p = tenant \<and> rp_enabled p \<and> rp_next p \<le> n1 \<and> \<not> frozen s tenant
    \<and> require_active e s tenant = Inr () \<and> require_authority e tenant ''cron'' (rp_actor p) [''owner''] = Inr ()
    \<and> opened_by tenant p n2 t r"
proof -
  let ?s = "snd (sync_leads n1 tenant [] s)"
  have same: "frozen ?s tenant = frozen s tenant" "require_active e ?s tenant = require_active e s tenant"
    by (simp_all add: frozen_def require_active_def sync_frames)
  have new: "r \<notin> set (runs ?s)" using assms(4) by (simp add: sync_frames)
  have live: "\<not> frozen ?s tenant" using assms(1,3) new by (auto simp: outreach_tick_def Let_def)
  obtain p where p: "outreach_due n1 tenant ?s = Some p"
    and cycle: "outreach_cycle e handler (n1, n2, n3) tenant p ?s = (res, t)"
    using assms(1,3) new live by (auto simp: outreach_tick_def Let_def split: option.splits)
  note row = outreach_due_row[OF p, unfolded sync_frames]
  have cool: "0 < rp_cooldown p" using row assms(2) by (auto simp: outreaches_ok_def outreach_ok_def)
  have auth: "require_active e ?s tenant = Inr ()" "require_authority e tenant ''cron'' (rp_actor p) [''owner''] = Inr ()"
    using cycle assms(3) new
    by (auto simp: outreach_cycle_def res_simps advance_frames split: sum.splits if_split_asm)
  obtain xs where xs: "read_feed e handler p = Inr xs"
    using cycle assms(3) new auth
    by (cases "read_feed e handler p") (auto simp: outreach_cycle_def advance_frames split: if_split_asm)
  obtain m u where d: "dispatch_leads e n2 n3 tenant p xs ?s = (m, u)" by (rule prod.exhaust)
  have t: "leads t = leads u" "runs t = runs u"
    using cycle auth xs d by (auto simp: outreach_cycle_def advance_frames)
  have "opened_by tenant p n2 u r"
    using dispatches_new[OF d _ new cool] assms(3) t(2) by simp
  then have "opened_by tenant p n2 t r" by (simp add: opened_elsewhere[OF t(1)])
  then show ?thesis using row live same auth by auto
qed


section \<open>A feed that cannot be read\<close>


section \<open>A concrete policy\<close>

definition outreach_env :: env where
  "outreach_env = demo_env\<lparr>reg := [demo_tool ''crm.lead.stalled'' ''read''
     (obj_schema [(''connection'', string_schema 128), (''inactive_minutes'', JObj [(''type'', JStr ''integer'')]),
        (''limit'', JObj [(''type'', JStr ''integer'')])] (Some [''connection''])) True]\<rparr>"

definition outreach_demo_request :: outreach_request where
  "outreach_demo_request = \<lparr>oq_id = JStr ''weekly'', oq_agent = JStr ''a'', oq_connection = JStr ''crm'',
     oq_actor = JStr ''boss'', oq_knobs = [], oq_enabled = JBool True\<rparr>"

definition outreach_demo_feed :: "outreach_row \<Rightarrow> fields \<Rightarrow> fields res" where
  "outreach_demo_feed p args = Inr [(''leads'', JList [JObj [(''id'', JStr ''L1''), (''name'', JStr ''N'')]])]"

definition outreach_demo_0 :: db where "outreach_demo_0 = empty_db\<lparr>uuids := 1\<rparr>"
definition outreach_demo_1 :: db where
  "outreach_demo_1 = ok_state (configure_outreach outreach_env 0 ''t'' outreach_demo_request outreach_demo_0)"
definition outreach_demo_p :: outreach_row where
  "outreach_demo_p = (case outreach_due 5000 ''t'' outreach_demo_1 of Some p \<Rightarrow> p | None \<Rightarrow> undefined)"
definition outreach_demo_2 :: db where
  "outreach_demo_2 = snd (claim_lead ''t'' outreach_demo_p ''L1'' 5000 outreach_demo_1)"

lemma outreach_demo_ok:
  "is_ok (configure_outreach outreach_env 0 ''t'' outreach_demo_request outreach_demo_0)"
  "outreach_due 5000 ''t'' outreach_demo_1 \<noteq> None"
  "fst (claim_lead ''t'' outreach_demo_p ''L1'' 5000 outreach_demo_1) = Some 1"
  "rp_connection outreach_demo_p = ''crm''"
  "runs outreach_demo_1 = []"
  "map r_key (runs (snd (outreach_tick outreach_env outreach_demo_feed (5000, 5001, 5002) ''t'' outreach_demo_1))) = [''reeng:weekly:L1:1'']"
  "require_authority outreach_env ''t'' ''cron'' (rp_actor outreach_demo_p) [''owner''] = Inr ()"
  "require_active outreach_env outreach_demo_1 ''t'' = Inr ()"
  by code_simp+

definition outreach_world_of :: "db \<Rightarrow> outreach_row list \<Rightarrow> lead_claim list \<Rightarrow> outreach_world" where
  "outreach_world_of s ps cs = \<lparr>uw_db = s, uw_read = ps, uw_claims = cs\<rparr>"

lemma outreach_world_of_simps [simp]:
  "uw_db (outreach_world_of s ps cs) = s" "uw_read (outreach_world_of s ps cs) = ps"
  "uw_claims (outreach_world_of s ps cs) = cs"
  "(outreach_world_of s ps cs)\<lparr>uw_db := t\<rparr> = outreach_world_of t ps cs"
  "(outreach_world_of s ps cs)\<lparr>uw_read := qs\<rparr> = outreach_world_of s qs cs"
  "(outreach_world_of s ps cs)\<lparr>uw_claims := ds\<rparr> = outreach_world_of s ps ds"
  by (simp_all add: outreach_world_of_def)

definition outreach_demo_claim :: lead_claim where
  "outreach_demo_claim = \<lparr>lc_key = (''t'', ''crm'', ''L1''), lc_policy = outreach_demo_p, lc_attempt = 1, lc_time = 5000\<rparr>"

lemma outreach_demo_run:
  "outreach_run outreach_env (outreach_world_of outreach_demo_0 [] [])
     (outreach_world_of outreach_demo_2 [outreach_demo_p] [outreach_demo_claim])"
proof -
  obtain row where "configure_outreach outreach_env 0 ''t'' outreach_demo_request outreach_demo_0 = Inr (row, outreach_demo_1)"
    using ok_stateI[OF outreach_demo_ok(1)] unfolding outreach_demo_1_def by (rule exE)
  from outreach_step.configured[of _ _ _ _ "outreach_world_of outreach_demo_0 [] []", unfolded outreach_world_of_simps, OF this]
  have a: "outreach_step outreach_env (outreach_world_of outreach_demo_0 [] []) (outreach_world_of outreach_demo_1 [] [])" .
  have "outreach_due 5000 ''t'' outreach_demo_1 = Some outreach_demo_p"
    using outreach_demo_ok(2) by (auto simp: outreach_demo_p_def)
  from outreach_step.due[of _ _ "outreach_world_of outreach_demo_1 [] []", unfolded outreach_world_of_simps, OF this]
  have b: "outreach_step outreach_env (outreach_world_of outreach_demo_1 [] []) (outreach_world_of outreach_demo_1 [outreach_demo_p] [])" .
  have c: "claim_lead ''t'' outreach_demo_p ''L1'' 5000 outreach_demo_1 = (Some 1, outreach_demo_2)"
    using outreach_demo_ok(3) by (simp add: outreach_demo_2_def prod_eq_iff)
  have "outreach_step outreach_env (outreach_world_of outreach_demo_1 [outreach_demo_p] [])
      (outreach_world_of outreach_demo_2 [outreach_demo_p] [outreach_demo_claim])"
    using outreach_step.granted[of outreach_demo_p "outreach_world_of outreach_demo_1 [outreach_demo_p] []" _ _ _ _ _ outreach_env,
        unfolded outreach_world_of_simps, OF _ c]
    by (simp add: outreach_demo_claim_def outreach_demo_ok(4))
  then show ?thesis by (blast intro: outreach_run.intros a b)
qed

lemma lead_is_contacted_sparingly_witness:
  "contact_chain [outreach_demo_claim] \<and> length [outreach_demo_claim] \<le> 10"
proof -
  have start: "outreach_start (outreach_world_of outreach_demo_0 [] [])"
    by (simp add: outreach_start_def outreach_demo_0_def empty_db_def)
  have "claims_of (outreach_world_of outreach_demo_2 [outreach_demo_p] [outreach_demo_claim]) (''t'', ''crm'', ''L1'') = [outreach_demo_claim]"
    by (simp add: claims_of_def outreach_demo_claim_def)
  then show ?thesis
    using lead_is_contacted_sparingly[OF start outreach_demo_run, of "(''t'', ''crm'', ''L1'')"] by simp
qed

lemma map_single_mem: "map f xs = [a] \<Longrightarrow> \<exists>x. x \<in> set xs"
  by (cases xs) auto

lemma outreach_opens_authorised_runs_witness:
  "\<exists>r p. opened_by ''t'' p 5001 (snd (outreach_tick outreach_env outreach_demo_feed (5000, 5001, 5002) ''t'' outreach_demo_1)) r
    \<and> p \<in> set (outreaches outreach_demo_1)"
proof -
  let ?c = "outreach_tick outreach_env outreach_demo_feed (5000, 5001, 5002) ''t'' outreach_demo_1"
  obtain r where r: "r \<in> set (runs (snd ?c))" using map_single_mem[OF outreach_demo_ok(6)] by (rule exE)
  have fresh: "r \<notin> set (runs outreach_demo_1)" unfolding outreach_demo_ok(5) by simp
  have ok: "outreaches_ok outreach_demo_1"
  proof -
    obtain row where "configure_outreach outreach_env 0 ''t'' outreach_demo_request outreach_demo_0 = Inr (row, outreach_demo_1)"
      using ok_stateI[OF outreach_demo_ok(1)] unfolding outreach_demo_1_def by (rule exE)
    from configure_ok(1)[OF this] show ?thesis by (simp add: outreaches_ok_def outreach_demo_0_def empty_db_def)
  qed
  have "?c = (fst ?c, snd ?c)" by simp
  from outreach_opens_authorised_runs[OF this ok r fresh] show ?thesis by (elim bexE conjE) (intro exI conjI)
qed


section \<open>What modelling showed\<close>

text \<open>A lead whose run could not be opened is closed for good; no cooldown brings it back.\<close>

lemma failed_lead_is_closed:
  "find_lead s (tenant, rp_connection p, lead) = Some l \<Longrightarrow> rl_status l = LdFailed \<Longrightarrow>
     claim_lead tenant p lead now s = (None, s)"
  by (simp add: claim_lead_def Let_def)

text \<open>
  After the last attempt the next cycle calls the lead exhausted although its run is still going, and
  the outcome of the run is never read back.
\<close>

lemma exhausted_before_its_outcome:
  assumes "find_lead s (tenant, rp_connection p, lead) = Some l" "rl_status l = LdQueued"
    and "rp_max_attempts p \<le> rl_attempt l"
  shows "\<exists>l'. find_lead (snd (claim_lead tenant p lead now s)) (tenant, rp_connection p, lead) = Some l'
    \<and> rl_status l' = LdExhausted \<and> rl_run l' = rl_run l \<and> \<not> settled_lead u tenant policy l'"
proof -
  have "lead_key (x\<lparr>rl_status := LdExhausted, rl_updated := now\<rparr>) = lead_key x" for x by (simp add: lead_key_def)
  then show ?thesis using assms find_lead_key[OF assms(1)]
    by (simp add: claim_lead_def Let_def find_set_lead settled_lead_def)
qed

text \<open>A claim whose worker stopped before the mark has no run to read back, whatever its run did.\<close>

lemma unmarked_claim_never_settles:
  "rl_run l = [] \<Longrightarrow> (\<forall>r \<in> set (runs s). r_id r \<noteq> []) \<Longrightarrow> \<not> settled_lead s tenant policy l"
  by (auto simp: settled_lead_def lead_verdict_def find_run_def find_None_mem split: option.splits dest!: find_Some_mem)

end
