(* ===== verification/Escalation.thy ===== *)
theory Escalation
  imports Outreach Supervisor Documents Usage_Budget "HOL-Library.Product_Lexorder"
begin

text \<open>
  Escalation of overdue work (\<^verbatim>\<open>platform_runtime/escalation.py\<close>): an owner's schedule, the ledger with
  one row per work item, the digest, the handover to the engine as an ordinary task, and the verdict of
  that task read back. The handler of the read tool is an argument; a character beyond code point 255 is
  the substitute character.
\<close>

section \<open>Constants\<close>

definition WATCH_SOURCES :: "string list" where
  "WATCH_SOURCES = [''workforce'', ''telephony'']"

definition SOURCE_TOOLS :: "(string \<times> string) list" where
  "SOURCE_TOOLS = [(''workforce'', ''workforce.workload''), (''telephony'', ''telephony.queue'')]"

definition WATCH_LIMITS :: "(string \<times> int \<times> int) list" where
  "WATCH_LIMITS = [(''cooldown_seconds'', 300, 2592000), (''max_per_cycle'', 1, 50),
     (''interval_seconds'', 300, 604800), (''max_age_days'', 1, 365)]"

definition MAX_TITLE :: nat where "MAX_TITLE = 120"
definition MAX_RECIPIENT :: nat where "MAX_RECIPIENT = 128"
definition MAX_OVERDUE :: int where "MAX_OVERDUE = 50"
definition MAX_DIGEST_LINES :: nat where "MAX_DIGEST_LINES = 40"
definition MAX_DELIVERY_ATTEMPTS :: int where "MAX_DELIVERY_ATTEMPTS = 5"
definition DELIVERY_CHANNEL :: string where "DELIVERY_CHANNEL = ''cron''"
definition EXHAUSTED :: string where "EXHAUSTED = ''delivery_exhausted''"

definition SCHEDULE_ID_RE :: "string \<Rightarrow> bool" where
  "SCHEDULE_ID_RE = line_match (\<lambda>c. is_lower c \<or> is_digit c)
     (\<lambda>c. is_lower c \<or> is_digit c \<or> c \<in> {CHR ''_'', CHR ''.'', CHR ''-''}) 63"

fun task_to_ledger :: "status \<Rightarrow> notice_status option" where
  "task_to_ledger Succeeded = Some EsSent"
| "task_to_ledger Failed = Some EsFailed"
| "task_to_ledger Cancelled = Some EsFailed"
| "task_to_ledger Uncertain = Some EsUncertain"
| "task_to_ledger _ = None"

fun verdict_name :: "notice_status \<Rightarrow> string" where
  "verdict_name EsSent = ''delivered''"
| "verdict_name EsFailed = ''failed''"
| "verdict_name EsUncertain = ''uncertain''"
| "verdict_name EsQueued = ''queued''"
| "verdict_name EsSubmitted = ''submitted''"

definition watch_identifier :: "json \<Rightarrow> string \<Rightarrow> nat \<Rightarrow> string res" where
  "watch_identifier v name maximum =
     (let refused = raise ValueError (name @ '' is required and must be at most '' @ show_nat maximum @ '' characters'') in
      case v of JStr t \<Rightarrow> if py_strip t = [] \<or> length t > maximum then refused else Inr (py_strip t)
      | _ \<Rightarrow> refused)"

text \<open>
  The days from the first of January 1970 to a date, by the 400-year cycle that begins on the first of
  March; \<^verbatim>\<open>_day\<close> prints the civil month and the days passed since its first.
\<close>

definition day_number :: "int \<Rightarrow> int \<Rightarrow> int \<Rightarrow> int" where
  "day_number y m d =
     (let z = (if m \<le> 2 then y - 1 else y); era = z div 400; yoe = z mod 400;
          mp = (if m > 2 then m - 3 else m + 9); doy = (153 * mp + 2) div 5 + d - 1;
          doe = yoe * 365 + yoe div 4 - yoe div 100 + doy
      in era * 146097 + doe - 719468)"

definition utc_day :: "int \<Rightarrow> string" where
  "utc_day now = (let days = now div 86400 in case civil_month days of (y, m) \<Rightarrow>
     period now @ ''-'' @ pad 2 (show_int (days - day_number y m 1 + 1)))"

section \<open>Schedules\<close>

record watch_request =
  wq_id :: json
  wq_agent :: json
  wq_recipient :: json
  wq_actor :: json
  wq_title :: json
  wq_source :: json
  wq_knobs :: fields
  wq_enabled :: json

definition WATCH_DEFAULTS :: fields where
  "WATCH_DEFAULTS = [(''cooldown_seconds'', JInt 86400), (''max_per_cycle'', JInt 10),
     (''interval_seconds'', JInt 3600), (''max_age_days'', JInt 30)]"

definition watch_knob :: "fields \<Rightarrow> string \<Rightarrow> int res" where
  "watch_knob d name = bounded_knob WATCH_LIMITS name (jget_or d name (jget WATCH_DEFAULTS name))"

definition watch_source :: "json \<Rightarrow> string res" where
  "watch_source v = (let refused = raise ValueError ''source must be one of ['workforce', 'telephony']'' in
     case v of JStr t \<Rightarrow> if casefold (py_strip t) \<in> set WATCH_SOURCES then Inr (casefold (py_strip t)) else refused
     | _ \<Rightarrow> refused)"

definition watch_title :: "json \<Rightarrow> string res" where
  "watch_title v = (let refused = raise ValueError (''title must be a string of at most '' @ show_nat MAX_TITLE @ '' characters'') in
     case v of JStr t \<Rightarrow> if length t > MAX_TITLE then refused else Inr t | _ \<Rightarrow> refused)"

definition checked_watch :: "string \<Rightarrow> watch_request \<Rightarrow> watch_row res" where
  "checked_watch tenant q =
     bindr (watch_identifier (wq_id q) ''schedule id'' 64) (\<lambda>i.
     if \<not> SCHEDULE_ID_RE i
       then raise ValueError ''schedule id must be lowercase letters, digits, dot, dash or underscore''
     else bindr (watch_identifier (wq_agent q) ''agent'' 128) (\<lambda>agent.
     bindr (watch_identifier (wq_recipient q) ''recipient'' MAX_RECIPIENT) (\<lambda>recipient.
     bindr (watch_identifier (wq_actor q) ''actor'' 128) (\<lambda>actor.
     bindr (watch_source (wq_source q)) (\<lambda>source.
     bindr (watch_title (wq_title q)) (\<lambda>title.
     case wq_enabled q of
       JBool enabled \<Rightarrow>
         bindr (watch_knob (wq_knobs q) ''cooldown_seconds'') (\<lambda>cooldown.
         bindr (watch_knob (wq_knobs q) ''max_per_cycle'') (\<lambda>cycle.
         bindr (watch_knob (wq_knobs q) ''interval_seconds'') (\<lambda>interval.
         bindr (watch_knob (wq_knobs q) ''max_age_days'') (\<lambda>age.
           Inr \<lparr>ec_tenant = tenant, ec_id = i, ec_actor = actor, ec_agent = agent, ec_recipient = recipient,
             ec_title = title, ec_source = source, ec_cooldown = cooldown, ec_per_cycle = cycle,
             ec_interval = interval, ec_max_age = age, ec_enabled = enabled, ec_next = 0, ec_last = 0\<rparr>))))
     | _ \<Rightarrow> raise ValueError ''enabled must be a boolean''))))))"

definition watch_allowed :: "env \<Rightarrow> watch_row \<Rightarrow> unit res" where
  "watch_allowed e r = bindr (policy_of e (ec_tenant r) (ec_agent r)) (\<lambda>p.
     let tool = the (map_of SOURCE_TOOLS (ec_source r)) in
     if p_ladder p \<notin> set LADDERS then raise Forbidden ''Agent policy unavailable for escalation''
     else if tool \<notin> set (p_tools p) then raise Forbidden (''Escalation agent must hold '' @ tool)
     else if ''telegram.send'' \<notin> set (p_tools p)
       then raise Forbidden ''Escalation agent must hold telegram.send to notify a manager''
     else if ec_recipient r \<notin> set (p_recipients p)
       then raise Forbidden ''Escalation recipient must be pack-allowlisted for the agent''
     else Inr ())"

definition is_watch :: "string \<Rightarrow> string \<Rightarrow> watch_row \<Rightarrow> bool" where
  "is_watch tenant i r \<longleftrightarrow> ec_tenant r = tenant \<and> ec_id r = i"

definition find_watch :: "db \<Rightarrow> string \<Rightarrow> string \<Rightarrow> watch_row option" where
  "find_watch s tenant i = find (is_watch tenant i) (watches s)"

definition set_watch :: "string \<Rightarrow> string \<Rightarrow> (watch_row \<Rightarrow> watch_row) \<Rightarrow> db \<Rightarrow> db" where
  "set_watch tenant i f s = s\<lparr>watches := upd_where (is_watch tenant i) f (watches s)\<rparr>"

text \<open>The upsert keeps the last run of a schedule that was there.\<close>

definition put_watch :: "watch_row \<Rightarrow> db \<Rightarrow> db" where
  "put_watch r s = (case find_watch s (ec_tenant r) (ec_id r) of
      None \<Rightarrow> s\<lparr>watches := watches s @ [r]\<rparr>
    | Some _ \<Rightarrow> set_watch (ec_tenant r) (ec_id r) (\<lambda>old. r\<lparr>ec_last := ec_last old\<rparr>) s)"

definition configure_watch_tx :: "env \<Rightarrow> int \<Rightarrow> watch_row \<Rightarrow> db \<Rightarrow> db res" where
  "configure_watch_tx e now r s = bindr (require_active e s (ec_tenant r)) (\<lambda>_.
     bindr (require_authority e (ec_tenant r) ''cron'' (ec_actor r) [''owner'']) (\<lambda>_.
       Inr (audit now (ec_tenant r) [] ''escalation.configured'' (ec_actor r)
         [(''schedule'', JStr (ec_id r)), (''agent'', JStr (ec_agent r)), (''recipient'', JStr (ec_recipient r)),
          (''source'', JStr (ec_source r)), (''enabled'', JBool (ec_enabled r))]
         (put_watch (r\<lparr>ec_next := now + ec_interval r\<rparr>) s))))"

definition watch_of :: "db \<Rightarrow> string \<Rightarrow> string \<Rightarrow> watch_row res" where
  "watch_of s tenant i = (case find_watch s tenant i of
      None \<Rightarrow> raise NotFound ''Escalation schedule not found'' | Some r \<Rightarrow> Inr r)"

definition configure_watch :: "env \<Rightarrow> int \<Rightarrow> string \<Rightarrow> watch_request \<Rightarrow> db \<Rightarrow> (watch_row \<times> db) res" where
  "configure_watch e now tenant q s = bindr (checked_watch tenant q) (\<lambda>r.
     bindr (watch_allowed e r) (\<lambda>_. bindr (configure_watch_tx e now r s) (\<lambda>t.
       bindr (watch_of t tenant (ec_id r)) (\<lambda>row. Inr (row, t)))))"

definition watches_of :: "db \<Rightarrow> string \<Rightarrow> watch_row list" where
  "watches_of s tenant = sort_key ec_id (filter (\<lambda>r. ec_tenant r = tenant) (watches s))"

text \<open>\<^verbatim>\<open>ledger(..., with_total=True)\<close>.\<close>

definition notice_page :: "db \<Rightarrow> string \<Rightarrow> string \<Rightarrow> int \<Rightarrow> notice_row list \<times> nat \<times> bool" where
  "notice_page s tenant i limit =
     (let all = filter (\<lambda>l. el_tenant l = tenant \<and> el_schedule l = i) (notices s);
          rows = take (nat (min (max 1 limit) 500)) (sort_key (\<lambda>l. - el_last l) all) in
      (rows, length all, length all > length rows))"

definition disable_watch :: "env \<Rightarrow> int \<Rightarrow> string \<Rightarrow> string \<Rightarrow> json \<Rightarrow> string \<Rightarrow> db \<Rightarrow> (watch_row \<times> db) res" where
  "disable_watch e now tenant i who reason s = bindr (watch_identifier who ''actor'' 128) (\<lambda>actor.
     bindr (require_authority e tenant ''cron'' actor [''owner'']) (\<lambda>_. bindr (watch_of s tenant i) (\<lambda>_.
       let t = audit now tenant [] ''escalation.disabled'' actor
           [(''schedule'', JStr i), (''reason'', JStr reason)]
           (set_watch tenant i (\<lambda>r. r\<lparr>ec_enabled := False\<rparr>) s) in
       bindr (watch_of t tenant i) (\<lambda>row. Inr (row, t)))))"

section \<open>Claims\<close>

type_synonym notice_key = "string \<times> string \<times> string \<times> string \<times> string"

definition notice_row_key :: "notice_row \<Rightarrow> notice_key" where
  "notice_row_key l = (el_tenant l, el_schedule l, el_person l, el_task l, el_due l)"

record notice_item =
  nt_person :: string
  nt_name :: string
  nt_task :: string
  nt_due :: string
  nt_status :: string

definition item_key :: "string \<Rightarrow> watch_row \<Rightarrow> notice_item \<Rightarrow> notice_key" where
  "item_key tenant w x = (tenant, ec_id w, nt_person x, nt_task x, nt_due x)"

definition find_notice :: "db \<Rightarrow> notice_key \<Rightarrow> notice_row option" where
  "find_notice s k = find (\<lambda>l. notice_row_key l = k) (notices s)"

definition set_notice :: "(notice_row \<Rightarrow> bool) \<Rightarrow> (notice_row \<Rightarrow> notice_row) \<Rightarrow> db \<Rightarrow> db" where
  "set_notice P f s = s\<lparr>notices := upd_where P f (notices s)\<rparr>"

definition new_notice :: "notice_key \<Rightarrow> int \<Rightarrow> notice_row" where
  "new_notice k now = (case k of (tenant, schedule, person, task, due) \<Rightarrow>
     \<lparr>el_tenant = tenant, el_schedule = schedule, el_person = person, el_task = task, el_due = due,
      el_run = [], el_attempt = 1, el_status = EsQueued, el_first = now, el_last = now, el_updated = now,
      el_error = []\<rparr>)"

text \<open>\<^verbatim>\<open>_exhausted\<close>: the marker is written, and audited, once.\<close>

definition mark_exhausted :: "string \<Rightarrow> watch_row \<Rightarrow> notice_item \<Rightarrow> notice_row \<Rightarrow> int \<Rightarrow> db \<Rightarrow> db" where
  "mark_exhausted tenant w x row now s =
     (if el_error row = EXHAUSTED then s
      else let P = (\<lambda>l. notice_row_key l = item_key tenant w x \<and> el_error l \<noteq> EXHAUSTED);
               t = set_notice P (\<lambda>l. l\<lparr>el_error := EXHAUSTED, el_updated := now\<rparr>) s in
        if length (filter P (notices s)) = 1
        then audit now tenant [] ''escalation.exhausted'' ''escalation-loop''
          [(''schedule'', JStr (ec_id w)), (''task'', JStr (nt_task x)), (''due'', JStr (nt_due x)),
           (''attempts'', JInt (el_attempt row))] t
        else t)"

text \<open>\<^verbatim>\<open>_claim\<close>: the attempt it grants, if any.\<close>

definition claim_notice :: "string \<Rightarrow> watch_row \<Rightarrow> notice_item \<Rightarrow> int \<Rightarrow> db \<Rightarrow> int option \<times> db" where
  "claim_notice tenant w x now s = (let k = item_key tenant w x in
     case find_notice s k of
       None \<Rightarrow> (Some 1, s\<lparr>notices := notices s @ [new_notice k now]\<rparr>)
     | Some row \<Rightarrow>
         if el_status row \<in> {EsSent, EsSubmitted, EsUncertain} then (None, s)
         else if el_status row = EsFailed \<and> el_attempt row \<ge> MAX_DELIVERY_ATTEMPTS
           then (None, mark_exhausted tenant w x row now s)
         else if el_status row = EsFailed \<and> el_last row + ec_cooldown w > now then (None, s)
         else let P = (\<lambda>l. notice_row_key l = k \<and> el_last l = el_last row) in
           (if length (filter P (notices s)) = 1 then Some (el_attempt row + 1) else None,
            set_notice P (\<lambda>l. l\<lparr>el_attempt := el_attempt l + 1, el_status := EsQueued, el_last := now,
              el_updated := now, el_run := [], el_error := []\<rparr>) s))"

text \<open>\<^verbatim>\<open>_mark\<close>: it does not ask who holds the claim.\<close>

definition mark_notice ::
  "int \<Rightarrow> string \<Rightarrow> watch_row \<Rightarrow> notice_item \<Rightarrow> notice_status \<Rightarrow> string \<Rightarrow> string \<Rightarrow> db \<Rightarrow> db" where
  "mark_notice now tenant w x status run error s =
     set_notice (\<lambda>l. notice_row_key l = item_key tenant w x)
       (\<lambda>l. l\<lparr>el_status := status, el_run := run, el_error := take 200 error, el_updated := now\<rparr>) s"

fun mark_items ::
  "int \<Rightarrow> string \<Rightarrow> watch_row \<Rightarrow> notice_status \<Rightarrow> string \<Rightarrow> string \<Rightarrow> notice_item list \<Rightarrow> db \<Rightarrow> db" where
  "mark_items now tenant w status run error [] s = s"
| "mark_items now tenant w status run error (x # xs) s =
     mark_items now tenant w status run error xs (mark_notice now tenant w x status run error s)"

definition advance_watch :: "int \<Rightarrow> string \<Rightarrow> watch_row \<Rightarrow> db \<Rightarrow> db" where
  "advance_watch now tenant w s =
     set_watch tenant (ec_id w) (\<lambda>r. r\<lparr>ec_next := now + ec_interval w, ec_last := now\<rparr>) s"

definition stop_watch :: "int \<Rightarrow> string \<Rightarrow> watch_row \<Rightarrow> string \<Rightarrow> db \<Rightarrow> db" where
  "stop_watch now tenant w reason s =
     audit now tenant [] ''escalation.disabled'' ''escalation-loop''
       [(''schedule'', JStr (ec_id w)), (''reason'', JStr reason)]
       (set_watch tenant (ec_id w) (\<lambda>r. r\<lparr>ec_enabled := False\<rparr>) s)"

section \<open>Reading\<close>

type_synonym register_reader = "string \<Rightarrow> string \<Rightarrow> fields \<Rightarrow> string \<Rightarrow> fields res"

text \<open>\<^verbatim>\<open>int(v or 0)\<close>.\<close>

definition count_text :: "string \<Rightarrow> int option" where
  "count_text s = (let t = py_strip s; b = (if t \<noteq> [] \<and> hd t \<in> {CHR ''-'', CHR ''+''} then tl t else t) in
     if b = [] \<or> \<not> list_all (\<lambda>c. is_digit c \<or> c = CHR ''_'') b \<or> hd b = CHR ''_'' \<or> last b = CHR ''_''
        \<or> py_contains ''__'' b then None
     else Some ((if hd t = CHR ''-'' then - 1 else 1) * int (digits_value (filter is_digit b))))"

definition count_of :: "json \<Rightarrow> int res" where
  "count_of v = (if \<not> truthy v then Inr 0 else case v of
      JInt n \<Rightarrow> Inr n
    | JBool _ \<Rightarrow> Inr 1
    | JStr t \<Rightarrow> (case count_text t of None \<Rightarrow> raise ValueError ''invalid literal for int()'' | Some n \<Rightarrow> Inr n)
    | JFloat (Fin r _) \<Rightarrow> Inr (if r < 0 then \<lceil>r\<rceil> else \<lfloor>r\<rfloor>)
    | JFloat NaN \<Rightarrow> raise ValueError ''cannot convert float NaN to integer''
    | JFloat _ \<Rightarrow> raise (OtherError ''OverflowError'') ''cannot convert float infinity to integer''
    | _ \<Rightarrow> raise TypeError ''int() argument must be a string, a bytes-like object or a real number'')"

definition item_text :: "fields \<Rightarrow> string \<Rightarrow> nat \<Rightarrow> string" where
  "item_text d name maximum = take maximum (py_str (or_else (jget d name) (JStr [])))"

text \<open>The rows of a telephony queue that may be called, and the counts that travel with them.\<close>

definition telephony_row :: "json \<Rightarrow> json list" where
  "telephony_row v = (case v of
      JObj d \<Rightarrow> (let number = item_text d ''number'' 20 in
        if number = [] \<or> \<not> truthy (jget d ''consented'') then []
        else [JObj [(''person'', JStr number), (''name'', JStr number),
          (''task'', JStr (item_text d ''purpose'' 40)), (''due'', JStr (item_text d ''due_day'' 40)),
          (''status'', JStr ''callable'')]])
    | _ \<Rightarrow> [])"

definition telephony_items :: "fields \<Rightarrow> (json list \<times> fields) res" where
  "telephony_items result = (case jget result ''items'' of
      JList xs \<Rightarrow>
        bindr (count_of (jget result ''blocked_count'')) (\<lambda>blocked.
        bindr (count_of (jget result ''over_capacity'')) (\<lambda>over.
        bindr (count_of (jget result ''capacity'')) (\<lambda>capacity.
        bindr (count_of (jget result ''callable_count'')) (\<lambda>callable.
          Inr (concat (map telephony_row xs),
            [(''blocked_count'', JInt blocked), (''over_capacity'', JInt over), (''capacity'', JInt capacity),
             (''callable_count'', JInt callable), (''truncated'', JBool (truthy (jget result ''truncated'')))])))))
    | _ \<Rightarrow> raise Conflict ''Telephony queue returned an unexpected shape'')"

definition read_overdue :: "env \<Rightarrow> register_reader \<Rightarrow> watch_row \<Rightarrow> (json list \<times> fields) res" where
  "read_overdue e rd w = (let source = (if ec_source w = [] then ''workforce'' else ec_source w) in
     case map_of SOURCE_TOOLS source of
       None \<Rightarrow> raise Conflict (''Escalation source '' @ repr_str source @ '' has no register_reader'')
     | Some name \<Rightarrow> bindr (registry_get (reg e) (JStr name)) (\<lambda>tool.
         let args = (if source = ''telephony'' then [(''limit'', JInt (ec_per_cycle w))]
           else [(''limit'', JInt MAX_OVERDUE), (''overdue_limit'', JInt (ec_per_cycle w))]) in
         bindr (validate_schema (JObj args) (tl_schema tool) 0) (\<lambda>_.
         bindr (rd name (ec_agent w) args (''escalation:'' @ ec_id w)) (\<lambda>result.
           if source = ''telephony'' then telephony_items result
           else case jget result ''overdue'' of
               JList xs \<Rightarrow> Inr (xs, [])
             | _ \<Rightarrow> raise Conflict ''Workload feed returned an unexpected shape''))))"

text \<open>\<^verbatim>\<open>_is_stale\<close>: only a real ISO date ages.\<close>

definition is_stale :: "string \<Rightarrow> int \<Rightarrow> int \<Rightarrow> bool" where
  "is_stale due now max_age =
     (let text = py_strip due; day = take 10 text in
      due \<noteq> [] \<and> is_ascii_digit_run (filter (\<lambda>c. c \<noteq> CHR ''-'') day)
      \<and> (case date_groups ISO_DATE day of
          None \<Rightarrow> False
        | Some (y, m, d) \<Rightarrow> calendar_date y m d \<and> now - day_number (int y) (int m) (int d) * 86400 > max_age * 86400))"

definition notice_item_of :: "fields \<Rightarrow> notice_item" where
  "notice_item_of d = \<lparr>nt_person = item_text d ''person'' 64, nt_name = item_text d ''name'' 120,
     nt_task = item_text d ''task'' 120, nt_due = item_text d ''due'' 40, nt_status = item_text d ''status'' 40\<rparr>"

fun collect_items :: "bool \<Rightarrow> int \<Rightarrow> int \<Rightarrow> json list \<Rightarrow> notice_item list \<times> nat" where
  "collect_items ages now max_age [] = ([], 0)"
| "collect_items ages now max_age (v # vs) = (case collect_items ages now max_age vs of (xs, n) \<Rightarrow>
     (case v of
        JObj d \<Rightarrow> (let x = notice_item_of d in
          if nt_person x = [] \<or> nt_task x = [] then (xs, n)
          else if ages \<and> is_stale (nt_due x) now max_age then (xs, Suc n)
          else (x # xs, n))
      | _ \<Rightarrow> (xs, n)))"

definition overdue_items ::
  "env \<Rightarrow> register_reader \<Rightarrow> int \<Rightarrow> watch_row \<Rightarrow> (notice_item list \<times> nat \<times> fields) res" where
  "overdue_items e rd now w = bindr (read_overdue e rd w) (\<lambda>(rows, meta).
     case collect_items (ec_source w \<in> {[], ''workforce''}) now (ec_max_age w) rows of
       (xs, stale) \<Rightarrow> Inr (xs, stale, meta))"

section \<open>The digest and its delivery\<close>

definition digest_line :: "nat \<Rightarrow> notice_item \<Rightarrow> string" where
  "digest_line i x = (let shown = (\<lambda>t u. if t \<noteq> [] then t else u) in
     show_nat i @ ''. '' @ shown (nt_name x) (shown (nt_person x) ''-'') @ '' '' @ [sub_char] @ '' ''
       @ shown (nt_task x) ''-'' @ '' (muddat: '' @ shown (nt_due x) ''-'' @ '', holat: ''
       @ shown (nt_status x) ''-'' @ '')'')"

definition digest_meta :: "fields \<Rightarrow> string list" where
  "digest_meta meta = (let q = [sub_char] in
     (if truthy (jget meta ''blocked_count'')
      then [''Rozilik darvozasi rad etgan raqamlar: '' @ py_str (jget meta ''blocked_count'') @ '' '' @ q
        @ '' qo'' @ q @ ''ng'' @ q @ ''iroq qilinmaydi''] else [])
     @ (if truthy (jget meta ''over_capacity'')
      then [''E'' @ q @ ''lon qilingan sur'' @ q @ ''atdan ortiq (bajarilmaydi): '' @ py_str (jget meta ''over_capacity'')
        @ '' '' @ q @ '' sig'' @ q @ ''im '' @ py_str (jget_or meta ''capacity'' (JInt 0))] else [])
     @ (if truthy (jget meta ''truncated'')
      then [''Ro'' @ q @ ''yxat to'' @ q @ ''liq emas (truncated) '' @ q @ '' bu qism, hammasi emas''] else []))"

definition digest_text :: "watch_row \<Rightarrow> notice_item list \<Rightarrow> nat \<Rightarrow> fields \<Rightarrow> int \<Rightarrow> string" where
  "digest_text w xs stale meta now = (let q = [sub_char]; shown = take MAX_DIGEST_LINES xs in
     take 4000 (py_join newline
       ([if ec_title w \<noteq> [] then ec_title w else ''Kechikkan ish eskalatsiyasi '' @ q @ '' '' @ ec_id w, []]
        @ map (\<lambda>(i, x). digest_line i x) (zip [1..<Suc (length shown)] shown)
        @ (if length xs > length shown
           then [q @ '' va yana '' @ show_nat (length xs - length shown) @ '' ta yozuv''] else [])
        @ [[], ''Jami kechikkan: '' @ show_nat (length xs)]
        @ digest_meta meta
        @ (if stale > 0
           then [''Eslatish muddati o'' @ q @ ''tgan (juda eski) yozuvlar: '' @ show_nat stale @ '' '' @ q
             @ '' bu yozuv yana alohida yuborilmaydi''] else [])
        @ [''Tayyorlandi: '' @ utc_day now, [],
           ''Bu faktlar ro'' @ q @ ''yxati '' @ q @ '' platforma xodimni baholamaydi va jazolash qarori qabul qilmaydi. Qaror menejerniki.''])))"

definition batch_text :: "notice_item list \<Rightarrow> string" where
  "batch_text xs = ''['' @ py_join '', ''
     (map (\<lambda>(person, task, due). ''['' @ py_join '', '' (map quote [person, task, due]) @ '']'')
       (sort (map (\<lambda>x. (nt_person x, nt_task x, nt_due x)) xs))) @ '']''"

definition delivery_key :: "env \<Rightarrow> watch_row \<Rightarrow> notice_item list \<Rightarrow> int \<Rightarrow> string" where
  "delivery_key e w xs now =
     ''escalation:'' @ ec_id w @ '':'' @ utc_day now @ '':'' @ take 16 (sha256hex e (batch_text xs))"

definition delivery_plan :: "watch_row \<Rightarrow> string \<Rightarrow> json" where
  "delivery_plan w text = JList [JObj [(''tool'', JStr ''telegram.send''),
     (''args'', JObj [(''conversation_id'', JStr (ec_recipient w)), (''text'', JStr text)])]]"

text \<open>\<^verbatim>\<open>_deliver\<close>: \<open>now\<close> names the day, \<open>later\<close> is the clock of the submission.\<close>

definition deliver ::
  "env \<Rightarrow> int \<Rightarrow> int \<Rightarrow> string \<Rightarrow> watch_row \<Rightarrow> string \<Rightarrow> notice_item list \<Rightarrow> db \<Rightarrow> (string \<times> db) res" where
  "deliver e now later tenant w text xs s = (let key = delivery_key e w xs now in
     case submit e later tenant DELIVERY_CHANNEL key (ec_agent w) (delivery_plan w text) (ec_actor w) s of
       Inr r \<Rightarrow> Inr r
     | Inl x \<Rightarrow>
         if catches [Conflict] x
         then (case find_task s tenant DELIVERY_CHANNEL key of None \<Rightarrow> Inl x | Some t \<Rightarrow> Inr (t_id t, s))
         else Inl x)"

section \<open>Verdicts\<close>

definition notice_task :: "db \<Rightarrow> notice_row \<Rightarrow> task_row option" where
  "notice_task s l = find (\<lambda>t. t_id t = el_run l \<and> t_tenant t = el_tenant l) (tasks s)"

definition handed_over :: "db \<Rightarrow> string \<Rightarrow> string \<Rightarrow> string \<Rightarrow> notice_row \<Rightarrow> bool" where
  "handed_over s tenant schedule run l \<longleftrightarrow> el_tenant l = tenant \<and> el_schedule l = schedule
     \<and> el_run l = run \<and> el_status l = EsSubmitted"

text \<open>The submitted rows with their tasks, grouped by schedule and task.\<close>

record batch =
  ba_schedule :: string
  ba_run :: string
  ba_status :: status
  ba_items :: nat

definition submitted_batches :: "db \<Rightarrow> string \<Rightarrow> batch list" where
  "submitted_batches s tenant = concat (map (\<lambda>(schedule, run).
     case find (\<lambda>t. t_id t = run \<and> t_tenant t = tenant) (tasks s) of
       None \<Rightarrow> []
     | Some t \<Rightarrow> [\<lparr>ba_schedule = schedule, ba_run = run, ba_status = t_status t,
         ba_items = length (filter (handed_over s tenant schedule run) (notices s))\<rparr>])
     (sort (remdups (map (\<lambda>l. (el_schedule l, el_run l))
       (filter (\<lambda>l. el_tenant l = tenant \<and> el_status l = EsSubmitted) (notices s))))))"

definition settle_batch :: "int \<Rightarrow> string \<Rightarrow> batch \<Rightarrow> db \<Rightarrow> db" where
  "settle_batch now tenant b s = (case task_to_ledger (ba_status b) of
      None \<Rightarrow> s
    | Some v \<Rightarrow> audit now tenant [] (''escalation.'' @ verdict_name v) ''escalation-loop''
        [(''schedule'', JStr (ba_schedule b)), (''task'', JStr (ba_run b)), (''items'', JInt (int (ba_items b)))]
        (set_notice (handed_over s tenant (ba_schedule b) (ba_run b)) (\<lambda>l. l\<lparr>el_status := v, el_updated := now\<rparr>) s))"

fun settle_batches :: "int \<Rightarrow> string \<Rightarrow> batch list \<Rightarrow> db \<Rightarrow> db" where
  "settle_batches now tenant [] s = s"
| "settle_batches now tenant (b # bs) s = settle_batches now tenant bs (settle_batch now tenant b s)"

definition settle_notices :: "int \<Rightarrow> string \<Rightarrow> db \<Rightarrow> db" where
  "settle_notices now tenant s = settle_batches now tenant (submitted_batches s tenant) s"

section \<open>A cycle\<close>

text \<open>The claims of one cycle; \<open>room\<close> is what the schedule still allows.\<close>

fun claim_items ::
  "string \<Rightarrow> watch_row \<Rightarrow> int \<Rightarrow> int \<Rightarrow> notice_item list \<Rightarrow> db \<Rightarrow> notice_item list \<times> db" where
  "claim_items tenant w now room [] s = ([], s)"
| "claim_items tenant w now room (x # xs) s = (case claim_notice tenant w x now s of
      (None, t) \<Rightarrow> claim_items tenant w now room xs t
    | (Some _, t) \<Rightarrow>
        if room \<le> 1 then ([x], t)
        else (case claim_items tenant w now (room - 1) xs t of (ys, u) \<Rightarrow> (x # ys, u)))"

definition watch_due :: "int \<Rightarrow> string \<Rightarrow> db \<Rightarrow> watch_row option" where
  "watch_due now tenant s = (case sort_key ec_next (sort_key ec_id
       (filter (\<lambda>r. ec_tenant r = tenant \<and> ec_enabled r \<and> ec_next r \<le> now) (watches s))) of
     [] \<Rightarrow> None | r # _ \<Rightarrow> Some r)"

text \<open>What becomes of a claimed batch: handed over, or refused.\<close>

definition report_items ::
  "env \<Rightarrow> int \<Rightarrow> int \<Rightarrow> string \<Rightarrow> watch_row \<Rightarrow> nat \<times> nat \<times> fields \<Rightarrow> notice_item list \<Rightarrow> db \<Rightarrow> db" where
  "report_items e now later tenant w facts xs s = (case facts of (seen, stale, meta) \<Rightarrow>
     (case deliver e now later tenant w (digest_text w xs stale meta now) xs s of
        Inr (task, t) \<Rightarrow> advance_watch now tenant w
          (audit later tenant [] ''escalation.submitted'' ''escalation-loop''
            [(''schedule'', JStr (ec_id w)), (''recipient'', JStr (ec_recipient w)), (''task'', JStr task),
             (''items'', JInt (int (length xs))), (''seen'', JInt (int seen)), (''stale'', JInt (int stale))]
            (mark_items later tenant w EsSubmitted task [] xs t))
      | Inl x \<Rightarrow> (let t = mark_items later tenant w EsFailed [] (exn_name (exn_class_of x)) xs s in
          if catches [Forbidden] x
          then stop_watch later tenant w (''delivery_denied:'' @ exn_name (exn_class_of x)) t
          else advance_watch now tenant w
            (audit later tenant [] ''escalation.delivery_failed'' ''escalation-loop''
              [(''schedule'', JStr (ec_id w)), (''error'', JStr (exn_name (exn_class_of x)))] t))))"

definition watch_cycle ::
  "env \<Rightarrow> register_reader \<Rightarrow> int \<times> int \<times> int \<Rightarrow> string \<Rightarrow> watch_row \<Rightarrow> db \<Rightarrow> bool res \<times> db" where
  "watch_cycle e rd stamps tenant w s = (case stamps of (n1, n2, n3) \<Rightarrow>
     (case bindr (require_active e s tenant) (\<lambda>_. require_authority e tenant ''cron'' (ec_actor w) [''owner'']) of
        Inl x \<Rightarrow> if catches [Forbidden] x then (Inr True, stop_watch n1 tenant w ''authority_revoked'' s)
          else (Inl x, s)
      | Inr _ \<Rightarrow> (case overdue_items e rd n1 w of
          Inl x \<Rightarrow>
            if catches [Forbidden] x
              then (Inr True, stop_watch n1 tenant w (''read_denied:'' @ exn_name (exn_class_of x)) s)
            else (Inr True, advance_watch n1 tenant w
                (audit n1 tenant [] ''escalation.cycle_failed'' ''escalation-loop''
                  [(''schedule'', JStr (ec_id w)), (''error'', JStr (exn_name (exn_class_of x)))] s))
        | Inr (xs, stale, meta) \<Rightarrow> (case claim_items tenant w n2 (ec_per_cycle w) xs s of (claimed, t) \<Rightarrow>
            if claimed = []
            then (Inr True, advance_watch n2 tenant w
              (audit n3 tenant [] ''escalation.cycle'' ''escalation-loop''
                [(''schedule'', JStr (ec_id w)), (''seen'', JInt (int (length xs))), (''sent'', JInt 0),
                 (''stale'', JInt (int stale))] t))
            else (Inr True, report_items e n2 n3 tenant w (length xs, stale, meta) claimed t)))))"

definition watch_tick ::
  "env \<Rightarrow> register_reader \<Rightarrow> int \<times> int \<times> int \<Rightarrow> string \<Rightarrow> db \<Rightarrow> bool res \<times> db" where
  "watch_tick e rd stamps tenant s = (let t = settle_notices (fst stamps) tenant s in
     if frozen t tenant then (Inr False, t)
     else (case watch_due (fst stamps) tenant t of
         None \<Rightarrow> (Inr False, t)
       | Some w \<Rightarrow> watch_cycle e rd stamps tenant w t))"

section \<open>The two read tools\<close>

definition preview_watch :: "string \<Rightarrow> string \<Rightarrow> string \<Rightarrow> fields \<Rightarrow> watch_row" where
  "preview_watch tenant agent source args = (let number = (\<lambda>v. case v of JInt n \<Rightarrow> n | _ \<Rightarrow> 0) in
     \<lparr>ec_tenant = tenant, ec_id = ''preview'', ec_actor = [], ec_agent = agent,
      ec_recipient = the_str (jget_or args ''recipient'' (JStr [])), ec_title = [], ec_source = source,
      ec_cooldown = 0, ec_per_cycle = number (jget_or args ''limit'' (JInt 10)), ec_interval = 0,
      ec_max_age = number (jget_or args ''max_age_days'' (JInt 30)), ec_enabled = False, ec_next = 0, ec_last = 0\<rparr>)"

definition item_json :: "notice_item \<Rightarrow> json" where
  "item_json x = JObj [(''person'', JStr (nt_person x)), (''name'', JStr (nt_name x)), (''task'', JStr (nt_task x)),
     (''due'', JStr (nt_due x)), (''status'', JStr (nt_status x))]"

definition preview_tool :: "env \<Rightarrow> register_reader \<Rightarrow> int \<Rightarrow> string \<Rightarrow> string \<Rightarrow> fields \<Rightarrow> fields res" where
  "preview_tool e rd now tenant agent args =
     (let source = casefold (py_strip (py_str (or_else (jget args ''source'') (JStr ''workforce'')))) in
      if source \<notin> set WATCH_SOURCES
        then raise Forbidden (''Unknown escalation source '' @ repr_str source @ ''; must be one of ['workforce', 'telephony']'')
      else bindr (overdue_items e rd now (preview_watch tenant agent source args)) (\<lambda>(xs, stale, _).
        Inr [(''tenant'', JStr tenant), (''source'', JStr source), (''overdue_count'', JInt (int (length xs))),
          (''stale_count'', JInt (int stale)), (''items'', JList (map item_json (take (nat MAX_OVERDUE) xs))),
          (''note'', JStr (''Bu faqat ko'' @ [sub_char] @ ''rish '' @ [sub_char] @ '' hech qanday xabar yuborilmadi.''))]))"

definition watch_json :: "watch_row \<Rightarrow> json" where
  "watch_json r = JObj [(''tenant'', JStr (ec_tenant r)), (''id'', JStr (ec_id r)), (''actor'', JStr (ec_actor r)),
     (''agent'', JStr (ec_agent r)), (''recipient'', JStr (ec_recipient r)), (''title'', JStr (ec_title r)),
     (''source'', JStr (ec_source r)), (''cooldown_seconds'', JInt (ec_cooldown r)),
     (''max_per_cycle'', JInt (ec_per_cycle r)), (''interval_seconds'', JInt (ec_interval r)),
     (''max_age_days'', JInt (ec_max_age r)), (''enabled'', JInt (if ec_enabled r then 1 else 0)),
     (''next_due'', JInt (ec_next r)), (''last_run'', JInt (ec_last r))]"

definition schedules_tool :: "string \<Rightarrow> db \<Rightarrow> fields" where
  "schedules_tool tenant s =
     [(''tenant'', JStr tenant), (''schedules'', JList (map watch_json (watches_of s tenant)))]"

end
