(* ===== verification/Escalation_Props.thy ===== *)
theory Escalation_Props
  imports Escalation Engine_Promises Demo_Env "HOL-Library.Multiset"
begin

text \<open>
  What escalation promises: an item that was reported, or may have been, is never reported again; a tick
  can only send to the manager its owner declared; a register that cannot be read is not an empty one;
  one batch is one task.
\<close>

section \<open>Rows\<close>




lemma audit_watch [simp]:
  "notices (audit now t k a u d s) = notices s" "watches (audit now t k a u d s) = watches s"
  by (simp_all add: audit_def)

lemma set_watch_frames [simp]: "notices (set_watch tenant i f s) = notices s" "tasks (set_watch tenant i f s) = tasks s"
  "steps (set_watch tenant i f s) = steps s" "audits (set_watch tenant i f s) = audits s"
  by (simp_all add: set_watch_def)

lemma set_notice_frames [simp]: "watches (set_notice P f s) = watches s" "tasks (set_notice P f s) = tasks s"
  "steps (set_notice P f s) = steps s" "audits (set_notice P f s) = audits s"
  by (simp_all add: set_notice_def)

definition notices_ok :: "db \<Rightarrow> bool" where
  "notices_ok s \<longleftrightarrow> distinct (map notice_row_key (notices s))"

lemma notices_ok_set:
  "notices_ok s \<Longrightarrow> (\<And>l. notice_row_key (f l) = notice_row_key l) \<Longrightarrow> notices_ok (set_notice P f s)"
  by (simp add: notices_ok_def set_notice_def map_upd_where)

lemma notices_ok_cong: "notices t = notices s \<Longrightarrow> notices_ok t = notices_ok s"
  by (simp add: notices_ok_def)

lemma row_keys [simp]:
  "notice_row_key (l\<lparr>el_status := st\<rparr>) = notice_row_key l" "notice_row_key (l\<lparr>el_updated := n\<rparr>) = notice_row_key l"
  "notice_row_key (l\<lparr>el_error := x\<rparr>) = notice_row_key l" "notice_row_key (l\<lparr>el_run := r\<rparr>) = notice_row_key l"
  "notice_row_key (l\<lparr>el_attempt := a\<rparr>) = notice_row_key l" "notice_row_key (l\<lparr>el_last := n\<rparr>) = notice_row_key l"
  by (simp_all add: notice_row_key_def)

lemma new_notice_key [simp]: "notice_row_key (new_notice k now) = k"
  by (cases k) (simp add: new_notice_def notice_row_key_def)

section \<open>What a verdict changes\<close>






lemma settle_batch_frames [simp]:
  "watches (settle_batch now tenant b s) = watches s" "tasks (settle_batch now tenant b s) = tasks s"
  "steps (settle_batch now tenant b s) = steps s"
  by (auto simp: settle_batch_def audit_def split: option.splits)




lemma settle_batches_frames [simp]:
  "watches (settle_batches now tenant bs s) = watches s" "tasks (settle_batches now tenant bs s) = tasks s"
  "steps (settle_batches now tenant bs s) = steps s"
  by (induction bs arbitrary: s) auto





lemma settle_notices_frames [simp]:
  "watches (settle_notices now tenant s) = watches s" "tasks (settle_notices now tenant s) = tasks s"
  "steps (settle_notices now tenant s) = steps s"
  by (simp_all add: settle_notices_def)

section \<open>What a claim changes\<close>

definition open_row :: "notice_row \<Rightarrow> bool" where
  "open_row l \<longleftrightarrow> el_status l = EsQueued \<or> (el_status l = EsFailed \<and> el_attempt l < MAX_DELIVERY_ATTEMPTS)"

text \<open>A row that is left alone, but for the marker of its exhaustion.\<close>

definition resting :: "notice_row \<Rightarrow> notice_row \<Rightarrow> bool" where
  "resting l m \<longleftrightarrow> m = l \<or> (el_status l = EsFailed \<and> el_attempt l \<ge> MAX_DELIVERY_ATTEMPTS
     \<and> (\<exists>now. m = l\<lparr>el_error := EXHAUSTED, el_updated := now\<rparr>))"

lemma resting_refl [simp]: "resting l l"
  by (simp add: resting_def)



lemma notice_row_single:
  assumes "notices_ok s" "find_notice s k = Some row"
  shows "filter (\<lambda>l. notice_row_key l = k \<and> el_last l = el_last row) (notices s) = [row]"
proof -
  have row: "row \<in> set (notices s)" "notice_row_key row = k"
    using assms(2) by (auto simp: find_notice_def dest!: find_Some_mem)
  have "filter (\<lambda>l. notice_row_key l = notice_row_key row) (notices s) = [row]"
    by (rule filter_key_single[OF _ row(1)]) (use assms(1) in \<open>simp add: notices_ok_def\<close>)
  then have "filter (\<lambda>l. el_last l = el_last row) (filter (\<lambda>l. notice_row_key l = k) (notices s)) = [row]"
    using row(2) by simp
  then show ?thesis by (simp add: conj_commute)
qed

lemma exhausted_frames [simp]:
  "watches (mark_exhausted tenant w x row now s) = watches s" "tasks (mark_exhausted tenant w x row now s) = tasks s"
  "steps (mark_exhausted tenant w x row now s) = steps s"
  by (simp_all add: mark_exhausted_def Let_def audit_def)


lemma exhausted_ok: "notices_ok s \<Longrightarrow> notices_ok (mark_exhausted tenant w x row now s)"
  by (auto simp: mark_exhausted_def Let_def notices_ok_set notices_ok_cong[OF audit_watch(1)])
lemma claim_frames [simp]:
  "watches (snd (claim_notice tenant w x now s)) = watches s" "tasks (snd (claim_notice tenant w x now s)) = tasks s"
  "steps (snd (claim_notice tenant w x now s)) = steps s"
  by (auto simp: claim_notice_def Let_def split: option.splits)

lemma claim_ok: "notices_ok s \<Longrightarrow> notices_ok (snd (claim_notice tenant w x now s))"
proof (cases "find_notice s (item_key tenant w x)")
  case None
  then have "item_key tenant w x \<notin> notice_row_key ` set (notices s)"
    by (auto simp: find_notice_def find_None_mem)
  then show "notices_ok s \<Longrightarrow> ?thesis" using None by (simp add: claim_notice_def Let_def notices_ok_def)
next
  case (Some row)
  then show "notices_ok s \<Longrightarrow> ?thesis"
    by (auto simp: claim_notice_def Let_def exhausted_ok intro: notices_ok_set)
qed




text \<open>What the claims of a cycle leave of a row: it rests, or it was open and is now queued.\<close>

definition after_claims :: "notice_row option \<Rightarrow> notice_row option \<Rightarrow> bool \<Rightarrow> bool" where
  "after_claims old new claimed \<longleftrightarrow>
     (if claimed then (case old of None \<Rightarrow> True | Some l \<Rightarrow> open_row l)
        \<and> (\<exists>m. new = Some m \<and> el_status m = EsQueued \<and> el_run m = [])
      else (case old of None \<Rightarrow> new = None | Some l \<Rightarrow> \<exists>m. new = Some m \<and> resting l m))"

lemma after_claims_refl [simp]: "after_claims x x False"
  by (cases x) (simp_all add: after_claims_def)





section \<open>What a cycle changes\<close>

lemma mark_items_frames [simp]:
  "watches (mark_items now tenant w st run x xs s) = watches s" "tasks (mark_items now tenant w st run x xs s) = tasks s"
  "steps (mark_items now tenant w st run x xs s) = steps s" "audits (mark_items now tenant w st run x xs s) = audits s"
  by (induction xs arbitrary: s) (simp_all add: mark_notice_def)





lemma watch_rows_frames [simp]:
  "notices (advance_watch now tenant w s) = notices s" "tasks (advance_watch now tenant w s) = tasks s"
  "steps (advance_watch now tenant w s) = steps s" "notices (stop_watch now tenant w x s) = notices s"
  "tasks (stop_watch now tenant w x s) = tasks s" "steps (stop_watch now tenant w x s) = steps s"
  by (simp_all add: advance_watch_def stop_watch_def audit_def)

lemma find_notice_frames [simp]:
  "find_notice (advance_watch now tenant w s) k = find_notice s k"
  "find_notice (stop_watch now tenant w x s) k = find_notice s k"
  "find_notice (audit now tn tk a u d s) k = find_notice s k"
  by (simp_all add: find_notice_def)




section \<open>What one step changes\<close>





lemma set_watch_ok: "notices t = notices s \<Longrightarrow> notices_ok s \<Longrightarrow> notices_ok t"
  by (simp add: notices_ok_def)









section \<open>Who is told\<close>






lemma settle_frozen [simp]: "frozen (settle_notices now tenant s) u = frozen s u"
proof -
  have "freezes (settle_batch now tenant b s) = freezes s" for b s
    by (auto simp: settle_batch_def audit_def set_notice_def split: option.splits)
  then have "freezes (settle_batches now tenant bs s) = freezes s" for bs
    by (induction bs arbitrary: s) simp_all
  then show ?thesis by (simp add: settle_notices_def frozen_def)
qed


section \<open>A register that cannot be read\<close>

text \<open>
  A register that cannot be read is not an empty one. Whatever the read raises, no row of the ledger
  changes and no task is made; a read that is forbidden disables the schedule with the reason in the audit,
  and any other failure is audited and tried again one interval later.
\<close>

theorem unreadable_register_reports_nothing:
  assumes "overdue_items e rd n1 w = Inl x" and "watch_cycle e rd (n1, n2, n3) tenant w s = (res, t)"
  shows "notices t = notices s \<and> tasks t = tasks s \<and> steps t = steps s
    \<and> (require_active e s tenant = Inr () \<and> require_authority e tenant ''cron'' (ec_actor w) [''owner''] = Inr ()
       \<longrightarrow> res = Inr True
         \<and> (if catches [Forbidden] x
            then watches t = upd_where (is_watch tenant (ec_id w)) (\<lambda>r. r\<lparr>ec_enabled := False\<rparr>) (watches s)
              \<and> map u_action (audits t) = map u_action (audits s) @ [''escalation.disabled'']
            else watches t = upd_where (is_watch tenant (ec_id w))
                (\<lambda>r. r\<lparr>ec_next := n1 + ec_interval w, ec_last := n1\<rparr>) (watches s)
              \<and> map u_action (audits t) = map u_action (audits s) @ [''escalation.cycle_failed'']))"
proof -
  have "notices t = notices s \<and> tasks t = tasks s \<and> steps t = steps s"
    using assms by (auto simp: watch_cycle_def split: sum.splits if_split_asm)
  moreover have "res = Inr True
         \<and> (if catches [Forbidden] x
            then watches t = upd_where (is_watch tenant (ec_id w)) (\<lambda>r. r\<lparr>ec_enabled := False\<rparr>) (watches s)
              \<and> map u_action (audits t) = map u_action (audits s) @ [''escalation.disabled'']
            else watches t = upd_where (is_watch tenant (ec_id w))
                (\<lambda>r. r\<lparr>ec_next := n1 + ec_interval w, ec_last := n1\<rparr>) (watches s)
              \<and> map u_action (audits t) = map u_action (audits s) @ [''escalation.cycle_failed''])"
    if "require_active e s tenant = Inr ()" "require_authority e tenant ''cron'' (ec_actor w) [''owner''] = Inr ()"
    using assms that by (auto simp: watch_cycle_def stop_watch_def advance_watch_def set_watch_def audit_def)
  ultimately show ?thesis by blast
qed

section \<open>Batches\<close>

lemma sort_mset: "mset xs = mset ys \<Longrightarrow> sort xs = sort (ys :: (string \<times> string \<times> string) list)"
  by (rule properties_for_sort) simp_all

lemma delivery_key_cong:
  assumes "mset (map (\<lambda>x. (nt_person x, nt_task x, nt_due x)) ys) = mset (map (\<lambda>x. (nt_person x, nt_task x, nt_due x)) xs)"
    and "ec_id w' = ec_id w" "utc_day n2 = utc_day n1"
  shows "delivery_key e w' ys n2 = delivery_key e w xs n1"
  using sort_mset[OF assms(1)] assms(2,3) by (simp add: delivery_key_def batch_text_def)

lemma delivered_task:
  assumes "deliver e now later tenant w text xs s = Inr (tid, t)"
  obtains tk where "find_task t tenant DELIVERY_CHANNEL (delivery_key e w xs now) = Some tk" "t_id tk = tid"
proof (cases "submit e later tenant DELIVERY_CHANNEL (delivery_key e w xs now) (ec_agent w) (delivery_plan w text) (ec_actor w) s")
  case (Inl x)
  then show ?thesis using assms that by (auto simp: deliver_def Let_def split: if_split_asm option.splits)
next
  case (Inr a)
  then have "submit e later tenant DELIVERY_CHANNEL (delivery_key e w xs now) (ec_agent w) (delivery_plan w text)
      (ec_actor w) s = Inr (tid, t)" using assms by (simp add: deliver_def Let_def)
  then obtain vs where "create_task e later tenant DELIVERY_CHANNEL (delivery_key e w xs now) (ec_agent w)
      (delivery_plan w text) (ec_actor w) vs [] s = Inr (tid, t)" by (rule submitE)
  then show ?thesis by (rule create_task_found) (rule that)
qed

text \<open>
  C40: one batch is one task. Once a batch was handed to the engine, whatever the engine does afterwards,
  handing over the same items under the same schedule on the same day answers with the same task and
  changes nothing: in whatever order the register lists them, with whatever text, whoever the schedule
  names by then, and whatever became of the task.
\<close>

theorem batch_is_one_task:
  assumes "deliver e n1 l1 tenant w text xs s = Inr (tid, t)" and "(engine_step uu)\<^sup>*\<^sup>* t v"
    and "ec_id w' = ec_id w" and "utc_day n2 = utc_day n1"
    and "mset (map (\<lambda>x. (nt_person x, nt_task x, nt_due x)) ys) = mset (map (\<lambda>x. (nt_person x, nt_task x, nt_due x)) xs)"
  shows "(\<forall>a u. deliver e n2 l2 tenant w' text' ys v = Inr (a, u) \<longrightarrow> a = tid \<and> u = v)
    \<and> (\<forall>x. deliver e n2 l2 tenant w' text' ys v = Inl x \<longrightarrow> \<not> catches [Conflict] x)"
proof -
  let ?k = "delivery_key e w xs n1"
  have key: "delivery_key e w' ys n2 = ?k" by (rule delivery_key_cong[OF assms(5,3,4)])
  obtain tk where tk: "find_task t tenant DELIVERY_CHANNEL ?k = Some tk" "t_id tk = tid"
    using assms(1) by (rule delivered_task)
  obtain tk' where tk': "find_task v tenant DELIVERY_CHANNEL ?k = Some tk'" "task_core tk' = task_core tk"
    by (rule keeps_find_task[OF engine_steps_keeps[OF assms(2)] tk(1)])
  then have id: "t_id tk' = tid" using tk(2) by (simp add: task_core_def)
  show ?thesis
  proof (cases "submit e l2 tenant DELIVERY_CHANNEL ?k (ec_agent w') (delivery_plan w' text') (ec_actor w') v")
    case (Inl x)
    then show ?thesis using tk'(1) id by (simp add: deliver_def key)
  next
    case (Inr r)
    obtain a u where r: "r = (a, u)" by (rule prod.exhaust)
    from Inr[unfolded r] obtain vs where "create_task e l2 tenant DELIVERY_CHANNEL ?k (ec_agent w')
        (delivery_plan w' text') (ec_actor w') vs [] v = Inr (a, u)" by (rule submitE)
    then have "a = tid \<and> u = v" by (cases rule: create_taskE) (use tk'(1) id in auto)
    then show ?thesis using Inr r by (simp add: deliver_def key)
  qed
qed

section \<open>What modelling showed\<close>

text \<open>
  The read returns the first rows of the register and a reported row stays in it while the work is late:
  when all of them are closed, the cycle claims nothing, whatever else is overdue.
\<close>

lemma reported_rows_block:
  "(\<And>x. x \<in> set xs \<Longrightarrow> \<exists>l. find_notice s (item_key tenant w x) = Some l \<and> el_status l \<in> {EsSent, EsSubmitted, EsUncertain}) \<Longrightarrow>
     claim_items tenant w now room xs s = ([], s)"
proof (induction xs)
  case (Cons x xs)
  obtain l where "find_notice s (item_key tenant w x) = Some l" "el_status l \<in> {EsSent, EsSubmitted, EsUncertain}"
    using Cons.prems[of x] by auto
  then have "claim_notice tenant w x now s = (None, s)" by (simp add: claim_notice_def Let_def)
  then show ?case using Cons.IH Cons.prems by simp
qed simp

text \<open>A row the register lists twice is claimed twice, and stands twice in one digest.\<close>

lemma listed_twice_claimed_twice:
  assumes "find_notice s (item_key tenant w x) = None" "notices_ok s" "1 < room"
  shows "fst (claim_items tenant w now room [x, x] s) = [x, x]"
proof -
  let ?k = "item_key tenant w x"
  let ?t = "s\<lparr>notices := notices s @ [new_notice ?k now]\<rparr>"
  have t: "claim_notice tenant w x now s = (Some 1, ?t)" using assms(1) by (simp add: claim_notice_def Let_def)
  have ok: "notices_ok ?t" using claim_ok[OF assms(2), of tenant w x now] t by simp
  have found: "find_notice ?t ?k = Some (new_notice ?k now)" using assms(1) by (simp add: find_notice_def find_append)
  have st: "el_status (new_notice ?k now) = EsQueued" by (cases ?k) (simp add: new_notice_def)
  obtain n u where "claim_notice tenant w x now ?t = (Some n, u)"
    using notice_row_single[OF ok found] by (simp add: claim_notice_def Let_def found st)
  then show ?thesis using t assms(3) by simp
qed

text \<open>
  A worker that stops between the submission and the marks leaves queued rows; they are claimed again at
  once, and a batch that has changed since, or another day, is another task for the same items.
\<close>

lemma queued_row_is_claimed_again:
  assumes "find_notice s (item_key tenant w x) = Some l" "el_status l = EsQueued" "notices_ok s"
  shows "fst (claim_notice tenant w x now s) = Some (el_attempt l + 1)"
  using assms(1,2) notice_row_single[OF assms(3,1)] by (simp add: claim_notice_def Let_def)

section \<open>A concrete schedule\<close>

definition watch_env :: env where
  "watch_env = demo_env\<lparr>reg := [demo_tool ''workforce.workload'' ''read''
       (obj_schema [(''limit'', JObj [(''type'', JStr ''integer'')]), (''overdue_limit'', JObj [(''type'', JStr ''integer'')])]
          None) False,
     demo_tool ''telegram.send'' ''write''
       (obj_schema [(''conversation_id'', string_schema 100), (''text'', string_schema 4000)]
          (Some [''conversation_id'', ''text''])) True],
     policy_of := (\<lambda>tenant agent. Inr (demo_policy\<lparr>p_tools := [''workforce.workload'', ''telegram.send'']\<rparr>))\<rparr>"

definition watch_demo_reader :: register_reader where
  "watch_demo_reader name agent args step = Inr [(''overdue'', JList [JObj [(''person'', JStr ''p1''),
     (''task'', JStr ''invoice'')]])]"

definition watch_demo_w :: watch_row where
  "watch_demo_w = \<lparr>ec_tenant = ''t'', ec_id = ''late'', ec_actor = ''boss'', ec_agent = ''a'', ec_recipient = ''chat-1'',
     ec_title = ''Late'', ec_source = ''workforce'', ec_cooldown = 86400, ec_per_cycle = 1, ec_interval = 3600,
     ec_max_age = 30, ec_enabled = True, ec_next = 3600, ec_last = 0\<rparr>"
definition watch_demo_x :: notice_item where
  "watch_demo_x = \<lparr>nt_person = ''p1'', nt_name = [], nt_task = ''invoice'', nt_due = [], nt_status = []\<rparr>"
definition watch_demo_y :: notice_item where
  "watch_demo_y = \<lparr>nt_person = ''p2'', nt_name = [], nt_task = ''visit'', nt_due = [], nt_status = []\<rparr>"
definition watch_demo_1 :: db where
  "watch_demo_1 = empty_db\<lparr>uuids := 1, watches := [watch_demo_w]\<rparr>"


lemma watch_demo_read:
  "overdue_items watch_env watch_demo_reader 5000 watch_demo_w = Inr ([watch_demo_x], 0, [])"
  "require_authority watch_env ''t'' ''cron'' (ec_actor watch_demo_w) [''owner''] = Inr ()"
  "require_active watch_env watch_demo_1 ''t'' = Inr ()"
  by code_simp+




lemma watch_demo_deliveries:
  "is_ok (deliver watch_env 5001 5002 ''t'' watch_demo_w ''a'' [watch_demo_x, watch_demo_y] watch_demo_1)"
  "is_ok (deliver watch_env 6001 6002 ''t'' watch_demo_w ''b'' [watch_demo_y, watch_demo_x]
     (ok_state (deliver watch_env 5001 5002 ''t'' watch_demo_w ''a'' [watch_demo_x, watch_demo_y] watch_demo_1)))"
  "utc_day 6001 = utc_day 5001"
  "is_ok (overdue_items watch_env (\<lambda>_ _ _ _. raise Conflict ''down'') 5000 watch_demo_w) = False"
  by code_simp+







lemma unreadable_register_reports_nothing_witness:
  "fst (watch_cycle watch_env (\<lambda>_ _ _ _. raise Conflict ''down'') (5000, 5001, 5002) ''t'' watch_demo_w watch_demo_1) = Inr True"
proof -
  let ?c = "watch_cycle watch_env (\<lambda>_ _ _ _. raise Conflict ''down'') (5000, 5001, 5002) ''t'' watch_demo_w watch_demo_1"
  obtain x where x: "overdue_items watch_env (\<lambda>_ _ _ _. raise Conflict ''down'') 5000 watch_demo_w = Inl x"
    using watch_demo_deliveries(4) by (cases "overdue_items watch_env (\<lambda>_ _ _ _. raise Conflict ''down'') 5000 watch_demo_w") auto
  have "?c = (fst ?c, snd ?c)" by simp
  from unreadable_register_reports_nothing[OF x this] watch_demo_read(2,3) show ?thesis by blast
qed

lemma batch_is_one_task_witness:
  "\<exists>tid t. deliver watch_env 5001 5002 ''t'' watch_demo_w ''a'' [watch_demo_x, watch_demo_y] watch_demo_1 = Inr (tid, t)
    \<and> deliver watch_env 6001 6002 ''t'' watch_demo_w ''b'' [watch_demo_y, watch_demo_x] t = Inr (tid, t)"
proof -
  let ?t = "ok_state (deliver watch_env 5001 5002 ''t'' watch_demo_w ''a'' [watch_demo_x, watch_demo_y] watch_demo_1)"
  obtain tid where a: "deliver watch_env 5001 5002 ''t'' watch_demo_w ''a'' [watch_demo_x, watch_demo_y] watch_demo_1 = Inr (tid, ?t)"
    using ok_stateI[OF watch_demo_deliveries(1)] by (rule exE)
  obtain b u where b: "deliver watch_env 6001 6002 ''t'' watch_demo_w ''b'' [watch_demo_y, watch_demo_x] ?t = Inr (b, u)"
    using ok_stateI[OF watch_demo_deliveries(2)] by (rule exE)
  have "mset (map (\<lambda>x. (nt_person x, nt_task x, nt_due x)) [watch_demo_y, watch_demo_x])
      = mset (map (\<lambda>x. (nt_person x, nt_task x, nt_due x)) [watch_demo_x, watch_demo_y])" by simp
  from batch_is_one_task[OF a rtranclp.rtrancl_refl refl watch_demo_deliveries(3) this, of 6002 "''b''"] b
  have "b = tid \<and> u = ?t" by blast
  then show ?thesis using a b by blast
qed

end
