(* ===== verification/Spec2Isabelle.thy ===== *)
theory Spec2Isabelle
  imports Engine_Demo Engine_Claims Engine_Props Engine_Keys Engine_Promises Engine_Inbox
    Budget_Props Metered_Call Transport_Props Model_Response Run_Props Sync_Props Ladder Supervisor_Props Conversation_Props Secret_Vault Erp_Props
    Oauth_Props Document_Props Outreach_Props Escalation_Props
begin

text \<open>
  A verification development for the agent runtime under \<^verbatim>\<open>src/api-python/platform_runtime\<close>, with the
  autonomy ladder of \<^verbatim>\<open>src/api-python/app\<close>.

  \<^bold>\<open>The program.\<close> The runtime executes plans of tool calls for tenants. An engine keeps tasks, steps
  and approvals in one SQL database and hands steps to workers under leases; an inbox turns provider
  events into plans or conversation turns; a planning loop asks a model for one decision at a time,
  with every call metered by a spending guard; a conversation loop serves one turn per customer at a
  time and sends only grounded answers; a supervisor delegates questions between sections of a tenant;
  a sync store imports provider records; supplier documents are checked, compared and proposed for
  payment, and an ERP block posts them; a re-engagement loop opens runs for stalled leads; an escalation
  loop tells a manager of overdue work; a manager of provider authorisations holds the tokens of
  external accounts; a ladder says how autonomous an agent may be; a vault seals credentials.

  \<^bold>\<open>How it is modelled.\<close> A table is a list of rows (records named after the columns, \<^verbatim>\<open>Store\<close>), the
  database a record of tables, a transaction a function from the database to a result: \<open>Inl\<close> of the
  exception raised, with its class and text, or \<open>Inr\<close> of the answer and the new database. An operation
  that commits before it raises returns both. SQL updates are \<open>upd_where\<close>; a unique index is the check
  of the insert. Times are integers given to each transaction. JSON values are \<open>json\<close> (\<^verbatim>\<open>Json\<close>),
  dictionaries association lists in insertion order, Python integers \<open>int\<close>, text a list of characters
  (code points below 256). What the source calls but does not contain is an argument: the tool
  registry, the policy and authority callables, connector bindings, SHA-256, UUIDs (record \<open>env\<close>), the
  planner, the provider, the HTTP library, AES-GCM, the process environment.

  \<^bold>\<open>Prelude.\<close> \<^verbatim>\<open>Prelude\<close> (exceptions, results, row updates, Python text), \<^verbatim>\<open>Json\<close> (values, equality,
  \<^verbatim>\<open>encode\<close>), \<^verbatim>\<open>Json_Reader\<close> (\<^verbatim>\<open>json.loads\<close> and its round trip), \<^verbatim>\<open>Codec\<close> (base64 and UTF-8 as
  interpretations of one \<open>codec\<close> interface), \<^verbatim>\<open>Regex\<close> (a backtracking matcher for the patterns of the
  source), \<^verbatim>\<open>Contracts\<close> (the interfaces \<open>write_once\<close>, \<open>lease\<close> and \<open>timed_lease\<close> the tables share),
  \<^verbatim>\<open>Store\<close> (the schema) and \<^verbatim>\<open>Demo_Env\<close> (the collaborators the witnesses use).

  \<^bold>\<open>Engine\<close> (\<^verbatim>\<open>engine.py\<close>, \<^verbatim>\<open>tools.py\<close>). \<^verbatim>\<open>Tools\<close>: argument schemas and the registry. \<^verbatim>\<open>Engine_Policy\<close>:
  what an agent may do, fingerprints, destinations. \<^verbatim>\<open>Engine_Submit\<close>: \<^verbatim>\<open>submit\<close> and approvals.
  \<^verbatim>\<open>Engine_Run\<close>: claim, expiry, heartbeat, finish, cancel, reconcile, freeze. \<^verbatim>\<open>Engine_Events\<close>: the inbox and
  the schedules. \<^verbatim>\<open>Engine_System\<close>: all of them as one step relation. \<^verbatim>\<open>Engine_Inv\<close>, \<^verbatim>\<open>Engine_Safe\<close> and
  \<^verbatim>\<open>Engine_Reach\<close> prove the invariants by rule induction; \<^verbatim>\<open>Engine_Props\<close>, \<^verbatim>\<open>Engine_Claims\<close>,
  \<^verbatim>\<open>Engine_Keys\<close>, \<^verbatim>\<open>Engine_Promises\<close> and \<^verbatim>\<open>Engine_Inbox\<close> state what follows: at most one dispatch of a
  step, approvals consumed by it, order of steps, derived task status, idempotent keys, frozen tenants,
  bound destinations, recorded outcomes.

  \<^bold>\<open>Spending guard\<close> (\<^verbatim>\<open>usage_budget.py\<close>). \<^verbatim>\<open>Usage_Budget\<close> and \<^verbatim>\<open>Budget_Ledger\<close> hold the ledger,
  \<^verbatim>\<open>Budget_System\<close> its reachable states, \<^verbatim>\<open>Budget_Props\<close> the balance of every account and the limits,
  \<^verbatim>\<open>Metered_Call\<close> one metered call with its attempts.

  \<^bold>\<open>Model and planning.\<close> \<^verbatim>\<open>Model_Transport\<close> and \<^verbatim>\<open>Transport_Props\<close> (\<^verbatim>\<open>model_transport.py\<close>: settings,
  classification of failures, at most three attempts within the deadline), \<^verbatim>\<open>Model_Response\<close>
  (\<^verbatim>\<open>model_response.py\<close>: the parsers of a decision), \<^verbatim>\<open>Agent_Loop\<close>, \<^verbatim>\<open>Run_System\<close> and \<^verbatim>\<open>Run_Props\<close>
  (\<^verbatim>\<open>agent_loop.py\<close>: runs under a lease, within their calls and steps, answering from evidence).

  \<^bold>\<open>Conversations\<close> (\<^verbatim>\<open>conversation.py\<close>, \<^verbatim>\<open>operator_reply.py\<close>). \<^verbatim>\<open>Conversation_Record\<close>: recording of turns.
  \<^verbatim>\<open>Grounding\<close>: numbers of a text and whether evidence supports them. \<^verbatim>\<open>Conversation_Text\<close>: what is said.
  \<^verbatim>\<open>Conversation_Turns\<close>: the four stages of a tick. \<^verbatim>\<open>Turn_Frames\<close> and \<^verbatim>\<open>Turn_Moves\<close>: what a stage changes,
  against the abstract machine \<open>next_status\<close>. \<^verbatim>\<open>Conversation_Props\<close>: grounded answers, one turn in hand
  per conversation, and the refinement. A tick is one atomic step.

  \<^bold>\<open>Supervisor, sync, ladder, vault.\<close> \<^verbatim>\<open>Supervisor\<close> and \<^verbatim>\<open>Supervisor_Props\<close> (\<^verbatim>\<open>supervisor.py\<close>: matching,
  hop cap, replay), \<^verbatim>\<open>Sync_Store\<close> and \<^verbatim>\<open>Sync_Props\<close> (\<^verbatim>\<open>sync_store.py\<close>: one writer, pages once, records
  forward), \<^verbatim>\<open>Ladder\<close> (\<^verbatim>\<open>app/ladder.py\<close>), \<^verbatim>\<open>Secret_Vault\<close> (\<^verbatim>\<open>secret_vault.py\<close>: the round trip).

  \<^bold>\<open>ERP postings\<close> (\<^verbatim>\<open>erp.py\<close>). \<^verbatim>\<open>Erp_Fields\<close>: the target, the checks of a document, the request body.
  \<^verbatim>\<open>Erp_Dates\<close>: an accepted date is a real day. \<^verbatim>\<open>Erp_Ledger\<close>: the table, one transaction per definition.
  \<^verbatim>\<open>Erp_Posting\<close>: \<^verbatim>\<open>submit\<close> in its phases and the tool handlers. \<^verbatim>\<open>Erp_System\<close>: every interleaving of
  them, with crashes, against the machine of one document. \<^verbatim>\<open>Erp_Props\<close>: one posting per document.

  \<^bold>\<open>Provider authorisation\<close> (\<^verbatim>\<open>oauth.py\<close>). \<^verbatim>\<open>Oauth\<close>: the transactions on flows, connections and
  revocations, and the operations that call the provider between them. \<^verbatim>\<open>Oauth_System\<close>: every
  interleaving of the transactions. \<^verbatim>\<open>Oauth_Props\<close>: a code is exchanged once, the lifecycle of a
  connection, and a revoked grant stays dead.

  \<^bold>\<open>Documents\<close> (\<^verbatim>\<open>documents.py\<close>). \<^verbatim>\<open>Documents\<close>: amounts, a normalised document, the document store.
  \<^verbatim>\<open>Document_Checks\<close>: the three-way match, duplicates, the fraud signals, the posting plan and the tools.
  \<^verbatim>\<open>Document_Props\<close>: amounts survive printing and reading, the first copy is kept, the match is exact,
  storing first changes no signal, and what a plan that is ready has passed.

  \<^bold>\<open>Re-engagement\<close> (\<^verbatim>\<open>reengagement.py\<close>). \<^verbatim>\<open>Outreach\<close>: the schedule, the ledger of leads, one cycle.
  \<^verbatim>\<open>Outreach_Props\<close>: in every interleaving of workers a lead is claimed seldom and a bounded number of
  times, runs are opened in the name of an owner who still has that authority, and a feed that cannot be
  read opens nothing.

  \<^bold>\<open>Escalation\<close> (\<^verbatim>\<open>escalation.py\<close>). \<^verbatim>\<open>Escalation\<close>: schedules, the ledger of work items, the digest, the
  handover to the engine and the verdicts read back. \<^verbatim>\<open>Escalation_Props\<close>: a reported item is not reported
  again, a tick tells the declared manager only, one batch is one task.

  \<^bold>\<open>Bounds and fuel.\<close> \<open>read_value\<close> takes the length of the text as fuel, enough because every level
  consumes a character; \<open>rounds\<close> and \<open>scan\<close> of the matcher take one round per remaining character plus
  the minimum; the retry loop counts its attempts down from three; \<open>run_schedules\<close> runs once per row
  that is due, and the proof that nothing is due afterwards shows that is enough; the claim loop runs
  over the rows waiting; every other recursion is structural.

  \<^bold>\<open>Not modelled.\<close> Connections, threads and the schema script; provider I/O (channels, telephony, Google,
  connectors, the sender of a model call); the HTTP endpoints and the identity directory, which check a
  session and call the modelled operations; read-only reports over operator configuration (inventory,
  manufacturing, briefing and their like); the shop's catalogue tools, whose results are arguments of the
  conversation; the extraction of a document's fields; the first-generation pipeline under \<^verbatim>\<open>app\<close>; user interfaces and
  scripts. Where an operation of the source runs several transactions, an interleaving between them is
  modelled for the engine, the runs, the budget, the sync store, the postings, the authorisations, the
  documents and the re-engagement ledger; a tick of the escalation loop is atomic but for a worker that
  stops after its claims, a conversation tick and a metered call are atomic.
\<close>

end
